(* ===== verification/Prelude.thy ===== *)
theory Prelude
  imports Complex_Main
    "HOL-Library.Char_ord" "HOL-Library.List_Lexorder" "HOL-Library.Product_Lexorder"
begin

text \<open>
  Vocabulary shared by all theories: Python exceptions as values, results as a sum of an
  exception and a value, instants and calendar days as integers, and generic lemmas on lists,
  stable sorting and association maps.

  Conventions. A Python \<open>str\<close> is a \<^typ>\<open>string\<close>; string comparison is the lexicographic order of
  \<open>List_Lexorder\<close>, tuple comparison the one of \<open>Product_Lexorder\<close>, exactly as in Python.
  A \<open>UUID\<close> is represented by its canonical text, so that \<open>str(u)\<close> is the identity.
  An aware \<open>datetime\<close> that went through \<open>utc\<close> is an \<open>instant\<close>: microseconds since the Unix epoch
  (the resolution of Python's \<open>datetime\<close>).  A \<open>date\<close> is the number of days since 1970-01-01 and a
  \<open>time\<close> the number of microseconds since midnight.
\<close>

subsection \<open>Exceptions as values\<close>

datatype py_error =
    ValueError string
  | KeyError string
  | RuntimeError string
  | CalendarCoverageError string
  | OverflowError
  | ZeroDivisionError
  | InvalidOperation
  | TypeError string
  | IdempotencyConflict string
  | IntegrityError string
  | CriticalWriteFailure string

type_synonym 'a result = "py_error + 'a"

fun rbind :: "'a result \<Rightarrow> ('a \<Rightarrow> 'b result) \<Rightarrow> 'b result" where
  "rbind (Inl e) f = Inl e"
| "rbind (Inr x) f = f x"

definition ensure :: "bool \<Rightarrow> py_error \<Rightarrow> unit result" where
  "ensure b e = (if b then Inr () else Inl e)"

text \<open>A comprehension whose body may raise: the first exception, in list order, wins.\<close>

fun rmap :: "('a \<Rightarrow> 'b result) \<Rightarrow> 'a list \<Rightarrow> 'b list result" where
  "rmap f [] = Inr []"
| "rmap f (x # xs) = rbind (f x) (\<lambda>y. rbind (rmap f xs) (\<lambda>ys. Inr (y # ys)))"

text \<open>\<open>str(error)\<close> for the exceptions the handlers turn into reasons.\<close>

fun str_exc :: "py_error \<Rightarrow> string" where
  "str_exc (ValueError m) = m"
| "str_exc (KeyError k) = k"
| "str_exc (RuntimeError m) = m"
| "str_exc (CalendarCoverageError m) = m"
| "str_exc OverflowError = ''overflow''"
| "str_exc ZeroDivisionError = ''float division by zero''"
| "str_exc InvalidOperation = ''decimal.InvalidOperation''"
| "str_exc (TypeError m) = m"
| "str_exc (IdempotencyConflict m) = m"
| "str_exc (IntegrityError m) = m"
| "str_exc (CriticalWriteFailure m) = m"

lemma pred_option_code [code]: "pred_option P x = (case x of None \<Rightarrow> True | Some y \<Rightarrow> P y)"
  by (cases x) simp_all

named_theorems result_simps \<open>unfolding of computations in the result type\<close>

lemma rbind_Inr_iff [result_simps]: "rbind m f = Inr y \<longleftrightarrow> (\<exists>x. m = Inr x \<and> f x = Inr y)"
  by (cases m) auto

lemma rbind_Inl_iff [result_simps]:
  "rbind m f = Inl e \<longleftrightarrow> m = Inl e \<or> (\<exists>x. m = Inr x \<and> f x = Inl e)"
  by (cases m) auto

lemma ensure_Inr_iff [result_simps]: "ensure b e = Inr u \<longleftrightarrow> b"
  by (simp add: ensure_def)

lemma ensure_Inl_iff [result_simps]: "ensure b e = Inl e' \<longleftrightarrow> \<not> b \<and> e' = e"
  by (auto simp: ensure_def)

lemma ensure_simps [simp]: "ensure True e = Inr ()" "ensure False e = Inl e"
  by (simp_all add: ensure_def)

lemma rmap_Inr_length: "rmap f xs = Inr ys \<Longrightarrow> length ys = length xs"
  by (induction xs arbitrary: ys) (auto simp: result_simps)

lemma rmap_Inr_all2: "rmap f xs = Inr ys \<Longrightarrow> list_all2 (\<lambda>x y. f x = Inr y) xs ys"
  by (induction xs arbitrary: ys) (auto simp: result_simps)

lemma rmap_Inl: "rmap f xs = Inl e \<Longrightarrow> \<exists>x\<in>set xs. f x = Inl e"
  by (induction xs) (auto simp: result_simps)

subsection \<open>Instants, days and times of day\<close>

type_synonym instant = int
type_synonym day = int
type_synonym time_of_day = int
type_synonym uuid = string

definition microseconds :: "int \<Rightarrow> int" where
  "microseconds s = s * 1000000"

definition minutes :: "int \<Rightarrow> int" where
  "minutes n = n * 60000000"

definition day_us :: int where
  "day_us = 86400000000"

text \<open>\<open>date.weekday()\<close>: Monday is 0, and 1970-01-01 was a Thursday.\<close>

definition weekday :: "day \<Rightarrow> int" where
  "weekday d = (d + 3) mod 7"

lemma weekday_range: "0 \<le> weekday d" "weekday d < 7"
  by (simp_all add: weekday_def)

text \<open>
  A Python \<open>datetime\<close> before normalisation: its wall clock in microseconds and, when it is aware,
  its UTC offset.
\<close>

datatype pydatetime = Naive int | Aware int int

fun aware :: "pydatetime \<Rightarrow> bool" where
  "aware (Naive w) = False"
| "aware (Aware w off) = True"

fun instant_of :: "pydatetime \<Rightarrow> instant" where
  "instant_of (Naive w) = w"
| "instant_of (Aware w off) = w - off"

text \<open>
  A \<open>ZoneInfo\<close> comes from the tz database, which is not part of the program: a zone is given by its
  two conversions, and \<open>fixed_zone\<close> is the zone with one constant offset (Asia/Kolkata: +05:30).
\<close>

record zone =
  to_wall :: "instant \<Rightarrow> int"
  from_wall :: "int \<Rightarrow> instant"

definition fixed_zone :: "int \<Rightarrow> zone" where
  "fixed_zone off = \<lparr>to_wall = (\<lambda>i. i + off), from_wall = (\<lambda>w. w - off)\<rparr>"

definition kolkata :: zone where
  "kolkata = fixed_zone (minutes 330)"

definition local_day :: "zone \<Rightarrow> instant \<Rightarrow> day" where
  "local_day z i = to_wall z i div day_us"

definition local_time :: "zone \<Rightarrow> instant \<Rightarrow> time_of_day" where
  "local_time z i = to_wall z i mod day_us"

text \<open>\<open>utc(datetime.combine(day, time, zone))\<close>.\<close>

definition combine :: "zone \<Rightarrow> day \<Rightarrow> time_of_day \<Rightarrow> instant" where
  "combine z d t = from_wall z (d * day_us + t)"

lemma combine_fixed: "combine (fixed_zone off) d t = d * day_us + t - off"
  by (simp add: combine_def fixed_zone_def)

lemma local_fixed_combine:
  assumes "0 \<le> t" "t < day_us"
  shows "local_day (fixed_zone off) (combine (fixed_zone off) d t) = d"
    and "local_time (fixed_zone off) (combine (fixed_zone off) d t) = t"
  using assms by (simp_all add: local_day_def local_time_def combine_def fixed_zone_def day_us_def)

subsection \<open>Lists\<close>

text \<open>Python's \<open>max(xs, key=f, default=None)\<close>: the first element with the largest key.\<close>

fun max_by :: "('a \<Rightarrow> 'k::linorder) \<Rightarrow> 'a list \<Rightarrow> 'a option" where
  "max_by f [] = None"
| "max_by f (x # xs) =
     (case max_by f xs of None \<Rightarrow> Some x | Some y \<Rightarrow> Some (if f x < f y then y else x))"

lemma max_by_None_iff [simp]: "max_by f xs = None \<longleftrightarrow> xs = []"
  by (cases xs) (auto split: option.splits)

lemma max_by_mem: "max_by f xs = Some y \<Longrightarrow> y \<in> set xs"
  by (induction xs arbitrary: y) (auto split: option.splits if_splits)

lemma max_by_ge: "max_by f xs = Some y \<Longrightarrow> x \<in> set xs \<Longrightarrow> f x \<le> f y"
proof (induction xs arbitrary: y)
  case Nil
  then show ?case by simp
next
  case (Cons a xs)
  then show ?case
    by (cases "max_by f xs") (auto split: if_splits intro: order_trans dest: Cons.IH)
qed

text \<open>A dictionary built by a comprehension: the last value of a key wins.\<close>

definition dict_of :: "('a \<Rightarrow> 'k) \<Rightarrow> 'a list \<Rightarrow> 'k \<Rightarrow> 'a option" where
  "dict_of f xs = map_of (rev (map (\<lambda>x. (f x, x)) xs))"

lemma dict_of_Some: "dict_of f xs k = Some x \<Longrightarrow> x \<in> set xs \<and> f x = k"
  by (auto simp: dict_of_def dest: map_of_SomeD)

lemma dict_of_None: "dict_of f xs k = None \<longleftrightarrow> k \<notin> f ` set xs"
  by (auto simp: dict_of_def map_of_eq_None_iff image_iff)

lemma dict_of_distinct:
  assumes "distinct (map f xs)" "x \<in> set xs"
  shows "dict_of f xs (f x) = Some x"
proof -
  have "map_of (rev (map (\<lambda>x. (f x, x)) xs)) (f x) = Some x"
    by (rule map_of_is_SomeI) (use assms in \<open>auto simp: rev_map o_def distinct_rev simp flip: rev_map\<close>)
  then show ?thesis by (simp add: dict_of_def)
qed

text \<open>Python's \<open>len({...})\<close> comparisons: a list without duplicates.\<close>

definition count_distinct :: "'a list \<Rightarrow> nat" where
  "count_distinct xs = length (remdups xs)"

lemma count_distinct_card: "count_distinct xs = card (set xs)"
  by (simp add: count_distinct_def length_remdups_card_conv)

lemma count_distinct_eq_iff: "count_distinct xs = length xs \<longleftrightarrow> distinct xs"
  by (metis card_distinct count_distinct_card distinct_card)

lemma count_distinct_le: "count_distinct xs \<le> length xs"
  by (simp add: count_distinct_card card_length)

text \<open>Python's \<open>xs[-n:]\<close> for a positive \<open>n\<close>.\<close>

definition take_last :: "nat \<Rightarrow> 'a list \<Rightarrow> 'a list" where
  "take_last n xs = drop (length xs - n) xs"

lemma length_take_last [simp]: "length (take_last n xs) = min n (length xs)"
  by (simp add: take_last_def)

lemma set_take_last: "set (take_last n xs) \<subseteq> set xs"
  by (simp add: take_last_def set_drop_subset)

lemma sorted_take_last: "sorted xs \<Longrightarrow> sorted (take_last n xs)"
  by (simp add: take_last_def sorted_wrt_drop)

subsection \<open>Text\<close>

text \<open>\<open>str(n)\<close> of an integer.\<close>

fun nat_digits :: "nat \<Rightarrow> string" where
  "nat_digits n =
     (if n < 10 then [char_of (48 + n)] else nat_digits (n div 10) @ [char_of (48 + n mod 10)])"

declare nat_digits.simps [simp del]

definition str_int :: "int \<Rightarrow> string" where
  "str_int n = (if n < 0 then ''-'' @ nat_digits (nat (- n)) else nat_digits (nat n))"

text \<open>\<open>", ".join(parts)\<close>.\<close>

fun join :: "string \<Rightarrow> string list \<Rightarrow> string" where
  "join sep [] = []"
| "join sep [x] = x"
| "join sep (x # y # ys) = x @ sep @ join sep (y # ys)"

text \<open>
  ISO 8601 text of a day and of a UTC instant (\<open>date.isoformat()\<close>, \<open>datetime.isoformat()\<close>), by the
  usual conversion of a day count to a civil date in the proleptic Gregorian calendar.
\<close>

definition civil :: "day \<Rightarrow> int \<times> int \<times> int" where
  "civil d =
     (let z = d + 719468; era = z div 146097; doe = z mod 146097;
          yoe = (doe - doe div 1460 + doe div 36524 - doe div 146096) div 365;
          doy = doe - (365 * yoe + yoe div 4 - yoe div 100);
          mp = (5 * doy + 2) div 153;
          dd = doy - (153 * mp + 2) div 5 + 1;
          mm = (if mp < 10 then mp + 3 else mp - 9)
      in (yoe + era * 400 + (if mm \<le> 2 then 1 else 0), mm, dd))"

definition zpad :: "nat \<Rightarrow> int \<Rightarrow> string" where
  "zpad n x = (let s = str_int x in replicate (n - length s) (CHR ''0'') @ s)"

definition iso_day :: "day \<Rightarrow> string" where
  "iso_day d =
     (case civil d of (y, m, dd) \<Rightarrow> zpad 4 y @ ''-'' @ zpad 2 m @ ''-'' @ zpad 2 dd)"

definition iso_instant :: "instant \<Rightarrow> string" where
  "iso_instant i =
     (let t = i mod day_us; s = t div 1000000; us = t mod 1000000
      in iso_day (i div day_us) @ ''T'' @ zpad 2 (s div 3600) @ '':'' @ zpad 2 (s div 60 mod 60)
         @ '':'' @ zpad 2 (s mod 60) @ (if us = 0 then [] else ''.'' @ zpad 6 us) @ ''+00:00'')"

lemma iso_day_example: "iso_day 20711 = ''2026-09-15''"
  by code_simp

lemma iso_instant_example: "iso_instant 1789444800000000 = ''2026-09-15T04:00:00+00:00''"
  by code_simp

subsection \<open>Zones without transitions\<close>

text \<open>
  What the session arithmetic relies on: the two conversions are inverse and keep the order, as they
  do in any zone whose offset is constant over the dates in use.
\<close>

definition zone_ok :: "zone \<Rightarrow> bool" where
  "zone_ok z \<longleftrightarrow> (\<forall>a b. a < b \<longrightarrow> from_wall z a < from_wall z b)
     \<and> (\<forall>i. from_wall z (to_wall z i) = i) \<and> (\<forall>w. to_wall z (from_wall z w) = w)"

lemma zone_ok_fixed [simp]: "zone_ok (fixed_zone off)"
  by (simp add: zone_ok_def fixed_zone_def)

lemma zone_ok_kolkata [simp]: "zone_ok kolkata"
  by (simp add: kolkata_def)

lemma zone_less: "zone_ok z \<Longrightarrow> from_wall z a < from_wall z b \<longleftrightarrow> a < b"
  unfolding zone_ok_def by (metis less_asym linorder_less_linear)

lemma zone_le: "zone_ok z \<Longrightarrow> from_wall z a \<le> from_wall z b \<longleftrightarrow> a \<le> b"
  using zone_less[of z b a] by linarith

lemma wall_split: "to_wall z i = local_day z i * day_us + local_time z i"
  by (simp add: local_day_def local_time_def)

lemma local_time_range: "0 \<le> local_time z i" "local_time z i < day_us"
  by (simp_all add: local_time_def day_us_def)

text \<open>Comparing an instant with a wall time of its own local day is comparing local times.\<close>

lemma combine_le_iff:
  assumes "zone_ok z"
  shows "combine z (local_day z i) t \<le> i \<longleftrightarrow> t \<le> local_time z i"
proof -
  have "from_wall z (to_wall z i) = i" using assms by (simp add: zone_ok_def)
  then show ?thesis
    using zone_le[OF assms, of "local_day z i * day_us + t" "to_wall z i"] wall_split[of z i]
    by (simp add: combine_def)
qed

lemma less_combine_iff:
  assumes "zone_ok z"
  shows "i < combine z (local_day z i) t \<longleftrightarrow> local_time z i < t"
  using combine_le_iff[OF assms, of i t] by linarith

lemma combine_mono: "zone_ok z \<Longrightarrow> combine z d s < combine z d t \<longleftrightarrow> s < t"
  by (simp add: combine_def zone_less)

end
