(* ===== verification/Numerics.thy ===== *)
theory Numerics
  imports Prelude "HOL-Library.Log_Nat"
begin

text \<open>
  Python's two inexact number types.  A finite \<open>float\<close> or \<open>Decimal\<close> is the rational number it
  denotes, and every arithmetic operation of the source is the exact rational operation followed by
  one rounding: \<open>fl\<close> to 53 binary digits for a \<open>float\<close>, \<open>dec\<close> to 28 decimal digits for a \<open>Decimal\<close>
  under the default context, both to the nearest, ties to even.  Exponent ranges are unbounded:
  overflow and subnormal numbers are outside the model (prices, fractions of equity and seconds stay
  far from both).  The locale \<open>rounding\<close> states what the components rely on; it is interpreted on
  both roundings at the end.
\<close>

subsection \<open>Rounding to the nearest integer and to a number of significant digits\<close>

definition round_half_even :: "rat \<Rightarrow> int" where
  "round_half_even x =
     (let f = \<lfloor>x\<rfloor>; r = x - of_int f in
      if r < 1 / 2 then f
      else if 1 / 2 < r then f + 1
      else if even f then f else f + 1)"

definition ilog :: "nat \<Rightarrow> rat \<Rightarrow> int" where
  "ilog b x =
     (let (n, d) = quotient_of x;
          e = int (floorlog b (nat n)) - int (floorlog b (nat d))
      in if (of_nat b :: rat) powi e \<le> x then e else e - 1)"

text \<open>An executable form over integers.\<close>

function int_digits :: "int \<Rightarrow> int \<Rightarrow> int" where
  "int_digits b n = (if n \<le> 0 \<or> b \<le> 1 then 0 else 1 + int_digits b (n div b))"
  by pat_completeness auto
termination
  by (relation "measure (\<lambda>(b, n). nat n)") (auto simp: int_div_less_self)

declare int_digits.simps [simp del]

lemma int_digits_floorlog: "int_digits (int b) n = int (floorlog b (nat n))"
proof (induction "int b" n rule: int_digits.induct)
  case (1 n)
  show ?case
  proof (cases "n \<le> 0 \<or> b \<le> 1")
    case True
    then show ?thesis by (subst int_digits.simps) (auto simp: floorlog_def)
  next
    case False
    then have "int_digits (int b) (n div int b) = int (floorlog b (nat (n div int b)))"
      using 1 by simp
    moreover have "nat (n div int b) = nat n div b" using False by (simp add: nat_div_distrib)
    ultimately show ?thesis
      using False by (subst int_digits.simps, subst compute_floorlog) simp
  qed
qed

lemma ilog_code [code]:
  "ilog b x =
     (let (n, d) = quotient_of x; e = int_digits (int b) n - int_digits (int b) d
      in if of_nat b powi e \<le> x then e else e - 1)"
  unfolding ilog_def int_digits_floorlog ..

definition round_sig :: "nat \<Rightarrow> nat \<Rightarrow> rat \<Rightarrow> rat" where
  "round_sig b p x =
     (if x = 0 then 0
      else let s = of_nat b powi (ilog b \<bar>x\<bar> - int p + 1)
           in of_int (round_half_even (x / s)) * s)"

definition fl :: "rat \<Rightarrow> rat" where
  "fl x = round_sig 2 53 x"

definition dec :: "rat \<Rightarrow> rat" where
  "dec x = round_sig 10 28 x"

lemma round_half_even_of_int [simp]: "round_half_even (of_int k) = k"
  by (simp add: round_half_even_def)

lemma round_half_even_bounds: "\<lfloor>x\<rfloor> \<le> round_half_even x" "round_half_even x \<le> \<lfloor>x\<rfloor> + 1"
  by (simp_all add: round_half_even_def Let_def)

lemma round_half_even_mono:
  assumes "x \<le> y"
  shows "round_half_even x \<le> round_half_even y"
proof (cases "\<lfloor>x\<rfloor> = \<lfloor>y\<rfloor>")
  case True
  then show ?thesis using assms by (auto simp: round_half_even_def Let_def)
next
  case False
  with assms have "\<lfloor>x\<rfloor> + 1 \<le> \<lfloor>y\<rfloor>" using floor_mono[OF assms] by linarith
  then show ?thesis using round_half_even_bounds[of x] round_half_even_bounds[of y] by linarith
qed

lemma round_half_even_minus: "round_half_even (- x) = - round_half_even x"
proof (cases "x \<in> \<int>")
  case True
  then obtain k where "x = of_int k" by (auto elim: Ints_cases)
  then show ?thesis by (simp flip: of_int_minus)
next
  case False
  have "of_int \<lfloor>x\<rfloor> \<noteq> x" using False by (metis Ints_of_int)
  then have "of_int \<lfloor>x\<rfloor> < x" using of_int_floor_le[of x] by (simp add: less_le)
  then have fl: "\<lfloor>- x\<rfloor> = - \<lfloor>x\<rfloor> - 1"
    using floor_correct[of x] by (intro floor_unique) auto
  have "- x - of_int \<lfloor>- x\<rfloor> = 1 - (x - of_int \<lfloor>x\<rfloor>)" by (simp add: fl)
  then show ?thesis by (auto simp: round_half_even_def Let_def fl)
qed

lemma powi_pos: "1 < b \<Longrightarrow> 0 < (of_nat b :: rat) powi e"
  by (simp add: power_int_def)

lemma powi_mono: "1 < b \<Longrightarrow> d \<le> e \<Longrightarrow> (of_nat b :: rat) powi d \<le> of_nat b powi e"
  by (rule power_int_increasing) auto

lemma powi_less_imp: "1 < b \<Longrightarrow> (of_nat b :: rat) powi d < of_nat b powi e \<Longrightarrow> d < e"
  by (meson leD leI powi_mono)

lemma ilog_bounds:
  assumes b: "1 < b" and x: "0 < x"
  shows "of_nat b powi ilog b x \<le> x" "x < of_nat b powi (ilog b x + 1)"
proof -
  obtain n d where nd: "quotient_of x = (n, d)" by force
  then have d: "0 < d" and xe: "x = of_int n / of_int d"
    using quotient_of_denom_pos quotient_of_div by blast+
  have n: "0 < n" using x xe d by (simp add: zero_less_divide_iff)
  let ?B = "of_nat b :: rat" and ?fn = "floorlog b (nat n)" and ?fd = "floorlog b (nat d)"
  let ?e = "int ?fn - int ?fd"
  have B: "1 < ?B" using b by simp
  have fn: "b ^ (?fn - 1) \<le> nat n" "nat n < b ^ ?fn" and fd: "b ^ (?fd - 1) \<le> nat d" "nat d < b ^ ?fd"
    using floorlog_bounds[of "nat n" b] floorlog_bounds[of "nat d" b] n d b by auto
  have fn0: "0 < ?fn" and fd0: "0 < ?fd"
    using n d b by (auto simp: neq0_conv[symmetric] floorlog_eq_zero_iff)
  have toB: "of_nat (nat n) = (of_int n :: rat)" "of_nat (nat d) = (of_int d :: rat)"
    using n d by (simp_all add: of_nat_nat)
  have nB: "?B ^ (?fn - 1) \<le> of_int n" "of_int n < ?B ^ ?fn"
    using fn unfolding toB[symmetric] by (simp_all flip: of_nat_power)
  have dB: "?B ^ (?fd - 1) \<le> of_int d" "of_int d < ?B ^ ?fd"
    using fd unfolding toB[symmetric] by (simp_all flip: of_nat_power)
  have "x < ?B ^ ?fn / ?B ^ (?fd - 1)"
    unfolding xe using nB dB d n B by (intro frac_less) auto
  also have "\<dots> = ?B powi (?e + 1)"
    using fd0 B by (simp add: power_int_add power_int_diff power_diff)
  finally have hi: "x < ?B powi (?e + 1)" .
  have "?B powi (?e - 1) = ?B ^ (?fn - 1) / ?B ^ ?fd"
    using fn0 B by (simp add: power_int_diff power_diff)
  also have "\<dots> \<le> x"
    unfolding xe using nB dB d n B by (intro frac_le) auto
  finally have lo: "?B powi (?e - 1) \<le> x" .
  show "?B powi ilog b x \<le> x" "x < ?B powi (ilog b x + 1)"
    using hi lo by (auto simp: ilog_def nd Let_def)
qed

lemma ilog_mono: "1 < b \<Longrightarrow> 0 < x \<Longrightarrow> x \<le> y \<Longrightarrow> ilog b x \<le> ilog b y"
proof -
  assume b: "1 < b" and "0 < x" "x \<le> y"
  then have "of_nat b powi ilog b x < (of_nat b :: rat) powi (ilog b y + 1)"
    using ilog_bounds[of b x] ilog_bounds[of b y] by linarith
  then show ?thesis using powi_less_imp[OF b] by force
qed

lemma round_sig_minus: "round_sig b p (- x) = - round_sig b p x"
  by (simp add: round_sig_def Let_def round_half_even_minus)

lemma round_sig_le_power:
  assumes b: "1 < b" and x: "0 < x"
  shows "round_sig b p x \<le> of_nat b powi (ilog b x + 1)"
proof -
  let ?s = "(of_nat b :: rat) powi (ilog b x - int p + 1)"
  have s: "0 < ?s" using powi_pos[OF b] .
  have split: "(of_nat b :: rat) powi (ilog b x + 1) = of_int (int b ^ p) * ?s"
    using b by (simp add: power_int_add power_int_diff)
  have "x / ?s \<le> of_int (int b ^ p)"
    using ilog_bounds(2)[OF b x] s unfolding split by (simp add: divide_le_eq)
  then have "round_half_even (x / ?s) \<le> int b ^ p"
    using round_half_even_mono[of "x / ?s" "of_int (int b ^ p)"]
    unfolding round_half_even_of_int by blast
  then have "of_int (round_half_even (x / ?s)) * ?s \<le> of_int (int b ^ p) * ?s"
    using s by (intro mult_right_mono) (auto simp flip: of_int_power simp: of_int_le_iff)
  then show ?thesis using x by (simp add: round_sig_def Let_def split)
qed

lemma round_sig_ge_power:
  assumes b: "1 < b" and p: "1 \<le> p" and x: "0 < x"
  shows "of_nat b powi ilog b x \<le> round_sig b p x"
proof -
  let ?s = "(of_nat b :: rat) powi (ilog b x - int p + 1)"
  have s: "0 < ?s" using powi_pos[OF b] .
  have "(of_nat b :: rat) powi (int (p - 1) + (ilog b x - int p + 1)) = of_nat b ^ (p - 1) * ?s"
    using b by (subst power_int_add) (auto simp: power_int_of_nat)
  then have split: "(of_nat b :: rat) powi ilog b x = of_int (int b ^ (p - 1)) * ?s"
    using p by (simp add: of_nat_diff)
  have "of_int (int b ^ (p - 1)) \<le> x / ?s"
    using ilog_bounds(1)[OF b x] s unfolding split by (simp add: le_divide_eq)
  then have "int b ^ (p - 1) \<le> round_half_even (x / ?s)"
    using round_half_even_mono[of "of_int (int b ^ (p - 1))" "x / ?s"]
    unfolding round_half_even_of_int by blast
  then have "of_int (int b ^ (p - 1)) * ?s \<le> of_int (round_half_even (x / ?s)) * ?s"
    using s by (intro mult_right_mono) (auto simp flip: of_int_power simp: of_int_le_iff)
  then show ?thesis using x by (simp add: round_sig_def Let_def split)
qed

lemma round_sig_pos: "1 < b \<Longrightarrow> 1 \<le> p \<Longrightarrow> 0 < x \<Longrightarrow> 0 < round_sig b p x"
  using round_sig_ge_power[of b p x] powi_pos[of b "ilog b x"] by linarith

lemma round_sig_mono_pos:
  assumes b: "1 < b" and p: "1 \<le> p" and x: "0 < x" and xy: "x \<le> y"
  shows "round_sig b p x \<le> round_sig b p y"
proof (cases "ilog b x = ilog b y")
  case True
  let ?s = "(of_nat b :: rat) powi (ilog b x - int p + 1)"
  have s: "0 < ?s" using powi_pos[OF b] .
  have "round_half_even (x / ?s) \<le> round_half_even (y / ?s)"
    using xy s by (intro round_half_even_mono divide_right_mono) auto
  then show ?thesis using x xy s True by (simp add: round_sig_def Let_def)
next
  case False
  then have "ilog b x + 1 \<le> ilog b y" using ilog_mono[OF b x xy] by linarith
  then have "of_nat b powi (ilog b x + 1) \<le> (of_nat b :: rat) powi ilog b y"
    by (rule powi_mono[OF b])
  then show ?thesis
    using round_sig_le_power[OF b x, of p] round_sig_ge_power[OF b p, of y] x xy by linarith
qed

lemma round_sig_zero [simp]: "round_sig b p 0 = 0"
  by (simp add: round_sig_def)

lemma round_sig_mono:
  assumes b: "1 < b" and p: "1 \<le> p" and xy: "x \<le> y"
  shows "round_sig b p x \<le> round_sig b p y"
proof (cases "0 < x")
  case True
  then show ?thesis using round_sig_mono_pos[OF b p _ xy] by simp
next
  case False
  then have x: "x \<le> 0" by simp
  have nonpos: "round_sig b p z \<le> 0" if "z \<le> 0" for z
    using round_sig_pos[OF b p, of "- z"] that
    by (cases "z = 0") (auto simp: round_sig_minus)
  show ?thesis
  proof (cases "0 < y")
    case True
    then show ?thesis using nonpos[OF x] round_sig_pos[OF b p True] by linarith
  next
    case y: False
    show ?thesis
    proof (cases "y = 0")
      case True
      then show ?thesis using nonpos[OF x] by simp
    next
      case False
      then have "round_sig b p (- y) \<le> round_sig b p (- x)"
        using y xy by (intro round_sig_mono_pos[OF b p]) auto
      then show ?thesis by (simp add: round_sig_minus)
    qed
  qed
qed

text \<open>A number with at most \<open>p\<close> digits is not changed.\<close>

lemma round_sig_representable_pos:
  assumes b: "1 < b" and m: "0 < m" "m < int b ^ p"
  shows "round_sig b p (of_int m * of_nat b powi k) = of_int m * of_nat b powi k"
proof -
  let ?B = "of_nat b :: rat"
  let ?x = "of_int m * ?B powi k"
  have x: "0 < ?x" using m powi_pos[OF b, of k] by simp
  have "?x < of_int (int b ^ p) * ?B powi k"
    using m powi_pos[OF b, of k] by (intro mult_strict_right_mono) (simp_all only: of_int_less_iff)
  also have "\<dots> = ?B powi (int p + k)" using b by (simp add: power_int_add)
  finally have "?B powi ilog b ?x < ?B powi (int p + k)"
    using ilog_bounds(1)[OF b x] by linarith
  then have le: "ilog b ?x < int p + k" by (rule powi_less_imp[OF b])
  define j where "j = nat (k - (ilog b ?x - int p + 1))"
  have j: "int j = k - (ilog b ?x - int p + 1)" using le by (simp add: j_def)
  let ?s = "?B powi (ilog b ?x - int p + 1)"
  have s: "0 < ?s" using powi_pos[OF b] .
  have k: "k = int j + (ilog b ?x - int p + 1)" using j by simp
  have "?B powi k = ?B ^ j * ?s" using b by (subst k, subst power_int_add) auto
  then have eq: "?x = of_int (m * int b ^ j) * ?s" by (simp only: of_int_mult of_int_power of_int_of_nat_eq mult.assoc)
  have div: "?x / ?s = of_int (m * int b ^ j)" 
    using eq s by (metis less_irrefl nonzero_eq_divide_eq)
  have ne: "?x \<noteq> 0" and ab: "\<bar>?x\<bar> = ?x" using x by linarith+
  have "round_sig b p ?x = of_int (round_half_even (?x / ?s)) * ?s"
    by (simp only: round_sig_def Let_def ab ne if_False)
  also have "\<dots> = ?x" unfolding div round_half_even_of_int by (rule eq[symmetric])
  finally show ?thesis .
qed

lemma round_sig_one: "1 < b \<Longrightarrow> 1 \<le> p \<Longrightarrow> round_sig b p 1 = 1"
  using round_sig_representable_pos[of b 1 p 0] by (simp add: one_less_power)

lemma round_sig_representable:
  assumes b: "1 < b" and m: "\<bar>m\<bar> < int b ^ p"
  shows "round_sig b p (of_int m * of_nat b powi k) = of_int m * of_nat b powi k"
proof -
  consider "m = 0" | "0 < m" | "0 < - m" by linarith
  then show ?thesis
  proof cases
    case 3
    then have "round_sig b p (of_int (- m) * of_nat b powi k) = of_int (- m) * of_nat b powi k"
      using m by (intro round_sig_representable_pos[OF b]) auto
    then show ?thesis by (simp add: round_sig_minus)
  qed (use m round_sig_representable_pos[OF b] in auto)
qed

lemma round_sig_is_representable:
  assumes b: "1 < b" and p: "1 \<le> p" and x: "0 < x"
  shows "\<exists>m k. 0 < m \<and> m < int b ^ p \<and> round_sig b p x = of_int m * of_nat b powi k"
proof (cases "round_sig b p x = of_nat b powi (ilog b x + 1)")
  case True
  moreover have "(1::int) < int b ^ p" using b p by (simp add: one_less_power)
  ultimately show ?thesis by (intro exI[of _ 1] exI[of _ "ilog b x + 1"]) simp
next
  case False
  let ?s = "(of_nat b :: rat) powi (ilog b x - int p + 1)"
  define m where "m = round_half_even (x / ?s)"
  have s: "0 < ?s" using powi_pos[OF b] .
  have eq: "round_sig b p x = of_int m * ?s" using x by (simp add: round_sig_def Let_def m_def)
  have "0 < of_int m * ?s" using round_sig_pos[OF b p x] eq by simp
  then have m0: "0 < m" using s by (simp add: zero_less_mult_iff)
  have "of_nat b powi (ilog b x + 1) = (of_int (int b ^ p) * ?s :: rat)"
    using b by (simp add: power_int_add power_int_diff)
  then have "of_int m * ?s < of_int (int b ^ p) * ?s"
    using False round_sig_le_power[OF b x, of p] eq by linarith
  then have "m < int b ^ p" using s by (simp only: mult_less_cancel_right_pos of_int_less_iff)
  then show ?thesis using m0 eq by blast
qed

lemma round_sig_idem:
  assumes b: "1 < b" and p: "1 \<le> p"
  shows "round_sig b p (round_sig b p x) = round_sig b p x"
proof -
  have pos: "round_sig b p (round_sig b p y) = round_sig b p y" if "0 < y" for y
    using round_sig_is_representable[OF b p that] round_sig_representable_pos[OF b] by metis
  consider "x = 0" | "0 < x" | "0 < - x" by linarith
  then show ?thesis
  proof cases
    case 3
    then show ?thesis using pos[of "- x"] by (simp add: round_sig_minus)
  qed (use pos in auto)
qed

lemma fl_of_int: "\<bar>m\<bar> < 9007199254740992 \<Longrightarrow> fl (of_int m) = of_int m"
  using round_sig_representable[of 2 m 53 0] by (simp add: fl_def)

lemma dec_of_int: "\<bar>m\<bar> < 10000000000000000000000000000 \<Longrightarrow> dec (of_int m) = of_int m"
  using round_sig_representable[of 10 m 28 0] by (simp add: dec_def)

subsection \<open>The interface the components rely on\<close>

text \<open>
  A rounding is monotone, symmetric, exact at one, keeps the sign and rounding twice changes nothing.
  The consequences below are what the component proofs use; they never look at digits.
\<close>

locale rounding =
  fixes rnd :: "rat \<Rightarrow> rat"
  assumes mono: "x \<le> y \<Longrightarrow> rnd x \<le> rnd y"
    and minus: "rnd (- x) = - rnd x"
    and one: "rnd 1 = 1"
    and pos: "0 < x \<Longrightarrow> 0 < rnd x"
    and idem: "rnd (rnd x) = rnd x"
begin

lemma zero: "rnd 0 = 0"
  using minus[of 0] by simp

lemma nonneg: "0 \<le> x \<Longrightarrow> 0 \<le> rnd x"
  using mono[of 0 x] zero by simp

lemma nonpos: "x \<le> 0 \<Longrightarrow> rnd x \<le> 0"
  using mono[of x 0] zero by simp

lemma neg: "x < 0 \<Longrightarrow> rnd x < 0"
  using pos[of "- x"] minus[of x] by simp

lemma nonneg_iff: "0 \<le> rnd x \<longleftrightarrow> 0 \<le> x"
  using nonneg[of x] neg[of x] by linarith

lemma pos_iff: "0 < rnd x \<longleftrightarrow> 0 < x"
  using pos[of x] nonpos[of x] by linarith

lemma nonpos_iff: "rnd x \<le> 0 \<longleftrightarrow> x \<le> 0"
  using pos_iff[of x] by linarith

lemma zero_iff: "rnd x = 0 \<longleftrightarrow> x = 0"
  using pos_iff[of x] neg[of x] zero by (cases x "0::rat" rule: linorder_cases) auto

lemma le_one: "x \<le> 1 \<Longrightarrow> rnd x \<le> 1"
  using mono[of x 1] one by simp

lemma ge_one: "1 \<le> x \<Longrightarrow> 1 \<le> rnd x"
  using mono[of 1 x] one by simp

lemma abs_eq: "\<bar>rnd x\<bar> = rnd \<bar>x\<bar>"
  using nonneg_iff[of x] by (cases "0 \<le> x") (auto simp: minus)

text \<open>A bound that is itself a machine number survives the rounding.\<close>

lemma le_fixed: "rnd y = y \<Longrightarrow> x \<le> y \<Longrightarrow> rnd x \<le> y"
  using mono[of x y] by simp

lemma ge_fixed: "rnd y = y \<Longrightarrow> y \<le> x \<Longrightarrow> y \<le> rnd x"
  using mono[of y x] by simp

end

interpretation flr: rounding fl
  by unfold_locales
    (auto simp: fl_def round_sig_mono round_sig_minus round_sig_one round_sig_pos round_sig_idem)

interpretation dcr: rounding dec
  by unfold_locales
    (auto simp: dec_def round_sig_mono round_sig_minus round_sig_one round_sig_pos round_sig_idem)

lemmas fl_simps [simp] = flr.zero flr.one flr.minus flr.idem
lemmas dec_simps [simp] = dcr.zero dcr.one dcr.minus dcr.idem

subsection \<open>Decimal and float operations of the source\<close>

text \<open>\<open>sum(xs, Decimal(0))\<close>: a left fold that rounds after every addition.\<close>

definition dsum :: "rat list \<Rightarrow> rat" where
  "dsum xs = foldl (\<lambda>a x. dec (a + x)) 0 xs"

lemma dsum_snoc [simp]: "dsum (xs @ [x]) = dec (dsum xs + x)"
  by (simp add: dsum_def)

lemma dsum_Nil [simp]: "dsum [] = 0"
  by (simp add: dsum_def)

lemma dsum_nonneg: "(\<And>x. x \<in> set xs \<Longrightarrow> 0 \<le> x) \<Longrightarrow> 0 \<le> dsum xs"
  by (induction xs rule: rev_induct) (auto intro!: dcr.nonneg)

lemma dec_dsum [simp]: "dec (dsum xs) = dsum xs"
  by (cases xs rule: rev_cases) auto

lemma dsum_ge_last_le: "0 \<le> x \<Longrightarrow> dsum xs \<le> dsum (xs @ [x])"
  by (simp add: dcr.ge_fixed)

lemma dsum_pos: "(\<And>x. x \<in> set xs \<Longrightarrow> 0 < x) \<Longrightarrow> xs \<noteq> [] \<Longrightarrow> 0 < dsum xs"
proof (induction xs rule: rev_induct)
  case (snoc x xs)
  have "0 \<le> dsum xs" using snoc.prems by (intro dsum_nonneg) (auto intro: less_imp_le)
  moreover have "0 < x" using snoc.prems by simp
  ultimately show ?case by (simp add: dcr.pos)
qed simp

text \<open>\<open>statistics.fmean\<close>: an exactly rounded sum, then one division.\<close>

definition fmean :: "rat list \<Rightarrow> rat" where
  "fmean xs = fl (fl (sum_list xs) / of_nat (length xs))"

text \<open>\<open>x.quantize(Decimal("1e-n"), rounding=ROUND_DOWN)\<close>: truncation to \<open>n\<close> decimal places.\<close>

definition quantize_down :: "nat \<Rightarrow> rat \<Rightarrow> rat" where
  "quantize_down n x =
     (if 0 \<le> x then of_int \<lfloor>x * 10 ^ n\<rfloor> else of_int \<lceil>x * 10 ^ n\<rceil>) / 10 ^ n"

lemma quantize_down_le: "0 \<le> x \<Longrightarrow> quantize_down n x \<le> x"
  by (simp add: quantize_down_def divide_le_eq)

lemma quantize_down_nonneg: "0 \<le> x \<Longrightarrow> 0 \<le> quantize_down n x"
  by (simp add: quantize_down_def)

lemma quantize_down_close: "0 \<le> x \<Longrightarrow> x - quantize_down n x < 1 / 10 ^ n"
proof -
  assume "0 \<le> x"
  have "x * 10 ^ n - of_int \<lfloor>x * 10 ^ n\<rfloor> < 1" using floor_correct[of "x * 10 ^ n"] by linarith
  then have "(x * 10 ^ n - of_int \<lfloor>x * 10 ^ n\<rfloor>) / 10 ^ n < 1 / 10 ^ n"
    by (intro divide_strict_right_mono) auto
  then show ?thesis using \<open>0 \<le> x\<close> by (simp add: quantize_down_def diff_divide_distrib)
qed

text \<open>
  \<open>(a - b).total_seconds()\<close> of a difference of \<open>d\<close> microseconds: the true quotient by one million,
  rounded once.
\<close>

definition total_seconds :: "int \<Rightarrow> rat" where
  "total_seconds d = fl (of_int d / 1000000)"

lemma total_seconds_nonneg_iff [simp]: "0 \<le> total_seconds d \<longleftrightarrow> 0 \<le> d"
  by (simp add: total_seconds_def flr.nonneg_iff zero_le_divide_iff)

lemma total_seconds_zero [simp]: "total_seconds 0 = 0"
  by (simp add: total_seconds_def)

lemma total_seconds_mono: "d \<le> e \<Longrightarrow> total_seconds d \<le> total_seconds e"
  unfolding total_seconds_def by (intro flr.mono divide_right_mono) auto

lemma total_seconds_whole:
  assumes "\<bar>n\<bar> < 9007199254740992"
  shows "total_seconds (microseconds n) = of_int n"
proof -
  have "(of_int (n * 1000000) :: rat) / 1000000 = of_int n" by simp
  then show ?thesis
    using fl_of_int[OF assms] unfolding total_seconds_def microseconds_def by presburger
qed

lemma fl_dyadic: "\<bar>m\<bar> < 9007199254740992 \<Longrightarrow> fl (of_int m / 2 ^ k) = of_int m / 2 ^ k"
  using round_sig_representable[of 2 m 53 "- int k"]
  by (simp add: fl_def power_int_minus field_simps)

text \<open>
  Comparing an age in seconds with a whole number of seconds is comparing microseconds: the rounding
  of \<open>total_seconds\<close> cannot cross a whole second below \<open>2 ^ 33\<close> (about 272 years).
\<close>

lemma total_seconds_le_iff:
  assumes n: "0 \<le> n" "n < 8589934592"
  shows "total_seconds d \<le> of_int n \<longleftrightarrow> d \<le> microseconds n"
proof
  assume "d \<le> microseconds n"
  then have "total_seconds d \<le> total_seconds (microseconds n)" by (rule total_seconds_mono)
  then show "total_seconds d \<le> of_int n" using total_seconds_whole[of n] n by simp
next
  assume le: "total_seconds d \<le> of_int n"
  show "d \<le> microseconds n"
  proof (rule ccontr)
    assume "\<not> d \<le> microseconds n"
    then have "n * 1000000 + 1 \<le> d" by (simp add: microseconds_def)
    then have d: "(of_int (n * 1000000 + 1) :: rat) \<le> of_int d" by (simp only: of_int_le_iff)
    define y :: rat where "y = of_int (n * 1048576 + 1) / 2 ^ 20"
    have "y \<le> of_int (n * 1000000 + 1) / 1000000" by (simp add: y_def field_simps)
    also have "\<dots> \<le> of_int d / 1000000" using d by (rule divide_right_mono) simp
    finally have "y \<le> of_int d / 1000000" .
    moreover have "fl y = y" unfolding y_def by (rule fl_dyadic) (use n in auto)
    ultimately have "y \<le> total_seconds d"
      unfolding total_seconds_def by (intro flr.ge_fixed)
    moreover have "of_int n < y" by (simp add: y_def field_simps)
    ultimately show False using le by linarith
  qed
qed

text \<open>Python's \<open>float % positive\<close> on a nonnegative float: exact.\<close>

definition fmod :: "rat \<Rightarrow> rat \<Rightarrow> rat" where
  "fmod x y = x - y * of_int \<lfloor>x / y\<rfloor>"

text \<open>
  \<open>Decimal(str(x))\<close> of a float: the shortest decimal that reads back as \<open>x\<close>, closest to \<open>x\<close> among
  those of the same length (17 digits are always enough).
\<close>

definition repr_candidates :: "rat \<Rightarrow> nat \<Rightarrow> rat list" where
  "repr_candidates x n =
     (let s = 10 powi (ilog 10 x - int n + 1);
          lo = of_int \<lfloor>x / s\<rfloor> * s; hi = of_int \<lceil>x / s\<rceil> * s
      in filter (\<lambda>c. fl c = x)
           (if x - lo < hi - x \<or> (x - lo = hi - x \<and> even \<lfloor>x / s\<rfloor>) then [lo, hi] else [hi, lo]))"

definition shortest_repr :: "rat \<Rightarrow> rat" where
  "shortest_repr x =
     (case concat (map (repr_candidates x) [1..<18]) of [] \<Rightarrow> x | c # _ \<Rightarrow> c)"

definition dec_of_float :: "rat \<Rightarrow> rat" where
  "dec_of_float x =
     (if x = 0 then 0 else if x < 0 then - shortest_repr (- x) else shortest_repr x)"

lemma shortest_repr_cases:
  "shortest_repr x = x \<or> (\<exists>n\<ge>1. shortest_repr x \<in> set (repr_candidates x n))"
proof (cases "concat (map (repr_candidates x) [1..<18])")
  case Nil
  then show ?thesis unfolding shortest_repr_def by (metis list.simps(4))
next
  case (Cons c cs)
  then have "c \<in> set (concat (map (repr_candidates x) [1..<18]))" by simp
  then have "\<exists>n\<ge>1. c \<in> set (repr_candidates x n)" by (auto simp del: upt_Suc)
  moreover have "shortest_repr x = c" using Cons unfolding shortest_repr_def by (metis list.simps(5))
  ultimately show ?thesis by simp
qed

lemma fl_shortest_repr: "fl x = x \<Longrightarrow> fl (shortest_repr x) = x"
  using shortest_repr_cases[of x] by (auto simp: repr_candidates_def Let_def split: if_splits)

lemma fl_dec_of_float: "fl x = x \<Longrightarrow> fl (dec_of_float x) = x"
  using fl_shortest_repr[of x] fl_shortest_repr[of "- x"] by (auto simp: dec_of_float_def)

lemma dec_of_float_zero [simp]: "dec_of_float 0 = 0"
  by (simp add: dec_of_float_def)

lemma dec_decimal:
  assumes "\<bar>m\<bar> < 10000000000000000000000000000"
  shows "dec (of_int m / 10 ^ k) = of_int m / 10 ^ k"
  using round_sig_representable[of 10 m 28 "- int k"] assms
  by (simp add: dec_def power_int_minus field_simps)

text \<open>
  Python 3.12's \<open>sum\<close> of floats: Neumaier's compensated summation, where \<open>s\<close> is the running sum and \<open>c\<close>
  the compensation.
\<close>

fun neumaier :: "rat \<Rightarrow> rat \<Rightarrow> rat list \<Rightarrow> rat" where
  "neumaier s c [] = (if c = 0 then s else fl (s + c))"
| "neumaier s c (v # vs) =
     (let t = fl (s + v);
          e = (if \<bar>v\<bar> \<le> \<bar>s\<bar> then fl (fl (s - t) + v) else fl (fl (v - t) + s))
      in neumaier t (fl (c + e)) vs)"

definition float_sum :: "rat list \<Rightarrow> rat" where
  "float_sum vs = neumaier 0 0 vs"

end
