(* ===== verification/Feature_Models.thy ===== *)
theory Feature_Models
  imports Numerics
begin

text \<open>
  \<open>features/models.py\<close>: feature values with explicit missingness, the versioned definition, the
  instrument context and the content-addressed snapshot.  Content hashes (SHA-256 of the canonical
  JSON that pydantic writes) are parameters of the definitions that use them.
\<close>

datatype missing_reason =
    WARMUP | MISSING_INPUT | INVALID_INPUT | STALE | ZERO_DENOMINATOR | NOT_IMPLEMENTED

fun missing_name :: "missing_reason \<Rightarrow> string" where
  "missing_name WARMUP = ''WARMUP''"
| "missing_name MISSING_INPUT = ''MISSING_INPUT''"
| "missing_name INVALID_INPUT = ''INVALID_INPUT''"
| "missing_name STALE = ''STALE''"
| "missing_name ZERO_DENOMINATOR = ''ZERO_DENOMINATOR''"
| "missing_name NOT_IMPLEMENTED = ''NOT_IMPLEMENTED''"

record feature_value =
  fv_name :: string
  fv_value :: "rat option"
  fv_reason :: "missing_reason option"

definition feature_value_ok :: "feature_value \<Rightarrow> bool" where
  "feature_value_ok v \<longleftrightarrow> (fv_value v = None) = (fv_reason v \<noteq> None)"

record feature_set_version =
  fs_name :: string
  fs_formula_revision :: string
  fs_opening_range_bars :: nat
  fs_atr_bars :: nat
  fs_statistics_bars :: nat
  fs_baseline_sessions :: nat
  fs_swing_confirmation_bars :: nat
  fs_quote_stale_seconds :: rat
  fs_spread_window_seconds :: rat

definition feature_set_ok :: "feature_set_version \<Rightarrow> bool" where
  "feature_set_ok v \<longleftrightarrow> fs_formula_revision v = ''1'' \<and> 1 \<le> fs_opening_range_bars v
     \<and> 2 \<le> fs_atr_bars v \<and> 2 \<le> fs_statistics_bars v \<and> 1 \<le> fs_baseline_sessions v
     \<and> 1 \<le> fs_swing_confirmation_bars v \<and> 0 < fs_quote_stale_seconds v
     \<and> 0 < fs_spread_window_seconds v"

record instrument_ref =
  ir_instrument_id :: string
  ir_source :: string

definition ref_ok :: "instrument_ref \<Rightarrow> bool" where
  "ref_ok r \<longleftrightarrow> ir_instrument_id r \<noteq> [] \<and> ir_source r \<noteq> []"

record feature_context =
  fc_entity :: instrument_ref
  fc_nifty :: "instrument_ref option"
  fc_sector :: "instrument_ref option"
  fc_vix :: "instrument_ref option"
  fc_pair :: "instrument_ref option"
  fc_breadth_members :: "instrument_ref list"
  fc_sector_members :: "instrument_ref list"
  fc_universe_version :: string
  fc_known_at :: instant
  fc_valid_from :: instant
  fc_valid_to :: instant
  fc_proposed_quantity :: "rat option"

definition context_ok :: "feature_context \<Rightarrow> bool" where
  "context_ok c \<longleftrightarrow> ref_ok (fc_entity c) \<and> fc_universe_version c \<noteq> []
     \<and> pred_option (\<lambda>q. 0 \<le> q) (fc_proposed_quantity c)
     \<and> fc_valid_from c < fc_valid_to c
     \<and> distinct (fc_breadth_members c) \<and> distinct (fc_sector_members c)"

record feature_snapshot =
  sn_entity :: string
  sn_timestamp :: instant
  sn_feature_set_hash :: string
  sn_context_hash :: string
  sn_input_hash :: string
  sn_code_commit :: string
  sn_config_hash :: string
  sn_data_snapshot :: string
  sn_values :: "feature_value list"

definition is_hex_digest :: "string \<Rightarrow> bool" where
  "is_hex_digest s \<longleftrightarrow> length s = 64 \<and> list_all (\<lambda>c. c \<in> set ''0123456789abcdef'') s"

text \<open>\<open>names != sorted(set(names))\<close>: the names are strictly increasing.\<close>

definition feature_snapshot_ok :: "feature_snapshot \<Rightarrow> bool" where
  "feature_snapshot_ok s \<longleftrightarrow>
     is_hex_digest (sn_feature_set_hash s) \<and> is_hex_digest (sn_context_hash s)
     \<and> is_hex_digest (sn_input_hash s) \<and> is_hex_digest (sn_config_hash s)
     \<and> sn_code_commit s \<noteq> [] \<and> sn_data_snapshot s \<noteq> []
     \<and> list_all feature_value_ok (sn_values s)
     \<and> map fv_name (sn_values s) = sorted_list_of_set (set (map fv_name (sn_values s)))"

text \<open>\<open>{item.name: item for item in snapshot.values}\<close>.\<close>

definition values_by_name :: "feature_snapshot \<Rightarrow> string \<Rightarrow> feature_value option" where
  "values_by_name s = dict_of fv_name (sn_values s)"

text \<open>\<open>snapshot.get(name)\<close>: the first value of that name; \<open>None\<close> is its \<open>StopIteration\<close>.\<close>

definition snapshot_get :: "feature_snapshot \<Rightarrow> string \<Rightarrow> feature_value option" where
  "snapshot_get s name = find (\<lambda>v. fv_name v = name) (sn_values s)"

lemma snapshot_ok_sorted:
  "feature_snapshot_ok s \<Longrightarrow> sorted (map fv_name (sn_values s)) \<and> distinct (map fv_name (sn_values s))"
  unfolding feature_snapshot_ok_def
  by (metis finite_set sorted_list_of_set.distinct_sorted_key_list_of_set
      sorted_list_of_set.sorted_sorted_key_list_of_set)

text \<open>On a validated snapshot the two lookups agree.\<close>

lemma snapshot_get_eq: "feature_snapshot_ok s \<Longrightarrow> snapshot_get s name = values_by_name s name"
proof -
  assume "feature_snapshot_ok s"
  then have d: "distinct (map fv_name (sn_values s))" using snapshot_ok_sorted by blast
  show ?thesis
  proof (cases "snapshot_get s name")
    case None
    then have "name \<notin> fv_name ` set (sn_values s)" by (auto simp: snapshot_get_def find_None_iff)
    then show ?thesis using None by (metis dict_of_None values_by_name_def)
  next
    case (Some v)
    then have "v \<in> set (sn_values s)" "fv_name v = name"
      by (auto simp: snapshot_get_def find_Some_iff)
    then show ?thesis using Some dict_of_distinct[OF d] by (auto simp: values_by_name_def)
  qed
qed

end
