(* ===== verification/Clock.thy ===== *)
theory Clock
  imports Prelude
begin

text \<open>
  \<open>core/clock.py\<close> and the normalisation \<open>utc\<close> of \<open>market_data/models.py\<close>: a clock instant must be
  timezone-aware, a \<open>FixedClock\<close> is moved freely by its owner, and a \<open>ReplayClock\<close> only forwards.
\<close>

definition require_aware :: "pydatetime \<Rightarrow> pydatetime result" where
  "require_aware d =
     (if aware d then Inr d else Inl (ValueError ''clock instants must be timezone-aware''))"

definition utc :: "pydatetime \<Rightarrow> instant result" where
  "utc d = (if aware d then Inr (instant_of d)
            else Inl (ValueError ''timestamp must be timezone-aware''))"

lemma utc_Inr_iff [simp]: "utc d = Inr i \<longleftrightarrow> aware d \<and> instant_of d = i"
  by (simp add: utc_def)

subsection \<open>\<open>FixedClock\<close>\<close>

record fixed_clock =
  fc_instant :: pydatetime

definition fixed_new :: "pydatetime \<Rightarrow> fixed_clock result" where
  "fixed_new d = rbind (require_aware d) (\<lambda>i. Inr \<lparr>fc_instant = i\<rparr>)"

definition fixed_now :: "fixed_clock \<Rightarrow> pydatetime" where
  "fixed_now c = fc_instant c"

definition fixed_set :: "pydatetime \<Rightarrow> fixed_clock \<Rightarrow> fixed_clock result" where
  "fixed_set d c = rbind (require_aware d) (\<lambda>i. Inr (c\<lparr>fc_instant := i\<rparr>))"

fun shift :: "int \<Rightarrow> pydatetime \<Rightarrow> pydatetime" where
  "shift delta (Naive w) = Naive (w + delta)"
| "shift delta (Aware w off) = Aware (w + delta) off"

definition fixed_advance :: "int \<Rightarrow> fixed_clock \<Rightarrow> pydatetime \<times> fixed_clock" where
  "fixed_advance delta c =
     (let i = shift delta (fc_instant c) in (i, c\<lparr>fc_instant := i\<rparr>))"

lemma aware_shift [simp]: "aware (shift delta d) = aware d"
  by (cases d) auto

lemma instant_shift [simp]: "instant_of (shift delta d) = instant_of d + delta"
  by (cases d) auto

definition fixed_ok :: "fixed_clock \<Rightarrow> bool" where
  "fixed_ok c \<longleftrightarrow> aware (fc_instant c)"

lemma fixed_new_ok: "fixed_new d = Inr c \<Longrightarrow> fixed_ok c"
  by (auto simp: fixed_new_def require_aware_def fixed_ok_def split: if_splits)

lemma fixed_set_ok: "fixed_set d c = Inr c' \<Longrightarrow> fixed_ok c'"
  by (auto simp: fixed_set_def require_aware_def fixed_ok_def split: if_splits)

lemma fixed_advance_ok: "fixed_ok c \<Longrightarrow> fixed_ok (snd (fixed_advance delta c))"
  by (simp add: fixed_ok_def fixed_advance_def Let_def)

subsection \<open>\<open>ReplayClock\<close>\<close>

record replay_clock =
  rc_instant :: instant

definition replay_new :: "pydatetime \<Rightarrow> replay_clock result" where
  "replay_new d = rbind (require_aware d) (\<lambda>i. Inr \<lparr>rc_instant = instant_of i\<rparr>)"

definition replay_now :: "replay_clock \<Rightarrow> instant" where
  "replay_now c = rc_instant c"

definition advance_to :: "pydatetime \<Rightarrow> replay_clock \<Rightarrow> replay_clock result" where
  "advance_to d c =
     rbind (require_aware d) (\<lambda>i.
       let target = instant_of i in
       if target < rc_instant c then Inl (ValueError ''replay clock cannot move backwards'')
       else Inr (c\<lparr>rc_instant := target\<rparr>))"

lemma advance_to_Inr_iff:
  "advance_to d c = Inr c' \<longleftrightarrow>
     aware d \<and> rc_instant c \<le> instant_of d \<and> c' = c\<lparr>rc_instant := instant_of d\<rparr>"
  by (auto simp: advance_to_def require_aware_def Let_def split: if_splits)

subsection \<open>The interface of a receipt-ordered clock\<close>

text \<open>
  What replay needs of its clock: a successful advance lands on its target, never moves backwards,
  and is refused only for an earlier target.  The lemmas hold for every sequence of advances.
\<close>

fun advances :: "(instant \<Rightarrow> 'c \<Rightarrow> 'c result) \<Rightarrow> instant list \<Rightarrow> 'c \<Rightarrow> 'c result" where
  "advances adv [] c = Inr c"
| "advances adv (t # ts) c = rbind (adv t c) (advances adv ts)"

locale receipt_clock =
  fixes now :: "'c \<Rightarrow> instant"
    and adv :: "instant \<Rightarrow> 'c \<Rightarrow> 'c result"
  assumes adv_now: "adv t c = Inr c' \<Longrightarrow> now c' = t"
    and adv_forward: "adv t c = Inr c' \<Longrightarrow> now c \<le> t"
    and adv_total: "now c \<le> t \<Longrightarrow> \<exists>c'. adv t c = Inr c'"
begin

lemma advances_sorted: "advances adv ts c = Inr c' \<Longrightarrow> sorted (now c # ts)"
proof (induction ts arbitrary: c)
  case (Cons t ts)
  then obtain c1 where c1: "adv t c = Inr c1" "advances adv ts c1 = Inr c'"
    by (auto simp: result_simps)
  have "sorted (t # ts)" using Cons.IH[OF c1(2)] adv_now[OF c1(1)] by simp
  then show ?case using adv_forward[OF c1(1)] by auto
qed simp

lemma advances_total: "sorted (now c # ts) \<Longrightarrow> \<exists>c'. advances adv ts c = Inr c'"
proof (induction ts arbitrary: c)
  case (Cons t ts)
  then obtain c1 where c1: "adv t c = Inr c1" using adv_total[of c t] by auto
  then have "sorted (now c1 # ts)" using Cons.prems adv_now[OF c1] by simp
  then show ?case using Cons.IH[of c1] c1 by simp
qed simp

lemma advances_iff: "(\<exists>c'. advances adv ts c = Inr c') \<longleftrightarrow> sorted (now c # ts)"
  using advances_sorted advances_total by blast

lemma advances_now: "advances adv ts c = Inr c' \<Longrightarrow> now c' = last (now c # ts)"
proof (induction ts arbitrary: c)
  case (Cons t ts)
  then obtain c1 where c1: "adv t c = Inr c1" "advances adv ts c1 = Inr c'"
    by (auto simp: result_simps)
  show ?case using Cons.IH[OF c1(2)] adv_now[OF c1(1)] by simp
qed simp

end

definition replay_adv :: "instant \<Rightarrow> replay_clock \<Rightarrow> replay_clock result" where
  "replay_adv t = advance_to (Aware t 0)"

interpretation replay: receipt_clock replay_now replay_adv
  by unfold_locales (auto simp: replay_adv_def replay_now_def advance_to_Inr_iff)

end
