(* ===== verification/Calendar.thy ===== *)
theory Calendar
  imports Clock
begin

text \<open>
  \<open>market_data/calendar.py\<close> and \<open>session_bounds\<close> of \<open>market_data/quality.py\<close>: the versioned exchange
  calendar, the session of a day and the intraday session state of an instant.  The records hold the
  validated fields; \<open>times_ok\<close>, \<open>special_ok\<close> and \<open>snapshot_ok\<close> are the validators.
\<close>

datatype session_state =
    CLOSED | PREOPEN | OPEN | FINAL_ENTRY_BLOCKED | FLATTENING | CLOSED_POST

datatype special_status = CONFIRMED | TIMINGS_PENDING | CANCELLED

record session_times =
  preopen_start :: time_of_day
  open_time :: time_of_day
  final_entry_time :: time_of_day
  flatten_start_time :: time_of_day
  hard_flatten_deadline :: time_of_day
  market_close :: time_of_day

definition times_values :: "session_times \<Rightarrow> time_of_day list" where
  "times_values t = [preopen_start t, open_time t, final_entry_time t, flatten_start_time t,
                     hard_flatten_deadline t, market_close t]"

definition times_ok :: "session_times \<Rightarrow> bool" where
  "times_ok t \<longleftrightarrow> sort (times_values t) = times_values t \<and> distinct (times_values t)
     \<and> list_all (\<lambda>x. 0 \<le> x \<and> x < day_us) (times_values t)"

record holiday =
  ho_date :: day
  ho_name :: string

record special_session =
  ss_date :: day
  ss_name :: string
  ss_status :: special_status
  ss_times :: "session_times option"

definition special_ok :: "special_session \<Rightarrow> bool" where
  "special_ok s \<longleftrightarrow> ss_name s \<noteq> [] \<and> \<not> (ss_status s = CONFIRMED \<and> ss_times s = None)
     \<and> (case ss_times s of None \<Rightarrow> True | Some t \<Rightarrow> times_ok t)"

record calendar_snapshot =
  cs_calendar_id :: string
  cs_version :: string
  cs_exchange :: string
  cs_timezone :: zone
  cs_effective_from :: day
  cs_effective_to :: day
  cs_regular_weekdays :: "int set"
  cs_regular_times :: session_times
  cs_holidays :: "holiday list"
  cs_special_sessions :: "special_session list"
  cs_source_reference :: string
  cs_reviewed_at :: pydatetime

definition snapshot_ok :: "calendar_snapshot \<Rightarrow> bool" where
  "snapshot_ok c \<longleftrightarrow> times_ok (cs_regular_times c)
     \<and> list_all special_ok (cs_special_sessions c)
     \<and> list_all (\<lambda>h. ho_name h \<noteq> []) (cs_holidays c)"

record session =
  se_date :: day
  se_timezone :: zone
  se_times :: session_times
  se_special :: bool

definition nse_calendar :: "calendar_snapshot \<Rightarrow> calendar_snapshot result" where
  "nse_calendar c =
     (if cs_exchange c \<noteq> ''NSE'' then Inl (ValueError ''NSE calendar requires exchange=NSE'')
      else Inr c)"

definition local_date :: "calendar_snapshot \<Rightarrow> pydatetime \<Rightarrow> day result" where
  "local_date c d =
     (if \<not> aware d then Inl (ValueError ''calendar instant must be timezone-aware'')
      else Inr (local_day (cs_timezone c) (instant_of d)))"

definition session_on :: "calendar_snapshot \<Rightarrow> day \<Rightarrow> session option result" where
  "session_on c d =
     (if \<not> (cs_effective_from c \<le> d \<and> d \<le> cs_effective_to c) then
        Inl (CalendarCoverageError (''calendar snapshot does not cover '' @ iso_day d))
      else
        case dict_of ss_date (cs_special_sessions c) d of
          Some special \<Rightarrow>
            (case ss_times special of
               None \<Rightarrow> Inr None
             | Some t \<Rightarrow>
                 if ss_status special \<noteq> CONFIRMED then Inr None
                 else Inr (Some \<lparr>se_date = d, se_timezone = cs_timezone c, se_times = t,
                                 se_special = True\<rparr>))
        | None \<Rightarrow>
            if weekday d \<notin> cs_regular_weekdays c then Inr None
            else if list_ex (\<lambda>h. ho_date h = d) (cs_holidays c) then Inr None
            else Inr (Some \<lparr>se_date = d, se_timezone = cs_timezone c,
                            se_times = cs_regular_times c, se_special = False\<rparr>))"

fun state_of_time :: "session_times \<Rightarrow> time_of_day \<Rightarrow> session_state" where
  "state_of_time t current =
     (if current < preopen_start t then CLOSED
      else if current < open_time t then PREOPEN
      else if current < final_entry_time t then OPEN
      else if current < flatten_start_time t then FINAL_ENTRY_BLOCKED
      else if current < hard_flatten_deadline t then FLATTENING
      else CLOSED_POST)"

definition state_at :: "calendar_snapshot \<Rightarrow> pydatetime \<Rightarrow> session_state result" where
  "state_at c d =
     (if \<not> aware d then Inl (ValueError ''session evaluation time must be timezone-aware'')
      else rbind (session_on c (local_day (cs_timezone c) (instant_of d))) (\<lambda>s. case s of
             None \<Rightarrow> Inr CLOSED
           | Some se \<Rightarrow>
               Inr (state_of_time (se_times se) (local_time (cs_timezone c) (instant_of d)))))"

text \<open>
  \<open>session_bounds(calendar, instant, timezone)\<close>: the calendar is used through its \<open>session_on\<close> only.
\<close>

definition session_opening :: "session \<Rightarrow> instant" where
  "session_opening s = combine (se_timezone s) (se_date s) (open_time (se_times s))"

definition session_closing :: "session \<Rightarrow> instant" where
  "session_closing s = combine (se_timezone s) (se_date s) (market_close (se_times s))"

definition session_bounds ::
  "(day \<Rightarrow> session option result) \<Rightarrow> zone \<Rightarrow> instant \<Rightarrow> (instant \<times> instant) option result" where
  "session_bounds son z i =
     rbind (son (local_day z i)) (\<lambda>s. case s of
       None \<Rightarrow> Inr None
     | Some se \<Rightarrow> Inr (Some (session_opening se, session_closing se)))"

subsection \<open>Validated times are strictly increasing\<close>

lemma times_ok_strict:
  assumes "times_ok t"
  shows "preopen_start t < open_time t" "open_time t < final_entry_time t"
    "final_entry_time t < flatten_start_time t" "flatten_start_time t < hard_flatten_deadline t"
    "hard_flatten_deadline t < market_close t" "0 \<le> preopen_start t" "market_close t < day_us"
proof -
  have "sorted (times_values t)" using assms by (metis times_ok_def sorted_sort)
  then show "preopen_start t < open_time t" "open_time t < final_entry_time t"
    "final_entry_time t < flatten_start_time t" "flatten_start_time t < hard_flatten_deadline t"
    "hard_flatten_deadline t < market_close t" "0 \<le> preopen_start t" "market_close t < day_us"
    using assms by (auto simp: times_ok_def times_values_def order_less_le)
qed

lemma state_of_time_open_iff:
  "times_ok t \<Longrightarrow> state_of_time t x = OPEN \<longleftrightarrow> open_time t \<le> x \<and> x < final_entry_time t"
  using times_ok_strict[of t] by auto

lemma session_on_Some:
  assumes "session_on c d = Inr (Some s)"
  shows "se_date s = d" "se_timezone s = cs_timezone c"
    "cs_effective_from c \<le> d" "d \<le> cs_effective_to c"
  using assms by (auto simp: session_on_def split: if_splits option.splits)

lemma session_on_times_ok:
  assumes "snapshot_ok c" "session_on c d = Inr (Some s)"
  shows "times_ok (se_times s)"
proof (cases "dict_of ss_date (cs_special_sessions c) d")
  case None
  then show ?thesis using assms by (auto simp: session_on_def snapshot_ok_def split: if_splits)
next
  case (Some sp)
  then have "special_ok sp"
    using assms(1) by (auto simp: snapshot_ok_def list_all_iff dest: dict_of_Some)
  then show ?thesis
    using assms(2) Some by (auto simp: session_on_def special_ok_def split: if_splits option.splits)
qed

lemma session_on_error: "session_on c d = Inl e \<Longrightarrow> \<exists>m. e = CalendarCoverageError m"
  by (auto simp: session_on_def split: if_splits option.splits)

subsection \<open>The calendar interface\<close>

text \<open>
  \<open>ExchangeCalendar\<close> is a protocol in the source; its clients (aggregation, routing, allocation, the
  alphas) rely on these laws only: a session belongs to the day asked for, its times are validated
  and its zone has no transition.
\<close>

locale exchange_calendar =
  fixes son :: "'c \<Rightarrow> day \<Rightarrow> session option result"
    and ok :: "'c \<Rightarrow> bool"
  assumes son_date: "son c d = Inr (Some s) \<Longrightarrow> se_date s = d"
    and son_times: "ok c \<Longrightarrow> son c d = Inr (Some s) \<Longrightarrow> times_ok (se_times s)"
    and son_zone: "ok c \<Longrightarrow> son c d = Inr (Some s) \<Longrightarrow> zone_ok (se_timezone s)"
    and son_error: "son c d = Inl e \<Longrightarrow> \<exists>m. e = CalendarCoverageError m"
begin

lemma opening_before_closing:
  assumes "ok c" "son c d = Inr (Some s)"
  shows "session_opening s < session_closing s"
  using times_ok_strict[OF son_times[OF assms]] combine_mono[OF son_zone[OF assms]]
  by (simp add: session_opening_def session_closing_def)

lemma bounds_ordered:
  assumes "ok c" "session_bounds (son c) z i = Inr (Some (a, b))"
  shows "a < b"
  using assms opening_before_closing
  by (auto simp: session_bounds_def result_simps split: option.splits)

lemma bounds_same_day:
  assumes "session_bounds (son c) z i = Inr (Some (a, b))"
  obtains s where "son c (local_day z i) = Inr (Some s)" "a = session_opening s"
    "b = session_closing s" "se_date s = local_day z i"
  using assms son_date by (auto simp: session_bounds_def result_simps split: option.splits)

lemma bounds_error: "session_bounds (son c) z i = Inl e \<Longrightarrow> \<exists>m. e = CalendarCoverageError m"
  using son_error by (auto simp: session_bounds_def result_simps split: option.splits)

lemma opening_within_day:
  assumes "ok c" "son c d = Inr (Some s)" "se_timezone s = z"
  shows "local_day z (session_opening s) = d" "local_day z (session_closing s) = d"
proof -
  note zo = son_zone[OF assms(1,2)] and to = times_ok_strict[OF son_times[OF assms(1,2)]]
  have "to_wall z (combine z d t) = d * day_us + t" for t
    using zo assms(3) by (simp add: zone_ok_def combine_def)
  moreover have "(d * day_us + t) div day_us = d" if "0 \<le> t" "t < day_us" for t
    using that by (simp add: day_us_def)
  ultimately show "local_day z (session_opening s) = d" "local_day z (session_closing s) = d"
    using to son_date[OF assms(2)] assms(3)
    by (auto simp: local_day_def session_opening_def session_closing_def)
qed

end

definition nse_ok :: "calendar_snapshot \<Rightarrow> bool" where
  "nse_ok c \<longleftrightarrow> snapshot_ok c \<and> zone_ok (cs_timezone c)"

interpretation nse: exchange_calendar session_on nse_ok
  by unfold_locales (auto simp: nse_ok_def session_on_Some session_on_times_ok session_on_error)

subsection \<open>A concrete calendar\<close>

text \<open>The regular NSE session of the checked-in snapshot, as an example and for witnesses.\<close>

definition nse_times :: session_times where
  "nse_times = \<lparr>preopen_start = minutes 540, open_time = minutes 555,
     final_entry_time = minutes 900, flatten_start_time = minutes 910,
     hard_flatten_deadline = minutes 924, market_close = minutes 930\<rparr>"

definition nse_2026 :: calendar_snapshot where
  "nse_2026 = \<lparr>cs_calendar_id = ''nse-cm'', cs_version = ''v1'', cs_exchange = ''NSE'',
     cs_timezone = kolkata, cs_effective_from = 20454, cs_effective_to = 20818,
     cs_regular_weekdays = {0, 1, 2, 3, 4}, cs_regular_times = nse_times,
     cs_holidays = [\<lparr>ho_date = 20479, ho_name = ''Republic Day''\<rparr>],
     cs_special_sessions = [\<lparr>ss_date = 20765, ss_name = ''Muhurat'', ss_status = TIMINGS_PENDING,
                             ss_times = None\<rparr>],
     cs_source_reference = ''NSE/CMTR/71775'', cs_reviewed_at = Aware 1789430400000000 0\<rparr>"

lemma nse_times_ok: "times_ok nse_times"
  by (simp add: times_ok_def times_values_def nse_times_def minutes_def day_us_def)

lemma nse_2026_ok: "nse_ok nse_2026"
  by (simp add: nse_ok_def snapshot_ok_def nse_2026_def nse_times_ok special_ok_def)

subsection \<open>Properties\<close>

definition final_entry :: "session \<Rightarrow> instant" where
  "final_entry s = combine (se_timezone s) (se_date s) (final_entry_time (se_times s))"

lemma state_at_aware:
  "aware d \<Longrightarrow> session_on c (local_day (cs_timezone c) (instant_of d)) = Inr (Some s) \<Longrightarrow>
     state_at c d = Inr (state_of_time (se_times s) (local_time (cs_timezone c) (instant_of d)))"
  by (simp add: state_at_def)

text \<open>
  The calendar reports OPEN exactly in the entry window: the local day of the instant has a
  session, and the instant lies between the session's opening (inclusive) and its final entry time
  (exclusive), both taken as absolute instants.
\<close>

theorem state_at_open_iff:
  assumes "nse_ok c" "aware d"
  shows "state_at c d = Inr OPEN \<longleftrightarrow>
    (\<exists>s. session_on c (local_day (cs_timezone c) (instant_of d)) = Inr (Some s)
        \<and> session_opening s \<le> instant_of d \<and> instant_of d < final_entry s)"
proof (cases "\<exists>s. session_on c (local_day (cs_timezone c) (instant_of d)) = Inr (Some s)")
  case True
  then obtain s where s: "session_on c (local_day (cs_timezone c) (instant_of d)) = Inr (Some s)" ..
  have z: "zone_ok (cs_timezone c)" using assms(1) by (simp add: nse_ok_def)
  have t: "times_ok (se_times s)" using nse.son_times[OF assms(1) s] .
  have "state_at c d = Inr OPEN \<longleftrightarrow>
      open_time (se_times s) \<le> local_time (cs_timezone c) (instant_of d)
      \<and> local_time (cs_timezone c) (instant_of d) < final_entry_time (se_times s)"
    unfolding state_at_aware[OF assms(2) s] using state_of_time_open_iff[OF t] by simp
  then show ?thesis
    using s combine_le_iff[OF z] less_combine_iff[OF z]
    by (simp add: session_opening_def final_entry_def session_on_Some(1)[OF s] session_on_Some(2)[OF s])
next
  case False
  then show ?thesis using assms(2) by (auto simp: state_at_def result_simps split: option.splits)
qed

theorem state_at_open_iff_witness:
  "state_at nse_2026 (Aware (combine kolkata 20711 (minutes 600)) 0) = Inr OPEN"
proof -
  have "session_on nse_2026 20711 =
      Inr (Some \<lparr>se_date = 20711, se_timezone = kolkata, se_times = nse_times, se_special = False\<rparr>)"
    by (simp add: session_on_def nse_2026_def dict_of_def weekday_def)
  then show ?thesis
    by (subst state_at_open_iff[OF nse_2026_ok])
      (simp_all add: nse_2026_def kolkata_def fixed_zone_def combine_def local_day_def minutes_def
        day_us_def session_opening_def final_entry_def nse_times_def)
qed

fun state_rank :: "session_state \<Rightarrow> nat" where
  "state_rank CLOSED = 0"
| "state_rank PREOPEN = 1"
| "state_rank OPEN = 2"
| "state_rank FINAL_ENTRY_BLOCKED = 3"
| "state_rank FLATTENING = 4"
| "state_rank CLOSED_POST = 5"

lemma state_of_time_mono:
  "times_ok t \<Longrightarrow> x \<le> y \<Longrightarrow> state_rank (state_of_time t x) \<le> state_rank (state_of_time t y)"
  using times_ok_strict[of t] by auto

text \<open>
  Within one local day the session only moves forward: a later instant never has an earlier
  state, in the order CLOSED, PREOPEN, OPEN, FINAL_ENTRY_BLOCKED, FLATTENING, CLOSED_POST.
\<close>

theorem state_at_forward:
  assumes "nse_ok c" "aware d" "aware e" "instant_of d \<le> instant_of e"
    and "local_day (cs_timezone c) (instant_of d) = local_day (cs_timezone c) (instant_of e)"
    and "state_at c d = Inr s" "state_at c e = Inr t"
  shows "state_rank s \<le> state_rank t"
proof -
  let ?z = "cs_timezone c"
  have z: "zone_ok ?z" using assms(1) by (simp add: nse_ok_def)
  then have "to_wall ?z (instant_of d) \<le> to_wall ?z (instant_of e)"
    using assms(4) zone_le[OF z, of "to_wall ?z (instant_of d)" "to_wall ?z (instant_of e)"]
    by (simp add: zone_ok_def)
  then have le: "local_time ?z (instant_of d) \<le> local_time ?z (instant_of e)"
    using assms(5) wall_split[of ?z "instant_of d"] wall_split[of ?z "instant_of e"] by simp
  from assms(2,6) obtain so where so: "session_on c (local_day ?z (instant_of d)) = Inr so"
    by (auto simp: state_at_def result_simps)
  show ?thesis
  proof (cases so)
    case None
    then show ?thesis using so assms by (simp add: state_at_def)
  next
    case (Some se)
    then show ?thesis
      using so assms state_of_time_mono[OF nse.son_times[OF assms(1), of _ se] le]
      by (auto simp add: state_at_def)
  qed
qed

theorem state_at_forward_witness:
  "state_rank FLATTENING \<le> state_rank CLOSED_POST"
proof (rule state_at_forward[where c = nse_2026
      and d = "Aware (combine kolkata 20711 (minutes 915)) 0"
      and e = "Aware (combine kolkata 20711 (minutes 935)) 0"])
  show "nse_ok nse_2026" by (rule nse_2026_ok)
qed (simp_all add: state_at_def session_on_def nse_2026_def kolkata_def fixed_zone_def combine_def
    local_day_def local_time_def minutes_def day_us_def nse_times_def dict_of_def weekday_def)

end
