(* ===== verification/Health.thy ===== *)
theory Health
  imports Prelude
begin

text \<open>
  \<open>core/health.py\<close>: the severity order of health statuses, a component observation, and the aggregate
  that decides whether new entries are blocked.
\<close>

datatype health_status = HEALTHY | UNKNOWN | DEGRADED | UNHEALTHY

text \<open>\<open>HealthStatus\<close> is an \<open>IntEnum\<close>: it is compared, and converted to \<open>float\<close>, by its value.\<close>

fun status_value :: "health_status \<Rightarrow> int" where
  "status_value HEALTHY = 0"
| "status_value UNKNOWN = 1"
| "status_value DEGRADED = 2"
| "status_value UNHEALTHY = 3"

lemma status_value_inj [simp]: "status_value a = status_value b \<longleftrightarrow> a = b"
  by (cases a; cases b) auto

lemma status_value_zero_iff [simp]: "status_value a = 0 \<longleftrightarrow> a = HEALTHY"
  by (cases a) auto

instantiation health_status :: linorder
begin

definition less_eq_health_status :: "health_status \<Rightarrow> health_status \<Rightarrow> bool" where
  "a \<le> b \<longleftrightarrow> status_value a \<le> status_value b"

definition less_health_status :: "health_status \<Rightarrow> health_status \<Rightarrow> bool" where
  "a < b \<longleftrightarrow> status_value a < status_value b"

instance
  by standard (auto simp: less_eq_health_status_def less_health_status_def)

end

lemma HEALTHY_least [simp]: "HEALTHY \<le> s"
  by (cases s) (auto simp: less_eq_health_status_def)

record component_health =
  ch_component :: string
  ch_status :: health_status
  ch_observed_at :: pydatetime
  ch_message :: string
  ch_blocking :: bool

definition component_ok :: "component_health \<Rightarrow> bool" where
  "component_ok h \<longleftrightarrow> aware (ch_observed_at h)"

definition mk_component :: "component_health \<Rightarrow> component_health result" where
  "mk_component h =
     (if component_ok h then Inr h
      else Inl (ValueError ''health observation timestamp must be timezone-aware''))"

record system_health =
  sh_status :: health_status
  sh_components :: "component_health list"
  sh_blocks_new_entries :: bool

definition aggregate :: "component_health list \<Rightarrow> system_health" where
  "aggregate collected =
     \<lparr>sh_status = (if collected = [] then UNKNOWN else Max (set (map ch_status collected))),
      sh_components = collected,
      sh_blocks_new_entries =
        list_ex (\<lambda>item. ch_blocking item \<and> ch_status item \<noteq> HEALTHY) collected\<rparr>"

text \<open>
  The aggregate is HEALTHY only when there is at least one component and all of them are: no
  observation is worse than the aggregate, and the aggregate is one of the observations.
\<close>

lemma aggregate_ge: "h \<in> set hs \<Longrightarrow> ch_status h \<le> sh_status (aggregate hs)"
  by (auto simp: aggregate_def)

lemma aggregate_attained: "hs \<noteq> [] \<Longrightarrow> sh_status (aggregate hs) \<in> ch_status ` set hs"
proof -
  assume "hs \<noteq> []"
  then have "Max (ch_status ` set hs) \<in> ch_status ` set hs" by (intro Max_in) auto
  then show ?thesis using \<open>hs \<noteq> []\<close> by (simp add: aggregate_def)
qed

lemma aggregate_healthy_iff:
  "sh_status (aggregate hs) = HEALTHY \<longleftrightarrow> hs \<noteq> [] \<and> (\<forall>h\<in>set hs. ch_status h = HEALTHY)"
proof (cases "hs = []")
  case False
  show ?thesis
  proof
    assume all: "sh_status (aggregate hs) = HEALTHY"
    have "ch_status h = HEALTHY" if "h \<in> set hs" for h
      using aggregate_ge[OF that] all HEALTHY_least[of "ch_status h"] by (simp add: order_antisym)
    then show "hs \<noteq> [] \<and> (\<forall>h\<in>set hs. ch_status h = HEALTHY)" using False by blast
  next
    assume "hs \<noteq> [] \<and> (\<forall>h\<in>set hs. ch_status h = HEALTHY)"
    then show "sh_status (aggregate hs) = HEALTHY" using aggregate_attained[of hs] by auto
  qed
qed (simp add: aggregate_def)

lemma aggregate_blocks_iff:
  "sh_blocks_new_entries (aggregate hs) \<longleftrightarrow>
     (\<exists>h\<in>set hs. ch_blocking h \<and> ch_status h \<noteq> HEALTHY)"
  by (simp add: aggregate_def list_ex_iff)

lemma aggregate_healthy_not_blocked:
  "sh_status (aggregate hs) = HEALTHY \<Longrightarrow> \<not> sh_blocks_new_entries (aggregate hs)"
  by (auto simp: aggregate_healthy_iff aggregate_blocks_iff)

end
