(* ===== verification/Metrics.thy ===== *)
theory Metrics
  imports Prelude
begin

text \<open>
  \<open>market_data/metrics.py\<close>: the in-memory metrics sink, a dictionary of counters and a dictionary of
  observation lists.
\<close>

record metrics =
  counters :: "string \<Rightarrow> int option"
  observations :: "string \<Rightarrow> rat list option"

definition no_metrics :: metrics where
  "no_metrics = \<lparr>counters = Map.empty, observations = Map.empty\<rparr>"

definition increment :: "string \<Rightarrow> int \<Rightarrow> metrics \<Rightarrow> metrics" where
  "increment name v m =
     m\<lparr>counters := (counters m)(name \<mapsto> (case counters m name of None \<Rightarrow> 0 | Some c \<Rightarrow> c) + v)\<rparr>"

definition observe :: "string \<Rightarrow> rat \<Rightarrow> metrics \<Rightarrow> metrics" where
  "observe name v m =
     m\<lparr>observations := (observations m)
         (name \<mapsto> (case observations m name of None \<Rightarrow> [] | Some xs \<Rightarrow> xs) @ [v])\<rparr>"

text \<open>The reading of a counter, absent counters being zero.\<close>

definition counter :: "metrics \<Rightarrow> string \<Rightarrow> int" where
  "counter m name = (case counters m name of None \<Rightarrow> 0 | Some c \<Rightarrow> c)"

lemma counter_increment [simp]:
  "counter (increment a v m) b = (if a = b then counter m b + v else counter m b)"
  by (simp add: counter_def increment_def)

lemma counter_observe [simp]: "counter (observe a v m) b = counter m b"
  by (simp add: counter_def observe_def)

lemma counter_no_metrics [simp]: "counter no_metrics a = 0"
  by (simp add: counter_def no_metrics_def)

lemma observations_increment [simp]: "observations (increment a v m) = observations m"
  by (simp add: increment_def)

end
