(* ===== verification/Market_State.thy ===== *)
theory Market_State
  imports Feature_Models Calendar Health Metrics
begin

text \<open>
  \<open>market_state/models.py\<close> and \<open>market_state/rules.py\<close>: routing settings, the audit evidence, the pure
  classification of a feature snapshot and the fixed mapping from a state to permissions.
\<close>

datatype market_state = TREND_UP | TREND_DOWN | CHOP | HIGH_VOL | OPEN_SHOCK | RISK_OFF

fun market_state_name :: "market_state \<Rightarrow> string" where
  "market_state_name TREND_UP = ''TREND_UP''"
| "market_state_name TREND_DOWN = ''TREND_DOWN''"
| "market_state_name CHOP = ''CHOP''"
| "market_state_name HIGH_VOL = ''HIGH_VOL''"
| "market_state_name OPEN_SHOCK = ''OPEN_SHOCK''"
| "market_state_name RISK_OFF = ''RISK_OFF''"

datatype alpha_family =
    CROSS_SECTIONAL_MOMENTUM | MOMENTUM_BREAKOUT | PAIRS_STAT_ARB | VWAP_MEAN_REVERSION
  | SECTOR_RELATIVE_VALUE

datatype side = LONG | SHORT

record router_settings =
  rs_version :: string
  rs_formula_revision :: string
  rs_vwap_distance :: rat
  rs_slope_15m :: rat
  rs_slope_30m :: rat
  rs_breadth_fraction :: rat
  rs_high_realized_vol :: rat
  rs_high_range_vol :: rat
  rs_high_vix :: rat
  rs_opening_gap :: rat
  rs_stabilization_seconds :: int
  rs_shock_window_seconds :: int
  rs_confirmation_count :: int
  rs_min_duration_seconds :: int
  rs_max_confirmation_gap_seconds :: int
  rs_feature_max_age_seconds :: int
  rs_health_max_age_seconds :: int
  rs_flicker_window_seconds :: int
  rs_trend_multiplier :: rat
  rs_chop_multiplier :: rat
  rs_high_vol_multiplier :: rat

definition router_settings_ok :: "router_settings \<Rightarrow> bool" where
  "router_settings_ok s \<longleftrightarrow>
     rs_formula_revision s = ''1''
     \<and> 0 < rs_vwap_distance s \<and> rs_vwap_distance s < 1
     \<and> 0 < rs_slope_15m s \<and> rs_slope_15m s < 1
     \<and> 0 < rs_slope_30m s \<and> rs_slope_30m s < 1
     \<and> 1 / 2 < rs_breadth_fraction s \<and> rs_breadth_fraction s \<le> 1
     \<and> 0 < rs_high_realized_vol s \<and> 0 < rs_high_range_vol s \<and> 0 < rs_high_vix s
     \<and> 0 < rs_opening_gap s \<and> rs_opening_gap s < 1
     \<and> 0 \<le> rs_stabilization_seconds s \<and> 0 < rs_shock_window_seconds s
     \<and> 1 \<le> rs_confirmation_count s \<and> 0 \<le> rs_min_duration_seconds s
     \<and> 0 < rs_max_confirmation_gap_seconds s \<and> 0 \<le> rs_feature_max_age_seconds s
     \<and> 0 \<le> rs_health_max_age_seconds s \<and> 0 \<le> rs_flicker_window_seconds s
     \<and> 0 \<le> rs_trend_multiplier s \<and> rs_trend_multiplier s \<le> 1
     \<and> 0 \<le> rs_chop_multiplier s \<and> rs_chop_multiplier s \<le> 1
     \<and> 0 \<le> rs_high_vol_multiplier s \<and> rs_high_vol_multiplier s \<le> 1
     \<and> rs_stabilization_seconds s \<le> rs_shock_window_seconds s
     \<and> rs_high_vol_multiplier s \<le> rs_chop_multiplier s
     \<and> rs_chop_multiplier s \<le> rs_trend_multiplier s"

record routing_health =
  rh_observed_at :: instant
  rh_system_status :: health_status
  rh_risk_status :: health_status
  rh_blocks_new_entries :: bool
  rh_reasons :: "string list"

text \<open>\<open>RoutingHealth.from_system\<close>: the oldest observation dates the whole health input.\<close>

definition from_system :: "system_health \<Rightarrow> health_status \<Rightarrow> routing_health result" where
  "from_system sh risk =
     (if sh_components sh = [] then
        Inl (ValueError ''health requires timestamped component observations'')
      else Inr \<lparr>rh_observed_at =
                  Min (set (map (\<lambda>h. instant_of (ch_observed_at h)) (sh_components sh))),
                rh_system_status = sh_status sh, rh_risk_status = risk,
                rh_blocks_new_entries = sh_blocks_new_entries sh,
                rh_reasons = map (\<lambda>h. ch_component h @ '':'' @ ch_message h) (sh_components sh)\<rparr>)"

datatype threshold_op = Ge | Le | Eq | Abs_Ge

record threshold_evidence =
  te_name :: string
  te_value :: "rat option"
  te_operator :: threshold_op
  te_threshold :: rat
  te_passed :: bool
  te_missing_reason :: "string option"

record state_evidence =
  se_feature_snapshot_hash :: string
  se_feature_set_hash :: string
  se_router_version_hash :: string
  se_thresholds :: "threshold_evidence list"
  se_health :: routing_health
  se_session_open :: "instant option"
  se_reasons :: "string list"

record state_decision =
  sd_timestamp :: instant
  sd_state :: market_state
  sd_candidate :: market_state
  sd_previous_state :: market_state
  sd_state_since :: instant
  sd_confirmation_count :: int
  sd_allowed_alpha_families :: "alpha_family list"
  sd_directional_sides :: "side list"
  sd_gross_risk_multiplier :: rat
  sd_evidence :: state_evidence
  sd_settings :: router_settings
  sd_code_commit :: string
  sd_config_hash :: string
  sd_data_snapshot :: string
  sd_prior_decision_hash :: "string option"

text \<open>\<open>version_hash\<close> is the content hash of the settings, a parameter.\<close>

definition mk_state_decision ::
  "(router_settings \<Rightarrow> string) \<Rightarrow> state_decision \<Rightarrow> state_decision result" where
  "mk_state_decision version_hash d =
     (if \<not> (0 \<le> sd_gross_risk_multiplier d \<and> sd_gross_risk_multiplier d \<le> 1) then
        Inl (ValueError ''gross_risk_multiplier out of range'')
      else if sd_timestamp d < sd_state_since d then
        Inl (ValueError ''state start cannot be in the future'')
      else if se_router_version_hash (sd_evidence d) \<noteq> version_hash (sd_settings d) then
        Inl (ValueError ''router configuration hash mismatch'')
      else if sd_state d \<in> {RISK_OFF, OPEN_SHOCK}
              \<and> (sd_allowed_alpha_families d \<noteq> [] \<or> sd_directional_sides d \<noteq> []
                 \<or> sd_gross_risk_multiplier d \<noteq> 0) then
        Inl (ValueError ''blocked state cannot grant risk or alpha permissions'')
      else Inr d)"

subsection \<open>Evidence\<close>

record evidence_builder =
  eb_values :: "string \<Rightarrow> feature_value option"
  eb_checks :: "threshold_evidence list"

definition new_evidence :: "feature_snapshot \<Rightarrow> evidence_builder" where
  "new_evidence s = \<lparr>eb_values = values_by_name s, eb_checks = []\<rparr>"

fun holds :: "threshold_op \<Rightarrow> rat \<Rightarrow> rat \<Rightarrow> bool" where
  "holds Ge v t \<longleftrightarrow> t \<le> v"
| "holds Le v t \<longleftrightarrow> v \<le> t"
| "holds Eq v t \<longleftrightarrow> v = t"
| "holds Abs_Ge v t \<longleftrightarrow> t \<le> \<bar>v\<bar>"

definition record_check ::
  "string \<Rightarrow> rat option \<Rightarrow> threshold_op \<Rightarrow> rat \<Rightarrow> string option \<Rightarrow> evidence_builder
     \<Rightarrow> bool \<times> evidence_builder" where
  "record_check name value operator threshold missing e =
     (let passed = (case value of None \<Rightarrow> False | Some v \<Rightarrow> holds operator v threshold)
      in (passed, e\<lparr>eb_checks := eb_checks e @
            [\<lparr>te_name = name, te_value = value, te_operator = operator, te_threshold = threshold,
              te_passed = passed, te_missing_reason = missing\<rparr>]\<rparr>))"

definition feature_of :: "evidence_builder \<Rightarrow> string \<Rightarrow> rat option" where
  "feature_of e name = Option.bind (eb_values e name) fv_value"

definition check_feature ::
  "string \<Rightarrow> threshold_op \<Rightarrow> rat \<Rightarrow> evidence_builder \<Rightarrow> bool \<times> evidence_builder" where
  "check_feature name operator threshold e =
     (let item = eb_values e name; value = feature_of e name
      in record_check name value operator threshold
           (case Option.bind item fv_reason of
              Some r \<Rightarrow> Some (missing_name r)
            | None \<Rightarrow> if value = None then Some ''MISSING_INPUT'' else None) e)"

text \<open>A tuple of checks is evaluated from left to right.\<close>

fun check_all ::
  "(string \<times> threshold_op \<times> rat) list \<Rightarrow> evidence_builder \<Rightarrow> bool list \<times> evidence_builder" where
  "check_all [] e = ([], e)"
| "check_all ((name, operator, threshold) # cs) e =
     (let (b, e1) = check_feature name operator threshold e; (bs, e2) = check_all cs e1
      in (b # bs, e2))"

fun record_all ::
  "(string \<times> rat \<times> threshold_op \<times> rat) list \<Rightarrow> evidence_builder \<Rightarrow> bool list \<times> evidence_builder" where
  "record_all [] e = ([], e)"
| "record_all ((name, value, operator, threshold) # cs) e =
     (let (b, e1) = record_check name (Some value) operator threshold None e;
          (bs, e2) = record_all cs e1
      in (b # bs, e2))"

subsection \<open>Classification\<close>

definition high_checks :: "router_settings \<Rightarrow> (string \<times> threshold_op \<times> rat) list" where
  "high_checks cfg =
     [(''market.realized_volatility'', Ge, rs_high_realized_vol cfg),
      (''market.range_volatility'', Ge, rs_high_range_vol cfg),
      (''market.vix_level'', Ge, rs_high_vix cfg)]"

definition up_checks :: "router_settings \<Rightarrow> (string \<times> threshold_op \<times> rat) list" where
  "up_checks cfg =
     [(''market.vwap_distance'', Ge, rs_vwap_distance cfg),
      (''market.slope_15m'', Ge, rs_slope_15m cfg),
      (''market.slope_30m'', Ge, rs_slope_30m cfg),
      (''market.breadth_advancing'', Ge, rs_breadth_fraction cfg)]"

definition down_checks :: "router_settings \<Rightarrow> (string \<times> threshold_op \<times> rat) list" where
  "down_checks cfg =
     [(''market.vwap_distance'', Le, - rs_vwap_distance cfg),
      (''market.slope_15m'', Le, - rs_slope_15m cfg),
      (''market.slope_30m'', Le, - rs_slope_30m cfg),
      (''market.breadth_declining'', Ge, rs_breadth_fraction cfg)]"

definition balanced_checks :: "router_settings \<Rightarrow> (string \<times> threshold_op \<times> rat) list" where
  "balanced_checks cfg =
     [(''market.vwap_distance'', Le, rs_vwap_distance cfg),
      (''market.vwap_distance'', Ge, - rs_vwap_distance cfg),
      (''market.slope_15m'', Le, rs_slope_15m cfg),
      (''market.slope_15m'', Ge, - rs_slope_15m cfg),
      (''market.slope_30m'', Le, rs_slope_30m cfg),
      (''market.slope_30m'', Ge, - rs_slope_30m cfg),
      (''market.breadth_advancing'', Le, rs_breadth_fraction cfg),
      (''market.breadth_declining'', Le, rs_breadth_fraction cfg)]"

definition required_features :: "bool \<Rightarrow> string list" where
  "required_features opening =
     [''market.realized_volatility'', ''market.range_volatility'', ''market.vwap_distance'',
      ''market.slope_15m'', ''market.slope_30m'', ''market.breadth_advancing'',
      ''market.breadth_declining''] @ (if opening then [''market.opening_gap''] else [])"

definition classify ::
  "router_settings \<Rightarrow> rat \<Rightarrow> evidence_builder \<Rightarrow> market_state \<times> evidence_builder" where
  "classify cfg elapsed e0 =
     (let (stabilizing, e1) = record_check ''session.elapsed_seconds'' (Some elapsed) Le
                                (of_int (rs_stabilization_seconds cfg)) None e0;
          (opening, e2) = record_check ''session.shock_window'' (Some elapsed) Le
                            (of_int (rs_shock_window_seconds cfg)) None e1;
          (gap, e3) = check_feature ''market.opening_gap'' Abs_Ge (rs_opening_gap cfg) e2;
          (high, e4) = check_all (high_checks cfg) e3;
          (up, e5) = check_all (up_checks cfg) e4;
          (down, e6) = check_all (down_checks cfg) e5;
          (coverage, e7) = check_feature ''market.breadth_coverage'' Eq 1 e6
      in if stabilizing \<or> opening \<and> (gap \<or> list_ex id high) then (OPEN_SHOCK, e7)
         else if \<not> coverage \<or> list_ex (\<lambda>name. feature_of e7 name = None) (required_features opening)
         then (RISK_OFF, e7)
         else if list_ex id high then (HIGH_VOL, e7)
         else if list_all id up then (TREND_UP, e7)
         else if list_all id down then (TREND_DOWN, e7)
         else let (balanced, e8) = check_all (balanced_checks cfg) e7
              in (if list_all id balanced then CHOP else RISK_OFF, e8))"

subsection \<open>Permissions\<close>

definition permissions ::
  "market_state \<Rightarrow> router_settings \<Rightarrow> alpha_family list \<times> side list \<times> rat" where
  "permissions state cfg =
     (if state \<in> {RISK_OFF, OPEN_SHOCK} then ([], [], 0)
      else if state = CHOP then
        ([PAIRS_STAT_ARB, VWAP_MEAN_REVERSION, SECTOR_RELATIVE_VALUE], [], rs_chop_multiplier cfg)
      else if state = HIGH_VOL then ([SECTOR_RELATIVE_VALUE], [], rs_high_vol_multiplier cfg)
      else ([CROSS_SECTIONAL_MOMENTUM, MOMENTUM_BREAKOUT, SECTOR_RELATIVE_VALUE],
            if state = TREND_UP then [LONG] else [SHORT], rs_trend_multiplier cfg))"

definition perm_families :: "market_state \<Rightarrow> router_settings \<Rightarrow> alpha_family list" where
  "perm_families s cfg = fst (permissions s cfg)"

definition perm_sides :: "market_state \<Rightarrow> router_settings \<Rightarrow> side list" where
  "perm_sides s cfg = fst (snd (permissions s cfg))"

definition perm_multiplier :: "market_state \<Rightarrow> router_settings \<Rightarrow> rat" where
  "perm_multiplier s cfg = snd (snd (permissions s cfg))"

lemmas perm_defs = perm_families_def perm_sides_def perm_multiplier_def permissions_def

lemma perm_multiplier_range:
  "router_settings_ok cfg \<Longrightarrow> 0 \<le> perm_multiplier s cfg \<and> perm_multiplier s cfg \<le> 1"
  by (simp add: perm_defs router_settings_ok_def)

lemma perm_blocked [simp]:
  "perm_families RISK_OFF cfg = []" "perm_sides RISK_OFF cfg = []" "perm_multiplier RISK_OFF cfg = 0"
  "perm_families OPEN_SHOCK cfg = []" "perm_sides OPEN_SHOCK cfg = []" "perm_multiplier OPEN_SHOCK cfg = 0"
  by (simp_all add: perm_defs)

subsection \<open>What the classification computes\<close>

text \<open>
  The evidence only grows, so the tests are functions of the feature values: \<open>passes\<close> is the value of
  one check, and \<open>classify\<close> has a closed form over it.
\<close>

definition passes :: "evidence_builder \<Rightarrow> string \<times> threshold_op \<times> rat \<Rightarrow> bool" where
  "passes e c = (case c of (name, operator, threshold) \<Rightarrow>
     (case feature_of e name of None \<Rightarrow> False | Some v \<Rightarrow> holds operator v threshold))"

lemma record_check_values [simp]: "eb_values (snd (record_check n v p t m e)) = eb_values e"
  by (simp add: record_check_def Let_def)

lemma record_check_fst: "fst (record_check n (Some v) p t m e) = holds p v t"
  by (simp add: record_check_def Let_def)

lemma check_feature_values [simp]: "eb_values (snd (check_feature n p t e)) = eb_values e"
  by (simp add: check_feature_def Let_def)

lemma check_feature_fst: "fst (check_feature n p t e) = passes e (n, p, t)"
  by (simp add: check_feature_def Let_def record_check_def passes_def)

lemma feature_of_cong: "eb_values e = eb_values e' \<Longrightarrow> feature_of e = feature_of e'"
  by (simp add: feature_of_def fun_eq_iff)

lemma passes_cong: "eb_values e = eb_values e' \<Longrightarrow> passes e = passes e'"
  using feature_of_cong[of e e'] by (simp add: passes_def fun_eq_iff)

lemma check_all_eq:
  "fst (check_all cs e) = map (passes e) cs \<and> eb_values (snd (check_all cs e)) = eb_values e"
proof (induction cs arbitrary: e)
  case (Cons c cs)
  obtain n p t where c: "c = (n, p, t)" by (cases c)
  let ?e1 = "snd (check_feature n p t e)"
  have "passes ?e1 = passes e" by (rule passes_cong) simp
  then show ?case using Cons.IH[of ?e1] by (auto simp: c split_beta Let_def check_feature_fst)
qed simp

lemma check_all_fst [simp]: "fst (check_all cs e) = map (passes e) cs"
  and check_all_values [simp]: "eb_values (snd (check_all cs e)) = eb_values e"
  using check_all_eq by auto

lemma classify_fst:
  "fst (classify cfg elapsed e) =
     (let high = list_ex (passes e) (high_checks cfg);
          opening = (elapsed \<le> of_int (rs_shock_window_seconds cfg))
      in if elapsed \<le> of_int (rs_stabilization_seconds cfg)
            \<or> opening \<and> (passes e (''market.opening_gap'', Abs_Ge, rs_opening_gap cfg) \<or> high)
         then OPEN_SHOCK
         else if \<not> passes e (''market.breadth_coverage'', Eq, 1)
                 \<or> list_ex (\<lambda>n. feature_of e n = None) (required_features opening) then RISK_OFF
         else if high then HIGH_VOL
         else if list_all (passes e) (up_checks cfg) then TREND_UP
         else if list_all (passes e) (down_checks cfg) then TREND_DOWN
         else if list_all (passes e) (balanced_checks cfg) then CHOP else RISK_OFF)"
proof -
  define e1 where "e1 = snd (record_check ''session.elapsed_seconds'' (Some elapsed) Le
      (of_int (rs_stabilization_seconds cfg)) None e)"
  define e2 where "e2 = snd (record_check ''session.shock_window'' (Some elapsed) Le
      (of_int (rs_shock_window_seconds cfg)) None e1)"
  define e3 where "e3 = snd (check_feature ''market.opening_gap'' Abs_Ge (rs_opening_gap cfg) e2)"
  define e4 where "e4 = snd (check_all (high_checks cfg) e3)"
  define e5 where "e5 = snd (check_all (up_checks cfg) e4)"
  define e6 where "e6 = snd (check_all (down_checks cfg) e5)"
  define e7 where "e7 = snd (check_feature ''market.breadth_coverage'' Eq 1 e6)"
  have v: "eb_values e1 = eb_values e" "eb_values e2 = eb_values e" "eb_values e3 = eb_values e"
    "eb_values e4 = eb_values e" "eb_values e5 = eb_values e" "eb_values e6 = eb_values e"
    "eb_values e7 = eb_values e"
    by (simp_all only: e1_def e2_def e3_def e4_def e5_def e6_def e7_def record_check_values
        check_feature_values check_all_values)
  have p: "passes e1 = passes e" "passes e2 = passes e" "passes e3 = passes e"
    "passes e4 = passes e" "passes e5 = passes e" "passes e6 = passes e" "passes e7 = passes e"
    by (rule passes_cong, rule v)+
  have f: "feature_of e7 = feature_of e" by (rule feature_of_cong) (rule v)
  have r: "fst (classify cfg elapsed e) =
     (if fst (record_check ''session.elapsed_seconds'' (Some elapsed) Le
          (of_int (rs_stabilization_seconds cfg)) None e)
         \<or> fst (record_check ''session.shock_window'' (Some elapsed) Le
          (of_int (rs_shock_window_seconds cfg)) None e1)
         \<and> (fst (check_feature ''market.opening_gap'' Abs_Ge (rs_opening_gap cfg) e2)
            \<or> list_ex id (fst (check_all (high_checks cfg) e3)))
      then OPEN_SHOCK
      else if \<not> fst (check_feature ''market.breadth_coverage'' Eq 1 e6)
         \<or> list_ex (\<lambda>n. feature_of e7 n = None) (required_features
            (fst (record_check ''session.shock_window'' (Some elapsed) Le
              (of_int (rs_shock_window_seconds cfg)) None e1))) then RISK_OFF
      else if list_ex id (fst (check_all (high_checks cfg) e3)) then HIGH_VOL
      else if list_all id (fst (check_all (up_checks cfg) e4)) then TREND_UP
      else if list_all id (fst (check_all (down_checks cfg) e5)) then TREND_DOWN
      else if list_all id (fst (check_all (balanced_checks cfg) e7)) then CHOP else RISK_OFF)"
    unfolding classify_def Let_def split_beta e7_def e6_def e5_def e4_def e3_def e2_def e1_def
    by (simp only: if_distrib[of fst] fst_conv)
  have lists: "list_ex id (map h xs) = list_ex h xs" "list_all id (map h xs) = list_all h xs"
    for h :: "string \<times> threshold_op \<times> rat \<Rightarrow> bool" and xs
    by (simp_all add: list_ex_iff list_all_iff)
  show ?thesis
    unfolding r f p check_all_fst check_feature_fst record_check_fst lists holds.simps Let_def ..
qed

end
