(* ===== verification/Router.thy ===== *)
theory Router
  imports Market_State
begin

text \<open>
  \<open>market_state/router.py\<close>: the receipt-ordered router with its immediate safety veto, and the baseline of
  \<open>market_state/research.py\<close>.  The calendar is the router's \<open>session_on\<close> function; the content hashes of
  snapshots, health inputs, settings and decisions are the record \<open>router_hashes\<close>.
\<close>

record router_hashes =
  snapshot_hash :: "feature_snapshot \<Rightarrow> string"
  health_hash :: "routing_health \<Rightarrow> string"
  settings_hash :: "router_settings \<Rightarrow> string"
  decision_hash :: "state_decision \<Rightarrow> string"

record router =
  rt_settings :: router_settings
  rt_calendar :: "day \<Rightarrow> session option result"
  rt_timezone :: zone
  rt_metrics :: metrics
  rt_last :: "state_decision option"
  rt_identity :: "string option"
  rt_pending :: "market_state option"
  rt_count :: int
  rt_feature_time :: "instant option"

definition router_new ::
  "router_settings \<Rightarrow> (day \<Rightarrow> session option result) \<Rightarrow> zone \<Rightarrow> metrics \<Rightarrow> router" where
  "router_new cfg son z m =
     \<lparr>rt_settings = cfg, rt_calendar = son, rt_timezone = z, rt_metrics = m, rt_last = None,
      rt_identity = None, rt_pending = None, rt_count = 0, rt_feature_time = None\<rparr>"

subsection \<open>The steps of one decision\<close>

text \<open>\<open>identity\<close> of an input.\<close>

definition input_identity ::
  "router_hashes \<Rightarrow> feature_snapshot \<Rightarrow> routing_health \<Rightarrow> instant \<Rightarrow> string" where
  "input_identity H s hl now = snapshot_hash H s @ health_hash H hl @ iso_instant now"

definition bool_rat :: "bool \<Rightarrow> rat" where
  "bool_rat b = (if b then 1 else 0)"

text \<open>The tuple \<open>safe\<close>; every entry is recorded, whatever the others are.\<close>

definition safety_checks ::
  "router_settings \<Rightarrow> feature_snapshot \<Rightarrow> routing_health \<Rightarrow> instant
     \<Rightarrow> (string \<times> rat \<times> threshold_op \<times> rat) list" where
  "safety_checks cfg s hl now =
     (let health_age = total_seconds (now - rh_observed_at hl);
          feature_age = total_seconds (now - sn_timestamp s)
      in [(''health.system_status'', of_int (status_value (rh_system_status hl)), Eq,
             of_int (status_value HEALTHY)),
          (''health.risk_status'', of_int (status_value (rh_risk_status hl)), Eq,
             of_int (status_value HEALTHY)),
          (''health.blocks_new_entries'', bool_rat (rh_blocks_new_entries hl), Eq, 0),
          (''health.age_seconds'', health_age, Ge, 0),
          (''health.age_seconds'', health_age, Le, of_int (rs_health_max_age_seconds cfg)),
          (''feature.age_seconds'', feature_age, Ge, 0),
          (''feature.age_seconds'', feature_age, Le, of_int (rs_feature_max_age_seconds cfg))])"

text \<open>\<open>session_bounds\<close>, where only \<open>CalendarCoverageError\<close> means "no session".\<close>

definition router_bounds :: "router \<Rightarrow> instant \<Rightarrow> (instant \<times> instant) option result" where
  "router_bounds r now =
     (case session_bounds (rt_calendar r) (rt_timezone r) now of
        Inl (CalendarCoverageError m) \<Rightarrow> Inr None
      | Inl e \<Rightarrow> Inl e
      | Inr b \<Rightarrow> Inr b)"

definition in_session :: "(instant \<times> instant) option \<Rightarrow> instant \<Rightarrow> instant \<Rightarrow> bool" where
  "in_session bounds feature now =
     (case bounds of None \<Rightarrow> False
      | Some (opening, closing) \<Rightarrow> opening \<le> feature \<and> feature \<le> now \<and> now < closing)"

text \<open>The candidate, its reasons and the evidence up to the classification.\<close>

definition route_candidate ::
  "router_settings \<Rightarrow> (instant \<times> instant) option \<Rightarrow> feature_snapshot \<Rightarrow> routing_health \<Rightarrow> instant
     \<Rightarrow> market_state \<times> string list \<times> evidence_builder" where
  "route_candidate cfg bounds s hl now =
     (let (safe, e1) = record_all (safety_checks cfg s hl now) (new_evidence s);
          inside = in_session bounds (sn_timestamp s) now;
          (_, e2) = record_check ''session.confirmed_active'' (Some (bool_rat inside)) Eq 1 None e1;
          (candidate, e3) = (case bounds of
              None \<Rightarrow> (RISK_OFF, e2)
            | Some (opening, _) \<Rightarrow> classify cfg (total_seconds (now - opening)) e2);
          reasons = [''RULE_'' @ market_state_name candidate]
      in if \<not> list_all id safe \<or> \<not> inside then (RISK_OFF, reasons @ [''SAFETY_VETO''], e3)
         else (candidate, reasons, e3))"

definition immediate :: "market_state \<Rightarrow> bool" where
  "immediate s \<longleftrightarrow> s \<in> {RISK_OFF, OPEN_SHOCK, HIGH_VOL}"

text \<open>\<open>_pending\<close> and \<open>_count\<close> after an observation; \<open>reset\<close> is a new session or a gap.\<close>

definition advance_pending ::
  "bool \<Rightarrow> market_state \<Rightarrow> instant \<Rightarrow> router \<Rightarrow> market_state option \<times> int" where
  "advance_pending reset candidate feature r =
     (let (pending, count) = (if reset then (None, 0) else (rt_pending r, rt_count r));
          fresh = (case rt_feature_time r of None \<Rightarrow> True | Some t \<Rightarrow> t < feature);
          count = (if Some candidate \<noteq> pending then 0 else count)
      in (Some candidate, if fresh then count + 1 else count))"

text \<open>Pending transitions cannot retain permissions that current evidence disallows.\<close>

definition granted ::
  "router_settings \<Rightarrow> market_state \<Rightarrow> market_state \<Rightarrow> alpha_family list \<times> side list \<times> rat" where
  "granted cfg state candidate =
     (let (families, sides, multiplier) = permissions state cfg;
          (wanted, wanted_sides, wanted_multiplier) = permissions candidate cfg;
          families = filter (\<lambda>f. f \<in> set wanted) families;
          sides = filter (\<lambda>s. s \<in> set wanted_sides) sides;
          families = (if sides = [] then
              filter (\<lambda>f. f \<notin> {CROSS_SECTIONAL_MOMENTUM, MOMENTUM_BREAKOUT}) families else families)
      in (families, sides, if families = [] then 0 else min multiplier wanted_multiplier))"

definition transition_metrics ::
  "router_settings \<Rightarrow> state_decision option \<Rightarrow> market_state \<Rightarrow> instant \<Rightarrow> metrics \<Rightarrow> metrics" where
  "transition_metrics cfg prior state now m =
     (case prior of None \<Rightarrow> m | Some d \<Rightarrow>
        if state = sd_state d then m
        else let lasted = total_seconds (now - sd_state_since d);
                 m = increment ''market_state.transitions'' 1 m;
                 m = increment (''market_state.transition.'' @ market_state_name (sd_state d) @ ''.''
                       @ market_state_name state) 1 m;
                 m = observe ''market_state.duration_seconds'' lasted m
             in if lasted < of_int (rs_flicker_window_seconds cfg)
                then increment ''market_state.flicker_transitions'' 1 m else m)"

subsection \<open>\<open>route\<close>\<close>

text \<open>
  The body after the guards: the decision before its validation, with the router whose pending transition
  and metrics are already updated.
\<close>

definition draft ::
  "router_hashes \<Rightarrow> feature_snapshot \<Rightarrow> routing_health \<Rightarrow> instant \<Rightarrow> (instant \<times> instant) option
     \<Rightarrow> router \<Rightarrow> state_decision \<times> router" where
  "draft H s hl now bounds r =
     (let prior = rt_last r; cfg = rt_settings r;
          opening = map_option fst bounds;
          (candidate, reasons, e1) = route_candidate cfg bounds s hl now;
          new_session = (case prior of None \<Rightarrow> True
            | Some d \<Rightarrow> opening \<noteq> se_session_open (sd_evidence d));
          previous = (case prior of None \<Rightarrow> RISK_OFF | Some d \<Rightarrow> sd_state d);
          state = (if new_session then RISK_OFF else previous);
          since = (if new_session then now else case prior of None \<Rightarrow> now | Some d \<Rightarrow> sd_state_since d);
          gap = (case prior of None \<Rightarrow> False
            | Some d \<Rightarrow> of_int (rs_max_confirmation_gap_seconds cfg) < total_seconds (now - sd_timestamp d));
          (pending, count) = advance_pending (new_session \<or> gap) candidate (sn_timestamp s) r;
          dwell = total_seconds (now - since);
          (_, e2) = record_check ''transition.confirmations'' (Some (of_int count)) Ge
                      (of_int (rs_confirmation_count cfg)) None e1;
          (_, e3) = record_check ''transition.dwell_seconds'' (Some dwell) Ge
                      (of_int (rs_min_duration_seconds cfg)) None e2;
          moves = (candidate \<noteq> state \<and> (immediate candidate
                    \<or> rs_confirmation_count cfg \<le> count \<and> of_int (rs_min_duration_seconds cfg) \<le> dwell));
          held = (candidate \<noteq> state \<and> \<not> moves);
          reasons = (if held then reasons @ [''TRANSITION_PENDING''] else reasons);
          m = (if held then increment ''market_state.suppressed_transitions'' 1 (rt_metrics r)
               else rt_metrics r);
          (state, since) = (if moves then (candidate, now) else (state, since));
          (families, sides, multiplier) = granted cfg state candidate;
          m = transition_metrics cfg prior state now m;
          m = increment ''market_state.decisions'' 1 m;
          m = increment (''market_state.state.'' @ market_state_name state) 1 m;
          r = r\<lparr>rt_pending := pending, rt_count := count, rt_metrics := m\<rparr>
      in (\<lparr>sd_timestamp = now, sd_state = state, sd_candidate = candidate,
           sd_previous_state = previous, sd_state_since = since, sd_confirmation_count = count,
           sd_allowed_alpha_families = families, sd_directional_sides = sides,
           sd_gross_risk_multiplier = multiplier,
           sd_evidence =
             \<lparr>se_feature_snapshot_hash = snapshot_hash H s,
              se_feature_set_hash = sn_feature_set_hash s,
              se_router_version_hash = settings_hash H cfg,
              se_thresholds = eb_checks e3, se_health = hl, se_session_open = opening,
              se_reasons = reasons\<rparr>,
           sd_settings = cfg, sd_code_commit = sn_code_commit s, sd_config_hash = sn_config_hash s,
           sd_data_snapshot = sn_data_snapshot s,
           sd_prior_decision_hash = map_option (decision_hash H) prior\<rparr>, r))"

definition decide ::
  "router_hashes \<Rightarrow> feature_snapshot \<Rightarrow> routing_health \<Rightarrow> instant \<Rightarrow> (instant \<times> instant) option
     \<Rightarrow> router \<Rightarrow> state_decision result \<times> router" where
  "decide H s hl now bounds r =
     (let (d, r1) = draft H s hl now bounds r
      in case mk_state_decision (settings_hash H) d of
           Inl err \<Rightarrow> (Inl err, r1)
         | Inr decision \<Rightarrow>
             (Inr decision,
              r1\<lparr>rt_last := Some decision, rt_identity := Some (input_identity H s hl now),
                 rt_feature_time := Some (case rt_feature_time r of None \<Rightarrow> sn_timestamp s
                                          | Some t \<Rightarrow> max (sn_timestamp s) t)\<rparr>))"

definition route ::
  "router_hashes \<Rightarrow> feature_snapshot \<Rightarrow> routing_health \<Rightarrow> pydatetime \<Rightarrow> router
     \<Rightarrow> state_decision result \<times> router" where
  "route H s hl at_time r =
     (case utc at_time of Inl e \<Rightarrow> (Inl e, r) | Inr now \<Rightarrow>
        (let identity = input_identity H s hl now;
             regressed = (case rt_last r of None \<Rightarrow> False | Some d \<Rightarrow> now < sd_timestamp d);
             same = (case rt_last r of None \<Rightarrow> False | Some d \<Rightarrow> now = sd_timestamp d)
         in if regressed then
              (Inl (ValueError ''router input time regressed; replay in chronological order''), r)
            else case rt_last r of
              Some d \<Rightarrow>
                if rt_identity r = Some identity then (Inr d, r)
                else if same then (Inl (ValueError ''conflicting router input at same timestamp''), r)
                else (case router_bounds r now of Inl e \<Rightarrow> (Inl e, r)
                      | Inr bounds \<Rightarrow> decide H s hl now bounds r)
            | None \<Rightarrow> (case router_bounds r now of Inl e \<Rightarrow> (Inl e, r)
                      | Inr bounds \<Rightarrow> decide H s hl now bounds r)))"

subsection \<open>The candidate\<close>

lemma record_all_fst:
  "fst (record_all cs e) = map (\<lambda>(n, v, p, t). holds p v t) cs"
  and record_all_values [simp]: "eb_values (snd (record_all cs e)) = eb_values e"
  by (induction cs arbitrary: e) (auto simp: split_beta Let_def record_check_fst)

definition age_ok :: "instant \<Rightarrow> instant \<Rightarrow> int \<Rightarrow> bool" where
  "age_ok now observed seconds \<longleftrightarrow> observed \<le> now \<and> now - observed \<le> microseconds seconds"

definition input_safe ::
  "router_settings \<Rightarrow> feature_snapshot \<Rightarrow> routing_health \<Rightarrow> instant \<Rightarrow> bool" where
  "input_safe cfg s hl now \<longleftrightarrow>
     rh_system_status hl = HEALTHY \<and> rh_risk_status hl = HEALTHY \<and> \<not> rh_blocks_new_entries hl
     \<and> age_ok now (rh_observed_at hl) (rs_health_max_age_seconds cfg)
     \<and> age_ok now (sn_timestamp s) (rs_feature_max_age_seconds cfg)"

text \<open>Limits below 272 years, so that ages in seconds and in microseconds compare alike.\<close>

definition ages_representable :: "router_settings \<Rightarrow> bool" where
  "ages_representable cfg \<longleftrightarrow>
     0 \<le> rs_health_max_age_seconds cfg \<and> rs_health_max_age_seconds cfg < 8589934592
     \<and> 0 \<le> rs_feature_max_age_seconds cfg \<and> rs_feature_max_age_seconds cfg < 8589934592"

lemma status_value_healthy: "status_value h = status_value HEALTHY \<longleftrightarrow> h = HEALTHY"
  by (cases h) auto

lemma safety_checks_safe:
  assumes "ages_representable cfg"
  shows "list_all id (fst (record_all (safety_checks cfg s hl now) e)) \<longleftrightarrow> input_safe cfg s hl now"
  using assms status_value_healthy[of "rh_system_status hl"] status_value_healthy[of "rh_risk_status hl"]
  unfolding record_all_fst safety_checks_def Let_def
  by (auto simp: input_safe_def age_ok_def bool_rat_def ages_representable_def total_seconds_le_iff
      simp del: status_value.simps record_all.simps)

lemma route_candidate_fst:
  "fst (route_candidate cfg bounds s hl now) =
     (if list_all id (fst (record_all (safety_checks cfg s hl now) (new_evidence s)))
         \<and> in_session bounds (sn_timestamp s) now
      then fst (classify cfg (total_seconds (now - fst (the bounds))) (new_evidence s))
      else RISK_OFF)"
proof -
  have cong: "fst (classify cfg t e) = fst (classify cfg t e')" if "eb_values e = eb_values e'" for t e e'
    unfolding classify_fst passes_cong[OF that] feature_of_cong[OF that] ..
  show ?thesis
    by (cases bounds)
      (auto simp: route_candidate_def Let_def split_beta in_session_def intro!: cong)
qed

lemma unsafe_candidate:
  assumes "ages_representable cfg"
    and "\<not> (input_safe cfg s hl now \<and> in_session bounds (sn_timestamp s) now)"
  shows "fst (route_candidate cfg bounds s hl now) = RISK_OFF"
  using assms by (auto simp: route_candidate_fst safety_checks_safe)

subsection \<open>The draft decision\<close>

definition new_session_for :: "(instant \<times> instant) option \<Rightarrow> router \<Rightarrow> bool" where
  "new_session_for bounds r = (case rt_last r of None \<Rightarrow> True
     | Some d \<Rightarrow> map_option fst bounds \<noteq> se_session_open (sd_evidence d))"

text \<open>The state and its start that a decision departs from.\<close>

definition base_state :: "(instant \<times> instant) option \<Rightarrow> router \<Rightarrow> market_state" where
  "base_state bounds r = (if new_session_for bounds r then RISK_OFF
     else case rt_last r of None \<Rightarrow> RISK_OFF | Some d \<Rightarrow> sd_state d)"

definition base_since :: "(instant \<times> instant) option \<Rightarrow> router \<Rightarrow> instant \<Rightarrow> instant" where
  "base_since bounds r now = (if new_session_for bounds r then now
     else case rt_last r of None \<Rightarrow> now | Some d \<Rightarrow> sd_state_since d)"

lemma draft_fields:
  defines "d \<equiv> \<lambda>H s hl now bounds r. fst (draft H s hl now bounds r)"
  shows draft_timestamp: "sd_timestamp (d H s hl now bounds r) = now"
    and draft_candidate: "sd_candidate (d H s hl now bounds r) =
      fst (route_candidate (rt_settings r) bounds s hl now)"
    and draft_settings: "sd_settings (d H s hl now bounds r) = rt_settings r"
    and draft_prior: "sd_prior_decision_hash (d H s hl now bounds r) =
      map_option (decision_hash H) (rt_last r)"
    and draft_version: "se_router_version_hash (sd_evidence (d H s hl now bounds r)) =
      settings_hash H (rt_settings r)"
    and draft_session: "se_session_open (sd_evidence (d H s hl now bounds r)) = map_option fst bounds"
    and draft_previous: "sd_previous_state (d H s hl now bounds r) =
      (case rt_last r of None \<Rightarrow> RISK_OFF | Some p \<Rightarrow> sd_state p)"
  unfolding d_def draft_def Let_def split_beta by simp_all

lemma draft_granted:
  assumes "d = fst (draft H s hl now bounds r)"
  shows "granted (rt_settings r) (sd_state d) (sd_candidate d) =
    (sd_allowed_alpha_families d, sd_directional_sides d, sd_gross_risk_multiplier d)"
  unfolding assms draft_def Let_def split_beta by simp

lemma draft_state:
  assumes "d = fst (draft H s hl now bounds r)"
  shows "(sd_state d, sd_state_since d) =
    (if sd_candidate d \<noteq> base_state bounds r
        \<and> (immediate (sd_candidate d)
           \<or> rs_confirmation_count (rt_settings r) \<le> sd_confirmation_count d
             \<and> of_int (rs_min_duration_seconds (rt_settings r))
               \<le> total_seconds (now - base_since bounds r now))
     then (sd_candidate d, now) else (base_state bounds r, base_since bounds r now))"
  unfolding assms draft_def Let_def split_beta base_state_def base_since_def new_session_for_def
  by simp

lemma draft_count:
  assumes "d = fst (draft H s hl now bounds r)"
  shows "\<exists>reset. advance_pending reset (sd_candidate d) (sn_timestamp s) r =
      (Some (sd_candidate d), sd_confirmation_count d)
    \<and> (new_session_for bounds r \<longrightarrow> reset)"
  unfolding assms draft_def Let_def split_beta new_session_for_def
  by (simp add: advance_pending_def Let_def split_beta) blast

subsection \<open>Permissions granted\<close>

lemma granted_sound:
  assumes "granted cfg state candidate = (families, sides, multiplier)" "router_settings_ok cfg"
  shows "set families \<subseteq> set (perm_families state cfg) \<inter> set (perm_families candidate cfg)"
    and "set sides \<subseteq> set (perm_sides state cfg) \<inter> set (perm_sides candidate cfg)"
    and "0 \<le> multiplier" "multiplier \<le> perm_multiplier state cfg"
    "multiplier \<le> perm_multiplier candidate cfg"
    and "families = [] \<Longrightarrow> multiplier = 0"
    and "sides = [] \<Longrightarrow> CROSS_SECTIONAL_MOMENTUM \<notin> set families \<and> MOMENTUM_BREAKOUT \<notin> set families"
  using assms perm_multiplier_range[OF assms(2), of state] perm_multiplier_range[OF assms(2), of candidate]
  by (auto simp: granted_def perm_families_def perm_sides_def perm_multiplier_def split_beta Let_def
      split: if_splits)

lemma granted_blocked:
  assumes "granted cfg state candidate = (families, sides, multiplier)"
    and "state \<in> {RISK_OFF, OPEN_SHOCK} \<or> candidate \<in> {RISK_OFF, OPEN_SHOCK}"
  shows "families = [] \<and> sides = [] \<and> multiplier = 0"
  using assms by (auto simp: granted_def permissions_def Let_def split: prod.splits if_splits)

subsection \<open>Decisions and the router's invariant\<close>

definition decision_sound :: "state_decision \<Rightarrow> bool" where
  "decision_sound d \<longleftrightarrow>
     sd_state_since d \<le> sd_timestamp d
     \<and> granted (sd_settings d) (sd_state d) (sd_candidate d) =
         (sd_allowed_alpha_families d, sd_directional_sides d, sd_gross_risk_multiplier d)"

definition router_ok :: "router \<Rightarrow> bool" where
  "router_ok r \<longleftrightarrow> router_settings_ok (rt_settings r)
     \<and> (case rt_last r of None \<Rightarrow> True
        | Some d \<Rightarrow> decision_sound d \<and> sd_settings d = rt_settings r)"

definition fresh_input :: "router \<Rightarrow> instant \<Rightarrow> bool" where
  "fresh_input r now = (case rt_last r of None \<Rightarrow> True | Some d \<Rightarrow> sd_timestamp d < now)"

lemma router_new_ok: "router_settings_ok cfg \<Longrightarrow> router_ok (router_new cfg son z m)"
  by (simp add: router_ok_def router_new_def)

lemma mk_state_decision_Inr: "mk_state_decision vh d = Inr d' \<Longrightarrow> d' = d"
  by (auto simp: mk_state_decision_def split: if_splits)

lemma draft_frame:
  "rt_settings (snd (draft H s hl now bounds r)) = rt_settings r"
  "rt_last (snd (draft H s hl now bounds r)) = rt_last r"
  "rt_calendar (snd (draft H s hl now bounds r)) = rt_calendar r"
  "rt_timezone (snd (draft H s hl now bounds r)) = rt_timezone r"
  unfolding draft_def Let_def split_beta by simp_all

lemma base_since_le:
  assumes "router_ok r" "fresh_input r now"
  shows "base_since bounds r now \<le> now"
  using assms by (auto simp: base_since_def router_ok_def decision_sound_def fresh_input_def split: option.splits)

lemma draft_sound:
  assumes ok: "router_ok r" "fresh_input r now" and d: "d = fst (draft H s hl now bounds r)"
  shows "decision_sound d"
proof -
  have "sd_state_since d \<le> now"
    using draft_state[OF d] base_since_le[OF ok, of bounds] by (auto split: if_splits)
  then show ?thesis
    using draft_granted[OF d] by (simp add: decision_sound_def d draft_timestamp draft_settings)
qed

text \<open>Whatever the inputs, a draft passes the validators of \<open>StateDecision\<close>.\<close>

lemma draft_validates:
  assumes ok: "router_ok r" "fresh_input r now" and d: "d = fst (draft H s hl now bounds r)"
  shows "mk_state_decision (settings_hash H) d = Inr d"
proof -
  have cfg: "router_settings_ok (rt_settings r)" using ok(1) by (simp add: router_ok_def)
  note g = draft_granted[OF d]
  have "0 \<le> sd_gross_risk_multiplier d \<and> sd_gross_risk_multiplier d \<le> 1"
    using granted_sound(3,4)[OF g cfg] perm_multiplier_range[OF cfg, of "sd_state d"] by auto
  moreover have "sd_state_since d \<le> sd_timestamp d"
    using draft_sound[OF ok d] by (simp add: decision_sound_def)
  moreover have "se_router_version_hash (sd_evidence d) = settings_hash H (sd_settings d)"
    by (simp add: d draft_version draft_settings)
  ultimately show ?thesis
    using granted_blocked[OF g] by (auto simp: mk_state_decision_def)
qed

lemma decide_total:
  assumes "router_ok r" "fresh_input r now"
  shows "decide H s hl now bounds r =
    (Inr (fst (draft H s hl now bounds r)),
     (snd (draft H s hl now bounds r))
       \<lparr>rt_last := Some (fst (draft H s hl now bounds r)),
        rt_identity := Some (input_identity H s hl now),
        rt_feature_time := Some (case rt_feature_time r of None \<Rightarrow> sn_timestamp s
                                 | Some t \<Rightarrow> max (sn_timestamp s) t)\<rparr>)"
  using draft_validates[OF assms refl] by (simp add: decide_def split_beta Let_def)

lemma decide_Inr:
  assumes "decide H s hl now bounds r = (Inr d, r')"
  shows "d = fst (draft H s hl now bounds r)" "rt_last r' = Some d" "rt_settings r' = rt_settings r"
  using assms
  by (auto simp: decide_def split_beta Let_def draft_frame mk_state_decision_Inr split: sum.splits)

text \<open>The outcomes of \<open>route\<close>: a repeated input, a rejected one, or a decision.\<close>

lemma route_cases:
  assumes "route H s hl t r = (res, r')"
  obtains (duplicate) d where "rt_last r = Some d" "res = Inr d" "r' = r"
      "rt_identity r = Some (input_identity H s hl (instant_of t))"
    | (rejected) e where "res = Inl e" "r' = r"
    | (decided) bounds where "aware t" "fresh_input r (instant_of t)"
      "router_bounds r (instant_of t) = Inr bounds"
      "decide H s hl (instant_of t) bounds r = (res, r')"
proof (cases "aware t")
  case False
  then have "route H s hl t r = (Inl (ValueError ''timestamp must be timezone-aware''), r)"
    by (simp add: route_def utc_def)
  then show thesis using assms rejected by auto
next
  case True
  let ?now = "instant_of t"
  show thesis
  proof (cases "fresh_input r ?now \<and> rt_identity r \<noteq> Some (input_identity H s hl ?now)
                \<or> rt_last r = None")
    case fresh: True
    have f: "fresh_input r ?now" using fresh by (auto simp: fresh_input_def)
    have eq: "route H s hl t r = (case router_bounds r ?now of Inl e \<Rightarrow> (Inl e, r)
                      | Inr bounds \<Rightarrow> decide H s hl ?now bounds r)"
      using fresh True by (cases "rt_last r") (simp_all add: route_def utc_def Let_def fresh_input_def)
    show thesis
    proof (cases "router_bounds r ?now")
      case (Inl e)
      then show thesis using assms eq rejected by auto
    next
      case (Inr b)
      then show thesis using assms eq decided[OF True f Inr] by simp
    qed
  next
    case False
    then obtain d where d: "rt_last r = Some d" by auto
    show thesis
    proof (cases "rt_identity r = Some (input_identity H s hl ?now) \<and> \<not> ?now < sd_timestamp d")
      case same: True
      then have "route H s hl t r = (Inr d, r)" using d True by (simp add: route_def utc_def Let_def)
      then show thesis using assms duplicate[OF d] same by simp
    next
      case other: False
      then have "\<exists>e. route H s hl t r = (Inl e, r)"
        using d True False by (auto simp: route_def utc_def Let_def fresh_input_def)
      then show thesis using assms rejected by auto
    qed
  qed
qed

lemma route_fresh:
  assumes "fresh_input r (instant_of t)" "aware t" "router_bounds r (instant_of t) = Inr bounds"
    and "\<And>d. rt_last r = Some d \<Longrightarrow> rt_identity r \<noteq> Some (input_identity H s hl (instant_of t))"
  shows "route H s hl t r = decide H s hl (instant_of t) bounds r"
  using assms by (auto simp: route_def Let_def utc_def fresh_input_def split: option.splits)

subsection \<open>A concrete router\<close>

definition example_settings :: router_settings where
  "example_settings =
     \<lparr>rs_version = ''market-state-research-v1'', rs_formula_revision = ''1'',
      rs_vwap_distance = 1 / 1024, rs_slope_15m = 1 / 4096, rs_slope_30m = 1 / 8192,
      rs_breadth_fraction = 5 / 8, rs_high_realized_vol = 1 / 256, rs_high_range_vol = 1 / 128,
      rs_high_vix = 25, rs_opening_gap = 1 / 64, rs_stabilization_seconds = 900,
      rs_shock_window_seconds = 1800, rs_confirmation_count = 2, rs_min_duration_seconds = 600,
      rs_max_confirmation_gap_seconds = 600, rs_feature_max_age_seconds = 300,
      rs_health_max_age_seconds = 30, rs_flicker_window_seconds = 900, rs_trend_multiplier = 1,
      rs_chop_multiplier = 1 / 2, rs_high_vol_multiplier = 1 / 4\<rparr>"

definition example_snapshot :: "instant \<Rightarrow> rat \<Rightarrow> feature_snapshot" where
  "example_snapshot i vix =
     \<lparr>sn_entity = ''NIFTY'', sn_timestamp = i, sn_feature_set_hash = [], sn_context_hash = [],
      sn_input_hash = [], sn_code_commit = ''c'', sn_config_hash = [], sn_data_snapshot = ''d'',
      sn_values = map (\<lambda>(n, v). \<lparr>fv_name = n, fv_value = Some v, fv_reason = None\<rparr>)
        [(''market.breadth_advancing'', 7 / 8), (''market.breadth_coverage'', 1),
         (''market.breadth_declining'', 1 / 8), (''market.opening_gap'', 0),
         (''market.range_volatility'', 0), (''market.realized_volatility'', 0),
         (''market.slope_15m'', 1 / 1024), (''market.slope_30m'', 1 / 1024),
         (''market.vix_level'', vix), (''market.vwap_distance'', 1 / 128)]\<rparr>"

definition example_health :: "instant \<Rightarrow> health_status \<Rightarrow> routing_health" where
  "example_health i st = \<lparr>rh_observed_at = i, rh_system_status = st, rh_risk_status = HEALTHY,
     rh_blocks_new_entries = False, rh_reasons = []\<rparr>"

definition example_router :: router where
  "example_router = router_new example_settings (session_on nse_2026) kolkata no_metrics"

lemma example_settings_ok: "router_settings_ok example_settings"
  by code_simp

lemma example_router_ok: "router_ok example_router"
  unfolding example_router_def by (rule router_new_ok[OF example_settings_ok])

text \<open>10:30 in Kolkata on Tuesday 2026-07-07.\<close>

definition example_now :: instant where
  "example_now = combine kolkata 20641 (minutes 630)"

definition example_hashes :: router_hashes where
  "example_hashes = \<lparr>snapshot_hash = (\<lambda>s. if sn_timestamp s = example_now then ''a'' else ''b''), health_hash = (\<lambda>_. ''h''),
     settings_hash = (\<lambda>_. ''cfg''), decision_hash = (\<lambda>d. iso_instant (sd_timestamp d))\<rparr>"

lemma example_bounds:
  "router_bounds example_router example_now = Inr (Some (1783395900000000, 1783418400000000))"
  by code_simp

definition example_route :: "state_decision result \<times> router" where
  "example_route = route example_hashes (example_snapshot example_now 10)
     (example_health example_now HEALTHY) (Aware example_now 0) example_router"

lemma example_route_Inr: "\<exists>d r'. example_route = (Inr d, r')"
proof -
  have f: "fresh_input example_router example_now"
    by (simp add: fresh_input_def example_router_def router_new_def)
  have "example_route = decide example_hashes (example_snapshot example_now 10)
      (example_health example_now HEALTHY) example_now
      (Some (1783395900000000, 1783418400000000)) example_router"
    unfolding example_route_def
    by (subst route_fresh) (use f example_bounds in \<open>simp_all add: example_router_def router_new_def\<close>)
  then show ?thesis unfolding decide_total[OF example_router_ok f] by blast
qed

subsection \<open>Properties\<close>

lemma router_bounds_cases:
  "in_session bounds f now \<longleftrightarrow>
     (\<exists>opening closing. bounds = Some (opening, closing) \<and> opening \<le> f \<and> f \<le> now \<and> now < closing)"
  by (auto simp: in_session_def split: option.splits)

lemma route_ok:
  assumes "router_ok r" "route H s hl t r = (res, r')"
  shows "router_ok r'"
  using assms(2)
proof (cases rule: route_cases)
  case (decided bounds)
  then show ?thesis
    using assms(1) draft_sound[OF assms(1) decided(2) refl, of H s hl bounds]
    by (auto simp: decide_total[OF assms(1) decided(2)] router_ok_def draft_frame draft_settings)
qed (use assms(1) in simp_all)

text \<open>
  C2.  Fail closed: with valid settings, a new timely input whose health or feature age is not good, or that
  lies outside a confirmed session, always yields a decision (never an exception), and that decision is
  \<open>RISK_OFF\<close> with no family, no side and multiplier 0.
\<close>

theorem route_fail_closed:
  assumes "router_ok r" "aware t" "fresh_input r (instant_of t)"
    and "router_bounds r (instant_of t) = Inr bounds" "ages_representable (rt_settings r)"
    and "rt_identity r \<noteq> Some (input_identity H s hl (instant_of t))"
    and unsafe: "\<not> (input_safe (rt_settings r) s hl (instant_of t)
                   \<and> in_session bounds (sn_timestamp s) (instant_of t))"
  shows "\<exists>d r'. route H s hl t r = (Inr d, r') \<and> sd_state d = RISK_OFF \<and> sd_candidate d = RISK_OFF
    \<and> sd_allowed_alpha_families d = [] \<and> sd_directional_sides d = [] \<and> sd_gross_risk_multiplier d = 0"
proof -
  let ?d = "fst (draft H s hl (instant_of t) bounds r)"
  have r: "fst (route H s hl t r) = Inr ?d"
    using assms by (simp add: route_fresh decide_total)
  have c: "sd_candidate ?d = RISK_OFF"
    using unsafe_candidate[OF assms(5) unsafe] by (simp add: draft_candidate)
  moreover have st: "sd_state ?d = RISK_OFF"
    using draft_state[OF refl, of H s hl "instant_of t" bounds r] c
    by (auto simp: immediate_def split: if_splits)
  ultimately show ?thesis
    using granted_blocked[OF draft_granted[OF refl, of r H s hl "instant_of t" bounds]] r
    by (metis insertI1 prod.collapse)
qed

theorem route_fail_closed_witness:
  "\<exists>d r'. route example_hashes (example_snapshot example_now 10) (example_health example_now DEGRADED)
       (Aware example_now 0) example_router = (Inr d, r')
     \<and> sd_state d = RISK_OFF \<and> sd_candidate d = RISK_OFF
     \<and> sd_allowed_alpha_families d = [] \<and> sd_directional_sides d = [] \<and> sd_gross_risk_multiplier d = 0"
  by (rule route_fail_closed[OF example_router_ok])
    (use example_bounds in \<open>simp_all add: fresh_input_def example_router_def router_new_def
       ages_representable_def example_settings_def input_safe_def example_health_def\<close>)

text \<open>
  C11.  No decision ever grants more than its state and its candidate both allow: families, sides and
  multiplier are within both permission sets, the multiplier is 0 without a family, and the momentum families
  need a side.
\<close>

theorem route_permissions:
  assumes "router_ok r" "route H s hl t r = (Inr d, r')"
  shows "set (sd_allowed_alpha_families d) \<subseteq>
      set (perm_families (sd_state d) (rt_settings r)) \<inter> set (perm_families (sd_candidate d) (rt_settings r))
    \<and> set (sd_directional_sides d) \<subseteq>
      set (perm_sides (sd_state d) (rt_settings r)) \<inter> set (perm_sides (sd_candidate d) (rt_settings r))
    \<and> 0 \<le> sd_gross_risk_multiplier d
    \<and> sd_gross_risk_multiplier d \<le> min (perm_multiplier (sd_state d) (rt_settings r))
        (perm_multiplier (sd_candidate d) (rt_settings r))
    \<and> (sd_allowed_alpha_families d = [] \<longrightarrow> sd_gross_risk_multiplier d = 0)
    \<and> (sd_directional_sides d = [] \<longrightarrow>
        CROSS_SECTIONAL_MOMENTUM \<notin> set (sd_allowed_alpha_families d)
        \<and> MOMENTUM_BREAKOUT \<notin> set (sd_allowed_alpha_families d))"
proof -
  have "rt_last r' = Some d \<and> rt_settings r' = rt_settings r"
    using assms(2) by (cases rule: route_cases) (auto dest: decide_Inr)
  then have "granted (rt_settings r) (sd_state d) (sd_candidate d) =
      (sd_allowed_alpha_families d, sd_directional_sides d, sd_gross_risk_multiplier d)"
    and "router_settings_ok (rt_settings r)"
    using route_ok[OF assms] by (auto simp: router_ok_def decision_sound_def)
  from granted_sound[OF this] show ?thesis by simp
qed

theorem route_permissions_witness:
  "\<exists>d r'. example_route = (Inr d, r')
     \<and> set (sd_directional_sides d) \<subseteq> set (perm_sides (sd_candidate d) example_settings)
     \<and> sd_gross_risk_multiplier d \<le> perm_multiplier (sd_state d) example_settings"
proof -
  obtain d r' where d: "example_route = (Inr d, r')" using example_route_Inr by blast
  have "rt_settings example_router = example_settings" by (simp add: example_router_def router_new_def)
  then show ?thesis
    using route_permissions[OF example_router_ok d[unfolded example_route_def]] d by auto
qed

text \<open>
  C12.  Conservative transitions: a decision's state differs from the one it departs from only if it is the
  session reset to \<open>RISK_OFF\<close>, an immediate state, or a candidate that reached the required number of
  confirmations after the required dwell time; and an immediate candidate always takes effect at once.
\<close>

theorem route_transition:
  assumes "route H s hl t r = (Inr d, r')" "rt_last r = Some p"
    and "rt_identity r \<noteq> Some (input_identity H s hl (instant_of t))"
  shows "(sd_state d = sd_state p
      \<or> sd_state d = RISK_OFF \<and> se_session_open (sd_evidence d) \<noteq> se_session_open (sd_evidence p)
      \<or> sd_state d = sd_candidate d
        \<and> (sd_candidate d \<in> {RISK_OFF, OPEN_SHOCK, HIGH_VOL}
           \<or> rs_confirmation_count (rt_settings r) \<le> sd_confirmation_count d
             \<and> of_int (rs_min_duration_seconds (rt_settings r))
               \<le> total_seconds (instant_of t - (if se_session_open (sd_evidence d)
                   = se_session_open (sd_evidence p) then sd_state_since p else instant_of t))))
    \<and> (sd_candidate d \<in> {RISK_OFF, OPEN_SHOCK, HIGH_VOL} \<longrightarrow> sd_state d = sd_candidate d)"
  using assms(1)
proof (cases rule: route_cases)
  case (decided bounds)
  have d: "d = fst (draft H s hl (instant_of t) bounds r)" by (rule decide_Inr(1)[OF decided(4)])
  have o: "se_session_open (sd_evidence d) = map_option fst bounds" by (simp add: d draft_session)
  show ?thesis
    using draft_state[OF d] assms(2) o
    by (auto simp: base_state_def base_since_def new_session_for_def immediate_def split: if_splits)
qed (use assms in simp_all)

lemma route_Inr_last:
  assumes "route H s hl t r = (Inr d, r')"
  shows "rt_last r' = Some d" "rt_settings r' = rt_settings r"
  using assms by (cases rule: route_cases; auto dest: decide_Inr)+

definition later :: instant where
  "later = example_now + microseconds 60"

lemma example_second_route:
  "\<exists>p r1 d r2. example_route = (Inr p, r1) \<and> rt_last r1 = Some p
     \<and> rt_identity r1 \<noteq> Some (input_identity example_hashes (example_snapshot later 10)
          (example_health later HEALTHY) later)
     \<and> route example_hashes (example_snapshot later 10) (example_health later HEALTHY)
          (Aware later 0) r1 = (Inr d, r2)"
proof -
  obtain p r1 where 1: "example_route = (Inr p, r1)" using example_route_Inr by blast
  note r1 = 1[unfolded example_route_def]
  have ok: "router_ok r1" by (rule route_ok[OF example_router_ok r1])
  from r1 have p: "rt_last r1 = Some p \<and> sd_timestamp p = example_now
    \<and> rt_identity r1 = Some (input_identity example_hashes (example_snapshot example_now 10)
          (example_health example_now HEALTHY) example_now)
    \<and> rt_calendar r1 = rt_calendar example_router \<and> rt_timezone r1 = rt_timezone example_router"
  proof (cases rule: route_cases)
    case (decided b)
    have f: "fresh_input example_router example_now" using decided(2) by simp
    show ?thesis
      using decided(4) by (auto simp: decide_total[OF example_router_ok f] draft_timestamp draft_frame)
  qed (simp_all add: example_router_def router_new_def)
  have f: "fresh_input r1 later" using p by (simp add: fresh_input_def later_def microseconds_def)
  have b: "router_bounds r1 later = Inr (Some (1783395900000000, 1783418400000000))"
  proof -
    have "router_bounds r1 later = router_bounds example_router later"
      using p by (simp add: router_bounds_def)
    also have "\<dots> = Inr (Some (1783395900000000, 1783418400000000))" by code_simp
    finally show ?thesis .
  qed
  have i: "input_identity example_hashes (example_snapshot example_now 10)
      (example_health example_now HEALTHY) example_now
    \<noteq> input_identity example_hashes (example_snapshot later 10) (example_health later HEALTHY) later"
    by (simp add: input_identity_def example_hashes_def example_snapshot_def later_def microseconds_def)
  have n: "rt_identity r1 \<noteq> Some (input_identity example_hashes (example_snapshot later 10)
          (example_health later HEALTHY) later)" (is "_ \<noteq> Some ?i")
    using p i by simp
  have "route example_hashes (example_snapshot later 10) (example_health later HEALTHY)
      (Aware later 0) r1 = decide example_hashes (example_snapshot later 10)
      (example_health later HEALTHY) later (Some (1783395900000000, 1783418400000000)) r1"
    using route_fresh[of r1 "Aware later 0", unfolded instant_of.simps diff_zero, OF f _ b n]
    by simp
  then have "\<exists>d r2. route example_hashes (example_snapshot later 10) (example_health later HEALTHY)
      (Aware later 0) r1 = (Inr d, r2)"
    unfolding decide_total[OF ok f] by blast
  then show ?thesis using 1 p n by blast
qed

theorem route_transition_witness:
  "\<exists>p r1 d r2. example_route = (Inr p, r1)
     \<and> route example_hashes (example_snapshot later 10) (example_health later HEALTHY)
         (Aware later 0) r1 = (Inr d, r2)
     \<and> (sd_candidate d \<in> {RISK_OFF, OPEN_SHOCK, HIGH_VOL} \<longrightarrow> sd_state d = sd_candidate d)"
proof -
  obtain p r1 d r2 where 1: "example_route = (Inr p, r1)" "rt_last r1 = Some p"
    and i: "rt_identity r1 \<noteq> Some (input_identity example_hashes (example_snapshot later 10)
          (example_health later HEALTHY) later)"
    and 2: "route example_hashes (example_snapshot later 10) (example_health later HEALTHY)
          (Aware later 0) r1 = (Inr d, r2)"
    using example_second_route by blast
  have "rt_identity r1 \<noteq> Some (input_identity example_hashes (example_snapshot later 10)
          (example_health later HEALTHY) (instant_of (Aware later 0)))" using i by simp
  from route_transition[OF 2 1(2) this] 1(1) 2 show ?thesis by blast
qed

text \<open>
  An input already decided is answered by the same decision and leaves the router as it is, metrics
  included.
\<close>

theorem route_idempotent:
  assumes "route H s hl t r = (Inr d, r')"
  shows "route H s hl t r' = (Inr d, r')"
  using assms
proof (cases rule: route_cases)
  case (duplicate d')
  then show ?thesis using assms by simp
next
  case (decided bounds)
  have d: "d = fst (draft H s hl (instant_of t) bounds r)" by (rule decide_Inr(1)[OF decided(4)])
  have "rt_last r' = Some d" "rt_identity r' = Some (input_identity H s hl (instant_of t))"
    using decided(4) by (auto simp: decide_def split_beta Let_def split: sum.splits)
  moreover have "sd_timestamp d = instant_of t" by (simp add: d draft_timestamp)
  ultimately show ?thesis using decided(1) by (simp add: route_def utc_def Let_def)
qed simp

theorem route_idempotent_witness:
  "\<exists>d r'. example_route = (Inr d, r')
     \<and> route example_hashes (example_snapshot example_now 10) (example_health example_now HEALTHY)
         (Aware example_now 0) r' = (Inr d, r')"
proof -
  obtain d r' where d: "example_route = (Inr d, r')" using example_route_Inr by blast
  then show ?thesis using route_idempotent[OF d[unfolded example_route_def]] by blast
qed

text \<open>The decisions of a sequence of inputs; an input that raises leaves none.\<close>

fun route_run ::
  "router_hashes \<Rightarrow> (feature_snapshot \<times> routing_health \<times> pydatetime) list \<Rightarrow> router
     \<Rightarrow> state_decision list \<times> router" where
  "route_run H [] r = ([], r)"
| "route_run H ((s, hl, t) # inputs) r =
     (case route H s hl t r of (res, r1) \<Rightarrow>
        (case route_run H inputs r1 of (ds, r2) \<Rightarrow>
           ((case res of Inl e \<Rightarrow> ds | Inr d \<Rightarrow> d # ds), r2)))"

definition links :: "router_hashes \<Rightarrow> state_decision \<Rightarrow> state_decision \<Rightarrow> bool" where
  "links H a b \<longleftrightarrow> a = b
     \<or> sd_timestamp a < sd_timestamp b \<and> sd_prior_decision_hash b = Some (decision_hash H a)"

lemma decide_Inl_last: "decide H s hl now bounds r = (Inl e, r') \<Longrightarrow> rt_last r' = rt_last r"
  by (auto simp: decide_def split_beta Let_def draft_frame split: sum.splits)

lemma route_links:
  assumes "route H s hl t r = (Inr d, r')"
  shows "rt_last r' = Some d" "\<And>a. rt_last r = Some a \<Longrightarrow> links H a d"
    "rt_last r = None \<Longrightarrow> sd_prior_decision_hash d = None"
proof -
  show "rt_last r' = Some d" by (rule route_Inr_last(1)[OF assms])
  show "\<And>a. rt_last r = Some a \<Longrightarrow> links H a d" "rt_last r = None \<Longrightarrow> sd_prior_decision_hash d = None"
    using assms
    by (cases rule: route_cases;
        auto simp: links_def fresh_input_def draft_timestamp draft_prior dest!: decide_Inr(1))+
qed

lemma route_Inl_last: "route H s hl t r = (Inl e, r') \<Longrightarrow> rt_last r' = rt_last r"
  by (erule route_cases) (auto dest: decide_Inl_last)

lemma route_run_links:
  "route_run H inputs r = (ds, r') \<Longrightarrow> successively (links H) ds
     \<and> (\<forall>a d. rt_last r = Some a \<longrightarrow> ds \<noteq> [] \<longrightarrow> d = hd ds \<longrightarrow> links H a d)"
proof (induction H inputs r arbitrary: ds r' rule: route_run.induct)
  case (2 H s hl t inputs r)
  obtain res r1 where 1: "route H s hl t r = (res, r1)" by (cases "route H s hl t r")
  obtain ds1 where 3: "route_run H inputs r1 = (ds1, r')" and
    ds: "ds = (case res of Inl e \<Rightarrow> ds1 | Inr d \<Rightarrow> d # ds1)"
    using "2.prems" by (auto simp: 1 split: prod.splits)
  note IH = "2.IH"[OF 1[symmetric] 3]
  show ?case
  proof (cases res)
    case (Inl e)
    then show ?thesis using IH ds route_Inl_last[OF 1[unfolded Inl]] by simp
  next
    case (Inr d)
    then show ?thesis using IH ds route_links[OF 1[unfolded Inr]] by (auto simp: successively_Cons)
  qed
qed simp

text \<open>
  C13.  The audit chain: in the decisions that any sequence of inputs produces from a new router, every
  decision is either the repeated answer to a repeated input or is strictly later than the one before and
  carries its hash.
\<close>

theorem route_chain:
  "successively (\<lambda>a b. a = b
       \<or> sd_timestamp a < sd_timestamp b \<and> sd_prior_decision_hash b = Some (decision_hash H a))
     (fst (route_run H inputs (router_new cfg son z m)))"
  using route_run_links[of H inputs "router_new cfg son z m"]
  unfolding links_def by (cases "route_run H inputs (router_new cfg son z m)") simp

text \<open>
  Confirmation needs new evidence: a decision whose feature snapshot is not newer than those already
  used never raises the confirmation count, and a new one raises it by at most one.
\<close>

theorem route_confirmation:
  assumes "route H s hl t r = (Inr d, r')" "0 \<le> rt_count r"
    and "rt_identity r \<noteq> Some (input_identity H s hl (instant_of t))"
  shows "sd_confirmation_count d \<le> rt_count r
      + (case rt_feature_time r of None \<Rightarrow> 1 | Some f \<Rightarrow> if f < sn_timestamp s then 1 else 0)"
  using assms(1)
proof (cases rule: route_cases)
  case (decided bounds)
  obtain reset where "advance_pending reset (sd_candidate d) (sn_timestamp s) r =
      (Some (sd_candidate d), sd_confirmation_count d)"
    using draft_count[OF decide_Inr(1)[OF decided(4)]] by blast
  then show ?thesis using assms(2)
    by (auto simp: advance_pending_def Let_def split: if_splits option.splits)
qed (use assms in simp_all)

theorem route_confirmation_witness:
  "\<exists>d r'. example_route = (Inr d, r') \<and> sd_confirmation_count d \<le> 1"
proof -
  obtain d r' where d: "example_route = (Inr d, r')" using example_route_Inr by blast
  have "rt_identity example_router = None" "rt_count example_router = 0"
    "rt_feature_time example_router = None"
    by (simp_all add: example_router_def router_new_def)
  then show ?thesis using route_confirmation[OF d[unfolded example_route_def]] d by auto
qed

subsection \<open>The research baseline\<close>

definition simple_vwap_slope :: "feature_snapshot \<Rightarrow> router_settings \<Rightarrow> market_state" where
  "simple_vwap_slope s cfg =
     (let e = new_evidence s
      in case (feature_of e ''market.vwap_distance'', feature_of e ''market.slope_15m'') of
           (Some vwap, Some slope) \<Rightarrow>
             if rs_vwap_distance cfg \<le> vwap \<and> rs_slope_15m cfg \<le> slope then TREND_UP
             else if vwap \<le> - rs_vwap_distance cfg \<and> slope \<le> - rs_slope_15m cfg then TREND_DOWN
             else CHOP
         | _ \<Rightarrow> RISK_OFF)"

record experiment_identity =
  xi_hypothesis_id :: string
  xi_code_commit :: string
  xi_data_snapshot :: string
  xi_search_family :: string
  xi_trials :: int

record baseline_comparison =
  bc_router_states :: "market_state list"
  bc_baseline_states :: "market_state list"
  bc_agreement_fraction :: rat
  bc_router_transitions :: nat
  bc_baseline_transitions :: nat
  bc_router_counts :: "market_state \<Rightarrow> nat"
  bc_baseline_counts :: "market_state \<Rightarrow> nat"

fun transitions :: "market_state list \<Rightarrow> nat" where
  "transitions (a # b # xs) = (if a \<noteq> b then 1 else 0) + transitions (b # xs)"
| "transitions xs = 0"

fun compare_loop ::
  "router_hashes \<Rightarrow> router_settings \<Rightarrow> experiment_identity
     \<Rightarrow> (feature_snapshot \<times> routing_health) list \<Rightarrow> instant option \<Rightarrow> router
     \<Rightarrow> (market_state list \<times> market_state list) result" where
  "compare_loop H cfg x [] previous r = Inr ([], [])"
| "compare_loop H cfg x ((s, hl) # rest) previous r =
     (if (case previous of None \<Rightarrow> False | Some p \<Rightarrow> sn_timestamp s \<le> p) then
        Inl (ValueError ''research observations must be strictly chronological'')
      else if sn_code_commit s \<noteq> xi_code_commit x \<or> sn_data_snapshot s \<noteq> xi_data_snapshot x then
        Inl (ValueError ''experiment provenance differs from feature inputs'')
      else case route H s hl (Aware (sn_timestamp s) 0) r of
          (Inl e, _) \<Rightarrow> Inl e
        | (Inr d, r1) \<Rightarrow>
            rbind (compare_loop H cfg x rest (Some (sn_timestamp s)) r1) (\<lambda>(routed, baseline).
              Inr (sd_state d # routed,
                   (if ''SAFETY_VETO'' \<in> set (se_reasons (sd_evidence d)) \<or> sd_candidate d = OPEN_SHOCK
                    then sd_candidate d else simple_vwap_slope s cfg) # baseline)))"

definition compare_baseline ::
  "router_hashes \<Rightarrow> (feature_snapshot \<times> routing_health) list \<Rightarrow> router_settings
     \<Rightarrow> (day \<Rightarrow> session option result) \<Rightarrow> zone \<Rightarrow> experiment_identity
     \<Rightarrow> baseline_comparison result" where
  "compare_baseline H obs cfg son z x =
     (if obs = [] then Inl (ValueError ''comparison requires observations'')
      else rbind (compare_loop H cfg x obs None (router_new cfg son z no_metrics))
        (\<lambda>(routed, baseline).
          Inr \<lparr>bc_router_states = routed, bc_baseline_states = baseline,
            bc_agreement_fraction = fl (of_nat (length (filter (\<lambda>(a, b). a = b) (zip routed baseline)))
              / of_nat (length routed)),
            bc_router_transitions = transitions routed,
            bc_baseline_transitions = transitions baseline,
            bc_router_counts = count_list routed, bc_baseline_counts = count_list baseline\<rparr>))"

lemma compare_loop_sound:
  "compare_loop H cfg x obs p r = Inr (routed, baseline) \<Longrightarrow>
     length routed = length obs \<and> length baseline = length obs
     \<and> sorted_wrt (<) ((case p of None \<Rightarrow> [] | Some t \<Rightarrow> [t]) @ map (\<lambda>o'. sn_timestamp (fst o')) obs)"
proof (induction H cfg x obs p r arbitrary: routed baseline rule: compare_loop.induct)
  case (2 H cfg x s hl rest previous r)
  obtain d r1 where d: "route H s hl (Aware (sn_timestamp s) 0) r = (Inr d, r1)"
    using "2.prems" by (auto split: if_splits sum.splits prod.splits)
  obtain ro ba where 1: "compare_loop H cfg x rest (Some (sn_timestamp s)) r1 = Inr (ro, ba)"
    "routed = sd_state d # ro" "length baseline = Suc (length ba)"
    using "2.prems" d by (auto simp: result_simps split: if_splits)
  show ?case
    using "2.IH"[OF _ _ d[symmetric] refl 1(1)] "2.prems" 1
    by (auto split: if_splits option.splits)
qed (auto split: option.splits)

end
