(* ===== verification/Market_Data.thy ===== *)
theory Market_Data
  imports Numerics Clock
begin

text \<open>
  \<open>market_data/models.py\<close> and \<open>price_flags\<close> of \<open>market_data/quality.py\<close>: vendor-neutral bars and
  quotes.  Timestamps are stored after their \<open>utc\<close> validator, prices and volumes are decimals.
\<close>

datatype quality_flag =
    INVALID_PRICE | IMPOSSIBLE_OHLC | INVALID_VOLUME | ZERO_VOLUME | ABNORMAL_GAP | ABNORMAL_VOLUME
  | DUPLICATE | MISSING_INTERVAL | OUT_OF_SESSION | MISALIGNED | INCOMPLETE | STALE
  | FUTURE_TIMESTAMP | CROSSED_QUOTE

datatype feed_kind = EQUITY | INDEX | SECTOR | VIX

record bar =
  b_instrument_id :: string
  b_source :: string
  b_received_at :: instant
  b_quality_flags :: "quality_flag set"
  b_feed_kind :: feed_kind
  b_schema_version :: string
  b_start :: instant
  b_end :: instant
  b_interval_minutes :: int
  b_open :: rat
  b_high :: rat
  b_low :: rat
  b_close :: rat
  b_volume :: rat
  b_complete :: bool

definition bar_ok :: "bar \<Rightarrow> bool" where
  "bar_ok b \<longleftrightarrow> b_instrument_id b \<noteq> [] \<and> b_source b \<noteq> []
     \<and> b_interval_minutes b \<in> {1, 5}
     \<and> b_end b - b_start b = minutes (b_interval_minutes b)"

definition mk_bar :: "bar \<Rightarrow> bar result" where
  "mk_bar b =
     (if b_instrument_id b = [] \<or> b_source b = [] then
        Inl (ValueError ''String should have at least 1 character'')
      else if \<not> (1 \<le> b_interval_minutes b \<and> b_interval_minutes b \<le> 5) then
        Inl (ValueError ''interval_minutes out of range'')
      else if b_interval_minutes b \<notin> {1, 5} then
        Inl (ValueError ''only 1m and 5m bars are supported'')
      else if b_end b - b_start b \<noteq> minutes (b_interval_minutes b) then
        Inl (ValueError ''bar duration differs from interval'')
      else Inr b)"

lemma mk_bar_Inr_iff: "mk_bar b = Inr b' \<longleftrightarrow> bar_ok b \<and> b' = b"
  by (auto simp: mk_bar_def bar_ok_def)

record quote =
  q_instrument_id :: string
  q_source :: string
  q_received_at :: instant
  q_quality_flags :: "quality_flag set"
  q_feed_kind :: feed_kind
  q_schema_version :: string
  q_timestamp :: instant
  q_bid :: rat
  q_ask :: rat
  q_last :: rat

definition quote_ok :: "quote \<Rightarrow> bool" where
  "quote_ok q \<longleftrightarrow> q_instrument_id q \<noteq> [] \<and> q_source q \<noteq> []"

definition price_flags :: "bar \<Rightarrow> quality_flag set" where
  "price_flags b =
     (if min (min (b_open b) (b_high b)) (min (b_low b) (b_close b)) \<le> 0 then {INVALID_PRICE} else {})
   \<union> (if \<not> (b_low b \<le> min (b_open b) (b_close b)
             \<and> min (b_open b) (b_close b) \<le> max (b_open b) (b_close b)
             \<and> max (b_open b) (b_close b) \<le> b_high b) then {IMPOSSIBLE_OHLC} else {})
   \<union> (if b_volume b < 0 then {INVALID_VOLUME} else {})
   \<union> (if b_volume b = 0 then {ZERO_VOLUME} else {})"

lemma price_flags_empty_iff:
  "price_flags b = {} \<longleftrightarrow> 0 < b_low b \<and> b_low b \<le> b_open b \<and> b_low b \<le> b_close b
     \<and> b_open b \<le> b_high b \<and> b_close b \<le> b_high b \<and> 0 < b_volume b"
  by (auto simp: price_flags_def not_less not_le min_def max_def split: if_splits)

text \<open>\<open>max(bar.end, bar.received_at)\<close>: when a bar becomes usable.\<close>

definition available_at :: "bar \<Rightarrow> instant" where
  "available_at b = max (b_end b) (b_received_at b)"

definition require_strategy_ready :: "bar \<Rightarrow> instant \<Rightarrow> unit result" where
  "require_strategy_ready b now =
     (if b_interval_minutes b \<noteq> 5 \<or> \<not> b_complete b \<or> b_quality_flags b \<noteq> {}
         \<or> price_flags b \<noteq> {} \<or> now < available_at b
      then Inl (ValueError ''bar is not complete, causal, quality-cleared canonical data'')
      else Inr ())"

lemma strategy_ready_iff:
  "require_strategy_ready b now = Inr u \<longleftrightarrow>
     b_interval_minutes b = 5 \<and> b_complete b \<and> b_quality_flags b = {} \<and> price_flags b = {}
     \<and> b_end b \<le> now \<and> b_received_at b \<le> now"
  by (auto simp: require_strategy_ready_def available_at_def)

text \<open>The observations a normalized store holds.\<close>

datatype observation = Obs_Bar bar | Obs_Quote quote

subsection \<open>Examples\<close>

definition example_bar :: "string \<Rightarrow> instant \<Rightarrow> rat \<Rightarrow> bar" where
  "example_bar i s p =
     \<lparr>b_instrument_id = i, b_source = ''vendor'', b_received_at = s + minutes 1, b_quality_flags = {},
      b_feed_kind = EQUITY, b_schema_version = ''1'', b_start = s, b_end = s + minutes 1,
      b_interval_minutes = 1, b_open = p, b_high = p + 1, b_low = p - 1, b_close = p,
      b_volume = 10, b_complete = True\<rparr>"

lemma example_bar_ok: "i \<noteq> [] \<Longrightarrow> bar_ok (example_bar i s p)"
  by (simp add: bar_ok_def example_bar_def)

end
