(* ===== verification/Quality.thy ===== *)
theory Quality
  imports Market_Data Calendar
begin

text \<open>
  \<open>BarQualityChecker\<close> of \<open>market_data/quality.py\<close>: the flags a one-minute bar collects and the
  enumeration of missing intervals.  The checker is a record; the calendar is given by its
  \<open>session_on\<close>.
\<close>

record quality_settings =
  dq_abnormal_gap_fraction :: rat
  dq_abnormal_volume_multiple :: rat
  dq_normalization_version :: string

definition quality_settings_ok :: "quality_settings \<Rightarrow> bool" where
  "quality_settings_ok s \<longleftrightarrow> 0 < dq_abnormal_gap_fraction s \<and> 1 < dq_abnormal_volume_multiple s"

record checker =
  ck_calendar :: "day \<Rightarrow> session option result"
  ck_settings :: quality_settings
  ck_timezone :: zone

definition ck_bounds :: "checker \<Rightarrow> instant \<Rightarrow> (instant \<times> instant) option result" where
  "ck_bounds c i = session_bounds (ck_calendar c) (ck_timezone c) i"

definition session_flags :: "(instant \<times> instant) option \<Rightarrow> bar \<Rightarrow> quality_flag set" where
  "session_flags bounds b =
     (case bounds of
        None \<Rightarrow> {OUT_OF_SESSION}
      | Some (lo, hi) \<Rightarrow>
          if b_start b < lo \<or> hi < b_end b then {OUT_OF_SESSION}
          else if fmod (total_seconds (b_start b - lo)) (of_int (60 * b_interval_minutes b)) \<noteq> 0
          then {MISALIGNED} else {})"

definition comparable :: "bar \<Rightarrow> bar \<Rightarrow> bool" where
  "comparable previous b \<longleftrightarrow>
     b_instrument_id previous = b_instrument_id b \<and> b_source previous = b_source b
     \<and> b_end previous \<le> b_start b \<and> b_received_at previous \<le> b_received_at b"

definition jump_flags :: "quality_settings \<Rightarrow> bar option \<Rightarrow> bar \<Rightarrow> quality_flag set" where
  "jump_flags s previous b =
     (case previous of
        None \<Rightarrow> {}
      | Some p \<Rightarrow>
          if \<not> comparable p b then {}
          else (if 0 < b_close p
                   \<and> dq_abnormal_gap_fraction s < \<bar>dec (dec (b_open b / b_close p) - 1)\<bar>
                then {ABNORMAL_GAP} else {})
             \<union> (if 0 < b_volume p
                   \<and> dq_abnormal_volume_multiple s < dec (b_volume b / b_volume p)
                then {ABNORMAL_VOLUME} else {}))"

definition check :: "checker \<Rightarrow> bar \<Rightarrow> bar option \<Rightarrow> bar result" where
  "check c b previous =
     rbind (ck_bounds c (b_start b)) (\<lambda>bounds.
       Inr (b\<lparr>b_quality_flags :=
         b_quality_flags b \<union> price_flags b \<union> session_flags bounds b
         \<union> (if \<not> b_complete b then {INCOMPLETE} else {})
         \<union> (if b_received_at b < b_end b then {FUTURE_TIMESTAMP} else {})
         \<union> jump_flags (ck_settings c) previous b\<rparr>))"

lemma check_flags:
  assumes "check c b previous = Inr b'"
  shows "b_quality_flags b \<subseteq> b_quality_flags b'" "price_flags b \<subseteq> b_quality_flags b'"
    "\<exists>f. b' = b\<lparr>b_quality_flags := f\<rparr>"
  using assms by (auto simp: check_def result_simps)

lemma check_simps:
  assumes "check c b previous = Inr b'"
  shows "b_start b' = b_start b" "b_end b' = b_end b" "b_received_at b' = b_received_at b"
    "b_instrument_id b' = b_instrument_id b" "b_source b' = b_source b"
    "b_complete b' = b_complete b" "b_interval_minutes b' = b_interval_minutes b"
    "b_open b' = b_open b" "b_high b' = b_high b" "b_low b' = b_low b" "b_close b' = b_close b"
    "b_volume b' = b_volume b" "b_feed_kind b' = b_feed_kind b"
  using check_flags(3)[OF assms] by auto

text \<open>
  A bar that leaves the checker without a flag came without one, has consistent positive prices and
  volume, is complete, was received no earlier than its end, and lies in the session of its day.
\<close>

lemma check_clean:
  assumes "check c b previous = Inr b'" "b_quality_flags b' = {}"
  shows "b_quality_flags b = {}" "price_flags b = {}" "b_complete b" "b_end b \<le> b_received_at b"
    "\<exists>lo hi. ck_bounds c (b_start b) = Inr (Some (lo, hi)) \<and> lo \<le> b_start b \<and> b_end b \<le> hi"
proof -
  obtain bounds where bs: "ck_bounds c (b_start b) = Inr bounds"
    and fl: "b_quality_flags b \<union> price_flags b \<union> session_flags bounds b
         \<union> (if \<not> b_complete b then {INCOMPLETE} else {})
         \<union> (if b_received_at b < b_end b then {FUTURE_TIMESTAMP} else {})
         \<union> jump_flags (ck_settings c) previous b = {}"
    using assms by (auto simp: check_def result_simps)
  show "b_quality_flags b = {}" "price_flags b = {}" "b_complete b" "b_end b \<le> b_received_at b"
    using fl by (auto split: if_splits)
  have "session_flags bounds b = {}" using fl by blast
  then show "\<exists>lo hi. ck_bounds c (b_start b) = Inr (Some (lo, hi)) \<and> lo \<le> b_start b \<and> b_end b \<le> hi"
    using bs by (auto simp: session_flags_def split: option.splits if_splits)
qed

subsection \<open>Missing intervals\<close>

text \<open>The completed one-minute bars known at \<open>as_of\<close>.\<close>

definition present_starts :: "bar list \<Rightarrow> instant \<Rightarrow> instant set" where
  "present_starts bars as_of =
     b_start ` set (filter (\<lambda>b. b_interval_minutes b = 1 \<and> b_complete b \<and> available_at b \<le> as_of) bars)"

definition expected_minute :: "(instant \<times> instant) option \<Rightarrow> instant \<Rightarrow> bool" where
  "expected_minute bounds cursor =
     (case bounds of None \<Rightarrow> False
      | Some (lo, hi) \<Rightarrow> lo \<le> cursor \<and> cursor + minutes 1 \<le> hi
          \<and> fmod (total_seconds (cursor - lo)) 60 = 0)"

function missing_from ::
  "(instant \<Rightarrow> (instant \<times> instant) option result) \<Rightarrow> instant set \<Rightarrow> instant \<Rightarrow> instant
     \<Rightarrow> instant list result" where
  "missing_from bounds present stop cursor =
     (if cursor + minutes 1 \<le> stop then
        rbind (bounds cursor) (\<lambda>bs.
          rbind (missing_from bounds present stop (cursor + minutes 1)) (\<lambda>rest.
            Inr (if expected_minute bs cursor \<and> cursor \<notin> present then cursor # rest else rest)))
      else Inr [])"
  by pat_completeness auto
termination
  by (relation "measure (\<lambda>(b, p, stop, cursor). nat (stop - cursor))") (auto simp: minutes_def)

declare missing_from.simps [simp del]

definition missing_intervals ::
  "checker \<Rightarrow> bar list \<Rightarrow> instant \<Rightarrow> instant \<Rightarrow> instant \<Rightarrow> instant list result" where
  "missing_intervals c bars start stop as_of =
     (if stop \<le> start \<or> start mod minutes 1 \<noteq> 0 then
        Inl (ValueError ''missing interval window must be ordered and minute-aligned'')
      else if 1 < card ((\<lambda>b. (b_instrument_id b, b_source b)) ` set bars) then
        Inl (ValueError ''missing interval check requires a single instrument and source'')
      else missing_from (ck_bounds c) (present_starts bars as_of) (min stop as_of) start)"

lemma missing_from_sound:
  "missing_from bounds present stop cursor = Inr ms \<Longrightarrow> m \<in> set ms \<Longrightarrow>
     cursor \<le> m \<and> m + minutes 1 \<le> stop \<and> m \<notin> present \<and> (m - cursor) mod minutes 1 = 0
     \<and> (\<exists>bs. bounds m = Inr bs \<and> expected_minute bs m)"
proof (induction bounds present stop cursor arbitrary: ms rule: missing_from.induct)
  case (1 bounds present stop cursor)
  show ?case
  proof (cases "cursor + minutes 1 \<le> stop")
    case True
    then obtain bs rest where bs: "bounds cursor = Inr bs"
      and rest: "missing_from bounds present stop (cursor + minutes 1) = Inr rest"
      and ms: "ms = (if expected_minute bs cursor \<and> cursor \<notin> present then cursor # rest else rest)"
      using "1.prems"(1) by (subst (asm) missing_from.simps) (auto simp: result_simps)
    show ?thesis
    proof (cases "m \<in> set rest")
      case m: True
      have "(m - (cursor + minutes 1)) mod minutes 1 = (m - cursor) mod minutes 1"
        by (metis diff_add_eq_diff_diff_swap minus_mod_self2 add.commute)
      then show ?thesis using "1.IH"[OF True rest m] by (auto simp: minutes_def)
    next
      case False
      then show ?thesis using True bs ms "1.prems"(2) by (auto split: if_splits)
    qed
  next
    case False
    then show ?thesis using "1.prems" by (subst (asm) missing_from.simps) simp
  qed
qed

lemma missing_from_complete:
  "missing_from bounds present stop cursor = Inr ms \<Longrightarrow> cursor \<le> m \<Longrightarrow> m + minutes 1 \<le> stop
     \<Longrightarrow> (m - cursor) mod minutes 1 = 0 \<Longrightarrow> bounds m = Inr bs \<Longrightarrow> expected_minute bs m
     \<Longrightarrow> m \<notin> present \<Longrightarrow> m \<in> set ms"
proof (induction bounds present stop cursor arbitrary: ms rule: missing_from.induct)
  case (1 bounds present stop cursor)
  have le: "cursor + minutes 1 \<le> stop" using "1.prems"(2,3) by linarith
  then obtain bs' rest where bs': "bounds cursor = Inr bs'"
    and rest: "missing_from bounds present stop (cursor + minutes 1) = Inr rest"
    and ms: "ms = (if expected_minute bs' cursor \<and> cursor \<notin> present then cursor # rest else rest)"
    using "1.prems"(1) by (subst (asm) missing_from.simps) (auto simp: result_simps)
  show ?case
  proof (cases "m = cursor")
    case True
    then show ?thesis using ms bs' "1.prems" by simp
  next
    case False
    have mod: "(m - (cursor + minutes 1)) mod minutes 1 = 0"
      using "1.prems"(4) by (metis diff_add_eq_diff_diff_swap minus_mod_self2 add.commute)
    have "minutes 1 dvd m - cursor" using "1.prems"(4) by (simp add: dvd_eq_mod_eq_0)
    moreover have "0 < m - cursor" using False "1.prems"(2) by linarith
    ultimately have "minutes 1 \<le> m - cursor" by (rule zdvd_imp_le)
    then have "m \<in> set rest"
      using "1.IH"[OF le rest _ "1.prems"(3) mod "1.prems"(5,6,7)] by linarith
    then show ?thesis using ms by auto
  qed
qed

lemma missing_from_sorted:
  "missing_from bounds present stop cursor = Inr ms \<Longrightarrow> sorted_wrt (<) ms"
proof (induction bounds present stop cursor arbitrary: ms rule: missing_from.induct)
  case (1 bounds present stop cursor)
  show ?case
  proof (cases "cursor + minutes 1 \<le> stop")
    case True
    then obtain bs rest where rest: "missing_from bounds present stop (cursor + minutes 1) = Inr rest"
      and ms: "ms = cursor # rest \<or> ms = rest"
      using "1.prems" by (subst (asm) missing_from.simps) (auto simp: result_simps)
    have "\<forall>m \<in> set rest. cursor < m"
      using missing_from_sound[OF rest] by (fastforce simp: minutes_def)
    then show ?thesis using "1.IH"[OF True rest] ms by auto
  next
    case False
    then show ?thesis using "1.prems" by (subst (asm) missing_from.simps) simp
  qed
qed

subsection \<open>Properties\<close>

text \<open>
  The quality gate, exactly: a checked bar carries no flag if and only if it came without one, has
  consistent positive prices and positive volume, is complete, was received at or after its end, lies inside
  the confirmed session of its day on an interval boundary, and does not jump against a comparable
  predecessor.
\<close>

theorem clean_bar_iff:
  assumes "check c b previous = Inr b'"
  shows "b_quality_flags b' = {} \<longleftrightarrow>
    b_quality_flags b = {} \<and> 0 < min (min (b_open b) (b_high b)) (min (b_low b) (b_close b))
    \<and> b_low b \<le> min (b_open b) (b_close b) \<and> max (b_open b) (b_close b) \<le> b_high b
    \<and> 0 < b_volume b \<and> b_complete b \<and> b_end b \<le> b_received_at b
    \<and> (\<exists>lo hi. ck_bounds c (b_start b) = Inr (Some (lo, hi)) \<and> lo \<le> b_start b \<and> b_end b \<le> hi
         \<and> fmod (total_seconds (b_start b - lo)) (of_int (60 * b_interval_minutes b)) = 0)
    \<and> jump_flags (ck_settings c) previous b = {}"
proof -
  obtain bounds where bs: "ck_bounds c (b_start b) = Inr bounds"
    and b': "b_quality_flags b' = b_quality_flags b \<union> price_flags b \<union> session_flags bounds b
         \<union> (if \<not> b_complete b then {INCOMPLETE} else {})
         \<union> (if b_received_at b < b_end b then {FUTURE_TIMESTAMP} else {})
         \<union> jump_flags (ck_settings c) previous b"
    using assms by (auto simp: check_def result_simps)
  have "price_flags b = {} \<longleftrightarrow>
      0 < min (min (b_open b) (b_high b)) (min (b_low b) (b_close b))
      \<and> b_low b \<le> min (b_open b) (b_close b) \<and> max (b_open b) (b_close b) \<le> b_high b
      \<and> 0 < b_volume b"
    by (auto simp: price_flags_def)
  moreover have "session_flags bounds b = {} \<longleftrightarrow>
      (\<exists>lo hi. bounds = Some (lo, hi) \<and> lo \<le> b_start b \<and> b_end b \<le> hi
         \<and> fmod (total_seconds (b_start b - lo)) (of_int (60 * b_interval_minutes b)) = 0)"
    by (cases bounds) (auto simp: session_flags_def split: if_splits)
  ultimately show ?thesis using bs by (simp add: b')
qed

definition example_checker :: checker where
  "example_checker = \<lparr>ck_calendar = session_on nse_2026,
     ck_settings = \<lparr>dq_abnormal_gap_fraction = 1 / 10, dq_abnormal_volume_multiple = 10,
                    dq_normalization_version = ''ohlcv-v1''\<rparr>,
     ck_timezone = kolkata\<rparr>"

text \<open>09:20 on Tuesday 2026-07-07 in Kolkata, five minutes after the opening.\<close>

definition example_checked :: "bar result" where
  "example_checked = check example_checker (example_bar ''A'' 1783396200000000 100) None"

lemma example_bounds_20641:
  "ck_bounds example_checker 1783396200000000 = Inr (Some (1783395900000000, 1783418400000000))"
  by code_simp

theorem clean_bar_iff_witness: "\<exists>b'. example_checked = Inr b' \<and> b_quality_flags b' = {}"
proof -
  let ?b = "example_bar ''A'' 1783396200000000 100"
  have bounds: "ck_bounds example_checker (b_start ?b) = Inr (Some (1783395900000000, 1783418400000000))"
    using example_bounds_20641 by (simp add: example_bar_def)
  obtain b' where b': "check example_checker ?b None = Inr b'"
    using bounds by (simp add: check_def)
  have "fmod (total_seconds 300000000) 60 = 0"
    using total_seconds_whole[of 300] by (simp add: fmod_def microseconds_def)
  then have "b_quality_flags b' = {}"
    unfolding clean_bar_iff[OF b'] bounds by (simp add: example_bar_def jump_flags_def minutes_def)
  then show ?thesis using b' by (auto simp: example_checked_def)
qed

text \<open>
  The missing intervals reported are exactly the whole minutes of the window, completed by \<open>as_of\<close>,
  that the session of their day contains and for which no complete one-minute bar was available by
  \<open>as_of\<close>, in increasing order.
\<close>

theorem missing_intervals_exact:
  assumes "missing_intervals c bars start stop as_of = Inr ms"
  shows "sorted_wrt (<) ms \<and> set ms =
    {m. start \<le> m \<and> m + minutes 1 \<le> min stop as_of \<and> (m - start) mod minutes 1 = 0
        \<and> (\<exists>bs. ck_bounds c m = Inr bs \<and> expected_minute bs m)
        \<and> \<not> (\<exists>b \<in> set bars. b_start b = m \<and> b_interval_minutes b = 1 \<and> b_complete b
               \<and> b_end b \<le> as_of \<and> b_received_at b \<le> as_of)}"
proof -
  have ms: "missing_from (ck_bounds c) (present_starts bars as_of) (min stop as_of) start = Inr ms"
    using assms(1) by (auto simp: missing_intervals_def split: if_splits)
  have pr: "m \<in> present_starts bars as_of \<longleftrightarrow> (\<exists>b \<in> set bars. b_start b = m \<and> b_interval_minutes b = 1
      \<and> b_complete b \<and> b_end b \<le> as_of \<and> b_received_at b \<le> as_of)" for m
    by (auto simp: present_starts_def available_at_def)
  show ?thesis
  proof (intro conjI set_eqI iffI)
    show "sorted_wrt (<) ms" by (rule missing_from_sorted[OF ms])
    fix m assume "m \<in> set ms"
    from missing_from_sound[OF ms this] pr[of m]
    show "m \<in> {m. start \<le> m \<and> m + minutes 1 \<le> min stop as_of \<and> (m - start) mod minutes 1 = 0
        \<and> (\<exists>bs. ck_bounds c m = Inr bs \<and> expected_minute bs m)
        \<and> \<not> (\<exists>b \<in> set bars. b_start b = m \<and> b_interval_minutes b = 1 \<and> b_complete b
               \<and> b_end b \<le> as_of \<and> b_received_at b \<le> as_of)}"
      by simp
  next
    fix m assume m: "m \<in> {m. start \<le> m \<and> m + minutes 1 \<le> min stop as_of \<and> (m - start) mod minutes 1 = 0
        \<and> (\<exists>bs. ck_bounds c m = Inr bs \<and> expected_minute bs m)
        \<and> \<not> (\<exists>b \<in> set bars. b_start b = m \<and> b_interval_minutes b = 1 \<and> b_complete b
               \<and> b_end b \<le> as_of \<and> b_received_at b \<le> as_of)}"
    then obtain bs where "ck_bounds c m = Inr bs" "expected_minute bs m" "m \<notin> present_starts bars as_of"
      using pr[of m] by auto
    then show "m \<in> set ms" using missing_from_complete[OF ms] m by simp
  qed
qed

theorem missing_intervals_exact_witness:
  "missing_intervals example_checker [] 1783395900000000 1783396020000000 1783395960000000
     = Inr [1783395900000000]
   \<and> set [1783395900000000] = {m. 1783395900000000 \<le> m \<and> m + minutes 1 \<le> 1783395960000000
        \<and> (m - 1783395900000000) mod minutes 1 = 0
        \<and> (\<exists>bs. ck_bounds example_checker m = Inr bs \<and> expected_minute bs m)}"
proof -
  have ms: "missing_intervals example_checker [] 1783395900000000 1783396020000000 1783395960000000
     = Inr [1783395900000000]" by code_simp
  from missing_intervals_exact[OF ms] ms show ?thesis by simp
qed

end
