(* ===== verification/Lifecycle.thy ===== *)
theory Lifecycle
  imports Clock
begin

text \<open>
  \<open>config/modes.py\<close> and \<open>app/lifecycle.py\<close>: the process life cycle.  The table of allowed transitions
  is a function, the controller is a record whose operations return the outcome, the new controller
  and the listeners' world, because a listener that raises leaves the state already changed.
\<close>

datatype trading_mode = RESEARCH | BACKTEST | PAPER | LIVE

datatype system_state = STARTING | READY | DEGRADED | HALTED | EMERGENCY | STOPPING | STOPPED

fun state_name :: "system_state \<Rightarrow> string" where
  "state_name STARTING = ''STARTING''"
| "state_name READY = ''READY''"
| "state_name DEGRADED = ''DEGRADED''"
| "state_name HALTED = ''HALTED''"
| "state_name EMERGENCY = ''EMERGENCY''"
| "state_name STOPPING = ''STOPPING''"
| "state_name STOPPED = ''STOPPED''"

fun allowed_transitions :: "system_state \<Rightarrow> system_state set" where
  "allowed_transitions STARTING = {READY, DEGRADED, HALTED, EMERGENCY, STOPPING}"
| "allowed_transitions READY = {DEGRADED, HALTED, EMERGENCY, STOPPING}"
| "allowed_transitions DEGRADED = {READY, HALTED, EMERGENCY, STOPPING}"
| "allowed_transitions HALTED = {EMERGENCY, STOPPING}"
| "allowed_transitions EMERGENCY = {STOPPING}"
| "allowed_transitions STOPPING = {STOPPED}"
| "allowed_transitions STOPPED = {STARTING}"

record state_transition =
  st_event_id :: uuid
  st_previous :: system_state
  st_current :: system_state
  st_occurred_at :: instant
  st_reason :: string

type_synonym 'w listener = "state_transition \<Rightarrow> 'w \<Rightarrow> py_error option \<times> 'w"

record 'w controller =
  lc_state :: system_state
  lc_listeners :: "'w listener list"

definition new_controller :: "'w controller" where
  "new_controller = \<lparr>lc_state = STARTING, lc_listeners = []\<rparr>"

definition add_listener :: "'w listener \<Rightarrow> 'w controller \<Rightarrow> 'w controller" where
  "add_listener l c = c\<lparr>lc_listeners := lc_listeners c @ [l]\<rparr>"

fun notify :: "'w listener list \<Rightarrow> state_transition \<Rightarrow> 'w \<Rightarrow> py_error option \<times> 'w" where
  "notify [] t w = (None, w)"
| "notify (l # ls) t w =
     (case l t w of (Some e, w') \<Rightarrow> (Some e, w') | (None, w') \<Rightarrow> notify ls t w')"

text \<open>
  \<open>new_id\<close> and \<open>now\<close> are the random event id and the clock reading of the call.
\<close>

definition transition ::
  "uuid \<Rightarrow> instant \<Rightarrow> system_state \<Rightarrow> string \<Rightarrow> 'w controller \<Rightarrow> 'w
     \<Rightarrow> state_transition result \<times> 'w controller \<times> 'w" where
  "transition new_id now target reason c w =
     (if target \<notin> allowed_transitions (lc_state c) then
        (Inl (RuntimeError (''cannot transition from '' @ state_name (lc_state c) @ '' to ''
                @ state_name target)), c, w)
      else
        let t = \<lparr>st_event_id = new_id, st_previous = lc_state c, st_current = target,
                 st_occurred_at = now, st_reason = reason\<rparr>;
            c' = c\<lparr>lc_state := target\<rparr>
        in case notify (lc_listeners c') t w of
             (Some e, w') \<Rightarrow> (Inl e, c', w')
           | (None, w') \<Rightarrow> (Inr t, c', w'))"

definition mark_ready ::
  "uuid \<Rightarrow> instant \<Rightarrow> string \<Rightarrow> 'w controller \<Rightarrow> 'w
     \<Rightarrow> state_transition result \<times> 'w controller \<times> 'w" where
  "mark_ready new_id now reason = transition new_id now READY reason"

definition request_stop ::
  "uuid \<Rightarrow> instant \<Rightarrow> string \<Rightarrow> 'w controller \<Rightarrow> 'w
     \<Rightarrow> state_transition result \<times> 'w controller \<times> 'w" where
  "request_stop new_id now reason c w =
     (if lc_state c = STOPPING then (Inl (RuntimeError ''shutdown already in progress''), c, w)
      else transition new_id now STOPPING reason c w)"

text \<open>\<open>signal_name\<close> is the platform's signal table (\<open>signal.Signals\<close>); \<open>None\<close> is its \<open>ValueError\<close>.\<close>

definition handle_signal ::
  "(int \<Rightarrow> string option) \<Rightarrow> uuid \<Rightarrow> instant \<Rightarrow> int \<Rightarrow> 'w controller \<Rightarrow> 'w
     \<Rightarrow> state_transition result \<times> 'w controller \<times> 'w" where
  "handle_signal signal_name new_id now signum =
     request_stop new_id now
       (''signal:'' @ (case signal_name signum of Some n \<Rightarrow> n | None \<Rightarrow> str_int signum))"

definition mark_stopped ::
  "uuid \<Rightarrow> instant \<Rightarrow> string \<Rightarrow> 'w controller \<Rightarrow> 'w
     \<Rightarrow> state_transition result \<times> 'w controller \<times> 'w" where
  "mark_stopped new_id now reason = transition new_id now STOPPED reason"

text \<open>
  A whole life: transitions are requested one after the other and their errors handled by the caller;
  the first component lists the states entered.
\<close>

type_synonym request = "uuid \<times> instant \<times> system_state \<times> string"

fun request_all ::
  "request list \<Rightarrow> 'w controller \<Rightarrow> 'w \<Rightarrow> system_state list \<times> 'w controller \<times> 'w" where
  "request_all [] c w = ([], c, w)"
| "request_all ((i, n, t, r) # qs) c w =
     (let (_, c', w') = transition i n t r c w;
          (entered, c'', w'') = request_all qs c' w'
      in (if t \<in> allowed_transitions (lc_state c) then t # entered else entered, c'', w''))"

subsection \<open>The controller follows the table\<close>

lemma transition_state:
  "lc_state (fst (snd (transition i n t r c w))) =
     (if t \<in> allowed_transitions (lc_state c) then t else lc_state c)"
  by (auto simp: transition_def Let_def split: prod.splits option.splits)

lemma transition_listeners [simp]:
  "lc_listeners (fst (snd (transition i n t r c w))) = lc_listeners c"
  by (auto simp: transition_def Let_def split: prod.splits option.splits)

lemma transition_Inr:
  assumes "fst (transition i n t r c w) = Inr x"
  shows "t \<in> allowed_transitions (lc_state c)"
    and "x = \<lparr>st_event_id = i, st_previous = lc_state c, st_current = t, st_occurred_at = n,
              st_reason = r\<rparr>"
  using assms by (auto simp: transition_def Let_def split: prod.splits option.splits if_splits)

lemma request_stop_state:
  "lc_state (fst (snd (request_stop i n r c w))) =
     (if lc_state c \<in> {STOPPING, STOPPED} then lc_state c else STOPPING)"
  by (cases "lc_state c") (auto simp: request_stop_def transition_state)

subsection \<open>Reachable states\<close>

inductive lifecycle_step :: "system_state \<Rightarrow> system_state \<Rightarrow> bool" where
  allowed: "t \<in> allowed_transitions s \<Longrightarrow> lifecycle_step s t"

inductive_cases lifecycle_stepE: "lifecycle_step s t"

lemma lifecycle_step_iff: "lifecycle_step s t \<longleftrightarrow> t \<in> allowed_transitions s"
  by (auto intro: lifecycle_step.intros elim: lifecycle_stepE)

text \<open>A path lists the states entered one after the other.\<close>

inductive lifecycle_path :: "system_state \<Rightarrow> system_state list \<Rightarrow> bool" where
  nil: "lifecycle_path s []"
| cons: "lifecycle_step s t \<Longrightarrow> lifecycle_path t ts \<Longrightarrow> lifecycle_path s (t # ts)"

inductive_simps lifecycle_path_Cons: "lifecycle_path s (t # ts)"

lemma lifecycle_path_stopped:
  "lifecycle_path STOPPED ts \<Longrightarrow> ts \<noteq> [] \<Longrightarrow> hd ts = STARTING"
  by (cases ts) (auto simp: lifecycle_path_Cons lifecycle_step_iff)

lemma lifecycle_path_append1: "lifecycle_path s (us @ vs) \<Longrightarrow> lifecycle_path s us"
  by (induction us arbitrary: s) (auto simp: lifecycle_path_Cons intro: lifecycle_path.intros)

text \<open>
  From HALTED or EMERGENCY the only way on is the shutdown: the states entered before a restart are
  among EMERGENCY, STOPPING and STOPPED.
\<close>

lemma halted_path_before_restart:
  "lifecycle_path s ts \<Longrightarrow> s \<in> {HALTED, EMERGENCY, STOPPING, STOPPED} \<Longrightarrow> STARTING \<notin> set ts
     \<Longrightarrow> set ts \<subseteq> {EMERGENCY, STOPPING, STOPPED}"
proof (induction rule: lifecycle_path.induct)
  case (cons s t ts)
  from cons.hyps(1) cons.prems have "t \<in> {EMERGENCY, STOPPING, STOPPED}"
    by (auto simp: lifecycle_step_iff)
  with cons.IH cons.prems show ?case by auto
qed simp

lemma path_to_restart_stops:
  "lifecycle_path s ts \<Longrightarrow> s \<noteq> STOPPED \<Longrightarrow> STARTING \<in> set ts
     \<Longrightarrow> \<exists>us vs. ts = us @ STOPPED # STARTING # vs \<and> STARTING \<notin> set us"
proof (induction rule: lifecycle_path.induct)
  case (cons s t ts)
  show ?case
  proof (cases "t = STOPPED")
    case True
    then have "ts \<noteq> []" using cons.prems by auto
    then have "hd ts = STARTING" using lifecycle_path_stopped cons.hyps(2) True by blast
    then show ?thesis using True \<open>ts \<noteq> []\<close>
      by (intro exI[of _ "[]"] exI[of _ "tl ts"]) (cases ts; simp)
  next
    case False
    have "t \<in> allowed_transitions s" using cons.hyps(1) by (simp add: lifecycle_step_iff)
    then have nt: "t \<noteq> STARTING" using cons.prems(1) by (cases s) auto
    then obtain us vs where "ts = us @ STOPPED # STARTING # vs" "STARTING \<notin> set us"
      using cons.IH False cons.prems by auto
    then show ?thesis using nt by (intro exI[of _ "t # us"] exI[of _ vs]) simp
  qed
qed simp

lemma request_all_path: "lifecycle_path (lc_state c) (fst (request_all qs c w))"
proof (induction qs c w rule: request_all.induct)
  case (2 i n t r qs c w)
  obtain x c' w' where tr: "transition i n t r c w = (x, c', w')" by (cases "transition i n t r c w")
  have st: "lc_state c' = (if t \<in> allowed_transitions (lc_state c) then t else lc_state c)"
    using transition_state[of i n t r c w] tr by simp
  obtain ent c'' w'' where re: "request_all qs c' w' = (ent, c'', w'')"
    by (cases "request_all qs c' w'")
  have "lifecycle_path (lc_state c') ent" using 2[OF tr[symmetric] refl] re by simp
  then show ?case
    using st by (auto simp: tr re intro: lifecycle_path.cons lifecycle_step.intros)
qed (simp add: lifecycle_path.nil)

lemma request_all_state:
  "lc_state (fst (snd (request_all qs c w))) = last (lc_state c # fst (request_all qs c w))"
proof (induction qs c w rule: request_all.induct)
  case (2 i n t r qs c w)
  obtain x c' w' where tr: "transition i n t r c w = (x, c', w')" by (cases "transition i n t r c w")
  have st: "lc_state c' = (if t \<in> allowed_transitions (lc_state c) then t else lc_state c)"
    using transition_state[of i n t r c w] tr by simp
  obtain ent c'' w'' where re: "request_all qs c' w' = (ent, c'', w'')"
    by (cases "request_all qs c' w'")
  show ?case using 2[OF tr[symmetric] refl] re st by (auto simp: tr)
qed simp

subsection \<open>Properties\<close>

text \<open>
  C20. A halted or emergency process cannot become operational again without a full stop: whatever
  transitions are requested, with whatever listeners, READY or DEGRADED is entered only after STOPPED
  followed by STARTING, and before that only EMERGENCY, STOPPING and STOPPED are entered.
\<close>

theorem halted_needs_full_stop:
  assumes "lc_state c \<in> {HALTED, EMERGENCY}"
    and "READY \<in> set (fst (request_all qs c w)) \<or> DEGRADED \<in> set (fst (request_all qs c w))"
  shows "\<exists>us vs. fst (request_all qs c w) = us @ STOPPED # STARTING # vs
            \<and> set us \<subseteq> {EMERGENCY, STOPPING, STOPPED}"
proof -
  let ?ts = "fst (request_all qs c w)"
  have path: "lifecycle_path (lc_state c) ?ts" by (rule request_all_path)
  have st: "lc_state c \<in> {HALTED, EMERGENCY, STOPPING, STOPPED}" "lc_state c \<noteq> STOPPED"
    using assms(1) by auto
  have "STARTING \<in> set ?ts"
    using halted_path_before_restart[OF path st(1)] assms(2) by auto
  from path_to_restart_stops[OF path st(2) this] obtain us vs where
    eq: "?ts = us @ STOPPED # STARTING # vs" and us: "STARTING \<notin> set us" by blast
  have "lifecycle_path (lc_state c) us" using path unfolding eq by (rule lifecycle_path_append1)
  then have "set us \<subseteq> {EMERGENCY, STOPPING, STOPPED}"
    using halted_path_before_restart st(1) us by blast
  with eq show ?thesis by blast
qed

theorem halted_needs_full_stop_witness:
  "\<exists>us vs. fst (request_all (map (\<lambda>t. (''id'', 0, t, ''r'')) [READY, STOPPING, STOPPED, STARTING, READY])
        \<lparr>lc_state = HALTED, lc_listeners = []\<rparr> ()) = us @ STOPPED # STARTING # vs
      \<and> set us \<subseteq> {EMERGENCY, STOPPING, STOPPED}"
  by (rule halted_needs_full_stop) (simp_all add: transition_def)

end
