(* ===== verification/Alpha_Health.thy ===== *)
theory Alpha_Health
  imports Market_State "HOL-Library.Multiset"
begin

text \<open>
  \<open>ensemble/models.py\<close> and \<open>ensemble/health.py\<close>: the alpha registry, the bounded health policy and the
  measurement of an alpha's health from its closed trades.
\<close>

datatype alpha_id = MOMENTUM | BREAKOUT | PAIRS | VWAP | RELATIVE_VALUE

definition alpha_ids :: "alpha_id list" where
  "alpha_ids = [MOMENTUM, BREAKOUT, PAIRS, VWAP, RELATIVE_VALUE]"

fun alpha_value :: "alpha_id \<Rightarrow> string" where
  "alpha_value MOMENTUM = ''cross_sectional_momentum''"
| "alpha_value BREAKOUT = ''momentum_breakout''"
| "alpha_value PAIRS = ''pairs_stat_arb''"
| "alpha_value VWAP = ''vwap_mean_reversion''"
| "alpha_value RELATIVE_VALUE = ''sector_relative_value''"

lemma alpha_ids_all: "set alpha_ids = UNIV"
  using alpha_id.exhaust by (auto simp: alpha_ids_def)

text \<open>\<open>AlphaFamily(alpha.value)\<close>: the two enumerations have the same values.\<close>

fun family_of :: "alpha_id \<Rightarrow> alpha_family" where
  "family_of MOMENTUM = CROSS_SECTIONAL_MOMENTUM"
| "family_of BREAKOUT = MOMENTUM_BREAKOUT"
| "family_of PAIRS = PAIRS_STAT_ARB"
| "family_of VWAP = VWAP_MEAN_REVERSION"
| "family_of RELATIVE_VALUE = SECTOR_RELATIVE_VALUE"

record alpha_registration =
  ar_alpha_id :: alpha_id
  ar_base_budget :: rat
  ar_enabled :: bool
  ar_score_floor :: rat
  ar_score_ceiling :: rat

definition registration_ok :: "alpha_registration \<Rightarrow> bool" where
  "registration_ok r \<longleftrightarrow> 0 \<le> ar_base_budget r \<and> ar_base_budget r \<le> 1
     \<and> 0 \<le> ar_score_floor r \<and> ar_score_floor r \<le> 1 \<and> 0 < ar_score_ceiling r \<and> ar_score_ceiling r \<le> 1
     \<and> ar_score_floor r < ar_score_ceiling r"

type_synonym alpha_registry = "alpha_registration list"

definition registry_ok :: "alpha_registry \<Rightarrow> bool" where
  "registry_ok rs \<longleftrightarrow> list_all registration_ok rs \<and> set (map ar_alpha_id rs) = set alpha_ids
     \<and> length rs = length alpha_ids \<and> dsum (map ar_base_budget rs) \<le> 1"

text \<open>\<open>next(x for x in entries if x.alpha_id is alpha)\<close>; \<open>StopIteration\<close> is a \<open>RuntimeError\<close> here.\<close>

definition registration :: "alpha_registry \<Rightarrow> alpha_id \<Rightarrow> alpha_registration result" where
  "registration rs a =
     (case find (\<lambda>r. ar_alpha_id r = a) rs of
        None \<Rightarrow> Inl (RuntimeError ''StopIteration'') | Some r \<Rightarrow> Inr r)"

record alpha_health_settings =
  ah_window_trades :: int
  ah_minimum_trades :: int
  ah_minimum_multiplier :: rat
  ah_initial_multiplier :: rat
  ah_maximum_multiplier :: rat
  ah_max_increase :: rat
  ah_increase_interval_seconds :: int
  ah_max_return_drawdown :: rat
  ah_health_max_age_seconds :: int

text \<open>The validators; a multiplier field holds a float.\<close>

definition health_settings_ok :: "alpha_health_settings \<Rightarrow> bool" where
  "health_settings_ok s \<longleftrightarrow> 2 \<le> ah_window_trades s \<and> 1 \<le> ah_minimum_trades s
     \<and> fl (ah_minimum_multiplier s) = ah_minimum_multiplier s
     \<and> 0 \<le> ah_minimum_multiplier s \<and> ah_minimum_multiplier s \<le> 1
     \<and> 0 \<le> ah_initial_multiplier s \<and> ah_initial_multiplier s \<le> 1
     \<and> 0 \<le> ah_maximum_multiplier s \<and> ah_maximum_multiplier s \<le> 1
     \<and> 0 < ah_max_increase s \<and> ah_max_increase s \<le> fl (1 / 10)
     \<and> 3600 \<le> ah_increase_interval_seconds s \<and> 0 < ah_max_return_drawdown s
     \<and> 0 < ah_health_max_age_seconds s
     \<and> ah_minimum_multiplier s \<le> ah_initial_multiplier s
     \<and> ah_initial_multiplier s \<le> ah_maximum_multiplier s
     \<and> ah_minimum_trades s \<le> ah_window_trades s"

record health_multiplier =
  hm_value :: rat
  hm_minimum :: rat
  hm_maximum :: rat

definition health_multiplier_ok :: "health_multiplier \<Rightarrow> bool" where
  "health_multiplier_ok m \<longleftrightarrow> 0 \<le> hm_minimum m \<and> hm_minimum m \<le> hm_value m
     \<and> hm_value m \<le> hm_maximum m \<and> hm_maximum m \<le> 1"

record trade_outcome =
  to_trade_id :: uuid
  to_alpha_id :: alpha_id
  to_closed_at :: instant
  to_received_at :: instant
  to_gross_pnl :: rat
  to_costs :: rat
  to_slippage_cost :: rat
  to_gross_capital :: rat
  to_regime :: market_state

definition trade_outcome_ok :: "trade_outcome \<Rightarrow> bool" where
  "trade_outcome_ok t \<longleftrightarrow> 0 \<le> to_costs t \<and> 0 \<le> to_slippage_cost t \<and> 0 < to_gross_capital t
     \<and> to_closed_at t \<le> to_received_at t"

record alpha_health_snapshot =
  hs_alpha_id :: alpha_id
  hs_timestamp :: instant
  hs_trades :: int
  hs_net_expectancy :: "rat option"
  hs_net_pnl :: rat
  hs_drawdown :: rat
  hs_costs :: rat
  hs_slippage_cost :: rat
  hs_regimes :: "(market_state \<times> int) list"
  hs_multiplier :: health_multiplier
  hs_last_increase_at :: instant
  hs_last_trade_at :: "instant option"
  hs_settings :: alpha_health_settings
  hs_outcomes_hash :: string
  hs_prior_hash :: "string option"
  hs_code_commit :: string
  hs_config_hash :: string
  hs_data_snapshot :: string

definition health_snapshot_ok :: "alpha_health_snapshot \<Rightarrow> bool" where
  "health_snapshot_ok h \<longleftrightarrow> health_multiplier_ok (hs_multiplier h)
     \<and> hs_last_increase_at h \<le> hs_timestamp h
     \<and> (case hs_last_trade_at h of None \<Rightarrow> True | Some t \<Rightarrow> t \<le> hs_timestamp h)
     \<and> hm_minimum (hs_multiplier h) = ah_minimum_multiplier (hs_settings h)
     \<and> hm_maximum (hs_multiplier h) = ah_maximum_multiplier (hs_settings h)
     \<and> sum_list (map snd (hs_regimes h)) = hs_trades h"

definition mk_health_snapshot :: "alpha_health_snapshot \<Rightarrow> alpha_health_snapshot result" where
  "mk_health_snapshot h =
     (if \<not> health_multiplier_ok (hs_multiplier h) then
        Inl (ValueError ''health multiplier outside configured bounds'')
      else if \<not> health_snapshot_ok h then Inl (ValueError ''inconsistent alpha health snapshot'')
      else Inr h)"

subsection \<open>\<open>measure_health\<close>\<close>

definition market_states :: "market_state list" where
  "market_states = [TREND_UP, TREND_DOWN, CHOP, HIGH_VOL, OPEN_SHOCK, RISK_OFF]"

text \<open>The causal trades of the alpha, one per id; \<open>None\<close> is a conflicting outcome.\<close>

definition causal :: "alpha_id \<Rightarrow> instant \<Rightarrow> trade_outcome \<Rightarrow> bool" where
  "causal alpha now t \<longleftrightarrow> to_alpha_id t = alpha \<and> to_received_at t \<le> now \<and> to_closed_at t \<le> now"

fun unique_trades ::
  "alpha_id \<Rightarrow> instant \<Rightarrow> trade_outcome list \<Rightarrow> trade_outcome list \<Rightarrow> trade_outcome list result" where
  "unique_trades alpha now [] acc = Inr acc"
| "unique_trades alpha now (t # ts) acc =
     (if \<not> causal alpha now t then unique_trades alpha now ts acc
      else case find (\<lambda>u. to_trade_id u = to_trade_id t) acc of
          None \<Rightarrow> unique_trades alpha now ts (acc @ [t])
        | Some u \<Rightarrow> if u \<noteq> t then Inl (ValueError ''conflicting trade outcome'')
                    else unique_trades alpha now ts acc)"

definition net_pnl :: "trade_outcome \<Rightarrow> rat" where
  "net_pnl t = dec (dec (to_gross_pnl t - to_costs t) - to_slippage_cost t)"

text \<open>\<open>float(p / t.gross_capital)\<close>: a decimal quotient converted to the nearest float.\<close>

definition net_return :: "trade_outcome \<Rightarrow> rat" where
  "net_return t = fl (dec (net_pnl t / to_gross_capital t))"

text \<open>The running maximum loss of the cumulated returns.\<close>

fun drawdown_from :: "rat \<Rightarrow> rat \<Rightarrow> rat \<Rightarrow> rat list \<Rightarrow> rat" where
  "drawdown_from curve peak drawdown [] = drawdown"
| "drawdown_from curve peak drawdown (v # vs) =
     (let curve = fl (curve + v); peak = max peak curve; drawdown = max drawdown (fl (peak - curve))
      in drawdown_from curve peak drawdown vs)"

definition max_drawdown :: "rat list \<Rightarrow> rat" where
  "max_drawdown vs = drawdown_from 0 0 0 vs"

text \<open>The multiplier and the time of the last increase.\<close>

definition next_multiplier ::
  "alpha_health_settings \<Rightarrow> instant \<Rightarrow> alpha_health_snapshot option \<Rightarrow> trade_outcome list
     \<Rightarrow> rat option \<Rightarrow> rat \<Rightarrow> instant option \<Rightarrow> rat \<times> instant" where
  "next_multiplier s now previous trades expectancy drawdown last_trade =
     (let multiplier = (case previous of None \<Rightarrow> ah_initial_multiplier s
                        | Some p \<Rightarrow> hm_value (hs_multiplier p));
          multiplier = (if int (length trades) < ah_minimum_trades s
                        then min multiplier (ah_initial_multiplier s) else multiplier);
          last_increase = (case previous of None \<Rightarrow> now | Some p \<Rightarrow> hs_last_increase_at p)
      in if (case expectancy of None \<Rightarrow> False
             | Some e \<Rightarrow> e \<le> 0 \<or> ah_max_return_drawdown s \<le> drawdown)
         then (ah_minimum_multiplier s, last_increase)
         else case (previous, last_trade) of
             (Some p, Some t) \<Rightarrow>
               if ah_minimum_trades s \<le> int (length trades)
                  \<and> (case hs_last_trade_at p of None \<Rightarrow> True | Some t' \<Rightarrow> t' < t)
                  \<and> of_int (ah_increase_interval_seconds s) \<le> total_seconds (now - last_increase)
               then (min (ah_maximum_multiplier s) (fl (multiplier + ah_max_increase s)), now)
               else (multiplier, last_increase)
           | _ \<Rightarrow> (multiplier, last_increase))"

text \<open>
  The two parameters are the content hashes of the trades and of a snapshot.  \<open>provenance\<close> is the code
  commit, the configuration hash and the data snapshot.
\<close>

definition health_of_trades ::
  "(trade_outcome list \<Rightarrow> string) \<Rightarrow> (alpha_health_snapshot \<Rightarrow> string) \<Rightarrow> alpha_id
     \<Rightarrow> trade_outcome list \<Rightarrow> instant \<Rightarrow> alpha_health_settings \<Rightarrow> string \<times> string \<times> string
     \<Rightarrow> alpha_health_snapshot option \<Rightarrow> alpha_health_snapshot result" where
  "health_of_trades outcomes_hash snap_hash alpha trades now s provenance previous =
     (if (case previous of None \<Rightarrow> False
          | Some p \<Rightarrow> hs_alpha_id p \<noteq> alpha \<or> hs_settings p \<noteq> s \<or> now \<le> hs_timestamp p)
      then Inl (ValueError ''invalid health predecessor'')
      else
        (let returns = map net_return trades;
             drawdown = max_drawdown returns;
             expectancy = (if returns = [] then None else Some (fmean returns));
             last_trade = (if trades = [] then None else Some (to_closed_at (last trades)))
         in if (case Option.bind previous hs_last_trade_at of None \<Rightarrow> False
                | Some t \<Rightarrow> (case last_trade of None \<Rightarrow> True | Some l \<Rightarrow> l < t))
            then Inl (ValueError ''health history regressed or disappeared'')
            else
              (let (multiplier, last_increase) =
                     next_multiplier s now previous trades expectancy drawdown last_trade
               in mk_health_snapshot
                 \<lparr>hs_alpha_id = alpha, hs_timestamp = now, hs_trades = int (length trades),
                  hs_net_expectancy = expectancy, hs_net_pnl = dsum (map net_pnl trades),
                  hs_drawdown = drawdown, hs_costs = dsum (map to_costs trades),
                  hs_slippage_cost = dsum (map to_slippage_cost trades),
                  hs_regimes = map (\<lambda>r. (r, int (length (filter (\<lambda>t. to_regime t = r) trades))))
                                 market_states,
                  hs_multiplier = \<lparr>hm_value = multiplier, hm_minimum = ah_minimum_multiplier s,
                                   hm_maximum = ah_maximum_multiplier s\<rparr>,
                  hs_last_increase_at = last_increase, hs_last_trade_at = last_trade,
                  hs_settings = s, hs_outcomes_hash = outcomes_hash trades,
                  hs_prior_hash = map_option snap_hash previous,
                  hs_code_commit = fst provenance, hs_config_hash = fst (snd provenance),
                  hs_data_snapshot = snd (snd provenance)\<rparr>)))"

definition trade_order :: "trade_outcome list \<Rightarrow> trade_outcome list" where
  "trade_order ts = sort_key (\<lambda>t. (to_closed_at t, to_trade_id t)) ts"

definition measure_health ::
  "(trade_outcome list \<Rightarrow> string) \<Rightarrow> (alpha_health_snapshot \<Rightarrow> string) \<Rightarrow> alpha_id
     \<Rightarrow> trade_outcome list \<Rightarrow> pydatetime \<Rightarrow> alpha_health_settings \<Rightarrow> string \<times> string \<times> string
     \<Rightarrow> alpha_health_snapshot option \<Rightarrow> alpha_health_snapshot result" where
  "measure_health outcomes_hash snap_hash alpha outcomes at_time s provenance previous =
     rbind (utc at_time) (\<lambda>now.
     rbind (unique_trades alpha now outcomes []) (\<lambda>unique.
       health_of_trades outcomes_hash snap_hash alpha
         (take_last (nat (ah_window_trades s)) (trade_order unique)) now s provenance previous))"

subsection \<open>The trades that are measured\<close>

lemma unique_trades_Inr:
  "unique_trades a now ts acc = Inr us \<Longrightarrow> distinct (map to_trade_id acc) \<Longrightarrow>
     set us = set acc \<union> {t \<in> set ts. causal a now t} \<and> distinct (map to_trade_id us)"
proof (induction a now ts acc rule: unique_trades.induct)
  case (2 a now t ts acc)
  show ?case
  proof (cases "causal a now t")
    case True
    show ?thesis
    proof (cases "find (\<lambda>u. to_trade_id u = to_trade_id t) acc")
      case None
      then have "to_trade_id t \<notin> to_trade_id ` set acc" by (auto simp: find_None_iff)
      then show ?thesis using "2.IH"(2)[OF _ None] "2.prems" True None by auto
    next
      case (Some u)
      then have "u \<in> set acc" by (auto simp: find_Some_iff)
      then show ?thesis using "2.IH"(3)[OF _ Some] "2.prems" True Some by (auto split: if_splits)
    qed
  qed (use 2 in auto)
qed simp

lemma unique_trades_total:
  "inj_on to_trade_id (set acc \<union> {t \<in> set ts. causal a now t}) \<Longrightarrow> \<exists>us. unique_trades a now ts acc = Inr us"
proof (induction a now ts acc rule: unique_trades.induct)
  case (2 a now t ts acc)
  show ?case
  proof (cases "causal a now t")
    case True
    show ?thesis
    proof (cases "find (\<lambda>u. to_trade_id u = to_trade_id t) acc")
      case None
      have eq: "set (acc @ [t]) \<union> {t \<in> set ts. causal a now t} =
          set acc \<union> {t' \<in> set (t # ts). causal a now t'}" using True by auto
      show ?thesis using "2.IH"(2)[OF _ None] "2.prems" True None unfolding eq by simp
    next
      case (Some u)
      then have u: "u \<in> set acc" "to_trade_id u = to_trade_id t" by (auto simp: find_Some_iff)
      then have "u = t" using "2.prems" True by (auto dest: inj_onD)
      moreover have "inj_on to_trade_id (set acc \<union> {t \<in> set ts. causal a now t})"
        using "2.prems" by (rule inj_on_subset) auto
      ultimately show ?thesis using "2.IH"(3)[OF _ Some] True Some by simp
    qed
  next
    case False
    moreover have "{t' \<in> set (t # ts). causal a now t'} = {t \<in> set ts. causal a now t}"
      using False by auto
    ultimately show ?thesis using "2.IH"(1) "2.prems" by simp
  qed
qed simp

lemma unique_trades_cases:
  "(\<exists>us. unique_trades a now ts acc = Inr us)
     \<or> unique_trades a now ts acc = Inl (ValueError ''conflicting trade outcome'')"
  by (induction a now ts acc rule: unique_trades.induct) (auto split: option.splits)

lemma unique_trades_error:
  "unique_trades a now ts acc = Inl e \<Longrightarrow> e = ValueError ''conflicting trade outcome''"
  using unique_trades_cases[of a now ts acc] by auto

lemma sort_key_set_cong:
  assumes "set xs = set ys" "distinct xs" "distinct ys" "inj_on f (set xs)"
  shows "sort_key f xs = sort_key f ys"
proof (rule sort_key_inj_key_eq)
  show "mset xs = mset (sort_key f ys)"
    using assms(1-3) set_eq_iff_mset_eq_distinct[of xs ys] by simp
qed (use assms(4) in simp_all)

text \<open>The sorted trades depend on the set of causal outcomes only.\<close>

lemma unique_trades_set_cong:
  assumes "{t \<in> set ts. causal a now t} = {t \<in> set ts'. causal a now t}"
  shows "map_sum id trade_order (unique_trades a now ts []) =
    map_sum id trade_order (unique_trades a now ts' [])"
proof (cases "unique_trades a now ts []")
  case (Inr us)
  from unique_trades_Inr[OF Inr] have us: "set us = {t \<in> set ts. causal a now t}"
    "distinct us" "inj_on to_trade_id (set us)" by (auto simp: distinct_map)
  have "inj_on to_trade_id (set [] \<union> {t \<in> set ts'. causal a now t})" using us(1,3) assms by simp
  then obtain us' where us': "unique_trades a now ts' [] = Inr us'" using unique_trades_total by blast
  from unique_trades_Inr[OF us'] have us'2: "set us' = set us" "distinct us'"
    using us(1) assms by (auto simp: distinct_map)
  have "trade_order us = trade_order us'"
    unfolding trade_order_def
    by (rule sort_key_set_cong) (use us us'2 in \<open>auto simp: inj_on_def\<close>)
  then show ?thesis using Inr us' by simp
next
  case (Inl e)
  have "\<not> inj_on to_trade_id {t \<in> set ts. causal a now t}"
    using unique_trades_total[of "[]" ts a now] Inl by auto
  then have "\<nexists>us'. unique_trades a now ts' [] = Inr us'"
    using unique_trades_Inr[of a now ts' "[]"] unfolding assms by (auto simp: distinct_map)
  then obtain e' where "unique_trades a now ts' [] = Inl e'" by (cases "unique_trades a now ts' []") auto
  then show ?thesis using Inl by (auto dest!: unique_trades_error)
qed

lemma measure_health_sorted:
  "measure_health oh sh alpha ts t s prov previous =
     rbind (utc t) (\<lambda>now. rbind (map_sum id trade_order (unique_trades alpha now ts [])) (\<lambda>sorted.
       health_of_trades oh sh alpha (take_last (nat (ah_window_trades s)) sorted) now s prov previous))"
proof -
  have "rbind m (\<lambda>u. F (trade_order u)) = rbind (map_sum id trade_order m) F"
    for m and F :: "trade_outcome list \<Rightarrow> alpha_health_snapshot result" by (cases m) simp_all
  note rb = this[of _ "\<lambda>x. health_of_trades oh sh alpha (take_last (nat (ah_window_trades s)) x) now s prov
      previous" for now]
  show ?thesis unfolding measure_health_def by (intro arg_cong[where f = "rbind (utc t)"] ext rb)
qed

text \<open>
  Measuring an alpha is causal and deterministic: the snapshot (or error) depends only on the set of
  that alpha's outcomes closed and received by the measurement time, not on their order, their repetition,
  other alphas' trades or the future.
\<close>

theorem measure_health_causal:
  assumes "{x \<in> set ts. to_alpha_id x = alpha \<and> to_received_at x \<le> instant_of t \<and> to_closed_at x \<le> instant_of t}
         = {x \<in> set ts'. to_alpha_id x = alpha \<and> to_received_at x \<le> instant_of t \<and> to_closed_at x \<le> instant_of t}"
  shows "measure_health oh sh alpha ts t s prov previous = measure_health oh sh alpha ts' t s prov previous"
  using unique_trades_set_cong[of ts alpha "instant_of t" ts'] assms
  unfolding measure_health_sorted utc_def by (simp add: causal_def)

definition example_trade :: "uuid \<Rightarrow> instant \<Rightarrow> rat \<Rightarrow> trade_outcome" where
  "example_trade i t pnl =
     \<lparr>to_trade_id = i, to_alpha_id = PAIRS, to_closed_at = t, to_received_at = t, to_gross_pnl = pnl,
      to_costs = 1, to_slippage_cost = 0, to_gross_capital = 1000, to_regime = CHOP\<rparr>"

definition example_health_settings :: alpha_health_settings where
  "example_health_settings =
     \<lparr>ah_window_trades = 100, ah_minimum_trades = 2, ah_minimum_multiplier = 0,
      ah_initial_multiplier = 1 / 2, ah_maximum_multiplier = 1, ah_max_increase = 1 / 16,
      ah_increase_interval_seconds = 86400, ah_max_return_drawdown = 1 / 16,
      ah_health_max_age_seconds = 86400\<rparr>"

theorem measure_health_causal_witness:
  "measure_health (\<lambda>_. ''o'') (\<lambda>_. ''s'') PAIRS [example_trade ''b'' 20 5, example_trade ''a'' 10 7, example_trade ''c'' 99 (-1)]
     (Aware 50 0) example_health_settings (''c'', ''g'', ''d'') None =
   measure_health (\<lambda>_. ''o'') (\<lambda>_. ''s'') PAIRS [example_trade ''a'' 10 7, example_trade ''b'' 20 5, example_trade ''a'' 10 7]
     (Aware 50 0) example_health_settings (''c'', ''g'', ''d'') None"
  by (rule measure_health_causal) (auto simp: example_trade_def)

subsection \<open>The health policy\<close>

lemma regimes_total: "sum_list (map (\<lambda>r. int (length (filter (\<lambda>t. to_regime t = r) ts))) market_states) =
    int (length ts)"
proof (induction ts)
  case (Cons t ts)
  then show ?case by (cases "to_regime t") (auto simp: market_states_def)
qed (simp add: market_states_def)

lemma take_last_subset: "set (take_last n xs) \<subseteq> set xs"
  by (simp add: take_last_def set_drop_subset)

text \<open>What a valid predecessor is.\<close>

definition previous_ok :: "alpha_health_settings \<Rightarrow> instant \<Rightarrow> alpha_health_snapshot option \<Rightarrow> bool" where
  "previous_ok s now previous = (case previous of None \<Rightarrow> True
     | Some p \<Rightarrow> health_snapshot_ok p \<and> hs_settings p = s \<and> hs_timestamp p < now)"

lemma next_multiplier_policy:
  assumes s: "health_settings_ok s" and p: "previous_ok s now previous"
    and m: "next_multiplier s now previous trades expectancy drawdown last_trade = (v, inc)"
  shows "ah_minimum_multiplier s \<le> v" "v \<le> ah_maximum_multiplier s" "inc \<le> now"
    "\<And>e. expectancy = Some e \<Longrightarrow> e \<le> 0 \<or> ah_max_return_drawdown s \<le> drawdown \<Longrightarrow>
       v = ah_minimum_multiplier s"
    "previous = None \<Longrightarrow> v \<le> ah_initial_multiplier s"
    "\<And>p. previous = Some p \<Longrightarrow> v \<le> hm_value (hs_multiplier p)
       \<or> v \<le> fl (hm_value (hs_multiplier p) + ah_max_increase s) \<and> inc = now
         \<and> ah_minimum_trades s \<le> int (length trades)
         \<and> of_int (ah_increase_interval_seconds s) \<le> total_seconds (now - hs_last_increase_at p)"
proof -
  have lim: "ah_minimum_multiplier s \<le> ah_initial_multiplier s"
    "ah_initial_multiplier s \<le> ah_maximum_multiplier s" "0 \<le> ah_max_increase s"
    using s by (auto simp: health_settings_ok_def)
  define pv where "pv = (case previous of None \<Rightarrow> ah_initial_multiplier s
                        | Some p \<Rightarrow> hm_value (hs_multiplier p))"
  have pv: "ah_minimum_multiplier s \<le> pv" "pv \<le> ah_maximum_multiplier s"
    using p lim by (auto simp: pv_def previous_ok_def health_snapshot_ok_def health_multiplier_ok_def
        split: option.splits)
  have up: "ah_minimum_multiplier s \<le> fl (pv + ah_max_increase s)"
    using s flr.mono[of "ah_minimum_multiplier s" "pv + ah_max_increase s"] pv lim
    by (simp add: health_settings_ok_def)
  show "inc \<le> now"
    using m p by (auto simp: next_multiplier_def Let_def previous_ok_def health_snapshot_ok_def
        split: if_splits option.splits)
  show "v \<le> ah_maximum_multiplier s"
    using m pv lim by (auto simp: next_multiplier_def Let_def pv_def[symmetric] min_def
        split: if_splits option.splits)
  show "\<And>e. expectancy = Some e \<Longrightarrow> e \<le> 0 \<or> ah_max_return_drawdown s \<le> drawdown \<Longrightarrow>
       v = ah_minimum_multiplier s"
    using m by (auto simp: next_multiplier_def Let_def)
  show "previous = None \<Longrightarrow> v \<le> ah_initial_multiplier s"
    using m lim by (auto simp: next_multiplier_def Let_def split: if_splits option.splits)
  show "ah_minimum_multiplier s \<le> v"
    using m pv lim up by (auto simp: next_multiplier_def Let_def pv_def[symmetric] min_def
        split: if_splits option.splits)
  fix p assume "previous = Some p"
  then show "v \<le> hm_value (hs_multiplier p)
       \<or> v \<le> fl (hm_value (hs_multiplier p) + ah_max_increase s) \<and> inc = now
         \<and> ah_minimum_trades s \<le> int (length trades)
         \<and> of_int (ah_increase_interval_seconds s) \<le> total_seconds (now - hs_last_increase_at p)"
    using m pv lim by (auto simp: next_multiplier_def Let_def pv_def split: if_splits option.splits)
qed

lemma health_of_trades_cases:
  assumes s: "health_settings_ok s" and p: "previous_ok s now previous"
    and c: "\<forall>t \<in> set trades. to_closed_at t \<le> now"
    and r: "health_of_trades oh sh alpha trades now s prov previous = r"
  shows "(\<exists>e. r = Inl e \<and> e \<in> {ValueError ''invalid health predecessor'',
             ValueError ''health history regressed or disappeared''})
    \<or> (\<exists>h. r = Inr h \<and> health_snapshot_ok h \<and> hs_settings h = s \<and> hs_timestamp h = now
          \<and> next_multiplier s now previous trades (hs_net_expectancy h) (hs_drawdown h) (hs_last_trade_at h)
              = (hm_value (hs_multiplier h), hs_last_increase_at h)
          \<and> hs_trades h = int (length trades) \<and> hs_alpha_id h = alpha)"
proof -
  define ret where "ret = map net_return trades"
  define e where "e = (if ret = [] then None else Some (fmean ret))"
  define l where "l = (if trades = [] then None else Some (to_closed_at (last trades)))"
  obtain v inc where m: "next_multiplier s now previous trades e (max_drawdown ret) l = (v, inc)"
    by fastforce
  define h where "h = \<lparr>hs_alpha_id = alpha, hs_timestamp = now, hs_trades = int (length trades),
                  hs_net_expectancy = e, hs_net_pnl = dsum (map net_pnl trades),
                  hs_drawdown = max_drawdown ret, hs_costs = dsum (map to_costs trades),
                  hs_slippage_cost = dsum (map to_slippage_cost trades),
                  hs_regimes = map (\<lambda>r. (r, int (length (filter (\<lambda>t. to_regime t = r) trades))))
                                 market_states,
                  hs_multiplier = \<lparr>hm_value = v, hm_minimum = ah_minimum_multiplier s,
                                   hm_maximum = ah_maximum_multiplier s\<rparr>,
                  hs_last_increase_at = inc, hs_last_trade_at = l,
                  hs_settings = s, hs_outcomes_hash = oh trades,
                  hs_prior_hash = map_option sh previous,
                  hs_code_commit = fst prov, hs_config_hash = fst (snd prov),
                  hs_data_snapshot = snd (snd prov)\<rparr>"
  note pol = next_multiplier_policy(1-3)[OF s p m]
  have lim: "0 \<le> ah_minimum_multiplier s" "ah_maximum_multiplier s \<le> 1"
    using s by (auto simp: health_settings_ok_def)
  have hm: "health_multiplier_ok (hs_multiplier h)"
    using pol lim by (simp add: h_def health_multiplier_ok_def)
  have "case l of None \<Rightarrow> True | Some t \<Rightarrow> t \<le> now" using c by (simp add: l_def)
  then have ok: "health_snapshot_ok h"
    unfolding health_snapshot_ok_def using hm pol(3)
    by (cases l) (simp_all add: h_def regimes_total comp_def)
  have eq: "health_of_trades oh sh alpha trades now s prov previous =
      (if (case previous of None \<Rightarrow> False
          | Some p \<Rightarrow> hs_alpha_id p \<noteq> alpha \<or> hs_settings p \<noteq> s \<or> now \<le> hs_timestamp p)
       then Inl (ValueError ''invalid health predecessor'')
       else if (case Option.bind previous hs_last_trade_at of None \<Rightarrow> False
                | Some t \<Rightarrow> (case l of None \<Rightarrow> True | Some l \<Rightarrow> l < t))
       then Inl (ValueError ''health history regressed or disappeared'')
       else mk_health_snapshot h)"
    unfolding health_of_trades_def Let_def ret_def[symmetric] e_def[symmetric] l_def[symmetric] m prod.case
      h_def[symmetric] ..
  have mk: "mk_health_snapshot h = Inr h" using hm ok by (simp add: mk_health_snapshot_def)
  have "next_multiplier s now previous trades (hs_net_expectancy h) (hs_drawdown h) (hs_last_trade_at h)
      = (hm_value (hs_multiplier h), hs_last_increase_at h)" "hs_settings h = s" "hs_timestamp h = now"
    "hs_trades h = int (length trades)" "hs_alpha_id h = alpha"
    using m by (simp_all add: h_def)
  moreover have "r = Inl (ValueError ''invalid health predecessor'')
      \<or> r = Inl (ValueError ''health history regressed or disappeared'') \<or> r = Inr h"
    unfolding r[symmetric] eq mk by presburger
  ultimately show ?thesis using ok by blast
qed

lemma measured_trades_closed:
  assumes "unique_trades alpha now ts [] = Inr us"
  shows "\<forall>t \<in> set (take_last n (trade_order us)). to_closed_at t \<le> now"
  using unique_trades_Inr[OF assms] take_last_subset[of n "trade_order us"]
  by (auto simp: trade_order_def causal_def)

text \<open>
  C10.  The health policy: with valid settings and a valid predecessor a measurement yields a valid snapshot
  (or one of the four documented errors), whose multiplier lies within its bounds, falls to the minimum on
  non-positive expectancy or excessive drawdown, starts at most at the initial value, and otherwise rises
  above the previous one by at most one \<open>max_increase\<close>, only after the increase interval and with enough
  trades.
\<close>

theorem measure_health_policy:
  assumes "health_settings_ok s" "previous_ok s (instant_of t) previous"
  shows "case measure_health oh sh alpha ts t s prov previous of
      Inl e \<Rightarrow> e \<in> {ValueError ''timestamp must be timezone-aware'', ValueError ''conflicting trade outcome'',
                 ValueError ''invalid health predecessor'',
                 ValueError ''health history regressed or disappeared''}
    | Inr h \<Rightarrow> health_snapshot_ok h
        \<and> ah_minimum_multiplier s \<le> hm_value (hs_multiplier h)
        \<and> hm_value (hs_multiplier h) \<le> ah_maximum_multiplier s
        \<and> (\<forall>x. hs_net_expectancy h = Some x \<longrightarrow> x \<le> 0 \<or> ah_max_return_drawdown s \<le> hs_drawdown h
              \<longrightarrow> hm_value (hs_multiplier h) = ah_minimum_multiplier s)
        \<and> (case previous of None \<Rightarrow> hm_value (hs_multiplier h) \<le> ah_initial_multiplier s
            | Some p \<Rightarrow> hm_value (hs_multiplier h) \<le> hm_value (hs_multiplier p)
                \<or> hm_value (hs_multiplier h) \<le> fl (hm_value (hs_multiplier p) + ah_max_increase s)
                  \<and> hs_last_increase_at h = hs_timestamp h \<and> ah_minimum_trades s \<le> hs_trades h
                  \<and> of_int (ah_increase_interval_seconds s)
                    \<le> total_seconds (hs_timestamp h - hs_last_increase_at p))"
proof (cases "aware t")
  case True
  show ?thesis
  proof (cases "unique_trades alpha (instant_of t) ts []")
    case (Inl e)
    then show ?thesis using True unique_trades_error[OF Inl] by (simp add: measure_health_def utc_def)
  next
    case (Inr us)
    let ?tr = "take_last (nat (ah_window_trades s)) (trade_order us)"
    have eq: "measure_health oh sh alpha ts t s prov previous =
        health_of_trades oh sh alpha ?tr (instant_of t) s prov previous"
      using True Inr by (simp add: measure_health_def utc_def)
    from health_of_trades_cases[OF assms measured_trades_closed[OF Inr] refl,
        of oh sh alpha "nat (ah_window_trades s)" prov]
    show ?thesis
    proof (elim disjE exE conjE)
      fix e assume "health_of_trades oh sh alpha ?tr (instant_of t) s prov previous = Inl e"
        "e \<in> {ValueError ''invalid health predecessor'', ValueError ''health history regressed or disappeared''}"
      then show ?thesis unfolding eq by auto
    next
      fix h assume h: "health_of_trades oh sh alpha ?tr (instant_of t) s prov previous = Inr h"
        "health_snapshot_ok h" "hs_timestamp h = instant_of t" "hs_trades h = int (length ?tr)"
        and m: "next_multiplier s (instant_of t) previous ?tr (hs_net_expectancy h) (hs_drawdown h)
          (hs_last_trade_at h) = (hm_value (hs_multiplier h), hs_last_increase_at h)"
      show ?thesis
        unfolding eq h(1) sum.case using h(2-4) next_multiplier_policy[OF assms m]
        by (auto split: option.splits)
    qed
  qed
qed (simp add: measure_health_def utc_def)

theorem measure_health_policy_witness:
  "case measure_health (\<lambda>_. ''o'') (\<lambda>_. ''s'') PAIRS [example_trade ''a'' 10 (-7)] (Aware 50 0)
       example_health_settings (''c'', ''g'', ''d'') None of
     Inl e \<Rightarrow> e \<in> {ValueError ''timestamp must be timezone-aware'', ValueError ''conflicting trade outcome'',
                 ValueError ''invalid health predecessor'',
                 ValueError ''health history regressed or disappeared''}
   | Inr h \<Rightarrow> 0 \<le> hm_value (hs_multiplier h) \<and> hm_value (hs_multiplier h) \<le> 1 / 2"
proof -
  have ok: "health_settings_ok example_health_settings" by code_simp
  show ?thesis
    using measure_health_policy[OF ok, of "Aware 50 0" None "\<lambda>_. ''o''" "\<lambda>_. ''s''" PAIRS
      "[example_trade ''a'' 10 (-7)]" "(''c'', ''g'', ''d'')"]
    by (auto simp: previous_ok_def example_health_settings_def split: sum.splits)
qed

end
