(* ===== verification/Instruments.thy ===== *)
theory Instruments
  imports Clock Numerics
begin

text \<open>
  \<open>market_data/instruments.py\<close>: the instrument master, tick rounding and broker-symbol mappings, and
  \<open>security_id\<close> of \<open>alphas/relative_value_models.py\<close>.  Loading YAML files is not modelled.
\<close>

datatype instrument_status = ACTIVE | SUSPENDED | UNTRADABLE

datatype tick_rounding = NEAREST | FLOOR | CEILING

record price_band =
  pb_lower :: "rat option"
  pb_upper :: "rat option"
  pb_category :: "string option"

definition price_band_ok :: "price_band \<Rightarrow> bool" where
  "price_band_ok b \<longleftrightarrow>
     (case (pb_lower b, pb_upper b) of (Some l, Some u) \<Rightarrow> l < u | _ \<Rightarrow> True)"

record instrument =
  in_symbol :: string
  in_token :: string
  in_isin :: string
  in_exchange :: string
  in_segment :: string
  in_tick_size :: rat
  in_status :: instrument_status
  in_fo_eligible :: bool
  in_sector :: string
  in_price_band :: price_band
  in_surveillance :: bool
  in_data_ambiguous :: bool
  in_effective_from :: day
  in_effective_to :: day

definition instrument_ok :: "instrument \<Rightarrow> bool" where
  "instrument_ok i \<longleftrightarrow> in_symbol i \<noteq> [] \<and> in_token i \<noteq> [] \<and> in_isin i \<noteq> [] \<and> in_exchange i \<noteq> []
     \<and> in_segment i \<noteq> [] \<and> 0 < in_tick_size i \<and> in_sector i \<noteq> [] \<and> price_band_ok (in_price_band i)
     \<and> in_effective_from i \<le> in_effective_to i"

definition active_on :: "instrument \<Rightarrow> day \<Rightarrow> bool" where
  "active_on i d \<longleftrightarrow> in_effective_from i \<le> d \<and> d \<le> in_effective_to i"

text \<open>\<open>quantize(Decimal("1"), rounding=...)\<close>: \<open>ROUND_HALF_UP\<close> rounds a tie away from zero.\<close>

fun round_ticks :: "tick_rounding \<Rightarrow> rat \<Rightarrow> int" where
  "round_ticks FLOOR q = \<lfloor>q\<rfloor>"
| "round_ticks CEILING q = \<lceil>q\<rceil>"
| "round_ticks NEAREST q = (if 0 \<le> q then \<lfloor>q + 1 / 2\<rfloor> else \<lceil>q - 1 / 2\<rceil>)"

text \<open>A coefficient of more than 28 digits makes \<open>quantize\<close> raise \<open>InvalidOperation\<close>.\<close>

definition round_price :: "instrument \<Rightarrow> rat \<Rightarrow> tick_rounding \<Rightarrow> rat result" where
  "round_price i price direction =
     (let ticks = round_ticks direction (dec (price / in_tick_size i))
      in if 10 ^ 28 \<le> \<bar>ticks\<bar> then Inl (RuntimeError ''InvalidOperation'')
         else Inr (dec (of_int ticks * in_tick_size i)))"

record instrument_master =
  im_snapshot_id :: string
  im_version :: string
  im_exchange :: string
  im_as_of :: day
  im_generated_at :: pydatetime
  im_source_reference :: string
  im_instruments :: "instrument list"

record broker_symbol_mapping =
  bm_broker :: string
  bm_exchange :: string
  bm_instrument_token :: string
  bm_broker_symbol :: string
  bm_effective_from :: day
  bm_effective_to :: day

definition broker_matches ::
  "broker_symbol_mapping list \<Rightarrow> string \<Rightarrow> string \<Rightarrow> day \<Rightarrow> string list" where
  "broker_matches ms broker token as_of =
     map bm_broker_symbol (filter (\<lambda>m. bm_broker m = broker \<and> bm_instrument_token m = token
       \<and> bm_effective_from m \<le> as_of \<and> as_of \<le> bm_effective_to m) ms)"

definition resolve ::
  "broker_symbol_mapping list \<Rightarrow> string \<Rightarrow> string \<Rightarrow> day \<Rightarrow> string option result" where
  "resolve ms broker token as_of =
     (case broker_matches ms broker token as_of of
        [] \<Rightarrow> Inr None
      | [s] \<Rightarrow> Inr (Some s)
      | _ \<Rightarrow> Inl (ValueError ''ambiguous broker-symbol mapping''))"

text \<open>\<open>strip().upper()\<close> on ASCII text.\<close>

definition is_space :: "char \<Rightarrow> bool" where
  "is_space c \<longleftrightarrow> of_char c \<in> {9, 10, 11, 12, 13, 28, 29, 30, 31, 32 :: nat}"

definition strip :: "string \<Rightarrow> string" where
  "strip s = rev (dropWhile is_space (rev (dropWhile is_space s)))"

definition upper_char :: "char \<Rightarrow> char" where
  "upper_char c = (let n = of_char c :: nat in if 97 \<le> n \<and> n \<le> 122 then char_of (n - 32) else c)"

definition upper :: "string \<Rightarrow> string" where
  "upper s = map upper_char s"

text \<open>\<open>uuid5 name\<close> stands for \<open>uuid5(NAMESPACE_URL, name)\<close>.\<close>

definition security_id :: "(string \<Rightarrow> uuid) \<Rightarrow> instrument \<Rightarrow> uuid" where
  "security_id uuid5 i =
     uuid5 (''godzilla:security:'' @ join '':''
       [upper (strip (in_exchange i)), upper (strip (in_segment i)), upper (strip (in_isin i))])"

subsection \<open>Tick rounding\<close>

lemma round_ticks_of_int [simp]: "round_ticks d (of_int n) = n"
  by (cases d) (auto simp: floor_eq_iff ceiling_eq_iff)

lemma round_ticks_bounds:
  "of_int (round_ticks FLOOR q) \<le> q" "q < of_int (round_ticks FLOOR q) + 1"
  "q \<le> of_int (round_ticks CEILING q)" "of_int (round_ticks CEILING q) < q + 1"
  "\<bar>of_int (round_ticks NEAREST q) - q\<bar> \<le> 1 / 2"
proof -
  show "of_int (round_ticks FLOOR q) \<le> q" "q < of_int (round_ticks FLOOR q) + 1"
    "q \<le> of_int (round_ticks CEILING q)" "of_int (round_ticks CEILING q) < q + 1"
    by (simp_all; linarith)+
  show "\<bar>of_int (round_ticks NEAREST q) - q\<bar> \<le> 1 / 2"
  proof -
    have "of_int \<lfloor>q + 1 / 2\<rfloor> \<le> q + 1 / 2" "q + 1 / 2 < of_int \<lfloor>q + 1 / 2\<rfloor> + 1"
      "of_int \<lceil>q - 1 / 2\<rceil> - 1 < q - 1 / 2" "q - 1 / 2 \<le> of_int \<lceil>q - 1 / 2\<rceil>"
      by (rule of_int_floor_le, linarith, linarith, rule le_of_int_ceiling)
    then show ?thesis unfolding round_ticks.simps abs_le_iff by (simp split: if_splits) linarith
  qed
qed

lemma round_ticks_mono: "p \<le> q \<Longrightarrow> round_ticks d p \<le> round_ticks d q"
  by (cases d) (auto intro: floor_mono ceiling_mono, linarith+)

lemma round_price_mono:
  assumes "round_price i p d = Inr a" "round_price i q d = Inr b" "p \<le> q" "0 < in_tick_size i"
  shows "a \<le> b"
proof -
  have "round_ticks d (dec (p / in_tick_size i)) \<le> round_ticks d (dec (q / in_tick_size i))"
    using assms(3,4) by (intro round_ticks_mono dcr.mono divide_right_mono) auto
  then show ?thesis
    using assms by (auto simp: round_price_def Let_def split: if_splits intro!: dcr.mono mult_right_mono)
qed

text \<open>
  Tick rounding: when the quotient by the tick size is exact in 28 digits, the rounded price is (the
  28-digit value of) a whole number of ticks, \<open>FLOOR\<close> never exceeds the price, \<open>CEILING\<close> is never below it,
  both stay within one tick and \<open>NEAREST\<close> within half a tick.
\<close>

theorem round_price_sound:
  assumes "round_price i price direction = Inr rounded" "0 < in_tick_size i"
    and "dec (price / in_tick_size i) = price / in_tick_size i"
  shows "\<exists>n. let exact = of_int n * in_tick_size i in rounded = dec exact
    \<and> (direction = FLOOR \<longrightarrow> exact \<le> price \<and> price < exact + in_tick_size i)
    \<and> (direction = CEILING \<longrightarrow> price \<le> exact \<and> exact < price + in_tick_size i)
    \<and> (direction = NEAREST \<longrightarrow> \<bar>exact - price\<bar> \<le> in_tick_size i / 2)"
proof -
  let ?t = "in_tick_size i" and ?n = "round_ticks direction (price / in_tick_size i)"
  have r: "rounded = dec (of_int ?n * ?t)"
    using assms(1,3) by (auto simp: round_price_def Let_def split: if_splits)
  have scale: "\<bar>of_int k * ?t - price\<bar> = \<bar>of_int k - price / ?t\<bar> * ?t" for k
  proof -
    have "of_int k * ?t - price = (of_int k - price / ?t) * ?t"
      using assms(2) by (simp add: left_diff_distrib)
    then show ?thesis using assms(2) by (simp only: abs_mult abs_of_pos)
  qed
  note pos = pos_divide_le_eq[OF assms(2)] pos_le_divide_eq[OF assms(2)]
    pos_less_divide_eq[OF assms(2)] pos_divide_less_eq[OF assms(2)]
  note b = round_ticks_bounds[of "price / ?t"]
  have "direction = FLOOR \<longrightarrow> of_int ?n * ?t \<le> price \<and> price < of_int ?n * ?t + ?t"
    using b(1,2) by (auto simp: pos distrib_right)
  moreover have "direction = CEILING \<longrightarrow> price \<le> of_int ?n * ?t \<and> of_int ?n * ?t < price + ?t"
    using b(3) mult_strict_right_mono[OF b(4) assms(2)] assms(2)
    by (simp only: pos distrib_right) simp
  moreover have "direction = NEAREST \<longrightarrow> \<bar>of_int ?n * ?t - price\<bar> \<le> ?t / 2"
    using b(5) assms(2) mult_right_mono[OF b(5), of ?t] by (simp add: scale)
  ultimately show ?thesis using r by (auto simp: Let_def)
qed

definition example_instrument :: "string \<Rightarrow> string \<Rightarrow> instrument" where
  "example_instrument token sector =
     \<lparr>in_symbol = token, in_token = token, in_isin = token, in_exchange = ''NSE'',
      in_segment = ''EQ'', in_tick_size = 1 / 20, in_status = ACTIVE, in_fo_eligible = True,
      in_sector = sector, in_price_band = \<lparr>pb_lower = None, pb_upper = None, pb_category = None\<rparr>,
      in_surveillance = False, in_data_ambiguous = False, in_effective_from = 20000,
      in_effective_to = 30000\<rparr>"

theorem round_price_sound_witness:
  "\<exists>n. let exact = of_int n * (1 / 20) in (2001 / 20 :: rat) = dec exact \<and> \<bar>exact - 10003 / 100\<bar> \<le> 1 / 40"
proof -
  have "round_price (example_instrument ''A'' ''IT'') (10003 / 100) NEAREST = Inr (2001 / 20)"
    "dec (10003 / 100 / in_tick_size (example_instrument ''A'' ''IT'')) =
       10003 / 100 / in_tick_size (example_instrument ''A'' ''IT'')"
    "0 < in_tick_size (example_instrument ''A'' ''IT'')"
    by (code_simp, code_simp, code_simp)
  from round_price_sound[OF this(1,3,2)] show ?thesis
    by (simp add: example_instrument_def Let_def)
qed

end
