(* ===== verification/Compliance.thy ===== *)
theory Compliance
  imports Lifecycle Clock
begin

text \<open>
  \<open>compliance/models.py\<close> and \<open>compliance/service.py\<close>: the point-in-time compliance profile, its structural
  and temporal issues and the start-up gate.
\<close>

datatype broker_route =
    PAPER_SIMULATOR | CLIENT_DIRECT_API | MEMBER_FRONTEND | BROKER_HOSTED_PROVIDER

datatype order_type = LIMIT | STOP_LIMIT

record source_reference =
  sr_authority :: string
  sr_reference :: string
  sr_url :: string

record api_tagging_rule =
  at_required :: bool
  at_scheme :: "string option"
  at_verified :: bool

record rate_limit_rule =
  rl_exchange_threshold_ops :: int
  rl_configured_max_ops :: int
  rl_verified :: bool

definition rate_limit_ok :: "rate_limit_rule \<Rightarrow> bool" where
  "rate_limit_ok r \<longleftrightarrow> 0 < rl_exchange_threshold_ops r \<and> 0 < rl_configured_max_ops r
     \<and> rl_configured_max_ops r \<le> rl_exchange_threshold_ops r"

record short_eligibility_rule =
  sh_intraday_short_allowed :: bool
  sh_require_fo_eligibility :: bool
  sh_broker_permission_verified :: bool
  sh_overnight_short_allowed :: bool

definition short_eligibility_ok :: "short_eligibility_rule \<Rightarrow> bool" where
  "short_eligibility_ok r \<longleftrightarrow> \<not> sh_overnight_short_allowed r"

record compliance_profile =
  cp_profile_id :: string
  cp_version :: string
  cp_jurisdiction :: string
  cp_exchange :: string
  cp_broker_name :: string
  cp_broker_route :: broker_route
  cp_static_ip_required :: bool
  cp_static_ip_registered :: bool
  cp_api_tagging :: api_tagging_rule
  cp_rate_limit :: rate_limit_rule
  cp_allowed_order_types :: "order_type set"
  cp_short_eligibility :: short_eligibility_rule
  cp_session_reset_required :: bool
  cp_session_reset_verified :: bool
  cp_effective_from :: day
  cp_effective_to :: day
  cp_source_references :: "source_reference list"
  cp_reviewed_at :: pydatetime
  cp_expires_at :: pydatetime
  cp_paper_allowed :: bool
  cp_live_allowed :: bool

definition profile_ok :: "compliance_profile \<Rightarrow> bool" where
  "profile_ok p \<longleftrightarrow> cp_profile_id p \<noteq> [] \<and> cp_version p \<noteq> [] \<and> cp_jurisdiction p \<noteq> []
     \<and> cp_exchange p \<noteq> [] \<and> cp_broker_name p \<noteq> [] \<and> rate_limit_ok (cp_rate_limit p)
     \<and> cp_allowed_order_types p \<noteq> {} \<and> short_eligibility_ok (cp_short_eligibility p)
     \<and> cp_source_references p \<noteq> [] \<and> aware (cp_reviewed_at p) \<and> aware (cp_expires_at p)
     \<and> cp_effective_from p \<le> cp_effective_to p
     \<and> instant_of (cp_reviewed_at p) < instant_of (cp_expires_at p)"

definition issue :: "bool \<Rightarrow> string \<Rightarrow> string list" where
  "issue b name = (if b then [name] else [])"

definition structural_issues :: "compliance_profile \<Rightarrow> trading_mode \<Rightarrow> string list" where
  "structural_issues p mode =
     issue (mode = PAPER \<and> \<not> cp_paper_allowed p) ''compliance.paper_allowed''
     @ (if mode = LIVE then
          issue (\<not> cp_live_allowed p) ''compliance.live_allowed''
          @ issue (cp_broker_route p = PAPER_SIMULATOR) ''compliance.broker_route''
          @ issue (cp_static_ip_required p \<and> \<not> cp_static_ip_registered p)
              ''compliance.static_ip_registered''
          @ issue (at_required (cp_api_tagging p) \<and> \<not> at_verified (cp_api_tagging p))
              ''compliance.api_tagging.verified''
          @ issue (\<not> rl_verified (cp_rate_limit p)) ''compliance.rate_limit.verified''
          @ issue (\<not> sh_broker_permission_verified (cp_short_eligibility p))
              ''compliance.short_eligibility.broker_permission_verified''
          @ issue (cp_session_reset_required p \<and> \<not> cp_session_reset_verified p)
              ''compliance.api_daily_session_reset_verified''
        else [])"

text \<open>\<open>at.date()\<close> is the date of the wall clock that the datetime carries.\<close>

fun wall_date :: "pydatetime \<Rightarrow> day" where
  "wall_date (Naive w) = w div day_us"
| "wall_date (Aware w off) = w div day_us"

definition temporal_issues :: "compliance_profile \<Rightarrow> pydatetime \<Rightarrow> string list result" where
  "temporal_issues p now =
     (if \<not> aware now then Inl (ValueError ''compliance evaluation time must be timezone-aware'')
      else Inr (issue (\<not> (cp_effective_from p \<le> wall_date now \<and> wall_date now \<le> cp_effective_to p))
                  ''compliance profile outside effective date range''
                @ issue (instant_of (cp_expires_at p) < instant_of now) ''compliance profile expired''))"

fun mode_name :: "trading_mode \<Rightarrow> string" where
  "mode_name RESEARCH = ''RESEARCH''"
| "mode_name BACKTEST = ''BACKTEST''"
| "mode_name PAPER = ''PAPER''"
| "mode_name LIVE = ''LIVE''"

text \<open>\<open>now\<close> is what the gate's clock returns; \<open>ComplianceViolation\<close> is a \<open>RuntimeError\<close>.\<close>

definition gate_validate ::
  "pydatetime \<Rightarrow> compliance_profile \<Rightarrow> trading_mode \<Rightarrow> unit result" where
  "gate_validate now p mode =
     (if mode \<notin> {PAPER, LIVE} then Inr ()
      else rbind (temporal_issues p now) (\<lambda>late.
        let issues = structural_issues p mode @ late
        in if issues \<noteq> [] then
             Inl (RuntimeError (mode_name mode @ '' startup blocked by compliance: '' @ join '', '' issues))
           else Inr ()))"

lemma issue_Nil [simp]: "issue b n = [] \<longleftrightarrow> \<not> b"
  by (simp add: issue_def)

text \<open>
  The start-up gate lets LIVE pass exactly when the profile allows LIVE on a real broker route, every
  required item is verified, and the clock is inside the effective dates and not past the expiry; PAPER
  needs the paper permission and the same dates; the other modes always pass.
\<close>

theorem gate_passes_iff:
  "gate_validate now p mode = Inr () \<longleftrightarrow>
     mode \<in> {RESEARCH, BACKTEST}
     \<or> aware now \<and> cp_effective_from p \<le> wall_date now \<and> wall_date now \<le> cp_effective_to p
       \<and> instant_of now \<le> instant_of (cp_expires_at p)
       \<and> (mode = PAPER \<and> cp_paper_allowed p
          \<or> mode = LIVE \<and> cp_live_allowed p \<and> cp_broker_route p \<noteq> PAPER_SIMULATOR
            \<and> (cp_static_ip_required p \<longrightarrow> cp_static_ip_registered p)
            \<and> (at_required (cp_api_tagging p) \<longrightarrow> at_verified (cp_api_tagging p))
            \<and> rl_verified (cp_rate_limit p)
            \<and> sh_broker_permission_verified (cp_short_eligibility p)
            \<and> (cp_session_reset_required p \<longrightarrow> cp_session_reset_verified p))"
  by (cases mode) (auto simp: gate_validate_def temporal_issues_def structural_issues_def Let_def)

definition example_profile :: compliance_profile where
  "example_profile =
     \<lparr>cp_profile_id = ''p'', cp_version = ''1'', cp_jurisdiction = ''IN'', cp_exchange = ''NSE'',
      cp_broker_name = ''b'', cp_broker_route = CLIENT_DIRECT_API, cp_static_ip_required = True,
      cp_static_ip_registered = True,
      cp_api_tagging = \<lparr>at_required = True, at_scheme = None, at_verified = True\<rparr>,
      cp_rate_limit = \<lparr>rl_exchange_threshold_ops = 10, rl_configured_max_ops = 5, rl_verified = True\<rparr>,
      cp_allowed_order_types = {LIMIT},
      cp_short_eligibility = \<lparr>sh_intraday_short_allowed = True, sh_require_fo_eligibility = True,
         sh_broker_permission_verified = True, sh_overnight_short_allowed = False\<rparr>,
      cp_session_reset_required = True, cp_session_reset_verified = True,
      cp_effective_from = 20454, cp_effective_to = 20818,
      cp_source_references = [\<lparr>sr_authority = ''a'', sr_reference = ''r'', sr_url = ''u''\<rparr>],
      cp_reviewed_at = Aware (20454 * day_us) 0, cp_expires_at = Aware (20818 * day_us) 0,
      cp_paper_allowed = True, cp_live_allowed = True\<rparr>"

theorem gate_passes_iff_witness:
  "gate_validate (Aware (20600 * day_us) 0) example_profile LIVE = Inr ()"
  unfolding gate_passes_iff by (simp add: example_profile_def day_us_def)

end
