(* ===== verification/Universe.thy ===== *)
theory Universe
  imports Instruments Compliance
begin

text \<open>
  \<open>universe/builder.py\<close>: the deterministic long and short universe of a day.  The snapshot identity
  (\<open>uuid5\<close> of a SHA-256 fingerprint) is the parameter \<open>fingerprint\<close>, a function of the same fields.
\<close>

record universe_settings =
  us_require_fo_eligibility_for_short :: bool
  us_liquidity_percentile_min :: rat
  us_max_spread_bps :: int
  us_max_adv_participation :: rat
  us_excluded_symbols :: "string set"
  us_excluded_sectors :: "string set"
  us_exclude_surveillance :: bool
  us_exclude_data_ambiguity :: bool

datatype exclusion_reason =
    NOT_EFFECTIVE | X_SUSPENDED | X_UNTRADABLE | SURVEILLANCE | DATA_AMBIGUITY | CONFIG_SYMBOL
  | CONFIG_SECTOR | SHORT_NOT_FO_ELIGIBLE | SHORT_NOT_PERMITTED

record exclusion =
  ex_instrument_token :: string
  ex_symbol :: string
  ex_reasons :: "exclusion_reason list"

record universe_snapshot =
  un_snapshot_id :: uuid
  un_as_of :: day
  un_generated_at :: pydatetime
  un_instrument_snapshot_id :: string
  un_compliance_profile_id :: string
  un_long_tokens :: "string list"
  un_short_tokens :: "string list"
  un_exclusions :: "exclusion list"

definition reason_if :: "bool \<Rightarrow> exclusion_reason \<Rightarrow> exclusion_reason list" where
  "reason_if b r = (if b then [r] else [])"

definition base_exclusions ::
  "instrument \<Rightarrow> universe_settings \<Rightarrow> day \<Rightarrow> exclusion_reason list" where
  "base_exclusions i s as_of =
     reason_if (\<not> active_on i as_of) NOT_EFFECTIVE
     @ (if in_status i = SUSPENDED then [X_SUSPENDED]
        else reason_if (in_status i = UNTRADABLE) X_UNTRADABLE)
     @ reason_if (us_exclude_surveillance s \<and> in_surveillance i) SURVEILLANCE
     @ reason_if (us_exclude_data_ambiguity s \<and> in_data_ambiguous i) DATA_AMBIGUITY
     @ reason_if (in_symbol i \<in> us_excluded_symbols s) CONFIG_SYMBOL
     @ reason_if (in_sector i \<in> us_excluded_sectors s) CONFIG_SECTOR"

definition short_exclusions ::
  "instrument \<Rightarrow> short_eligibility_rule \<Rightarrow> universe_settings \<Rightarrow> exclusion_reason list" where
  "short_exclusions i rule s =
     reason_if (\<not> sh_intraday_short_allowed rule \<or> \<not> sh_broker_permission_verified rule)
       SHORT_NOT_PERMITTED
     @ reason_if ((us_require_fo_eligibility_for_short s \<or> sh_require_fo_eligibility rule)
                  \<and> \<not> in_fo_eligible i) SHORT_NOT_FO_ELIGIBLE"

definition mk_exclusion :: "instrument \<Rightarrow> exclusion_reason list \<Rightarrow> exclusion" where
  "mk_exclusion i rs = \<lparr>ex_instrument_token = in_token i, ex_symbol = in_symbol i, ex_reasons = rs\<rparr>"

text \<open>The loop over the sorted instruments: \<open>longs\<close>, \<open>shorts\<close> and \<open>exclusions\<close>.\<close>

fun build_loop ::
  "short_eligibility_rule \<Rightarrow> universe_settings \<Rightarrow> day \<Rightarrow> instrument list
     \<Rightarrow> string list \<times> string list \<times> exclusion list" where
  "build_loop rule s as_of [] = ([], [], [])"
| "build_loop rule s as_of (i # rest) =
     (let (longs, shorts, excl) = build_loop rule s as_of rest;
          base = base_exclusions i s as_of;
          short = short_exclusions i rule s
      in if base \<noteq> [] then (longs, shorts, mk_exclusion i base # excl)
         else if short \<noteq> [] then (in_token i # longs, shorts, mk_exclusion i short # excl)
         else (in_token i # longs, in_token i # shorts, excl))"

definition build ::
  "(string \<Rightarrow> string \<Rightarrow> day \<Rightarrow> universe_settings \<Rightarrow> string list \<Rightarrow> string list \<Rightarrow> exclusion list \<Rightarrow> uuid)
     \<Rightarrow> instrument_master \<Rightarrow> compliance_profile \<Rightarrow> universe_settings \<Rightarrow> day \<Rightarrow> pydatetime
     \<Rightarrow> universe_snapshot result" where
  "build fingerprint master compliance s as_of generated_at =
     (if \<not> aware generated_at then Inl (ValueError ''generated_at must be timezone-aware'')
      else if im_as_of master \<noteq> as_of then
        Inl (ValueError ''daily universe date must match instrument snapshot as_of'')
      else
        (let (longs, shorts, excl) = build_loop (cp_short_eligibility compliance) s as_of
               (sort_key (\<lambda>i. (in_symbol i, in_token i)) (im_instruments master))
         in Inr \<lparr>un_snapshot_id = fingerprint (im_snapshot_id master) (cp_profile_id compliance) as_of s
                   longs shorts excl,
                 un_as_of = as_of, un_generated_at = generated_at,
                 un_instrument_snapshot_id = im_snapshot_id master,
                 un_compliance_profile_id = cp_profile_id compliance,
                 un_long_tokens = longs, un_short_tokens = shorts, un_exclusions = excl\<rparr>))"

subsection \<open>What a universe contains\<close>

lemma reason_if_Nil [simp]: "reason_if b r = [] \<longleftrightarrow> \<not> b"
  by (simp add: reason_if_def)

definition tradable :: "instrument \<Rightarrow> universe_settings \<Rightarrow> day \<Rightarrow> bool" where
  "tradable i s as_of \<longleftrightarrow> active_on i as_of \<and> in_status i = ACTIVE
     \<and> \<not> (us_exclude_surveillance s \<and> in_surveillance i)
     \<and> \<not> (us_exclude_data_ambiguity s \<and> in_data_ambiguous i)
     \<and> in_symbol i \<notin> us_excluded_symbols s \<and> in_sector i \<notin> us_excluded_sectors s"

definition shortable :: "instrument \<Rightarrow> short_eligibility_rule \<Rightarrow> universe_settings \<Rightarrow> bool" where
  "shortable i rule s \<longleftrightarrow> sh_intraday_short_allowed rule \<and> sh_broker_permission_verified rule
     \<and> ((us_require_fo_eligibility_for_short s \<or> sh_require_fo_eligibility rule) \<longrightarrow> in_fo_eligible i)"

lemma base_exclusions_Nil: "base_exclusions i s as_of = [] \<longleftrightarrow> tradable i s as_of"
  by (cases "in_status i") (auto simp: base_exclusions_def tradable_def)

lemma short_exclusions_Nil: "short_exclusions i rule s = [] \<longleftrightarrow> shortable i rule s"
  by (auto simp: short_exclusions_def shortable_def)

lemma build_loop_filter:
  "build_loop rule s as_of is =
     (map in_token (filter (\<lambda>i. tradable i s as_of) is),
      map in_token (filter (\<lambda>i. tradable i s as_of \<and> shortable i rule s) is),
      map (\<lambda>i. mk_exclusion i (if tradable i s as_of then short_exclusions i rule s
                                else base_exclusions i s as_of))
          (filter (\<lambda>i. \<not> (tradable i s as_of \<and> shortable i rule s)) is))"
  by (induction "is") (auto simp: base_exclusions_Nil short_exclusions_Nil)

lemma build_Inr:
  assumes "build fp m c s d g = Inr u"
  shows "un_long_tokens u = map in_token (filter (\<lambda>i. tradable i s d)
      (sort_key (\<lambda>i. (in_symbol i, in_token i)) (im_instruments m)))"
    "un_short_tokens u = map in_token (filter (\<lambda>i. tradable i s d \<and> shortable i (cp_short_eligibility c) s)
      (sort_key (\<lambda>i. (in_symbol i, in_token i)) (im_instruments m)))"
    "un_as_of u = d" "im_as_of m = d" "un_instrument_snapshot_id u = im_snapshot_id m"
  using assms by (auto simp: build_def build_loop_filter Let_def split: if_splits)

text \<open>
  The universe of a day is exact: its long tokens are those of the instruments that are effective,
  active and not excluded by the settings, its short tokens are the long ones that the compliance rule and
  the F&O requirement admit, and exactly the other instruments have an exclusion, with at least one reason.
\<close>

theorem build_exact:
  assumes "build fp m c s d g = Inr u"
  shows "set (un_long_tokens u) = in_token ` {i \<in> set (im_instruments m). tradable i s d}
    \<and> set (un_short_tokens u) = in_token ` {i \<in> set (im_instruments m).
        tradable i s d \<and> shortable i (cp_short_eligibility c) s}
    \<and> set (map ex_instrument_token (un_exclusions u)) = in_token ` {i \<in> set (im_instruments m).
        \<not> (tradable i s d \<and> shortable i (cp_short_eligibility c) s)}
    \<and> list_all (\<lambda>x. ex_reasons x \<noteq> []) (un_exclusions u)"
proof -
  have x: "un_exclusions u = map (\<lambda>i. mk_exclusion i (if tradable i s d
        then short_exclusions i (cp_short_eligibility c) s else base_exclusions i s d))
      (filter (\<lambda>i. \<not> (tradable i s d \<and> shortable i (cp_short_eligibility c) s))
        (sort_key (\<lambda>i. (in_symbol i, in_token i)) (im_instruments m)))"
    using assms by (auto simp: build_def build_loop_filter Let_def split: if_splits)
  have "list_all (\<lambda>x. ex_reasons x \<noteq> []) (un_exclusions u)"
    by (auto simp: x list_all_iff mk_exclusion_def base_exclusions_Nil short_exclusions_Nil)
  moreover have "set (map ex_instrument_token (un_exclusions u)) = in_token ` {i \<in> set (im_instruments m).
        \<not> (tradable i s d \<and> shortable i (cp_short_eligibility c) s)}"
    by (auto simp: x mk_exclusion_def image_iff)
  ultimately show ?thesis using build_Inr(1,2)[OF assms] by auto
qed

definition example_master :: instrument_master where
  "example_master =
     \<lparr>im_snapshot_id = ''m'', im_version = ''1'', im_exchange = ''NSE'', im_as_of = 20641,
      im_generated_at = Aware (20641 * day_us) 0, im_source_reference = ''s'',
      im_instruments = [example_instrument ''B'' ''BANK'', example_instrument ''A'' ''IT'',
        (example_instrument ''C'' ''IT'')\<lparr>in_fo_eligible := False\<rparr>,
        (example_instrument ''D'' ''IT'')\<lparr>in_status := SUSPENDED\<rparr>]\<rparr>"

definition example_universe_settings :: universe_settings where
  "example_universe_settings =
     \<lparr>us_require_fo_eligibility_for_short = True, us_liquidity_percentile_min = 1 / 2,
      us_max_spread_bps = 12, us_max_adv_participation = 1 / 100, us_excluded_symbols = {},
      us_excluded_sectors = {}, us_exclude_surveillance = True, us_exclude_data_ambiguity = True\<rparr>"

lemma example_tradable:
  "tradable (example_instrument t sec) example_universe_settings 20641"
  "tradable ((example_instrument t sec)\<lparr>in_fo_eligible := False\<rparr>) example_universe_settings 20641"
  "\<not> tradable ((example_instrument t sec)\<lparr>in_status := SUSPENDED\<rparr>) example_universe_settings 20641"
  by (simp_all add: tradable_def active_on_def example_universe_settings_def example_instrument_def)

lemma example_shortable:
  "shortable (example_instrument t sec) (cp_short_eligibility example_profile) example_universe_settings"
  "\<not> shortable ((example_instrument t sec)\<lparr>in_fo_eligible := False\<rparr>)
     (cp_short_eligibility example_profile) example_universe_settings"
  by (simp_all add: shortable_def example_universe_settings_def example_instrument_def example_profile_def)

lemma example_instrument_token:
  "in_token (example_instrument t sec) = t"
  "in_token ((example_instrument t sec)\<lparr>in_fo_eligible := False\<rparr>) = t"
  by (simp_all add: example_instrument_def)

theorem build_exact_witness:
  "\<exists>u. build (\<lambda>_ _ _ _ _ _ _. ''u'') example_master example_profile example_universe_settings 20641
         (Aware (20641 * day_us) 0) = Inr u
     \<and> set (un_long_tokens u) = {''A'', ''B'', ''C''} \<and> set (un_short_tokens u) = {''A'', ''B''}"
proof -
  obtain u where u: "build (\<lambda>_ _ _ _ _ _ _. ''u'') example_master example_profile
      example_universe_settings 20641 (Aware (20641 * day_us) 0) = Inr u"
    by (simp add: build_def example_master_def Let_def split_beta)
  have "set (un_long_tokens u) = {''A'', ''B'', ''C''}" "set (un_short_tokens u) = {''A'', ''B''}"
    using build_exact[OF u] unfolding set_filter[symmetric]
    by (auto simp: example_master_def example_tradable example_shortable example_instrument_token)
  with u show ?thesis by blast
qed

end
