(* ===== verification/Normalize.thy ===== *)
theory Normalize
  imports Alpha_Health Universe
begin

text \<open>
  \<open>ensemble/normalize.py\<close> with the candidate and decision records of \<open>ensemble/models.py\<close> and
  \<open>portfolio/models.py\<close>: alpha intents become normalized candidates, conflicts are resolved, and every
  intent ends as a candidate or as a rejection with a reason.

  The intent records hold the fields that the normalisation, the event validators and the store read;
  the other fields of an intent, which only take part in equality and in content hashes, are the
  component \<open>rest\<close>.
\<close>

datatype intent_action = ENTER | EXIT

datatype spread_direction = LONG_SPREAD | SHORT_SPREAD

record signal_evidence =
  ev_timestamp :: instant
  ev_alpha_id :: string
  ev_side :: side
  ev_instrument_id :: string
  ev_symbol :: string
  ev_score :: rat
  ev_code_commit :: string
  ev_config_hash :: string
  ev_data_snapshot :: string
  ev_universe_hash :: string
  ev_instrument_master_hash :: string
  ev_state_hash :: string
  ev_feature_set_hash :: string
  ev_rest :: string

record signal_intent =
  si_signal_id :: uuid
  si_instrument_id :: string
  si_alpha_id :: string
  si_side :: side
  si_reasons :: "string list"
  si_score :: "rat option"
  si_evidence :: "signal_evidence option"
  si_rest :: string

record intent_leg =
  il_instrument_id :: string
  il_side :: side
  il_gross_fraction :: rat

record relative_leg = intent_leg +
  il_percentile :: rat

record pair_intent =
  pi_signal_id :: uuid
  pi_timestamp :: instant
  pi_pair_id :: string
  pi_direction :: spread_direction
  pi_action :: intent_action
  pi_legs :: "intent_leg list"
  pi_current_z :: rat
  pi_stop_z :: rat
  pi_universe_hash :: string
  pi_state_hash :: string
  pi_code_commit :: string
  pi_config_hash :: string
  pi_data_snapshot :: string
  pi_rest :: string

record relative_intent =
  ri_signal_id :: uuid
  ri_entity_id :: uuid
  ri_timestamp :: instant
  ri_legs :: "relative_leg list"
  ri_universe_hash :: string
  ri_master_hash :: string
  ri_state_hash :: string
  ri_code_commit :: string
  ri_config_hash :: string
  ri_data_snapshot :: string
  ri_feature_set_hash :: string
  ri_rest :: string

datatype alpha_intent = Signal signal_intent | Pair pair_intent | Relative relative_intent

fun signal_id :: "alpha_intent \<Rightarrow> uuid" where
  "signal_id (Signal i) = si_signal_id i"
| "signal_id (Pair i) = pi_signal_id i"
| "signal_id (Relative i) = ri_signal_id i"

fun intent_alpha :: "alpha_intent \<Rightarrow> string" where
  "intent_alpha (Signal i) = si_alpha_id i"
| "intent_alpha (Pair i) = ''pairs_stat_arb''"
| "intent_alpha (Relative i) = ''sector_relative_value''"

text \<open>\<open>repr\<close> of a string without quotes or escapes in it.\<close>

definition py_repr :: "string \<Rightarrow> string" where
  "py_repr s = CHR 0x27 # s @ [CHR 0x27]"

definition parse_alpha :: "string \<Rightarrow> alpha_id result" where
  "parse_alpha s =
     (case find (\<lambda>a. alpha_value a = s) alpha_ids of
        None \<Rightarrow> Inl (ValueError (py_repr s @ '' is not a valid AlphaId'')) | Some a \<Rightarrow> Inr a)"

text \<open>\<open>RelativeValueIntent.score\<close>; a validated intent has legs on both sides.\<close>

definition side_percentiles :: "side \<Rightarrow> relative_leg list \<Rightarrow> rat list" where
  "side_percentiles s legs = map il_percentile (filter (\<lambda>x. il_side x = s) legs)"

definition mean_of :: "rat list \<Rightarrow> rat" where
  "mean_of xs = fl (float_sum xs / of_nat (length xs))"

definition relative_score :: "relative_intent \<Rightarrow> rat" where
  "relative_score i =
     fl (mean_of (side_percentiles LONG (ri_legs i)) - mean_of (side_percentiles SHORT (ri_legs i)))"

subsection \<open>Candidates and decisions\<close>

record candidate_leg =
  cl_entity_id :: uuid
  cl_instrument_id :: string
  cl_sector :: string
  cl_signed_weight :: rat

record normalized_candidate =
  nc_signal_id :: uuid
  nc_alpha_id :: alpha_id
  nc_timestamp :: instant
  nc_strength :: rat
  nc_legs :: "candidate_leg list"
  nc_raw_intent_hash :: string
  nc_registry_hash :: string

definition dabs :: "rat \<Rightarrow> rat" where
  "dabs x = dec \<bar>x\<bar>"

definition candidate_ok :: "normalized_candidate \<Rightarrow> bool" where
  "candidate_ok c \<longleftrightarrow> 0 \<le> nc_strength c \<and> nc_strength c \<le> 1 \<and> nc_legs c \<noteq> []
     \<and> distinct (map cl_entity_id (nc_legs c)) \<and> list_all (\<lambda>x. cl_signed_weight x \<noteq> 0) (nc_legs c)
     \<and> dabs (dec (dsum (map (\<lambda>x. dabs (cl_signed_weight x)) (nc_legs c)) - 1)) \<le> 1 / 10 ^ 12"

text \<open>A failing validator raises \<open>ValidationError\<close>, a \<open>ValueError\<close> with pydantic's report (abridged).\<close>

definition mk_candidate :: "normalized_candidate \<Rightarrow> normalized_candidate result" where
  "mk_candidate c = (if candidate_ok c then Inr c
                     else Inl (ValueError ''validation error for NormalizedCandidate''))"

record ensemble_decision =
  ed_decision_id :: uuid
  ed_timestamp :: instant
  ed_candidates :: "normalized_candidate list"
  ed_rejected :: "uuid list"
  ed_reasons :: "string list"
  ed_input_hash :: string
  ed_rejection_reasons :: "(uuid \<times> string list) list"

record ensemble_hashes =
  eh_intent :: "alpha_intent \<Rightarrow> string"
  eh_master :: "instrument_master \<Rightarrow> string"
  eh_universe :: "universe_snapshot \<Rightarrow> string"
  eh_registry :: "alpha_registry \<Rightarrow> string"
  eh_inputs :: "alpha_intent list \<Rightarrow> alpha_registry \<Rightarrow> instrument_master \<Rightarrow> universe_snapshot
                  \<Rightarrow> state_decision \<Rightarrow> string"
  eh_decision :: "state_decision \<Rightarrow> string"
  eh_uuid5 :: "string \<Rightarrow> uuid"

subsection \<open>One intent\<close>

record intent_view =
  iv_timestamp :: instant
  iv_score :: rat
  iv_tokens :: "(string \<times> rat) list"
  iv_provenance :: "string \<times> string \<times> string"
  iv_universe_hash :: string
  iv_state_hash :: string

definition leg_tokens :: "'a intent_leg_scheme list \<Rightarrow> (string \<times> rat) list" where
  "leg_tokens legs = map (\<lambda>x. (il_instrument_id x,
     dec (dec_of_float (il_gross_fraction x) * (if il_side x = LONG then 1 else -1)))) legs"

fun view_intent :: "ensemble_hashes \<Rightarrow> instrument_master \<Rightarrow> alpha_intent \<Rightarrow> intent_view result" where
  "view_intent H master (Signal i) =
     (case (si_evidence i, si_score i) of
        (Some detail, Some score) \<Rightarrow>
          if ev_instrument_master_hash detail \<noteq> eh_master H master then Inl (ValueError ''master mismatch'')
          else Inr \<lparr>iv_timestamp = ev_timestamp detail, iv_score = score,
                    iv_tokens = [(si_instrument_id i, if si_side i = LONG then 1 else -1)],
                    iv_provenance = (ev_code_commit detail, ev_config_hash detail, ev_data_snapshot detail),
                    iv_universe_hash = ev_universe_hash detail, iv_state_hash = ev_state_hash detail\<rparr>
      | _ \<Rightarrow> Inl (ValueError ''scored evidence required''))"
| "view_intent H master (Pair i) =
     (if pi_action i \<noteq> ENTER then Inl (ValueError ''exit intents are not new allocations'')
      else Inr \<lparr>iv_timestamp = pi_timestamp i, iv_score = min 1 (fl (\<bar>pi_current_z i\<bar> / pi_stop_z i)),
                iv_tokens = leg_tokens (pi_legs i),
                iv_provenance = (pi_code_commit i, pi_config_hash i, pi_data_snapshot i),
                iv_universe_hash = pi_universe_hash i, iv_state_hash = pi_state_hash i\<rparr>)"
| "view_intent H master (Relative i) =
     (if ri_master_hash i \<noteq> eh_master H master then Inl (ValueError ''master mismatch'')
      else Inr \<lparr>iv_timestamp = ri_timestamp i, iv_score = relative_score i,
                iv_tokens = leg_tokens (ri_legs i),
                iv_provenance = (ri_code_commit i, ri_config_hash i, ri_data_snapshot i),
                iv_universe_hash = ri_universe_hash i, iv_state_hash = ri_state_hash i\<rparr>)"

text \<open>\<open>mapping = {i.token: i for i in master.instruments}\<close>.\<close>

definition by_token :: "instrument_master \<Rightarrow> string \<Rightarrow> instrument option" where
  "by_token master = dict_of in_token (im_instruments master)"

definition eligible_leg ::
  "universe_snapshot \<Rightarrow> day \<Rightarrow> string \<Rightarrow> rat \<Rightarrow> instrument \<Rightarrow> bool" where
  "eligible_leg universe d token weight i \<longleftrightarrow>
     token \<in> set (un_long_tokens universe) \<and> in_status i = ACTIVE \<and> active_on i d
     \<and> \<not> in_surveillance i \<and> \<not> in_data_ambiguous i
     \<and> \<not> (weight < 0 \<and> (token \<notin> set (un_short_tokens universe) \<or> \<not> in_fo_eligible i))"

definition candidate_leg_for ::
  "ensemble_hashes \<Rightarrow> instrument_master \<Rightarrow> universe_snapshot \<Rightarrow> day \<Rightarrow> rat \<Rightarrow> string \<times> rat
     \<Rightarrow> candidate_leg result" where
  "candidate_leg_for H master universe d gross tw =
     (case tw of (token, weight) \<Rightarrow> case by_token master token of
        None \<Rightarrow> Inl (KeyError (py_repr token))
      | Some i \<Rightarrow>
          if \<not> eligible_leg universe d token weight i then Inl (ValueError ''ineligible leg'')
          else Inr \<lparr>cl_entity_id = security_id (eh_uuid5 H) i, cl_instrument_id = token,
                    cl_sector = in_sector i, cl_signed_weight = dec (weight / gross)\<rparr>)"

definition strength_of :: "alpha_registration \<Rightarrow> rat \<Rightarrow> rat" where
  "strength_of r score =
     dec_of_float (max 0 (min 1 (fl (fl (score - ar_score_floor r)
        / fl (ar_score_ceiling r - ar_score_floor r)))))"

definition normalize_one ::
  "ensemble_hashes \<Rightarrow> alpha_registry \<Rightarrow> instrument_master \<Rightarrow> universe_snapshot \<Rightarrow> state_decision
     \<Rightarrow> instant \<Rightarrow> alpha_intent \<Rightarrow> normalized_candidate result" where
  "normalize_one H registry master universe state now intent =
     rbind (parse_alpha (intent_alpha intent)) (\<lambda>alpha.
     rbind (registration registry alpha) (\<lambda>reg.
     rbind (ensure (ar_enabled reg) (ValueError ''alpha disabled'')) (\<lambda>_.
     rbind (view_intent H master intent) (\<lambda>v.
     rbind (ensure (iv_timestamp v = now
               \<and> iv_provenance v = (sd_code_commit state, sd_config_hash state, sd_data_snapshot state)
               \<and> iv_universe_hash v = eh_universe H universe \<and> iv_state_hash v = eh_decision H state)
             (ValueError ''causal provenance mismatch'')) (\<lambda>_.
     let gross = dsum (map (\<lambda>(_, w). dabs w) (iv_tokens v)) in
     rbind (rmap (candidate_leg_for H master universe (local_day kolkata now) gross) (iv_tokens v)) (\<lambda>legs.
       mk_candidate
         \<lparr>nc_signal_id = signal_id intent, nc_alpha_id = alpha, nc_timestamp = now,
          nc_strength = strength_of reg (iv_score v), nc_legs = legs,
          nc_raw_intent_hash = eh_intent H intent, nc_registry_hash = eh_registry H registry\<rparr>))))))"

subsection \<open>All intents\<close>

text \<open>\<open>unique\<close>: the intents in order, one per signal id; \<open>None\<close> is a conflicting signal id.\<close>

fun unique_intents :: "alpha_intent list \<Rightarrow> alpha_intent list \<Rightarrow> alpha_intent list option" where
  "unique_intents [] acc = Some acc"
| "unique_intents (i # rest) acc =
     (case find (\<lambda>u. signal_id u = signal_id i) acc of
        None \<Rightarrow> unique_intents rest (acc @ [i])
      | Some u \<Rightarrow> if u \<noteq> i then None else unique_intents rest acc)"

text \<open>The loop with its handler: \<open>ValueError\<close> and \<open>KeyError\<close> reject the intent.\<close>

fun normalize_all ::
  "(alpha_intent \<Rightarrow> normalized_candidate result) \<Rightarrow> alpha_intent list
     \<Rightarrow> (normalized_candidate list \<times> (uuid \<times> string) list) result" where
  "normalize_all f [] = Inr ([], [])"
| "normalize_all f (i # rest) =
     (case f i of
        Inr c \<Rightarrow> rbind (normalize_all f rest) (\<lambda>(cs, rej). Inr (c # cs, rej))
      | Inl (ValueError m) \<Rightarrow> rbind (normalize_all f rest) (\<lambda>(cs, rej). Inr (cs, (signal_id i, m) # rej))
      | Inl (KeyError m) \<Rightarrow> rbind (normalize_all f rest) (\<lambda>(cs, rej). Inr (cs, (signal_id i, m) # rej))
      | Inl e \<Rightarrow> Inl e)"

definition opposite :: "normalized_candidate \<Rightarrow> normalized_candidate \<Rightarrow> bool" where
  "opposite l r \<longleftrightarrow> nc_signal_id l \<noteq> nc_signal_id r
     \<and> list_ex (\<lambda>a. list_ex (\<lambda>b. cl_entity_id a = cl_entity_id b
          \<and> dec (cl_signed_weight a * cl_signed_weight b) < 0) (nc_legs r)) (nc_legs l)"

definition conflicted :: "normalized_candidate list \<Rightarrow> uuid set" where
  "conflicted cs = set (concat (map (\<lambda>l. concat (map (\<lambda>r.
     if opposite l r then [nc_signal_id l, nc_signal_id r] else []) cs)) cs))"

definition entities :: "normalized_candidate \<Rightarrow> uuid set" where
  "entities c = set (map cl_entity_id (nc_legs c))"

text \<open>The greedy selection, strongest first; a conflict names its reason.\<close>

fun select ::
  "uuid set \<Rightarrow> normalized_candidate list \<Rightarrow> uuid set \<Rightarrow> normalized_candidate list \<times> (uuid \<times> string) list" where
  "select bad [] used = ([], [])"
| "select bad (c # cs) used =
     (if nc_signal_id c \<in> bad \<or> entities c \<inter> used \<noteq> {} then
        (case select bad cs used of (sel, rej) \<Rightarrow>
           (sel, (nc_signal_id c, if nc_signal_id c \<in> bad then ''OPPOSITE_DIRECTION_CONFLICT''
                                  else ''SAME_SECURITY_DUPLICATE'') # rej))
      else (case select bad cs (used \<union> entities c) of (sel, rej) \<Rightarrow> (c # sel, rej)))"

definition ranked :: "normalized_candidate list \<Rightarrow> normalized_candidate list" where
  "ranked cs = sort_key (\<lambda>c. (dec (- nc_strength c), nc_signal_id c)) cs"

text \<open>The guard on the metadata, from left to right: \<open>utc\<close> raises on a naive generation time.\<close>

definition metadata_available ::
  "ensemble_hashes \<Rightarrow> instrument_master \<Rightarrow> universe_snapshot \<Rightarrow> state_decision \<Rightarrow> instant \<Rightarrow> bool result" where
  "metadata_available H master universe state now =
     (if im_as_of master \<noteq> local_day kolkata now \<or> un_as_of universe \<noteq> local_day kolkata now
      then Inr False
      else rbind (utc (im_generated_at master)) (\<lambda>mg.
        if now < mg then Inr False
        else rbind (utc (un_generated_at universe)) (\<lambda>ug.
          Inr (ug \<le> now \<and> un_instrument_snapshot_id universe = im_snapshot_id master
            \<and> distinct (map in_token (im_instruments master))
            \<and> card (security_id (eh_uuid5 H) ` set (im_instruments master)) = length (im_instruments master)
            \<and> sd_timestamp state = now))))"

definition normalize_intents ::
  "ensemble_hashes \<Rightarrow> alpha_intent list \<Rightarrow> alpha_registry \<Rightarrow> instrument_master \<Rightarrow> universe_snapshot
     \<Rightarrow> state_decision \<Rightarrow> pydatetime \<Rightarrow> ensemble_decision result" where
  "normalize_intents H intents registry master universe state at_time =
     rbind (utc at_time) (\<lambda>now.
       let ordered = sort_key (\<lambda>x. (signal_id x, eh_intent H x)) intents;
           digest = eh_inputs H ordered registry master universe state;
           decision_id = eh_uuid5 H (''godzilla:ensemble:'' @ digest);
           ids = sorted_list_of_set (set (map signal_id intents));
           blocked = (\<lambda>reason. \<lparr>ed_decision_id = decision_id, ed_timestamp = now, ed_candidates = [],
             ed_rejected = ids, ed_reasons = [reason], ed_input_hash = digest,
             ed_rejection_reasons = map (\<lambda>i. (i, [reason])) ids\<rparr>)
       in rbind (metadata_available H master universe state now) (\<lambda>available.
          if \<not> available then Inr (blocked ''NORMALIZATION_METADATA_UNAVAILABLE'')
          else case unique_intents ordered [] of
            None \<Rightarrow> Inr (blocked ''CONFLICTING_SIGNAL_ID'')
          | Some unique \<Rightarrow>
              rbind (normalize_all (normalize_one H registry master universe state now) unique) (\<lambda>(cs, rej1).
                let (sel, rej2) = select (conflicted cs) (ranked cs) {};
                    rejected = sorted_list_of_set (set (map fst (rej1 @ rej2)))
                in Inr \<lparr>ed_decision_id = decision_id, ed_timestamp = now, ed_candidates = sel,
                        ed_rejected = rejected, ed_reasons = [''NORMALIZED_CONFLICTS_RESOLVED''],
                        ed_input_hash = digest,
                        ed_rejection_reasons = map (\<lambda>i. (i,
                          [the (map_of (rev (rej1 @ rej2)) i)])) rejected\<rparr>)))"

subsection \<open>Every intent is answered once\<close>

lemma unique_intents_Some:
  "unique_intents is acc = Some us \<Longrightarrow> distinct (map signal_id acc) \<Longrightarrow>
     set us = set acc \<union> set is \<and> distinct (map signal_id us)"
proof (induction "is" acc rule: unique_intents.induct)
  case (2 i rest acc)
  show ?case
  proof (cases "find (\<lambda>u. signal_id u = signal_id i) acc")
    case None
    then have "signal_id i \<notin> signal_id ` set acc" by (auto simp: find_None_iff)
    then show ?thesis using "2.IH"(1)[OF None] "2.prems" None by auto
  next
    case (Some u)
    then have "u \<in> set acc" by (auto simp: find_Some_iff)
    then show ?thesis using "2.IH"(2)[OF Some] "2.prems" Some by (auto split: if_splits)
  qed
qed simp

lemma normalize_one_id: "normalize_one H reg m u st now i = Inr c \<Longrightarrow> nc_signal_id c = signal_id i"
  by (auto simp: normalize_one_def result_simps Let_def mk_candidate_def split: if_splits)

lemma normalize_all_Inr:
  assumes "normalize_all f is = Inr (cs, rej)" "\<And>i c. f i = Inr c \<Longrightarrow> nc_signal_id c = signal_id i"
  shows "mset (map nc_signal_id cs @ map fst rej) = mset (map signal_id is)
    \<and> (\<forall>c \<in> set cs. \<exists>i \<in> set is. f i = Inr c)"
  using assms(1)
proof (induction "is" arbitrary: cs rej)
  case (Cons i rest)
  show ?case
  proof (cases "f i")
    case (Inr c)
    then obtain cs' where "normalize_all f rest = Inr (cs', rej)" "cs = c # cs'"
      using Cons.prems by (auto simp: result_simps)
    then show ?thesis using Cons.IH assms(2)[OF Inr] Inr by auto
  next
    case (Inl e)
    show ?thesis
    proof (cases e)
      case (ValueError m)
      then obtain rej' where "normalize_all f rest = Inr (cs, rej')" "rej = (signal_id i, m) # rej'"
        using Cons.prems Inl by (auto simp: result_simps)
      then show ?thesis using Cons.IH Inl ValueError by auto
    next
      case (KeyError m)
      then obtain rej' where "normalize_all f rest = Inr (cs, rej')" "rej = (signal_id i, m) # rej'"
        using Cons.prems Inl by (auto simp: result_simps)
      then show ?thesis using Cons.IH Inl KeyError by auto
    qed (use Cons.prems Inl in simp_all)
  qed
qed simp

lemma normalize_all_one:
  assumes "normalize_all (normalize_one H reg m u st now) is = Inr (cs, rej)"
  shows "mset (map nc_signal_id cs @ map fst rej) = mset (map signal_id is)"
    "\<And>c. c \<in> set cs \<Longrightarrow> \<exists>i \<in> set is. normalize_one H reg m u st now i = Inr c"
  using normalize_all_Inr[OF assms] normalize_one_id[of H reg m u st now] by blast+

lemma select_mset:
  "mset (map nc_signal_id (fst (select bad cs used)) @ map fst (snd (select bad cs used))) =
     mset (map nc_signal_id cs)"
proof (induction bad cs used rule: select.induct)
  case (2 bad c cs used)
  then show ?case
    by (cases "nc_signal_id c \<in> bad \<or> entities c \<inter> used \<noteq> {}") (simp_all add: split_beta)
qed simp

lemma select_sound:
  "\<forall>c \<in> set (fst (select bad cs used)). c \<in> set cs \<and> nc_signal_id c \<notin> bad \<and> entities c \<inter> used = {}"
proof (induction bad cs used rule: select.induct)
  case (2 bad c cs used)
  then show ?case
    by (cases "nc_signal_id c \<in> bad \<or> entities c \<inter> used \<noteq> {}") (simp_all add: split_beta, blast)
qed simp

lemma select_disjoint:
  "sorted_wrt (\<lambda>c c'. entities c \<inter> entities c' = {}) (fst (select bad cs used))"
proof (induction bad cs used rule: select.induct)
  case (2 bad c cs used)
  then show ?case using select_sound[of bad cs "used \<union> entities c"]
    by (cases "nc_signal_id c \<in> bad \<or> entities c \<inter> used \<noteq> {}") (simp_all add: split_beta, blast)
qed simp

lemma ranked_mset [simp]: "mset (ranked cs) = mset cs"
  by (simp add: ranked_def)

text \<open>The result of a run that got past the guards.\<close>

lemma normalize_intents_Inr:
  assumes "normalize_intents H intents reg m u st t = Inr d"
  obtains (blocked) "ed_candidates d = []" "ed_rejected d = sorted_list_of_set (set (map signal_id intents))"
      "\<exists>r. ed_rejection_reasons d = map (\<lambda>i. (i, [r])) (ed_rejected d)"
  | (selected) ordered unique cs rej1 where
    "mset ordered = mset intents" "unique_intents ordered [] = Some unique" "aware t"
    "normalize_all (normalize_one H reg m u st (instant_of t)) unique = Inr (cs, rej1)"
    "ed_candidates d = fst (select (conflicted cs) (ranked cs) {})"
    "ed_rejected d = sorted_list_of_set (set (map fst (rej1 @ snd (select (conflicted cs) (ranked cs) {}))))"
    "\<exists>f. ed_rejection_reasons d = map (\<lambda>i. (i, [f i])) (ed_rejected d)"
proof -
  let ?o = "sort_key (\<lambda>x. (signal_id x, eh_intent H x)) intents"
  from assms obtain av where av: "metadata_available H m u st (instant_of t) = Inr av" and aware: "aware t"
    by (auto simp: normalize_intents_def Let_def result_simps)
  show thesis
  proof (cases "av \<and> unique_intents ?o [] \<noteq> None")
    case False
    then have "ed_candidates d = []" "ed_rejected d = sorted_list_of_set (set (map signal_id intents))"
      "\<exists>r. ed_rejection_reasons d = map (\<lambda>i. (i, [r])) (ed_rejected d)"
      using assms av aware
      by (auto simp: normalize_intents_def Let_def utc_def split: if_splits option.splits)
    then show thesis by (rule blocked)
  next
    case True
    then obtain unique where u: "unique_intents ?o [] = Some unique" by auto
    obtain cs rej1 where n: "normalize_all (normalize_one H reg m u st (instant_of t)) unique = Inr (cs, rej1)"
      using assms av aware True u by (auto simp: normalize_intents_def Let_def utc_def result_simps)
    show thesis
      by (rule selected[of ?o, OF _ u aware n])
        (use assms av aware True u n in \<open>auto simp: normalize_intents_def Let_def utc_def split_beta\<close>)
  qed
qed

lemma opposite_in_conflicted:
  "l \<in> set cs \<Longrightarrow> r \<in> set cs \<Longrightarrow> opposite l r \<Longrightarrow>
     nc_signal_id l \<in> conflicted cs \<and> nc_signal_id r \<in> conflicted cs"
proof -
  assume "l \<in> set cs" "r \<in> set cs" "opposite l r"
  then have "set [nc_signal_id l, nc_signal_id r] \<subseteq> (\<Union>l \<in> set cs. \<Union>r \<in> set cs.
      set (if opposite l r then [nc_signal_id l, nc_signal_id r] else []))" by fastforce
  then show ?thesis by (simp add: conflicted_def) blast
qed

text \<open>What holds of a candidate that \<open>normalize_one\<close> accepts.\<close>

lemma candidate_leg_for_Inr:
  assumes "candidate_leg_for H m u d g (token, w) = Inr l"
  shows "\<exists>i \<in> set (im_instruments m). in_token i = token \<and> eligible_leg u d token w i
    \<and> cl_entity_id l = security_id (eh_uuid5 H) i \<and> cl_instrument_id l = token
    \<and> cl_sector l = in_sector i \<and> cl_signed_weight l = dec (w / g)"
  using assms dict_of_Some[of in_token "im_instruments m" token]
  by (auto simp: candidate_leg_for_def by_token_def split: option.splits if_splits)

lemma rmap_Inr: "rmap f xs = Inr ys \<Longrightarrow> list_all2 (\<lambda>x y. f x = Inr y) xs ys"
  by (induction xs arbitrary: ys) (auto simp: result_simps)

lemma gross_nonneg: "0 \<le> dsum (map (\<lambda>(_, w). dabs w) ts)"
proof (induction ts rule: rev_induct)
  case (snoc t ts)
  then show ?case by (cases t) (simp add: dabs_def dcr.nonneg_iff add_nonneg_nonneg)
qed (simp add: dsum_def)

definition good_leg :: "instrument_master \<Rightarrow> universe_snapshot \<Rightarrow> day \<Rightarrow> candidate_leg \<Rightarrow> bool" where
  "good_leg m u d l \<longleftrightarrow> (\<exists>i \<in> set (im_instruments m). in_token i = cl_instrument_id l
     \<and> in_token i \<in> set (un_long_tokens u) \<and> in_status i = ACTIVE \<and> active_on i d
     \<and> \<not> in_surveillance i \<and> \<not> in_data_ambiguous i \<and> cl_sector l = in_sector i
     \<and> (cl_signed_weight l < 0 \<longrightarrow> in_token i \<in> set (un_short_tokens u) \<and> in_fo_eligible i))"

lemma normalize_one_Inr:
  assumes "normalize_one H reg m u st now i = Inr c"
  shows "candidate_ok c" "nc_timestamp c = now"
    "\<forall>l \<in> set (nc_legs c). good_leg m u (local_day kolkata now) l"
    "\<exists>r \<in> set reg. ar_alpha_id r = nc_alpha_id c \<and> ar_enabled r"
proof -
  obtain r legs and v :: intent_view where r: "registration reg (nc_alpha_id c) = Inr r" "ar_enabled r"
    and legs: "rmap (candidate_leg_for H m u (local_day kolkata now) (dsum (map (\<lambda>(_, w). dabs w) (iv_tokens v))))
      (iv_tokens v) = Inr legs" "nc_legs c = legs"
    and c: "candidate_ok c" "nc_timestamp c = now"
  proof -
    obtain alpha where a: "parse_alpha (intent_alpha i) = Inr alpha"
      using assms by (auto simp: normalize_one_def result_simps)
    obtain r where r: "registration reg alpha = Inr r" "ar_enabled r"
      using assms a by (auto simp: normalize_one_def result_simps)
    obtain v where v: "view_intent H m i = Inr v"
      using assms a r by (auto simp: normalize_one_def result_simps)
    obtain legs where legs: "rmap (candidate_leg_for H m u (local_day kolkata now)
        (dsum (map (\<lambda>(_, w). dabs w) (iv_tokens v)))) (iv_tokens v) = Inr legs"
      using assms a r v by (auto simp: normalize_one_def Let_def result_simps)
    have "nc_alpha_id c = alpha" "nc_legs c = legs" "candidate_ok c" "nc_timestamp c = now"
      using assms a r v legs
      by (auto simp: normalize_one_def Let_def result_simps mk_candidate_def split: if_split_asm)
    then show thesis using r legs by (intro that[of r v legs]) simp_all
  qed
  show "candidate_ok c" "nc_timestamp c = now" by (rule c)+
  show "\<exists>r \<in> set reg. ar_alpha_id r = nc_alpha_id c \<and> ar_enabled r"
    using r by (auto simp: registration_def find_Some_iff split: option.splits)
  show "\<forall>l \<in> set (nc_legs c). good_leg m u (local_day kolkata now) l"
  proof
    fix l assume "l \<in> set (nc_legs c)"
    then obtain k where k: "k < length legs" "l = legs ! k" using legs(2) by (auto simp: in_set_conv_nth)
    obtain token w where tw: "iv_tokens v ! k = (token, w)" by (cases "iv_tokens v ! k")
    have "candidate_leg_for H m u (local_day kolkata now) (dsum (map (\<lambda>(_, w). dabs w) (iv_tokens v))) (token, w)
        = Inr l"
      using rmap_Inr[OF legs(1)] k tw by (auto simp: list_all2_conv_all_nth)
    then obtain j where j: "j \<in> set (im_instruments m)" "in_token j = token" "cl_instrument_id l = token"
      "eligible_leg u (local_day kolkata now) token w j" "cl_sector l = in_sector j"
      and w: "cl_signed_weight l = dec (w / dsum (map (\<lambda>(_, w). dabs w) (iv_tokens v)))"
      using candidate_leg_for_Inr by blast
    have "w < 0" if "cl_signed_weight l < 0"
    proof (rule ccontr)
      assume "\<not> w < 0"
      then have "0 \<le> cl_signed_weight l"
        unfolding w dcr.nonneg_iff using gross_nonneg[of "iv_tokens v"] by (intro divide_nonneg_nonneg) auto
      then show False using that by simp
    qed
    then show "good_leg m u (local_day kolkata now) l"
      using j by (auto simp: good_leg_def eligible_leg_def intro!: bexI[of _ j])
  qed
qed

text \<open>
  C8.  The selected candidates of an ensemble decision never share a security, and no two of them take
  opposite directions in one: every security is in at most one selected bundle.
\<close>

theorem ensemble_conflict_free:
  assumes "normalize_intents H intents reg m u st t = Inr d"
  shows "sorted_wrt (\<lambda>c c'. entities c \<inter> entities c' = {}) (ed_candidates d)
    \<and> (\<forall>c \<in> set (ed_candidates d). distinct (map cl_entity_id (nc_legs c)))
    \<and> (\<forall>c \<in> set (ed_candidates d). \<forall>c' \<in> set (ed_candidates d). \<not> opposite c c')"
  using assms
proof (cases rule: normalize_intents_Inr)
  case (selected ordered unique cs rej1)
  have sel: "c \<in> set cs \<and> nc_signal_id c \<notin> conflicted cs" if "c \<in> set (ed_candidates d)" for c
    using select_sound[of "conflicted cs" "ranked cs" "{}"] that selected(5)
    by (auto simp flip: set_mset_mset)
  have "candidate_ok c" if "c \<in> set cs" for c
    using normalize_all_one(2)[OF selected(4) that] normalize_one_Inr(1) by blast
  then show ?thesis
    using sel select_disjoint[of "conflicted cs" "ranked cs" "{}"] opposite_in_conflicted[of _ cs]
    unfolding selected(5) candidate_ok_def by blast
qed simp

text \<open>
  C9.  Every intent is answered exactly once: the signal ids of the selected candidates and the rejected
  ids are disjoint and together are the ids of the intents, the candidates' ids are distinct, and every
  rejected id has exactly one record with one reason.
\<close>

theorem ensemble_partition:
  assumes "normalize_intents H intents reg m u st t = Inr d"
  shows "set (map nc_signal_id (ed_candidates d)) \<union> set (ed_rejected d) = set (map signal_id intents)
    \<and> set (map nc_signal_id (ed_candidates d)) \<inter> set (ed_rejected d) = {}
    \<and> distinct (map nc_signal_id (ed_candidates d)) \<and> distinct (ed_rejected d)
    \<and> map fst (ed_rejection_reasons d) = ed_rejected d
    \<and> (\<forall>x \<in> set (ed_rejection_reasons d). length (snd x) = 1)"
  using assms
proof (cases rule: normalize_intents_Inr)
  case (selected ordered unique cs rej1)
  let ?sel = "select (conflicted cs) (ranked cs) {}"
  have u: "set unique = set intents" "distinct (map signal_id unique)"
    using unique_intents_Some[OF selected(2)] selected(1) by (auto dest: mset_eq_setD)
  have "mset (map nc_signal_id cs) = mset (map nc_signal_id (ranked cs))" by simp
  then have ids: "mset (map nc_signal_id (fst ?sel) @ map fst (snd ?sel) @ map fst rej1) = mset (map signal_id unique)"
    using select_mset[of "conflicted cs" "ranked cs" "{}"] normalize_all_one(1)[OF selected(4)]
    by (simp add: add.assoc[symmetric])
  then have "distinct (map nc_signal_id (fst ?sel) @ map fst (snd ?sel) @ map fst rej1)"
    using u(2) by (metis mset_eq_imp_distinct_iff)
  moreover have "set (map nc_signal_id (fst ?sel) @ map fst (snd ?sel) @ map fst rej1) = set (map signal_id intents)"
    using mset_eq_setD[OF ids] u(1) by simp
  moreover obtain f where "ed_rejection_reasons d = map (\<lambda>i. (i, [f i])) (ed_rejected d)"
    using selected(7) by blast
  moreover have "set (ed_rejected d) = fst ` set (snd ?sel) \<union> fst ` set rej1" "distinct (ed_rejected d)"
    unfolding selected(6) by auto
  ultimately show ?thesis unfolding selected(5) by (auto simp: comp_def)
qed (auto simp: comp_def)

text \<open>
  Every selected candidate is admissible: it is timely, its alpha is enabled in the registry, its
  strength is in [0, 1], its weights have unit gross within 1e-12, and each leg is an active, unambiguous
  instrument of the long universe, and of the short universe and F&O eligible where the weight is negative.
\<close>

theorem ensemble_admissible:
  assumes "normalize_intents H intents reg m u st t = Inr d" "c \<in> set (ed_candidates d)"
  shows "nc_timestamp c = instant_of t \<and> 0 \<le> nc_strength c \<and> nc_strength c \<le> 1
    \<and> (\<exists>r \<in> set reg. ar_alpha_id r = nc_alpha_id c \<and> ar_enabled r)
    \<and> dabs (dec (dsum (map (\<lambda>x. dabs (cl_signed_weight x)) (nc_legs c)) - 1)) \<le> 1 / 10 ^ 12
    \<and> (\<forall>l \<in> set (nc_legs c). good_leg m u (local_day kolkata (instant_of t)) l)"
  using assms(1)
proof (cases rule: normalize_intents_Inr)
  case (selected ordered unique cs rej1)
  have "c \<in> set cs"
    using select_sound[of "conflicted cs" "ranked cs" "{}"] assms(2) selected(5)
    by (auto simp flip: set_mset_mset)
  then obtain i where "normalize_one H reg m u st (instant_of t) i = Inr c"
    using normalize_all_one(2)[OF selected(4)] by blast
  from normalize_one_Inr[OF this] show ?thesis by (simp add: candidate_ok_def)
qed (use assms in simp)

subsection \<open>A concrete ensemble\<close>

definition example_ensemble_hashes :: ensemble_hashes where
  "example_ensemble_hashes =
     \<lparr>eh_intent = signal_id, eh_master = im_snapshot_id, eh_universe = (\<lambda>u. ''u''),
      eh_registry = (\<lambda>_. ''r''), eh_inputs = (\<lambda>_ _ _ _ _. ''i''), eh_decision = (\<lambda>_. ''s''),
      eh_uuid5 = (\<lambda>s. s)\<rparr>"

definition example_registry :: alpha_registry where
  "example_registry = map (\<lambda>a. \<lparr>ar_alpha_id = a, ar_base_budget = 1 / 5, ar_enabled = True,
     ar_score_floor = 0, ar_score_ceiling = 1\<rparr>) alpha_ids"

definition example_decision :: "instant \<Rightarrow> state_decision" where
  "example_decision i =
     \<lparr>sd_timestamp = i, sd_state = TREND_UP, sd_candidate = TREND_UP, sd_previous_state = TREND_UP,
      sd_state_since = i, sd_confirmation_count = 2,
      sd_allowed_alpha_families = [CROSS_SECTIONAL_MOMENTUM, MOMENTUM_BREAKOUT, SECTOR_RELATIVE_VALUE],
      sd_directional_sides = [LONG], sd_gross_risk_multiplier = 1,
      sd_evidence = \<lparr>se_feature_snapshot_hash = [], se_feature_set_hash = [],
        se_router_version_hash = [], se_thresholds = [],
        se_health = \<lparr>rh_observed_at = i, rh_system_status = HEALTHY, rh_risk_status = HEALTHY,
          rh_blocks_new_entries = False, rh_reasons = []\<rparr>,
        se_session_open = None, se_reasons = []\<rparr>,
      sd_settings =
        \<lparr>rs_version = [], rs_formula_revision = ''1'',
         rs_vwap_distance = 1 / 1024, rs_slope_15m = 1 / 4096, rs_slope_30m = 1 / 8192,
         rs_breadth_fraction = 5 / 8, rs_high_realized_vol = 1 / 256, rs_high_range_vol = 1 / 128,
         rs_high_vix = 25, rs_opening_gap = 1 / 64, rs_stabilization_seconds = 900,
         rs_shock_window_seconds = 1800, rs_confirmation_count = 2, rs_min_duration_seconds = 600,
         rs_max_confirmation_gap_seconds = 600, rs_feature_max_age_seconds = 300,
         rs_health_max_age_seconds = 30, rs_flicker_window_seconds = 900, rs_trend_multiplier = 1,
         rs_chop_multiplier = 1 / 2, rs_high_vol_multiplier = 1 / 4\<rparr>,
      sd_code_commit = ''c'', sd_config_hash = ''g'', sd_data_snapshot = ''d'',
      sd_prior_decision_hash = None\<rparr>"

definition example_universe :: universe_snapshot where
  "example_universe =
     \<lparr>un_snapshot_id = ''u'', un_as_of = 20641, un_generated_at = Aware (20641 * day_us) 0,
      un_instrument_snapshot_id = ''m'', un_compliance_profile_id = ''p'',
      un_long_tokens = [''A'', ''B'', ''C''], un_short_tokens = [''A'', ''B''], un_exclusions = []\<rparr>"

text \<open>10:30 in Kolkata on 2026-07-07.\<close>

definition example_time :: instant where
  "example_time = 1783400400000000"

definition example_intent :: "uuid \<Rightarrow> string \<Rightarrow> side \<Rightarrow> alpha_intent" where
  "example_intent i token s =
     Signal \<lparr>si_signal_id = i, si_instrument_id = token, si_alpha_id = ''momentum_breakout'', si_side = s,
       si_reasons = [], si_score = Some 0,
       si_evidence = Some \<lparr>ev_timestamp = example_time, ev_alpha_id = ''momentum_breakout'', ev_side = s,
         ev_instrument_id = token, ev_symbol = token, ev_score = 0, ev_code_commit = ''c'', ev_config_hash = ''g'',
         ev_data_snapshot = ''d'', ev_universe_hash = ''u'', ev_instrument_master_hash = ''m'',
         ev_state_hash = ''s'', ev_feature_set_hash = ''f'', ev_rest = []\<rparr>, si_rest = []\<rparr>"

definition example_normalized :: "ensemble_decision result" where
  "example_normalized = normalize_intents example_ensemble_hashes [example_intent ''i1'' ''A'' LONG]
     example_registry example_master example_universe (example_decision example_time) (Aware example_time 0)"

definition example_candidate :: "uuid \<Rightarrow> string \<Rightarrow> normalized_candidate" where
  "example_candidate i token =
     \<lparr>nc_signal_id = i, nc_alpha_id = BREAKOUT, nc_timestamp = example_time, nc_strength = 0,
      nc_legs = [\<lparr>cl_entity_id = ''godzilla:security:NSE:EQ:'' @ token, cl_instrument_id = token,
                  cl_sector = ''IT'', cl_signed_weight = 1\<rparr>],
      nc_raw_intent_hash = i, nc_registry_hash = ''r''\<rparr>"

lemma example_normalize_one:
  "normalize_one example_ensemble_hashes example_registry example_master example_universe
     (example_decision example_time) example_time (example_intent ''i1'' ''A'' LONG)
   = Inr (example_candidate ''i1'' ''A'')"
proof -
  let ?r = "\<lparr>ar_alpha_id = BREAKOUT, ar_base_budget = 1 / 5, ar_enabled = True, ar_score_floor = 0,
      ar_score_ceiling = 1\<rparr>"
  have 1: "parse_alpha ''momentum_breakout'' = Inr BREAKOUT" by code_simp
  have 2: "registration example_registry BREAKOUT = Inr ?r"
    by (simp add: registration_def example_registry_def alpha_ids_def)
  have d: "local_day kolkata example_time = 20641"
    by (simp add: local_day_def kolkata_def fixed_zone_def example_time_def minutes_def day_us_def)
  have 3: "dsum [dabs 1] = 1" by code_simp
  have 4: "candidate_leg_for example_ensemble_hashes example_master example_universe 20641 1 (''A'', 1)
      = Inr \<lparr>cl_entity_id = ''godzilla:security:NSE:EQ:A'', cl_instrument_id = ''A'', cl_sector = ''IT'',
             cl_signed_weight = 1\<rparr>"
    by code_simp
  have 5: "strength_of ?r 0 = 0" by code_simp
  have 6: "candidate_ok (example_candidate ''i1'' ''A'')" by code_simp
  show ?thesis
    using 6
    by (simp add: normalize_one_def example_intent_def 1 2 d 3 4 5 ensure_def mk_candidate_def
        example_candidate_def)
      (simp add: example_ensemble_hashes_def example_decision_def example_master_def)
qed

lemma example_normalized_Inr:
  "\<exists>d. example_normalized = Inr d \<and> ed_candidates d = [example_candidate ''i1'' ''A'']"
proof -
  have 1: "metadata_available example_ensemble_hashes example_master example_universe
      (example_decision example_time) example_time = Inr True" by code_simp
  show ?thesis
    by (simp add: example_normalized_def normalize_intents_def utc_def Let_def 1 example_normalize_one
        ranked_def conflicted_def opposite_def)
qed

theorem ensemble_conflict_free_witness:
  "\<exists>d. example_normalized = Inr d
     \<and> sorted_wrt (\<lambda>c c'. entities c \<inter> entities c' = {}) (ed_candidates d)"
proof -
  obtain d where d: "example_normalized = Inr d" using example_normalized_Inr by blast
  from ensemble_conflict_free[OF d[unfolded example_normalized_def]] d show ?thesis by blast
qed

theorem ensemble_partition_witness:
  "\<exists>d. example_normalized = Inr d \<and> set (map nc_signal_id (ed_candidates d)) \<union> set (ed_rejected d) = {''i1''}"
proof -
  obtain d where d: "example_normalized = Inr d" using example_normalized_Inr by blast
  from ensemble_partition[OF d[unfolded example_normalized_def]] d show ?thesis
    by (auto simp: example_intent_def)
qed

theorem ensemble_admissible_witness:
  "good_leg example_master example_universe 20641 (hd (nc_legs (example_candidate ''i1'' ''A'')))"
proof -
  obtain d where d: "example_normalized = Inr d" "ed_candidates d = [example_candidate ''i1'' ''A'']"
    using example_normalized_Inr by blast
  have "local_day kolkata example_time = 20641"
    by (simp add: local_day_def kolkata_def fixed_zone_def example_time_def minutes_def day_us_def)
  with ensemble_admissible[OF d(1)[unfolded example_normalized_def], of "example_candidate ''i1'' ''A''"] d(2)
  show ?thesis by (simp add: example_candidate_def)
qed

end
