(* ===== verification/Portfolio.thy ===== *)
theory Portfolio
  imports Normalize Calendar
begin

text \<open>
  \<open>portfolio/models.py\<close> and \<open>portfolio/allocator.py\<close>: the deterministic allocation of unit equity to
  normalized candidates.  Every Decimal operation rounds to 28 digits (\<open>dec\<close>), as the default context does.
\<close>

datatype position_origin = EXISTING_OR_PENDING | PROPOSED

record allocator_settings =
  al_max_alpha :: rat
  al_max_gross :: rat
  al_max_net :: rat
  al_max_symbol :: rat
  al_max_sector :: rat
  al_max_open_risk :: rat
  al_max_candidate_risk :: rat
  al_max_groups :: int
  al_max_sector_groups :: int
  al_max_adv_participation :: rat
  al_max_turnover_participation :: rat
  al_max_input_age_seconds :: int
  al_correlation_threshold :: rat
  al_correlation_penalty :: rat
  al_sector_duplication_penalty :: rat

definition unit_fraction :: "rat \<Rightarrow> bool" where
  "unit_fraction x \<longleftrightarrow> 0 < x \<and> x \<le> 1"

definition allocator_settings_ok :: "allocator_settings \<Rightarrow> bool" where
  "allocator_settings_ok s \<longleftrightarrow>
     unit_fraction (al_max_alpha s) \<and> unit_fraction (al_max_gross s)
     \<and> 0 \<le> al_max_net s \<and> al_max_net s \<le> 1 \<and> unit_fraction (al_max_symbol s)
     \<and> unit_fraction (al_max_sector s) \<and> unit_fraction (al_max_open_risk s)
     \<and> unit_fraction (al_max_candidate_risk s) \<and> 1 \<le> al_max_groups s \<and> 1 \<le> al_max_sector_groups s
     \<and> unit_fraction (al_max_adv_participation s) \<and> unit_fraction (al_max_turnover_participation s)
     \<and> 0 < al_max_input_age_seconds s
     \<and> 0 \<le> al_correlation_threshold s \<and> al_correlation_threshold s < 1
     \<and> 0 \<le> al_correlation_penalty s \<and> 0 \<le> al_sector_duplication_penalty s
     \<and> al_max_net s \<le> al_max_gross s \<and> al_max_sector_groups s \<le> al_max_groups s"

record target_position =
  tp_entity_id :: uuid
  tp_instrument_id :: string
  tp_sector :: string
  tp_alpha_id :: alpha_id
  tp_group_id :: uuid
  tp_signed_notional_fraction :: rat
  tp_open_risk_fraction :: rat
  tp_origin :: position_origin

record portfolio_snapshot =
  ps_snapshot_id :: string
  ps_timestamp :: instant
  ps_equity :: rat
  ps_complete :: bool
  ps_blocks_new_entries :: bool
  ps_positions :: "target_position list"

definition portfolio_ok :: "portfolio_snapshot \<Rightarrow> bool" where
  "portfolio_ok p \<longleftrightarrow> 0 < ps_equity p \<and> list_all (\<lambda>t. 0 \<le> tp_open_risk_fraction t) (ps_positions p)
     \<and> distinct (map (\<lambda>t. (tp_group_id t, tp_entity_id t)) (ps_positions p))"

record liquidity_capacity =
  lc_entity_id :: uuid
  lc_timestamp :: instant
  lc_valid_until :: instant
  lc_price :: rat
  lc_adv_shares :: rat
  lc_daily_turnover :: rat
  lc_max_notional :: rat
  lc_source_snapshot :: string
  lc_eligible :: bool

record risk_estimate =
  re_signal_id :: uuid
  re_timestamp :: instant
  re_loss_per_gross :: rat
  re_volatility_penalty :: rat
  re_source_snapshot :: string

definition risk_estimate_ok :: "risk_estimate \<Rightarrow> bool" where
  "risk_estimate_ok e \<longleftrightarrow> 0 < re_loss_per_gross e \<and> re_loss_per_gross e \<le> 1
     \<and> 1 \<le> re_volatility_penalty e"

record correlation_estimate =
  ce_left :: uuid
  ce_right :: uuid
  ce_value :: rat

record correlation_snapshot =
  co_timestamp :: instant
  co_training_end :: instant
  co_estimates :: "correlation_estimate list"
  co_source_snapshot :: string

record allocation_record =
  ac_signal_id :: uuid
  ac_allocated_gross :: rat
  ac_health_multiplier :: rat
  ac_penalty :: rat
  ac_reasons :: "string list"

definition mk_allocation :: "allocation_record \<Rightarrow> allocation_record result" where
  "mk_allocation a =
     (if 0 \<le> ac_allocated_gross a \<and> 0 \<le> ac_health_multiplier a \<and> ac_health_multiplier a \<le> 1
         \<and> 1 \<le> ac_penalty a
      then Inr a else Inl (ValueError ''validation error for AllocationRecord''))"

record portfolio_decision =
  pd_decision_id :: uuid
  pd_timestamp :: instant
  pd_targets :: "target_position list"
  pd_allocations :: "allocation_record list"
  pd_reasons :: "string list"
  pd_input_hash :: string
  pd_settings :: allocator_settings

text \<open>
  \<open>ai_at\<close> is \<open>utc(inputs.at)\<close>: a naive \<open>at\<close> raises in the first line of \<open>allocate\<close>.
\<close>

record allocation_inputs =
  ai_ensemble :: ensemble_decision
  ai_registry :: alpha_registry
  ai_health :: "alpha_health_snapshot list"
  ai_portfolio :: portfolio_snapshot
  ai_liquidity :: "liquidity_capacity list"
  ai_estimates :: "risk_estimate list"
  ai_correlations :: correlation_snapshot
  ai_state :: state_decision
  ai_settings :: allocator_settings
  ai_at :: instant
  ai_mode :: trading_mode

subsection \<open>Decimal operations that raise\<close>

text \<open>
  \<open>x / y\<close> of two Decimals: \<open>decimal.DivisionByZero\<close>, and \<open>decimal.DivisionUndefined\<close> for \<open>0 / 0\<close>, are
  subclasses of \<open>ZeroDivisionError\<close>.
\<close>

definition ddiv :: "rat \<Rightarrow> rat \<Rightarrow> rat result" where
  "ddiv x y = (if y = 0 then Inl ZeroDivisionError else Inr (dec (x / y)))"

text \<open>
  \<open>x.quantize(Decimal("1e-n"), rounding=ROUND_DOWN)\<close>: a coefficient of more than 28 digits raises
  \<open>decimal.InvalidOperation\<close>.
\<close>

definition dquantize :: "nat \<Rightarrow> rat \<Rightarrow> rat result" where
  "dquantize n x = (let q = quantize_down n x in if 10 ^ 28 \<le> \<bar>q\<bar> * 10 ^ n then Inl InvalidOperation else Inr q)"

lemma ddiv_Inr [result_simps]: "ddiv x y = Inr z \<longleftrightarrow> y \<noteq> 0 \<and> z = dec (x / y)"
  by (auto simp: ddiv_def)

lemma ddiv_total: "y \<noteq> 0 \<Longrightarrow> ddiv x y = Inr (dec (x / y))"
  by (simp add: ddiv_def)

lemma dquantize_Inr: "dquantize n x = Inr q \<Longrightarrow> q = quantize_down n x"
  by (simp add: dquantize_def Let_def split: if_split_asm)

subsection \<open>Totals and caps\<close>

definition sum_abs :: "(target_position \<Rightarrow> bool) \<Rightarrow> target_position list \<Rightarrow> rat" where
  "sum_abs P ps = dsum (map (\<lambda>p. dabs (tp_signed_notional_fraction p)) (filter P ps))"

definition totals :: "target_position list \<Rightarrow> rat \<times> rat \<times> rat" where
  "totals ps = (sum_abs (\<lambda>_. True) ps, dsum (map tp_signed_notional_fraction ps),
     dsum (map tp_open_risk_fraction ps))"

definition groups :: "(target_position \<Rightarrow> bool) \<Rightarrow> target_position list \<Rightarrow> int" where
  "groups P ps = int (count_distinct (map tp_group_id (filter P ps)))"

definition within_caps :: "target_position list \<Rightarrow> allocator_settings \<Rightarrow> bool" where
  "within_caps ps cfg =
     (case totals ps of (gross, net, risk) \<Rightarrow>
        if al_max_gross cfg < gross \<or> al_max_net cfg < dabs net \<or> al_max_open_risk cfg < risk
           \<or> al_max_groups cfg < groups (\<lambda>_. True) ps
        then False
        else list_all (\<lambda>p. sum_abs (\<lambda>q. tp_alpha_id q = tp_alpha_id p) ps \<le> al_max_alpha cfg) ps
          \<and> list_all (\<lambda>p. sum_abs (\<lambda>q. tp_sector q = tp_sector p) ps \<le> al_max_sector cfg) ps
          \<and> list_all (\<lambda>p. sum_abs (\<lambda>q. tp_entity_id q = tp_entity_id p) ps \<le> al_max_symbol cfg) ps
          \<and> list_all (\<lambda>p. groups (\<lambda>q. tp_sector q = tp_sector p) ps \<le> al_max_sector_groups cfg) ps)"

subsection \<open>One candidate\<close>

text \<open>\<open>str(KeyError(key))\<close> is the \<open>repr\<close> of the key.\<close>

fun alpha_repr :: "alpha_id \<Rightarrow> string" where
  "alpha_repr MOMENTUM = ''<AlphaId.MOMENTUM: '' @ py_repr (alpha_value MOMENTUM) @ ''>''"
| "alpha_repr BREAKOUT = ''<AlphaId.BREAKOUT: '' @ py_repr (alpha_value BREAKOUT) @ ''>''"
| "alpha_repr PAIRS = ''<AlphaId.PAIRS: '' @ py_repr (alpha_value PAIRS) @ ''>''"
| "alpha_repr VWAP = ''<AlphaId.VWAP: '' @ py_repr (alpha_value VWAP) @ ''>''"
| "alpha_repr RELATIVE_VALUE = ''<AlphaId.RELATIVE_VALUE: '' @ py_repr (alpha_value RELATIVE_VALUE) @ ''>''"

definition uuid_repr :: "uuid \<Rightarrow> string" where
  "uuid_repr u = ''UUID('' @ py_repr u @ '')''"

definition lookup :: "('k \<Rightarrow> 'v option) \<Rightarrow> ('k \<Rightarrow> string) \<Rightarrow> 'k \<Rightarrow> 'v result" where
  "lookup f repr k = (case f k of None \<Rightarrow> Inl (KeyError (repr k)) | Some v \<Rightarrow> Inr v)"

definition age_within :: "instant \<Rightarrow> instant \<Rightarrow> int \<Rightarrow> bool" where
  "age_within now observed seconds \<longleftrightarrow>
     0 \<le> total_seconds (now - observed) \<and> total_seconds (now - observed) \<le> of_int seconds"

text \<open>The three lookups and the guard on the candidate's inputs.\<close>

definition candidate_inputs ::
  "(alpha_registry \<Rightarrow> string) \<Rightarrow> allocation_inputs \<Rightarrow> normalized_candidate
     \<Rightarrow> (alpha_registration \<times> alpha_health_snapshot \<times> risk_estimate) result" where
  "candidate_inputs registry_hash inp c =
     (let now = ai_at inp; cfg = ai_settings inp; state = ai_state inp in
      rbind (registration (ai_registry inp) (nc_alpha_id c)) (\<lambda>reg.
      rbind (lookup (dict_of hs_alpha_id (ai_health inp)) alpha_repr (nc_alpha_id c)) (\<lambda>h.
      rbind (lookup (dict_of re_signal_id (ai_estimates inp)) uuid_repr (nc_signal_id c)) (\<lambda>est.
        if \<not> ar_enabled reg
           \<or> nc_registry_hash c \<noteq> registry_hash (ai_registry inp)
           \<or> nc_timestamp c \<noteq> now
           \<or> family_of (nc_alpha_id c) \<notin> set (sd_allowed_alpha_families state)
           \<or> \<not> age_within now (hs_timestamp h) (ah_health_max_age_seconds (hs_settings h))
           \<or> (hs_code_commit h, hs_config_hash h, hs_data_snapshot h)
               \<noteq> (sd_code_commit state, sd_config_hash state, sd_data_snapshot state)
           \<or> \<not> (ah_minimum_multiplier (hs_settings h) \<le> hm_value (hs_multiplier h)
                \<and> hm_value (hs_multiplier h) \<le> ah_maximum_multiplier (hs_settings h))
           \<or> \<not> age_within now (re_timestamp est) (al_max_input_age_seconds cfg)
        then Inl (ValueError ''CANDIDATE_INPUT_UNAVAILABLE'')
        else Inr (reg, h, est)))))"

definition pair_key :: "correlation_estimate \<Rightarrow> uuid set" where
  "pair_key x = {ce_left x, ce_right x}"

definition correlation_of :: "correlation_snapshot \<Rightarrow> uuid set \<Rightarrow> rat option" where
  "correlation_of cs k = map_option (\<lambda>x. dabs (ce_value x)) (dict_of pair_key (co_estimates cs) k)"

text \<open>The largest absolute correlation between the legs and the targets.\<close>

definition max_correlation ::
  "(uuid set \<Rightarrow> rat option) \<Rightarrow> candidate_leg list \<Rightarrow> target_position list \<Rightarrow> rat result" where
  "max_correlation corr legs targets =
     (let keys = concat (map (\<lambda>l. map (\<lambda>t. {cl_entity_id l, tp_entity_id t}) targets) legs)
      in if list_ex (\<lambda>k. corr k = None) keys then Inl (ValueError ''CORRELATION_UNAVAILABLE'')
         else Inr (foldl max 0 (map (\<lambda>k. the (corr k)) keys)))"

definition leg_sectors :: "normalized_candidate \<Rightarrow> string list" where
  "leg_sectors c = remdups (map cl_sector (nc_legs c))"

text \<open>Overlap, group caps and the correlation, in the order of the checks; the result is the penalty.\<close>

definition candidate_penalty ::
  "allocation_inputs \<Rightarrow> target_position list \<Rightarrow> normalized_candidate \<Rightarrow> risk_estimate \<Rightarrow> rat result" where
  "candidate_penalty inp targets c est =
     (let cfg = ai_settings inp; sectors = leg_sectors c in
      if list_ex (\<lambda>x. cl_entity_id x \<in> tp_entity_id ` set targets) (nc_legs c) then
        Inl (ValueError ''EXISTING_OR_SELECTED_SYMBOL_OVERLAP'')
      else if al_max_groups cfg \<le> groups (\<lambda>_. True) targets then
        Inl (ValueError ''POSITION_GROUP_CAP'')
      else if list_ex (\<lambda>s. al_max_sector_groups cfg \<le> groups (\<lambda>p. tp_sector p = s) targets) sectors then
        Inl (ValueError ''SECTOR_GROUP_CAP'')
      else rbind (max_correlation (correlation_of (ai_correlations inp)) (nc_legs c) targets) (\<lambda>corr.
        let duplicates = groups (\<lambda>p. tp_sector p \<in> set sectors) targets;
            threshold = al_correlation_threshold cfg;
            crowd = dec (1 + dec (al_sector_duplication_penalty cfg * of_int duplicates));
            crossed = dec (al_correlation_penalty cfg * max 0 (dec (corr - threshold)))
        in rbind (ddiv crossed (dec (1 - threshold))) (\<lambda>excess.
             Inr (dec (re_volatility_penalty est * dec (crowd + excess))))))"

definition score_sum :: "normalized_candidate list \<Rightarrow> alpha_id \<Rightarrow> rat" where
  "score_sum cs a = max 1 (dsum (map nc_strength (filter (\<lambda>c. nc_alpha_id c = a) cs)))"

text \<open>The limits that do not depend on liquidity, in the order of the source.\<close>

definition budget_limits ::
  "allocation_inputs \<Rightarrow> normalized_candidate list \<Rightarrow> target_position list \<Rightarrow> normalized_candidate
     \<Rightarrow> alpha_registration \<Rightarrow> rat \<Rightarrow> risk_estimate \<Rightarrow> rat \<Rightarrow> rat list result" where
  "budget_limits inp cs targets c reg multiplier est penalty =
     (let cfg = ai_settings inp;
          budget = dec (dec (ar_base_budget reg * dec_of_float (sd_gross_risk_multiplier (ai_state inp)))
                        * multiplier);
          (gross, net, risk) = totals targets;
          used = sum_abs (\<lambda>p. tp_alpha_id p = nc_alpha_id c) targets;
          net_weight = dsum (map cl_signed_weight (nc_legs c))
      in rbind (ddiv (dec (budget * nc_strength c)) (score_sum cs (nc_alpha_id c))) (\<lambda>share.
         rbind (ddiv share penalty) (\<lambda>desired.
         rbind (ddiv (dec (al_max_open_risk cfg - risk)) (re_loss_per_gross est)) (\<lambda>open_risk.
         rbind (ddiv (al_max_candidate_risk cfg) (re_loss_per_gross est)) (\<lambda>own_risk.
         rbind (if 0 < net_weight then rmap (ddiv (dec (al_max_net cfg - net))) [net_weight]
                else if net_weight < 0 then rmap (ddiv (dec (al_max_net cfg + net))) [dec (- net_weight)]
                else Inr []) (\<lambda>nets.
         rbind (rmap (\<lambda>s. ddiv (dec (al_max_sector cfg - sum_abs (\<lambda>p. tp_sector p = s) targets))
                  (dsum (map (\<lambda>x. dabs (cl_signed_weight x)) (filter (\<lambda>x. cl_sector x = s) (nc_legs c)))))
                (leg_sectors c)) (\<lambda>sectors.
           Inr ([desired, dec (budget - used), dec (al_max_gross cfg - gross), open_risk, own_risk,
                 dec (al_max_alpha cfg - used)] @ nets @ sectors))))))))"

definition leg_limit :: "allocation_inputs \<Rightarrow> candidate_leg \<Rightarrow> rat result" where
  "leg_limit inp leg =
     (let cfg = ai_settings inp; equity = ps_equity (ai_portfolio inp); now = ai_at inp in
      rbind (lookup (dict_of lc_entity_id (ai_liquidity inp)) uuid_repr (cl_entity_id leg)) (\<lambda>cap.
        if \<not> lc_eligible cap \<or> \<not> (lc_timestamp cap \<le> now \<and> now \<le> lc_valid_until cap)
           \<or> of_int (al_max_input_age_seconds cfg) < total_seconds (now - lc_timestamp cap)
        then Inl (ValueError ''LIQUIDITY_CAPACITY_UNAVAILABLE'')
        else rbind (ddiv (lc_max_notional cap) equity) (\<lambda>notional.
          rbind (ddiv (dec (dec (lc_adv_shares cap * lc_price cap) * al_max_adv_participation cfg)) equity)
            (\<lambda>adv.
          rbind (ddiv (dec (lc_daily_turnover cap * al_max_turnover_participation cfg)) equity) (\<lambda>turnover.
            ddiv (min (min (al_max_symbol cfg) notional) (min adv turnover)) (dabs (cl_signed_weight leg)))))))"

definition additions_for :: "normalized_candidate \<Rightarrow> risk_estimate \<Rightarrow> rat \<Rightarrow> target_position list" where
  "additions_for c est amount =
     map (\<lambda>x. \<lparr>tp_entity_id = cl_entity_id x, tp_instrument_id = cl_instrument_id x,
       tp_sector = cl_sector x, tp_alpha_id = nc_alpha_id c, tp_group_id = nc_signal_id c,
       tp_signed_notional_fraction = dec (amount * cl_signed_weight x),
       tp_open_risk_fraction = dec (dec (amount * re_loss_per_gross est) * dabs (cl_signed_weight x)),
       tp_origin = PROPOSED\<rparr>) (nc_legs c)"

definition min_list1 :: "rat \<Rightarrow> rat list \<Rightarrow> rat" where
  "min_list1 x xs = foldl min x xs"

text \<open>\<open>amount\<close>: the least limit, not below zero, truncated to twelve places.\<close>

definition amount_of :: "rat list \<Rightarrow> rat result" where
  "amount_of limits = dquantize 12 (max 0 (min_list1 (hd limits) (tl limits)))"

text \<open>
  The \<open>try\<close> block and its handler.  The result is the new targets with the record of the candidate; the
  multiplier and the penalty of the record keep the value they had when an exception was raised; what the
  handler does not catch, a division by zero or a failed \<open>quantize\<close>, leaves \<open>allocate\<close>.
\<close>

definition record_for ::
  "normalized_candidate \<Rightarrow> rat \<Rightarrow> rat \<Rightarrow> rat \<Rightarrow> string \<Rightarrow> allocation_record" where
  "record_for c amount multiplier penalty reason =
     \<lparr>ac_signal_id = nc_signal_id c, ac_allocated_gross = amount, ac_health_multiplier = multiplier,
      ac_penalty = penalty, ac_reasons = [reason]\<rparr>"

text \<open>\<open>except (KeyError, ValueError) as error\<close>.\<close>

fun handled :: "py_error \<Rightarrow> bool" where
  "handled (ValueError m) = True"
| "handled (KeyError m) = True"
| "handled (IdempotencyConflict m) = True"
| "handled e = False"

definition reject ::
  "py_error \<Rightarrow> target_position list \<Rightarrow> normalized_candidate \<Rightarrow> rat \<Rightarrow> rat
     \<Rightarrow> (target_position list \<times> allocation_record) result" where
  "reject e targets c multiplier penalty =
     (if handled e then Inr (targets, record_for c 0 multiplier penalty (str_exc e)) else Inl e)"

definition allocate_one ::
  "(alpha_registry \<Rightarrow> string) \<Rightarrow> allocation_inputs \<Rightarrow> normalized_candidate list \<Rightarrow> target_position list
     \<Rightarrow> normalized_candidate \<Rightarrow> (target_position list \<times> allocation_record) result" where
  "allocate_one registry_hash inp cs targets c =
     (case candidate_inputs registry_hash inp c of Inl e \<Rightarrow> reject e targets c 0 1
      | Inr (reg, h, est) \<Rightarrow>
        (let multiplier = dec_of_float (hm_value (hs_multiplier h)) in
         case candidate_penalty inp targets c est of Inl e \<Rightarrow> reject e targets c multiplier 1
         | Inr penalty \<Rightarrow>
           (case rbind (budget_limits inp cs targets c reg multiplier est penalty) (\<lambda>budgets.
                 rbind (rmap (leg_limit inp) (nc_legs c)) (\<lambda>caps. amount_of (budgets @ caps)))
            of Inl e \<Rightarrow> reject e targets c multiplier penalty
            | Inr amount \<Rightarrow>
              (let additions = additions_for c est amount
               in if 0 < amount \<and> within_caps (targets @ additions) (ai_settings inp)
                  then Inr (targets @ additions,
                            record_for c amount multiplier penalty ''PROPOSED_REQUIRES_INDEPENDENT_RISK'')
                  else Inr (targets, record_for c 0 multiplier penalty ''NO_CAPACITY'')))))"

fun allocate_loop ::
  "(alpha_registry \<Rightarrow> string) \<Rightarrow> allocation_inputs \<Rightarrow> normalized_candidate list
     \<Rightarrow> normalized_candidate list \<Rightarrow> target_position list
     \<Rightarrow> (target_position list \<times> allocation_record list) result" where
  "allocate_loop registry_hash inp cs [] targets = Inr (targets, [])"
| "allocate_loop registry_hash inp cs (c # rest) targets =
     rbind (allocate_one registry_hash inp cs targets c) (\<lambda>(targets1, r).
     rbind (mk_allocation r) (\<lambda>r.
     rbind (allocate_loop registry_hash inp cs rest targets1) (\<lambda>(targets2, rs). Inr (targets2, r # rs))))"

subsection \<open>\<open>allocate\<close>\<close>

definition new_allocation_blocked :: "allocation_inputs \<Rightarrow> bool" where
  "new_allocation_blocked inp \<longleftrightarrow>
     (let now = ai_at inp; cfg = ai_settings inp; p = ai_portfolio inp; state = ai_state inp;
          health = se_health (sd_evidence state)
      in ai_mode inp = LIVE \<or> \<not> ps_complete p \<or> ps_blocks_new_entries p
         \<or> \<not> age_within now (ps_timestamp p) (al_max_input_age_seconds cfg)
         \<or> ed_timestamp (ai_ensemble inp) \<noteq> now \<or> sd_timestamp state \<noteq> now
         \<or> sd_state state \<in> {RISK_OFF, OPEN_SHOCK} \<or> sd_gross_risk_multiplier state \<le> 0
         \<or> rh_blocks_new_entries health \<or> rh_system_status health \<noteq> HEALTHY
         \<or> rh_risk_status health \<noteq> HEALTHY
         \<or> \<not> age_within now (rh_observed_at health) (rs_health_max_age_seconds (sd_settings state)))"

definition inputs_ambiguous :: "allocation_inputs \<Rightarrow> bool" where
  "inputs_ambiguous inp \<longleftrightarrow>
     (let now = ai_at inp; co = ai_correlations inp
      in \<not> distinct (map hs_alpha_id (ai_health inp)) \<or> \<not> distinct (map lc_entity_id (ai_liquidity inp))
         \<or> \<not> distinct (map re_signal_id (ai_estimates inp)) \<or> \<not> distinct (map pair_key (co_estimates co))
         \<or> now \<le> co_training_end co \<or> co_timestamp co < co_training_end co
         \<or> \<not> age_within now (co_timestamp co) (al_max_input_age_seconds (ai_settings inp)))"

record allocation_hashes =
  hh_inputs :: "allocation_inputs \<Rightarrow> string"
  hh_audit :: "string \<Rightarrow> session \<Rightarrow> string"
  hh_registry :: "alpha_registry \<Rightarrow> string"
  hh_uuid5 :: "string \<Rightarrow> uuid"

definition finish ::
  "allocation_hashes \<Rightarrow> allocation_inputs \<Rightarrow> string \<Rightarrow> target_position list \<Rightarrow> allocation_record list
     \<Rightarrow> string \<Rightarrow> portfolio_decision" where
  "finish H inp digest targets records reason =
     \<lparr>pd_decision_id = hh_uuid5 H (''godzilla:portfolio:'' @ digest), pd_timestamp = ai_at inp,
      pd_targets = targets, pd_allocations = records, pd_reasons = [reason], pd_input_hash = digest,
      pd_settings = ai_settings inp\<rparr>"

text \<open>The body once the session of the day is known to be open for entries.\<close>

definition allocate_open ::
  "allocation_hashes \<Rightarrow> allocation_inputs \<Rightarrow> string \<Rightarrow> portfolio_decision result" where
  "allocate_open H inp digest =
     (let targets = ps_positions (ai_portfolio inp);
          candidates = ranked (ed_candidates (ai_ensemble inp))
      in if new_allocation_blocked inp then Inr (finish H inp digest targets [] ''NEW_ALLOCATION_BLOCKED'')
         else if \<not> within_caps targets (ai_settings inp) then
           Inr (finish H inp digest targets [] ''EXISTING_EXPOSURE_REQUIRES_RISK_REVIEW'')
         else if inputs_ambiguous inp then
           Inr (finish H inp digest targets [] ''ALLOCATION_INPUT_AMBIGUOUS'')
         else if \<not> distinct (map nc_signal_id candidates) then
           Inr (finish H inp digest targets [] ''DUPLICATE_CANDIDATE'')
         else rbind (allocate_loop (hh_registry H) inp candidates candidates targets) (\<lambda>(targets, records).
           Inr (finish H inp digest targets records ''PROPOSALS_ONLY_NO_EXECUTION'')))"

definition allocate ::
  "allocation_hashes \<Rightarrow> (day \<Rightarrow> session option result) \<Rightarrow> allocation_inputs \<Rightarrow> portfolio_decision result" where
  "allocate H son inp =
     (let now = ai_at inp; digest = hh_inputs H inp;
          blocked = (\<lambda>digest. Inr (finish H inp digest (ps_positions (ai_portfolio inp)) [] ''CALENDAR_BLOCKED''))
      in case son (local_day kolkata now) of
           Inl (CalendarCoverageError m) \<Rightarrow> blocked digest
         | Inl e \<Rightarrow> Inl e
         | Inr None \<Rightarrow> blocked digest
         | Inr (Some s) \<Rightarrow>
             (let digest = hh_audit H digest s
              in if \<not> (session_opening s \<le> now \<and> now < final_entry s) then blocked digest
                 else allocate_open H inp digest))"

subsection \<open>One step of the allocation\<close>

text \<open>What a step adds: nothing, or the legs of the candidate at an amount below every limit.\<close>

definition proposed_for ::
  "allocation_inputs \<Rightarrow> target_position list \<Rightarrow> normalized_candidate \<Rightarrow> target_position list
     \<Rightarrow> allocation_record \<Rightarrow> bool" where
  "proposed_for inp targets c adds r \<longleftrightarrow>
     (\<exists>est reg h. adds = additions_for c est (ac_allocated_gross r) \<and> 0 < ac_allocated_gross r
        \<and> within_caps (targets @ adds) (ai_settings inp)
        \<and> est \<in> set (ai_estimates inp) \<and> re_signal_id est = nc_signal_id c
        \<and> registration (ai_registry inp) (nc_alpha_id c) = Inr reg \<and> ar_enabled reg
        \<and> h \<in> set (ai_health inp) \<and> hs_alpha_id h = nc_alpha_id c
        \<and> nc_timestamp c = ai_at inp
        \<and> family_of (nc_alpha_id c) \<in> set (sd_allowed_alpha_families (ai_state inp))
        \<and> list_all (\<lambda>x. cl_entity_id x \<notin> tp_entity_id ` set targets) (nc_legs c)
        \<and> groups (\<lambda>_. True) targets < al_max_groups (ai_settings inp)
        \<and> ac_allocated_gross r \<le> dec (al_max_candidate_risk (ai_settings inp) / re_loss_per_gross est)
        \<and> ac_allocated_gross r \<le> dec (dec (dec (ar_base_budget reg * dec_of_float
              (sd_gross_risk_multiplier (ai_state inp))) * dec_of_float (hm_value (hs_multiplier h)))
            - sum_abs (\<lambda>p. tp_alpha_id p = nc_alpha_id c) targets)
        \<and> (\<forall>x \<in> set (nc_legs c). \<exists>l. leg_limit inp x = Inr l \<and> ac_allocated_gross r \<le> l))"

lemma foldl_min_le: "y \<in> set (x # xs) \<Longrightarrow> foldl min x xs \<le> (y :: rat)"
proof (induction xs arbitrary: x y)
  case (Cons a xs)
  show ?case
  proof (cases "y = x \<or> y = a")
    case True
    have "foldl min (min x a) xs \<le> min x a" using Cons.IH[of "min x a" "min x a"] by simp
    then show ?thesis using True by auto
  next
    case False
    then show ?thesis using Cons.IH[of y "min x a"] Cons.prems by auto
  qed
qed simp

lemma amount_of_le:
  assumes "amount_of limits = Inr a" "0 < a" "y \<in> set limits"
  shows "a \<le> y"
proof -
  let ?m = "min_list1 (hd limits) (tl limits)"
  have a: "a = quantize_down 12 (max 0 ?m)" using assms(1) by (auto simp: amount_of_def dest: dquantize_Inr)
  have "?m \<le> y" unfolding min_list1_def using assms(3) by (intro foldl_min_le) (cases limits; simp)
  moreover have "0 < ?m"
  proof (rule ccontr)
    assume "\<not> 0 < ?m"
    then have "a = 0" by (simp add: a quantize_down_def max_def)
    then show False using assms(2) by simp
  qed
  ultimately show ?thesis using quantize_down_le[of ?m 12] by (simp add: a max_def)
qed

lemma amount_of_nonneg: "amount_of limits = Inr a \<Longrightarrow> 0 \<le> a"
  by (auto simp: amount_of_def quantize_down_def dest: dquantize_Inr)

text \<open>A limit of at most one keeps the coefficient of \<open>amount\<close> within thirteen digits.\<close>

lemma amount_of_total:
  assumes "y \<in> set limits" "y \<le> 1"
  shows "\<exists>a. amount_of limits = Inr a"
proof -
  let ?x = "max 0 (min_list1 (hd limits) (tl limits))"
  have "min_list1 (hd limits) (tl limits) \<le> y"
    unfolding min_list1_def using assms(1) by (intro foldl_min_le) (cases limits; simp)
  then have x: "0 \<le> ?x" "?x \<le> 1" using assms(2) by auto
  have "0 \<le> quantize_down 12 ?x" "quantize_down 12 ?x \<le> 1"
    using quantize_down_nonneg[OF x(1), of 12] quantize_down_le[OF x(1), of 12] x(2) by linarith+
  then have "\<not> 10 ^ 28 \<le> \<bar>quantize_down 12 ?x\<bar> * 10 ^ 12" by simp
  then show ?thesis unfolding amount_of_def dquantize_def Let_def by simp
qed

lemma lookup_Inr: "lookup f repr k = Inr v \<longleftrightarrow> f k = Some v"
  by (simp add: lookup_def split: option.splits)

lemma candidate_inputs_Inr:
  assumes "candidate_inputs rh inp c = Inr (reg, h, est)"
  shows "registration (ai_registry inp) (nc_alpha_id c) = Inr reg" "ar_enabled reg"
    "h \<in> set (ai_health inp)" "hs_alpha_id h = nc_alpha_id c"
    "est \<in> set (ai_estimates inp)" "re_signal_id est = nc_signal_id c"
    "nc_timestamp c = ai_at inp" "family_of (nc_alpha_id c) \<in> set (sd_allowed_alpha_families (ai_state inp))"
    "ah_minimum_multiplier (hs_settings h) \<le> hm_value (hs_multiplier h)"
    "hm_value (hs_multiplier h) \<le> ah_maximum_multiplier (hs_settings h)"
proof -
  from assms have r: "registration (ai_registry inp) (nc_alpha_id c) = Inr reg" "ar_enabled reg"
    "dict_of hs_alpha_id (ai_health inp) (nc_alpha_id c) = Some h"
    "dict_of re_signal_id (ai_estimates inp) (nc_signal_id c) = Some est"
    "nc_timestamp c = ai_at inp" "family_of (nc_alpha_id c) \<in> set (sd_allowed_alpha_families (ai_state inp))"
    "ah_minimum_multiplier (hs_settings h) \<le> hm_value (hs_multiplier h)"
    "hm_value (hs_multiplier h) \<le> ah_maximum_multiplier (hs_settings h)"
    by (auto simp: candidate_inputs_def Let_def result_simps lookup_Inr split: if_split_asm)
  then show "registration (ai_registry inp) (nc_alpha_id c) = Inr reg" "ar_enabled reg"
    "h \<in> set (ai_health inp)" "hs_alpha_id h = nc_alpha_id c"
    "est \<in> set (ai_estimates inp)" "re_signal_id est = nc_signal_id c"
    "nc_timestamp c = ai_at inp" "family_of (nc_alpha_id c) \<in> set (sd_allowed_alpha_families (ai_state inp))"
    "ah_minimum_multiplier (hs_settings h) \<le> hm_value (hs_multiplier h)"
    "hm_value (hs_multiplier h) \<le> ah_maximum_multiplier (hs_settings h)"
    by (auto dest: dict_of_Some)
qed

lemma candidate_penalty_Inr:
  assumes "candidate_penalty inp targets c est = Inr p"
  shows "list_all (\<lambda>x. cl_entity_id x \<notin> tp_entity_id ` set targets) (nc_legs c)"
    "groups (\<lambda>_. True) targets < al_max_groups (ai_settings inp)"
  using assms by (auto simp: candidate_penalty_def Let_def list_ex_iff list_all_iff split: if_split_asm)

lemma budget_limits_members:
  assumes "budget_limits inp cs targets c reg m est p = Inr budgets"
  shows "dec (al_max_candidate_risk (ai_settings inp) / re_loss_per_gross est) \<in> set budgets"
    "dec (dec (dec (ar_base_budget reg * dec_of_float (sd_gross_risk_multiplier (ai_state inp))) * m)
       - sum_abs (\<lambda>p. tp_alpha_id p = nc_alpha_id c) targets) \<in> set budgets"
    "dec (al_max_gross (ai_settings inp) - sum_abs (\<lambda>_. True) targets) \<in> set budgets"
  using assms by (auto simp: budget_limits_def Let_def totals_def rbind_Inr_iff ddiv_Inr)

lemma allocate_one_Inr:
  assumes "allocate_one rh inp cs targets c = Inr (targets', r)"
  shows "ac_signal_id r = nc_signal_id c
    \<and> (targets' = targets \<and> ac_allocated_gross r = 0
       \<or> (\<exists>adds. targets' = targets @ adds \<and> proposed_for inp targets c adds r))"
proof (cases "candidate_inputs rh inp c")
  case (Inl e)
  then show ?thesis
    using assms by (auto simp: allocate_one_def reject_def record_for_def split: if_split_asm)
next
  case (Inr v)
  obtain reg h est where v: "v = (reg, h, est)" by (cases v)
  note ci = candidate_inputs_Inr[OF Inr[unfolded v]]
  let ?m = "dec_of_float (hm_value (hs_multiplier h))"
  show ?thesis
  proof (cases "candidate_penalty inp targets c est")
    case (Inl e)
    then show ?thesis using assms Inr v
      by (auto simp: allocate_one_def reject_def record_for_def Let_def split: if_split_asm)
  next
    case (Inr pen)
    note cp = candidate_penalty_Inr[OF Inr]
    let ?am = "rbind (budget_limits inp cs targets c reg ?m est pen) (\<lambda>budgets.
      rbind (rmap (leg_limit inp) (nc_legs c)) (\<lambda>caps. amount_of (budgets @ caps)))"
    note ci_eq = \<open>candidate_inputs rh inp c = Inr v\<close>
    show ?thesis
    proof (cases ?am)
      case (Inl e)
      then show ?thesis using assms ci_eq v Inr
        by (auto simp: allocate_one_def reject_def record_for_def Let_def split: if_split_asm)
    next
      case am: (Inr a)
      obtain budgets caps where b: "budget_limits inp cs targets c reg ?m est pen = Inr budgets"
        and l: "rmap (leg_limit inp) (nc_legs c) = Inr caps" and a: "amount_of (budgets @ caps) = Inr a"
        using am by (auto simp: result_simps)
      have eq: "allocate_one rh inp cs targets c =
          (if 0 < a \<and> within_caps (targets @ additions_for c est a) (ai_settings inp)
           then Inr (targets @ additions_for c est a,
             record_for c a ?m pen ''PROPOSED_REQUIRES_INDEPENDENT_RISK'')
           else Inr (targets, record_for c 0 ?m pen ''NO_CAPACITY''))"
        using ci_eq v Inr am by (simp add: allocate_one_def Let_def)
      show ?thesis
      proof (cases "0 < a \<and> within_caps (targets @ additions_for c est a) (ai_settings inp)")
        case True
        have le: "a \<le> y" if "y \<in> set budgets \<union> set caps" for y using amount_of_le[OF a] that True by simp
        have legs: "\<forall>x \<in> set (nc_legs c). \<exists>l. leg_limit inp x = Inr l \<and> a \<le> l"
        proof
          fix x assume "x \<in> set (nc_legs c)"
          then obtain k where "k < length (nc_legs c)" "x = nc_legs c ! k" by (auto simp: in_set_conv_nth)
          then have "leg_limit inp x = Inr (caps ! k)" "caps ! k \<in> set caps"
            using rmap_Inr[OF l] by (auto simp: list_all2_conv_all_nth)
          then show "\<exists>l. leg_limit inp x = Inr l \<and> a \<le> l" using le by blast
        qed
        have "proposed_for inp targets c (additions_for c est a)
            (record_for c a ?m pen ''PROPOSED_REQUIRES_INDEPENDENT_RISK'')"
          unfolding proposed_for_def using ci cp legs True budget_limits_members(1,2)[OF b, THEN UnI1, THEN le]
          by (intro exI[of _ est] exI[of _ reg] exI[of _ h]) (auto simp: record_for_def)
        then show ?thesis using assms True unfolding eq by (auto simp: record_for_def)
      next
        case False
        then show ?thesis using assms unfolding eq by (auto simp: record_for_def)
      qed
    qed
  qed
qed

subsection \<open>The loop\<close>

lemma mk_allocation_Inr: "mk_allocation r = Inr r' \<Longrightarrow> r' = r"
  by (simp add: mk_allocation_def split: if_split_asm)

lemma allocate_loop_Inr:
  assumes "allocate_loop rh inp cs rest targets = Inr (targets', rs)"
  shows "\<exists>blocks. length blocks = length rest \<and> targets' = targets @ concat blocks
    \<and> map ac_signal_id rs = map nc_signal_id rest
    \<and> (\<forall>k < length rest. blocks ! k = [] \<and> ac_allocated_gross (rs ! k) = 0
         \<or> proposed_for inp (targets @ concat (take k blocks)) (rest ! k) (blocks ! k) (rs ! k))"
  using assms
proof (induction rest arbitrary: targets rs)
  case (Cons c rest)
  obtain t1 r rs1 where 1: "allocate_one rh inp cs targets c = Inr (t1, r)"
    and 2: "allocate_loop rh inp cs rest t1 = Inr (targets', rs1)" and rs: "rs = r # rs1"
    using Cons.prems by (auto simp: result_simps dest: mk_allocation_Inr)
  note one = allocate_one_Inr[OF 1]
  obtain block where b: "t1 = targets @ block" "block = [] \<and> ac_allocated_gross r = 0
      \<or> proposed_for inp targets c block r"
    using one by auto
  obtain blocks where bs: "length blocks = length rest" "targets' = t1 @ concat blocks"
    "map ac_signal_id rs1 = map nc_signal_id rest"
    "\<forall>k < length rest. blocks ! k = [] \<and> ac_allocated_gross (rs1 ! k) = 0
       \<or> proposed_for inp (t1 @ concat (take k blocks)) (rest ! k) (blocks ! k) (rs1 ! k)"
    using Cons.IH[OF 2] by blast
  show ?case
  proof (intro exI[of _ "block # blocks"] conjI allI impI)
    fix k assume "k < length (c # rest)"
    then show "(block # blocks) ! k = [] \<and> ac_allocated_gross (rs ! k) = 0
       \<or> proposed_for inp (targets @ concat (take k (block # blocks))) ((c # rest) ! k)
           ((block # blocks) ! k) (rs ! k)"
      using b bs(4) by (cases k) (auto simp: rs)
  qed (use bs b one rs in auto)
qed simp

lemma allocate_loop_caps:
  assumes "allocate_loop rh inp cs rest targets = Inr (targets', rs)" "within_caps targets (ai_settings inp)"
  shows "within_caps targets' (ai_settings inp)"
  using assms
proof (induction rest arbitrary: targets rs)
  case (Cons c rest)
  obtain t1 r rs1 where 1: "allocate_one rh inp cs targets c = Inr (t1, r)"
    and 2: "allocate_loop rh inp cs rest t1 = Inr (targets', rs1)"
    using Cons.prems(1) by (auto simp: result_simps)
  have "within_caps t1 (ai_settings inp)"
    using allocate_one_Inr[OF 1] Cons.prems(2) by (auto simp: proposed_for_def)
  then show ?case by (rule Cons.IH[OF 2])
qed simp

text \<open>How a decision comes about: unchanged targets, or the loop over the ranked candidates.\<close>

lemma allocate_cases:
  assumes "allocate H son inp = Inr d"
  obtains (unchanged) "pd_targets d = ps_positions (ai_portfolio inp)" "pd_allocations d = []"
      "pd_reasons d \<noteq> [''PROPOSALS_ONLY_NO_EXECUTION'']"
    | (proposed) s where "son (local_day kolkata (ai_at inp)) = Inr (Some s)"
      "session_opening s \<le> ai_at inp" "ai_at inp < final_entry s"
      "\<not> new_allocation_blocked inp" "within_caps (ps_positions (ai_portfolio inp)) (ai_settings inp)"
      "\<not> inputs_ambiguous inp" "distinct (map nc_signal_id (ed_candidates (ai_ensemble inp)))"
      "allocate_loop (hh_registry H) inp (ranked (ed_candidates (ai_ensemble inp)))
         (ranked (ed_candidates (ai_ensemble inp))) (ps_positions (ai_portfolio inp))
       = Inr (pd_targets d, pd_allocations d)" "pd_reasons d = [''PROPOSALS_ONLY_NO_EXECUTION'']"
proof -
  have dist: "distinct (map nc_signal_id (ranked cs)) = distinct (map nc_signal_id cs)" for cs
    by (rule mset_eq_imp_distinct_iff) simp
  have opened: thesis if "allocate_open H inp digest = Inr d" "son (local_day kolkata (ai_at inp)) = Inr (Some s)"
    "session_opening s \<le> ai_at inp \<and> ai_at inp < final_entry s" for digest s
  proof (cases "new_allocation_blocked inp \<or> \<not> within_caps (ps_positions (ai_portfolio inp)) (ai_settings inp)
      \<or> inputs_ambiguous inp \<or> \<not> distinct (map nc_signal_id (ranked (ed_candidates (ai_ensemble inp))))")
    case True
    then show thesis
      using that(1) by (intro unchanged) (auto simp: allocate_open_def finish_def Let_def split: if_split_asm)
  next
    case False
    then show thesis
      using that by (intro proposed[of s]) (auto simp: allocate_open_def finish_def Let_def dist result_simps)
  qed
  show thesis
  proof (cases "son (local_day kolkata (ai_at inp))")
    case (Inl e)
    then show thesis
      using assms by (intro unchanged) (auto simp: allocate_def finish_def Let_def split: py_error.splits)
  next
    case (Inr so)
    show thesis
    proof (cases so)
      case None
      then show thesis using assms Inr by (intro unchanged) (auto simp: allocate_def finish_def Let_def)
    next
      case (Some s)
      show thesis
      proof (cases "session_opening s \<le> ai_at inp \<and> ai_at inp < final_entry s")
        case True
        then show thesis using opened[OF _ Inr[unfolded Some]] assms Inr Some by (simp add: allocate_def Let_def)
      next
        case False
        then show thesis
          using assms Inr Some by (intro unchanged) (auto simp: allocate_def finish_def Let_def)
      qed
    qed
  qed
qed

lemma additions_for_simps:
  "map tp_entity_id (additions_for c est a) = map cl_entity_id (nc_legs c)"
  "p \<in> set (additions_for c est a) \<Longrightarrow> tp_origin p = PROPOSED \<and> tp_group_id p = nc_signal_id c
     \<and> tp_alpha_id p = nc_alpha_id c"
  by (auto simp: additions_for_def comp_def)

lemma allocate_loop_additions:
  assumes "allocate_loop rh inp cs rest targets = Inr (targets', rs)"
    and "\<forall>c \<in> set rest. distinct (map cl_entity_id (nc_legs c))"
  shows "\<exists>adds. targets' = targets @ adds \<and> distinct (map tp_entity_id adds)
    \<and> tp_entity_id ` set adds \<inter> tp_entity_id ` set targets = {}
    \<and> (\<forall>p \<in> set adds. tp_origin p = PROPOSED \<and> tp_group_id p \<in> nc_signal_id ` set rest)"
  using assms
proof (induction rest arbitrary: targets rs)
  case (Cons c rest)
  obtain t1 r rs1 where 1: "allocate_one rh inp cs targets c = Inr (t1, r)"
    and 2: "allocate_loop rh inp cs rest t1 = Inr (targets', rs1)"
    using Cons.prems(1) by (auto simp: result_simps)
  obtain block where b: "t1 = targets @ block" "block = [] \<or> proposed_for inp targets c block r"
    using allocate_one_Inr[OF 1] by auto
  have block: "distinct (map tp_entity_id block)" "tp_entity_id ` set block \<inter> tp_entity_id ` set targets = {}"
    "\<forall>p \<in> set block. tp_origin p = PROPOSED \<and> tp_group_id p = nc_signal_id c"
  proof -
    show "distinct (map tp_entity_id block)"
      using b(2) Cons.prems(2) by (auto simp: proposed_for_def additions_for_simps(1) simp del: distinct_map)
    show "tp_entity_id ` set block \<inter> tp_entity_id ` set targets = {}"
    proof (cases "block = []")
      case False
      then obtain est a where e: "block = additions_for c est a"
        "list_all (\<lambda>x. cl_entity_id x \<notin> tp_entity_id ` set targets) (nc_legs c)"
        using b(2) by (auto simp: proposed_for_def)
      have "tp_entity_id ` set block = cl_entity_id ` set (nc_legs c)"
        using arg_cong[OF additions_for_simps(1)[of c est a], of set] e(1) by simp
      then show ?thesis using e(2) by (auto simp: list_all_iff)
    qed simp
    show "\<forall>p \<in> set block. tp_origin p = PROPOSED \<and> tp_group_id p = nc_signal_id c"
      using b(2) by (auto simp: proposed_for_def dest: additions_for_simps(2))
  qed
  obtain adds where a: "targets' = t1 @ adds" "distinct (map tp_entity_id adds)"
    "tp_entity_id ` set adds \<inter> tp_entity_id ` set t1 = {}"
    "\<forall>p \<in> set adds. tp_origin p = PROPOSED \<and> tp_group_id p \<in> nc_signal_id ` set rest"
    using Cons.IH[OF 2] Cons.prems(2) by auto
  show ?case
  proof (intro exI[of _ "block @ adds"] conjI ballI)
    show "distinct (map tp_entity_id (block @ adds))"
      using a(2,3) block(1) unfolding b(1) map_append distinct_append by auto
    fix p assume p: "p \<in> set (block @ adds)"
    then show "tp_origin p = PROPOSED" "tp_group_id p \<in> nc_signal_id ` set (c # rest)"
      using a(4) block(3) by auto
  qed (use a b(1) block in auto)
qed simp

text \<open>The caps, written out.\<close>

lemma within_caps_iff:
  "within_caps ps cfg \<longleftrightarrow>
     sum_abs (\<lambda>_. True) ps \<le> al_max_gross cfg
     \<and> dabs (dsum (map tp_signed_notional_fraction ps)) \<le> al_max_net cfg
     \<and> dsum (map tp_open_risk_fraction ps) \<le> al_max_open_risk cfg
     \<and> groups (\<lambda>_. True) ps \<le> al_max_groups cfg
     \<and> (\<forall>p \<in> set ps. sum_abs (\<lambda>q. tp_alpha_id q = tp_alpha_id p) ps \<le> al_max_alpha cfg
          \<and> sum_abs (\<lambda>q. tp_sector q = tp_sector p) ps \<le> al_max_sector cfg
          \<and> sum_abs (\<lambda>q. tp_entity_id q = tp_entity_id p) ps \<le> al_max_symbol cfg
          \<and> groups (\<lambda>q. tp_sector q = tp_sector p) ps \<le> al_max_sector_groups cfg)"
  by (auto simp: within_caps_def totals_def list_all_iff not_less)

subsection \<open>No exception escapes\<close>

lemma dec_of_float_one: "dec_of_float 1 = 1"
proof -
  have 1: "ilog 10 1 = 0" by code_simp
  have 2: "fl 1 = 1" using fl_of_int[of 1] by simp
  have "repr_candidates 1 1 = [1, 1]" by (simp add: repr_candidates_def 1 2)
  moreover have "[1..<18] = (1::nat) # [2..<18]" by (simp add: upt_rec)
  ultimately show ?thesis by (simp add: dec_of_float_def shortest_repr_def)
qed

lemma dec_of_float_unit:
  assumes "fl x = x" "0 \<le> x" "x \<le> 1"
  shows "0 \<le> dec_of_float x" "dec_of_float x \<le> 1"
proof -
  note f = fl_dec_of_float[OF assms(1)]
  show "0 \<le> dec_of_float x"
    using assms(2) f flr.nonneg_iff[of "dec_of_float x"] by simp
  show "dec_of_float x \<le> 1"
  proof (rule ccontr)
    assume n: "\<not> dec_of_float x \<le> 1"
    then have "1 \<le> fl (dec_of_float x)" by (intro flr.ge_one) simp
    then have "x = 1" using f assms(3) by simp
    then show False using n dec_of_float_one by simp
  qed
qed

text \<open>What the validators of the inputs' models guarantee.\<close>

definition inputs_ok :: "allocation_inputs \<Rightarrow> bool" where
  "inputs_ok inp \<longleftrightarrow> registry_ok (ai_registry inp) \<and> allocator_settings_ok (ai_settings inp)
     \<and> portfolio_ok (ai_portfolio inp) \<and> list_all candidate_ok (ed_candidates (ai_ensemble inp))
     \<and> list_all risk_estimate_ok (ai_estimates inp)
     \<and> list_all (\<lambda>h. health_settings_ok (hs_settings h)
          \<and> fl (hm_value (hs_multiplier h)) = hm_value (hs_multiplier h)) (ai_health inp)"

lemma registration_total: "registry_ok rs \<Longrightarrow> \<exists>r. registration rs a = Inr r"
proof -
  assume "registry_ok rs"
  then have "a \<in> ar_alpha_id ` set rs" using alpha_ids_all by (auto simp: registry_ok_def)
  then have "find (\<lambda>r. ar_alpha_id r = a) rs \<noteq> None" by (auto simp: find_None_iff)
  then show ?thesis by (auto simp: registration_def)
qed

lemma candidate_inputs_error:
  assumes "candidate_inputs rh inp c = Inl e" "registry_ok (ai_registry inp)"
  shows "handled e"
proof -
  obtain r where "registration (ai_registry inp) (nc_alpha_id c) = Inr r"
    using registration_total[OF assms(2)] by blast
  then show ?thesis
    using assms(1)
    by (auto simp: candidate_inputs_def Let_def result_simps lookup_def split: if_split_asm option.splits)
qed

lemma candidate_penalty_error:
  assumes "candidate_penalty inp targets c est = Inl e" "allocator_settings_ok (ai_settings inp)"
  shows "handled e"
proof -
  have "dec (1 - al_correlation_threshold (ai_settings inp)) \<noteq> 0"
    using assms(2) by (simp add: dcr.zero_iff allocator_settings_ok_def)
  then show ?thesis
    using assms(1)
    by (auto simp: candidate_penalty_def max_correlation_def Let_def rbind_Inl_iff ddiv_total split: if_split_asm)
qed

lemma dabs_zero_iff: "dabs x = 0 \<longleftrightarrow> x = 0"
  by (simp add: dabs_def dcr.zero_iff)

lemma leg_limit_error:
  assumes "leg_limit inp x = Inl e" "0 < ps_equity (ai_portfolio inp)" "cl_signed_weight x \<noteq> 0"
  shows "handled e"
proof -
  have "ps_equity (ai_portfolio inp) \<noteq> 0" using assms(2) by simp
  then show ?thesis
    using assms(1,3)
    by (auto simp: leg_limit_def Let_def rbind_Inl_iff lookup_def ddiv_total dabs_zero_iff
        split: if_split_asm option.splits)
qed

lemma rmap_total: "(\<And>x. x \<in> set xs \<Longrightarrow> \<exists>y. f x = Inr y) \<Longrightarrow> \<exists>ys. rmap f xs = Inr ys"
proof (induction xs)
  case (Cons x xs)
  then obtain y ys where "f x = Inr y" "rmap f xs = Inr ys" by (metis list.set_intros)
  then show ?case by simp
qed simp

text \<open>The divisors of the budget limits are never zero, for validated settings, estimates and candidates.\<close>

lemma sector_weight_pos:
  assumes "list_all (\<lambda>x. cl_signed_weight x \<noteq> 0) legs" "s \<in> cl_sector ` set legs"
  shows "0 < dsum (map (\<lambda>x. dabs (cl_signed_weight x)) (filter (\<lambda>x. cl_sector x = s) legs))"
proof (rule dsum_pos)
  show "map (\<lambda>x. dabs (cl_signed_weight x)) (filter (\<lambda>x. cl_sector x = s) legs) \<noteq> []"
    using assms(2) by (auto simp: filter_empty_conv)
  fix y assume "y \<in> set (map (\<lambda>x. dabs (cl_signed_weight x)) (filter (\<lambda>x. cl_sector x = s) legs))"
  then obtain x where "x \<in> set legs" "y = dabs (cl_signed_weight x)" by auto
  then show "0 < y" using assms(1) by (simp add: dabs_def dcr.pos_iff list_all_iff)
qed

lemma budget_limits_total:
  assumes "candidate_ok c" "risk_estimate_ok est" "1 \<le> p"
  shows "\<exists>budgets. budget_limits inp cs targets c reg m est p = Inr budgets"
proof -
  let ?cfg = "ai_settings inp"
  have nz: "score_sum cs (nc_alpha_id c) \<noteq> 0" "p \<noteq> 0" "re_loss_per_gross est \<noteq> 0"
    using assms(2,3) by (auto simp: score_sum_def risk_estimate_ok_def max_def)
  obtain sectors where sectors: "rmap (\<lambda>s. ddiv (dec (al_max_sector ?cfg - sum_abs (\<lambda>p. tp_sector p = s) targets))
      (dsum (map (\<lambda>x. dabs (cl_signed_weight x)) (filter (\<lambda>x. cl_sector x = s) (nc_legs c)))))
      (leg_sectors c) = Inr sectors"
  proof -
    have "\<exists>ys. rmap (\<lambda>s. ddiv (dec (al_max_sector ?cfg - sum_abs (\<lambda>p. tp_sector p = s) targets))
      (dsum (map (\<lambda>x. dabs (cl_signed_weight x)) (filter (\<lambda>x. cl_sector x = s) (nc_legs c)))))
      (leg_sectors c) = Inr ys"
    proof (rule rmap_total)
      fix s assume "s \<in> set (leg_sectors c)"
      then have "0 < dsum (map (\<lambda>x. dabs (cl_signed_weight x)) (filter (\<lambda>x. cl_sector x = s) (nc_legs c)))"
        using assms(1) by (intro sector_weight_pos) (auto simp: candidate_ok_def leg_sectors_def)
      then show "\<exists>y. ddiv (dec (al_max_sector ?cfg - sum_abs (\<lambda>p. tp_sector p = s) targets))
        (dsum (map (\<lambda>x. dabs (cl_signed_weight x)) (filter (\<lambda>x. cl_sector x = s) (nc_legs c)))) = Inr y"
        by (simp add: ddiv_def)
    qed
    then show thesis using that by blast
  qed
  have "\<exists>nets. (if 0 < w then rmap (ddiv x) [w] else if w < 0 then rmap (ddiv y) [dec (- w)] else Inr []) = Inr nets"
    for w x y
    by (simp add: ddiv_def dcr.zero_iff)
  then show ?thesis
    using sectors by (simp add: budget_limits_def Let_def ddiv_total nz split_beta rbind_Inr_iff)
qed

lemma rmap_error: "rmap f xs = Inl e \<Longrightarrow> \<exists>x \<in> set xs. f x = Inl e"
  by (induction xs) (auto simp: result_simps)

lemma penalty_ge_one:
  assumes "candidate_penalty inp targets c est = Inr p" "allocator_settings_ok (ai_settings inp)"
    "risk_estimate_ok est"
  shows "1 \<le> p"
proof -
  let ?cfg = "ai_settings inp"
  obtain corr where p: "p = dec (re_volatility_penalty est * dec (dec (1 + dec (al_sector_duplication_penalty ?cfg
        * of_int (groups (\<lambda>p. tp_sector p \<in> set (leg_sectors c)) targets)))
      + dec (dec (al_correlation_penalty ?cfg * max 0 (dec (corr - al_correlation_threshold ?cfg)))
          / dec (1 - al_correlation_threshold ?cfg))))"
    using assms(1) by (auto simp: candidate_penalty_def Let_def result_simps split: if_split_asm)
  have cfg: "0 \<le> al_sector_duplication_penalty ?cfg" "0 \<le> al_correlation_penalty ?cfg"
    "al_correlation_threshold ?cfg < 1" "1 \<le> re_volatility_penalty est"
    using assms by (auto simp: allocator_settings_ok_def risk_estimate_ok_def)
  have "0 \<le> dec (al_sector_duplication_penalty ?cfg * of_int (groups (\<lambda>p. tp_sector p \<in> set (leg_sectors c)) targets))"
    using cfg by (simp add: dcr.nonneg_iff groups_def)
  then have 1: "1 \<le> dec (1 + dec (al_sector_duplication_penalty ?cfg
        * of_int (groups (\<lambda>p. tp_sector p \<in> set (leg_sectors c)) targets)))"
    by (intro dcr.ge_one) simp
  have "0 \<le> dec (al_correlation_penalty ?cfg * max 0 (dec (corr - al_correlation_threshold ?cfg)))"
    using cfg by (simp add: dcr.nonneg_iff)
  moreover have "0 \<le> dec (1 - al_correlation_threshold ?cfg)" using cfg by (simp add: dcr.nonneg_iff)
  ultimately have 2: "0 \<le> dec (dec (al_correlation_penalty ?cfg * max 0 (dec (corr - al_correlation_threshold ?cfg)))
          / dec (1 - al_correlation_threshold ?cfg))"
    unfolding dcr.nonneg_iff[of "_ / _"] by (rule divide_nonneg_nonneg)
  have "1 \<le> dec (dec (1 + dec (al_sector_duplication_penalty ?cfg
        * of_int (groups (\<lambda>p. tp_sector p \<in> set (leg_sectors c)) targets)))
      + dec (dec (al_correlation_penalty ?cfg * max 0 (dec (corr - al_correlation_threshold ?cfg)))
          / dec (1 - al_correlation_threshold ?cfg)))" (is "1 \<le> ?t")
    using 1 2 by (intro dcr.ge_one) linarith
  then have "1 * 1 \<le> re_volatility_penalty est * ?t" using cfg(4) by (intro mult_mono) auto
  then show ?thesis unfolding p by (intro dcr.ge_one) simp
qed

text \<open>The steps after the penalty: the amount, or an exception the handler turns into a reason.\<close>

lemma amount_error:
  assumes "rbind (budget_limits inp cs targets c reg m est p) (\<lambda>budgets.
      rbind (rmap (leg_limit inp) (nc_legs c)) (\<lambda>caps. amount_of (budgets @ caps))) = Inl e"
    and ok: "inputs_ok inp" "candidate_ok c" "risk_estimate_ok est" "1 \<le> p"
  shows "handled e"
proof -
  obtain budgets where b: "budget_limits inp cs targets c reg m est p = Inr budgets"
    using budget_limits_total[OF ok(2-4)] by blast
  have gross: "dec (al_max_gross (ai_settings inp) - sum_abs (\<lambda>_. True) targets) \<le> 1"
  proof (rule dcr.le_one)
    have "0 \<le> sum_abs (\<lambda>_. True) targets"
      by (auto simp: sum_abs_def dabs_def dcr.nonneg_iff intro!: dsum_nonneg)
    then show "al_max_gross (ai_settings inp) - sum_abs (\<lambda>_. True) targets \<le> 1"
      using ok(1) by (simp add: inputs_ok_def allocator_settings_ok_def unit_fraction_def)
  qed
  have "\<exists>a. amount_of (budgets @ caps) = Inr a" for caps
    using amount_of_total[OF _ gross] budget_limits_members(3)[OF b] by simp
  then have "rmap (leg_limit inp) (nc_legs c) = Inl e"
    using assms(1) b by (metis rbind_Inl_iff rbind.simps(2) sum.distinct(1))
  then obtain x where "x \<in> set (nc_legs c)" "leg_limit inp x = Inl e"
    using rmap_error by blast
  then show ?thesis
    using leg_limit_error ok(1,2)
    by (auto simp: inputs_ok_def portfolio_ok_def candidate_ok_def list_all_iff)
qed

lemma allocate_one_total:
  assumes "inputs_ok inp" "candidate_ok c"
  shows "\<exists>t r. allocate_one rh inp cs targets c = Inr (t, r) \<and> mk_allocation r = Inr r"
proof (cases "candidate_inputs rh inp c")
  case (Inl e)
  then have "handled e" using candidate_inputs_error assms(1) by (auto simp: inputs_ok_def)
  then show ?thesis using Inl by (simp add: allocate_one_def reject_def mk_allocation_def record_for_def)
next
  case (Inr v)
  obtain reg h est where v: "v = (reg, h, est)" by (cases v)
  note ci = candidate_inputs_Inr[OF Inr[unfolded v]]
  let ?m = "dec_of_float (hm_value (hs_multiplier h))"
  have h: "health_settings_ok (hs_settings h)" "fl (hm_value (hs_multiplier h)) = hm_value (hs_multiplier h)"
    "risk_estimate_ok est" "allocator_settings_ok (ai_settings inp)"
    using assms(1) ci(3,5) by (auto simp: inputs_ok_def list_all_iff)
  have m: "0 \<le> ?m" "?m \<le> 1"
    using dec_of_float_unit[OF h(2)] h(1) ci(9,10) by (auto simp: health_settings_ok_def)
  show ?thesis
  proof (cases "candidate_penalty inp targets c est")
    case (Inl e)
    then show ?thesis using Inr v m candidate_penalty_error[OF Inl h(4)]
      by (simp add: allocate_one_def reject_def mk_allocation_def record_for_def Let_def)
  next
    case pen: (Inr pen)
    have p: "1 \<le> pen" by (rule penalty_ge_one[OF pen h(4) h(3)])
    let ?am = "rbind (budget_limits inp cs targets c reg ?m est pen) (\<lambda>budgets.
      rbind (rmap (leg_limit inp) (nc_legs c)) (\<lambda>caps. amount_of (budgets @ caps)))"
    show ?thesis
    proof (cases ?am)
      case (Inl e)
      then have "handled e" by (rule amount_error[OF _ assms h(3) p])
      then show ?thesis using Inr v m p pen Inl
        by (simp add: allocate_one_def reject_def mk_allocation_def record_for_def Let_def)
    next
      case am: (Inr a)
      then have "0 \<le> a" by (auto simp: rbind_Inr_iff dest: amount_of_nonneg)
      then show ?thesis using Inr v m p pen am
        by (auto simp: allocate_one_def mk_allocation_def record_for_def Let_def)
    qed
  qed
qed

lemma allocate_loop_total:
  assumes "inputs_ok inp" "list_all candidate_ok rest"
  shows "\<exists>t rs. allocate_loop rh inp cs rest targets = Inr (t, rs)"
  using assms(2)
proof (induction rest arbitrary: targets)
  case (Cons c rest)
  have ok: "candidate_ok c" "list_all candidate_ok rest" using Cons.prems by simp_all
  obtain t r where "allocate_one rh inp cs targets c = Inr (t, r)" "mk_allocation r = Inr r"
    using allocate_one_total[OF assms(1) ok(1)] by blast
  moreover obtain t' rs where "allocate_loop rh inp cs rest t = Inr (t', rs)"
    using Cons.IH[OF ok(2)] by blast
  ultimately show ?case by simp
qed simp

subsection \<open>Properties\<close>

text \<open>
  C1.  Proposals respect every cap: a portfolio decision either leaves the existing targets exactly as they
  are, or the complete list of targets (existing and proposed) is within the gross, net, risk, group, alpha,
  sector and symbol caps of its settings.
\<close>

theorem allocate_within_caps:
  assumes "allocate H son inp = Inr d"
  shows "pd_targets d = ps_positions (ai_portfolio inp)
    \<or> sum_abs (\<lambda>_. True) (pd_targets d) \<le> al_max_gross (ai_settings inp)
      \<and> dabs (dsum (map tp_signed_notional_fraction (pd_targets d))) \<le> al_max_net (ai_settings inp)
      \<and> dsum (map tp_open_risk_fraction (pd_targets d)) \<le> al_max_open_risk (ai_settings inp)
      \<and> groups (\<lambda>_. True) (pd_targets d) \<le> al_max_groups (ai_settings inp)
      \<and> (\<forall>p \<in> set (pd_targets d).
           sum_abs (\<lambda>q. tp_alpha_id q = tp_alpha_id p) (pd_targets d) \<le> al_max_alpha (ai_settings inp)
           \<and> sum_abs (\<lambda>q. tp_sector q = tp_sector p) (pd_targets d) \<le> al_max_sector (ai_settings inp)
           \<and> sum_abs (\<lambda>q. tp_entity_id q = tp_entity_id p) (pd_targets d) \<le> al_max_symbol (ai_settings inp)
           \<and> groups (\<lambda>q. tp_sector q = tp_sector p) (pd_targets d) \<le> al_max_sector_groups (ai_settings inp))"
  using assms
proof (cases rule: allocate_cases)
  case (proposed s)
  from allocate_loop_caps[OF proposed(8) proposed(5)] show ?thesis unfolding within_caps_iff by blast
qed simp

text \<open>
  C3.  Gate: a decision that adds anything was made outside LIVE, on a complete and recent portfolio that
  does not block entries, inside the entry window of a confirmed session, on a state decision of the same
  instant that is neither \<open>RISK_OFF\<close> nor \<open>OPEN_SHOCK\<close> and carries risk, with healthy system and risk status,
  and with unambiguous, causal allocation inputs.
\<close>

theorem allocate_gate:
  assumes "allocate H son inp = Inr d" "pd_targets d \<noteq> ps_positions (ai_portfolio inp)"
  shows "ai_mode inp \<noteq> LIVE \<and> ps_complete (ai_portfolio inp) \<and> \<not> ps_blocks_new_entries (ai_portfolio inp)
    \<and> age_within (ai_at inp) (ps_timestamp (ai_portfolio inp)) (al_max_input_age_seconds (ai_settings inp))
    \<and> (\<exists>s. son (local_day kolkata (ai_at inp)) = Inr (Some s)
          \<and> session_opening s \<le> ai_at inp \<and> ai_at inp < final_entry s)
    \<and> sd_timestamp (ai_state inp) = ai_at inp \<and> ed_timestamp (ai_ensemble inp) = ai_at inp
    \<and> sd_state (ai_state inp) \<notin> {RISK_OFF, OPEN_SHOCK} \<and> 0 < sd_gross_risk_multiplier (ai_state inp)
    \<and> rh_system_status (se_health (sd_evidence (ai_state inp))) = HEALTHY
    \<and> rh_risk_status (se_health (sd_evidence (ai_state inp))) = HEALTHY
    \<and> \<not> rh_blocks_new_entries (se_health (sd_evidence (ai_state inp)))
    \<and> co_training_end (ai_correlations inp) < ai_at inp"
  using assms(1)
proof (cases rule: allocate_cases)
  case (proposed s)
  then show ?thesis by (auto simp: new_allocation_blocked_def inputs_ambiguous_def Let_def)
qed (use assms in simp)

text \<open>
  C6.  Existing positions are never changed: the targets are the existing positions followed by proposals,
  every proposal is marked \<open>PROPOSED\<close> and belongs to a candidate of the ensemble, and no security is
  proposed twice or on top of an existing position.
\<close>

theorem allocate_preserves_existing:
  assumes "allocate H son inp = Inr d" "\<forall>c \<in> set (ed_candidates (ai_ensemble inp)). candidate_ok c"
  shows "\<exists>adds. pd_targets d = ps_positions (ai_portfolio inp) @ adds
    \<and> (\<forall>p \<in> set adds. tp_origin p = PROPOSED
          \<and> tp_group_id p \<in> nc_signal_id ` set (ed_candidates (ai_ensemble inp)))
    \<and> distinct (map tp_entity_id adds)
    \<and> tp_entity_id ` set adds \<inter> tp_entity_id ` set (ps_positions (ai_portfolio inp)) = {}"
  using assms(1)
proof (cases rule: allocate_cases)
  case (proposed s)
  have set: "set (ranked cs) = set cs" for cs by (metis ranked_mset set_mset_mset)
  have "\<forall>c \<in> set (ranked (ed_candidates (ai_ensemble inp))). distinct (map cl_entity_id (nc_legs c))"
    using assms(2) unfolding set candidate_ok_def by blast
  from allocate_loop_additions[OF proposed(8) this] show ?thesis unfolding set by blast
qed simp

text \<open>
  Every candidate is accounted for in rank order, and a positive allocation never exceeds the risk
  limit per candidate, the remaining budget of its alpha, or the liquidity and symbol limit of any leg.
\<close>

theorem allocate_accounts:
  assumes "allocate H son inp = Inr d" "pd_reasons d = [''PROPOSALS_ONLY_NO_EXECUTION'']"
  shows "map ac_signal_id (pd_allocations d) = map nc_signal_id (ranked (ed_candidates (ai_ensemble inp)))
    \<and> (\<forall>k < length (pd_allocations d).
         let r = pd_allocations d ! k; c = ranked (ed_candidates (ai_ensemble inp)) ! k
         in ac_allocated_gross r = 0
            \<or> (\<exists>est \<in> set (ai_estimates inp). re_signal_id est = nc_signal_id c
                 \<and> 0 < ac_allocated_gross r
                 \<and> ac_allocated_gross r \<le> dec (al_max_candidate_risk (ai_settings inp) / re_loss_per_gross est)
                 \<and> set (additions_for c est (ac_allocated_gross r)) \<subseteq> set (pd_targets d)
                 \<and> (\<forall>x \<in> set (nc_legs c). \<exists>l. leg_limit inp x = Inr l \<and> ac_allocated_gross r \<le> l)))"
  using assms(1)
proof (cases rule: allocate_cases)
  case (proposed s)
  let ?cs = "ranked (ed_candidates (ai_ensemble inp))"
  obtain blocks where bs: "length blocks = length ?cs" "pd_targets d = ps_positions (ai_portfolio inp) @ concat blocks"
    and ids: "map ac_signal_id (pd_allocations d) = map nc_signal_id ?cs"
    and k: "\<forall>k < length ?cs. blocks ! k = [] \<and> ac_allocated_gross (pd_allocations d ! k) = 0
         \<or> proposed_for inp (ps_positions (ai_portfolio inp) @ concat (take k blocks)) (?cs ! k) (blocks ! k)
             (pd_allocations d ! k)"
    using allocate_loop_Inr[OF proposed(8)] by blast
  have len: "length (pd_allocations d) = length ?cs" using ids by (metis length_map)
  have sub: "set (blocks ! k) \<subseteq> set (pd_targets d)" if "k < length ?cs" for k
    using that bs by auto
  show ?thesis
    using ids k sub unfolding len Let_def by (fastforce simp: proposed_for_def)
qed (use assms in simp)

text \<open>
  C7.  The allocator always answers: with inputs that passed their validators (settings, registry,
  portfolio, candidates, risk estimates, health snapshots) and a calendar whose only error is missing coverage, every
  input yields a decision.  No division by zero and no failed \<open>quantize\<close>, which the handler of the loop does not
  catch, is reached: equity, loss per gross, correlation margin, score sum, penalty, net, sector and leg weights are
  nonzero divisors, and no record fails its validation.
\<close>

theorem allocate_total:
  assumes "inputs_ok inp"
    and "\<And>day e. son day = Inl e \<Longrightarrow> \<exists>m. e = CalendarCoverageError m"
  shows "\<exists>d. allocate H son inp = Inr d"
proof -
  have "list_all candidate_ok (ranked (ed_candidates (ai_ensemble inp)))"
    using assms(1) ranked_mset[of "ed_candidates (ai_ensemble inp)"]
    by (metis inputs_ok_def list_all_iff set_mset_mset)
  then obtain t rs where "allocate_loop (hh_registry H) inp (ranked (ed_candidates (ai_ensemble inp)))
      (ranked (ed_candidates (ai_ensemble inp))) (ps_positions (ai_portfolio inp)) = Inr (t, rs)"
    using allocate_loop_total[OF assms(1)] by blast
  then have "\<exists>d. allocate_open H inp digest = Inr d" for digest
    by (simp add: allocate_open_def Let_def)
  then show ?thesis
    using assms(2)[of "local_day kolkata (ai_at inp)"]
    by (auto simp: allocate_def Let_def split: sum.splits option.splits py_error.splits)
qed

subsection \<open>A concrete allocation\<close>

definition example_allocator :: allocator_settings where
  "example_allocator =
     \<lparr>al_max_alpha = 2 / 5, al_max_gross = 1, al_max_net = 3 / 5, al_max_symbol = 3 / 20,
      al_max_sector = 2 / 5, al_max_open_risk = 1 / 100, al_max_candidate_risk = 1 / 400,
      al_max_groups = 4, al_max_sector_groups = 2, al_max_adv_participation = 1 / 400,
      al_max_turnover_participation = 1 / 400, al_max_input_age_seconds = 30,
      al_correlation_threshold = 7 / 10, al_correlation_penalty = 1,
      al_sector_duplication_penalty = 1 / 2\<rparr>"

definition example_alpha_snapshot :: alpha_health_snapshot where
  "example_alpha_snapshot =
     \<lparr>hs_alpha_id = BREAKOUT, hs_timestamp = example_time, hs_trades = 0, hs_net_expectancy = None,
      hs_net_pnl = 0, hs_drawdown = 0, hs_costs = 0, hs_slippage_cost = 0, hs_regimes = [],
      hs_multiplier = \<lparr>hm_value = 1, hm_minimum = 0, hm_maximum = 1\<rparr>,
      hs_last_increase_at = example_time, hs_last_trade_at = None,
      hs_settings = example_health_settings, hs_outcomes_hash = [], hs_prior_hash = None,
      hs_code_commit = ''c'', hs_config_hash = ''g'', hs_data_snapshot = ''d''\<rparr>"

definition example_estimate :: risk_estimate where
  "example_estimate = \<lparr>re_signal_id = ''i1'', re_timestamp = example_time, re_loss_per_gross = 1 / 50,
     re_volatility_penalty = 1, re_source_snapshot = []\<rparr>"

definition strong_candidate :: normalized_candidate where
  "strong_candidate = (example_candidate ''i1'' ''A'')\<lparr>nc_strength := 1\<rparr>"

definition example_inputs :: allocation_inputs where
  "example_inputs =
     \<lparr>ai_ensemble = \<lparr>ed_decision_id = [], ed_timestamp = example_time, ed_candidates = [strong_candidate],
        ed_rejected = [], ed_reasons = [], ed_input_hash = [], ed_rejection_reasons = []\<rparr>,
      ai_registry = example_registry, ai_health = [example_alpha_snapshot],
      ai_portfolio = \<lparr>ps_snapshot_id = [], ps_timestamp = example_time, ps_equity = 1000000,
        ps_complete = True, ps_blocks_new_entries = False, ps_positions = []\<rparr>,
      ai_liquidity = [\<lparr>lc_entity_id = ''godzilla:security:NSE:EQ:A'', lc_timestamp = example_time,
        lc_valid_until = example_time, lc_price = 100, lc_adv_shares = 1000000,
        lc_daily_turnover = 100000000, lc_max_notional = 500000, lc_source_snapshot = [],
        lc_eligible = True\<rparr>],
      ai_estimates = [example_estimate],
      ai_correlations = \<lparr>co_timestamp = example_time, co_training_end = example_time - 1,
        co_estimates = [], co_source_snapshot = []\<rparr>,
      ai_state = example_decision example_time, ai_settings = example_allocator, ai_at = example_time,
      ai_mode = PAPER\<rparr>"

definition example_allocation_hashes :: allocation_hashes where
  "example_allocation_hashes = \<lparr>hh_inputs = (\<lambda>_. ''i''), hh_audit = (\<lambda>h _. h), hh_registry = (\<lambda>_. ''r''),
     hh_uuid5 = (\<lambda>s. s)\<rparr>"

definition example_budget :: alpha_registration where
  "example_budget = \<lparr>ar_alpha_id = BREAKOUT, ar_base_budget = 1 / 5, ar_enabled = True,
     ar_score_floor = 0, ar_score_ceiling = 1\<rparr>"

lemma example_dec:
  "dec 1 = 1" "dec (1 / 5) = 1 / 5" "dec (3 / 5) = 3 / 5" "dec (1 / 100) = 1 / 100" "dec (1 / 2) = 1 / 2"
  "dec (1 / 8) = 1 / 8" "dec (2 / 5) = 2 / 5" "dec (1 / 400) = 1 / 400" "dec (3 / 20) = 3 / 20"
  "dec (1 / 4) = 1 / 4" "dec 250000 = 250000" "dec 100000000 = 100000000"
  "dec (7 / 10) = 7 / 10" "dec (3 / 10) = 3 / 10"
  using dec_of_int[of 1] dec_decimal[of 2 1] dec_decimal[of 6 1] dec_decimal[of 1 2] dec_decimal[of 5 1]
    dec_decimal[of 125 3] dec_decimal[of 4 1] dec_decimal[of 25 4] dec_decimal[of 15 2]
    dec_decimal[of 25 2] dec_of_int[of 250000] dec_of_int[of 100000000]
    dec_decimal[of 7 1] dec_decimal[of 3 1]
  by simp_all

lemma example_limits:
  "budget_limits example_inputs [strong_candidate] [] strong_candidate example_budget 1 example_estimate 1 =
     Inr [1 / 5, 1 / 5, 1, 1 / 2, 1 / 8, 2 / 5, 3 / 5, 2 / 5]"
  by (simp add: budget_limits_def ddiv_def Let_def example_inputs_def strong_candidate_def example_candidate_def
      example_budget_def example_estimate_def example_allocator_def totals_def sum_abs_def score_sum_def
      leg_sectors_def dsum_def example_dec dec_of_float_one dabs_def example_decision_def)

lemma example_amount: "amount_of [1 / 5, 1 / 5, 1, 1 / 2, 1 / 8, 2 / 5, 3 / 5, 2 / 5, 3 / 20] = Inr (1 / 8)"
  by (simp add: amount_of_def dquantize_def min_list1_def quantize_down_def)

lemma example_additions:
  "additions_for strong_candidate example_estimate (1 / 8) =
     [\<lparr>tp_entity_id = ''godzilla:security:NSE:EQ:A'', tp_instrument_id = ''A'', tp_sector = ''IT'',
       tp_alpha_id = BREAKOUT, tp_group_id = ''i1'', tp_signed_notional_fraction = 1 / 8,
       tp_open_risk_fraction = 1 / 400, tp_origin = PROPOSED\<rparr>]"
  by (simp add: additions_for_def strong_candidate_def example_candidate_def example_estimate_def
      example_dec dabs_def)

lemma example_caps:
  "within_caps (additions_for strong_candidate example_estimate (1 / 8)) example_allocator"
  unfolding example_additions within_caps_iff
  by (simp add: sum_abs_def groups_def count_distinct_def dsum_def dabs_def example_dec example_allocator_def)

lemma example_allocate_one:
  "allocate_one (\<lambda>_. ''r'') example_inputs [strong_candidate] [] strong_candidate =
     Inr (additions_for strong_candidate example_estimate (1 / 8),
          record_for strong_candidate (1 / 8) 1 1 ''PROPOSED_REQUIRES_INDEPENDENT_RISK'')"
proof -
  have 1: "candidate_inputs (\<lambda>_. ''r'') example_inputs strong_candidate =
      Inr (example_budget, example_alpha_snapshot, example_estimate)"
    by (simp add: candidate_inputs_def Let_def example_inputs_def strong_candidate_def example_candidate_def
        registration_def example_registry_def alpha_ids_def example_budget_def lookup_def dict_of_def
        example_alpha_snapshot_def example_estimate_def age_within_def example_decision_def
        example_health_settings_def example_allocator_def)
  have 2: "candidate_penalty example_inputs [] strong_candidate example_estimate = Inr 1"
    by (simp add: candidate_penalty_def Let_def leg_sectors_def groups_def count_distinct_def
        max_correlation_def strong_candidate_def example_candidate_def example_inputs_def
        example_allocator_def example_estimate_def example_dec ddiv_def)
  have 3: "rmap (leg_limit example_inputs) (nc_legs strong_candidate) = Inr [3 / 20]"
    by (simp add: leg_limit_def Let_def strong_candidate_def example_candidate_def example_inputs_def
        example_allocator_def lookup_def dict_of_def example_dec dabs_def ddiv_def)
  have 4: "hm_value (hs_multiplier example_alpha_snapshot) = 1" by (simp add: example_alpha_snapshot_def)
  have 5: "ai_settings example_inputs = example_allocator" by (simp add: example_inputs_def)
  show ?thesis
    by (simp add: allocate_one_def 1 2 3 4 5 Let_def example_dec dec_of_float_one example_limits example_amount example_caps)
qed

lemma example_allocate:
  "\<exists>d. allocate example_allocation_hashes (session_on nse_2026) example_inputs = Inr d
     \<and> pd_targets d = additions_for strong_candidate example_estimate (1 / 8)
     \<and> pd_reasons d = [''PROPOSALS_ONLY_NO_EXECUTION'']"
proof -
  let ?s = "\<lparr>se_date = 20641, se_timezone = kolkata, se_times = nse_times, se_special = False\<rparr>"
  have d: "local_day kolkata example_time = 20641"
    by (simp add: local_day_def kolkata_def fixed_zone_def example_time_def minutes_def day_us_def)
  have 1: "session_on nse_2026 (local_day kolkata example_time) = Inr (Some ?s)"
    unfolding d by (simp add: session_on_def nse_2026_def dict_of_def weekday_def)
  have 2: "session_opening ?s \<le> example_time" "example_time < final_entry ?s"
    by (simp_all add: session_opening_def final_entry_def combine_def kolkata_def fixed_zone_def
        nse_times_def minutes_def day_us_def example_time_def)
  have 3: "\<not> new_allocation_blocked example_inputs"
    by (simp add: new_allocation_blocked_def example_inputs_def Let_def age_within_def example_decision_def
        example_allocator_def)
  have 4: "within_caps [] example_allocator" by code_simp
  have 5: "\<not> inputs_ambiguous example_inputs"
    by (simp add: inputs_ambiguous_def example_inputs_def Let_def age_within_def example_allocator_def)
  have c: "ranked (ed_candidates (ai_ensemble example_inputs)) = [strong_candidate]"
    by (simp add: example_inputs_def ranked_def)
  have at: "ai_at example_inputs = example_time" "ps_positions (ai_portfolio example_inputs) = []"
    "ai_settings example_inputs = example_allocator" by (simp_all add: example_inputs_def)
  have l: "allocate_loop (hh_registry example_allocation_hashes) example_inputs [strong_candidate]
      [strong_candidate] [] = Inr (additions_for strong_candidate example_estimate (1 / 8),
        [record_for strong_candidate (1 / 8) 1 1 ''PROPOSED_REQUIRES_INDEPENDENT_RISK''])"
    by (simp add: example_allocation_hashes_def example_allocate_one mk_allocation_def record_for_def)
  show ?thesis
    using 1 2 3 4 5
    by (simp add: allocate_def Let_def at allocate_open_def c l finish_def del: allocate_loop.simps)
qed

theorem allocate_within_caps_witness:
  "\<exists>d. allocate example_allocation_hashes (session_on nse_2026) example_inputs = Inr d
     \<and> pd_targets d \<noteq> [] \<and> sum_abs (\<lambda>_. True) (pd_targets d) \<le> 1"
proof -
  obtain d where d: "allocate example_allocation_hashes (session_on nse_2026) example_inputs = Inr d"
    "pd_targets d = additions_for strong_candidate example_estimate (1 / 8)"
    using example_allocate by blast
  have "ps_positions (ai_portfolio example_inputs) = []" "al_max_gross (ai_settings example_inputs) = 1"
    by (simp_all add: example_inputs_def example_allocator_def)
  then show ?thesis
    using allocate_within_caps[OF d(1)] d by (auto simp: example_additions)
qed

theorem allocate_gate_witness:
  "ai_mode example_inputs \<noteq> LIVE \<and> sd_state (ai_state example_inputs) \<notin> {RISK_OFF, OPEN_SHOCK}"
proof -
  obtain d where d: "allocate example_allocation_hashes (session_on nse_2026) example_inputs = Inr d"
    "pd_targets d = additions_for strong_candidate example_estimate (1 / 8)"
    using example_allocate by blast
  have "pd_targets d \<noteq> ps_positions (ai_portfolio example_inputs)"
    unfolding d(2) by (simp add: example_inputs_def example_additions)
  from allocate_gate[OF d(1) this] show ?thesis by blast
qed

theorem allocate_preserves_existing_witness:
  "\<exists>d adds. allocate example_allocation_hashes (session_on nse_2026) example_inputs = Inr d
     \<and> pd_targets d = [] @ adds \<and> distinct (map tp_entity_id adds)"
proof -
  obtain d where d: "allocate example_allocation_hashes (session_on nse_2026) example_inputs = Inr d"
    using example_allocate by blast
  have "candidate_ok strong_candidate" by code_simp
  then have "\<forall>c \<in> set (ed_candidates (ai_ensemble example_inputs)). candidate_ok c"
    by (simp add: example_inputs_def)
  from allocate_preserves_existing[OF d this] d show ?thesis by (auto simp: example_inputs_def)
qed

theorem allocate_accounts_witness:
  "\<exists>d. allocate example_allocation_hashes (session_on nse_2026) example_inputs = Inr d
     \<and> map ac_signal_id (pd_allocations d) = [''i1'']"
proof -
  obtain d where d: "allocate example_allocation_hashes (session_on nse_2026) example_inputs = Inr d"
    "pd_reasons d = [''PROPOSALS_ONLY_NO_EXECUTION'']"
    using example_allocate by blast
  from allocate_accounts[OF d] d(1) show ?thesis
    by (auto simp: example_inputs_def ranked_def strong_candidate_def example_candidate_def)
qed

theorem allocate_total_witness:
  "\<exists>d. allocate example_allocation_hashes (session_on nse_2026) example_inputs = Inr d"
proof (rule allocate_total)
  have 1: "fl 1 = 1" using fl_of_int[of 1] by simp
  have 2: "registry_ok example_registry"
    by (simp add: registry_ok_def example_registry_def alpha_ids_def registration_ok_def dsum_def)
      code_simp
  have 3: "health_settings_ok example_health_settings" by code_simp
  have 4: "candidate_ok strong_candidate" by code_simp
  show "inputs_ok example_inputs"
    using 1 2 3 4
    by (simp add: inputs_ok_def example_inputs_def example_allocator_def allocator_settings_ok_def
        unit_fraction_def risk_estimate_ok_def portfolio_ok_def example_estimate_def example_alpha_snapshot_def)
  show "\<exists>m. e = CalendarCoverageError m" if "session_on nse_2026 day = Inl e" for day e
    using session_on_error[OF that] by blast
qed

end
