(* ===== verification/Freshness.thy ===== *)
theory Freshness
  imports Market_Data Metrics Health
begin

text \<open>
  \<open>market_data/freshness.py\<close>: the quote freshness tracker.  The tracker is a record; \<open>now\<close> is the
  reading \<open>utc(self.clock.now())\<close> of the call.  Freshness is recomputed on every read.
\<close>

record tracker =
  tr_stale_seconds :: rat
  tr_metrics :: metrics
  tr_quotes :: "string \<Rightarrow> quote option"
  tr_invalid :: "string set"

definition tracker_new :: "rat \<Rightarrow> metrics \<Rightarrow> tracker result" where
  "tracker_new stale m =
     (if stale \<le> 0 then Inl (ValueError ''stale_seconds must be positive'')
      else Inr \<lparr>tr_stale_seconds = stale, tr_metrics = m, tr_quotes = Map.empty, tr_invalid = {}\<rparr>)"

definition update_flags :: "tracker \<Rightarrow> instant \<Rightarrow> quote \<Rightarrow> quality_flag set" where
  "update_flags tr now q =
     q_quality_flags q
   \<union> (if min (min (q_bid q) (q_ask q)) (q_last q) \<le> 0 then {INVALID_PRICE} else {})
   \<union> (if q_ask q < q_bid q then {CROSSED_QUOTE} else {})
   \<union> (if q_received_at q < q_timestamp q \<or> now < q_received_at q then {FUTURE_TIMESTAMP} else {})
   \<union> (if tr_stale_seconds tr < total_seconds (now - q_timestamp q) then {STALE} else {})
   \<union> (case tr_quotes tr (q_instrument_id q) of
        None \<Rightarrow> {}
      | Some p \<Rightarrow> if q_timestamp q \<le> q_timestamp p then {DUPLICATE} else {})"

definition update :: "instant \<Rightarrow> quote \<Rightarrow> tracker \<Rightarrow> quote \<times> tracker" where
  "update now q tr =
     (let flags = update_flags tr now q;
          checked = q\<lparr>q_quality_flags := flags\<rparr>;
          m = observe ''quote_age_seconds'' (total_seconds (now - q_timestamp q)) (tr_metrics tr)
      in (checked,
          if flags \<noteq> {} then
            tr\<lparr>tr_metrics := increment ''quality_violations'' (int (card flags)) m,
               tr_invalid := insert (q_instrument_id q) (tr_invalid tr)\<rparr>
          else
            tr\<lparr>tr_metrics := m,
               tr_quotes := (tr_quotes tr)(q_instrument_id q \<mapsto> checked),
               tr_invalid := tr_invalid tr - {q_instrument_id q}\<rparr>))"

text \<open>\<open>health\<close> and the exception or value of \<open>require_fresh\<close>; both record an observation.\<close>

definition quote_age :: "tracker \<Rightarrow> instant \<Rightarrow> string \<Rightarrow> rat option" where
  "quote_age tr now i = map_option (\<lambda>q. total_seconds (now - q_timestamp q)) (tr_quotes tr i)"

definition is_fresh :: "tracker \<Rightarrow> instant \<Rightarrow> string \<Rightarrow> bool" where
  "is_fresh tr now i =
     (case quote_age tr now i of
        None \<Rightarrow> False
      | Some age \<Rightarrow> 0 \<le> age \<and> age \<le> tr_stale_seconds tr \<and> i \<notin> tr_invalid tr)"

definition quote_health :: "instant \<Rightarrow> string \<Rightarrow> tracker \<Rightarrow> component_health \<times> tracker" where
  "quote_health now i tr =
     (\<lparr>ch_component = ''quote:'' @ i,
       ch_status = (if is_fresh tr now i then HEALTHY else UNHEALTHY),
       ch_observed_at = Aware now 0,
       ch_message = (if is_fresh tr now i then ''fresh'' else ''missing, stale or invalid quote''),
       ch_blocking = True\<rparr>,
      case quote_age tr now i of
        None \<Rightarrow> tr
      | Some age \<Rightarrow> tr\<lparr>tr_metrics := observe ''quote_age_seconds'' age (tr_metrics tr)\<rparr>)"

definition require_fresh :: "instant \<Rightarrow> string \<Rightarrow> tracker \<Rightarrow> quote result \<times> tracker" where
  "require_fresh now i tr =
     (let (h, tr') = quote_health now i tr
      in (if ch_status h \<noteq> HEALTHY then
            Inl (ValueError ''execution quote unavailable or stale'')
          else case tr_quotes tr' i of None \<Rightarrow> Inl (KeyError i) | Some q \<Rightarrow> Inr q, tr'))"

subsection \<open>What the tracker keeps\<close>

text \<open>A quote whose prices and times are consistent.\<close>

definition clean_quote :: "quote \<Rightarrow> bool" where
  "clean_quote q \<longleftrightarrow> q_quality_flags q = {} \<and> 0 < q_bid q \<and> q_bid q \<le> q_ask q \<and> 0 < q_last q
     \<and> q_timestamp q \<le> q_received_at q"

definition tracker_inv :: "tracker \<Rightarrow> bool" where
  "tracker_inv tr \<longleftrightarrow> 0 < tr_stale_seconds tr
     \<and> (\<forall>i q. tr_quotes tr i = Some q \<longrightarrow> q_instrument_id q = i \<and> clean_quote q)"

lemma tracker_new_inv: "tracker_new stale m = Inr tr \<Longrightarrow> tracker_inv tr"
  by (auto simp: tracker_new_def tracker_inv_def split: if_splits)

lemma update_flags_empty_iff:
  "update_flags tr now q = {} \<longleftrightarrow>
     clean_quote q \<and> q_received_at q \<le> now
     \<and> total_seconds (now - q_timestamp q) \<le> tr_stale_seconds tr
     \<and> (\<forall>p. tr_quotes tr (q_instrument_id q) = Some p \<longrightarrow> q_timestamp p < q_timestamp q)"
  by (auto simp: update_flags_def clean_quote_def min_def not_less not_le split: if_splits option.splits)

lemma update_clean:
  assumes "update_flags tr now q = {}"
  shows "fst (update now q tr) = q"
    "tr_quotes (snd (update now q tr)) = (tr_quotes tr)(q_instrument_id q \<mapsto> q)"
    "tr_invalid (snd (update now q tr)) = tr_invalid tr - {q_instrument_id q}"
proof -
  have "q\<lparr>q_quality_flags := {}\<rparr> = q" using assms by (auto simp: update_flags_def)
  then show "fst (update now q tr) = q"
    "tr_quotes (snd (update now q tr)) = (tr_quotes tr)(q_instrument_id q \<mapsto> q)"
    "tr_invalid (snd (update now q tr)) = tr_invalid tr - {q_instrument_id q}"
    using assms by (simp_all add: update_def)
qed

lemma update_dirty:
  assumes "update_flags tr now q \<noteq> {}"
  shows "tr_quotes (snd (update now q tr)) = tr_quotes tr"
    "tr_invalid (snd (update now q tr)) = insert (q_instrument_id q) (tr_invalid tr)"
    "q_quality_flags (fst (update now q tr)) = update_flags tr now q"
  using assms by (simp_all add: update_def Let_def)

lemma update_stale [simp]: "tr_stale_seconds (snd (update now q tr)) = tr_stale_seconds tr"
  by (simp add: update_def Let_def)

lemma update_inv: "tracker_inv tr \<Longrightarrow> tracker_inv (snd (update now q tr))"
  by (cases "update_flags tr now q = {}")
    (auto simp: tracker_inv_def update_clean update_dirty update_flags_empty_iff split: if_splits)

lemma quote_health_frame [simp]:
  "tr_quotes (snd (quote_health now i tr)) = tr_quotes tr"
  "tr_invalid (snd (quote_health now i tr)) = tr_invalid tr"
  "tr_stale_seconds (snd (quote_health now i tr)) = tr_stale_seconds tr"
  by (simp_all add: quote_health_def split: option.splits)

lemma require_fresh_frame [simp]:
  "tr_quotes (snd (require_fresh now i tr)) = tr_quotes tr"
  "tr_invalid (snd (require_fresh now i tr)) = tr_invalid tr"
  "tr_stale_seconds (snd (require_fresh now i tr)) = tr_stale_seconds tr"
  by (simp_all add: require_fresh_def case_prod_beta)

lemma is_fresh_cong:
  "tr_quotes a = tr_quotes b \<Longrightarrow> tr_invalid a = tr_invalid b
     \<Longrightarrow> tr_stale_seconds a = tr_stale_seconds b \<Longrightarrow> is_fresh a now i = is_fresh b now i"
  by (simp add: is_fresh_def quote_age_def split: option.splits)

lemma is_fresh_iff:
  "is_fresh tr now i \<longleftrightarrow>
     (\<exists>q. tr_quotes tr i = Some q \<and> q_timestamp q \<le> now
        \<and> total_seconds (now - q_timestamp q) \<le> tr_stale_seconds tr \<and> i \<notin> tr_invalid tr)"
  by (auto simp: is_fresh_def quote_age_def split: option.splits)

lemma require_fresh_Inr_iff:
  "fst (require_fresh now i tr) = Inr q \<longleftrightarrow> is_fresh tr now i \<and> tr_quotes tr i = Some q"
  using quote_health_frame(1)[of now i tr]
  by (auto simp: require_fresh_def quote_health_def is_fresh_def quote_age_def Let_def
      split: option.splits)

subsection \<open>Histories of updates\<close>

fun updates :: "(instant \<times> quote) list \<Rightarrow> tracker \<Rightarrow> tracker" where
  "updates [] tr = tr"
| "updates ((now, q) # us) tr = updates us (snd (update now q tr))"

lemma updates_append [simp]: "updates (us @ vs) tr = updates vs (updates us tr)"
  by (induction us arbitrary: tr) auto

lemma updates_stale [simp]: "tr_stale_seconds (updates us tr) = tr_stale_seconds tr"
  by (induction us arbitrary: tr) auto

lemma updates_inv: "tracker_inv tr \<Longrightarrow> tracker_inv (updates us tr)"
  by (induction us arbitrary: tr) (auto simp: update_inv)

definition updates_of :: "string \<Rightarrow> (instant \<times> quote) list \<Rightarrow> (instant \<times> quote) list" where
  "updates_of i us = filter (\<lambda>(now, q). q_instrument_id q = i) us"

lemma updates_latest:
  assumes "tr_quotes tr i = None" "tr_quotes (updates us tr) i = Some q"
    "i \<notin> tr_invalid (updates us tr)"
  shows "\<exists>now pre. updates_of i us = pre @ [(now, q)] \<and> q_received_at q \<le> now"
  using assms(2,3)
proof (induction us rule: rev_induct)
  case Nil
  then show ?case using assms(1) by simp
next
  case (snoc u us)
  obtain now p where u: "u = (now, p)" by (cases u)
  let ?t = "updates us tr"
  show ?case
  proof (cases "q_instrument_id p = i")
    case True
    have clean: "update_flags ?t now p = {}"
    proof (rule ccontr)
      assume "update_flags ?t now p \<noteq> {}"
      then show False using snoc.prems(2) True by (simp add: u update_dirty)
    qed
    then have "q = p" using snoc.prems(1) True by (simp add: u update_clean)
    then show ?thesis using True clean
      by (auto simp: updates_of_def u update_flags_empty_iff)
  next
    case False
    then have "tr_quotes ?t i = Some q" "i \<notin> tr_invalid ?t"
      using snoc.prems by (cases "update_flags ?t now p = {}"; simp add: u update_clean update_dirty)+
    from snoc.IH[OF this] False show ?thesis by (auto simp: updates_of_def u)
  qed
qed

lemma updates_known:
  assumes "tr_quotes tr i = None" "tr_quotes (updates us tr) i = Some q"
  shows "\<exists>now. (now, q) \<in> set (updates_of i us)"
  using assms(2)
proof (induction us rule: rev_induct)
  case Nil
  then show ?case using assms(1) by simp
next
  case (snoc u us)
  obtain now p where u: "u = (now, p)" by (cases u)
  show ?case using snoc
    by (cases "update_flags (updates us tr) now p = {}")
      (auto simp: updates_of_def u update_clean update_dirty split: if_splits)
qed

subsection \<open>Properties\<close>

text \<open>
  C27. A quote handed out for execution is the most recent observation of its instrument: after any
  history of updates, \<open>require_fresh\<close> returns a quote only if it was the last update received for that
  instrument (so no later crossed, stale, duplicate or mistimed quote is being ignored), its prices are
  positive and not crossed, and at the moment of the read its exchange time is neither in the future
  nor older than the configured limit.
\<close>

theorem fresh_quote_is_latest:
  assumes "tracker_new stale m = Inr tr0"
    and "fst (require_fresh now i (updates us tr0)) = Inr q"
  shows "(\<exists>n pre. updates_of i us = pre @ [(n, q)] \<and> q_received_at q \<le> n)
    \<and> q_instrument_id q = i \<and> clean_quote q
    \<and> q_timestamp q \<le> now \<and> total_seconds (now - q_timestamp q) \<le> stale"
proof -
  have inv: "tracker_inv (updates us tr0)" using assms(1) by (intro updates_inv tracker_new_inv)
  have t0: "tr_quotes tr0 i = None" "tr_stale_seconds tr0 = stale"
    using assms(1) by (auto simp: tracker_new_def split: if_splits)
  have q: "tr_quotes (updates us tr0) i = Some q" "is_fresh (updates us tr0) now i"
    using assms(2) by (auto simp: require_fresh_Inr_iff)
  then have "i \<notin> tr_invalid (updates us tr0)" by (auto simp: is_fresh_iff)
  from updates_latest[OF t0(1) q(1) this]
  moreover have "q_instrument_id q = i \<and> clean_quote q" using inv q(1) by (simp add: tracker_inv_def)
  moreover have "q_timestamp q \<le> now \<and> total_seconds (now - q_timestamp q) \<le> stale"
    using q t0(2) by (auto simp: is_fresh_iff)
  ultimately show ?thesis by blast
qed

definition example_quote :: "string \<Rightarrow> instant \<Rightarrow> quote" where
  "example_quote i t =
     \<lparr>q_instrument_id = i, q_source = ''vendor'', q_received_at = t + 1000, q_quality_flags = {},
      q_feed_kind = EQUITY, q_schema_version = ''1'', q_timestamp = t, q_bid = 99, q_ask = 100,
      q_last = 99\<rparr>"

definition example_tracker :: tracker where
  "example_tracker =
     \<lparr>tr_stale_seconds = 2, tr_metrics = no_metrics, tr_quotes = Map.empty, tr_invalid = {}\<rparr>"

lemma example_tracker_new: "tracker_new 2 no_metrics = Inr example_tracker"
  by (simp add: tracker_new_def example_tracker_def)

lemma example_updated:
  "tr_quotes (updates [(1000, example_quote ''A'' 0)] example_tracker) ''A''
     = Some (example_quote ''A'' 0)"
  "''A'' \<notin> tr_invalid (updates [(1000, example_quote ''A'' 0)] example_tracker)"
proof -
  have "total_seconds 1000 \<le> 2" by code_simp
  then have "update_flags example_tracker 1000 (example_quote ''A'' 0) = {}"
    by (simp add: update_flags_empty_iff clean_quote_def example_quote_def example_tracker_def)
  moreover have "q_instrument_id (example_quote ''A'' 0) = ''A''" by (simp add: example_quote_def)
  ultimately show "tr_quotes (updates [(1000, example_quote ''A'' 0)] example_tracker) ''A''
     = Some (example_quote ''A'' 0)"
  "''A'' \<notin> tr_invalid (updates [(1000, example_quote ''A'' 0)] example_tracker)"
    by (simp_all add: update_clean)
qed

lemma example_fresh:
  "fst (require_fresh 1000000 ''A'' (updates [(1000, example_quote ''A'' 0)] example_tracker))
     = Inr (example_quote ''A'' 0)"
proof -
  have "total_seconds 1000000 \<le> 2" by code_simp
  then show ?thesis
    using example_updated unfolding require_fresh_Inr_iff is_fresh_iff updates_stale
    by (simp add: example_quote_def example_tracker_def)
qed

theorem fresh_quote_is_latest_witness:
  "\<exists>n pre. updates_of ''A'' [(1000, example_quote ''A'' 0)] = pre @ [(n, example_quote ''A'' 0)]
      \<and> q_received_at (example_quote ''A'' 0) \<le> n"
  using fresh_quote_is_latest[OF example_tracker_new example_fresh] by blast

text \<open>
  C28. Conversely a good feed is served: if the last update of an instrument is consistent, was not
  received in the future, is strictly newer than every earlier one, and is still within the age limit
  when it is read, then \<open>require_fresh\<close> returns exactly that quote, whatever bad quotes came before.
\<close>

theorem fresh_quote_served:
  assumes "tracker_new stale m = Inr tr0"
    and "updates_of i us = []" and "q_instrument_id q = i"
    and "clean_quote q" and "q_received_at q \<le> n" and "n \<le> now"
    and "\<forall>(k, p) \<in> set (updates_of i pre). q_timestamp p < q_timestamp q"
    and "total_seconds (now - q_timestamp q) \<le> stale"
  shows "fst (require_fresh now i (updates (pre @ (n, q) # us) tr0)) = Inr q"
proof -
  have t0: "tr_quotes tr0 i = None" "tr_stale_seconds tr0 = stale"
    using assms(1) by (auto simp: tracker_new_def split: if_splits)
  have "total_seconds (n - q_timestamp q) \<le> stale"
    using assms(6,8) total_seconds_mono[of "n - q_timestamp q" "now - q_timestamp q"] by linarith
  moreover have "q_timestamp p < q_timestamp q" if "tr_quotes (updates pre tr0) i = Some p" for p
    using updates_known[OF t0(1) that] assms(7) by auto
  ultimately have "update_flags (updates pre tr0) n q = {}"
    using assms(3,4,5) t0(2) by (simp add: update_flags_empty_iff)
  then have at: "tr_quotes (updates (pre @ [(n, q)]) tr0) i = Some q"
    "i \<notin> tr_invalid (updates (pre @ [(n, q)]) tr0)" using assms(3) by (simp_all add: update_clean)
  have keep: "tr_quotes (updates us t) i = tr_quotes t i \<and> (i \<in> tr_invalid (updates us t) \<longleftrightarrow> i \<in> tr_invalid t)"
    for t using assms(2)
  proof (induction us arbitrary: t)
    case (Cons u us)
    obtain k p where u: "u = (k, p)" by (cases u)
    have ne: "q_instrument_id p \<noteq> i" "updates_of i us = []"
      using Cons.prems by (auto simp: updates_of_def u split: if_splits)
    show ?case using Cons.IH[OF ne(2)] ne(1)
      by (cases "update_flags t k p = {}") (auto simp: u update_clean update_dirty)
  qed simp
  have eq: "updates (pre @ (n, q) # us) tr0 = updates us (updates (pre @ [(n, q)]) tr0)" by simp
  have "q_timestamp q \<le> now" using assms(4,5,6) by (simp add: clean_quote_def)
  then show ?thesis
    unfolding eq require_fresh_Inr_iff is_fresh_iff
    using keep[of "updates (pre @ [(n, q)]) tr0"] at assms(8) t0(2) by simp
qed

theorem fresh_quote_served_witness:
  "fst (require_fresh 1000000 ''A'' (updates ([] @ (1000, example_quote ''A'' 0) # []) example_tracker))
     = Inr (example_quote ''A'' 0)"
  by (rule fresh_quote_served[OF example_tracker_new, where n = 1000])
    (simp_all add: updates_of_def example_quote_def clean_quote_def, code_simp)

end
