(* ===== verification/Reconnect.thy ===== *)
theory Reconnect
  imports Freshness
begin

text \<open>
  \<open>market_data/reconnect.py\<close>: bounded retry scheduling and the recovery latch.  The \<open>Backoff\<close> protocol
  is the locale \<open>backoff\<close>, interpreted on \<open>ExponentialBackoff\<close>.  The controller and the freshness
  tracker it validates against are explicit states; each call gets the clock reading \<open>now\<close>.
\<close>

subsection \<open>\<open>ExponentialBackoff\<close>\<close>

record exponential_backoff =
  eb_initial_seconds :: rat
  eb_maximum_seconds :: rat
  eb_max_attempts :: int

definition backoff_new :: "exponential_backoff \<Rightarrow> exponential_backoff result" where
  "backoff_new b =
     (if \<not> (0 < eb_initial_seconds b \<and> eb_initial_seconds b \<le> eb_maximum_seconds b)
         \<or> eb_max_attempts b < 1
      then Inl (ValueError ''invalid backoff limits'') else Inr b)"

text \<open>
  \<open>timedelta(seconds=x)\<close> of a non-negative float: the whole seconds are exact, the fraction is
  multiplied in floating point and rounded half to even.
\<close>

definition timedelta_seconds :: "rat \<Rightarrow> int" where
  "timedelta_seconds x = \<lfloor>x\<rfloor> * 1000000 + round_half_even (fl ((x - of_int \<lfloor>x\<rfloor>) * 1000000))"

text \<open>
  Multiplying a float with the integer \<open>2 ** (attempt - 1)\<close> converts it first, which overflows from
  \<open>2 ** 1024\<close> on.
\<close>

definition delay :: "exponential_backoff \<Rightarrow> int \<Rightarrow> int option result" where
  "delay b attempt =
     (if attempt < 1 then Inl (ValueError ''attempt must be positive'')
      else if eb_max_attempts b < attempt then Inr None
      else if 1024 \<le> attempt - 1 then Inl OverflowError
      else Inr (Some (timedelta_seconds
             (min (eb_maximum_seconds b)
                  (fl (eb_initial_seconds b * 2 ^ nat (attempt - 1)))))))"

lemma timedelta_seconds_mono:
  assumes "x \<le> y"
  shows "timedelta_seconds x \<le> timedelta_seconds y"
proof (cases "\<lfloor>x\<rfloor> = \<lfloor>y\<rfloor>")
  case True
  have "fl ((x - of_int \<lfloor>x\<rfloor>) * 1000000) \<le> fl ((y - of_int \<lfloor>y\<rfloor>) * 1000000)"
    using assms True by (intro flr.mono) simp
  then show ?thesis using True by (simp add: timedelta_seconds_def round_half_even_mono)
next
  case False
  then have le: "\<lfloor>x\<rfloor> + 1 \<le> \<lfloor>y\<rfloor>" using assms floor_mono[of x y] by linarith
  have "fl ((x - of_int \<lfloor>x\<rfloor>) * 1000000) \<le> fl (of_int 1000000)"
    by (intro flr.mono) (simp, linarith)
  then have "fl ((x - of_int \<lfloor>x\<rfloor>) * 1000000) \<le> of_int 1000000" using fl_of_int[of 1000000] by simp
  then have up: "round_half_even (fl ((x - of_int \<lfloor>x\<rfloor>) * 1000000)) \<le> 1000000"
    using round_half_even_mono[of _ "of_int 1000000"] by (metis round_half_even_of_int)
  have "fl 0 \<le> fl ((y - of_int \<lfloor>y\<rfloor>) * 1000000)" by (intro flr.mono) simp
  then have "0 \<le> round_half_even (fl ((y - of_int \<lfloor>y\<rfloor>) * 1000000))"
    using round_half_even_mono[of "of_int 0" "fl ((y - of_int \<lfloor>y\<rfloor>) * 1000000)"]
    unfolding round_half_even_of_int by simp
  then show ?thesis using le up by (simp add: timedelta_seconds_def)
qed

lemma timedelta_seconds_nonneg: "0 \<le> x \<Longrightarrow> 0 \<le> timedelta_seconds x"
  using timedelta_seconds_mono[of 0 x] by (simp add: timedelta_seconds_def round_half_even_def)

lemma timedelta_seconds_of_int [simp]: "timedelta_seconds (of_int n) = microseconds n"
  using round_half_even_of_int[of 0] by (simp add: timedelta_seconds_def microseconds_def)

subsection \<open>The controller, for any backoff policy\<close>

datatype stream_state = DISCONNECTED | SNAPSHOT_REQUIRED | RECOVERY_VALIDATED | EXHAUSTED

fun stream_name :: "stream_state \<Rightarrow> string" where
  "stream_name DISCONNECTED = ''DISCONNECTED''"
| "stream_name SNAPSHOT_REQUIRED = ''SNAPSHOT_REQUIRED''"
| "stream_name RECOVERY_VALIDATED = ''RECOVERY_VALIDATED''"
| "stream_name EXHAUSTED = ''EXHAUSTED''"

record reconnect =
  rr_metrics :: metrics
  rr_state :: stream_state
  rr_attempts :: int
  rr_connected_at :: "instant option"

definition reconnect_new :: "metrics \<Rightarrow> reconnect" where
  "reconnect_new m =
     \<lparr>rr_metrics = m, rr_state = DISCONNECTED, rr_attempts = 0, rr_connected_at = None\<rparr>"

definition disconnected :: "string \<Rightarrow> reconnect \<Rightarrow> unit result \<times> reconnect" where
  "disconnected reason c =
     (if reason = [] then (Inl (ValueError ''disconnect requires a reason''), c)
      else (Inr (), c\<lparr>rr_state := DISCONNECTED, rr_connected_at := None\<rparr>))"

definition next_retry_at ::
  "(int \<Rightarrow> int option result) \<Rightarrow> instant \<Rightarrow> reconnect \<Rightarrow> instant option result \<times> reconnect" where
  "next_retry_at offer now c =
     (if rr_state c \<notin> {DISCONNECTED, EXHAUSTED} then
        (Inl (ValueError ''stream is already connected''), c)
      else
        let c1 = c\<lparr>rr_attempts := rr_attempts c + 1\<rparr>
        in case offer (rr_attempts c1) of
             Inl e \<Rightarrow> (Inl e, c1)
           | Inr None \<Rightarrow> (Inr None, c1\<lparr>rr_state := EXHAUSTED\<rparr>)
           | Inr (Some d) \<Rightarrow>
               (Inr (Some (now + d)),
                c1\<lparr>rr_metrics := increment ''reconnects'' 1 (rr_metrics c1)\<rparr>))"

definition connected :: "instant \<Rightarrow> reconnect \<Rightarrow> reconnect" where
  "connected now c = c\<lparr>rr_state := SNAPSHOT_REQUIRED, rr_connected_at := Some now\<rparr>"

text \<open>The loop of \<open>validate_recovery\<close> over the instruments; every read goes through the tracker.\<close>

fun require_snapshots ::
  "instant option \<Rightarrow> instant \<Rightarrow> string list \<Rightarrow> tracker \<Rightarrow> unit result \<times> tracker" where
  "require_snapshots since now [] tr = (Inr (), tr)"
| "require_snapshots since now (i # is) tr =
     (case require_fresh now i tr of
        (Inl e, tr') \<Rightarrow> (Inl e, tr')
      | (Inr q, tr') \<Rightarrow>
          if (case since of None \<Rightarrow> True | Some s \<Rightarrow> q_received_at q < s)
          then (Inl (ValueError ''fresh post-connect snapshot required''), tr')
          else require_snapshots since now is tr')"

definition validate_recovery ::
  "instant \<Rightarrow> string list \<Rightarrow> bool \<Rightarrow> reconnect \<times> tracker \<Rightarrow> unit result \<times> reconnect \<times> tracker" where
  "validate_recovery now instruments gaps_reconciled s =
     (case s of (c, tr) \<Rightarrow>
        if rr_state c \<noteq> SNAPSHOT_REQUIRED \<or> instruments = [] \<or> \<not> gaps_reconciled then
          (Inl (ValueError ''snapshot and gap reconciliation required''), c, tr)
        else case require_snapshots (rr_connected_at c) now instruments tr of
          (Inl e, tr') \<Rightarrow> (Inl e, c, tr')
        | (Inr _, tr') \<Rightarrow> (Inr (), c\<lparr>rr_state := RECOVERY_VALIDATED, rr_attempts := 0\<rparr>, tr'))"

definition stream_health :: "instant \<Rightarrow> reconnect \<Rightarrow> component_health" where
  "stream_health now c =
     \<lparr>ch_component = ''market-data-stream'',
      ch_status = (if rr_state c = RECOVERY_VALIDATED then HEALTHY else UNHEALTHY),
      ch_observed_at = Aware now 0,
      ch_message = stream_name (rr_state c),
      ch_blocking = True\<rparr>"

subsection \<open>The life of a stream\<close>

text \<open>
  The calls a controller and its tracker receive, in any order; an error is handled by the caller, and
  the state is whatever the failed call left.  \<open>stream_run\<close> also collects the retry times granted.
\<close>

datatype stream_op =
    Op_Disconnected string
  | Op_Next_Retry instant
  | Op_Connected instant
  | Op_Validate instant "string list" bool
  | Op_Quote instant quote

fun stream_step ::
  "(int \<Rightarrow> int option result) \<Rightarrow> stream_op \<Rightarrow> reconnect \<times> tracker
     \<Rightarrow> instant option \<times> reconnect \<times> tracker" where
  "stream_step offer (Op_Disconnected reason) (c, tr) = (None, snd (disconnected reason c), tr)"
| "stream_step offer (Op_Next_Retry now) (c, tr) =
     (case next_retry_at offer now c of
        (Inr (Some t), c') \<Rightarrow> (Some t, c', tr) | (_, c') \<Rightarrow> (None, c', tr))"
| "stream_step offer (Op_Connected now) (c, tr) = (None, connected now c, tr)"
| "stream_step offer (Op_Validate now is gaps) (c, tr) =
     (None, snd (validate_recovery now is gaps (c, tr)))"
| "stream_step offer (Op_Quote now q) (c, tr) = (None, c, snd (update now q tr))"

fun stream_run ::
  "(int \<Rightarrow> int option result) \<Rightarrow> stream_op list \<Rightarrow> reconnect \<times> tracker
     \<Rightarrow> instant list \<times> reconnect \<times> tracker" where
  "stream_run offer [] s = ([], s)"
| "stream_run offer (op # ops) s =
     (let (granted, s') = stream_step offer op s; (ts, s'') = stream_run offer ops s'
      in ((case granted of None \<Rightarrow> ts | Some t \<Rightarrow> t # ts), s''))"

fun is_validate :: "stream_op \<Rightarrow> bool" where
  "is_validate (Op_Validate now is gaps) = True"
| "is_validate op = False"

text \<open>The calls that drop or restart the connection.\<close>

fun drops :: "stream_op \<Rightarrow> bool" where
  "drops (Op_Disconnected reason) = (reason \<noteq> [])"
| "drops (Op_Connected now) = True"
| "drops op = False"

lemma stream_run_append:
  "stream_run offer (as @ bs) s =
     (let (ts, s') = stream_run offer as s; (us, s'') = stream_run offer bs s' in (ts @ us, s''))"
  by (induction as arbitrary: s) (auto simp: Let_def split: prod.splits option.splits)

lemma stream_run_Cons:
  assumes "stream_run offer (op # ops) (c, tr) = (ts, s')"
  obtains g c1 tr1 us where "stream_step offer op (c, tr) = (g, c1, tr1)"
    "stream_run offer ops (c1, tr1) = (us, s')"
    "ts = (case g of None \<Rightarrow> us | Some t \<Rightarrow> t # us)"
proof -
  obtain g c1 tr1 where s: "stream_step offer op (c, tr) = (g, c1, tr1)"
    by (cases "stream_step offer op (c, tr)") auto
  obtain us s2 where "stream_run offer ops (c1, tr1) = (us, s2)"
    by (cases "stream_run offer ops (c1, tr1)") auto
  with s assms that show thesis by simp
qed

subsection \<open>Retries are bounded\<close>

text \<open>
  What the controller needs of a policy: after its limit it offers no further attempt, and the delays
  it offers are never negative and never above its ceiling.
\<close>

locale backoff =
  fixes valid :: "'b \<Rightarrow> bool"
    and offer :: "'b \<Rightarrow> int \<Rightarrow> int option result"
    and limit :: "'b \<Rightarrow> int"
    and ceiling :: "'b \<Rightarrow> int"
  assumes limit_pos: "valid b \<Longrightarrow> 0 < limit b"
    and offer_none: "valid b \<Longrightarrow> limit b < n \<Longrightarrow> offer b n = Inr None"
    and offer_range: "valid b \<Longrightarrow> offer b n = Inr (Some d) \<Longrightarrow> 0 \<le> d \<and> d \<le> ceiling b"
begin

lemma offer_within: "valid b \<Longrightarrow> offer b n = Inr (Some d) \<Longrightarrow> n \<le> limit b"
  using offer_none[of b n] by (cases "limit b < n") auto

lemma step_attempts:
  assumes "stream_step (offer b) op (c, tr) = (g, c', tr')" "\<not> is_validate op"
  shows "rr_attempts c' = rr_attempts c + (case op of Op_Next_Retry now \<Rightarrow>
           if rr_state c \<in> {DISCONNECTED, EXHAUSTED} then 1 else 0 | _ \<Rightarrow> 0)"
    and "g = Some t \<Longrightarrow> \<exists>now d. op = Op_Next_Retry now \<and> rr_state c \<in> {DISCONNECTED, EXHAUSTED}
           \<and> offer b (rr_attempts c + 1) = Inr (Some d) \<and> t = now + d"
  using assms
  by (cases op; auto simp: disconnected_def connected_def next_retry_at_def Let_def
      split: if_splits sum.splits option.splits prod.splits)+

lemma run_granted:
  assumes b: "valid b" and run: "stream_run (offer b) ops (c, tr) = (ts, s')"
    and v: "list_all (\<lambda>op. \<not> is_validate op) ops"
  shows "int (length ts) \<le> max 0 (limit b - rr_attempts c)
     \<and> (\<forall>t\<in>set ts. \<exists>now. Op_Next_Retry now \<in> set ops \<and> now \<le> t \<and> t \<le> now + ceiling b)"
  using run v
proof (induction ops arbitrary: c tr ts)
  case (Cons op ops)
  obtain g c1 tr1 us where s: "stream_step (offer b) op (c, tr) = (g, c1, tr1)"
    and rest: "stream_run (offer b) ops (c1, tr1) = (us, s')"
    and ts: "ts = (case g of None \<Rightarrow> us | Some t \<Rightarrow> t # us)"
    using stream_run_Cons[OF Cons.prems(1)] by metis
  have v: "\<not> is_validate op" "list_all (\<lambda>op. \<not> is_validate op) ops" using Cons.prems(2) by auto
  note IH = Cons.IH[OF rest v(2)]
  note more = step_attempts(1)[OF s v(1)]
  show ?case
  proof (cases g)
    case None
    have "rr_attempts c \<le> rr_attempts c1" using more by (auto split: stream_op.splits)
    then show ?thesis using IH None ts by auto
  next
    case (Some t)
    obtain now d where op: "op = Op_Next_Retry now" "rr_state c \<in> {DISCONNECTED, EXHAUSTED}"
      "offer b (rr_attempts c + 1) = Inr (Some d)" "t = now + d"
      using step_attempts(2)[OF s v(1) Some] by blast
    have "rr_attempts c + 1 \<le> limit b" by (rule offer_within[OF b op(3)])
    then have "int (length ts) \<le> max 0 (limit b - rr_attempts c)"
      using IH ts Some more op by auto
    moreover have "now \<le> t \<and> t \<le> now + ceiling b" using offer_range[OF b op(3)] op(4) by simp
    ultimately show ?thesis using IH ts Some op(1) by auto
  qed
qed auto

end

definition backoff_ok :: "exponential_backoff \<Rightarrow> bool" where
  "backoff_ok b \<longleftrightarrow> 0 < eb_initial_seconds b \<and> eb_initial_seconds b \<le> eb_maximum_seconds b
     \<and> 1 \<le> eb_max_attempts b"

lemma backoff_new_Inr_iff: "backoff_new b = Inr b' \<longleftrightarrow> backoff_ok b \<and> b' = b"
  by (auto simp: backoff_new_def backoff_ok_def)

lemma delay_range:
  assumes "backoff_ok b" "delay b n = Inr (Some d)"
  shows "0 \<le> d \<and> d \<le> timedelta_seconds (eb_maximum_seconds b)"
proof -
  let ?x = "min (eb_maximum_seconds b) (fl (eb_initial_seconds b * 2 ^ nat (n - 1)))"
  have d: "d = timedelta_seconds ?x" using assms(2) by (auto simp: delay_def split: if_splits)
  have "0 \<le> ?x" using assms(1) by (auto simp: backoff_ok_def intro!: flr.nonneg)
  then show ?thesis unfolding d by (simp add: timedelta_seconds_nonneg timedelta_seconds_mono)
qed

interpretation exponential: backoff backoff_ok delay eb_max_attempts
    "\<lambda>b. timedelta_seconds (eb_maximum_seconds b)"
proof unfold_locales
  show "backoff_ok b \<Longrightarrow> 0 < eb_max_attempts b" for b by (simp add: backoff_ok_def)
  show "backoff_ok b \<Longrightarrow> eb_max_attempts b < n \<Longrightarrow> delay b n = Inr None" for b n
    by (simp add: backoff_ok_def delay_def)
qed (rule delay_range)

subsection \<open>The recovery latch\<close>

lemma require_snapshots_frame:
  "tr_quotes (snd (require_snapshots since now is tr)) = tr_quotes tr
   \<and> tr_invalid (snd (require_snapshots since now is tr)) = tr_invalid tr
   \<and> tr_stale_seconds (snd (require_snapshots since now is tr)) = tr_stale_seconds tr"
proof (induction "is" arbitrary: tr)
  case (Cons i "is")
  obtain r tr1 where f: "require_fresh now i tr = (r, tr1)" by (cases "require_fresh now i tr") auto
  have "tr_quotes tr1 = tr_quotes tr" "tr_invalid tr1 = tr_invalid tr"
    "tr_stale_seconds tr1 = tr_stale_seconds tr" using require_fresh_frame[of now i tr] f by auto
  then show ?case using Cons.IH[of tr1] f by (cases r) (auto split: option.splits)
qed simp

lemma require_snapshots_Inr:
  assumes "fst (require_snapshots since now is tr) = Inr ()" "i \<in> set is"
  shows "\<exists>s q. since = Some s \<and> is_fresh tr now i \<and> tr_quotes tr i = Some q \<and> s \<le> q_received_at q"
  using assms
proof (induction "is" arbitrary: tr)
  case (Cons j "is")
  obtain r tr1 where f: "require_fresh now j tr = (r, tr1)" by (cases "require_fresh now j tr") auto
  obtain q where r: "r = Inr q" using Cons.prems(1) f by (cases r) auto
  obtain s where since: "since = Some s" "s \<le> q_received_at q"
    and rest: "fst (require_snapshots since now is tr1) = Inr ()"
    using Cons.prems(1) f r by (auto split: option.splits if_splits)
  have eqs: "tr_quotes tr1 = tr_quotes tr" "tr_invalid tr1 = tr_invalid tr"
    "tr_stale_seconds tr1 = tr_stale_seconds tr" using require_fresh_frame[of now j tr] f by auto
  show ?case
  proof (cases "i = j")
    case True
    have "fst (require_fresh now j tr) = Inr q" using f r by simp
    then show ?thesis using since True by (auto simp: require_fresh_Inr_iff)
  next
    case False
    then have "i \<in> set is" using Cons.prems(2) by simp
    from Cons.IH[OF rest this] show ?thesis using eqs is_fresh_cong[OF eqs] by auto
  qed
qed simp

lemma validate_recovery_cases:
  assumes "validate_recovery now is gaps (c, tr) = (r, c', tr')"
  shows "tr_quotes tr' = tr_quotes tr" "tr_invalid tr' = tr_invalid tr"
    "tr_stale_seconds tr' = tr_stale_seconds tr"
    "(c' = c \<and> (\<exists>e. r = Inl e)) \<or>
     (c' = c\<lparr>rr_state := RECOVERY_VALIDATED, rr_attempts := 0\<rparr> \<and> r = Inr ()
      \<and> rr_state c = SNAPSHOT_REQUIRED \<and> is \<noteq> [] \<and> gaps
      \<and> fst (require_snapshots (rr_connected_at c) now is tr) = Inr ())"
  using assms require_snapshots_frame[of "rr_connected_at c" now "is" tr]
  by (auto simp: validate_recovery_def split: if_splits sum.splits prod.splits)

text \<open>
  What the state says of the calls made so far: a waiting stream was connected and not dropped since;
  a validated stream was then validated against its tracker, and not dropped since either.
\<close>

definition latch ::
  "(int \<Rightarrow> int option result) \<Rightarrow> reconnect \<times> tracker \<Rightarrow> stream_op list \<Rightarrow> reconnect \<Rightarrow> bool" where
  "latch offer s0 ops c \<longleftrightarrow>
     (rr_state c = SNAPSHOT_REQUIRED \<longrightarrow>
        (\<exists>pre t post. ops = pre @ Op_Connected t # post \<and> list_all (\<lambda>op. \<not> drops op) post
           \<and> rr_connected_at c = Some t))
   \<and> (rr_state c = RECOVERY_VALIDATED \<longrightarrow>
        (\<exists>pre t mid now is post ts c1 tr1.
           ops = pre @ Op_Connected t # mid @ Op_Validate now is True # post
           \<and> list_all (\<lambda>op. \<not> drops op) (mid @ post) \<and> is \<noteq> []
           \<and> stream_run offer (pre @ Op_Connected t # mid) s0 = (ts, c1, tr1)
           \<and> (\<forall>i\<in>set is. \<exists>q. is_fresh tr1 now i \<and> tr_quotes tr1 i = Some q \<and> t \<le> q_received_at q)))"

lemma latch_keep:
  assumes "latch offer s0 ops c" "\<not> drops op"
  shows "latch offer s0 (ops @ [op]) c"
proof -
  have "\<exists>pre t post. ops @ [op] = pre @ Op_Connected t # post \<and> list_all (\<lambda>op. \<not> drops op) post
         \<and> rr_connected_at c = Some t" if v: "rr_state c = SNAPSHOT_REQUIRED"
  proof -
    obtain pre t post where "ops = pre @ Op_Connected t # post" "list_all (\<lambda>op. \<not> drops op) post"
      "rr_connected_at c = Some t" using assms(1) v unfolding latch_def by blast
    then have "ops @ [op] = pre @ Op_Connected t # (post @ [op])
      \<and> list_all (\<lambda>op. \<not> drops op) (post @ [op]) \<and> rr_connected_at c = Some t" using assms(2) by simp
    then show ?thesis by blast
  qed
  moreover have "\<exists>pre t mid now is post ts c1 tr1.
         ops @ [op] = pre @ Op_Connected t # mid @ Op_Validate now is True # post
         \<and> list_all (\<lambda>op. \<not> drops op) (mid @ post) \<and> is \<noteq> []
         \<and> stream_run offer (pre @ Op_Connected t # mid) s0 = (ts, c1, tr1)
         \<and> (\<forall>i\<in>set is. \<exists>q. is_fresh tr1 now i \<and> tr_quotes tr1 i = Some q \<and> t \<le> q_received_at q)"
    if v: "rr_state c = RECOVERY_VALIDATED"
  proof -
    obtain pre t mid now "is" post ts c1 tr1 where
      "ops = pre @ Op_Connected t # mid @ Op_Validate now is True # post"
      "list_all (\<lambda>op. \<not> drops op) (mid @ post)"
      and rest: "is \<noteq> []" "stream_run offer (pre @ Op_Connected t # mid) s0 = (ts, c1, tr1)"
      "\<forall>i\<in>set is. \<exists>q. is_fresh tr1 now i \<and> tr_quotes tr1 i = Some q \<and> t \<le> q_received_at q"
      using assms(1) v unfolding latch_def by blast
    then have "ops @ [op] = pre @ Op_Connected t # mid @ Op_Validate now is True # (post @ [op])"
      "list_all (\<lambda>op. \<not> drops op) (mid @ (post @ [op]))" using assms(2) by auto
    with rest show ?thesis by blast
  qed
  ultimately show ?thesis unfolding latch_def by blast
qed

lemma latch_validate:
  assumes "stream_run offer ops s0 = (ts, c, tr)" "latch offer s0 ops c"
    and "validate_recovery now is gaps (c, tr) = (r, c', tr')" "c' \<noteq> c"
  shows "latch offer s0 (ops @ [Op_Validate now is gaps]) c'"
proof -
  from validate_recovery_cases(4)[OF assms(3)] assms(4)
  have c': "c' = c\<lparr>rr_state := RECOVERY_VALIDATED, rr_attempts := 0\<rparr>" "rr_state c = SNAPSHOT_REQUIRED"
    "is \<noteq> []" "gaps" and snap: "fst (require_snapshots (rr_connected_at c) now is tr) = Inr ()" by auto
  obtain pre t post where ops: "ops = pre @ Op_Connected t # post" "list_all (\<lambda>op. \<not> drops op) post"
    "rr_connected_at c = Some t" using assms(2) c'(2) unfolding latch_def by blast
  have "\<forall>i\<in>set is. \<exists>q. is_fresh tr now i \<and> tr_quotes tr i = Some q \<and> t \<le> q_received_at q"
    using require_snapshots_Inr[OF snap] ops(3) by auto
  then have "ops @ [Op_Validate now is gaps] = pre @ Op_Connected t # post @ Op_Validate now is True # []
         \<and> list_all (\<lambda>op. \<not> drops op) (post @ []) \<and> is \<noteq> []
         \<and> stream_run offer (pre @ Op_Connected t # post) s0 = (ts, c, tr)
         \<and> (\<forall>i\<in>set is. \<exists>q. is_fresh tr now i \<and> tr_quotes tr i = Some q \<and> t \<le> q_received_at q)"
    using ops assms(1) c' by simp
  moreover have "rr_state c' = RECOVERY_VALIDATED" using c'(1) by simp
  ultimately show ?thesis unfolding latch_def by (metis stream_state.distinct(7))
qed

lemma latch_step:
  assumes "stream_run offer ops s0 = (ts, c, tr)" "latch offer s0 ops c"
    and "stream_step offer op (c, tr) = (g, c', tr')"
  shows "latch offer s0 (ops @ [op]) c'"
proof (cases "drops op")
  case True
  have "rr_state c' = DISCONNECTED \<or> (\<exists>t. op = Op_Connected t \<and> rr_state c' = SNAPSHOT_REQUIRED
          \<and> rr_connected_at c' = Some t)"
    using True assms(3) by (cases op) (auto simp: disconnected_def connected_def)
  moreover have "ops @ [op] = ops @ op # [] \<and> list_all (\<lambda>op. \<not> drops op) []" by simp
  ultimately show ?thesis unfolding latch_def by (metis stream_state.distinct(1,3,7))
next
  case False
  show ?thesis
  proof (cases "\<exists>now is gaps. op = Op_Validate now is gaps \<and> c' \<noteq> c")
    case True
    then obtain now "is" gaps where op: "op = Op_Validate now is gaps" "c' \<noteq> c" by blast
    obtain r where "validate_recovery now is gaps (c, tr) = (r, c', tr')"
      using assms(3) op(1) by (cases "validate_recovery now is gaps (c, tr)") auto
    from latch_validate[OF assms(1,2) this op(2)] show ?thesis unfolding op(1) .
  next
    case no: False
    have "c' = c \<or> (rr_state c' \<noteq> RECOVERY_VALIDATED \<and> rr_state c' \<noteq> SNAPSHOT_REQUIRED)"
      using no False assms(3)
      by (cases op) (auto simp: disconnected_def next_retry_at_def Let_def
          split: if_splits sum.splits option.splits prod.splits)
    then show ?thesis
    proof
      assume "c' = c"
      then show ?thesis using latch_keep[OF assms(2) False] by simp
    qed (simp add: latch_def)
  qed
qed

lemma latch_run:
  assumes "stream_run offer ops (reconnect_new m, tr0) = (ts, c, tr)"
  shows "latch offer (reconnect_new m, tr0) ops c"
  using assms
proof (induction ops arbitrary: ts c tr rule: rev_induct)
  case Nil
  then show ?case by (auto simp: latch_def reconnect_new_def)
next
  case (snoc op ops)
  obtain ts1 c1 tr1 where r: "stream_run offer ops (reconnect_new m, tr0) = (ts1, c1, tr1)"
    by (cases "stream_run offer ops (reconnect_new m, tr0)") auto
  obtain g where "stream_step offer op (c1, tr1) = (g, c, tr)"
    using snoc.prems r by (auto simp: stream_run_append split: prod.splits)
  then show ?case by (rule latch_step[OF r snoc.IH[OF r]])
qed

subsection \<open>Properties\<close>

text \<open>
  C26. The recovery latch: from the start of a stream, through any sequence of disconnects, retries,
  connects, quotes and validation attempts, the controller reports RECOVERY_VALIDATED only if the
  stream was connected at some time, a later validation with reconciled gaps found for each of its
  instruments (at least one) a fresh quote received after that connect, and neither a disconnect nor a
  new connect came since.
\<close>

theorem recovery_latch:
  assumes "stream_run offer ops (reconnect_new m, tr0) = (ts, c, tr)"
    and "rr_state c = RECOVERY_VALIDATED"
  shows "\<exists>pre t mid now is post us c1 tr1.
     ops = pre @ Op_Connected t # mid @ Op_Validate now is True # post
     \<and> list_all (\<lambda>op. \<not> drops op) (mid @ post) \<and> is \<noteq> []
     \<and> stream_run offer (pre @ Op_Connected t # mid) (reconnect_new m, tr0) = (us, c1, tr1)
     \<and> (\<forall>i\<in>set is. \<exists>q. is_fresh tr1 now i \<and> tr_quotes tr1 i = Some q \<and> t \<le> q_received_at q)"
  using latch_run[OF assms(1)] assms(2) unfolding latch_def by blast

definition example_ops :: "stream_op list" where
  "example_ops = [Op_Connected 500, Op_Quote 1000 (example_quote ''A'' 0), Op_Validate 1000000 [''A''] True]"

lemma example_recovery:
  "rr_state (fst (snd (stream_run (\<lambda>n. Inr None) example_ops (reconnect_new no_metrics, example_tracker))))
     = RECOVERY_VALIDATED"
proof -
  let ?tr = "updates [(1000, example_quote ''A'' 0)] example_tracker"
  have "q_received_at (example_quote ''A'' 0) = 1000" by (simp add: example_quote_def)
  then have "fst (require_snapshots (Some 500) 1000000 [''A''] ?tr) = Inr ()"
    using example_fresh by (cases "require_fresh 1000000 ''A'' ?tr") auto
  then show ?thesis
    by (auto simp: example_ops_def connected_def validate_recovery_def split: prod.splits sum.splits)
qed

theorem recovery_latch_witness:
  "\<exists>pre t mid now is post us c1 tr1.
     example_ops = pre @ Op_Connected t # mid @ Op_Validate now is True # post
     \<and> list_all (\<lambda>op. \<not> drops op) (mid @ post) \<and> is \<noteq> []
     \<and> stream_run (\<lambda>n. Inr None) (pre @ Op_Connected t # mid) (reconnect_new no_metrics, example_tracker)
         = (us, c1, tr1)
     \<and> (\<forall>i\<in>set is. \<exists>q. is_fresh tr1 now i \<and> tr_quotes tr1 i = Some q \<and> t \<le> q_received_at q)"
proof -
  obtain ts c tr where "stream_run (\<lambda>n. Inr None) example_ops (reconnect_new no_metrics, example_tracker)
      = (ts, c, tr)"
    by (cases "stream_run (\<lambda>n. Inr None) example_ops (reconnect_new no_metrics, example_tracker)") auto
  moreover from this have "rr_state c = RECOVERY_VALIDATED" using example_recovery by simp
  ultimately show ?thesis by (rule recovery_latch)
qed

text \<open>
  Retries are bounded however the stream flaps: with a valid exponential backoff, and until a
  recovery is validated, disconnects, connects, quotes and retry requests in any order are granted at
  most \<open>max_attempts\<close> retries altogether, each one scheduled no earlier than its request and no later
  than the maximum delay after it.
\<close>

theorem retries_bounded:
  assumes "backoff_new b = Inr b'"
    and "stream_run (delay b') ops (reconnect_new m, tr0) = (ts, c, tr)"
    and "list_all (\<lambda>op. \<not> is_validate op) ops"
  shows "int (length ts) \<le> eb_max_attempts b
    \<and> (\<forall>t\<in>set ts. \<exists>now. Op_Next_Retry now \<in> set ops \<and> now \<le> t
           \<and> t \<le> now + timedelta_seconds (eb_maximum_seconds b))"
proof -
  have b: "backoff_ok b'" "b' = b" using assms(1) by (auto simp: backoff_new_Inr_iff)
  note g = exponential.run_granted[OF b(1) assms(2,3)]
  have "int (length ts) \<le> eb_max_attempts b"
    using g exponential.limit_pos[OF b(1)] b(2) by (simp add: reconnect_new_def)
  then show ?thesis using g b(2) by simp
qed

theorem retries_bounded_witness:
  "int (length (fst (stream_run
       (delay \<lparr>eb_initial_seconds = 1, eb_maximum_seconds = 30, eb_max_attempts = 1\<rparr>)
       [Op_Next_Retry 0, Op_Disconnected ''x'', Op_Next_Retry 5] (reconnect_new no_metrics, example_tracker)))) \<le> 1"
proof -
  let ?b = "\<lparr>eb_initial_seconds = 1, eb_maximum_seconds = 30, eb_max_attempts = 1\<rparr>"
  let ?ops = "[Op_Next_Retry 0, Op_Disconnected ''x'', Op_Next_Retry 5]"
  obtain ts c tr where r: "stream_run (delay ?b) ?ops (reconnect_new no_metrics, example_tracker) = (ts, c, tr)"
    by (cases "stream_run (delay ?b) ?ops (reconnect_new no_metrics, example_tracker)") blast
  have "backoff_new ?b = Inr ?b" by (simp add: backoff_new_def)
  from retries_bounded[OF this r] show ?thesis using r by simp
qed

text \<open>
  The delays an exponential backoff offers grow with the attempts, from the initial delay, and
  never pass the configured maximum.
\<close>

theorem delays_grow:
  assumes "backoff_new b = Inr b'" and "1 \<le> j" and "j \<le> k"
    and "eb_initial_seconds b = fl (eb_initial_seconds b)"
    and "delay b' j = Inr (Some d)" and "delay b' k = Inr (Some e)"
  shows "timedelta_seconds (eb_initial_seconds b) \<le> d \<and> d \<le> e
     \<and> e \<le> timedelta_seconds (eb_maximum_seconds b)"
proof -
  have b: "backoff_ok b'" "b' = b" using assms(1) by (auto simp: backoff_new_Inr_iff)
  let ?x = "\<lambda>n. min (eb_maximum_seconds b) (fl (eb_initial_seconds b * 2 ^ nat (n - 1)))"
  have d: "d = timedelta_seconds (?x j)" "e = timedelta_seconds (?x k)"
    using assms(5,6) b(2) by (auto simp: delay_def split: if_splits)
  have pos: "0 < eb_initial_seconds b" "eb_initial_seconds b \<le> eb_maximum_seconds b"
    using b by (auto simp: backoff_ok_def)
  have "(2::rat) ^ nat (j - 1) \<le> 2 ^ nat (k - 1)" using assms(2,3) by (intro power_increasing) auto
  then have "fl (eb_initial_seconds b * 2 ^ nat (j - 1)) \<le> fl (eb_initial_seconds b * 2 ^ nat (k - 1))"
    using pos(1) by (intro flr.mono mult_left_mono) auto
  then have "?x j \<le> ?x k" by linarith
  then have "d \<le> e" unfolding d by (rule timedelta_seconds_mono)
  moreover have "e \<le> timedelta_seconds (eb_maximum_seconds b)"
    using exponential.offer_range[OF b(1) assms(6)] b(2) by simp
  moreover have "eb_initial_seconds b * 1 \<le> eb_initial_seconds b * 2 ^ nat (j - 1)"
    using pos(1) by (intro mult_left_mono) auto
  then have "fl (eb_initial_seconds b) \<le> fl (eb_initial_seconds b * 2 ^ nat (j - 1))"
    by (intro flr.mono) simp
  then have "eb_initial_seconds b \<le> ?x j" using assms(4) pos(2) by simp
  then have "timedelta_seconds (eb_initial_seconds b) \<le> d" unfolding d by (rule timedelta_seconds_mono)
  ultimately show ?thesis by simp
qed

theorem delays_grow_witness:
  "timedelta_seconds 1 \<le> timedelta_seconds (min 30 (fl 1))
   \<and> timedelta_seconds (min 30 (fl 1)) \<le> timedelta_seconds (min 30 (fl 2))
   \<and> timedelta_seconds (min 30 (fl 2)) \<le> timedelta_seconds 30"
  using delays_grow[where j = 1 and k = 2
        and b = "\<lparr>eb_initial_seconds = 1, eb_maximum_seconds = 30, eb_max_attempts = 5\<rparr>"
        and b' = "\<lparr>eb_initial_seconds = 1, eb_maximum_seconds = 30, eb_max_attempts = 5\<rparr>"]
  by (simp add: backoff_new_def delay_def)

end
