(* ===== verification/Aggregation.thy ===== *)
theory Aggregation
  imports Quality "HOL-Library.Multiset"
begin

text \<open>
  \<open>market_data/aggregation.py\<close>: the reduction of one-minute bars to session-aligned five-minute bars at
  an explicit availability cutoff.  \<open>dump\<close> is \<open>bar.model_dump_json()\<close>, the serialisation of pydantic,
  which the code uses only as the last sort key.
\<close>

subsection \<open>Checking and grouping the available bars\<close>

text \<open>\<open>x // y\<close> of a non-negative float by a positive one, as CPython computes it.\<close>

definition float_floordiv :: "rat \<Rightarrow> rat \<Rightarrow> int" where
  "float_floordiv x y =
     (let d = fl (fl (x - fmod x y) / y); f = \<lfloor>d\<rfloor> in if 1 / 2 < fl (d - of_int f) then f + 1 else f)"

type_synonym group_key = "string \<times> string \<times> instant"

definition previous_bar :: "bar list \<Rightarrow> bar \<Rightarrow> bar option" where
  "previous_bar available b =
     max_by b_end (filter (\<lambda>i. b_instrument_id i = b_instrument_id b \<and> b_source i = b_source b
                              \<and> b_end i \<le> b_start b) available)"

definition bucket :: "instant \<Rightarrow> bar \<Rightarrow> instant" where
  "bucket opening b =
     opening + minutes (5 * float_floordiv (total_seconds (b_start b - opening)) 300)"

text \<open>
  The loop over the sorted bars.  Its state is the list \<open>available\<close> of checked bars and the pairs of a
  group key and a bar in the order they are appended to \<open>groups\<close>.
\<close>

fun scan ::
  "checker \<Rightarrow> instant \<Rightarrow> bar list \<Rightarrow> bar list \<times> (group_key \<times> bar) list
     \<Rightarrow> (bar list \<times> (group_key \<times> bar) list) result" where
  "scan c cutoff [] s = Inr s"
| "scan c cutoff (b # bs) (available, groups) =
     (if b_interval_minutes b \<noteq> 1 then Inl (ValueError ''aggregation requires 1m inputs'')
      else if cutoff < available_at b then scan c cutoff bs (available, groups)
      else
        rbind (check c b (previous_bar available b)) (\<lambda>checked.
        rbind (ck_bounds c (b_start b)) (\<lambda>bounds.
          case bounds of
            None \<Rightarrow> scan c cutoff bs (available @ [checked], groups)
          | Some (lo, hi) \<Rightarrow>
              if b_quality_flags checked \<inter> {OUT_OF_SESSION, MISALIGNED} \<noteq> {}
              then scan c cutoff bs (available @ [checked], groups)
              else scan c cutoff bs (available @ [checked],
                     groups @ [((b_instrument_id b, b_source b, bucket lo b), checked)]))))"

definition arrival_order :: "bar list \<Rightarrow> bar list" where
  "arrival_order bars = sort_key (\<lambda>b. (b_received_at b, b_start b)) bars"

subsection \<open>Reducing one group\<close>

text \<open>A dictionary filled in reverse keeps, for each start, the first bar in order.\<close>

fun first_by_start :: "bar list \<Rightarrow> bar list" where
  "first_by_start [] = []"
| "first_by_start (b # bs) = b # filter (\<lambda>x. b_start x \<noteq> b_start b) (first_by_start bs)"

definition reduce_group ::
  "(bar \<Rightarrow> string) \<Rightarrow> instant \<Rightarrow> group_key \<Rightarrow> bar list \<Rightarrow> bar result" where
  "reduce_group dump cutoff key members =
     (case key of (instrument, source, start) \<Rightarrow>
        let ordered = sort_key (\<lambda>b. (b_start b, b_received_at b, dump b)) members;
            unique = first_by_start ordered;
            values = sort_key b_start unique;
            flags = \<Union> (set (map b_quality_flags ordered))
                  \<union> (if length unique \<noteq> length ordered then {DUPLICATE} else {});
            expected = set (map (\<lambda>m. start + minutes m) [0, 1, 2, 3, 4]);
            stop = start + minutes 5;
            complete = (b_start ` set unique = expected \<and> stop \<le> cutoff \<and> list_all b_complete values)
        in mk_bar
          \<lparr>b_instrument_id = instrument, b_source = source,
           b_received_at = Max (set (map b_received_at values)),
           b_quality_flags = flags \<union> (if \<not> complete then {INCOMPLETE, MISSING_INTERVAL} else {}),
           b_feed_kind = b_feed_kind (hd values), b_schema_version = ''1'',
           b_start = start, b_end = stop, b_interval_minutes = 5,
           b_open = b_open (hd values), b_high = Max (set (map b_high values)),
           b_low = Min (set (map b_low values)), b_close = b_close (last values),
           b_volume = dsum (map b_volume values), b_complete = complete\<rparr>)"

definition group_keys :: "(group_key \<times> bar) list \<Rightarrow> group_key list" where
  "group_keys groups = sort (remdups (map fst groups))"

definition group_of :: "(group_key \<times> bar) list \<Rightarrow> group_key \<Rightarrow> bar list" where
  "group_of groups k = map snd (filter (\<lambda>g. fst g = k) groups)"

definition aggregate_bars ::
  "(bar \<Rightarrow> string) \<Rightarrow> checker \<Rightarrow> bar list \<Rightarrow> instant \<Rightarrow> bar list result" where
  "aggregate_bars dump c bars cutoff =
     rbind (scan c cutoff (arrival_order bars) ([], [])) (\<lambda>(available, groups).
       rmap (\<lambda>k. reduce_group dump cutoff k (group_of groups k)) (group_keys groups))"

subsection \<open>What the scan keeps\<close>

definition usable :: "instant \<Rightarrow> bar list \<Rightarrow> bar list" where
  "usable cutoff bars = filter (\<lambda>b. available_at b \<le> cutoff) bars"

lemma scan_usable:
  assumes "list_all (\<lambda>b. b_interval_minutes b = 1) bs"
  shows "scan c cutoff bs s = scan c cutoff (usable cutoff bs) s"
  using assms
proof (induction bs arbitrary: s)
  case (Cons b bs)
  obtain av gs where s: "s = (av, gs)" by (cases s)
  show ?case using Cons by (auto simp: s usable_def not_less intro!: arg_cong2[where f = rbind] ext
      split: option.splits)
qed (simp add: usable_def)

text \<open>Each grouped bar is a checked available input, aligned in the session its bucket starts in.\<close>

definition grouped :: "checker \<Rightarrow> instant \<Rightarrow> bar set \<Rightarrow> group_key \<times> bar \<Rightarrow> bool" where
  "grouped c cutoff B g \<longleftrightarrow>
     (\<exists>b prev lo hi. b \<in> B \<and> b_interval_minutes b = 1 \<and> available_at b \<le> cutoff
        \<and> check c b prev = Inr (snd g) \<and> ck_bounds c (b_start b) = Inr (Some (lo, hi))
        \<and> b_quality_flags (snd g) \<inter> {OUT_OF_SESSION, MISALIGNED} = {}
        \<and> fst g = (b_instrument_id b, b_source b, bucket lo b))"

lemma scan_grouped:
  assumes "scan c cutoff bs (av, gs) = Inr (av', gs')"
    and "\<forall>g\<in>set gs. grouped c cutoff B g" and "set bs \<subseteq> B"
  shows "\<forall>g\<in>set gs'. grouped c cutoff B g"
  using assms
proof (induction bs arbitrary: av gs)
  case (Cons b bs)
  show ?case
  proof (cases "cutoff < available_at b")
    case True
    then show ?thesis using Cons by (auto split: if_splits)
  next
    case False
    obtain checked bounds where ch: "check c b (previous_bar av b) = Inr checked"
      and bo: "ck_bounds c (b_start b) = Inr bounds" and one: "b_interval_minutes b = 1"
      using Cons.prems(1) False by (auto simp: result_simps split: if_splits)
    show ?thesis
    proof (cases "(\<exists>lo hi. bounds = Some (lo, hi)) \<and> b_quality_flags checked \<inter> {OUT_OF_SESSION, MISALIGNED} = {}")
      case True
      then obtain lo hi where lo: "bounds = Some (lo, hi)" by blast
      let ?g = "((b_instrument_id b, b_source b, bucket lo b), checked)"
      have "grouped c cutoff B ?g" unfolding grouped_def
        using ch bo lo one False True Cons.prems(3) by (intro exI[of _ b] exI) auto
      then show ?thesis
        using Cons.IH[of "av @ [checked]" "gs @ [?g]"] Cons.prems True lo ch bo one False by auto
    next
      case no: False
      then have "scan c cutoff bs (av @ [checked], gs) = Inr (av', gs')"
        using Cons.prems(1) ch bo one False by (auto split: option.splits)
      from Cons.IH[OF this Cons.prems(2)] Cons.prems(3) show ?thesis by simp
    qed
  qed
qed auto

subsection \<open>One group\<close>

lemma first_by_start_subset: "set (first_by_start bs) \<subseteq> set bs"
  by (induction bs) auto

lemma first_by_start_starts: "b_start ` set (first_by_start bs) = b_start ` set bs"
proof (induction bs)
  case (Cons b bs)
  have "insert (b_start b) (b_start ` {x \<in> set (first_by_start bs). b_start x \<noteq> b_start b})
      = insert (b_start b) (b_start ` set (first_by_start bs))" by auto
  then show ?case using Cons.IH by simp
qed simp

lemma first_by_start_distinct: "distinct (map b_start (first_by_start bs))"
  by (induction bs) (auto simp: distinct_map inj_on_def)

lemma first_by_start_empty [simp]: "first_by_start bs = [] \<longleftrightarrow> bs = []"
  by (cases bs) auto

definition expected_starts :: "instant \<Rightarrow> instant list" where
  "expected_starts start = map (\<lambda>m. start + minutes m) [0, 1, 2, 3, 4]"

lemma expected_starts_sorted: "sorted (expected_starts s)" "distinct (expected_starts s)"
  by (simp_all add: expected_starts_def minutes_def)

text \<open>What a reduced bar is made of: the constituents \<open>vs\<close>, one per start, in order.\<close>

definition constituents :: "(bar \<Rightarrow> string) \<Rightarrow> bar list \<Rightarrow> bar list" where
  "constituents dump members =
     sort_key b_start (first_by_start (sort_key (\<lambda>b. (b_start b, b_received_at b, dump b)) members))"

lemma constituents_subset: "set (constituents dump g) \<subseteq> set g"
  using first_by_start_subset[of "sort_key (\<lambda>b. (b_start b, b_received_at b, dump b)) g"]
  by (simp add: constituents_def)

lemma constituents_empty [simp]: "constituents dump g = [] \<longleftrightarrow> g = []"
proof -
  have "constituents dump g = [] \<longleftrightarrow> set (constituents dump g) = {}" by simp
  also have "\<dots> \<longleftrightarrow> g = []" by (simp only: constituents_def set_sort set_empty first_by_start_empty)
      (metis length_sort length_0_conv)
  finally show ?thesis .
qed

lemma constituents_starts:
  "sorted (map b_start (constituents dump g))" "distinct (map b_start (constituents dump g))"
proof -
  show "sorted (map b_start (constituents dump g))" by (simp add: constituents_def)
  have "mset (map b_start (constituents dump g))
      = mset (map b_start (first_by_start (sort_key (\<lambda>b. (b_start b, b_received_at b, dump b)) g)))"
    unfolding constituents_def mset_map mset_sort ..
  then show "distinct (map b_start (constituents dump g))"
    using first_by_start_distinct by (metis mset_eq_imp_distinct_iff)
qed

lemma reduce_group_Inr:
  assumes "reduce_group dump cutoff (i, s, st) g = Inr x"
  defines "vs \<equiv> constituents dump g"
  shows "b_instrument_id x = i" "b_source x = s" "b_start x = st" "b_end x = st + minutes 5"
    "b_interval_minutes x = 5"
    "b_complete x \<longleftrightarrow> map b_start vs = expected_starts st \<and> st + minutes 5 \<le> cutoff \<and> list_all b_complete vs"
    "b_open x = b_open (hd vs)" "b_close x = b_close (last vs)"
    "b_high x = Max (b_high ` set vs)" "b_low x = Min (b_low ` set vs)"
    "b_volume x = dsum (map b_volume vs)" "b_received_at x = Max (b_received_at ` set vs)"
    "\<And>b. b \<in> set g \<Longrightarrow> b_quality_flags b \<subseteq> b_quality_flags x"
    "b_quality_flags x = {} \<Longrightarrow> b_complete x"
proof -
  have "set (map (\<lambda>m. st + minutes m) [0, 1, 2, 3, 4]) = set (expected_starts st)"
    by (simp add: expected_starts_def)
  moreover have "(b_start ` set (first_by_start (sort_key (\<lambda>b. (b_start b, b_received_at b, dump b)) g))
        = set (expected_starts st)) = (map b_start vs = expected_starts st)"
  proof -
    have "b_start ` set (first_by_start (sort_key (\<lambda>b. (b_start b, b_received_at b, dump b)) g))
        = set (map b_start vs)" by (simp add: vs_def constituents_def)
    moreover have "set (map b_start vs) = set (expected_starts st) \<longleftrightarrow> map b_start vs = expected_starts st"
      using sorted_distinct_set_unique[OF constituents_starts[of dump g] expected_starts_sorted[of st]]
      unfolding vs_def by metis
    ultimately show ?thesis by (simp only:)
  qed
  ultimately show "b_complete x \<longleftrightarrow> map b_start vs = expected_starts st \<and> st + minutes 5 \<le> cutoff
      \<and> list_all b_complete vs"
    using assms(1) by (auto simp: reduce_group_def mk_bar_Inr_iff Let_def vs_def constituents_def)
qed (use assms(1) in \<open>auto simp: reduce_group_def mk_bar_Inr_iff Let_def vs_def constituents_def
       split: if_splits\<close>)

lemma aggregate_bars_Inr:
  assumes "aggregate_bars dump c bars cutoff = Inr out"
  obtains gs where "list_all2 (\<lambda>k x. reduce_group dump cutoff k (group_of gs k) = Inr x) (group_keys gs) out"
    "\<forall>g\<in>set gs. grouped c cutoff (set bars) g"
proof -
  obtain av gs where sc: "scan c cutoff (arrival_order bars) ([], []) = Inr (av, gs)"
    and r: "rmap (\<lambda>k. reduce_group dump cutoff k (group_of gs k)) (group_keys gs) = Inr out"
    using assms by (auto simp: aggregate_bars_def result_simps)
  have "\<forall>g\<in>set gs. grouped c cutoff (set bars) g"
    by (rule scan_grouped[OF sc]) (auto simp: arrival_order_def)
  with rmap_Inr_all2[OF r] that show thesis by blast
qed

lemma group_of_nonempty: "k \<in> set (group_keys gs) \<Longrightarrow> group_of gs k \<noteq> []"
  by (auto simp: group_keys_def group_of_def filter_empty_conv)

lemma aggregate_bars_mem:
  assumes "aggregate_bars dump c bars cutoff = Inr out" "x \<in> set out"
  obtains i s st g where "reduce_group dump cutoff (i, s, st) g = Inr x" "g \<noteq> []"
    "\<forall>m\<in>set g. grouped c cutoff (set bars) ((i, s, st), m)"
proof -
  obtain gs where l: "list_all2 (\<lambda>k x. reduce_group dump cutoff k (group_of gs k) = Inr x) (group_keys gs) out"
    and gr: "\<forall>g\<in>set gs. grouped c cutoff (set bars) g" using aggregate_bars_Inr[OF assms(1)] by blast
  obtain n where n: "n < length out" "out ! n = x" using assms(2) by (auto simp: in_set_conv_nth)
  let ?k = "group_keys gs ! n"
  have "reduce_group dump cutoff ?k (group_of gs ?k) = Inr x" "?k \<in> set (group_keys gs)"
    using list_all2_nthD2[OF l n(1)] n list_all2_lengthD[OF l] by auto
  moreover obtain i s st where "?k = (i, s, st)" by (cases ?k)
  moreover have "\<forall>m\<in>set (group_of gs ?k). grouped c cutoff (set bars) (?k, m)"
    using gr by (force simp: group_of_def)
  ultimately show thesis using that group_of_nonempty by metis
qed

lemma grouped_simps:
  assumes "grouped c cutoff B ((i, s, st), m)"
  obtains b f lo hi where "b \<in> B" "m = b\<lparr>b_quality_flags := f\<rparr>" "b_interval_minutes m = 1"
    "available_at b \<le> cutoff" "b_instrument_id m = i" "b_source m = s" "price_flags b \<subseteq> f"
    "ck_bounds c (b_start b) = Inr (Some (lo, hi))" "st = bucket lo b"
proof -
  obtain b prev lo hi where b: "b \<in> B" "b_interval_minutes b = 1" "available_at b \<le> cutoff"
    "check c b prev = Inr m" "(i, s, st) = (b_instrument_id b, b_source b, bucket lo b)"
    "ck_bounds c (b_start b) = Inr (Some (lo, hi))"
    using assms unfolding grouped_def by auto
  obtain f where f: "m = b\<lparr>b_quality_flags := f\<rparr>" using check_flags(3)[OF b(4)] by blast
  moreover have "price_flags b \<subseteq> f" using check_flags(2)[OF b(4)] f by simp
  ultimately show thesis using b that check_simps[OF b(4)] by simp
qed

subsection \<open>Properties\<close>

lemma usable_arrival: "usable cutoff (arrival_order bars) = arrival_order (usable cutoff bars)"
  by (simp add: usable_def arrival_order_def filter_sort)

lemma aggregate_usable:
  assumes "\<forall>b\<in>set bars. b_interval_minutes b = 1"
  shows "aggregate_bars dump c bars cutoff = aggregate_bars dump c (usable cutoff bars) cutoff"
proof -
  have "list_all (\<lambda>b. b_interval_minutes b = 1) (arrival_order bars)"
    using assms by (simp add: arrival_order_def list_all_iff)
  then show ?thesis unfolding aggregate_bars_def by (subst scan_usable) (simp_all add: usable_arrival)
qed

text \<open>
  Aggregation has no look-ahead: two inputs of one-minute bars that agree on the bars finished and
  received by the cutoff give the same result, error or bars, whatever else they contain.
\<close>

theorem aggregation_causal:
  assumes "\<forall>b\<in>set bars. b_interval_minutes b = 1" "\<forall>b\<in>set bars'. b_interval_minutes b = 1"
    and "filter (\<lambda>b. b_end b \<le> cutoff \<and> b_received_at b \<le> cutoff) bars
       = filter (\<lambda>b. b_end b \<le> cutoff \<and> b_received_at b \<le> cutoff) bars'"
  shows "aggregate_bars dump c bars cutoff = aggregate_bars dump c bars' cutoff"
  using assms aggregate_usable[of bars] aggregate_usable[of bars'] by (simp add: usable_def available_at_def)

definition example_minutes :: "bar list" where
  "example_minutes = map (\<lambda>k. example_bar ''A'' (1783395900000000 + minutes k) 100) [0, 1, 2, 3, 4]"

theorem aggregation_causal_witness:
  "aggregate_bars (\<lambda>b. []) example_checker example_minutes 1783396000000000
     = aggregate_bars (\<lambda>b. []) example_checker (take 1 example_minutes) 1783396000000000"
  by (rule aggregation_causal) (simp_all add: example_minutes_def example_bar_def minutes_def)

text \<open>
  A complete five-minute bar is the exact reduction of its five minutes: there are five checked
  input bars of its instrument and source, available by the cutoff and complete, one for each minute of
  the interval and in order; the open is the first's, the close the last's, the high and the low their
  extremes, the volume their decimal sum and the receipt time their latest.
\<close>

theorem complete_bar_exact:
  assumes "aggregate_bars dump c bars cutoff = Inr out" and "x \<in> set out" and "b_complete x"
  shows "\<exists>vs :: bar list. map b_start vs = map (\<lambda>m. b_start x + minutes m) [0, 1, 2, 3, 4]
     \<and> (\<forall>v\<in>set vs. b_complete v \<and> b_interval_minutes v = 1
          \<and> b_instrument_id v = b_instrument_id x \<and> b_source v = b_source x
          \<and> (\<exists>b\<in>set bars. b_end b \<le> cutoff \<and> b_received_at b \<le> cutoff
               \<and> (\<exists>f. v = b\<lparr>b_quality_flags := f\<rparr>)))
     \<and> b_open x = b_open (hd vs) \<and> b_close x = b_close (last vs)
     \<and> b_high x = Max (b_high ` set vs) \<and> b_low x = Min (b_low ` set vs)
     \<and> b_volume x = dsum (map b_volume vs) \<and> b_received_at x = Max (b_received_at ` set vs)
     \<and> b_end x = b_start x + minutes 5 \<and> b_end x \<le> cutoff"
proof -
  obtain i s st g where r: "reduce_group dump cutoff (i, s, st) g = Inr x"
    and gr: "\<forall>m\<in>set g. grouped c cutoff (set bars) ((i, s, st), m)"
    by (rule aggregate_bars_mem[OF assms(1,2)])
  note x = reduce_group_Inr[OF r]
  let ?vs = "constituents dump g"
  have full: "map b_start ?vs = expected_starts st" "st + minutes 5 \<le> cutoff" "list_all b_complete ?vs"
    using x(6) assms(3) by auto
  have "b_complete v \<and> b_interval_minutes v = 1 \<and> b_instrument_id v = b_instrument_id x
      \<and> b_source v = b_source x \<and> (\<exists>b\<in>set bars. b_end b \<le> cutoff \<and> b_received_at b \<le> cutoff
          \<and> (\<exists>f. v = b\<lparr>b_quality_flags := f\<rparr>))" if "v \<in> set ?vs" for v
  proof -
    have "v \<in> set g" using that constituents_subset by blast
    then have "grouped c cutoff (set bars) ((i, s, st), v)" using gr by blast
    then obtain b f where b: "b \<in> set bars" "v = b\<lparr>b_quality_flags := f\<rparr>" "b_interval_minutes v = 1"
      "available_at b \<le> cutoff" "b_instrument_id v = i" "b_source v = s" by (rule grouped_simps)
    then show ?thesis using full(3) that x(1,2) by (auto simp: list_all_iff available_at_def)
  qed
  then show ?thesis using full x by (intro exI[of _ ?vs]) (simp add: expected_starts_def)
qed

text \<open>
  The five-minute bars that carry no quality flag are exactly usable by strategies: each one is
  complete and passes \<open>require_strategy_ready\<close> at the cutoff, so its prices are positive and consistent,
  its volume positive, and it was received by the cutoff.
\<close>

theorem unflagged_bar_ready:
  assumes "aggregate_bars dump c bars cutoff = Inr out" and "x \<in> set out"
  shows "b_quality_flags x = {} \<longleftrightarrow> require_strategy_ready x cutoff = Inr ()"
proof
  assume fl: "b_quality_flags x = {}"
  obtain i s st g where r: "reduce_group dump cutoff (i, s, st) g = Inr x" "g \<noteq> []"
    and gr: "\<forall>m\<in>set g. grouped c cutoff (set bars) ((i, s, st), m)"
    by (rule aggregate_bars_mem[OF assms])
  note x = reduce_group_Inr[OF r(1)]
  let ?vs = "constituents dump g"
  have v: "b_received_at v \<le> cutoff \<and> 0 < b_low v \<and> b_low v \<le> b_open v \<and> b_low v \<le> b_close v
      \<and> b_open v \<le> b_high v \<and> b_close v \<le> b_high v \<and> 0 < b_volume v" if "v \<in> set ?vs" for v
  proof -
    have m: "v \<in> set g" using that constituents_subset by blast
    then have "grouped c cutoff (set bars) ((i, s, st), v)" using gr by blast
    then obtain b f where b: "v = b\<lparr>b_quality_flags := f\<rparr>" "available_at b \<le> cutoff" "price_flags b \<subseteq> f"
      by (rule grouped_simps)
    then have "price_flags b = {}" using x(13)[OF m] fl by auto
    then show ?thesis using b by (simp add: price_flags_empty_iff available_at_def)
  qed
  have ne: "?vs \<noteq> []" using r(2) by simp
  have hd: "hd ?vs \<in> set ?vs" "last ?vs \<in> set ?vs" using ne by auto
  have low: "b_low x \<le> b_low w" "b_high w \<le> b_high x" if "w \<in> set ?vs" for w
    using that by (simp_all add: x(9,10))
  have "b_low x \<in> b_low ` set ?vs" "b_received_at x \<in> b_received_at ` set ?vs"
    unfolding x(10,12) using ne by (intro Min_in Max_in; simp)+
  then have "0 < b_low x" "b_received_at x \<le> cutoff" using v by auto
  moreover have "0 < b_volume x" unfolding x(11) using v ne by (intro dsum_pos) auto
  moreover have "b_low x \<le> b_open x \<and> b_open x \<le> b_high x \<and> b_low x \<le> b_close x \<and> b_close x \<le> b_high x"
    unfolding x(7,8) using v[OF hd(1)] v[OF hd(2)] low[OF hd(1)] low[OF hd(2)] by linarith
  ultimately show "require_strategy_ready x cutoff = Inr ()"
    using x fl by (auto simp: strategy_ready_iff price_flags_empty_iff)
qed (simp add: strategy_ready_iff)

lemma example_aggregate:
  "case aggregate_bars (\<lambda>b. []) example_checker example_minutes 1783396200000000 of
     Inl e \<Rightarrow> False
   | Inr xs \<Rightarrow> list_all (\<lambda>x. b_complete x \<and> b_quality_flags x = {}) xs \<and> length xs = 1"
  by code_simp

lemma example_aggregate_Inr:
  obtains x where "aggregate_bars (\<lambda>b. []) example_checker example_minutes 1783396200000000 = Inr [x]"
    "b_complete x" "b_quality_flags x = {}"
proof (cases "aggregate_bars (\<lambda>b. []) example_checker example_minutes 1783396200000000")
  case (Inr xs)
  then have "length xs = 1" "list_all (\<lambda>x. b_complete x \<and> b_quality_flags x = {}) xs"
    using example_aggregate by auto
  then obtain x where "xs = [x]" by (auto simp: length_Suc_conv)
  then show thesis using that Inr \<open>list_all _ xs\<close> by simp
qed (use example_aggregate in simp)

theorem complete_bar_exact_witness:
  "\<exists>x (vs :: bar list). aggregate_bars (\<lambda>b. []) example_checker example_minutes 1783396200000000 = Inr [x]
     \<and> map b_start vs = map (\<lambda>m. b_start x + minutes m) [0, 1, 2, 3, 4]
     \<and> b_open x = b_open (hd vs) \<and> b_close x = b_close (last vs)"
proof -
  obtain x where x: "aggregate_bars (\<lambda>b. []) example_checker example_minutes 1783396200000000 = Inr [x]"
    "b_complete x" by (rule example_aggregate_Inr)
  have "x \<in> set [x]" by simp
  from complete_bar_exact[OF x(1) this x(2)] x(1) show ?thesis
    by (elim exE conjE) (intro exI conjI; assumption)
qed

theorem unflagged_bar_ready_witness:
  "\<exists>x. aggregate_bars (\<lambda>b. []) example_checker example_minutes 1783396200000000 = Inr [x]
     \<and> require_strategy_ready x 1783396200000000 = Inr ()"
proof -
  obtain x where x: "aggregate_bars (\<lambda>b. []) example_checker example_minutes 1783396200000000 = Inr [x]"
    "b_quality_flags x = {}" by (rule example_aggregate_Inr)
  from unflagged_bar_ready[OF x(1), of x] x show ?thesis by simp
qed

text \<open>
  The result is a set of distinct intervals in order: instrument, source and start of the bars are
  strictly increasing, so no interval of an instrument is emitted twice.
\<close>

theorem aggregate_strictly_ordered:
  assumes "aggregate_bars dump c bars cutoff = Inr out"
  shows "sorted_wrt (<) (map (\<lambda>x. (b_instrument_id x, b_source x, b_start x)) out)"
proof -
  obtain gs where l: "list_all2 (\<lambda>k x. reduce_group dump cutoff k (group_of gs k) = Inr x) (group_keys gs) out"
    by (rule aggregate_bars_Inr[OF assms])
  have "map (\<lambda>x. (b_instrument_id x, b_source x, b_start x)) out = group_keys gs"
  proof (rule nth_equalityI)
    show "length (map (\<lambda>x. (b_instrument_id x, b_source x, b_start x)) out) = length (group_keys gs)"
      using list_all2_lengthD[OF l] by simp
    fix n assume n: "n < length (map (\<lambda>x. (b_instrument_id x, b_source x, b_start x)) out)"
    obtain i s st where k: "group_keys gs ! n = (i, s, st)" by (cases "group_keys gs ! n")
    then have "reduce_group dump cutoff (i, s, st) (group_of gs (i, s, st)) = Inr (out ! n)"
      using list_all2_nthD2[OF l, of n] n by simp
    from reduce_group_Inr(1-3)[OF this] k n
    show "map (\<lambda>x. (b_instrument_id x, b_source x, b_start x)) out ! n = group_keys gs ! n" by simp
  qed
  moreover have "sorted (group_keys gs)" "distinct (group_keys gs)" by (simp_all add: group_keys_def)
  ultimately show ?thesis by (simp add: strict_sorted_iff)
qed

theorem aggregate_strictly_ordered_witness:
  "\<exists>x. aggregate_bars (\<lambda>b. []) example_checker example_minutes 1783396200000000 = Inr [x]
     \<and> sorted_wrt (<) (map (\<lambda>x. (b_instrument_id x, b_source x, b_start x)) [x])"
proof -
  obtain x where x: "aggregate_bars (\<lambda>b. []) example_checker example_minutes 1783396200000000 = Inr [x]"
    by (rule example_aggregate_Inr)
  from aggregate_strictly_ordered[OF x] x show ?thesis by blast
qed

end
