(* ===== verification/Replay_Data.thy ===== *)
theory Replay_Data
  imports Market_Data "HOL-Library.Word"
begin

text \<open>
  \<open>market_data/storage.py\<close>, \<open>market_data/replay.py\<close> and the provider protocol of
  \<open>market_data/interfaces.py\<close>: the in-memory raw and normalized stores, recordings, the recorded
  provider and its subscription.  Arguments that go through \<open>utc\<close> are instants; \<open>dump\<close> is pydantic's
  \<open>model_dump_json\<close>, used as the last sort key only.
\<close>

subsection \<open>Memory stores\<close>

record raw_record =
  rw_record_id :: string
  rw_source :: string
  rw_received_at :: instant
  rw_payload :: "8 word list"

type_synonym raw_store = "string \<Rightarrow> raw_record option"

definition append_raw :: "raw_record \<Rightarrow> raw_store \<Rightarrow> unit result \<times> raw_store" where
  "append_raw r s =
     (case s (rw_record_id r) of
        Some p \<Rightarrow> if p \<noteq> r then (Inl (ValueError ''immutable raw record ID conflict''), s)
                 else (Inr (), s(rw_record_id r \<mapsto> r))
      | None \<Rightarrow> (Inr (), s(rw_record_id r \<mapsto> r)))"

type_synonym normalized_store = "(string \<times> observation) list"

definition append_observation ::
  "string \<Rightarrow> observation \<Rightarrow> normalized_store \<Rightarrow> normalized_store" where
  "append_observation version obs s = (let item = (version, obs) in if item \<notin> set s then s @ [item] else s)"

lemma append_raw_keeps: "s k = Some r \<Longrightarrow> snd (append_raw x s) k = Some r"
  by (auto simp: append_raw_def split: option.splits)

lemma append_observation_simps:
  "distinct s \<Longrightarrow> distinct (append_observation v obs s)"
  "set (append_observation v obs s) = insert (v, obs) (set s)"
  by (auto simp: append_observation_def Let_def)

subsection \<open>Recordings\<close>

record recording =
  rd_schema_version :: string
  rd_snapshot_id :: string
  rd_source_reference :: string
  rd_bars :: "bar list"
  rd_quotes :: "quote list"

definition mk_recording :: "recording \<Rightarrow> recording result" where
  "mk_recording r =
     (if rd_snapshot_id r = [] \<or> rd_source_reference r = [] then
        Inl (ValueError ''String should have at least 1 character'')
      else if rd_schema_version r \<noteq> ''1'' then Inl (ValueError ''unsupported replay schema'')
      else Inr r)"

definition feed_instruments :: "recording \<Rightarrow> feed_kind \<Rightarrow> string list" where
  "feed_instruments r kind =
     sort (remdups (map b_instrument_id (filter (\<lambda>b. b_feed_kind b = kind) (rd_bars r))))"

definition historical_bars ::
  "recording \<times> fixed_clock \<Rightarrow> string \<Rightarrow> instant \<Rightarrow> instant \<Rightarrow> instant \<Rightarrow> bar list result" where
  "historical_bars p i start stop as_of =
     (case p of (r, clock) \<Rightarrow>
        rbind (utc (fixed_now clock)) (\<lambda>now.
          let cutoff = min as_of now
          in Inr (filter (\<lambda>b. b_instrument_id b = i \<and> start \<le> b_start b \<and> b_end b \<le> stop
                             \<and> available_at b \<le> cutoff) (rd_bars r))))"

text \<open>\<open>max\<close> keeps the first of several quotes with the same timestamp and receipt.\<close>

definition quote_snapshot :: "recording \<times> fixed_clock \<Rightarrow> string \<Rightarrow> quote result" where
  "quote_snapshot p i =
     (case p of (r, clock) \<Rightarrow>
        rbind (utc (fixed_now clock)) (\<lambda>now.
          case max_by (\<lambda>q. (q_timestamp q, q_received_at q))
                 (filter (\<lambda>q. q_instrument_id q = i \<and> max (q_timestamp q) (q_received_at q) \<le> now)
                    (rd_quotes r)) of
            None \<Rightarrow> Inl (ValueError ''no quote available at replay clock'')
          | Some q \<Rightarrow> Inr q))"

subsection \<open>Subscriptions\<close>

fun obs_instrument :: "observation \<Rightarrow> string" where
  "obs_instrument (Obs_Bar b) = b_instrument_id b"
| "obs_instrument (Obs_Quote q) = q_instrument_id q"

fun obs_received :: "observation \<Rightarrow> instant" where
  "obs_received (Obs_Bar b) = b_received_at b"
| "obs_received (Obs_Quote q) = q_received_at q"

text \<open>
  A callback runs on the clock it may read and on a world of its own; it returns the exception it
  raises, if any.
\<close>

type_synonym ('e, 'w) callback = "'e \<Rightarrow> fixed_clock \<times> 'w \<Rightarrow> py_error option \<times> fixed_clock \<times> 'w"

fun deliver ::
  "(bar, 'w) callback \<Rightarrow> (quote, 'w) callback \<Rightarrow> (observation, 'w) callback" where
  "deliver on_bar on_quote (Obs_Bar b) s = on_bar b s"
| "deliver on_bar on_quote (Obs_Quote q) s = on_quote q s"

fun replay_events ::
  "string list \<Rightarrow> (observation, 'w) callback \<Rightarrow> observation list \<Rightarrow> fixed_clock \<times> 'w
     \<Rightarrow> py_error option \<times> fixed_clock \<times> 'w" where
  "replay_events instruments cb [] s = (None, s)"
| "replay_events instruments cb (e # es) (clock, w) =
     (if obs_instrument e \<notin> set instruments \<or> obs_received e < instant_of (fixed_now clock) then
        replay_events instruments cb es (clock, w)
      else case fixed_set (Aware (obs_received e) 0) clock of
        Inl err \<Rightarrow> (Some err, clock, w)
      | Inr clock' \<Rightarrow>
          (case cb e (clock', w) of
             (Some err, s) \<Rightarrow> (Some err, s)
           | (None, s) \<Rightarrow> replay_events instruments cb es s))"

definition replay_order :: "(observation \<Rightarrow> string) \<Rightarrow> recording \<Rightarrow> observation list" where
  "replay_order dump r =
     sort_key (\<lambda>e. (obs_received e, dump e)) (map Obs_Bar (rd_bars r) @ map Obs_Quote (rd_quotes r))"

text \<open>The result carries \<open>closed\<close>, the state of the subscription returned.\<close>

definition subscribe ::
  "(observation \<Rightarrow> string) \<Rightarrow> recording \<Rightarrow> string list \<Rightarrow> (bar, 'w) callback \<Rightarrow> (quote, 'w) callback
     \<Rightarrow> (string, 'w) callback \<Rightarrow> fixed_clock \<times> 'w \<Rightarrow> bool result \<times> fixed_clock \<times> 'w" where
  "subscribe dump r instruments on_bar on_quote on_disconnect s =
     (case replay_events instruments (deliver on_bar on_quote) (replay_order dump r) s of
        (Some err, s') \<Rightarrow> (Inl err, s')
      | (None, s') \<Rightarrow>
          (case on_disconnect ''recording exhausted'' s' of
             (Some err, s'') \<Rightarrow> (Inl err, s'')
           | (None, s'') \<Rightarrow> (Inr True, s'')))"

subsection \<open>Deliveries in order\<close>

text \<open>Callbacks that read the clock and write their own world, as those of the services do.\<close>

definition logging :: "('e \<Rightarrow> 'x) \<Rightarrow> ('e, (instant \<times> 'x) list) callback" where
  "logging f e s = (case s of (clock, w) \<Rightarrow> (None, clock, w @ [(instant_of (fixed_now clock), f e)]))"

lemma replay_events_logging:
  assumes "sorted (map obs_received es)" "aware (fixed_now clock)"
  shows "\<exists>clock'. replay_events is (deliver (logging Obs_Bar) (logging Obs_Quote)) es (clock, w)
     = (None, clock', w @ map (\<lambda>e. (obs_received e, e))
         (filter (\<lambda>e. obs_instrument e \<in> set is \<and> instant_of (fixed_now clock) \<le> obs_received e) es))
     \<and> aware (fixed_now clock')"
  using assms
proof (induction es arbitrary: clock w)
  case (Cons e es)
  have srt: "sorted (map obs_received es)" and ge: "\<forall>x\<in>set es. obs_received e \<le> obs_received x"
    using Cons.prems(1) by auto
  show ?case
  proof (cases "obs_instrument e \<notin> set is \<or> obs_received e < instant_of (fixed_now clock)")
    case True
    then show ?thesis using Cons.IH[OF srt Cons.prems(2), of w] by auto
  next
    case False
    let ?c = "clock\<lparr>fc_instant := Aware (obs_received e) 0\<rparr>"
    have "filter (\<lambda>x. obs_instrument x \<in> set is \<and> obs_received e \<le> obs_received x) es
        = filter (\<lambda>x. obs_instrument x \<in> set is \<and> instant_of (fixed_now clock) \<le> obs_received x) es"
      using ge False by (intro filter_cong) auto
    moreover have "fixed_set (Aware (obs_received e) 0) clock = Inr ?c"
      by (simp add: fixed_set_def require_aware_def)
    moreover have "deliver (logging Obs_Bar) (logging Obs_Quote) e (?c, w) = (None, ?c, w @ [(obs_received e, e)])"
      by (cases e) (simp_all add: logging_def fixed_now_def)
    moreover have "aware (fixed_now ?c)" "instant_of (fixed_now ?c) = obs_received e"
      by (simp_all add: fixed_now_def)
    ultimately show ?thesis using Cons.IH[OF srt, of ?c "w @ [(obs_received e, e)]"] False by auto
  qed
qed simp

text \<open>
  A subscription replays the recording without look-ahead: the observations of the subscribed
  instruments received at or after the clock's reading are delivered exactly once each, in the order of
  receipt (ties by their serialised text), and at every delivery the clock reads the receipt time of
  what is delivered; then the disconnect is reported and the subscription is closed.
\<close>

theorem subscription_causal:
  assumes "fixed_new d = Inr clock"
  shows "\<exists>clock' log. subscribe dump r is (logging Obs_Bar) (logging Obs_Quote) (\<lambda>reason s. (None, s)) (clock, [])
       = (Inr True, clock', log)
     \<and> sorted (map fst log) \<and> (\<forall>(t, e) \<in> set log. t = obs_received e)
     \<and> map snd log = filter (\<lambda>e. obs_instrument e \<in> set is \<and> instant_of d \<le> obs_received e)
                       (replay_order dump r)"
proof -
  have a: "aware (fixed_now clock)" "fixed_now clock = d"
    using assms by (auto simp: fixed_new_def require_aware_def fixed_now_def split: if_splits)
  have "sorted (map (\<lambda>e. (obs_received e, dump e)) (replay_order dump r))"
    by (simp add: replay_order_def)
  then have srt: "sorted (map obs_received (replay_order dump r))"
    by (auto simp: sorted_map intro: sorted_wrt_mono_rel[rotated])
  obtain clock' where run: "replay_events is (deliver (logging Obs_Bar) (logging Obs_Quote))
      (replay_order dump r) (clock, [])
     = (None, clock', map (\<lambda>e. (obs_received e, e))
         (filter (\<lambda>e. obs_instrument e \<in> set is \<and> instant_of (fixed_now clock) \<le> obs_received e)
            (replay_order dump r)))"
    using replay_events_logging[OF srt a(1), of "is" "[]"] by auto
  show ?thesis
    unfolding subscribe_def run a(2) using srt by (auto simp: o_def sorted_wrt_filter sorted_map sorted_wrt_map)
qed

definition example_recording :: recording where
  "example_recording = \<lparr>rd_schema_version = ''1'', rd_snapshot_id = ''s'', rd_source_reference = ''r'',
     rd_bars = [example_bar ''A'' (minutes 2) 100, example_bar ''A'' (minutes 1) 100, example_bar ''B'' 0 100],
     rd_quotes = []\<rparr>"

theorem subscription_causal_witness:
  "\<exists>clock' log. subscribe (\<lambda>e. []) example_recording [''A''] (logging Obs_Bar) (logging Obs_Quote)
       (\<lambda>reason s. (None, s)) (\<lparr>fc_instant = Aware (minutes 1) 0\<rparr>, []) = (Inr True, clock', log)
     \<and> map snd log = [Obs_Bar (example_bar ''A'' (minutes 1) 100), Obs_Bar (example_bar ''A'' (minutes 2) 100)]"
proof -
  have "fixed_new (Aware (minutes 1) 0) = Inr \<lparr>fc_instant = Aware (minutes 1) 0\<rparr>"
    by (simp add: fixed_new_def require_aware_def)
  note c = subscription_causal[OF this, of "\<lambda>e. []" example_recording "[''A'']"]
  have "filter (\<lambda>e. obs_instrument e \<in> set [''A''] \<and> instant_of (Aware (minutes 1) 0) \<le> obs_received e)
      (replay_order (\<lambda>e. []) example_recording)
     = [Obs_Bar (example_bar ''A'' (minutes 1) 100), Obs_Bar (example_bar ''A'' (minutes 2) 100)]"
    by (simp add: replay_order_def example_recording_def example_bar_def minutes_def)
  then show ?thesis using c by auto
qed

subsection \<open>The provider contract\<close>

text \<open>
  \<open>MarketDataProvider\<close>: what the docstring of \<open>historical_bars\<close> promises, observations of the instrument
  available by \<open>as_of\<close> in the requested window, and a snapshot of the instrument asked for.
\<close>

locale market_provider =
  fixes historical :: "'p \<Rightarrow> string \<Rightarrow> instant \<Rightarrow> instant \<Rightarrow> instant \<Rightarrow> bar list result"
    and snapshot :: "'p \<Rightarrow> string \<Rightarrow> quote result"
  assumes historical_scope: "historical p i start stop as_of = Inr bars \<Longrightarrow> b \<in> set bars \<Longrightarrow>
      b_instrument_id b = i \<and> start \<le> b_start b \<and> b_end b \<le> stop \<and> available_at b \<le> as_of"
    and snapshot_scope: "snapshot p i = Inr q \<Longrightarrow> q_instrument_id q = i"

interpretation recorded: market_provider historical_bars quote_snapshot
proof
  show "historical_bars p i start stop as_of = Inr bars \<Longrightarrow> b \<in> set bars \<Longrightarrow>
      b_instrument_id b = i \<and> start \<le> b_start b \<and> b_end b \<le> stop \<and> available_at b \<le> as_of"
    for p i start stop as_of bars b
    by (auto simp: historical_bars_def result_simps Let_def split: prod.splits)
  show "quote_snapshot p i = Inr q \<Longrightarrow> q_instrument_id q = i" for p i q
    by (auto simp: quote_snapshot_def result_simps dest!: max_by_mem split: prod.splits option.splits)
qed

end
