(* ===== verification/Market_Service.thy ===== *)
theory Market_Service
  imports Aggregation Freshness Replay_Data
begin

text \<open>
  \<open>market_data/service.py\<close>: the service that normalises history and streams.  The service is a record,
  its checker an argument.  \<open>now\<close> is the clock reading of a call; a call that reads the clock several
  times gets the readings \<open>clk 0\<close>, \<open>clk 1\<close>, \dots in the order the code takes them.  Each operation returns
  the value or exception and the state it leaves.
\<close>

type_synonym bar_key = "string \<times> string \<times> instant"

definition bar_key :: "bar \<Rightarrow> bar_key" where
  "bar_key b = (b_instrument_id b, b_source b, b_start b)"

record service =
  sv_bars :: "bar list"
  sv_seen :: "bar_key set"
  sv_reported_missing :: "bar_key set"
  sv_storage :: normalized_store
  sv_freshness :: tracker
  sv_metrics :: metrics

definition service_new :: "normalized_store \<Rightarrow> tracker \<Rightarrow> metrics \<Rightarrow> service" where
  "service_new storage freshness m =
     \<lparr>sv_bars = [], sv_seen = {}, sv_reported_missing = {}, sv_storage = storage,
      sv_freshness = freshness, sv_metrics = m\<rparr>"

definition ingest_bar :: "checker \<Rightarrow> instant \<Rightarrow> bar \<Rightarrow> service \<Rightarrow> unit result \<times> service" where
  "ingest_bar c now b s =
     (if b_interval_minutes b \<noteq> 1 then (Inl (ValueError ''ingestion requires raw 1m bars''), s)
      else if now < available_at b then
        (Inl (ValueError ''bar is unavailable at current clock time''),
         s\<lparr>sv_metrics := increment ''quality_violations'' 1 (sv_metrics s)\<rparr>)
      else case check c b (previous_bar (sv_bars s) b) of
        Inl e \<Rightarrow> (Inl e, s)
      | Inr checked0 \<Rightarrow>
          let checked = (if bar_key b \<in> sv_seen s
                then checked0\<lparr>b_quality_flags := b_quality_flags checked0 \<union> {DUPLICATE}\<rparr>
                else checked0)
          in (Inr (),
              s\<lparr>sv_metrics := increment ''quality_violations'' (int (card (b_quality_flags checked)))
                               (sv_metrics s),
                sv_storage := append_observation (dq_normalization_version (ck_settings c))
                               (Obs_Bar checked) (sv_storage s),
                sv_seen := insert (bar_key b) (sv_seen s),
                sv_bars := sv_bars s @ [checked]\<rparr>))"

definition ingest_quote :: "checker \<Rightarrow> instant \<Rightarrow> quote \<Rightarrow> service \<Rightarrow> service" where
  "ingest_quote c now q s =
     (case update now q (sv_freshness s) of
        (checked, tr) \<Rightarrow>
          s\<lparr>sv_freshness := tr,
            sv_storage := append_observation (dq_normalization_version (ck_settings c))
                            (Obs_Quote checked) (sv_storage s)\<rparr>)"

definition canonical_bars ::
  "(bar \<Rightarrow> string) \<Rightarrow> checker \<Rightarrow> instant \<Rightarrow> service \<Rightarrow> bar list result" where
  "canonical_bars dump c now s = aggregate_bars dump c (sv_bars s) now"

text \<open>The loop of \<open>load_history\<close> over the sorted bars; \<open>k\<close> numbers the clock readings.\<close>

fun ingest_history ::
  "checker \<Rightarrow> string \<Rightarrow> instant \<Rightarrow> instant \<Rightarrow> (nat \<Rightarrow> instant) \<Rightarrow> nat \<Rightarrow> bar list \<Rightarrow> service
     \<Rightarrow> unit result \<times> service" where
  "ingest_history c i start stop clk k [] s = (Inr (), s)"
| "ingest_history c i start stop clk k (b # bs) s =
     (if b_instrument_id b \<noteq> i \<or> b_start b < start \<or> stop < b_end b \<or> clk 0 < available_at b then
        (Inl (ValueError ''provider returned data outside request scope''), s)
      else case ingest_bar c (clk k) b s of
        (Inl e, s') \<Rightarrow> (Inl e, s')
      | (Inr u, s') \<Rightarrow> ingest_history c i start stop clk (Suc k) bs s')"

definition load_history ::
  "(bar \<Rightarrow> string) \<Rightarrow> checker \<Rightarrow> (string \<Rightarrow> instant \<Rightarrow> instant \<Rightarrow> instant \<Rightarrow> bar list result)
     \<Rightarrow> (nat \<Rightarrow> instant) \<Rightarrow> string \<Rightarrow> instant \<Rightarrow> instant \<Rightarrow> service \<Rightarrow> bar list result \<times> service" where
  "load_history dump c historical clk i start stop s =
     (let s1 = s\<lparr>sv_metrics := observe ''provider_latency_seconds'' (total_seconds (clk 1 - clk 0))
                                (sv_metrics s)\<rparr>
      in case historical i start stop (clk 0) of
        Inl e \<Rightarrow> (Inl e, s1)
      | Inr bars \<Rightarrow>
          (case ingest_history c i start stop clk 2 (arrival_order bars) s1 of
             (Inl e, s2) \<Rightarrow> (Inl e, s2)
           | (Inr u, s2) \<Rightarrow>
               (case missing_intervals c bars start stop (clk 0) of
                  Inl e \<Rightarrow> (Inl e, s2)
                | Inr missing \<Rightarrow>
                    let s3 = s2\<lparr>sv_metrics := increment ''missing_bars'' (int (length missing)) (sv_metrics s2)\<rparr>
                    in (rbind (canonical_bars dump c (clk (2 + length bars)) s3) (\<lambda>xs.
                          Inr (filter (\<lambda>b. b_instrument_id b = i \<and> start \<le> b_start b \<and> b_end b \<le> stop) xs)),
                        s3))))"

definition window_bars :: "string \<Rightarrow> string \<Rightarrow> instant \<Rightarrow> instant \<Rightarrow> service \<Rightarrow> bar list" where
  "window_bars i source start stop s =
     filter (\<lambda>b. b_instrument_id b = i \<and> b_source b = source \<and> start \<le> b_start b \<and> b_start b < stop)
       (sv_bars s)"

definition window_health ::
  "checker \<Rightarrow> (nat \<Rightarrow> instant) \<Rightarrow> string \<Rightarrow> string \<Rightarrow> instant \<Rightarrow> instant \<Rightarrow> service
     \<Rightarrow> component_health result \<times> service" where
  "window_health c clk i source start stop s =
     (let bars = window_bars i source start stop s
      in case missing_intervals c bars start stop (clk 0) of
        Inl e \<Rightarrow> (Inl e, s)
      | Inr missing \<Rightarrow>
          let new_missing = (\<lambda>stamp. (i, source, stamp)) ` set missing - sv_reported_missing s;
              bad = list_ex (\<lambda>b. b_quality_flags b \<noteq> {}) bars;
              ready = (stop \<le> clk 1 \<and> bars \<noteq> [] \<and> missing = [] \<and> \<not> bad)
          in (Inr \<lparr>ch_component = ''bars:'' @ i @ '':'' @ source,
                   ch_status = (if ready then HEALTHY else UNHEALTHY),
                   ch_observed_at = Aware (clk 2) 0,
                   ch_message = (if ready then ''validated window'' else ''incomplete or invalid window''),
                   ch_blocking = True\<rparr>,
              s\<lparr>sv_metrics := increment ''missing_bars'' (int (card new_missing)) (sv_metrics s),
                sv_reported_missing := sv_reported_missing s \<union> new_missing\<rparr>))"

definition refresh_quote ::
  "checker \<Rightarrow> (string \<Rightarrow> quote result) \<Rightarrow> (nat \<Rightarrow> instant) \<Rightarrow> string \<Rightarrow> service \<Rightarrow> unit result \<times> service" where
  "refresh_quote c snapshot clk i s =
     (let s1 = s\<lparr>sv_metrics := observe ''provider_latency_seconds'' (total_seconds (clk 1 - clk 0))
                                (sv_metrics s)\<rparr>
      in case snapshot i of
        Inl e \<Rightarrow> (Inl e, s1)
      | Inr q \<Rightarrow>
          if q_instrument_id q \<noteq> i then (Inl (ValueError ''quote instrument differs from request''), s1)
          else (Inr (), ingest_quote c (clk 2) q s1))"

subsection \<open>What ingestion keeps\<close>

text \<open>Every kept bar was seen, is stored, is a one-minute bar, and repeats of a key are flagged.\<close>

definition service_inv :: "checker \<Rightarrow> service \<Rightarrow> bool" where
  "service_inv c s \<longleftrightarrow>
     bar_key ` set (sv_bars s) \<subseteq> sv_seen s
   \<and> (\<forall>b \<in> set (sv_bars s). b_interval_minutes b = 1
        \<and> (dq_normalization_version (ck_settings c), Obs_Bar b) \<in> set (sv_storage s))
   \<and> (\<forall>j < length (sv_bars s). \<forall>i < j. bar_key (sv_bars s ! i) = bar_key (sv_bars s ! j)
        \<longrightarrow> DUPLICATE \<in> b_quality_flags (sv_bars s ! j))"

lemma service_inv_repeat:
  "service_inv c s \<Longrightarrow> j < length (sv_bars s) \<Longrightarrow> i < j
     \<Longrightarrow> bar_key (sv_bars s ! i) = bar_key (sv_bars s ! j) \<Longrightarrow> DUPLICATE \<in> b_quality_flags (sv_bars s ! j)"
  by (simp add: service_inv_def)

lemma service_inv_stored:
  "service_inv c s \<Longrightarrow> b \<in> set (sv_bars s)
     \<Longrightarrow> (dq_normalization_version (ck_settings c), Obs_Bar b) \<in> set (sv_storage s)"
  by (simp add: service_inv_def)

lemma service_new_inv: "service_inv c (service_new st tr m)"
  by (simp add: service_inv_def service_new_def)

lemma ingest_bar_cases:
  assumes "ingest_bar c now b s = (r, s')"
  shows "(\<exists>e. r = Inl e) \<and> sv_bars s' = sv_bars s \<and> sv_seen s' = sv_seen s \<and> sv_storage s' = sv_storage s
     \<or> (\<exists>b'. r = Inr () \<and> sv_bars s' = sv_bars s @ [b'] \<and> sv_seen s' = insert (bar_key b) (sv_seen s)
        \<and> sv_storage s' = append_observation (dq_normalization_version (ck_settings c)) (Obs_Bar b') (sv_storage s)
        \<and> bar_key b' = bar_key b \<and> b_interval_minutes b' = 1
        \<and> (bar_key b \<in> sv_seen s \<longrightarrow> DUPLICATE \<in> b_quality_flags b'))"
proof (cases "b_interval_minutes b \<noteq> 1 \<or> now < available_at b")
  case True
  then show ?thesis using assms by (auto simp: ingest_bar_def split: if_splits)
next
  case False
  show ?thesis
  proof (cases "check c b (previous_bar (sv_bars s) b)")
    case (Inl e)
    then show ?thesis using assms False by (auto simp: ingest_bar_def)
  next
    case (Inr b0)
    then show ?thesis using assms False check_simps[OF Inr]
      by (auto simp: ingest_bar_def Let_def bar_key_def)
  qed
qed

lemma ingest_bar_inv:
  assumes "service_inv c s" "ingest_bar c now b s = (r, s')"
  shows "service_inv c s'"
  using ingest_bar_cases[OF assms(2)]
proof (elim disjE exE conjE)
  fix b' assume b': "sv_bars s' = sv_bars s @ [b']" "sv_seen s' = insert (bar_key b) (sv_seen s)"
    "sv_storage s' = append_observation (dq_normalization_version (ck_settings c)) (Obs_Bar b') (sv_storage s)"
    "bar_key b' = bar_key b" "b_interval_minutes b' = 1"
    "bar_key b \<in> sv_seen s \<longrightarrow> DUPLICATE \<in> b_quality_flags b'"
  have "bar_key (sv_bars s ! i) \<in> sv_seen s" if "i < length (sv_bars s)" for i
    using assms(1) that by (auto simp: service_inv_def)
  then show ?thesis using assms(1) b'
    by (auto simp: service_inv_def nth_append append_observation_simps less_Suc_eq) metis+
qed (use assms(1) in \<open>simp add: service_inv_def\<close>)

lemma ingest_history_inv:
  "service_inv c s \<Longrightarrow> ingest_history c i start stop clk k bs s = (r, s') \<Longrightarrow> service_inv c s'"
proof (induction bs arbitrary: k s)
  case (Cons b bs)
  obtain r1 s1 where st: "ingest_bar c (clk k) b s = (r1, s1)" by (cases "ingest_bar c (clk k) b s")
  show ?case using Cons.prems(2) st Cons.IH[OF ingest_bar_inv[OF Cons.prems(1) st]] Cons.prems(1)
      ingest_bar_inv[OF Cons.prems(1) st]
    by (auto split: if_splits sum.splits)
qed simp

lemma service_inv_frame:
  "sv_bars s' = sv_bars s \<Longrightarrow> sv_seen s' = sv_seen s \<Longrightarrow> set (sv_storage s) \<subseteq> set (sv_storage s')
     \<Longrightarrow> service_inv c s \<Longrightarrow> service_inv c s'"
  by (auto simp: service_inv_def)

subsection \<open>Histories of calls\<close>

datatype service_op =
    Sv_Bar instant bar
  | Sv_Quote instant quote
  | Sv_Load "nat \<Rightarrow> instant" string instant instant
  | Sv_Window "nat \<Rightarrow> instant" string string instant instant
  | Sv_Refresh "nat \<Rightarrow> instant" string

text \<open>An error is handled by the caller; the state is whatever the failed call left.\<close>

fun service_step ::
  "(bar \<Rightarrow> string) \<Rightarrow> checker \<Rightarrow> (string \<Rightarrow> instant \<Rightarrow> instant \<Rightarrow> instant \<Rightarrow> bar list result)
     \<Rightarrow> (string \<Rightarrow> quote result) \<Rightarrow> service_op \<Rightarrow> service \<Rightarrow> service" where
  "service_step dump c hist snap (Sv_Bar now b) s = snd (ingest_bar c now b s)"
| "service_step dump c hist snap (Sv_Quote now q) s = ingest_quote c now q s"
| "service_step dump c hist snap (Sv_Load clk i start stop) s = snd (load_history dump c hist clk i start stop s)"
| "service_step dump c hist snap (Sv_Window clk i src start stop) s = snd (window_health c clk i src start stop s)"
| "service_step dump c hist snap (Sv_Refresh clk i) s = snd (refresh_quote c snap clk i s)"

definition service_run ::
  "(bar \<Rightarrow> string) \<Rightarrow> checker \<Rightarrow> (string \<Rightarrow> instant \<Rightarrow> instant \<Rightarrow> instant \<Rightarrow> bar list result)
     \<Rightarrow> (string \<Rightarrow> quote result) \<Rightarrow> service_op list \<Rightarrow> service \<Rightarrow> service" where
  "service_run dump c hist snap ops s = fold (service_step dump c hist snap) ops s"

lemma ingest_quote_inv: "service_inv c s \<Longrightarrow> service_inv c (ingest_quote c now q s)"
  by (rule service_inv_frame) (auto simp: ingest_quote_def append_observation_simps split: prod.splits)

lemma load_history_inv:
  assumes "service_inv c s"
  shows "service_inv c (snd (load_history dump c hist clk i start stop s))"
proof -
  let ?s1 = "s\<lparr>sv_metrics := observe ''provider_latency_seconds'' (total_seconds (clk 1 - clk 0)) (sv_metrics s)\<rparr>"
  have s1: "service_inv c ?s1" by (rule service_inv_frame[OF _ _ _ assms]) auto
  show ?thesis
  proof (cases "hist i start stop (clk 0)")
    case (Inl e)
    then show ?thesis using s1 by (simp add: load_history_def)
  next
    case (Inr bars)
    obtain r s2 where r: "ingest_history c i start stop clk 2 (arrival_order bars) ?s1 = (r, s2)"
      by (cases "ingest_history c i start stop clk 2 (arrival_order bars) ?s1")
    have s2: "service_inv c s2" by (rule ingest_history_inv[OF s1 r])
    have "service_inv c (s2\<lparr>sv_metrics := m\<rparr>)" for m by (rule service_inv_frame[OF _ _ _ s2]) auto
    then show ?thesis using Inr r s2 by (auto simp: load_history_def Let_def split: sum.splits)
  qed
qed

lemma service_step_inv: "service_inv c s \<Longrightarrow> service_inv c (service_step dump c hist snap op s)"
proof (cases op)
  case (Sv_Bar now b)
  assume "service_inv c s"
  then show ?thesis using ingest_bar_inv[of c s now b] Sv_Bar by (cases "ingest_bar c now b s") auto
next
  case (Sv_Refresh clk i)
  assume inv: "service_inv c s"
  let ?s1 = "s\<lparr>sv_metrics := observe ''provider_latency_seconds'' (total_seconds (clk 1 - clk 0)) (sv_metrics s)\<rparr>"
  have "service_inv c ?s1" by (rule service_inv_frame[OF _ _ _ inv]) auto
  then show ?thesis using Sv_Refresh ingest_quote_inv by (auto simp: refresh_quote_def Let_def split: sum.splits)
next
  case (Sv_Window clk i src start stop)
  assume inv: "service_inv c s"
  show ?thesis using Sv_Window inv
    by (auto simp: window_health_def Let_def split: sum.splits intro!: service_inv_frame[OF _ _ _ inv])
qed (simp_all add: ingest_quote_inv load_history_inv)

lemma service_run_inv: "service_inv c s \<Longrightarrow> service_inv c (service_run dump c hist snap ops s)"
  by (induction ops arbitrary: s) (simp_all add: service_run_def service_step_inv)

subsection \<open>Clients of a provider\<close>

context market_provider
begin

lemma ingest_history_in_scope:
  assumes "\<forall>b\<in>set bs. b_instrument_id b = i \<and> start \<le> b_start b \<and> b_end b \<le> stop \<and> available_at b \<le> clk 0"
    and "\<forall>n. clk 0 \<le> clk n" and "ingest_history c i start stop clk k bs s = (Inl e, s')"
  shows "\<exists>b\<in>set bs. b_interval_minutes b \<noteq> 1 \<or> (\<exists>prev. check c b prev = Inl e)"
  using assms(1,3)
proof (induction bs arbitrary: k s)
  case (Cons b bs)
  have late: "available_at b \<le> clk k" using Cons.prems(1) assms(2) by (meson list.set_intros(1) order_trans)
  obtain r1 s1 where st: "ingest_bar c (clk k) b s = (r1, s1)" by (cases "ingest_bar c (clk k) b s")
  show ?case
  proof (cases r1)
    case (Inl e1)
    then have "b_interval_minutes b \<noteq> 1 \<or> (\<exists>prev. check c b prev = Inl e1)"
      using st late by (auto simp: ingest_bar_def Let_def split: if_splits sum.splits)
    then show ?thesis using Cons.prems st Inl by auto
  next
    case (Inr u)
    then have "ingest_history c i start stop clk (Suc k) bs s1 = (Inl e, s')" using Cons.prems st by simp
    then show ?thesis using Cons.IH Cons.prems(1) by auto
  qed
qed simp

lemma load_never_rejects_provider:
  assumes "\<forall>n. clk 0 \<le> clk n" and "historical p i start stop (clk 0) = Inr bars"
    and "\<forall>b\<in>set bars. b_interval_minutes b = 1"
    and "fst (load_history dump c (historical p) clk i start stop s) = Inl e"
  shows "(\<exists>b\<in>set bars. \<exists>prev. check c b prev = Inl e)
     \<or> missing_intervals c bars start stop (clk 0) = Inl e
     \<or> (\<exists>s3. canonical_bars dump c (clk (2 + length bars)) s3 = Inl e \<and> sv_bars s3
          = sv_bars (snd (load_history dump c (historical p) clk i start stop s)))"
proof -
  let ?s1 = "s\<lparr>sv_metrics := observe ''provider_latency_seconds'' (total_seconds (clk 1 - clk 0)) (sv_metrics s)\<rparr>"
  obtain r s2 where r: "ingest_history c i start stop clk 2 (arrival_order bars) ?s1 = (r, s2)"
    by (cases "ingest_history c i start stop clk 2 (arrival_order bars) ?s1")
  have sc: "\<forall>b\<in>set (arrival_order bars). b_instrument_id b = i \<and> start \<le> b_start b \<and> b_end b \<le> stop
      \<and> available_at b \<le> clk 0"
    using historical_scope[OF assms(2)] by (auto simp: arrival_order_def)
  show ?thesis
  proof (cases r)
    case (Inl e1)
    then have "e1 = e" using assms(2,4) r by (simp add: load_history_def)
    then show ?thesis using ingest_history_in_scope[OF sc assms(1)] r Inl assms(3)
      by (auto simp: arrival_order_def)
  next
    case (Inr u)
    then show ?thesis using assms(2,4) r
      by (auto simp: load_history_def result_simps Let_def split: sum.splits)
  qed
qed

end

subsection \<open>The errors of a load\<close>

definition routine_error :: "py_error \<Rightarrow> bool" where
  "routine_error e \<longleftrightarrow> (\<exists>m. e = CalendarCoverageError m)
     \<or> e \<in> ValueError ` {''missing interval window must be ordered and minute-aligned'',
          ''missing interval check requires a single instrument and source'',
          ''aggregation requires 1m inputs'', ''String should have at least 1 character'',
          ''interval_minutes out of range'', ''only 1m and 5m bars are supported'',
          ''bar duration differs from interval''}"

definition covered :: "checker \<Rightarrow> bool" where
  "covered c \<longleftrightarrow> (\<forall>d e. ck_calendar c d = Inl e \<longrightarrow> (\<exists>m. e = CalendarCoverageError m))"

lemma check_routine: "covered c \<Longrightarrow> check c b p = Inl e \<Longrightarrow> routine_error e"
  by (auto simp: check_def ck_bounds_def session_bounds_def result_simps covered_def routine_error_def
      split: option.splits)

lemma ck_bounds_routine: "covered c \<Longrightarrow> ck_bounds c i = Inl e \<Longrightarrow> routine_error e"
  by (auto simp: ck_bounds_def session_bounds_def result_simps covered_def routine_error_def
      split: option.splits)

lemma missing_from_routine:
  "covered c \<Longrightarrow> missing_from (ck_bounds c) present stop cursor = Inl e \<Longrightarrow> routine_error e"
proof (induction "ck_bounds c" present stop cursor rule: missing_from.induct)
  case (1 present stop cursor)
  have le: "cursor + minutes 1 \<le> stop"
    using "1.prems"(2) by (subst (asm) missing_from.simps) (auto split: if_splits)
  then have "ck_bounds c cursor = Inl e
      \<or> missing_from (ck_bounds c) present stop (cursor + minutes 1) = Inl e"
    using "1.prems"(2) by (subst (asm) missing_from.simps) (auto simp: result_simps)
  then show ?case using "1.hyps"[OF le "1.prems"(1)] ck_bounds_routine[OF "1.prems"(1)]
    by (metis sum.exhaust)
qed

lemma missing_intervals_routine:
  "covered c \<Longrightarrow> missing_intervals c bars start stop as_of = Inl e \<Longrightarrow> routine_error e"
  using missing_from_routine by (auto simp: missing_intervals_def routine_error_def split: if_splits)

lemma scan_routine:
  "covered c \<Longrightarrow> scan c cutoff bs (av, gs) = Inl e \<Longrightarrow> routine_error e"
proof (induction bs arbitrary: av gs)
  case (Cons b bs)
  show ?case
  proof (cases "b_interval_minutes b \<noteq> 1 \<or> cutoff < available_at b")
    case True
    then show ?thesis using Cons by (auto simp: routine_error_def split: if_splits)
  next
    case False
    then show ?thesis using Cons.prems(2) Cons.IH[OF Cons.prems(1)]
        check_routine[OF Cons.prems(1)] ck_bounds_routine[OF Cons.prems(1)]
      by (auto simp: rbind_Inl_iff split: option.splits if_splits)
  qed
qed simp

lemma aggregate_bars_routine:
  assumes "covered c" "aggregate_bars dump c bars cutoff = Inl e"
  shows "routine_error e"
  using assms(2) unfolding aggregate_bars_def rbind_Inl_iff
proof (elim disjE exE conjE)
  assume "scan c cutoff (arrival_order bars) ([], []) = Inl e"
  then show ?thesis by (rule scan_routine[OF assms(1)])
next
  fix r assume "(case r of (available, groups) \<Rightarrow>
       rmap (\<lambda>k. reduce_group dump cutoff k (group_of groups k)) (group_keys groups)) = Inl e"
  then obtain k g where "reduce_group dump cutoff k g = Inl e"
    by (auto dest!: rmap_Inl split: prod.splits)
  then obtain x where "mk_bar x = Inl e"
    unfolding reduce_group_def Let_def by (cases k) auto
  then show ?thesis by (auto simp: mk_bar_def routine_error_def split: if_splits)
qed

subsection \<open>Properties\<close>

text \<open>
  Loading history from a recording never trips the service's own guards: whatever the recording
  holds, with a clock that does not run backwards during the call, a load of one-minute bars fails only
  for a day outside the calendar, an invalid window or an unnamed instrument, and never because the
  provider returned data outside the request or a bar not yet available.
\<close>

theorem recorded_load_errors:
  assumes "\<forall>n. clk 0 \<le> clk n" and "ck_calendar c = session_on cal"
    and "\<forall>b\<in>set (rd_bars r). b_interval_minutes b = 1" and "fixed_new d = Inr clock"
    and "fst (load_history dump c (historical_bars (r, clock)) clk i start stop s) = Inl e"
  shows "e \<noteq> ValueError ''provider returned data outside request scope''
    \<and> e \<noteq> ValueError ''bar is unavailable at current clock time''"
proof -
  have cov: "covered c" using session_on_error by (auto simp: covered_def assms(2))
  have "aware (fixed_now clock)" using assms(4) fixed_new_ok by (auto simp: fixed_ok_def fixed_now_def)
  then obtain bars where bars: "historical_bars (r, clock) i start stop (clk 0) = Inr bars"
    by (simp add: historical_bars_def utc_def)
  then have one: "\<forall>b\<in>set bars. b_interval_minutes b = 1"
    using assms(3) by (auto simp: historical_bars_def result_simps Let_def)
  have "routine_error e"
    using recorded.load_never_rejects_provider[OF assms(1) bars one assms(5)]
      check_routine[OF cov] missing_intervals_routine[OF cov] aggregate_bars_routine[OF cov]
    by (auto simp: canonical_bars_def)
  then show ?thesis by (auto simp: routine_error_def)
qed

lemma example_load_error:
  "fst (load_history (\<lambda>b. []) example_checker (historical_bars (example_recording, \<lparr>fc_instant = Aware 0 0\<rparr>))
      (\<lambda>n. 0) ''A'' 0 0 (service_new [] example_tracker no_metrics))
     = Inl (ValueError ''missing interval window must be ordered and minute-aligned'')"
  by (simp add: load_history_def historical_bars_def utc_def fixed_now_def example_recording_def
      example_bar_def minutes_def available_at_def arrival_order_def missing_intervals_def Let_def)

theorem recorded_load_errors_witness:
  "ValueError ''missing interval window must be ordered and minute-aligned''
     \<noteq> ValueError ''bar is unavailable at current clock time''"
proof -
  have "ck_calendar example_checker = session_on nse_2026" by (simp add: example_checker_def)
  moreover have "\<forall>b\<in>set (rd_bars example_recording). b_interval_minutes b = 1"
    by (simp add: example_recording_def example_bar_def)
  moreover have "fixed_new (Aware 0 0) = Inr \<lparr>fc_instant = Aware 0 0\<rparr>"
    by (simp add: fixed_new_def require_aware_def)
  ultimately show ?thesis using recorded_load_errors[OF _ _ _ _ example_load_error] by simp
qed

text \<open>
  Repeats never pass for data: after any history of ingested bars and quotes, loads, health checks
  and refreshes, of two kept bars with the same instrument, source and start the later one carries the
  DUPLICATE flag, and every kept bar has been written to the normalized store as it is kept.
\<close>

theorem service_repeats_flagged:
  assumes "sv_bars (service_run dump c hist snap ops (service_new st tr m)) = xs @ b1 # ys @ b2 # zs"
    and "bar_key b1 = bar_key b2"
  shows "DUPLICATE \<in> b_quality_flags b2
    \<and> (dq_normalization_version (ck_settings c), Obs_Bar b2)
        \<in> set (sv_storage (service_run dump c hist snap ops (service_new st tr m)))"
proof -
  let ?s = "service_run dump c hist snap ops (service_new st tr m)"
  have inv: "service_inv c ?s" by (rule service_run_inv[OF service_new_inv])
  have len: "length xs + Suc (length ys) < length (sv_bars ?s)" using assms(1) by simp
  have at: "sv_bars ?s ! length xs = b1" "sv_bars ?s ! (length xs + Suc (length ys)) = b2"
    using assms(1) by (simp_all add: nth_append)
  have "DUPLICATE \<in> b_quality_flags (sv_bars ?s ! (length xs + Suc (length ys)))"
    by (rule service_inv_repeat[OF inv len, of "length xs"]) (simp, simp only: at assms(2))
  moreover have "b2 \<in> set (sv_bars ?s)" using assms(1) by simp
  ultimately show ?thesis using service_inv_stored[OF inv] at(2) by simp
qed

lemma example_check_Inr: "\<exists>b'. check example_checker (example_bar ''A'' 1783396200000000 100) None = Inr b'"
  using example_bounds_20641 by (simp add: check_def example_bar_def)

theorem service_repeats_flagged_witness:
  "\<exists>b1 b2. sv_bars (service_run (\<lambda>b. []) example_checker (\<lambda>i a b c. Inr []) (\<lambda>i. Inl OverflowError)
        [Sv_Bar 1783396260000000 (example_bar ''A'' 1783396200000000 100),
         Sv_Bar 1783396260000000 (example_bar ''A'' 1783396200000000 100)]
        (service_new [] example_tracker no_metrics)) = [b1, b2] \<and> DUPLICATE \<in> b_quality_flags b2"
proof -
  let ?b = "example_bar ''A'' 1783396200000000 100"
  let ?ops = "[Sv_Bar 1783396260000000 ?b, Sv_Bar 1783396260000000 ?b]"
  let ?s0 = "service_new [] example_tracker no_metrics"
  obtain b' where b': "check example_checker ?b None = Inr b'" using example_check_Inr by blast
  have key: "bar_key b' = bar_key ?b" "b_start b' = b_start ?b" "b_end b' = b_end ?b"
    using check_simps[OF b'] by (simp_all add: bar_key_def)
  have times: "b_interval_minutes ?b = 1" "available_at ?b \<le> 1783396260000000" "\<not> b_end ?b \<le> b_start ?b"
    by (simp_all add: example_bar_def available_at_def minutes_def)
  let ?s1 = "snd (ingest_bar example_checker 1783396260000000 ?b ?s0)"
  have s1: "sv_bars ?s1 = [b']" "sv_seen ?s1 = {bar_key ?b}"
    using b' times by (simp_all add: ingest_bar_def service_new_def previous_bar_def Let_def)
  have "previous_bar [b'] ?b = None" using key times by (simp add: previous_bar_def)
  then have bars: "sv_bars (service_run (\<lambda>b. []) example_checker (\<lambda>i a b c. Inr []) (\<lambda>i. Inl OverflowError) ?ops ?s0)
      = [] @ b' # [] @ b'\<lparr>b_quality_flags := b_quality_flags b' \<union> {DUPLICATE}\<rparr> # []"
    using s1 b' times by (simp add: service_run_def ingest_bar_def[of _ _ _ ?s1] Let_def)
  have "bar_key b' = bar_key (b'\<lparr>b_quality_flags := b_quality_flags b' \<union> {DUPLICATE}\<rparr>)"
    by (simp add: bar_key_def)
  from service_repeats_flagged[OF bars this] bars show ?thesis by auto
qed

text \<open>
  A window is reported healthy only when it is whole: provided the window had ended at the first
  clock reading of the call, HEALTHY means that every session minute of the window has a complete,
  unflagged one-minute bar of the instrument and source among the bars kept, available by then.
\<close>

theorem window_health_sound:
  assumes "window_health c clk i source start stop s = (Inr h, s')" and "ch_status h = HEALTHY"
    and "stop \<le> clk 0"
    and "start \<le> m" "m + minutes 1 \<le> stop" "(m - start) mod minutes 1 = 0"
    and "ck_bounds c m = Inr bs" "expected_minute bs m"
  shows "\<exists>b\<in>set (sv_bars s). b_start b = m \<and> b_instrument_id b = i \<and> b_source b = source
    \<and> b_interval_minutes b = 1 \<and> b_complete b \<and> b_quality_flags b = {} \<and> available_at b \<le> clk 0"
proof -
  let ?bars = "window_bars i source start stop s"
  obtain missing where miss: "missing_intervals c ?bars start stop (clk 0) = Inr missing"
    using assms(1) by (auto simp: window_health_def Let_def split: sum.splits)
  then have "missing = [] \<and> list_all (\<lambda>b. b_quality_flags b = {}) ?bars"
    using assms(1,2) by (auto simp: window_health_def Let_def list_ex_iff list_all_iff split: if_splits)
  then have ready: "missing = []" "\<forall>b\<in>set ?bars. b_quality_flags b = {}"
    by (auto simp: list_all_iff)
  have "missing_from (ck_bounds c) (present_starts ?bars (clk 0)) (min stop (clk 0)) start = Inr []"
    using miss ready(1) by (auto simp: missing_intervals_def split: if_splits)
  then have "m \<in> present_starts ?bars (clk 0)"
    using missing_from_complete[where bounds = "ck_bounds c" and present = "present_starts ?bars (clk 0)"
        and m = m and bs = bs and cursor = start and stop = "min stop (clk 0)" and ms = "[]"]
      assms(3,4,5,6,7,8) by auto
  then obtain b where "b \<in> set ?bars" "b_start b = m" "b_interval_minutes b = 1" "b_complete b"
    "available_at b \<le> clk 0" by (auto simp: present_starts_def)
  then show ?thesis using ready(2) by (auto simp: window_bars_def)
qed

definition example_service :: "bar list \<Rightarrow> service" where
  "example_service bars = (service_new [] example_tracker no_metrics)\<lparr>sv_bars := bars\<rparr>"

lemma example_window:
  "missing_intervals example_checker [example_bar ''A'' 1783396200000000 100] 1783396200000000
     1783396260000000 1783396260000000 = Inr []"
  by code_simp

theorem window_health_sound_witness:
  "\<exists>b\<in>set (sv_bars (example_service [example_bar ''A'' 1783396200000000 100])).
     b_start b = 1783396200000000 \<and> b_complete b \<and> b_quality_flags b = {}"
proof -
  let ?b = "example_bar ''A'' 1783396200000000 100"
  have win: "window_bars ''A'' ''vendor'' 1783396200000000 1783396260000000 (example_service [?b]) = [?b]"
    by (simp add: window_bars_def example_service_def example_bar_def)
  have clean: "b_quality_flags ?b = {}" by (simp add: example_bar_def)
  obtain h s' where h: "window_health example_checker (\<lambda>n. 1783396260000000) ''A'' ''vendor''
      1783396200000000 1783396260000000 (example_service [?b]) = (Inr h, s')" "ch_status h = HEALTHY"
    using example_window by (auto simp: window_health_def win Let_def clean)
  have "expected_minute (Some (1783395900000000, 1783418400000000)) 1783396200000000"
    using total_seconds_whole[of 300] by (simp add: expected_minute_def minutes_def fmod_def microseconds_def)
  from window_health_sound[OF h _ _ _ _ example_bounds_20641 this] show ?thesis
    by (auto simp: minutes_def)
qed

text \<open>
  The premise on the first reading matters: the three readings of \<open>window_health\<close> are separate calls of
  the clock.  When the window ends between the first and the second one, the minutes that end with the
  window are not looked for, and a window whose last minute is absent is reported healthy.
\<close>

lemma window_health_race:
  "\<exists>h s'. window_health example_checker (\<lambda>n. if n = 0 then 1783396319999999 else 1783396320000000)
      ''A'' ''vendor'' 1783396200000000 1783396320000000
      (example_service [example_bar ''A'' 1783396200000000 100]) = (Inr h, s')
    \<and> ch_status h = HEALTHY"
proof -
  let ?b = "example_bar ''A'' 1783396200000000 100"
  have "missing_intervals example_checker [?b] 1783396200000000 1783396320000000 1783396319999999 = Inr []"
    by code_simp
  moreover have "window_bars ''A'' ''vendor'' 1783396200000000 1783396320000000 (example_service [?b]) = [?b]"
    by (simp add: window_bars_def example_service_def example_bar_def)
  moreover have "b_quality_flags ?b = {}" by (simp add: example_bar_def)
  ultimately show ?thesis by (auto simp: window_health_def Let_def)
qed

end
