(* ===== verification/Json.thy ===== *)
theory Json
  imports Prelude
begin

text \<open>
  JSON values and the canonical text \<open>json.dumps(value, sort_keys=True, separators=(",", ":"))\<close> that
  \<open>core/events/serialization.py\<close> and \<open>storage/postgres.py\<close> hash.  A number is kept as the text Python
  writes for it.  The text determines the value up to the order of keys, whatever its strings contain.
\<close>

datatype json =
    JNull
  | JBool bool
  | JNum string
  | JStr string
  | JArr "json list"
  | JObj "(string \<times> json) list"

subsection \<open>Strings\<close>

definition hex_digit :: "nat \<Rightarrow> char" where
  "hex_digit n = (if n < 10 then char_of (48 + n) else char_of (87 + n))"

text \<open>The escapes of \<open>json.dumps\<close> with \<open>ensure_ascii\<close>.\<close>

definition escape_char :: "char \<Rightarrow> string" where
  "escape_char c =
     (if c = CHR 0x22 then [CHR 0x5C, CHR 0x22]
      else if c = CHR 0x5C then [CHR 0x5C, CHR 0x5C]
      else if c = CHR 0x0A then [CHR 0x5C, CHR ''n'']
      else if c = CHR 0x0D then [CHR 0x5C, CHR ''r'']
      else if c = CHR 0x09 then [CHR 0x5C, CHR ''t'']
      else if c = CHR 0x0C then [CHR 0x5C, CHR ''f'']
      else if c = CHR 0x08 then [CHR 0x5C, CHR ''b'']
      else if 32 \<le> (of_char c :: nat) \<and> (of_char c :: nat) \<le> 126 then [c]
      else [CHR 0x5C, CHR ''u'', CHR ''0'', CHR ''0'', hex_digit (of_char c div 16), hex_digit (of_char c mod 16)])"

definition quote_string :: "string \<Rightarrow> string" where
  "quote_string s = CHR 0x22 # concat (map escape_char s) @ [CHR 0x22]"

text \<open>A reader of one escaped character, used to see that the escapes determine it.\<close>

definition unhex :: "char \<Rightarrow> nat" where
  "unhex c = (if (of_char c :: nat) < 58 then of_char c - 48 else of_char c - 87)"

fun read_char :: "string \<Rightarrow> (char \<times> string) option" where
  "read_char [] = None"
| "read_char (c # r) =
     (if c = CHR 0x22 then None
      else if c \<noteq> CHR 0x5C then Some (c, r)
      else case r of
        [] \<Rightarrow> None
      | d # r' \<Rightarrow>
          if d = CHR ''n'' then Some (CHR 0x0A, r')
          else if d = CHR ''r'' then Some (CHR 0x0D, r')
          else if d = CHR ''t'' then Some (CHR 0x09, r')
          else if d = CHR ''f'' then Some (CHR 0x0C, r')
          else if d = CHR ''b'' then Some (CHR 0x08, r')
          else if d = CHR ''u'' then
            (case r' of
               _ # _ # h # l # r'' \<Rightarrow> Some (char_of (16 * unhex h + unhex l), r'')
             | _ \<Rightarrow> None)
          else Some (d, r'))"

lemma unhex_hex [simp]: "n < 16 \<Longrightarrow> unhex (hex_digit n) = n"
  by (auto simp: unhex_def hex_digit_def)

lemma read_escape: "read_char (escape_char c @ r) = Some (c, r)"
proof -
  have "(of_char c :: nat) div 16 < 16" using nat_of_char_less_256[of c] by linarith
  then have "16 * unhex (hex_digit (of_char c div 16)) + unhex (hex_digit (of_char c mod 16)) = of_char c"
    by simp
  then have "char_of (16 * unhex (hex_digit (of_char c div 16)) + unhex (hex_digit (of_char c mod 16))) = c"
    by (simp only: char_of_char)
  then show ?thesis by (simp add: escape_char_def)
qed

lemma escape_inj: "escape_char c @ r = escape_char d @ r' \<Longrightarrow> c = d \<and> r = r'"
  using read_escape[of c r] read_escape[of d r'] by (metis option.inject prod.inject)

lemma escape_not_quote: "escape_char c @ r \<noteq> CHR 0x22 # r'"
  using read_escape[of c r] by (metis option.distinct(1) read_char.simps(2))

lemma quote_inj_body:
  "concat (map escape_char s) @ CHR 0x22 # r = concat (map escape_char t) @ CHR 0x22 # r'
     \<Longrightarrow> s = t \<and> r = r'"
proof (induction s arbitrary: t)
  case Nil
  then show ?case
  proof (cases t)
    case (Cons d t')
    have "escape_char d @ (concat (map escape_char t') @ CHR 0x22 # r') = CHR 0x22 # r"
      using Nil Cons by simp
    then show ?thesis using escape_not_quote by blast
  qed simp
next
  case (Cons c s)
  show ?case
  proof (cases t)
    case Nil
    have "escape_char c @ (concat (map escape_char s) @ CHR 0x22 # r) = CHR 0x22 # r'"
      using Cons.prems Nil by simp
    then show ?thesis using escape_not_quote by blast
  next
    case t: (Cons d t')
    have "escape_char c @ (concat (map escape_char s) @ CHR 0x22 # r)
        = escape_char d @ (concat (map escape_char t') @ CHR 0x22 # r')"
      using Cons.prems t by simp
    then have "c = d \<and> concat (map escape_char s) @ CHR 0x22 # r = concat (map escape_char t') @ CHR 0x22 # r'"
      by (rule escape_inj)
    then show ?thesis using Cons.IH[of t'] t by blast
  qed
qed

lemma quote_inj: "quote_string s @ r = quote_string t @ r' \<Longrightarrow> s = t \<and> r = r'"
  using quote_inj_body[of s r t r'] by (simp add: quote_string_def)

subsection \<open>Values\<close>

definition enclose :: "char \<Rightarrow> char \<Rightarrow> string list \<Rightarrow> string" where
  "enclose a b parts = a # join [CHR '','' ] parts @ [b]"

fun json_dumps :: "json \<Rightarrow> string" where
  "json_dumps JNull = ''null''"
| "json_dumps (JBool b) = (if b then ''true'' else ''false'')"
| "json_dumps (JNum t) = t"
| "json_dumps (JStr s) = quote_string s"
| "json_dumps (JArr xs) = enclose (CHR ''['') (CHR '']'') (map json_dumps xs)"
| "json_dumps (JObj kvs) =
     enclose (CHR ''{'') (CHR ''}'')
       (map (\<lambda>(k, t). quote_string k @ CHR '':'' # t)
          (sort_key fst (map (\<lambda>(k, v). (k, json_dumps v)) kvs)))"

text \<open>Equality of the Python values: the order of the keys of a dictionary does not count.\<close>

fun canon :: "json \<Rightarrow> json" where
  "canon (JArr xs) = JArr (map canon xs)"
| "canon (JObj kvs) = JObj (sort_key fst (map (\<lambda>(k, v). (k, canon v)) kvs))"
| "canon j = j"

text \<open>Number texts and the texts that may follow a value.\<close>

definition number_text :: "string \<Rightarrow> bool" where
  "number_text t \<longleftrightarrow> t \<noteq> [] \<and> set t \<inter> set '',]}'' = {} \<and> hd t \<notin> set ''ntf[{'' \<and> hd t \<noteq> CHR 0x22"

fun wf_json :: "json \<Rightarrow> bool" where
  "wf_json (JNum t) = number_text t"
| "wf_json (JArr xs) = list_all wf_json xs"
| "wf_json (JObj kvs) = (distinct (map fst kvs) \<and> list_all (\<lambda>(k, v). wf_json v) kvs)"
| "wf_json j = True"

definition delimited :: "string \<Rightarrow> bool" where
  "delimited r \<longleftrightarrow> r = [] \<or> hd r \<in> set '',]}''"

subsection \<open>The text determines the value\<close>

lemma number_text_inj:
  assumes "number_text s" "number_text t" "delimited r" "delimited r'" "s @ r = t @ r'"
  shows "s = t \<and> r = r'"
proof -
  have take: "takeWhile (\<lambda>c. c \<notin> set '',]}'') (u @ q) = u" if "number_text u" "delimited q" for u q
    using that by (cases q) (auto simp: number_text_def delimited_def takeWhile_append)
  have "s = t" using take[OF assms(1,3)] take[OF assms(2,4)] assms(5) by metis
  then show ?thesis using assms(5) by simp
qed

text \<open>The first character of a text tells the constructor.\<close>

fun tag :: "json \<Rightarrow> char \<Rightarrow> bool" where
  "tag JNull c = (c = CHR ''n'')"
| "tag (JBool b) c = (c = (if b then CHR ''t'' else CHR ''f''))"
| "tag (JNum t) c = (c \<notin> set ''ntf[{'' \<and> c \<noteq> CHR 0x22)"
| "tag (JStr s) c = (c = CHR 0x22)"
| "tag (JArr xs) c = (c = CHR ''['')"
| "tag (JObj kvs) c = (c = CHR ''{'')"

lemma dumps_tag: "wf_json j \<Longrightarrow> \<exists>c t. json_dumps j = c # t \<and> tag j c"
  by (cases j) (auto simp: quote_string_def enclose_def number_text_def neq_Nil_conv)

text \<open>Lists of texts, each of which is determined by what it is followed by.\<close>

definition readable :: "string \<Rightarrow> string \<Rightarrow> bool" where
  "readable s t \<longleftrightarrow> (\<forall>r r'. delimited r \<longrightarrow> delimited r' \<longrightarrow> s @ r = t @ r' \<longrightarrow> s = t)"

lemma join_inj:
  assumes "join [CHR '',''] ss @ b # r = join [CHR '',''] ts @ b # r'"
    and "b \<in> {CHR '']'', CHR ''}''}"
    and "\<forall>s\<in>set ss. \<forall>t\<in>set ts. readable s t"
    and "\<forall>s\<in>set ss. s \<noteq> [] \<and> hd s \<notin> set '',]}''" "\<forall>t\<in>set ts. t \<noteq> [] \<and> hd t \<notin> set '',]}''"
  shows "ss = ts \<and> r = r'"
  using assms
proof (induction ss arbitrary: ts rule: induct_list012)
  case 1
  then show ?case by (cases ts rule: remdups_adj.cases) (auto simp: neq_Nil_conv)
next
  case (2 x)
  have x: "x \<noteq> []" "hd x \<notin> set '',]}''" using 2 by auto
  show ?case
  proof (cases ts rule: remdups_adj.cases)
    case 1
    then show ?thesis using 2 x by (auto simp: neq_Nil_conv)
  next
    case (2 y)
    have "delimited (b # r)" "delimited (b # r')" using "2.prems"(2) by (auto simp: delimited_def)
    moreover have "readable x y" using "2.prems"(3) 2 by simp
    moreover have "x @ b # r = y @ b # r'" using "2.prems"(1) 2 by simp
    ultimately show ?thesis using 2 unfolding readable_def by (metis list.inject append_same_eq same_append_eq)
  next
    case (3 y z zs)
    have "delimited (b # r)" "delimited (CHR '','' # join [CHR '',''] (z # zs) @ b # r')"
      using "2.prems"(2) by (auto simp: delimited_def)
    moreover have "readable x y" using "2.prems"(3) 3 by simp
    moreover have eq: "x @ b # r = y @ CHR '','' # join [CHR '',''] (z # zs) @ b # r'"
      using "2.prems"(1) 3 by simp
    ultimately have "x = y" unfolding readable_def by blast
    then show ?thesis using eq "2.prems"(2) by auto
  qed
next
  case (3 x y zs)
  show ?case
  proof (cases ts rule: remdups_adj.cases)
    case 1
    then show ?thesis using 3 by (auto simp: neq_Nil_conv)
  next
    case (2 y')
    have "delimited (b # r')" "delimited (CHR '','' # join [CHR '',''] (y # zs) @ b # r)"
      using "3.prems"(2) by (auto simp: delimited_def)
    moreover have "readable x y'" using "3.prems"(3) 2 by simp
    moreover have eq: "x @ CHR '','' # join [CHR '',''] (y # zs) @ b # r = y' @ b # r'"
      using "3.prems"(1) 2 by simp
    ultimately have "x = y'" unfolding readable_def by blast
    then show ?thesis using eq "3.prems"(2) by auto
  next
    case (3 y' z' zs')
    have "delimited (CHR '','' # join [CHR '',''] (z' # zs') @ b # r')"
      "delimited (CHR '','' # join [CHR '',''] (y # zs) @ b # r)"
      by (auto simp: delimited_def)
    moreover have "readable x y'" using "3.prems"(3) 3 by simp
    moreover have eq: "x @ CHR '','' # join [CHR '',''] (y # zs) @ b # r
        = y' @ CHR '','' # join [CHR '',''] (z' # zs') @ b # r'"
      using "3.prems"(1) 3 by simp
    ultimately have xy: "x = y'" unfolding readable_def by blast
    have "join [CHR '',''] (y # zs) @ b # r = join [CHR '',''] (z' # zs') @ b # r'" using eq xy by simp
    from "3.IH"(2)[OF this "3.prems"(2)] have "y # zs = z' # zs' \<and> r = r'"
      using "3.prems"(3,4,5) 3 by auto
    then show ?thesis using xy 3 by simp
  qed
qed

lemma insort_key_map:
  "insort_key fst (k, f v) (map (\<lambda>(k, v). (k, f v)) xs) = map (\<lambda>(k, v). (k, f v)) (insort_key fst (k, v) xs)"
  by (induction xs) auto

lemma sort_key_map: "sort_key fst (map (\<lambda>(k, v). (k, f v)) xs) = map (\<lambda>(k, v). (k, f v)) (sort_key fst xs)"
  by (induction xs) (auto simp: insort_key_map)

definition entry_text :: "string \<times> json \<Rightarrow> string" where
  "entry_text e = quote_string (fst e) @ CHR '':'' # json_dumps (snd e)"

lemma dumps_obj:
  "json_dumps (JObj kvs) = enclose (CHR ''{'') (CHR ''}'') (map entry_text (sort_key fst kvs))"
  by (simp add: sort_key_map case_prod_beta o_def entry_text_def[abs_def])

lemma canon_obj: "canon (JObj kvs) = JObj (map (\<lambda>(k, v). (k, canon v)) (sort_key fst kvs))"
  by (simp add: sort_key_map)

definition determines :: "json \<Rightarrow> json \<Rightarrow> bool" where
  "determines j j' \<longleftrightarrow> (\<forall>r r'. delimited r \<longrightarrow> delimited r' \<longrightarrow>
     json_dumps j @ r = json_dumps j' @ r' \<longrightarrow> canon j = canon j' \<and> r = r')"

lemma determines_readable: "determines j j' \<Longrightarrow> readable (json_dumps j) (json_dumps j')"
  unfolding determines_def readable_def by (metis append_same_eq)

lemma determines_canon: "determines j j' \<Longrightarrow> json_dumps j = json_dumps j' \<Longrightarrow> canon j = canon j'"
  unfolding determines_def by (metis delimited_def)

lemma dumps_start: "wf_json j \<Longrightarrow> json_dumps j \<noteq> [] \<and> hd (json_dumps j) \<notin> set '',]}''"
  by (cases j) (auto simp: quote_string_def enclose_def number_text_def neq_Nil_conv)

lemma map_eq_canon:
  "map f xs = map f ys \<Longrightarrow> (\<And>x y. x \<in> set xs \<Longrightarrow> y \<in> set ys \<Longrightarrow> f x = f y \<Longrightarrow> g x = g y)
     \<Longrightarrow> map g xs = map g ys"
  by (rule nth_equalityI) (auto simp: list_eq_iff_nth_eq)

lemma entry_readable:
  assumes "determines (snd e) (snd e')"
  shows "readable (entry_text e) (entry_text e')"
    and "entry_text e = entry_text e' \<Longrightarrow> fst e = fst e' \<and> canon (snd e) = canon (snd e')"
proof -
  have "fst e = fst e' \<and> json_dumps (snd e) @ r = json_dumps (snd e') @ r'"
    if "entry_text e @ r = entry_text e' @ r'" for r r'
    using that quote_inj[of "fst e" "CHR '':'' # json_dumps (snd e) @ r" "fst e'"]
    by (simp add: entry_text_def)
  then show "readable (entry_text e) (entry_text e')"
    "entry_text e = entry_text e' \<Longrightarrow> fst e = fst e' \<and> canon (snd e) = canon (snd e')"
    using determines_readable[OF assms] determines_canon[OF assms]
    unfolding readable_def entry_text_def by (metis, metis append_Nil2)
qed

lemma determines_arr:
  assumes "\<forall>x\<in>set xs. \<forall>y\<in>set ys. determines x y" "wf_json (JArr xs)" "wf_json (JArr ys)"
  shows "determines (JArr xs) (JArr ys)"
  unfolding determines_def
proof (intro allI impI)
  fix r r' assume eq: "json_dumps (JArr xs) @ r = json_dumps (JArr ys) @ r'"
  have "map json_dumps xs = map json_dumps ys \<and> r = r'"
  proof (rule join_inj)
    show "join [CHR '',''] (map json_dumps xs) @ CHR '']'' # r
        = join [CHR '',''] (map json_dumps ys) @ CHR '']'' # r'" using eq by (simp add: enclose_def)
  qed (use assms dumps_start determines_readable in \<open>auto simp: list_all_iff\<close>)
  moreover have "map canon xs = map canon ys" if "map json_dumps xs = map json_dumps ys"
    using that assms(1) determines_canon by (intro map_eq_canon[OF that]) blast
  ultimately show "canon (JArr xs) = canon (JArr ys) \<and> r = r'" by simp
qed

lemma determines_obj:
  assumes "\<forall>e\<in>set kvs. \<forall>e'\<in>set kvs'. determines (snd e) (snd e')"
  shows "determines (JObj kvs) (JObj kvs')"
  unfolding determines_def
proof (intro allI impI)
  fix r r' assume eq: "json_dumps (JObj kvs) @ r = json_dumps (JObj kvs') @ r'"
  let ?S = "sort_key fst kvs" and ?S' = "sort_key fst kvs'"
  have "map entry_text ?S = map entry_text ?S' \<and> r = r'"
  proof (rule join_inj)
    show "join [CHR '',''] (map entry_text ?S) @ CHR ''}'' # r
        = join [CHR '',''] (map entry_text ?S') @ CHR ''}'' # r'"
      using eq unfolding dumps_obj by (simp add: enclose_def)
  qed (use assms entry_readable(1) in \<open>auto simp: entry_text_def quote_string_def\<close>)
  moreover have "map (\<lambda>(k, v). (k, canon v)) ?S = map (\<lambda>(k, v). (k, canon v)) ?S'"
    if "map entry_text ?S = map entry_text ?S'"
    using assms entry_readable(2) by (intro map_eq_canon[OF that]) (fastforce split: prod.splits)
  ultimately show "canon (JObj kvs) = canon (JObj kvs') \<and> r = r'" unfolding canon_obj by blast
qed

lemma determines_tag:
  assumes "wf_json j" "wf_json j'" "\<And>c. tag j c \<Longrightarrow> tag j' c \<Longrightarrow> False"
  shows "determines j j'"
proof -
  obtain c t where c: "json_dumps j = c # t" "tag j c" using dumps_tag[OF assms(1)] by blast
  obtain d u where d: "json_dumps j' = d # u" "tag j' d" using dumps_tag[OF assms(2)] by blast
  have "c \<noteq> d" using assms(3) c(2) d(2) by blast
  then show ?thesis by (simp add: determines_def c(1) d(1))
qed

lemma determines_refl: "determines j j"
  by (simp add: determines_def)

lemma dumps_determines: "wf_json j \<Longrightarrow> wf_json j' \<Longrightarrow> determines j j'"
proof (induction j arbitrary: j')
  case (JArr xs)
  show ?case
  proof (cases "\<exists>ys. j' = JArr ys")
    case True
    then show ?thesis using JArr determines_arr by (auto simp: list_all_iff)
  next
    case False
    then show ?thesis by (intro determines_tag[OF JArr.prems]) (cases j'; simp split: if_splits)
  qed
next
  case (JObj kvs)
  show ?case
  proof (cases "\<exists>kvs'. j' = JObj kvs'")
    case True
    then obtain kvs' where j': "j' = JObj kvs'" by blast
    have "determines (snd e) (snd e')" if "e \<in> set kvs" "e' \<in> set kvs'" for e e'
    proof (rule JObj.IH[OF that(1)])
      show "snd e \<in> Basic_BNFs.snds e" by (cases e) simp
      show "wf_json (snd e)" "wf_json (snd e')" using JObj.prems j' that by (auto simp: list_all_iff)
    qed
    then show ?thesis unfolding j' by (intro determines_obj) blast
  next
    case False
    then show ?thesis by (intro determines_tag[OF JObj.prems]) (cases j'; simp split: if_splits)
  qed
next
  case (JNum t)
  show ?case
  proof (cases "\<exists>t'. j' = JNum t'")
    case True
    then obtain t' where j': "j' = JNum t'" by blast
    show ?thesis using number_text_inj[of t t'] JNum by (simp add: j' determines_def)
  next
    case False
    then show ?thesis by (intro determines_tag[OF JNum.prems]) (cases j'; simp split: if_splits)
  qed
next
  case (JStr t)
  show ?case
  proof (cases "\<exists>t'. j' = JStr t'")
    case True
    then obtain t' where j': "j' = JStr t'" by blast
    show ?thesis using quote_inj[of t _ t'] by (simp add: j' determines_def)
  next
    case False
    then show ?thesis by (intro determines_tag[OF JStr.prems]) (cases j'; simp split: if_splits)
  qed
next
  case JNull
  show ?case
  proof (cases "j' = JNull")
    case False
    then show ?thesis by (intro determines_tag[OF JNull.prems]) (cases j'; simp split: if_splits)
  qed (simp add: determines_refl)
next
  case (JBool b)
  show ?case
  proof (cases "j' = JBool b")
    case False
    then show ?thesis by (intro determines_tag[OF JBool.prems]) (cases j'; simp split: if_splits)
  qed (simp add: determines_refl)
qed

lemma dumps_canon: "json_dumps (canon j) = json_dumps j"
proof (induction j)
  case (JObj kvs)
  let ?S = "sort_key fst kvs"
  have "json_dumps (canon v) = json_dumps v" if "(k, v) \<in> set kvs" for k v
    using JObj[OF that] by simp
  then have "map entry_text (map (\<lambda>(k, v). (k, canon v)) ?S) = map entry_text ?S"
    by (auto simp: entry_text_def)
  moreover have "sort_key fst ?S = ?S" by (simp add: sort_key_id_if_sorted)
  ultimately show ?case unfolding canon_obj dumps_obj sort_key_map by (simp only:)
qed (simp_all add: o_def cong: map_cong)

lemma dumps_eq_iff:
  assumes "wf_json j" "wf_json j'"
  shows "json_dumps j = json_dumps j' \<longleftrightarrow> canon j = canon j'"
proof
  assume "json_dumps j = json_dumps j'"
  then show "canon j = canon j'" by (rule determines_canon[OF dumps_determines[OF assms]])
next
  assume "canon j = canon j'"
  then show "json_dumps j = json_dumps j'" using dumps_canon by metis
qed

end
