(* ===== verification/Events.thy ===== *)
theory Events
  imports Json Portfolio Market_Data Lifecycle
begin

text \<open>
  \<open>core/events/models.py\<close> and \<open>core/events/serialization.py\<close>: schema-1 events, the validators of their
  payloads and of the envelope, the canonical event text and the idempotency keys.  Timestamps are held
  after their \<open>utc\<close> validators.  SHA-256 and pydantic's dumps of nested models are the parameters of a
  \<open>codec\<close>; \<open>content_hash\<close> of \<open>features/models.py\<close> is defined from them.
\<close>

subsection \<open>Payloads\<close>

record provenance =
  pv_code_commit :: string
  pv_config_hash :: string
  pv_data_snapshot :: string
  pv_feature_version :: string

definition provenance_ok :: "provenance \<Rightarrow> bool" where
  "provenance_ok p \<longleftrightarrow> pv_code_commit p \<noteq> [] \<and> is_hex_digest (pv_config_hash p)
     \<and> pv_data_snapshot p \<noteq> [] \<and> pv_feature_version p \<noteq> []"

record named_value =
  nv_name :: string
  nv_value :: rat

record feature_update =
  fu_entity :: string
  fu_feature_version :: string
  fu_values :: "named_value list"
  fu_snapshot :: "feature_snapshot option"
  fu_definition :: "feature_set_version option"

record state_update =
  mu_state :: string
  mu_reasons :: "string list"
  mu_decision :: "state_decision option"

datatype decision_kind = ENSEMBLE_DECISION | PORTFOLIO_DECISION | RISK_DECISION

record decision =
  de_kind :: decision_kind
  de_decision_id :: uuid
  de_intent_id :: uuid
  de_accepted :: bool
  de_reasons :: "string list"
  de_ensemble :: "ensemble_decision option"
  de_portfolio :: "portfolio_decision option"

datatype order_kind =
    ORDER_PLAN_CREATED | ORDER_SUBMITTED | ORDER_ACKNOWLEDGED | ORDER_REJECTED | ORDER_CANCELLED
  | ORDER_UNKNOWN | ORDER_PARTIAL_FILL | ORDER_FILLED

record order_event =
  oe_kind :: order_kind
  oe_order_intent_id :: uuid
  oe_broker_order_id :: "string option"
  oe_reason :: string

record fill =
  fi_fill_id :: uuid
  fi_order_intent_id :: uuid
  fi_broker_order_id :: string
  fi_quantity :: rat
  fi_price :: rat

record position_update =
  pu_instrument_id :: string
  pu_quantity :: rat
  pu_reason :: string

record reconciliation =
  rc_scope :: string
  rc_matched :: bool
  rc_reasons :: "string list"

record health_event =
  he_component :: string
  he_status :: health_status
  he_blocking :: bool
  he_reason :: string
  he_alpha_snapshot :: "alpha_health_snapshot option"

datatype payload =
    Bar_Close bar
  | Quote_Update quote
  | Feature_Update feature_update
  | Market_State_Update state_update
  | Signal_Intent signal_intent
  | Pair_Intent pair_intent
  | Relative_Intent relative_intent
  | Decision_Event decision
  | Order_Event order_event
  | Fill_Event fill
  | Position_Update position_update
  | Reconciliation_Event reconciliation
  | Health_Event health_event

record event =
  ee_event_id :: uuid
  ee_correlation_id :: uuid
  ee_occurred_at :: instant
  ee_received_at :: instant
  ee_source :: string
  ee_provenance :: provenance
  ee_payload :: payload

record state_snapshot =
  ys_scope :: string
  ys_state :: system_state
  ys_mode :: trading_mode
  ys_kill_switch :: bool
  ys_broker_health :: string
  ys_data_health :: string
  ys_release_id :: string
  ys_last_event_id :: uuid
  ys_updated_at :: instant

fun decision_kind_name :: "decision_kind \<Rightarrow> string" where
  "decision_kind_name ENSEMBLE_DECISION = ''ENSEMBLE_DECISION''"
| "decision_kind_name PORTFOLIO_DECISION = ''PORTFOLIO_DECISION''"
| "decision_kind_name RISK_DECISION = ''RISK_DECISION''"

fun order_kind_name :: "order_kind \<Rightarrow> string" where
  "order_kind_name ORDER_PLAN_CREATED = ''ORDER_PLAN_CREATED''"
| "order_kind_name ORDER_SUBMITTED = ''ORDER_SUBMITTED''"
| "order_kind_name ORDER_ACKNOWLEDGED = ''ORDER_ACKNOWLEDGED''"
| "order_kind_name ORDER_REJECTED = ''ORDER_REJECTED''"
| "order_kind_name ORDER_CANCELLED = ''ORDER_CANCELLED''"
| "order_kind_name ORDER_UNKNOWN = ''ORDER_UNKNOWN''"
| "order_kind_name ORDER_PARTIAL_FILL = ''ORDER_PARTIAL_FILL''"
| "order_kind_name ORDER_FILLED = ''ORDER_FILLED''"

text \<open>\<open>event.payload.kind\<close>.\<close>

fun payload_kind :: "payload \<Rightarrow> string" where
  "payload_kind (Bar_Close b) = ''BAR_CLOSE''"
| "payload_kind (Quote_Update q) = ''QUOTE_UPDATE''"
| "payload_kind (Feature_Update u) = ''FEATURE_UPDATE''"
| "payload_kind (Market_State_Update u) = ''MARKET_STATE_UPDATE''"
| "payload_kind (Signal_Intent i) = ''SIGNAL_INTENT''"
| "payload_kind (Pair_Intent i) = ''PAIR_SIGNAL_INTENT''"
| "payload_kind (Relative_Intent i) = ''RELATIVE_VALUE_INTENT''"
| "payload_kind (Decision_Event d) = decision_kind_name (de_kind d)"
| "payload_kind (Order_Event oe) = order_kind_name (oe_kind oe)"
| "payload_kind (Fill_Event f) = ''FILL''"
| "payload_kind (Position_Update p) = ''POSITION_UPDATE''"
| "payload_kind (Reconciliation_Event r) = ''RECONCILIATION''"
| "payload_kind (Health_Event h) = ''HEALTH''"

subsection \<open>The codec\<close>

text \<open>
  \<open>model_dump(mode="json")\<close> and \<open>model_validate\<close> of the models, and SHA-256 as a hexadecimal digest.
\<close>

record codec =
  co_sha256 :: "string \<Rightarrow> string"
  co_event :: "event \<Rightarrow> json"
  co_state :: "state_snapshot \<Rightarrow> json"
  co_definition :: "feature_set_version \<Rightarrow> json"
  co_features :: "feature_snapshot \<Rightarrow> json"
  co_context :: "feature_context \<Rightarrow> json"
  co_decision :: "state_decision \<Rightarrow> json"
  co_intent :: "alpha_intent \<Rightarrow> json"
  co_health :: "alpha_health_snapshot \<Rightarrow> json"
  co_ensemble :: "ensemble_decision \<Rightarrow> json"
  co_portfolio :: "portfolio_decision \<Rightarrow> json"
  co_observation :: "observation \<Rightarrow> json"
  co_master :: "instrument_master \<Rightarrow> json"
  co_instrument :: "instrument \<Rightarrow> json"
  co_read_event :: "json \<Rightarrow> event result"
  co_read_state :: "json \<Rightarrow> state_snapshot result"
  co_read_features :: "json \<Rightarrow> feature_snapshot result"
  co_read_decision :: "json \<Rightarrow> state_decision result"
  co_read_intent :: "json \<Rightarrow> alpha_intent result"
  co_read_health :: "json \<Rightarrow> alpha_health_snapshot result"
  co_read_ensemble :: "json \<Rightarrow> ensemble_decision result"
  co_read_portfolio :: "json \<Rightarrow> portfolio_decision result"
  co_read_master :: "json \<Rightarrow> instrument_master result"

text \<open>\<open>content_hash\<close> of the models and \<open>_hash\<close> of the repository.\<close>

definition hash_json :: "codec \<Rightarrow> json \<Rightarrow> string" where
  "hash_json C j = co_sha256 C (json_dumps j)"

definition version_hash :: "codec \<Rightarrow> feature_set_version \<Rightarrow> string" where
  "version_hash C d = hash_json C (co_definition C d)"

definition snapshot_hash :: "codec \<Rightarrow> feature_snapshot \<Rightarrow> string" where
  "snapshot_hash C s = hash_json C (co_features C s)"

definition context_hash :: "codec \<Rightarrow> feature_context \<Rightarrow> string" where
  "context_hash C c = hash_json C (co_context C c)"

definition decision_hash :: "codec \<Rightarrow> state_decision \<Rightarrow> string" where
  "decision_hash C d = hash_json C (co_decision C d)"

definition health_hash :: "codec \<Rightarrow> alpha_health_snapshot \<Rightarrow> string" where
  "health_hash C h = hash_json C (co_health C h)"

subsection \<open>Validators\<close>

definition feature_identity :: "codec \<Rightarrow> feature_update \<Rightarrow> unit result" where
  "feature_identity C u =
     (case (fu_snapshot u, fu_definition u) of
        (None, None) \<Rightarrow> Inr ()
      | (Some s, Some d) \<Rightarrow>
          if fu_feature_version u \<noteq> version_hash C d \<or> sn_feature_set_hash s \<noteq> fu_feature_version u
             \<or> sn_entity s \<noteq> fu_entity u
          then Inl (ValueError ''feature version or entity mismatch'')
          else if fu_values u \<noteq> map (\<lambda>v. \<lparr>nv_name = fv_name v, nv_value = dec_of_float (the (fv_value v))\<rparr>)
                    (filter (\<lambda>v. fv_value v \<noteq> None) (sn_values s))
          then Inl (ValueError ''feature values disagree with snapshot'')
          else Inr ()
      | _ \<Rightarrow> Inl (ValueError ''feature snapshot and definition must be supplied together''))"

definition consistent_decision :: "state_update \<Rightarrow> unit result" where
  "consistent_decision u =
     (case mu_decision u of
        None \<Rightarrow> Inr ()
      | Some d \<Rightarrow> ensure (mu_state u = market_state_name (sd_state d) \<and> mu_reasons u = se_reasons (sd_evidence d))
                   (ValueError ''market-state event disagrees with decision''))"

definition consistent_signal :: "signal_intent \<Rightarrow> unit result" where
  "consistent_signal i =
     (if (si_score i = None) \<noteq> (si_evidence i = None) then
        Inl (ValueError ''scored intent requires evidence'')
      else case si_evidence i of
        None \<Rightarrow> Inr ()
      | Some e \<Rightarrow> ensure (si_alpha_id i = ev_alpha_id e \<and> si_side i = ev_side e
                     \<and> si_instrument_id i = ev_instrument_id e \<and> si_score i = Some (ev_score e))
                   (ValueError ''intent differs from alpha evidence''))"

definition allocation_kind :: "decision \<Rightarrow> unit result" where
  "allocation_kind d =
     (if (case de_ensemble d of None \<Rightarrow> False
          | Some e \<Rightarrow> de_kind d \<noteq> ENSEMBLE_DECISION \<or> de_decision_id d \<noteq> ed_decision_id e)
      then Inl (ValueError ''ensemble payload identity mismatch'')
      else if (case de_portfolio d of None \<Rightarrow> False
          | Some p \<Rightarrow> de_kind d \<noteq> PORTFOLIO_DECISION \<or> de_decision_id d \<noteq> pd_decision_id p)
      then Inl (ValueError ''portfolio payload identity mismatch'')
      else Inr ())"

fun payload_check :: "codec \<Rightarrow> payload \<Rightarrow> unit result" where
  "payload_check C (Feature_Update u) = rbind
     (ensure (list_all (\<lambda>v. nv_name v \<noteq> []) (fu_values u)) (ValueError ''String should have at least 1 character''))
     (\<lambda>_. feature_identity C u)"
| "payload_check C (Market_State_Update u) = consistent_decision u"
| "payload_check C (Signal_Intent i) = rbind
     (ensure (case si_score i of None \<Rightarrow> True | Some s \<Rightarrow> 0 \<le> s \<and> s \<le> 1) (ValueError ''score out of range''))
     (\<lambda>_. consistent_signal i)"
| "payload_check C (Decision_Event d) = allocation_kind d"
| "payload_check C (Fill_Event f) = ensure (0 < fi_quantity f \<and> 0 < fi_price f)
     (ValueError ''Input should be greater than 0'')"
| "payload_check C p = Inr ()"

text \<open>\<open>EventEnvelope.causal_times\<close>, branch by branch.\<close>

definition observed ::
  "event \<Rightarrow> instant \<Rightarrow> instant \<Rightarrow> unit result" where
  "observed e event_time received =
     ensure (\<not> (event_time \<noteq> ee_occurred_at e \<or> ee_received_at e < received))
       (ValueError ''envelope time disagrees with market observation'')"

definition dated :: "event \<Rightarrow> instant option \<Rightarrow> string \<Rightarrow> unit result" where
  "dated e t m = ensure (case t of None \<Rightarrow> True | Some t \<Rightarrow> t = ee_occurred_at e) (ValueError m)"

definition causal_times :: "event \<Rightarrow> unit result" where
  "causal_times e =
     (if ee_received_at e < ee_occurred_at e then Inl (ValueError ''event cannot occur after receipt'')
      else case ee_payload e of
        Bar_Close b \<Rightarrow> observed e (b_end b) (b_received_at b)
      | Quote_Update q \<Rightarrow> observed e (q_timestamp q) (q_received_at q)
      | Feature_Update u \<Rightarrow> dated e (map_option sn_timestamp (fu_snapshot u))
          ''feature event time disagrees with snapshot''
      | Market_State_Update u \<Rightarrow> dated e (map_option sd_timestamp (mu_decision u))
          ''market-state event time disagrees with decision''
      | Signal_Intent i \<Rightarrow> dated e (map_option ev_timestamp (si_evidence i))
          ''signal time disagrees with evidence''
      | Decision_Event d \<Rightarrow> dated e
          (case de_ensemble d of Some x \<Rightarrow> Some (ed_timestamp x) | None \<Rightarrow> map_option pd_timestamp (de_portfolio d))
          ''allocation decision timestamp mismatch''
      | Health_Event h \<Rightarrow> dated e (map_option hs_timestamp (he_alpha_snapshot h)) ''alpha health timestamp mismatch''
      | Pair_Intent i \<Rightarrow> dated e (Some (pi_timestamp i)) ''pair intent time disagrees with envelope''
      | Relative_Intent i \<Rightarrow> dated e (Some (ri_timestamp i)) ''pair intent time disagrees with envelope''
      | _ \<Rightarrow> Inr ())"

definition mk_event :: "codec \<Rightarrow> event \<Rightarrow> event result" where
  "mk_event C e =
     rbind (ensure (ee_source e \<noteq> []) (ValueError ''String should have at least 1 character'')) (\<lambda>_.
     rbind (ensure (provenance_ok (ee_provenance e)) (ValueError ''validation error for Provenance'')) (\<lambda>_.
     rbind (payload_check C (ee_payload e)) (\<lambda>_.
     rbind (causal_times e) (\<lambda>_. Inr e))))"

definition event_ok :: "codec \<Rightarrow> event \<Rightarrow> bool" where
  "event_ok C e \<longleftrightarrow> mk_event C e = Inr e"

lemma mk_event_Inr_iff: "mk_event C e = Inr e' \<longleftrightarrow> event_ok C e \<and> e' = e"
  by (auto simp: event_ok_def mk_event_def result_simps)

subsection \<open>Serialization\<close>

text \<open>\<open>payload["payload"].pop(name, None)\<close>.\<close>

fun pop_key :: "string \<Rightarrow> json \<Rightarrow> json" where
  "pop_key name (JObj kvs) = JObj (filter (\<lambda>(k, v). k \<noteq> name) kvs)"
| "pop_key name j = j"

fun in_payload :: "(json \<Rightarrow> json) \<Rightarrow> json \<Rightarrow> json" where
  "in_payload f (JObj kvs) = JObj (map (\<lambda>(k, v). (k, if k = ''payload'' then f v else v)) kvs)"
| "in_payload f j = j"

fun absent_names :: "payload \<Rightarrow> string list" where
  "absent_names (Feature_Update u) = (if fu_snapshot u = None then [''snapshot'', ''definition''] else [])"
| "absent_names (Market_State_Update u) = (if mu_decision u = None then [''decision''] else [])"
| "absent_names (Signal_Intent i) = (if si_evidence i = None then [''score'', ''evidence''] else [])"
| "absent_names (Decision_Event d) =
     (if de_ensemble d = None then [''ensemble''] else []) @ (if de_portfolio d = None then [''portfolio''] else [])"
| "absent_names (Health_Event h) = (if he_alpha_snapshot h = None then [''alpha_snapshot''] else [])"
| "absent_names p = []"

definition event_json :: "codec \<Rightarrow> event \<Rightarrow> json" where
  "event_json C e = in_payload (fold pop_key (absent_names (ee_payload e))) (co_event C e)"

definition serialize_event :: "codec \<Rightarrow> event \<Rightarrow> string" where
  "serialize_event C e = json_dumps (event_json C e)"

definition event_hash :: "codec \<Rightarrow> event \<Rightarrow> string" where
  "event_hash C e = co_sha256 C (serialize_event C e)"

definition idempotency_key :: "codec \<Rightarrow> string \<Rightarrow> string list \<Rightarrow> string result" where
  "idempotency_key C namespace parts =
     (if namespace = [] \<or> parts = [] \<or> list_ex (\<lambda>p. p = []) parts then
        Inl (ValueError ''idempotency key requires a namespace and nonempty identity parts'')
      else Inr (co_sha256 C (json_dumps (JArr (map JStr (namespace # parts))))))"

subsection \<open>Properties\<close>

text \<open>
  Idempotency keys are namespace-scoped identities: a key is the digest of a text that determines the namespace and
  the list of parts, whatever quotes, commas or control characters they contain, and a key is refused exactly when
  the namespace, the list or one of the parts is empty.
\<close>

definition key_text :: "string \<Rightarrow> string list \<Rightarrow> string" where
  "key_text namespace parts = json_dumps (JArr (map JStr (namespace # parts)))"

theorem idempotency_key_identity:
  "(idempotency_key C ns ps = Inr k \<longleftrightarrow>
      ns \<noteq> [] \<and> ps \<noteq> [] \<and> [] \<notin> set ps \<and> k = co_sha256 C (key_text ns ps))
   \<and> (key_text ns' ps' = key_text ns ps \<longleftrightarrow> ns' = ns \<and> ps' = ps)"
proof -
  let ?j = "\<lambda>n p. JArr (map JStr (n # p))"
  have "wf_json (?j n p)" "canon (?j n p) = ?j n p" for n p
    by (auto simp: list_all_iff map_idI)
  then have "key_text ns' ps' = key_text ns ps \<longleftrightarrow> ?j ns' ps' = ?j ns ps"
    using dumps_eq_iff[of "?j ns' ps'" "?j ns ps"] unfolding key_text_def by metis
  moreover have "inj JStr" by (simp add: inj_def)
  ultimately show ?thesis
    by (auto simp: idempotency_key_def key_text_def list_ex_iff inj_map_eq_map split: if_splits)
qed

lemma wf_pop: "wf_json j \<Longrightarrow> wf_json (pop_key n j)"
  by (cases j) (auto simp: list_all_iff distinct_map_filter)

lemma wf_pops: "wf_json j \<Longrightarrow> wf_json (fold pop_key ns j)"
  by (induction ns arbitrary: j) (auto simp: wf_pop)

lemma wf_in_payload: "wf_json j \<Longrightarrow> (\<And>j. wf_json j \<Longrightarrow> wf_json (f j)) \<Longrightarrow> wf_json (in_payload f j)"
  by (cases j) (auto simp: list_all_iff o_def case_prod_beta)

lemma wf_event_json: "wf_json (co_event C e) \<Longrightarrow> wf_json (event_json C e)"
  unfolding event_json_def by (rule wf_in_payload) (auto intro: wf_pops)

text \<open>
  The event text, which the digest of an event is taken of, is canonical: with dumps that are JSON dictionaries, two
  events have the same serialised text exactly when their dictionaries are equal as Python values once the absent
  optional fields are dropped.
\<close>

theorem serialization_canonical:
  assumes "wf_json (co_event C e)" "wf_json (co_event C e')"
  shows "serialize_event C e = serialize_event C e' \<longleftrightarrow> canon (event_json C e) = canon (event_json C e')"
  using dumps_eq_iff[OF wf_event_json wf_event_json, OF assms] by (auto simp: serialize_event_def)

end
