(* ===== verification/Event_Store.thy ===== *)
theory Event_Store
  imports Events
begin

text \<open>
  \<open>storage/models.py\<close> and the event side of \<open>storage/postgres.py\<close>: the tables with their unique keys, the
  transaction that appends an event and its projections, and the verified read of the audit chain.

  A table is the list of its rows in the order of insertion.  Appends run one at a time: the code takes
  a transaction-wide advisory lock.  A transaction that fails leaves every table as it was; the identity
  counter of \<open>audit_events\<close> is not transactional and stays advanced.
\<close>

subsection \<open>Tables\<close>

record provenance_row = provenance +
  pr_version_id :: string

record audit_row =
  au_sequence :: int
  au_event_id :: uuid
  au_correlation_id :: uuid
  au_idempotency_key :: string
  au_event_type :: string
  au_occurred_at :: instant
  au_received_at :: instant
  au_source :: string
  au_schema_version :: int
  au_provenance_id :: string
  au_payload_hash :: string
  au_previous_hash :: string
  au_chain_hash :: string
  au_envelope :: json

record bar_row =
  br_event_id :: uuid
  br_instrument_id :: string
  br_bar_start :: instant
  br_bar_end :: instant
  br_source :: string
  br_open :: rat
  br_high :: rat
  br_low :: rat
  br_close :: rat
  br_volume :: rat
  br_complete :: bool
  br_quality_flags :: "string list"
  br_payload :: json

record quote_row =
  qr_event_id :: uuid
  qr_instrument_id :: string
  qr_timestamp :: instant
  qr_source :: string
  qr_bid :: rat
  qr_ask :: rat
  qr_last :: rat
  qr_payload :: json

record state_row = state_snapshot +
  yr_payload :: json

record feature_version_row =
  vr_version_hash :: string
  vr_name :: string
  vr_definition :: json

record market_state_row =
  mr_decision_hash :: string
  mr_event_id :: uuid
  mr_timestamp :: instant
  mr_state :: string
  mr_config_version :: string
  mr_payload :: json

record signal_row =
  gr_signal_id :: uuid
  gr_event_id :: uuid
  gr_alpha_id :: string
  gr_instrument_id :: string
  gr_symbol :: string
  gr_timestamp :: instant
  gr_side :: string
  gr_score :: rat
  gr_payload :: json

record health_row =
  hr_snapshot_hash :: string
  hr_event_id :: uuid
  hr_alpha_id :: string
  hr_timestamp :: instant
  hr_payload :: json

record decision_row =
  dr_decision_id :: uuid
  dr_event_id :: uuid
  dr_timestamp :: instant
  dr_payload :: json

record feature_row =
  fr_snapshot_hash :: string
  fr_event_id :: uuid
  fr_feature_set_hash :: string
  fr_entity :: string
  fr_timestamp :: instant
  fr_input_hash :: string
  fr_payload :: json

record instrument_version_row =
  iv_snapshot_id :: string
  iv_version :: string
  iv_content_hash :: string
  iv_as_of :: day
  iv_generated_at :: instant
  iv_source_reference :: string
  iv_payload :: json

record instrument_row =
  iw_snapshot_id :: string
  iw_instrument :: instrument
  iw_payload :: json

record database =
  db_next_sequence :: int
  db_provenance :: "provenance_row list"
  db_audit :: "audit_row list"
  db_bars_1m :: "bar_row list"
  db_bars_5m :: "bar_row list"
  db_quotes :: "quote_row list"
  db_state :: "state_row list"
  db_feature_versions :: "feature_version_row list"
  db_market_state :: "market_state_row list"
  db_signals :: "signal_row list"
  db_health :: "health_row list"
  db_ensemble :: "decision_row list"
  db_portfolio :: "decision_row list"
  db_features :: "feature_row list"
  db_instrument_versions :: "instrument_version_row list"
  db_instruments :: "instrument_row list"

definition empty_database :: database where
  "empty_database = \<lparr>db_next_sequence = 1, db_provenance = [], db_audit = [], db_bars_1m = [],
     db_bars_5m = [], db_quotes = [], db_state = [], db_feature_versions = [], db_market_state = [],
     db_signals = [], db_health = [], db_ensemble = [], db_portfolio = [], db_features = [],
     db_instrument_versions = [], db_instruments = []\<rparr>"

text \<open>An insert fails when a primary key or unique constraint would be violated.\<close>

definition add_row :: "string \<Rightarrow> ('r \<Rightarrow> 'r \<Rightarrow> bool) \<Rightarrow> 'r \<Rightarrow> 'r list \<Rightarrow> 'r list result" where
  "add_row table clash r rows =
     (if list_ex (clash r) rows then Inl (IntegrityError table) else Inr (rows @ [r]))"

definition audit_clash :: "audit_row \<Rightarrow> audit_row \<Rightarrow> bool" where
  "audit_clash r s \<longleftrightarrow> au_sequence r = au_sequence s \<or> au_event_id r = au_event_id s
     \<or> au_idempotency_key r = au_idempotency_key s"

definition bar_clash :: "bar_row \<Rightarrow> bar_row \<Rightarrow> bool" where
  "bar_clash r s \<longleftrightarrow> br_event_id r = br_event_id s
     \<or> (br_instrument_id r, br_bar_start r, br_source r) = (br_instrument_id s, br_bar_start s, br_source s)"

definition quote_clash :: "quote_row \<Rightarrow> quote_row \<Rightarrow> bool" where
  "quote_clash r s \<longleftrightarrow> qr_event_id r = qr_event_id s"

definition market_state_clash :: "market_state_row \<Rightarrow> market_state_row \<Rightarrow> bool" where
  "market_state_clash r s \<longleftrightarrow> mr_decision_hash r = mr_decision_hash s \<or> mr_event_id r = mr_event_id s"

definition signal_clash :: "signal_row \<Rightarrow> signal_row \<Rightarrow> bool" where
  "signal_clash r s \<longleftrightarrow> gr_signal_id r = gr_signal_id s \<or> gr_event_id r = gr_event_id s
     \<or> (gr_alpha_id r, gr_symbol r, gr_timestamp r) = (gr_alpha_id s, gr_symbol s, gr_timestamp s)"

definition health_clash :: "health_row \<Rightarrow> health_row \<Rightarrow> bool" where
  "health_clash r s \<longleftrightarrow> hr_snapshot_hash r = hr_snapshot_hash s \<or> hr_event_id r = hr_event_id s"

definition decision_clash :: "decision_row \<Rightarrow> decision_row \<Rightarrow> bool" where
  "decision_clash r s \<longleftrightarrow> dr_decision_id r = dr_decision_id s \<or> dr_event_id r = dr_event_id s"

definition feature_clash :: "feature_row \<Rightarrow> feature_row \<Rightarrow> bool" where
  "feature_clash r s \<longleftrightarrow> fr_snapshot_hash r = fr_snapshot_hash s \<or> fr_event_id r = fr_event_id s"

definition instrument_clash :: "instrument_row \<Rightarrow> instrument_row \<Rightarrow> bool" where
  "instrument_clash r s \<longleftrightarrow> (iw_snapshot_id r, in_token (iw_instrument r))
     = (iw_snapshot_id s, in_token (iw_instrument s))"

subsection \<open>Projections\<close>

fun flag_value :: "quality_flag \<Rightarrow> string" where
  "flag_value INVALID_PRICE = ''INVALID_PRICE''"
| "flag_value IMPOSSIBLE_OHLC = ''IMPOSSIBLE_OHLC''"
| "flag_value INVALID_VOLUME = ''INVALID_VOLUME''"
| "flag_value ZERO_VOLUME = ''ZERO_VOLUME''"
| "flag_value ABNORMAL_GAP = ''ABNORMAL_GAP''"
| "flag_value ABNORMAL_VOLUME = ''ABNORMAL_VOLUME''"
| "flag_value DUPLICATE = ''DUPLICATE''"
| "flag_value MISSING_INTERVAL = ''MISSING_INTERVAL''"
| "flag_value OUT_OF_SESSION = ''OUT_OF_SESSION''"
| "flag_value MISALIGNED = ''MISALIGNED''"
| "flag_value INCOMPLETE = ''INCOMPLETE''"
| "flag_value STALE = ''STALE''"
| "flag_value FUTURE_TIMESTAMP = ''FUTURE_TIMESTAMP''"
| "flag_value CROSSED_QUOTE = ''CROSSED_QUOTE''"

fun side_value :: "side \<Rightarrow> string" where
  "side_value LONG = ''LONG''"
| "side_value SHORT = ''SHORT''"

fun direction_value :: "spread_direction \<Rightarrow> string" where
  "direction_value LONG_SPREAD = ''LONG_SPREAD''"
| "direction_value SHORT_SPREAD = ''SHORT_SPREAD''"

definition bar_row_of :: "codec \<Rightarrow> uuid \<Rightarrow> bar \<Rightarrow> bar_row" where
  "bar_row_of C i b =
     \<lparr>br_event_id = i, br_instrument_id = b_instrument_id b, br_bar_start = b_start b,
      br_bar_end = b_end b, br_source = b_source b, br_open = b_open b, br_high = b_high b,
      br_low = b_low b, br_close = b_close b, br_volume = b_volume b, br_complete = b_complete b,
      br_quality_flags = sorted_list_of_set (flag_value ` b_quality_flags b),
      br_payload = co_observation C (Obs_Bar b)\<rparr>"

definition quote_row_of :: "codec \<Rightarrow> uuid \<Rightarrow> quote \<Rightarrow> quote_row" where
  "quote_row_of C i q =
     \<lparr>qr_event_id = i, qr_instrument_id = q_instrument_id q, qr_timestamp = q_timestamp q,
      qr_source = q_source q, qr_bid = q_bid q, qr_ask = q_ask q, qr_last = q_last q,
      qr_payload = co_observation C (Obs_Quote q)\<rparr>"

definition project_features ::
  "codec \<Rightarrow> uuid \<Rightarrow> feature_update \<Rightarrow> database \<Rightarrow> database result" where
  "project_features C i u db =
     (case fu_snapshot u of
        None \<Rightarrow> Inr db
      | Some s \<Rightarrow>
          (case fu_definition u of
             None \<Rightarrow> Inl (ValueError ''missing feature definition'')
           | Some d \<Rightarrow>
               let versions = (if list_ex (\<lambda>r. vr_version_hash r = sn_feature_set_hash s) (db_feature_versions db)
                     then db_feature_versions db
                     else db_feature_versions db @ [\<lparr>vr_version_hash = sn_feature_set_hash s,
                            vr_name = fs_name d, vr_definition = co_definition C d\<rparr>])
               in rbind (add_row ''feature_snapshots'' feature_clash
                    \<lparr>fr_snapshot_hash = snapshot_hash C s, fr_event_id = i,
                     fr_feature_set_hash = sn_feature_set_hash s, fr_entity = sn_entity s,
                     fr_timestamp = sn_timestamp s, fr_input_hash = sn_input_hash s,
                     fr_payload = co_features C s\<rparr> (db_features db)) (\<lambda>rows.
                  Inr (db\<lparr>db_feature_versions := versions, db_features := rows\<rparr>))))"

definition add_signal :: "signal_row \<Rightarrow> database \<Rightarrow> database result" where
  "add_signal r db = rbind (add_row ''alpha_signals'' signal_clash r (db_signals db)) (\<lambda>rows.
     Inr (db\<lparr>db_signals := rows\<rparr>))"

definition project_decision :: "codec \<Rightarrow> uuid \<Rightarrow> decision \<Rightarrow> database \<Rightarrow> database result" where
  "project_decision C i d db =
     rbind (case de_ensemble d of
         None \<Rightarrow> Inr db
       | Some x \<Rightarrow> rbind (add_row ''ensemble_decisions'' decision_clash
            \<lparr>dr_decision_id = ed_decision_id x, dr_event_id = i, dr_timestamp = ed_timestamp x,
             dr_payload = co_ensemble C x\<rparr> (db_ensemble db)) (\<lambda>rows. Inr (db\<lparr>db_ensemble := rows\<rparr>)))
       (\<lambda>db1. case de_portfolio d of
         None \<Rightarrow> Inr db1
       | Some x \<Rightarrow> rbind (add_row ''portfolio_decisions'' decision_clash
            \<lparr>dr_decision_id = pd_decision_id x, dr_event_id = i, dr_timestamp = pd_timestamp x,
             dr_payload = co_portfolio C x\<rparr> (db_portfolio db1)) (\<lambda>rows. Inr (db1\<lparr>db_portfolio := rows\<rparr>)))"

definition project :: "codec \<Rightarrow> event \<Rightarrow> database \<Rightarrow> database result" where
  "project C e db =
     (let i = ee_event_id e in
      case ee_payload e of
        Health_Event h \<Rightarrow>
          (case he_alpha_snapshot h of
             None \<Rightarrow> Inr db
           | Some s \<Rightarrow> rbind (add_row ''alpha_health'' health_clash
               \<lparr>hr_snapshot_hash = health_hash C s, hr_event_id = i, hr_alpha_id = alpha_value (hs_alpha_id s),
                hr_timestamp = hs_timestamp s, hr_payload = co_health C s\<rparr> (db_health db)) (\<lambda>rows.
               Inr (db\<lparr>db_health := rows\<rparr>)))
      | Decision_Event d \<Rightarrow> project_decision C i d db
      | Relative_Intent rv \<Rightarrow> add_signal
          \<lparr>gr_signal_id = ri_signal_id rv, gr_event_id = i, gr_alpha_id = ''sector_relative_value'',
           gr_instrument_id = ri_entity_id rv, gr_symbol = ''RV:'' @ ri_entity_id rv,
           gr_timestamp = ri_timestamp rv, gr_side = ''LONG_SHORT'', gr_score = relative_score rv,
           gr_payload = co_intent C (Relative rv)\<rparr> db
      | Pair_Intent p \<Rightarrow> add_signal
          \<lparr>gr_signal_id = pi_signal_id p, gr_event_id = i, gr_alpha_id = ''pairs_stat_arb'',
           gr_instrument_id = pi_pair_id p, gr_symbol = ''PAIR:'' @ pi_pair_id p,
           gr_timestamp = pi_timestamp p, gr_side = direction_value (pi_direction p),
           gr_score = min 1 (fl (\<bar>pi_current_z p\<bar> / pi_stop_z p)),
           gr_payload = co_intent C (Pair p)\<rparr> db
      | Signal_Intent s \<Rightarrow>
          (case si_evidence s of
             None \<Rightarrow> Inr db
           | Some ev \<Rightarrow> add_signal
               \<lparr>gr_signal_id = si_signal_id s, gr_event_id = i, gr_alpha_id = si_alpha_id s,
                gr_instrument_id = si_instrument_id s, gr_symbol = ev_symbol ev,
                gr_timestamp = ee_occurred_at e, gr_side = side_value (si_side s),
                gr_score = the (si_score s), gr_payload = co_intent C (Signal s)\<rparr> db)
      | Market_State_Update u \<Rightarrow>
          (case mu_decision u of
             None \<Rightarrow> Inr db
           | Some d \<Rightarrow> rbind (add_row ''market_state_history'' market_state_clash
               \<lparr>mr_decision_hash = decision_hash C d, mr_event_id = i, mr_timestamp = sd_timestamp d,
                mr_state = market_state_name (sd_state d),
                mr_config_version = se_router_version_hash (sd_evidence d),
                mr_payload = co_decision C d\<rparr> (db_market_state db)) (\<lambda>rows.
               Inr (db\<lparr>db_market_state := rows\<rparr>)))
      | Feature_Update u \<Rightarrow> project_features C i u db
      | Bar_Close b \<Rightarrow>
          if b_interval_minutes b = 1 then
            rbind (add_row ''bars_1m'' bar_clash (bar_row_of C i b) (db_bars_1m db)) (\<lambda>rows.
              Inr (db\<lparr>db_bars_1m := rows\<rparr>))
          else
            rbind (add_row ''bars_5m'' bar_clash (bar_row_of C i b) (db_bars_5m db)) (\<lambda>rows.
              Inr (db\<lparr>db_bars_5m := rows\<rparr>))
      | Quote_Update q \<Rightarrow>
          rbind (add_row ''quote_samples'' quote_clash (quote_row_of C i q) (db_quotes db)) (\<lambda>rows.
            Inr (db\<lparr>db_quotes := rows\<rparr>))
      | _ \<Rightarrow> Inr db)"

subsection \<open>Appending an event\<close>

definition zero_hash :: string where
  "zero_hash = replicate 64 (CHR ''0'')"

fun get_key :: "string \<Rightarrow> json \<Rightarrow> json option" where
  "get_key k (JObj kvs) = map_of kvs k"
| "get_key k j = None"

fun put_key :: "string \<Rightarrow> json \<Rightarrow> json \<Rightarrow> json" where
  "put_key k v (JObj kvs) = JObj (filter (\<lambda>(k', w). k' \<noteq> k) kvs @ [(k, v)])"
| "put_key k v j = j"

abbreviation state_key :: string where
  "state_key \<equiv> ''_state_projection''"

definition envelope_of :: "codec \<Rightarrow> event \<Rightarrow> state_snapshot option \<Rightarrow> json" where
  "envelope_of C e st =
     (case st of None \<Rightarrow> co_event C e | Some s \<Rightarrow> put_key state_key (co_state C s) (co_event C e))"

definition chain_hash :: "codec \<Rightarrow> string \<Rightarrow> string \<Rightarrow> json \<Rightarrow> string" where
  "chain_hash C previous key envelope = hash_json C (JArr [JStr previous, JStr key, envelope])"

definition provenance_json :: "provenance \<Rightarrow> json" where
  "provenance_json p =
     JObj [(''code_commit'', JStr (pv_code_commit p)), (''config_hash'', JStr (pv_config_hash p)),
           (''data_snapshot'', JStr (pv_data_snapshot p)), (''feature_version'', JStr (pv_feature_version p))]"

text \<open>The row equal to the stored one on redelivery; \<open>False\<close> is an exact redelivery.\<close>

definition redelivery ::
  "codec \<Rightarrow> audit_row \<Rightarrow> string \<Rightarrow> string \<Rightarrow> state_snapshot option \<Rightarrow> bool result" where
  "redelivery C previous digest key st =
     (if au_payload_hash previous \<noteq> digest \<or> au_idempotency_key previous \<noteq> key then
        Inl (IdempotencyConflict ''event identity reused with different content'')
      else case st of
        Some s \<Rightarrow>
          if map_option canon (get_key state_key (au_envelope previous)) \<noteq> Some (canon (co_state C s))
          then Inl (IdempotencyConflict ''duplicate event has different state projection'')
          else Inr False
      | None \<Rightarrow>
          if get_key state_key (au_envelope previous) \<noteq> None
          then Inl (IdempotencyConflict ''duplicate omitted original state projection'')
          else Inr False)"

definition audit_row_of ::
  "codec \<Rightarrow> event \<Rightarrow> string \<Rightarrow> state_snapshot option \<Rightarrow> int \<Rightarrow> string \<Rightarrow> audit_row" where
  "audit_row_of C e key st seq previous =
     \<lparr>au_sequence = seq, au_event_id = ee_event_id e, au_correlation_id = ee_correlation_id e,
      au_idempotency_key = key, au_event_type = payload_kind (ee_payload e),
      au_occurred_at = ee_occurred_at e, au_received_at = ee_received_at e, au_source = ee_source e,
      au_schema_version = 1, au_provenance_id = hash_json C (provenance_json (ee_provenance e)),
      au_payload_hash = event_hash C e, au_previous_hash = previous,
      au_chain_hash = chain_hash C previous key (envelope_of C e st), au_envelope = envelope_of C e st\<rparr>"

definition merge_state :: "codec \<Rightarrow> state_snapshot option \<Rightarrow> state_row list \<Rightarrow> state_row list" where
  "merge_state C st rows =
     (case st of
        None \<Rightarrow> rows
      | Some s \<Rightarrow> filter (\<lambda>r. ys_scope r \<noteq> ys_scope s) rows @ [state_snapshot.extend s \<lparr>yr_payload = co_state C s\<rparr>])"

definition tail_row :: "database \<Rightarrow> audit_row option" where
  "tail_row db = max_by au_sequence (db_audit db)"

definition tail_hash :: "database \<Rightarrow> string" where
  "tail_hash db = (case tail_row db of None \<Rightarrow> zero_hash | Some r \<Rightarrow> au_chain_hash r)"

definition write_event ::
  "codec \<Rightarrow> event \<Rightarrow> string \<Rightarrow> state_snapshot option \<Rightarrow> database \<Rightarrow> database result" where
  "write_event C e key st db =
     (let p = hash_json C (provenance_json (ee_provenance e));
          provenance_rows = (if list_ex (\<lambda>r. pr_version_id r = p) (db_provenance db) then db_provenance db
             else db_provenance db @ [provenance.extend (ee_provenance e) \<lparr>pr_version_id = p\<rparr>])
      in rbind (add_row ''audit_events'' audit_clash
             (audit_row_of C e key st (db_next_sequence db) (tail_hash db)) (db_audit db)) (\<lambda>rows.
         rbind (project C e (db\<lparr>db_next_sequence := db_next_sequence db + 1,
                    db_provenance := provenance_rows, db_audit := rows\<rparr>)) (\<lambda>db1.
         Inr (db1\<lparr>db_state := merge_state C st (db_state db1)\<rparr>))))"

definition append_event ::
  "codec \<Rightarrow> event \<Rightarrow> string \<Rightarrow> state_snapshot option \<Rightarrow> database \<Rightarrow> bool result \<times> database" where
  "append_event C e key st db =
     (if \<not> is_hex_digest key then (Inl (ValueError ''idempotency key must be a SHA256 hex digest''), db)
      else if (case st of None \<Rightarrow> False
               | Some s \<Rightarrow> ys_last_event_id s \<noteq> ee_event_id e \<or> ys_updated_at s \<noteq> ee_received_at e)
      then (Inl (ValueError ''state must reference this event and its receipt timestamp''), db)
      else case find (\<lambda>r. au_event_id r = ee_event_id e \<or> au_idempotency_key r = key) (db_audit db) of
        Some previous \<Rightarrow> (redelivery C previous (event_hash C e) key st, db)
      | None \<Rightarrow>
          if (case tail_row db of None \<Rightarrow> False | Some r \<Rightarrow> ee_received_at e < au_received_at r)
          then (Inl (ValueError ''receipt order regression; capture late events with actual receipt time''), db)
          else case write_event C e key st db of
            Inl err \<Rightarrow> (Inl err, db\<lparr>db_next_sequence := db_next_sequence db + 1\<rparr>)
          | Inr db' \<Rightarrow> (Inr True, db'))"

subsection \<open>Reading the chain\<close>

fun verify_chain :: "codec \<Rightarrow> int \<Rightarrow> string \<Rightarrow> audit_row list \<Rightarrow> event list result" where
  "verify_chain C after previous [] = Inr []"
| "verify_chain C after previous (row # rows) =
     (if au_previous_hash row \<noteq> previous
         \<or> au_chain_hash row \<noteq> chain_hash C previous (au_idempotency_key row) (au_envelope row)
      then Inl (ValueError ''audit chain integrity failure'')
      else rbind (co_read_event C (pop_key state_key (au_envelope row))) (\<lambda>e.
        if au_payload_hash row \<noteq> event_hash C e then Inl (ValueError ''event digest mismatch'')
        else rbind (verify_chain C after (au_chain_hash row) rows) (\<lambda>es.
          Inr (if after < au_sequence row then e # es else es))))"

definition read_events :: "codec \<Rightarrow> int \<Rightarrow> database \<Rightarrow> event list result" where
  "read_events C after db = verify_chain C after zero_hash (sort_key au_sequence (db_audit db))"

definition get_state :: "codec \<Rightarrow> string \<Rightarrow> database \<Rightarrow> state_snapshot option result" where
  "get_state C scope db =
     (case find (\<lambda>r. ys_scope r = scope) (db_state db) of
        None \<Rightarrow> Inr None
      | Some r \<Rightarrow> rbind (co_read_state C (yr_payload r)) (\<lambda>s. Inr (Some s)))"

subsection \<open>The log behind the chain\<close>

text \<open>
  What the store relies on of pydantic for an event: its dump is a dictionary without the reserved key,
  and validating the dump gives the event back.
\<close>

definition faithful :: "codec \<Rightarrow> event \<Rightarrow> bool" where
  "faithful C e \<longleftrightarrow> (\<exists>kvs. co_event C e = JObj kvs \<and> state_key \<notin> fst ` set kvs)
     \<and> co_read_event C (co_event C e) = Inr e"

fun chain_ok :: "codec \<Rightarrow> string \<Rightarrow> audit_row list \<Rightarrow> event list \<Rightarrow> bool" where
  "chain_ok C previous [] es = (es = [])"
| "chain_ok C previous (row # rows) es =
     (case es of [] \<Rightarrow> False
      | e # es' \<Rightarrow> faithful C e \<and> (\<exists>key st seq. row = audit_row_of C e key st seq previous)
          \<and> chain_ok C (au_chain_hash row) rows es')"

definition store_inv :: "codec \<Rightarrow> database \<Rightarrow> event list \<Rightarrow> bool" where
  "store_inv C db es \<longleftrightarrow> chain_ok C zero_hash (db_audit db) es
     \<and> sorted_wrt (<) (map au_sequence (db_audit db)) \<and> 1 \<le> db_next_sequence db
     \<and> (\<forall>r\<in>set (db_audit db). 1 \<le> au_sequence r \<and> au_sequence r < db_next_sequence db)
     \<and> sorted (map au_received_at (db_audit db))
     \<and> distinct (map au_event_id (db_audit db)) \<and> distinct (map au_idempotency_key (db_audit db))"

lemma empty_inv: "store_inv C empty_database []"
  by (simp add: store_inv_def empty_database_def)

lemma audit_row_simps [simp]:
  "au_event_id (audit_row_of C e key st seq p) = ee_event_id e"
  "au_received_at (audit_row_of C e key st seq p) = ee_received_at e"
  "au_idempotency_key (audit_row_of C e key st seq p) = key"
  "au_sequence (audit_row_of C e key st seq p) = seq"
  "au_payload_hash (audit_row_of C e key st seq p) = event_hash C e"
  "au_previous_hash (audit_row_of C e key st seq p) = p"
  "au_envelope (audit_row_of C e key st seq p) = envelope_of C e st"
  "au_chain_hash (audit_row_of C e key st seq p) = chain_hash C p key (envelope_of C e st)"
  by (simp_all add: audit_row_of_def)

lemma pop_envelope: "faithful C e \<Longrightarrow> pop_key state_key (envelope_of C e st) = co_event C e"
  by (auto simp: faithful_def envelope_of_def intro!: filter_True split: option.splits) force+

lemma chain_ok_length: "chain_ok C p rows es \<Longrightarrow> length es = length rows"
  by (induction C p rows es rule: chain_ok.induct) (auto split: list.splits)

lemma chain_ok_map:
  assumes "chain_ok C p rows es" "\<And>e key st seq p. f (audit_row_of C e key st seq p) = g e"
  shows "map f rows = map g es"
  using assms by (induction C p rows es rule: chain_ok.induct) (auto split: list.splits)

lemma chain_ok_snoc:
  "chain_ok C p (rows @ [row]) (es @ [e]) \<longleftrightarrow> chain_ok C p rows es \<and> faithful C e
     \<and> (\<exists>key st seq. row = audit_row_of C e key st seq (if rows = [] then p else au_chain_hash (last rows)))"
  if "length es = length rows"
  using that
proof (induction rows arbitrary: es p)
  case (Cons r rows)
  then obtain x xs where es: "es = x # xs" "length xs = length rows" by (cases es) auto
  show ?case using Cons.IH[OF es(2), of "au_chain_hash r"] by (auto simp: es)
qed auto

lemma verify_chain_ok:
  assumes "chain_ok C p rows es"
  shows "verify_chain C after p rows = Inr (map snd (filter (\<lambda>(r, e). after < au_sequence r) (zip rows es)))"
  using assms
proof (induction C p rows es rule: chain_ok.induct)
  case (2 C p row rows es)
  then obtain e es' key st seq where es: "es = e # es'" "faithful C e" "row = audit_row_of C e key st seq p"
    "chain_ok C (au_chain_hash row) rows es'" by (auto split: list.splits)
  have "co_read_event C (pop_key state_key (envelope_of C e st)) = Inr e"
    using es(2) by (simp add: pop_envelope faithful_def)
  then show ?case using 2(1)[OF es(1)] es by auto
qed simp

lemma read_events_inv:
  assumes "store_inv C db es"
  shows "read_events C 0 db = Inr es"
proof -
  have "sorted (map au_sequence (db_audit db))"
    using assms by (simp add: store_inv_def strict_sorted_iff)
  then have srt: "sort_key au_sequence (db_audit db) = db_audit db" by (rule sort_key_id_if_sorted)
  have ch: "chain_ok C zero_hash (db_audit db) es" using assms by (simp add: store_inv_def)
  have "filter (\<lambda>(r, e). 0 < au_sequence r) (zip (db_audit db) es) = zip (db_audit db) es"
    using assms by (intro filter_True) (fastforce simp: store_inv_def dest: set_zip_leftD)
  then show ?thesis
    unfolding read_events_def srt verify_chain_ok[OF ch] by (simp add: chain_ok_length[OF ch])
qed

lemma max_by_last:
  "sorted_wrt (<) (map f xs) \<Longrightarrow> xs \<noteq> [] \<Longrightarrow> max_by f xs = Some (last xs)"
proof (induction xs)
  case (Cons x xs)
  then show ?case by (cases "xs = []") auto
qed simp

lemma sorted_map_last: "sorted (map f xs) \<Longrightarrow> x \<in> set xs \<Longrightarrow> f x \<le> f (last xs)"
  by (induction xs) auto

lemma project_frame:
  assumes "project C e db = Inr db'"
  shows "db_audit db' = db_audit db \<and> db_next_sequence db' = db_next_sequence db \<and> db_state db' = db_state db"
  using assms
  by (auto simp: project_def project_features_def project_decision_def add_signal_def result_simps Let_def
      split: payload.splits option.splits if_splits)

lemma tail_row_last:
  assumes "store_inv C db es"
  shows "tail_row db = (if db_audit db = [] then None else Some (last (db_audit db)))"
  using assms max_by_last[of au_sequence "db_audit db"] by (auto simp: tail_row_def store_inv_def)

lemma write_event_Inr:
  assumes "write_event C e key st db = Inr db'"
  shows "db_audit db' = db_audit db @ [audit_row_of C e key st (db_next_sequence db) (tail_hash db)]
    \<and> db_next_sequence db' = db_next_sequence db + 1 \<and> db_state db' = merge_state C st (db_state db)"
  using assms project_frame
  by (fastforce simp: write_event_def Let_def result_simps add_row_def split: if_splits)

lemma redelivery_Inr:
  "redelivery C row digest key st = Inr b
     \<Longrightarrow> b = False \<and> au_payload_hash row = digest \<and> au_idempotency_key row = key"
  by (auto simp: redelivery_def split: if_splits option.splits)

lemma append_event_cases:
  assumes "append_event C e key st db = (r, db')"
  obtains (rejected) err n where "r = Inl err" "db' = db\<lparr>db_next_sequence := n\<rparr>" "db_next_sequence db \<le> n"
  | (redelivered) row where "r = Inr False" "db' = db" "row \<in> set (db_audit db)"
      "au_payload_hash row = event_hash C e" "au_idempotency_key row = key"
      "redelivery C row (event_hash C e) key st = Inr False"
  | (accepted) "r = Inr True" "is_hex_digest key"
      "\<forall>row\<in>set (db_audit db). au_event_id row \<noteq> ee_event_id e \<and> au_idempotency_key row \<noteq> key"
      "\<forall>row. tail_row db = Some row \<longrightarrow> au_received_at row \<le> ee_received_at e"
      "db_audit db' = db_audit db @ [audit_row_of C e key st (db_next_sequence db) (tail_hash db)]"
      "db_next_sequence db' = db_next_sequence db + 1" "db_state db' = merge_state C st (db_state db)"
proof (cases "find (\<lambda>r. au_event_id r = ee_event_id e \<or> au_idempotency_key r = key) (db_audit db)")
  case (Some row)
  then have row: "row \<in> set (db_audit db)" by (auto simp: find_Some_iff)
  show ?thesis
  proof (cases r)
    case (Inl err)
    then show ?thesis using assms Some rejected[of err "db_next_sequence db"]
      by (auto simp: append_event_def split: if_splits)
  next
    case (Inr b)
    then have "redelivery C row (event_hash C e) key st = Inr b" "db' = db"
      using assms Some by (auto simp: append_event_def split: if_splits)
    then show ?thesis using redelivered[of row] row Inr redelivery_Inr by blast
  qed
next
  case None
  show ?thesis
  proof (cases r)
    case (Inl err)
    then show ?thesis
      using assms None rejected[of err "db_next_sequence db"] rejected[of err "db_next_sequence db + 1"]
      by (auto simp: append_event_def Let_def split: if_splits sum.splits option.splits)
  next
    case (Inr b)
    then have w: "write_event C e key st db = Inr db'" "b = True" "is_hex_digest key"
      "\<forall>row. tail_row db = Some row \<longrightarrow> au_received_at row \<le> ee_received_at e"
      using assms None by (auto simp: append_event_def split: if_splits sum.splits option.splits)
    have "\<forall>row\<in>set (db_audit db). au_event_id row \<noteq> ee_event_id e \<and> au_idempotency_key row \<noteq> key"
      using None by (simp add: find_None_iff)
    then show ?thesis
      using accepted[OF _ w(3) _ w(4)] Inr w(2) write_event_Inr[OF w(1)] by simp
  qed
qed

lemma store_inv_sequence: "store_inv C db es \<Longrightarrow> db_next_sequence db \<le> n \<Longrightarrow> store_inv C (db\<lparr>db_next_sequence := n\<rparr>) es"
  by (force simp: store_inv_def)

lemma append_event_inv:
  assumes inv: "store_inv C db es" and f: "faithful C e" and app: "append_event C e key st db = (r, db')"
  shows "store_inv C db' (if r = Inr True then es @ [e] else es)"
  using app
proof (cases rule: append_event_cases)
  case (rejected err n)
  then show ?thesis using store_inv_sequence[OF inv] by simp
next
  case (redelivered row)
  then show ?thesis using inv by simp
next
  case accepted
  let ?row = "audit_row_of C e key st (db_next_sequence db) (tail_hash db)"
  have hash: "tail_hash db = (if db_audit db = [] then zero_hash else au_chain_hash (last (db_audit db)))"
    using tail_row_last[OF inv] by (simp add: tail_hash_def)
  have ch: "chain_ok C zero_hash (db_audit db) es" using inv by (simp add: store_inv_def)
  have "chain_ok C zero_hash (db_audit db @ [?row]) (es @ [e])"
    unfolding chain_ok_snoc[OF chain_ok_length[OF ch]] using ch f hash by auto
  moreover have "\<forall>r\<in>set (db_audit db). au_received_at r \<le> ee_received_at e"
  proof
    fix r assume r: "r \<in> set (db_audit db)"
    then have ne: "db_audit db \<noteq> []" by auto
    have "sorted (map au_received_at (db_audit db))" using inv by (simp add: store_inv_def)
    then have "au_received_at r \<le> au_received_at (last (db_audit db))"
      using r by (rule sorted_map_last)
    then show "au_received_at r \<le> ee_received_at e" using accepted(4) ne tail_row_last[OF inv] by force
  qed
  ultimately show ?thesis
    using inv accepted unfolding store_inv_def by (force simp: sorted_append sorted_wrt_append)
qed

subsection \<open>Runs of appends\<close>

type_synonym append_call = "event \<times> string \<times> state_snapshot option"

fun run_appends :: "codec \<Rightarrow> append_call list \<Rightarrow> database \<Rightarrow> bool result list \<times> database" where
  "run_appends C [] db = ([], db)"
| "run_appends C ((e, key, st) # calls) db =
     (let (r, db1) = append_event C e key st db; (rs, db2) = run_appends C calls db1 in (r # rs, db2))"

definition accepted_events :: "append_call list \<Rightarrow> bool result list \<Rightarrow> event list" where
  "accepted_events calls rs = map (fst \<circ> fst) (filter (\<lambda>(c, r). r = Inr True) (zip calls rs))"

lemma run_appends_inv:
  assumes "store_inv C db es" "\<forall>(e, key, st) \<in> set calls. faithful C e"
    and "run_appends C calls db = (rs, db')"
  shows "store_inv C db' (es @ accepted_events calls rs)"
  using assms
proof (induction calls arbitrary: db es rs db')
  case Nil
  then show ?case by (simp add: accepted_events_def)
next
  case (Cons c calls)
  obtain e key st where c: "c = (e, key, st)" by (cases c)
  obtain r db1 where a: "append_event C e key st db = (r, db1)" by fastforce
  obtain rs1 db2 where run: "run_appends C calls db1 = (rs1, db2)" by fastforce
  have rs: "rs = r # rs1" "db' = db2" using Cons.prems(3) a run by (auto simp: c)
  have f: "faithful C e" "\<forall>(e, key, st) \<in> set calls. faithful C e" using Cons.prems(2) by (auto simp: c)
  note i = Cons.IH[OF append_event_inv[OF Cons.prems(1) f(1) a] f(2) run]
  show ?case using i rs by (auto simp: accepted_events_def c)
qed

subsection \<open>What the rows of the audit table say\<close>

lemma append_event_rows: "append_event C e key st db = (r, db') \<Longrightarrow> set (db_audit db) \<subseteq> set (db_audit db')"
  by (erule append_event_cases) auto

lemma run_appends_ConsE:
  assumes "run_appends C ((e, key, st) # calls) db = (rs, db')"
  obtains r db1 rs1 where "append_event C e key st db = (r, db1)" "run_appends C calls db1 = (rs1, db')"
    "rs = r # rs1"
  using assms by (cases "append_event C e key st db") (auto simp: Let_def split: prod.splits)

lemma run_appends_rows: "run_appends C calls db = (rs, db') \<Longrightarrow> set (db_audit db) \<subseteq> set (db_audit db')"
proof (induction calls arbitrary: db rs)
  case (Cons c calls)
  obtain e key st where c: "c = (e, key, st)" by (cases c)
  obtain r db1 rs1 where "append_event C e key st db = (r, db1)" "run_appends C calls db1 = (rs1, db')"
    using Cons.prems unfolding c by (rule run_appends_ConsE)
  then show ?case using Cons.IH append_event_rows by blast
qed simp

text \<open>An accepted call passed the checks on its key and state, and its row is in the table.\<close>

definition state_fits :: "event \<Rightarrow> state_snapshot option \<Rightarrow> bool" where
  "state_fits e st \<longleftrightarrow> (case st of None \<Rightarrow> True
     | Some s \<Rightarrow> ys_last_event_id s = ee_event_id e \<and> ys_updated_at s = ee_received_at e)"

lemma append_event_True:
  assumes "append_event C e key st db = (Inr True, db')"
  shows "is_hex_digest key \<and> state_fits e st
    \<and> audit_row_of C e key st (db_next_sequence db) (tail_hash db) \<in> set (db_audit db')"
proof -
  have "state_fits e st"
    using assms by (auto simp: append_event_def state_fits_def split: if_splits option.splits)
  with assms show ?thesis by (cases rule: append_event_cases) auto
qed

lemma run_appends_accepted:
  assumes "run_appends C calls db = (rs, db')" "((e, key, st), Inr True) \<in> set (zip calls rs)"
  shows "is_hex_digest key \<and> state_fits e st
    \<and> (\<exists>seq p. audit_row_of C e key st seq p \<in> set (db_audit db'))"
  using assms
proof (induction calls arbitrary: db rs)
  case (Cons c calls)
  obtain e1 key1 st1 where c: "c = (e1, key1, st1)" by (cases c)
  obtain r db1 rs1 where a: "append_event C e1 key1 st1 db = (r, db1)"
    and run: "run_appends C calls db1 = (rs1, db')" and rs: "rs = r # rs1"
    using Cons.prems(1) unfolding c by (rule run_appends_ConsE)
  show ?case
  proof (cases "((e, key, st), Inr True) \<in> set (zip calls rs1)")
    case True
    then show ?thesis by (rule Cons.IH[OF run])
  next
    case False
    then have "append_event C e key st db = (Inr True, db1)" using Cons.prems(2) rs a by (auto simp: c)
    from append_event_True[OF this] run_appends_rows[OF run] show ?thesis by blast
  qed
qed simp

text \<open>Conversely every row is the row of an accepted call.\<close>

lemma run_appends_row_call:
  assumes "run_appends C calls db = (rs, db')" "row \<in> set (db_audit db')" "row \<notin> set (db_audit db)"
  shows "\<exists>e key st seq p. ((e, key, st), Inr True) \<in> set (zip calls rs) \<and> row = audit_row_of C e key st seq p"
  using assms
proof (induction calls arbitrary: db rs)
  case (Cons c calls)
  obtain e1 key1 st1 where c: "c = (e1, key1, st1)" by (cases c)
  obtain r db1 rs1 where a: "append_event C e1 key1 st1 db = (r, db1)"
    and run: "run_appends C calls db1 = (rs1, db')" and rs: "rs = r # rs1"
    using Cons.prems(1) unfolding c by (rule run_appends_ConsE)
  show ?case
  proof (cases "row \<in> set (db_audit db1)")
    case False
    from Cons.IH[OF run Cons.prems(2) this] obtain e key st seq p
      where "((e, key, st), Inr True) \<in> set (zip calls rs1)" "row = audit_row_of C e key st seq p" by blast
    moreover have "set (zip calls rs1) \<subseteq> set (zip (c # calls) rs)" using rs by auto
    ultimately show ?thesis by blast
  next
    case True
    from a True Cons.prems(3) have "r = Inr True \<and> row = audit_row_of C e1 key1 st1 (db_next_sequence db) (tail_hash db)"
      by (cases rule: append_event_cases) auto
    moreover have "((e1, key1, st1), r) \<in> set (zip (c # calls) rs)" using rs c by simp
    ultimately show ?thesis by blast
  qed
qed simp

lemma map_of_filter_key: "map_of (filter (\<lambda>(k', w). k' \<noteq> k) kvs @ [(k, v)]) k = Some v"
  by (induction kvs) auto

lemma get_state_envelope:
  "faithful C e \<Longrightarrow> get_key state_key (envelope_of C e st) = map_option (co_state C) st"
  by (auto simp: faithful_def envelope_of_def map_of_eq_None_iff map_of_filter_key simp del: map_of_append
      split: option.splits)

lemma redelivery_same: "faithful C e \<Longrightarrow>
    redelivery C (audit_row_of C e key st seq p) (event_hash C e) key st = Inr False"
  by (cases st) (simp_all add: redelivery_def get_state_envelope)

lemma find_unique:
  assumes "x \<in> set xs" "P x" "\<And>y. y \<in> set xs \<Longrightarrow> P y \<Longrightarrow> y = x"
  shows "find P xs = Some x"
proof (cases "find P xs")
  case None
  then show ?thesis using assms(1,2) by (simp add: find_None_iff)
next
  case (Some y)
  then have "y \<in> set xs \<and> P y" by (auto simp: find_Some_iff)
  then show ?thesis using assms(3) Some by auto
qed

lemma distinct_map_eq: "distinct (map f xs) \<Longrightarrow> x \<in> set xs \<Longrightarrow> y \<in> set xs \<Longrightarrow> f x = f y \<Longrightarrow> x = y"
  by (auto simp: distinct_map dest: inj_onD)

lemma append_again:
  assumes "store_inv C db es" "audit_row_of C e key st seq p \<in> set (db_audit db)" "faithful C e"
    and "is_hex_digest key" "state_fits e st"
  shows "fst (append_event C e key st db) = Inr False"
proof -
  have dist: "distinct (map au_event_id (db_audit db))" "distinct (map au_idempotency_key (db_audit db))"
    using assms(1) by (simp_all add: store_inv_def)
  have "find (\<lambda>r. au_event_id r = ee_event_id e \<or> au_idempotency_key r = key) (db_audit db)
      = Some (audit_row_of C e key st seq p)"
  proof (rule find_unique[OF assms(2)])
    fix y assume "y \<in> set (db_audit db)" "au_event_id y = ee_event_id e \<or> au_idempotency_key y = key"
    then show "y = audit_row_of C e key st seq p"
      using distinct_map_eq[OF dist(1) _ assms(2)] distinct_map_eq[OF dist(2) _ assms(2)] by auto
  qed simp
  then show ?thesis
    using assms(4,5) redelivery_same[OF assms(3)]
    by (auto simp: append_event_def state_fits_def split: option.splits)
qed

subsection \<open>The chain as evidence\<close>

fun links :: "codec \<Rightarrow> string \<Rightarrow> audit_row list \<Rightarrow> bool" where
  "links C p [] = True"
| "links C p (r # rs) = (au_previous_hash r = p
     \<and> au_chain_hash r = chain_hash C p (au_idempotency_key r) (au_envelope r) \<and> links C (au_chain_hash r) rs)"

definition chain_end :: "string \<Rightarrow> audit_row list \<Rightarrow> string" where
  "chain_end p rows = (if rows = [] then p else au_chain_hash (last rows))"

lemma verify_links: "verify_chain C after p rows = Inr es \<Longrightarrow> links C p rows"
  by (induction C after p rows arbitrary: es rule: verify_chain.induct)
    (auto simp: result_simps split: if_splits)

lemma links_snoc:
  "links C p (rows @ [r]) \<longleftrightarrow> links C p rows \<and> au_previous_hash r = chain_end p rows
     \<and> au_chain_hash r = chain_hash C (chain_end p rows) (au_idempotency_key r) (au_envelope r)"
  by (induction rows arbitrary: p) (auto simp: chain_end_def)

text \<open>What a row commits to.\<close>

definition commitment :: "audit_row \<Rightarrow> string \<times> string \<times> json" where
  "commitment r = (au_previous_hash r, au_idempotency_key r, canon (au_envelope r))"

text \<open>The text the chain hash of a row is the digest of.\<close>

definition hashed_text :: "audit_row \<Rightarrow> string" where
  "hashed_text r = json_dumps (JArr [JStr (au_previous_hash r), JStr (au_idempotency_key r), au_envelope r])"

lemma links_hashed: "links C p rows \<Longrightarrow> r \<in> set rows \<Longrightarrow> au_chain_hash r = co_sha256 C (hashed_text r)"
  by (induction rows arbitrary: p) (auto simp: chain_hash_def hash_json_def hashed_text_def)

lemma hashed_text_commitment:
  assumes "wf_json (au_envelope r)" "wf_json (au_envelope x)" "hashed_text r = hashed_text x"
  shows "commitment r = commitment x"
proof -
  let ?j = "\<lambda>r. JArr [JStr (au_previous_hash r), JStr (au_idempotency_key r), au_envelope r]"
  have "canon (?j r) = canon (?j x)"
    using assms by (intro dumps_eq_iff[THEN iffD1]) (auto simp: hashed_text_def)
  then show ?thesis by (simp add: commitment_def)
qed

lemma links_determined:
  assumes "links C zero_hash rows" "links C zero_hash rows'"
    and "chain_end zero_hash rows = chain_end zero_hash rows'"
    and "\<forall>r\<in>set rows \<union> set rows'. wf_json (au_envelope r)"
    and "\<forall>r\<in>set rows. \<forall>r'\<in>set rows'. co_sha256 C (hashed_text r) = co_sha256 C (hashed_text r') \<longrightarrow>
           hashed_text r = hashed_text r'"
    and "\<forall>r\<in>set rows \<union> set rows'. co_sha256 C (hashed_text r) \<noteq> zero_hash"
  shows "map commitment rows = map commitment rows'"
  using assms
proof (induction rows arbitrary: rows' rule: rev_induct)
  case Nil
  show ?case
  proof (cases rows' rule: rev_cases)
    case (snoc xs x)
    then have "au_chain_hash x = zero_hash" using Nil(3) by (simp add: chain_end_def)
    then show ?thesis using links_hashed[OF Nil(2), of x] Nil(6) snoc by simp
  qed simp
next
  case (snoc r rows)
  show ?case
  proof (cases rows' rule: rev_cases)
    case Nil
    then have "au_chain_hash r = zero_hash" using snoc.prems(3) by (simp add: chain_end_def)
    then show ?thesis using links_hashed[OF snoc.prems(1), of r] snoc.prems(6) by simp
  next
    case rows': (snoc xs x)
    have "co_sha256 C (hashed_text r) = co_sha256 C (hashed_text x)"
      using links_hashed[OF snoc.prems(1), of r] links_hashed[OF snoc.prems(2), of x] snoc.prems(3) rows'
      by (simp add: chain_end_def)
    then have "hashed_text r = hashed_text x" using snoc.prems(5) rows' by simp
    then have eq: "commitment r = commitment x" using snoc.prems(4) rows' by (intro hashed_text_commitment) auto
    moreover have "map commitment rows = map commitment xs"
      using snoc.prems rows' eq by (intro snoc.IH) (auto simp: links_snoc commitment_def)
    ultimately show ?thesis using rows' by simp
  qed
qed

subsection \<open>Properties\<close>

text \<open>
  C15. The store refines an append-only log: after any sequence of appends to an empty database, of new
  events, redeliveries, conflicts, late events, failing projections and state updates, reading returns
  exactly the accepted events in the order of acceptance, the chain verifies, receipt times never go
  back, and no event identifier occurs twice.
\<close>

theorem store_refines_log:
  assumes "\<forall>(e, key, st) \<in> set calls. faithful C e"
    and "run_appends C calls empty_database = (rs, db)"
  shows "read_events C 0 db = Inr (accepted_events calls rs)
    \<and> sorted (map ee_received_at (accepted_events calls rs))
    \<and> distinct (map ee_event_id (accepted_events calls rs))"
proof -
  let ?es = "accepted_events calls rs"
  have inv: "store_inv C db ?es" using run_appends_inv[OF empty_inv assms] by simp
  then have ch: "chain_ok C zero_hash (db_audit db) ?es" by (simp add: store_inv_def)
  have "map au_received_at (db_audit db) = map ee_received_at ?es"
    "map au_event_id (db_audit db) = map ee_event_id ?es"
    by (intro chain_ok_map[OF ch] audit_row_simps)+
  then show ?thesis using read_events_inv[OF inv] inv by (auto simp: store_inv_def)
qed

definition example_provenance :: provenance where
  "example_provenance = \<lparr>pv_code_commit = ''c'', pv_config_hash = replicate 64 (CHR ''a''),
     pv_data_snapshot = ''d'', pv_feature_version = ''f''\<rparr>"

definition example_event :: "uuid \<Rightarrow> instant \<Rightarrow> event" where
  "example_event i t = \<lparr>ee_event_id = i, ee_correlation_id = ''corr'', ee_occurred_at = t, ee_received_at = t,
     ee_source = ''test'', ee_provenance = example_provenance,
     ee_payload = Position_Update \<lparr>pu_instrument_id = ''A'', pu_quantity = 1, pu_reason = ''fill''\<rparr>\<rparr>"

definition example_state :: state_snapshot where
  "example_state = \<lparr>ys_scope = ''global'', ys_state = READY, ys_mode = PAPER, ys_kill_switch = False,
     ys_broker_health = ''HEALTHY'', ys_data_health = ''HEALTHY'', ys_release_id = ''r1'',
     ys_last_event_id = ''e2'', ys_updated_at = 2\<rparr>"

text \<open>A codec for two example events and one state.\<close>

definition example_codec :: codec where
  "example_codec =
     \<lparr>co_sha256 = (\<lambda>s. s), co_event = (\<lambda>e. JObj [(''event_id'', JStr (ee_event_id e))]),
      co_state = (\<lambda>s. JObj [(''scope'', JStr (ys_scope s))]), co_definition = (\<lambda>d. JNull),
      co_features = (\<lambda>s. JNull), co_context = (\<lambda>c. JNull), co_decision = (\<lambda>d. JNull), co_intent = (\<lambda>i. JNull),
      co_health = (\<lambda>h. JNull), co_ensemble = (\<lambda>d. JNull), co_portfolio = (\<lambda>d. JNull),
      co_observation = (\<lambda>x. JNull), co_master = (\<lambda>m. JNull), co_instrument = (\<lambda>i. JNull),
      co_read_event = (\<lambda>j. if get_key ''event_id'' j = Some (JStr ''e1'') then Inr (example_event ''e1'' 1)
                          else Inr (example_event ''e2'' 2)),
      co_read_state = (\<lambda>j. Inr example_state), co_read_features = (\<lambda>j. Inl (ValueError ''unused'')),
      co_read_decision = (\<lambda>j. Inl (ValueError ''unused'')), co_read_intent = (\<lambda>j. Inl (ValueError ''unused'')),
      co_read_health = (\<lambda>j. Inl (ValueError ''unused'')), co_read_ensemble = (\<lambda>j. Inl (ValueError ''unused'')),
      co_read_portfolio = (\<lambda>j. Inl (ValueError ''unused'')), co_read_master = (\<lambda>j. Inl (ValueError ''unused''))\<rparr>"

lemma example_faithful: "faithful example_codec (example_event ''e1'' 1)" "faithful example_codec (example_event ''e2'' 2)"
  by (simp_all add: faithful_def example_codec_def example_event_def)

theorem serialization_canonical_witness:
  "serialize_event example_codec (example_event ''e1'' 1) \<noteq> serialize_event example_codec (example_event ''e2'' 2)"
proof -
  have "wf_json (co_event example_codec e)" for e by (simp add: example_codec_def)
  from serialization_canonical[OF this this, of "example_event ''e1'' 1" "example_event ''e2'' 2"] show ?thesis
    by (auto simp: event_json_def example_codec_def example_event_def)
qed

definition example_key :: "char \<Rightarrow> string" where
  "example_key c = replicate 64 c"

lemma example_key_hex: "c \<in> set ''0123456789abcdef'' \<Longrightarrow> is_hex_digest (example_key c)"
  by (auto simp: is_hex_digest_def example_key_def list_all_iff)

lemma example_key_eq [simp]: "example_key c = example_key d \<longleftrightarrow> c = d"
  by (simp add: example_key_def replicate_eq_replicate)

text \<open>A new event, its redelivery and a second event.\<close>

definition example_calls :: "append_call list" where
  "example_calls = [(example_event ''e1'' 1, example_key (CHR ''a''), None),
     (example_event ''e1'' 1, example_key (CHR ''a''), None), (example_event ''e2'' 2, example_key (CHR ''b''), Some example_state)]"

lemma example_append_new:
  assumes "is_hex_digest key" "\<forall>r\<in>set (db_audit db). au_event_id r \<noteq> i \<and> au_idempotency_key r \<noteq> key
      \<and> au_sequence r \<noteq> db_next_sequence db"
    "\<forall>r. tail_row db = Some r \<longrightarrow> au_received_at r \<le> t"
    "state_fits (example_event i t) st"
  shows "fst (append_event C (example_event i t) key st db) = Inr True"
proof -
  have "find (\<lambda>r. au_event_id r = i \<or> au_idempotency_key r = key) (db_audit db) = None"
    using assms(2) by (auto simp: find_None_iff)
  moreover have "\<not> list_ex (audit_clash (audit_row_of C (example_event i t) key st (db_next_sequence db) p)) (db_audit db)"
    for p using assms(2) by (auto simp: list_ex_iff audit_clash_def example_event_def)
  ultimately show ?thesis
    using assms(1,3,4) by (auto simp: append_event_def write_event_def add_row_def project_def Let_def
        example_event_def state_fits_def split: option.splits)
qed

lemma example_run:
  "\<exists>db. run_appends example_codec example_calls empty_database = ([Inr True, Inr False, Inr True], db)"
proof -
  let ?e1 = "example_event ''e1'' 1" and ?e2 = "example_event ''e2'' 2"
  let ?k1 = "example_key (CHR ''a'')" and ?k2 = "example_key (CHR ''b'')"
  obtain r1 db1 where a1: "append_event example_codec ?e1 ?k1 None empty_database = (r1, db1)" by fastforce
  have "r1 = Inr True" using example_append_new[of ?k1 empty_database "''e1''" 1 None example_codec] a1 example_key_hex
    by (simp add: empty_database_def tail_row_def state_fits_def)
  note a1 = a1[unfolded this]
  have inv1: "store_inv example_codec db1 [?e1]"
    using append_event_inv[OF empty_inv example_faithful(1) a1] by simp
  have au: "db_audit db1 = [audit_row_of example_codec ?e1 ?k1 None 1 (tail_hash empty_database)]"
    "db_next_sequence db1 = 2"
    using a1 by (cases rule: append_event_cases; simp add: empty_database_def)+
  have a2: "append_event example_codec ?e1 ?k1 None db1 = (Inr False, db1)"
    using redelivery_same[OF example_faithful(1)] example_key_hex by (simp add: append_event_def au)
  have "ee_event_id ?e1 = ''e1''" "ee_received_at ?e1 = 1" by (simp_all add: example_event_def)
  moreover have "state_fits ?e2 (Some example_state)"
    by (simp add: state_fits_def example_state_def example_event_def)
  ultimately have "fst (append_event example_codec ?e2 ?k2 (Some example_state) db1) = Inr True"
    by (intro example_append_new) (auto simp: au example_key_hex tail_row_def)
  then obtain db2 where a3: "append_event example_codec ?e2 ?k2 (Some example_state) db1 = (Inr True, db2)"
    by (cases "append_event example_codec ?e2 ?k2 (Some example_state) db1") auto
  show ?thesis by (simp add: example_calls_def a1 a2 a3)
qed

lemma example_calls_faithful: "\<forall>(e, key, st) \<in> set example_calls. faithful example_codec e"
  by (simp add: example_calls_def example_faithful)

theorem store_refines_log_witness:
  "\<exists>db. run_appends example_codec example_calls empty_database = ([Inr True, Inr False, Inr True], db)
     \<and> read_events example_codec 0 db = Inr [example_event ''e1'' 1, example_event ''e2'' 2]"
proof -
  obtain db where db: "run_appends example_codec example_calls empty_database = ([Inr True, Inr False, Inr True], db)"
    using example_run by blast
  from store_refines_log[OF example_calls_faithful db] db show ?thesis
    by (auto simp: accepted_events_def example_calls_def)
qed

text \<open>
  C18. Identities are never reused: once an append was accepted in a run, a later append with its event
  identifier or its key changes nothing in the database and is never accepted again; repeating exactly
  the accepted call is recognised as a redelivery; and whenever such an append is answered as a
  redelivery, an accepted call of the run had the same key and the same event digest.
\<close>

theorem append_identity:
  assumes "\<forall>(e, key, st) \<in> set calls. faithful C e"
    and "run_appends C calls empty_database = (rs, db)"
    and "((e, key, st), Inr True) \<in> set (zip calls rs)"
    and "ee_event_id e' = ee_event_id e \<or> key' = key"
  shows "snd (append_event C e' key' st' db) = db \<and> fst (append_event C e' key' st' db) \<noteq> Inr True
    \<and> ((e', key', st') = (e, key, st) \<longrightarrow> fst (append_event C e' key' st' db) = Inr False)
    \<and> (fst (append_event C e' key' st' db) = Inr False \<longrightarrow>
         (\<exists>e0 st0. ((e0, key', st0), Inr True) \<in> set (zip calls rs) \<and> event_hash C e0 = event_hash C e'))"
proof -
  have inv: "store_inv C db (accepted_events calls rs)"
    using run_appends_inv[OF empty_inv assms(1,2)] by simp
  have acc: "is_hex_digest key" "state_fits e st" using run_appends_accepted[OF assms(2,3)] by auto
  obtain seq p where row: "audit_row_of C e key st seq p \<in> set (db_audit db)"
    using run_appends_accepted[OF assms(2,3)] by blast
  have f: "faithful C e" using assms(1,3) by (auto dest: set_zip_leftD)
  have "\<exists>r\<in>set (db_audit db). au_event_id r = ee_event_id e' \<or> au_idempotency_key r = key'"
    using row assms(4) by force
  then obtain r where r: "find (\<lambda>r. au_event_id r = ee_event_id e' \<or> au_idempotency_key r = key') (db_audit db) = Some r"
    by (cases "find (\<lambda>r. au_event_id r = ee_event_id e' \<or> au_idempotency_key r = key') (db_audit db)")
      (auto simp: find_None_iff)
  have snd: "snd (append_event C e' key' st' db) = db" using r by (simp add: append_event_def)
  have "fst (append_event C e' key' st' db) \<noteq> Inr True"
    using r redelivery_Inr[of C r "event_hash C e'" key' st' True] by (auto simp: append_event_def)
  moreover have "fst (append_event C e key st db) = Inr False"
    by (rule append_again[OF inv row f acc])
  moreover have "\<exists>e0 st0. ((e0, key', st0), Inr True) \<in> set (zip calls rs) \<and> event_hash C e0 = event_hash C e'"
    if "fst (append_event C e' key' st' db) = Inr False"
  proof -
    have "redelivery C r (event_hash C e') key' st' = Inr False"
      using that r by (auto simp: append_event_def split: if_splits)
    then have eqs: "au_payload_hash r = event_hash C e'" "au_idempotency_key r = key'"
      using redelivery_Inr by blast+
    have "r \<in> set (db_audit db)" using r by (auto simp: find_Some_iff)
    moreover have "db_audit empty_database = []" by (simp add: empty_database_def)
    ultimately obtain e0 k0 st0 s0 p0 where "((e0, k0, st0), Inr True) \<in> set (zip calls rs)"
      "r = audit_row_of C e0 k0 st0 s0 p0" using run_appends_row_call[OF assms(2)] by force
    then show ?thesis using eqs by auto
  qed
  ultimately show ?thesis using snd by blast
qed

theorem append_identity_witness:
  "\<exists>db. run_appends example_codec example_calls empty_database = ([Inr True, Inr False, Inr True], db)
     \<and> append_event example_codec (example_event ''e1'' 1) (example_key (CHR ''a'')) None db = (Inr False, db)"
proof -
  obtain db where db: "run_appends example_codec example_calls empty_database = ([Inr True, Inr False, Inr True], db)"
    using example_run by blast
  have "((example_event ''e1'' 1, example_key (CHR ''a''), None), Inr True)
      \<in> set (zip example_calls [Inr True, Inr False, Inr True])" by (simp add: example_calls_def)
  from append_identity[OF example_calls_faithful db this, of "example_event ''e1'' 1" "example_key (CHR ''a'')" None]
  show ?thesis using db by (auto simp: prod_eq_iff)
qed

text \<open>
  C19. The audit chain is tamper-evident: two databases that both read without an error and whose last
  rows carry the same chain hash hold the same list of keys and envelopes, as Python values, in the same
  order; whoever alters, drops, inserts or reorders a row behind a chain hash noted elsewhere has found, among the
  texts hashed for the rows of the two databases, two different ones with one digest, or one whose digest is the
  all-zero hash the chain starts from.
\<close>

theorem tamper_evident:
  assumes "read_events C after db = Inr es" and "read_events C after' db' = Inr es'"
    and "chain_end zero_hash (sort_key au_sequence (db_audit db))
       = chain_end zero_hash (sort_key au_sequence (db_audit db'))"
    and "\<forall>r\<in>set (db_audit db) \<union> set (db_audit db'). wf_json (au_envelope r)"
  shows "map commitment (sort_key au_sequence (db_audit db)) = map commitment (sort_key au_sequence (db_audit db'))
     \<or> (\<exists>r\<in>set (db_audit db). \<exists>r'\<in>set (db_audit db').
          hashed_text r \<noteq> hashed_text r' \<and> co_sha256 C (hashed_text r) = co_sha256 C (hashed_text r'))
     \<or> (\<exists>r\<in>set (db_audit db) \<union> set (db_audit db'). co_sha256 C (hashed_text r) = zero_hash)"
proof -
  have "links C zero_hash (sort_key au_sequence (db_audit db))" "links C zero_hash (sort_key au_sequence (db_audit db'))"
    using assms(1,2) verify_links unfolding read_events_def by blast+
  from links_determined[OF this assms(3)] assms(4) show ?thesis unfolding set_sort by blast
qed

text \<open>A digest that is the same for all texts: two different logs then end in the same hash, and collide.\<close>

definition constant_codec :: codec where
  "constant_codec = example_codec\<lparr>co_sha256 := (\<lambda>_. replicate 64 (CHR ''a''))\<rparr>"

lemma constant_append:
  assumes "faithful constant_codec (example_event i t)" "c \<in> set ''0123456789abcdef''"
  shows "\<exists>db. run_appends constant_codec [(example_event i t, example_key c, None)] empty_database = ([Inr True], db)
     \<and> read_events constant_codec 0 db = Inr [example_event i t]
     \<and> db_audit db = [audit_row_of constant_codec (example_event i t) (example_key c) None 1 zero_hash]"
proof -
  let ?e = "example_event i t" and ?k = "example_key c"
  have "fst (append_event constant_codec ?e ?k None empty_database) = Inr True"
    using example_key_hex[OF assms(2)]
    by (intro example_append_new) (simp_all add: empty_database_def tail_row_def state_fits_def)
  then obtain db where a: "append_event constant_codec ?e ?k None empty_database = (Inr True, db)"
    by (cases "append_event constant_codec ?e ?k None empty_database") auto
  have inv: "store_inv constant_codec db [?e]" using append_event_inv[OF empty_inv assms(1) a] by simp
  have "db_audit db = [audit_row_of constant_codec ?e ?k None 1 zero_hash]"
    using a by (cases rule: append_event_cases) (simp_all add: empty_database_def tail_hash_def tail_row_def)
  then show ?thesis using a read_events_inv[OF inv] by simp
qed

theorem tamper_evident_witness:
  "\<exists>db db'. read_events constant_codec 0 db = Inr [example_event ''e1'' 1]
     \<and> read_events constant_codec 0 db' = Inr [example_event ''e2'' 2]
     \<and> (\<exists>r r'. r \<in> set (db_audit db) \<and> r' \<in> set (db_audit db') \<and> hashed_text r \<noteq> hashed_text r'
          \<and> co_sha256 constant_codec (hashed_text r) = co_sha256 constant_codec (hashed_text r'))"
proof -
  have f: "faithful constant_codec (example_event ''e1'' 1)" "faithful constant_codec (example_event ''e2'' 2)"
    by (simp_all add: faithful_def constant_codec_def example_codec_def example_event_def)
  obtain db where db: "read_events constant_codec 0 db = Inr [example_event ''e1'' 1]"
    "db_audit db = [audit_row_of constant_codec (example_event ''e1'' 1) (example_key (CHR ''a'')) None 1 zero_hash]"
    using constant_append[OF f(1), of "CHR ''a''"] by auto
  obtain db' where db': "read_events constant_codec 0 db' = Inr [example_event ''e2'' 2]"
    "db_audit db' = [audit_row_of constant_codec (example_event ''e2'' 2) (example_key (CHR ''b'')) None 1 zero_hash]"
    using constant_append[OF f(2), of "CHR ''b''"] by auto
  have hash: "co_sha256 constant_codec t = example_key (CHR ''a'')" "example_key (CHR ''a'') \<noteq> zero_hash" for t
    by (simp_all add: constant_codec_def example_key_def zero_hash_def replicate_eq_replicate)
  have wf: "wf_json (au_envelope r)" if "r \<in> set (db_audit db) \<union> set (db_audit db')" for r
    using that by (auto simp: db db' envelope_of_def constant_codec_def example_codec_def)
  have "chain_end zero_hash (sort_key au_sequence (db_audit db)) = chain_end zero_hash (sort_key au_sequence (db_audit db'))"
    by (simp add: db db' chain_end_def chain_hash_def hash_json_def hash)
  from tamper_evident[OF db(1) db'(1) this] wf
  have "map commitment (sort_key au_sequence (db_audit db)) = map commitment (sort_key au_sequence (db_audit db'))
     \<or> (\<exists>r\<in>set (db_audit db). \<exists>r'\<in>set (db_audit db').
          hashed_text r \<noteq> hashed_text r' \<and> co_sha256 constant_codec (hashed_text r) = co_sha256 constant_codec (hashed_text r'))"
    by (auto simp: hash)
  moreover have "map commitment (sort_key au_sequence (db_audit db)) \<noteq> map commitment (sort_key au_sequence (db_audit db'))"
    by (simp add: db db' commitment_def)
  ultimately show ?thesis using db(1) db'(1) by blast
qed

subsection \<open>The state projection\<close>

lemma append_event_state:
  "append_event C e key st db = (r, db') \<Longrightarrow>
     db_state db' = (if r = Inr True then merge_state C st (db_state db) else db_state db)"
  by (erule append_event_cases) auto

text \<open>The states given with the accepted appends, in order.\<close>

definition accepted_states :: "append_call list \<Rightarrow> bool result list \<Rightarrow> state_snapshot list" where
  "accepted_states calls rs =
     concat (map (\<lambda>((e, key, st), r). if r = Inr True then (case st of None \<Rightarrow> [] | Some s \<Rightarrow> [s]) else [])
       (zip calls rs))"

lemma run_appends_state:
  assumes "run_appends C calls db = (rs, db')"
  shows "db_state db' = fold (\<lambda>s. merge_state C (Some s)) (accepted_states calls rs) (db_state db)"
  using assms
proof (induction calls arbitrary: db rs)
  case (Cons c calls)
  obtain e key st where c: "c = (e, key, st)" by (cases c)
  obtain r db1 rs1 where a: "append_event C e key st db = (r, db1)"
    and run: "run_appends C calls db1 = (rs1, db')" and rs: "rs = r # rs1"
    using Cons.prems unfolding c by (rule run_appends_ConsE)
  have "merge_state C None rows = rows" for rows by (simp add: merge_state_def)
  then show ?case using Cons.IH[OF run] append_event_state[OF a] rs c
    by (cases st) (simp_all add: accepted_states_def)
qed (simp add: accepted_states_def)

lemma find_filter_append:
  "find P (xs @ [x]) = (case find P xs of Some y \<Rightarrow> Some y | None \<Rightarrow> if P x then Some x else None)"
  by (induction xs) auto

lemma find_merge_state:
  "find (\<lambda>r. ys_scope r = scope) (merge_state C (Some s) rows) =
     (if ys_scope s = scope then Some (state_snapshot.extend s \<lparr>yr_payload = co_state C s\<rparr>)
      else find (\<lambda>r. ys_scope r = scope) rows)"
proof -
  have none: "find (\<lambda>r. ys_scope r = ys_scope s) (filter (\<lambda>r. ys_scope r \<noteq> ys_scope s) rows) = None"
    by (auto simp: find_None_iff)
  have keep: "find (\<lambda>r. ys_scope r = scope) (filter (\<lambda>r. ys_scope r \<noteq> ys_scope s) rows)
      = find (\<lambda>r. ys_scope r = scope) rows" if "ys_scope s \<noteq> scope"
    using that by (induction rows) auto
  have "ys_scope (state_snapshot.extend s \<lparr>yr_payload = co_state C s\<rparr>) = ys_scope s"
    by (simp add: state_snapshot.defs)
  then show ?thesis using none keep
    by (auto simp: merge_state_def find_filter_append split: option.splits)
qed

lemma find_states:
  "find (\<lambda>r. ys_scope r = scope) (fold (\<lambda>s. merge_state C (Some s)) ss rows) =
     (case filter (\<lambda>s. ys_scope s = scope) ss of
        [] \<Rightarrow> find (\<lambda>r. ys_scope r = scope) rows
      | x # xs \<Rightarrow> Some (state_snapshot.extend (last (x # xs)) \<lparr>yr_payload = co_state C (last (x # xs))\<rparr>))"
proof (induction ss rule: rev_induct)
  case (snoc s ss)
  show ?case
  proof (cases "ys_scope s = scope")
    case True
    then have "filter (\<lambda>s. ys_scope s = scope) (ss @ [s]) = filter (\<lambda>s. ys_scope s = scope) ss @ [s]" by simp
    then show ?thesis using True by (cases "filter (\<lambda>s. ys_scope s = scope) ss") (auto simp: find_merge_state)
  next
    case False
    then show ?thesis using snoc.IH by (simp add: find_merge_state)
  qed
qed simp

text \<open>
  The recovery state is the one committed last: after any sequence of appends, reading the system
  state of a scope gives back the state that came with the last accepted append for that scope, and
  nothing when there was none; rejected, late and redelivered appends leave no trace in it.
\<close>

theorem state_is_last_accepted:
  assumes "run_appends C calls empty_database = (rs, db)"
    and "\<forall>s\<in>set (accepted_states calls rs). co_read_state C (co_state C s) = Inr s"
  shows "get_state C scope db =
     Inr (case rev (filter (\<lambda>s. ys_scope s = scope) (accepted_states calls rs)) of [] \<Rightarrow> None | s # ss \<Rightarrow> Some s)"
proof -
  let ?ss = "filter (\<lambda>s. ys_scope s = scope) (accepted_states calls rs)"
  have st: "db_state db = fold (\<lambda>s. merge_state C (Some s)) (accepted_states calls rs) []"
    using run_appends_state[OF assms(1)] by (simp add: empty_database_def)
  show ?thesis
  proof (cases ?ss rule: rev_cases)
    case Nil
    then show ?thesis unfolding get_state_def st find_states by simp
  next
    case (snoc xs x)
    have "x \<in> set ?ss" using snoc by simp
    then have "co_read_state C (co_state C x) = Inr x" using assms(2) by simp
    moreover have "yr_payload (state_snapshot.extend x \<lparr>yr_payload = co_state C x\<rparr>) = co_state C x"
      by (simp add: state_snapshot.defs)
    ultimately show ?thesis unfolding get_state_def st find_states by (cases xs) (simp_all add: snoc)
  qed
qed

theorem state_is_last_accepted_witness:
  "\<exists>db. run_appends example_codec example_calls empty_database = ([Inr True, Inr False, Inr True], db)
     \<and> get_state example_codec ''global'' db = Inr (Some example_state)"
proof -
  obtain db where db: "run_appends example_codec example_calls empty_database = ([Inr True, Inr False, Inr True], db)"
    using example_run by blast
  have "accepted_states example_calls [Inr True, Inr False, Inr True] = [example_state]"
    by (simp add: accepted_states_def example_calls_def)
  moreover have "ys_scope example_state = ''global''" by (simp add: example_state_def)
  moreover have "co_read_state example_codec j = Inr example_state" for j by (simp add: example_codec_def)
  ultimately show ?thesis using state_is_last_accepted[OF db, of "''global''"] db by auto
qed

end
