(* ===== verification/Store_Queries.thy ===== *)
theory Store_Queries
  imports Event_Store
begin

text \<open>
  The other side of \<open>storage/postgres.py\<close>: instrument masters, and the getters of projected rows, which
  check what they return against its hash or against the audited event.
\<close>

subsection \<open>Instrument masters\<close>

fun add_instruments :: "codec \<Rightarrow> string \<Rightarrow> instrument list \<Rightarrow> instrument_row list \<Rightarrow> instrument_row list result" where
  "add_instruments C i [] rows = Inr rows"
| "add_instruments C i (x # xs) rows =
     rbind (add_row ''instruments'' instrument_clash
       \<lparr>iw_snapshot_id = i, iw_instrument = x, iw_payload = co_instrument C x\<rparr> rows) (add_instruments C i xs)"

definition save_master :: "codec \<Rightarrow> instrument_master \<Rightarrow> database \<Rightarrow> unit result \<times> database" where
  "save_master C m db =
     (if \<not> aware (im_generated_at m) then
        (Inl (ValueError ''instrument snapshot receipt must be timezone-aware''), db)
      else
        let digest = hash_json C (co_master C m) in
        case find (\<lambda>r. iv_snapshot_id r = im_snapshot_id m) (db_instrument_versions db) of
          Some previous \<Rightarrow>
            if iv_content_hash previous \<noteq> digest
            then (Inl (IdempotencyConflict ''instrument snapshot ID content conflict''), db)
            else (Inr (), db)
        | None \<Rightarrow>
            (case add_instruments C (im_snapshot_id m) (im_instruments m) (db_instruments db) of
               Inl e \<Rightarrow> (Inl e, db)
             | Inr rows \<Rightarrow>
                 (Inr (), db\<lparr>db_instrument_versions := db_instrument_versions db @
                    [\<lparr>iv_snapshot_id = im_snapshot_id m, iv_version = im_version m, iv_content_hash = digest,
                      iv_as_of = im_as_of m, iv_generated_at = instant_of (im_generated_at m),
                      iv_source_reference = im_source_reference m, iv_payload = co_master C m\<rparr>],
                    db_instruments := rows\<rparr>)))"

definition get_master :: "codec \<Rightarrow> string \<Rightarrow> database \<Rightarrow> instrument_master option result" where
  "get_master C i db =
     (case find (\<lambda>r. iv_snapshot_id r = i) (db_instrument_versions db) of
        None \<Rightarrow> Inr None
      | Some row \<Rightarrow>
          if hash_json C (iv_payload row) \<noteq> iv_content_hash row
          then Inl (ValueError ''instrument snapshot integrity failure'')
          else rbind (co_read_master C (iv_payload row)) (\<lambda>m. Inr (Some m)))"

subsection \<open>Checked reads of projections\<close>

definition get_feature_snapshot :: "codec \<Rightarrow> string \<Rightarrow> database \<Rightarrow> feature_snapshot option result" where
  "get_feature_snapshot C h db =
     (case find (\<lambda>r. fr_snapshot_hash r = h) (db_features db) of
        None \<Rightarrow> Inr None
      | Some row \<Rightarrow> rbind (co_read_features C (fr_payload row)) (\<lambda>s.
          if snapshot_hash C s \<noteq> h then Inl (ValueError ''feature snapshot integrity failure'') else Inr (Some s)))"

definition get_market_state :: "codec \<Rightarrow> string \<Rightarrow> database \<Rightarrow> state_decision option result" where
  "get_market_state C h db =
     (case find (\<lambda>r. mr_decision_hash r = h) (db_market_state db) of
        None \<Rightarrow> Inr None
      | Some row \<Rightarrow> rbind (co_read_decision C (mr_payload row)) (\<lambda>d.
          if decision_hash C d \<noteq> h then Inl (ValueError ''market-state snapshot integrity failure'')
          else Inr (Some d)))"

text \<open>The payload of the audited event of a row; a broken chain is an error of the read.\<close>

definition original_payload :: "codec \<Rightarrow> uuid \<Rightarrow> database \<Rightarrow> payload option result" where
  "original_payload C i db =
     rbind (read_events C 0 db) (\<lambda>es. Inr (map_option ee_payload (find (\<lambda>e. ee_event_id e = i) es)))"

fun intent_payload :: "alpha_intent \<Rightarrow> payload" where
  "intent_payload (Signal i) = Signal_Intent i"
| "intent_payload (Pair i) = Pair_Intent i"
| "intent_payload (Relative i) = Relative_Intent i"

definition get_alpha_signal :: "codec \<Rightarrow> uuid \<Rightarrow> database \<Rightarrow> alpha_intent option result" where
  "get_alpha_signal C i db =
     (case find (\<lambda>r. gr_signal_id r = i) (db_signals db) of
        None \<Rightarrow> Inr None
      | Some row \<Rightarrow> rbind (co_read_intent C (gr_payload row)) (\<lambda>intent.
          rbind (original_payload C (gr_event_id row) db) (\<lambda>original.
          if original \<noteq> Some (intent_payload intent) then Inl (ValueError ''alpha signal integrity failure'')
          else Inr (Some intent))))"

definition get_alpha_health :: "codec \<Rightarrow> string \<Rightarrow> database \<Rightarrow> alpha_health_snapshot option result" where
  "get_alpha_health C h db =
     (case find (\<lambda>r. hr_snapshot_hash r = h) (db_health db) of
        None \<Rightarrow> Inr None
      | Some row \<Rightarrow> rbind (co_read_health C (hr_payload row)) (\<lambda>s.
          rbind (original_payload C (hr_event_id row) db) (\<lambda>original.
          if (case original of Some (Health_Event e) \<Rightarrow> he_alpha_snapshot e = Some s \<and> health_hash C s = h
              | _ \<Rightarrow> False)
          then Inr (Some s) else Inl (ValueError ''alpha health integrity failure''))))"

definition get_ensemble_decision :: "codec \<Rightarrow> uuid \<Rightarrow> database \<Rightarrow> ensemble_decision option result" where
  "get_ensemble_decision C i db =
     (case find (\<lambda>r. dr_decision_id r = i) (db_ensemble db) of
        None \<Rightarrow> Inr None
      | Some row \<Rightarrow> rbind (co_read_ensemble C (dr_payload row)) (\<lambda>d.
          rbind (original_payload C (dr_event_id row) db) (\<lambda>original.
          if (case original of Some (Decision_Event e) \<Rightarrow> de_ensemble e = Some d | _ \<Rightarrow> False)
          then Inr (Some d) else Inl (ValueError ''ensemble integrity failure''))))"

definition get_portfolio_decision :: "codec \<Rightarrow> uuid \<Rightarrow> database \<Rightarrow> portfolio_decision option result" where
  "get_portfolio_decision C i db =
     (case find (\<lambda>r. dr_decision_id r = i) (db_portfolio db) of
        None \<Rightarrow> Inr None
      | Some row \<Rightarrow> rbind (co_read_portfolio C (dr_payload row)) (\<lambda>d.
          rbind (original_payload C (dr_event_id row) db) (\<lambda>original.
          if (case original of Some (Decision_Event e) \<Rightarrow> de_portfolio e = Some d | _ \<Rightarrow> False)
          then Inr (Some d) else Inl (ValueError ''portfolio integrity failure''))))"

subsection \<open>Masters are immutable\<close>

fun run_saves :: "codec \<Rightarrow> instrument_master list \<Rightarrow> database \<Rightarrow> unit result list \<times> database" where
  "run_saves C [] db = ([], db)"
| "run_saves C (m # ms) db =
     (let (r, db1) = save_master C m db; (rs, db2) = run_saves C ms db1 in (r # rs, db2))"

lemma save_master_cases:
  assumes "save_master C m db = (r, db')"
  obtains (same) "db_instrument_versions db' = db_instrument_versions db"
      "r = Inr () \<Longrightarrow> \<exists>row\<in>set (db_instrument_versions db). iv_snapshot_id row = im_snapshot_id m"
  | (new) row where "r = Inr ()" "db_instrument_versions db' = db_instrument_versions db @ [row]"
      "iv_snapshot_id row = im_snapshot_id m" "iv_payload row = co_master C m"
      "iv_content_hash row = hash_json C (co_master C m)"
      "find (\<lambda>r. iv_snapshot_id r = im_snapshot_id m) (db_instrument_versions db) = None"
proof (cases "find (\<lambda>r. iv_snapshot_id r = im_snapshot_id m) (db_instrument_versions db)")
  case (Some row)
  then have "row \<in> set (db_instrument_versions db)" "iv_snapshot_id row = im_snapshot_id m"
    by (auto simp: find_Some_iff)
  moreover have "db' = db" using assms Some by (simp add: save_master_def Let_def split: if_splits)
  ultimately show thesis by (intro same) auto
next
  case None
  note defs = assms[unfolded save_master_def Let_def, simplified None option.case]
  show thesis
  proof (cases "aware (im_generated_at m)")
    case False
    then show thesis using defs by (intro same) auto
  next
    case True
    show thesis
    proof (cases "add_instruments C (im_snapshot_id m) (im_instruments m) (db_instruments db)")
      case (Inl e)
      then show thesis using defs True by (intro same) auto
    next
      case (Inr rows)
      show thesis by (rule new) (use defs True Inr None in auto)
    qed
  qed
qed

text \<open>The versions table holds, for each identifier, the master first saved under it.\<close>

definition version_of :: "codec \<Rightarrow> instrument_master \<Rightarrow> instrument_version_row \<Rightarrow> bool" where
  "version_of C m row \<longleftrightarrow> iv_snapshot_id row = im_snapshot_id m \<and> iv_payload row = co_master C m
     \<and> iv_content_hash row = hash_json C (co_master C m)"

definition first_saved :: "string \<Rightarrow> instrument_master list \<Rightarrow> unit result list \<Rightarrow> instrument_master option" where
  "first_saved i ms rs = map_option fst (find (\<lambda>(m, r). im_snapshot_id m = i \<and> r = Inr ()) (zip ms rs))"

lemma run_saves_find:
  assumes "run_saves C ms db = (rs, db')"
  shows "(case find (\<lambda>r. iv_snapshot_id r = i) (db_instrument_versions db) of
       Some row \<Rightarrow> find (\<lambda>r. iv_snapshot_id r = i) (db_instrument_versions db') = Some row
     | None \<Rightarrow> (case first_saved i ms rs of
         None \<Rightarrow> find (\<lambda>r. iv_snapshot_id r = i) (db_instrument_versions db') = None
       | Some m \<Rightarrow> \<exists>row. find (\<lambda>r. iv_snapshot_id r = i) (db_instrument_versions db') = Some row
                      \<and> version_of C m row))"
  using assms
proof (induction ms arbitrary: db rs)
  case Nil
  then show ?case by (auto simp: first_saved_def split: option.splits)
next
  case (Cons m ms)
  obtain r db1 where s: "save_master C m db = (r, db1)" by fastforce
  obtain rs1 where run: "run_saves C ms db1 = (rs1, db')" and rs: "rs = r # rs1"
    using Cons.prems s by (auto split: prod.splits)
  note IH = Cons.IH[OF run]
  from s show ?case
  proof (cases rule: save_master_cases)
    case same
    have "\<not> (im_snapshot_id m = i \<and> r = Inr ())"
      if "find (\<lambda>r. iv_snapshot_id r = i) (db_instrument_versions db) = None"
      using that same(2) by (auto simp: find_None_iff)
    then show ?thesis using IH same(1) rs by (auto simp: first_saved_def split: option.splits)
  next
    case (new row)
    have f: "find (\<lambda>r. iv_snapshot_id r = i) (db_instrument_versions db1) =
      (case find (\<lambda>r. iv_snapshot_id r = i) (db_instrument_versions db) of Some y \<Rightarrow> Some y
       | None \<Rightarrow> if im_snapshot_id m = i then Some row else None)"
      using new(2,3) by (simp add: find_filter_append)
    show ?thesis
    proof (cases "im_snapshot_id m = i")
      case True
      then have "find (\<lambda>r. iv_snapshot_id r = i) (db_instrument_versions db) = None" using new(6) by simp
      then show ?thesis using IH f True new rs by (auto simp: first_saved_def version_of_def)
    next
      case False
      then show ?thesis using IH f rs by (auto simp: first_saved_def split: option.splits)
    qed
  qed
qed

text \<open>
  Instrument masters are immutable: after any sequence of saves to an empty database, reading an
  identifier returns the master first saved successfully under it, whatever was offered later under the
  same identifier, and nothing when no save under it succeeded.
\<close>

theorem masters_immutable:
  assumes "run_saves C ms empty_database = (rs, db)"
    and "\<forall>m\<in>set ms. co_read_master C (co_master C m) = Inr m"
  shows "get_master C i db = Inr (first_saved i ms rs)"
proof -
  have none: "find (\<lambda>r. iv_snapshot_id r = i) (db_instrument_versions empty_database) = None"
    by (simp add: empty_database_def)
  show ?thesis
  proof (cases "first_saved i ms rs")
    case None
    then show ?thesis using run_saves_find[OF assms(1), of i] none by (simp add: get_master_def)
  next
    case (Some m)
    then obtain r where "find (\<lambda>(m, r). im_snapshot_id m = i \<and> r = Inr ()) (zip ms rs) = Some (m, r)"
      by (auto simp: first_saved_def)
    then have "(m, r) \<in> set (zip ms rs)" unfolding find_Some_iff by (metis nth_mem)
    then have "m \<in> set ms" by (rule set_zip_leftD)
    moreover obtain row where "find (\<lambda>r. iv_snapshot_id r = i) (db_instrument_versions db) = Some row"
      "version_of C m row" using run_saves_find[OF assms(1), of i] none Some by auto
    ultimately show ?thesis using Some assms(2) by (simp add: get_master_def version_of_def)
  qed
qed

definition example_master_v :: "string \<Rightarrow> instrument_master" where
  "example_master_v v = \<lparr>im_snapshot_id = ''m1'', im_version = v, im_exchange = ''NSE'', im_as_of = 20641,
     im_generated_at = Aware 0 0, im_source_reference = ''r'', im_instruments = []\<rparr>"

definition master_codec :: codec where
  "master_codec = example_codec\<lparr>co_master := (\<lambda>m. JStr (im_version m)),
     co_read_master := (\<lambda>j. case j of JStr v \<Rightarrow> Inr (example_master_v v) | _ \<Rightarrow> Inl (ValueError ''unused''))\<rparr>"

theorem masters_immutable_witness:
  "\<exists>db. run_saves master_codec [example_master_v ''1'', example_master_v ''2''] empty_database
       = ([Inr (), Inl (IdempotencyConflict ''instrument snapshot ID content conflict'')], db)
     \<and> get_master master_codec ''m1'' db = Inr (Some (example_master_v ''1''))"
proof -
  have "quote_string ''1'' \<noteq> quote_string ''2''" using quote_inj[of "''1''" "[]" "''2''" "[]"] by auto
  then obtain db where run: "run_saves master_codec [example_master_v ''1'', example_master_v ''2''] empty_database
       = ([Inr (), Inl (IdempotencyConflict ''instrument snapshot ID content conflict'')], db)"
    by (auto simp: save_master_def example_master_v_def master_codec_def hash_json_def example_codec_def
        empty_database_def)
  have "\<forall>m\<in>set [example_master_v ''1'', example_master_v ''2''].
      co_read_master master_codec (co_master master_codec m) = Inr m"
    by (simp add: master_codec_def example_master_v_def)
  from masters_immutable[OF run this, of "''m1''"] run show ?thesis
    by (auto simp: first_saved_def example_master_v_def)
qed

end
