(* ===== verification/Journal.thy ===== *)
theory Journal
  imports Store_Queries Clock
begin

text \<open>
  \<open>core/events/journal.py\<close>, \<open>core/events/replay.py\<close> and \<open>core/events/cli.py\<close>: the publication boundary that
  commits before it dispatches and halts on the first failure, and the replay of a persisted stream.
  The repository of a journal is any state that keeps the contract of \<open>storage/contracts.py\<close>; the contract
  is a locale, discharged by the model of the PostgreSQL repository.
\<close>

subsection \<open>\<open>EventJournal\<close>\<close>

record 's journal =
  jr_repository :: 's
  jr_blocked :: bool
  jr_validated :: bool

definition new_journal :: "'s \<Rightarrow> 's journal" where
  "new_journal s = \<lparr>jr_repository = s, jr_blocked = False, jr_validated = False\<rparr>"

text \<open>A callback on the world \<open>'w\<close>: the exception it raises, if any, and the world afterwards.\<close>

type_synonym ('e, 'w) emitter = "'e \<Rightarrow> 'w \<Rightarrow> py_error option \<times> 'w"

type_synonym 's appender = "event \<Rightarrow> string \<Rightarrow> state_snapshot option \<Rightarrow> 's \<Rightarrow> bool result \<times> 's"

abbreviation latched :: py_error where
  "latched \<equiv> CriticalWriteFailure ''storage halt is latched; recovery review required''"

definition publish ::
  "'s appender \<Rightarrow> event \<Rightarrow> string \<Rightarrow> state_snapshot option \<Rightarrow> (event, 'w) emitter option
     \<Rightarrow> 's journal \<times> 'w \<Rightarrow> bool result \<times> 's journal \<times> 'w" where
  "publish app e key st emit s = (case s of (j, w) \<Rightarrow>
     if jr_blocked j then (Inl latched, j, w)
     else case app e key st (jr_repository j) of
       (Inl err, db) \<Rightarrow>
         (Inl (CriticalWriteFailure ''critical transaction failed; new entries blocked''),
          j\<lparr>jr_repository := db, jr_blocked := True\<rparr>, w)
     | (Inr accepted, db) \<Rightarrow>
         let j1 = j\<lparr>jr_repository := db, jr_validated := True\<rparr> in
         (case emit of
            None \<Rightarrow> (Inr accepted, j1, w)
          | Some f \<Rightarrow>
              if \<not> accepted then (Inr accepted, j1, w)
              else case f e w of
                (Some err, w') \<Rightarrow>
                  (Inl (CriticalWriteFailure ''dispatch failed after commit; replay recovery required''),
                   j1\<lparr>jr_blocked := True\<rparr>, w')
              | (None, w') \<Rightarrow> (Inr accepted, j1, w')))"

definition journal_health :: "pydatetime \<Rightarrow> 's journal \<Rightarrow> component_health result" where
  "journal_health now j = mk_component
     \<lparr>ch_component = ''event-persistence'',
      ch_status = (if jr_blocked j then UNHEALTHY else if jr_validated j then HEALTHY else UNKNOWN),
      ch_observed_at = now,
      ch_message = (if jr_blocked j then ''critical write halted'' else ''no critical write failure''),
      ch_blocking = True\<rparr>"

definition save_instruments ::
  "(instrument_master \<Rightarrow> 't \<Rightarrow> unit result \<times> 't) \<Rightarrow> instrument_master \<Rightarrow> 's journal \<times> 't
     \<Rightarrow> unit result \<times> 's journal \<times> 't" where
  "save_instruments save m s = (case s of (j, t) \<Rightarrow>
     if jr_blocked j then (Inl latched, j, t)
     else case save m t of
       (Inl err, t') \<Rightarrow>
         (Inl (CriticalWriteFailure ''critical instrument write failed; new entries blocked''),
          j\<lparr>jr_blocked := True\<rparr>, t')
     | (Inr u, t') \<Rightarrow> (Inr (), j\<lparr>jr_validated := True\<rparr>, t'))"

subsection \<open>\<open>ReplayEngine\<close>\<close>

fun replay_run ::
  "codec \<Rightarrow> (event, replay_clock \<times> 'w) emitter \<Rightarrow> (uuid \<rightharpoonup> string) \<Rightarrow> event list \<Rightarrow> int
     \<Rightarrow> replay_clock \<times> 'w \<Rightarrow> int result \<times> replay_clock \<times> 'w" where
  "replay_run C emit seen [] emitted s = (Inr emitted, s)"
| "replay_run C emit seen (e # es) emitted (clock, w) =
     (case seen (ee_event_id e) of
        Some digest \<Rightarrow>
          if digest \<noteq> event_hash C e then (Inl (ValueError ''conflicting duplicate replay event''), clock, w)
          else replay_run C emit seen es emitted (clock, w)
      | None \<Rightarrow>
          (case replay_adv (ee_received_at e) clock of
             Inl err \<Rightarrow> (Inl err, clock, w)
           | Inr clock' \<Rightarrow>
               (case emit e (clock', w) of
                  (Some err, s) \<Rightarrow> (Inl err, s)
                | (None, s) \<Rightarrow>
                    replay_run C emit (seen(ee_event_id e \<mapsto> event_hash C e)) es (emitted + 1) s)))"

text \<open>The report of the replay command: count, final clock and the digest of the replayed texts.\<close>

definition replay_main :: "codec \<Rightarrow> event list \<Rightarrow> (int \<times> string \<times> string) result" where
  "replay_main C es =
     (case es of
        [] \<Rightarrow> Inl (ValueError ''event fixture is empty'')
      | first # rest \<Rightarrow>
          (case replay_run C (\<lambda>e (clock, w). (None, clock, w @ [serialize_event C e])) Map.empty es 0
              (\<lparr>rc_instant = ee_received_at first\<rparr>, []) of
             (Inl err, s) \<Rightarrow> Inl err
           | (Inr n, clock, serialized) \<Rightarrow>
               Inr (n, iso_instant (replay_now clock), co_sha256 C (join [CHR 0x0A] serialized))))"

subsection \<open>Runs of publications\<close>

text \<open>A callback that records what it is handed and fails as \<open>outcome\<close> says.\<close>

definition recorder :: "(event \<Rightarrow> py_error option) \<Rightarrow> (event, event list) emitter" where
  "recorder outcome e w = (outcome e, w @ [e])"

fun publish_all ::
  "'s appender \<Rightarrow> (event, 'w) emitter \<Rightarrow> append_call list \<Rightarrow> 's journal \<times> 'w
     \<Rightarrow> bool result list \<times> 's journal \<times> 'w" where
  "publish_all app f [] s = ([], s)"
| "publish_all app f ((e, key, st) # calls) s =
     (let (r, s1) = publish app e key st (Some f) s; (rs, s2) = publish_all app f calls s1 in (r # rs, s2))"

lemma publish_all_ConsE:
  assumes "publish_all app f ((e, key, st) # calls) s = (rs, s')"
  obtains r j1 w1 rs1 where "publish app e key st (Some f) s = (r, j1, w1)"
    "publish_all app f calls (j1, w1) = (rs1, s')" "rs = r # rs1"
  using assms by (cases "publish app e key st (Some f) s") (auto simp: Let_def split: prod.splits)

lemma publish_cases:
  assumes "publish app e key st (Some f) (j, w) = (r, j', w')"
  obtains (latched) "jr_blocked j" "r = Inl latched" "j' = j" "w' = w"
  | (failed) err m where "\<not> jr_blocked j" "app e key st (jr_repository j) = (Inl err, jr_repository j')"
      "r = Inl m" "jr_blocked j'" "w' = w"
  | (redelivered) "\<not> jr_blocked j" "app e key st (jr_repository j) = (Inr False, jr_repository j')"
      "r = Inr False" "\<not> jr_blocked j'" "jr_validated j'" "w' = w"
  | (dispatched) out where "\<not> jr_blocked j" "app e key st (jr_repository j) = (Inr True, jr_repository j')"
      "f e w = (out, w')" "isl r = (out \<noteq> None)" "out = None \<longrightarrow> r = Inr True" "jr_blocked j' = (out \<noteq> None)"
      "jr_validated j'"
proof (cases "jr_blocked j")
  case True
  then have "r = Inl latched" "j' = j" "w' = w" using assms by (simp_all add: publish_def)
  then show ?thesis by (rule latched[OF True])
next
  case False
  obtain res db where app: "app e key st (jr_repository j) = (res, db)" by fastforce
  show ?thesis
  proof (cases res)
    case (Inl err)
    then have "r = Inl (CriticalWriteFailure ''critical transaction failed; new entries blocked'')"
      "j' = j\<lparr>jr_repository := db, jr_blocked := True\<rparr>" "w' = w"
      using assms app False by (simp_all add: publish_def)
    then show ?thesis using False app Inl failed[of err] by simp
  next
    case (Inr accepted)
    show ?thesis
    proof (cases accepted)
      case a: True
      obtain out w1 where o: "f e w = (out, w1)" by fastforce
      show ?thesis
      proof (cases out)
        case None
        then have "r = Inr True" "j' = j\<lparr>jr_repository := db, jr_validated := True\<rparr>" "w' = w1"
          using assms app False Inr a o by (simp_all add: publish_def Let_def)
        then show ?thesis using False app Inr a o None by (intro dispatched[of None]) simp_all
      next
        case (Some err)
        then have "r = Inl (CriticalWriteFailure ''dispatch failed after commit; replay recovery required'')"
          "j' = j\<lparr>jr_repository := db, jr_validated := True, jr_blocked := True\<rparr>" "w' = w1"
          using assms app False Inr a o by (simp_all add: publish_def Let_def)
        then show ?thesis using False app Inr a o Some by (intro dispatched[of "Some err"]) simp_all
      qed
    next
      case a: False
      then have "r = Inr False" "j' = j\<lparr>jr_repository := db, jr_validated := True\<rparr>" "w' = w"
        using assms app False Inr by (simp_all add: publish_def Let_def)
      then show ?thesis using False app Inr a by (intro redelivered) simp_all
    qed
  qed
qed

lemma publish_all_blocked:
  "jr_blocked j \<Longrightarrow> publish_all app f calls (j, w) = (replicate (length calls) (Inl latched), j, w)"
  by (induction calls) (auto simp: publish_def)

text \<open>The results of a run: successes up to the first failure, then the latch.\<close>

definition latch_shape :: "bool result list \<Rightarrow> bool" where
  "latch_shape rs \<longleftrightarrow> dropWhile (\<lambda>r. \<not> isl r) rs = []
     \<or> (\<exists>m n. dropWhile (\<lambda>r. \<not> isl r) rs = Inl m # replicate n (Inl latched))"

lemma publish_all_results:
  assumes "\<not> jr_blocked j" "publish_all app f calls (j, w) = (rs, j', w')"
  shows "latch_shape rs \<and> (jr_blocked j' \<longleftrightarrow> list_ex isl rs)"
  using assms
proof (induction calls arbitrary: j w rs)
  case (Cons c calls)
  obtain e key st where c: "c = (e, key, st)" by (cases c)
  obtain r j1 w1 rs1 where p: "publish app e key st (Some f) (j, w) = (r, j1, w1)"
    and run: "publish_all app f calls (j1, w1) = (rs1, j', w')" and rs: "rs = r # rs1"
    using Cons.prems(2) unfolding c by (rule publish_all_ConsE)
  have r: "jr_blocked j1 = isl r"
    using p Cons.prems(1) by (cases rule: publish_cases) auto
  show ?case
  proof (cases "isl r")
    case True
    then obtain m where "r = Inl m" by (auto simp: isl_def)
    moreover have "rs1 = replicate (length calls) (Inl latched)" "j' = j1"
      using run publish_all_blocked[of j1 app f calls w1] r True by auto
    ultimately show ?thesis using r True rs by (auto simp: latch_shape_def)
  next
    case False
    then have "\<not> jr_blocked j1" using r by simp
    from Cons.IH[OF this run] False show ?thesis by (simp add: rs latch_shape_def)
  qed
qed (simp add: latch_shape_def)

subsection \<open>The repository contract\<close>

text \<open>
  \<open>EventRepository\<close>: appending atomically extends the log by the event or leaves it as it is, and the log
  is in the order of receipt without repeated identities.
\<close>

locale event_repository =
  fixes valid :: "'s \<Rightarrow> bool" and log :: "'s \<Rightarrow> event list" and fits :: "event \<Rightarrow> bool"
    and app :: "'s appender"
  assumes app_valid: "valid s \<Longrightarrow> fits e \<Longrightarrow> app e key st s = (r, s') \<Longrightarrow> valid s'"
    and app_log: "valid s \<Longrightarrow> fits e \<Longrightarrow> app e key st s = (r, s') \<Longrightarrow>
      log s' = (if r = Inr True then log s @ [e] else log s)"
    and log_ordered: "valid s \<Longrightarrow> sorted (map ee_received_at (log s))"
    and log_distinct: "valid s \<Longrightarrow> distinct (map ee_event_id (log s))"
begin

lemma publish_log:
  assumes "publish app e key st (Some (recorder out)) (j, w) = (r, j', w')"
    and "valid (jr_repository j)" "log (jr_repository j) = w" "fits e"
  shows "valid (jr_repository j') \<and> log (jr_repository j') = w'"
  using assms(1)
proof (cases rule: publish_cases)
  case (failed err m)
  then show ?thesis using app_valid[OF assms(2,4) failed(2)] app_log[OF assms(2,4) failed(2)] assms by simp
next
  case redelivered
  then show ?thesis using app_valid[OF assms(2,4) redelivered(2)] app_log[OF assms(2,4) redelivered(2)] assms by simp
next
  case (dispatched o')
  then show ?thesis using app_valid[OF assms(2,4) dispatched(2)] app_log[OF assms(2,4) dispatched(2)] assms
    by (auto simp: recorder_def)
qed (use assms in auto)

lemma publish_all_log:
  assumes "publish_all app (recorder out) calls (j, w) = (rs, j', w')"
    and "valid (jr_repository j)" "log (jr_repository j) = w" "\<forall>(e, key, st) \<in> set calls. fits e"
  shows "valid (jr_repository j') \<and> log (jr_repository j') = w'"
  using assms
proof (induction calls arbitrary: j w rs)
  case (Cons c calls)
  obtain e key st where c: "c = (e, key, st)" by (cases c)
  obtain r j1 w1 rs1 where p: "publish app e key st (Some (recorder out)) (j, w) = (r, j1, w1)"
    and run: "publish_all app (recorder out) calls (j1, w1) = (rs1, j', w')"
    using Cons.prems(1) unfolding c by (rule publish_all_ConsE)
  have "fits e" using Cons.prems(4) c by auto
  from publish_log[OF p Cons.prems(2,3) this] Cons.IH[OF run] Cons.prems(4) show ?case by simp
qed simp

end

text \<open>The PostgreSQL repository keeps the contract.\<close>

definition store_valid :: "codec \<Rightarrow> database \<Rightarrow> bool" where
  "store_valid C db \<longleftrightarrow> (\<exists>es. store_inv C db es)"

definition store_log :: "codec \<Rightarrow> database \<Rightarrow> event list" where
  "store_log C db = (case read_events C 0 db of Inl err \<Rightarrow> [] | Inr es \<Rightarrow> es)"

lemma store_validE:
  assumes "store_valid C db"
  shows "store_inv C db (store_log C db)" "read_events C 0 db = Inr (store_log C db)"
  using assms read_events_inv by (auto simp: store_valid_def store_log_def)

lemma store_inv_log: "store_inv C db es \<Longrightarrow> store_valid C db \<and> store_log C db = es"
  using read_events_inv by (auto simp: store_valid_def store_log_def)

lemma store_inv_ordered:
  assumes "store_inv C db es"
  shows "sorted (map ee_received_at es) \<and> distinct (map ee_event_id es)"
proof -
  have ch: "chain_ok C zero_hash (db_audit db) es" using assms by (simp add: store_inv_def)
  have "map au_received_at (db_audit db) = map ee_received_at es"
    "map au_event_id (db_audit db) = map ee_event_id es"
    by (intro chain_ok_map[OF ch] audit_row_simps)+
  then show ?thesis using assms by (auto simp: store_inv_def)
qed

interpretation postgres: event_repository "store_valid C" "store_log C" "faithful C" "append_event C"
  for C :: codec
proof
  show "store_valid C s'"
    if "store_valid C s" "faithful C e" "append_event C e key st s = (r, s')" for s e key st r s'
    using append_event_inv[OF store_validE(1)[OF that(1)] that(2,3)] store_inv_log by blast
  show "store_log C s' = (if r = Inr True then store_log C s @ [e] else store_log C s)"
    if "store_valid C s" "faithful C e" "append_event C e key st s = (r, s')" for s e key st r s'
    using append_event_inv[OF store_validE(1)[OF that(1)] that(2,3)] store_inv_log by blast
  show "sorted (map ee_received_at (store_log C s))" if "store_valid C s" for s
    using store_inv_ordered[OF store_validE(1)[OF that]] by simp
  show "distinct (map ee_event_id (store_log C s))" if "store_valid C s" for s
    using store_inv_ordered[OF store_validE(1)[OF that]] by simp
qed

lemma empty_valid: "store_valid C empty_database" "store_log C empty_database = []"
  using store_inv_log[OF empty_inv] by simp_all

subsection \<open>Properties\<close>

text \<open>
  C16. Nothing is dispatched that is not durable, and every durable event was handed to the callback: over
  any sequence of publications to an empty repository, with a callback that may fail on any event, the
  events handed on are exactly the stored log, in order and once each; every publication after the first
  failed one, be it of the transaction or of the dispatch, is refused with the latch and has no effect,
  and the journal is halted exactly when some publication failed.
\<close>

theorem durable_before_dispatch:
  assumes "\<forall>(e, key, st) \<in> set calls. faithful C e"
    and "publish_all (append_event C) (recorder outcome) calls (new_journal empty_database, []) = (rs, j, dispatched)"
  shows "read_events C 0 (jr_repository j) = Inr dispatched
    \<and> latch_shape rs \<and> (jr_blocked j \<longleftrightarrow> list_ex isl rs)"
proof -
  have new: "jr_repository (new_journal empty_database) = empty_database" "\<not> jr_blocked (new_journal empty_database)"
    by (simp_all add: new_journal_def)
  have "store_valid C (jr_repository j)" "store_log C (jr_repository j) = dispatched"
    using postgres.publish_all_log[OF assms(2)] assms(1) empty_valid new by auto
  then show ?thesis using store_validE(2) publish_all_results[OF new(2) assms(2)] by fastforce
qed

text \<open>A run on the example events: the second dispatch fails, the third publication meets the latch.\<close>

lemma example_publish:
  "\<exists>j. publish_all (append_event example_codec) (recorder (\<lambda>e. if ee_event_id e = ''e2'' then Some OverflowError else None))
       (example_calls @ [(example_event ''e1'' 1, example_key (CHR ''a''), None)]) (new_journal empty_database, [])
     = ([Inr True, Inr False,
         Inl (CriticalWriteFailure ''dispatch failed after commit; replay recovery required''), Inl latched],
        j, [example_event ''e1'' 1, example_event ''e2'' 2])"
proof -
  let ?a = "append_event example_codec" and ?e1 = "example_event ''e1'' 1" and ?e2 = "example_event ''e2'' 2"
  obtain db3 where run: "run_appends example_codec example_calls empty_database = ([Inr True, Inr False, Inr True], db3)"
    using example_run by blast
  obtain db1 db2 where a: "?a ?e1 (example_key (CHR ''a'')) None empty_database = (Inr True, db1)"
    "?a ?e1 (example_key (CHR ''a'')) None db1 = (Inr False, db2)"
    "?a ?e2 (example_key (CHR ''b'')) (Some example_state) db2 = (Inr True, db3)"
    using run by (auto simp: example_calls_def split: prod.splits)
  have ids: "ee_event_id ?e1 = ''e1''" "ee_event_id ?e2 = ''e2''" by (simp_all add: example_event_def)
  show ?thesis
    by (simp add: example_calls_def publish_def new_journal_def recorder_def a ids)
qed

theorem durable_before_dispatch_witness:
  "\<exists>j :: database journal. read_events example_codec 0 (jr_repository j) = Inr [example_event ''e1'' 1, example_event ''e2'' 2]
     \<and> jr_blocked j"
proof -
  obtain j where j: "publish_all (append_event example_codec)
       (recorder (\<lambda>e. if ee_event_id e = ''e2'' then Some OverflowError else None))
       (example_calls @ [(example_event ''e1'' 1, example_key (CHR ''a''), None)]) (new_journal empty_database, [])
     = ([Inr True, Inr False,
         Inl (CriticalWriteFailure ''dispatch failed after commit; replay recovery required''), Inl latched],
        j, [example_event ''e1'' 1, example_event ''e2'' 2])" using example_publish by blast
  have "\<forall>(e, key, st) \<in> set (example_calls @ [(example_event ''e1'' 1, example_key (CHR ''a''), None)]).
      faithful example_codec e" using example_calls_faithful example_faithful by auto
  from durable_before_dispatch[OF this j] show ?thesis by auto
qed

text \<open>Replaying a log in the order of receipt.\<close>

definition watching :: "(event, replay_clock \<times> (instant \<times> event) list) emitter" where
  "watching e s = (case s of (clock, w) \<Rightarrow> (None, clock, w @ [(replay_now clock, e)]))"

lemma replay_run_log:
  assumes "sorted (replay_now clock # map ee_received_at es)" "distinct (map ee_event_id es)"
    and "\<forall>e\<in>set es. seen (ee_event_id e) = None"
  shows "\<exists>clock'. replay_run C watching seen es n (clock, w)
     = (Inr (n + int (length es)), clock', w @ map (\<lambda>e. (ee_received_at e, e)) es)"
  using assms
proof (induction es arbitrary: clock seen n w)
  case (Cons e es)
  obtain c1 where c1: "replay_adv (ee_received_at e) clock = Inr c1"
    using replay.adv_total[of clock "ee_received_at e"] Cons.prems(1) by auto
  note now = replay.adv_now[OF c1]
  define seen' where "seen' = seen(ee_event_id e \<mapsto> event_hash C e)"
  have "sorted (replay_now c1 # map ee_received_at es)" using Cons.prems(1) now by auto
  moreover have "\<forall>x\<in>set es. seen' (ee_event_id x) = None"
    using Cons.prems(2,3) by (auto simp: seen'_def) (metis image_eqI)
  ultimately have IH: "\<exists>clock'. replay_run C watching seen' es (n + 1) (c1, w @ [(ee_received_at e, e)])
     = (Inr (n + 1 + int (length es)), clock', (w @ [(ee_received_at e, e)]) @ map (\<lambda>e. (ee_received_at e, e)) es)"
    using Cons.prems(2) by (intro Cons.IH) auto
  have "replay_run C watching seen (e # es) n (clock, w)
      = replay_run C watching seen' es (n + 1) (c1, w @ [(ee_received_at e, e)])"
    using Cons.prems(3) c1 now by (simp add: watching_def seen'_def)
  then show ?case using IH by (auto simp: add.assoc add.commute add.left_commute)
qed simp

text \<open>
  C17. Replay reproduces the live dispatch: whatever was published, and whichever callback failed, reading
  the store and replaying it on a clock set at or before the first receipt never fails and hands on
  exactly the events that were dispatched live, in the same order, each at its own receipt time.
\<close>

theorem replay_equals_live:
  assumes "\<forall>(e, key, st) \<in> set calls. faithful C e"
    and "publish_all (append_event C) (recorder outcome) calls (new_journal empty_database, []) = (rs, j, dispatched)"
    and "\<forall>e\<in>set dispatched. start \<le> ee_received_at e"
  shows "\<exists>es clock. read_events C 0 (jr_repository j) = Inr es
    \<and> replay_run C watching Map.empty es 0 (\<lparr>rc_instant = start\<rparr>, [])
      = (Inr (int (length dispatched)), clock, map (\<lambda>e. (ee_received_at e, e)) dispatched)"
proof -
  have new: "jr_repository (new_journal empty_database) = empty_database" by (simp add: new_journal_def)
  have v: "store_valid C (jr_repository j)" and log: "store_log C (jr_repository j) = dispatched"
    using postgres.publish_all_log[OF assms(2)] assms(1) empty_valid new by auto
  have "sorted (replay_now \<lparr>rc_instant = start\<rparr> # map ee_received_at dispatched)"
    using postgres.log_ordered[OF v] log assms(3) by (auto simp: replay_now_def)
  from replay_run_log[OF this, of Map.empty C 0 "[]"] postgres.log_distinct[OF v] store_validE(2)[OF v] log
  show ?thesis by auto
qed

theorem replay_equals_live_witness:
  "\<exists>(j :: database journal) es clock. read_events example_codec 0 (jr_repository j) = Inr es
     \<and> replay_run example_codec watching Map.empty es 0 (\<lparr>rc_instant = 1\<rparr>, [])
       = (Inr 2, clock, [(1, example_event ''e1'' 1), (2, example_event ''e2'' 2)])"
proof -
  obtain j where j: "publish_all (append_event example_codec)
       (recorder (\<lambda>e. if ee_event_id e = ''e2'' then Some OverflowError else None))
       (example_calls @ [(example_event ''e1'' 1, example_key (CHR ''a''), None)]) (new_journal empty_database, [])
     = ([Inr True, Inr False,
         Inl (CriticalWriteFailure ''dispatch failed after commit; replay recovery required''), Inl latched],
        j, [example_event ''e1'' 1, example_event ''e2'' 2])" using example_publish by blast
  have f: "\<forall>(e, key, st) \<in> set (example_calls @ [(example_event ''e1'' 1, example_key (CHR ''a''), None)]).
      faithful example_codec e" using example_calls_faithful example_faithful by auto
  have t: "ee_received_at (example_event i k) = k" for i k by (simp add: example_event_def)
  have "\<forall>e\<in>set [example_event ''e1'' 1, example_event ''e2'' 2]. 1 \<le> ee_received_at e" by (simp add: t)
  from replay_equals_live[OF f j this] show ?thesis by (auto simp: t)
qed

end
