(* ===== verification/Publication.thy ===== *)
theory Publication
  imports Journal
begin

text \<open>
  The publishers: \<open>market_state/service.py\<close>, \<open>portfolio/publication.py\<close>, \<open>alphas/publication.py\<close>,
  \<open>alphas/pairs_publication.py\<close>, \<open>alphas/relative_value_publication.py\<close> and \<open>features/service.py\<close>.  Each builds one event with a
  derived identity and publishes it under a derived key; errors of the event's validators and of the key
  are raised before the journal is touched.  \<open>u\<close> stands for \<open>uuid5(NAMESPACE_URL, _)\<close>.
\<close>

subsection \<open>Events\<close>

definition state_event :: "codec \<Rightarrow> (string \<Rightarrow> uuid) \<Rightarrow> state_decision \<Rightarrow> uuid \<Rightarrow> instant \<Rightarrow> event" where
  "state_event C u d corr received =
     \<lparr>ee_event_id = u (''godzilla:market-state:'' @ decision_hash C d), ee_correlation_id = corr,
      ee_occurred_at = sd_timestamp d, ee_received_at = received, ee_source = ''market-state-router'',
      ee_provenance = \<lparr>pv_code_commit = sd_code_commit d, pv_config_hash = sd_config_hash d,
         pv_data_snapshot = sd_data_snapshot d, pv_feature_version = se_feature_set_hash (sd_evidence d)\<rparr>,
      ee_payload = Market_State_Update \<lparr>mu_state = market_state_name (sd_state d),
         mu_reasons = se_reasons (sd_evidence d), mu_decision = Some d\<rparr>\<rparr>"

definition health_identity :: "alpha_health_snapshot \<Rightarrow> string" where
  "health_identity s = alpha_value (hs_alpha_id s) @ '':'' @ iso_instant (hs_timestamp s)"

definition health_event_of :: "(string \<Rightarrow> uuid) \<Rightarrow> alpha_health_snapshot \<Rightarrow> uuid \<Rightarrow> instant \<Rightarrow> event" where
  "health_event_of u s corr received =
     \<lparr>ee_event_id = u (''godzilla:alpha-health:'' @ health_identity s), ee_correlation_id = corr,
      ee_occurred_at = hs_timestamp s, ee_received_at = received, ee_source = ''alpha-health'',
      ee_provenance = \<lparr>pv_code_commit = hs_code_commit s, pv_config_hash = hs_config_hash s,
         pv_data_snapshot = hs_data_snapshot s, pv_feature_version = ''alpha-health-v1''\<rparr>,
      ee_payload = Health_Event \<lparr>he_component = alpha_value (hs_alpha_id s), he_status = HEALTHY,
         he_blocking = False, he_reason = ''RESEARCH_PERFORMANCE_NOT_SYSTEM_HEALTH'',
         he_alpha_snapshot = Some s\<rparr>\<rparr>"

datatype allocation = Ensemble_Allocation ensemble_decision | Portfolio_Allocation portfolio_decision

fun allocation_id :: "allocation \<Rightarrow> uuid" where
  "allocation_id (Ensemble_Allocation d) = ed_decision_id d"
| "allocation_id (Portfolio_Allocation d) = pd_decision_id d"

fun allocation_payload :: "allocation \<Rightarrow> decision" where
  "allocation_payload (Ensemble_Allocation d) =
     \<lparr>de_kind = ENSEMBLE_DECISION, de_decision_id = ed_decision_id d, de_intent_id = ed_decision_id d,
      de_accepted = False, de_reasons = ed_reasons d, de_ensemble = Some d, de_portfolio = None\<rparr>"
| "allocation_payload (Portfolio_Allocation d) =
     \<lparr>de_kind = PORTFOLIO_DECISION, de_decision_id = pd_decision_id d, de_intent_id = pd_decision_id d,
      de_accepted = False, de_reasons = pd_reasons d, de_ensemble = None, de_portfolio = Some d\<rparr>"

fun allocation_time :: "allocation \<Rightarrow> instant" where
  "allocation_time (Ensemble_Allocation d) = ed_timestamp d"
| "allocation_time (Portfolio_Allocation d) = pd_timestamp d"

fun allocation_source :: "allocation \<Rightarrow> string" where
  "allocation_source (Ensemble_Allocation d) = ''ensemble''"
| "allocation_source (Portfolio_Allocation d) = ''portfolio''"

definition decision_event :: "(string \<Rightarrow> uuid) \<Rightarrow> allocation \<Rightarrow> provenance \<Rightarrow> uuid \<Rightarrow> instant \<Rightarrow> event" where
  "decision_event u d prov corr received =
     \<lparr>ee_event_id = u (''godzilla:allocation-event:'' @ allocation_id d), ee_correlation_id = corr,
      ee_occurred_at = allocation_time d, ee_received_at = received, ee_source = allocation_source d,
      ee_provenance = prov, ee_payload = Decision_Event (allocation_payload d)\<rparr>"

definition signal_event ::
  "(string \<Rightarrow> uuid) \<Rightarrow> signal_intent \<Rightarrow> signal_evidence \<Rightarrow> uuid \<Rightarrow> instant \<Rightarrow> event" where
  "signal_event u i ev corr received =
     \<lparr>ee_event_id = u (''godzilla:signal-event:'' @ si_signal_id i), ee_correlation_id = corr,
      ee_occurred_at = ev_timestamp ev, ee_received_at = received, ee_source = si_alpha_id i,
      ee_provenance = \<lparr>pv_code_commit = ev_code_commit ev, pv_config_hash = ev_config_hash ev,
         pv_data_snapshot = ev_data_snapshot ev, pv_feature_version = ev_feature_set_hash ev\<rparr>,
      ee_payload = Signal_Intent i\<rparr>"

definition pair_event :: "(string \<Rightarrow> uuid) \<Rightarrow> pair_intent \<Rightarrow> uuid \<Rightarrow> instant \<Rightarrow> event" where
  "pair_event u i corr received =
     \<lparr>ee_event_id = u (''godzilla:pair-event:'' @ pi_signal_id i), ee_correlation_id = corr,
      ee_occurred_at = pi_timestamp i, ee_received_at = received, ee_source = ''pairs_stat_arb'',
      ee_provenance = \<lparr>pv_code_commit = pi_code_commit i, pv_config_hash = pi_config_hash i,
         pv_data_snapshot = pi_data_snapshot i, pv_feature_version = ''pairs-fit-v1''\<rparr>,
      ee_payload = Pair_Intent i\<rparr>"

definition relative_event :: "(string \<Rightarrow> uuid) \<Rightarrow> relative_intent \<Rightarrow> uuid \<Rightarrow> instant \<Rightarrow> event" where
  "relative_event u i corr received =
     \<lparr>ee_event_id = u (''godzilla:rv-event:'' @ ri_signal_id i), ee_correlation_id = corr,
      ee_occurred_at = ri_timestamp i, ee_received_at = received, ee_source = ''sector_relative_value'',
      ee_provenance = \<lparr>pv_code_commit = ri_code_commit i, pv_config_hash = ri_config_hash i,
         pv_data_snapshot = ri_data_snapshot i, pv_feature_version = ri_feature_set_hash i\<rparr>,
      ee_payload = Relative_Intent i\<rparr>"

definition feature_event :: "codec \<Rightarrow> (string \<Rightarrow> uuid) \<Rightarrow> feature_snapshot \<Rightarrow> feature_set_version \<Rightarrow> uuid \<Rightarrow> event" where
  "feature_event C u s d corr =
     \<lparr>ee_event_id = u (''godzilla:feature:'' @ snapshot_hash C s), ee_correlation_id = corr,
      ee_occurred_at = sn_timestamp s, ee_received_at = sn_timestamp s, ee_source = ''feature-engine'',
      ee_provenance = \<lparr>pv_code_commit = sn_code_commit s, pv_config_hash = sn_config_hash s,
         pv_data_snapshot = sn_data_snapshot s, pv_feature_version = sn_feature_set_hash s\<rparr>,
      ee_payload = Feature_Update \<lparr>fu_entity = sn_entity s, fu_feature_version = sn_feature_set_hash s,
         fu_values = map (\<lambda>v. \<lparr>nv_name = fv_name v, nv_value = dec_of_float (the (fv_value v))\<rparr>)
           (filter (\<lambda>v. fv_value v \<noteq> None) (sn_values s)),
         fu_snapshot = Some s, fu_definition = Some d\<rparr>\<rparr>"

subsection \<open>Publishers\<close>

type_synonym ('s, 'w) publisher = "'s journal \<times> 'w \<Rightarrow> bool result \<times> 's journal \<times> 'w"

definition publish_event ::
  "codec \<Rightarrow> 's appender \<Rightarrow> event \<Rightarrow> string \<Rightarrow> string \<Rightarrow> (event, 'w) emitter option \<Rightarrow> ('s, 'w) publisher" where
  "publish_event C app e namespace identity emit s =
     (case rbind (mk_event C e) (\<lambda>e1. idempotency_key C namespace [identity]) of
        Inl err \<Rightarrow> (Inl err, s)
      | Inr key \<Rightarrow> publish app e key None emit s)"

definition publish_state ::
  "codec \<Rightarrow> (string \<Rightarrow> uuid) \<Rightarrow> 's appender \<Rightarrow> state_decision \<Rightarrow> uuid \<Rightarrow> instant
     \<Rightarrow> (event, 'w) emitter option \<Rightarrow> ('s, 'w) publisher" where
  "publish_state C u app d corr received =
     publish_event C app (state_event C u d corr received) ''market-state'' (decision_hash C d)"

definition publish_health ::
  "codec \<Rightarrow> (string \<Rightarrow> uuid) \<Rightarrow> 's appender \<Rightarrow> alpha_health_snapshot \<Rightarrow> uuid \<Rightarrow> instant
     \<Rightarrow> (event, 'w) emitter option \<Rightarrow> ('s, 'w) publisher" where
  "publish_health C u app s corr received =
     publish_event C app (health_event_of u s corr received) ''alpha-health'' (health_identity s)"

definition publish_decision ::
  "codec \<Rightarrow> (string \<Rightarrow> uuid) \<Rightarrow> 's appender \<Rightarrow> allocation \<Rightarrow> provenance \<Rightarrow> uuid \<Rightarrow> instant
     \<Rightarrow> (event, 'w) emitter option \<Rightarrow> ('s, 'w) publisher" where
  "publish_decision C u app d prov corr received =
     publish_event C app (decision_event u d prov corr received) ''allocation'' (allocation_id d)"

definition publish_intent ::
  "codec \<Rightarrow> (string \<Rightarrow> uuid) \<Rightarrow> 's appender \<Rightarrow> signal_intent \<Rightarrow> uuid \<Rightarrow> instant
     \<Rightarrow> (event, 'w) emitter option \<Rightarrow> ('s, 'w) publisher" where
  "publish_intent C u app i corr received emit s =
     (case si_evidence i of
        None \<Rightarrow> (Inl (ValueError ''alpha publication requires scored evidence''), s)
      | Some ev \<Rightarrow>
          publish_event C app (signal_event u i ev corr received) ''signal-intent'' (si_signal_id i) emit s)"

definition publish_pair_intent ::
  "codec \<Rightarrow> (string \<Rightarrow> uuid) \<Rightarrow> 's appender \<Rightarrow> pair_intent \<Rightarrow> uuid \<Rightarrow> instant
     \<Rightarrow> (event, 'w) emitter option \<Rightarrow> ('s, 'w) publisher" where
  "publish_pair_intent C u app i corr received =
     publish_event C app (pair_event u i corr received) ''pair-intent'' (pi_signal_id i)"

definition publish_relative_value ::
  "codec \<Rightarrow> (string \<Rightarrow> uuid) \<Rightarrow> 's appender \<Rightarrow> relative_intent \<Rightarrow> uuid \<Rightarrow> instant
     \<Rightarrow> (event, 'w) emitter option \<Rightarrow> ('s, 'w) publisher" where
  "publish_relative_value C u app i corr received =
     publish_event C app (relative_event u i corr received) ''rv-intent'' (ri_signal_id i)"

definition publish_snapshot ::
  "codec \<Rightarrow> (string \<Rightarrow> uuid) \<Rightarrow> 's appender \<Rightarrow> feature_snapshot \<Rightarrow> feature_set_version \<Rightarrow> uuid
     \<Rightarrow> ('s, 'w) publisher" where
  "publish_snapshot C u app s d corr =
     publish_event C app (feature_event C u s d corr) ''feature-snapshot'' (snapshot_hash C s) None"

subsection \<open>Repositories that recognise redeliveries\<close>

locale idempotent_repository = event_repository valid log fits app
  for valid :: "'s \<Rightarrow> bool" and log :: "'s \<Rightarrow> event list" and fits :: "event \<Rightarrow> bool"
    and app :: "'s appender" +
  fixes holds :: "event \<Rightarrow> string \<Rightarrow> state_snapshot option \<Rightarrow> 's \<Rightarrow> bool"
  assumes accepted_holds: "app e key st s = (Inr True, s') \<Longrightarrow> holds e key st s'"
    and holds_kept: "holds e key st s \<Longrightarrow> app e' key' st' s = (r, s') \<Longrightarrow> holds e key st s'"
    and holds_again: "valid s \<Longrightarrow> fits e \<Longrightarrow> holds e key st s \<Longrightarrow> app e key st s = (Inr False, s)"
begin

text \<open>What a publication does to the repository: one append, or nothing.\<close>

lemma publish_step:
  assumes "publish app e key st (Some f) (j, w) = (r, j', w')"
  shows "(\<exists>r'. app e key st (jr_repository j) = (r', jr_repository j')) \<or> jr_repository j' = jr_repository j"
  using assms by (cases rule: publish_cases) auto

lemma publish_all_kept:
  assumes "publish_all app f calls (j, w) = (rs, j', w')" "\<forall>(e, key, st) \<in> set calls. fits e"
    and "valid (jr_repository j)" "holds e key st (jr_repository j)"
  shows "valid (jr_repository j') \<and> holds e key st (jr_repository j')
    \<and> set (log (jr_repository j)) \<subseteq> set (log (jr_repository j'))"
  using assms
proof (induction calls arbitrary: j w rs)
  case (Cons c calls)
  obtain e1 k1 st1 where c: "c = (e1, k1, st1)" by (cases c)
  obtain r j1 w1 rs1 where p: "publish app e1 k1 st1 (Some f) (j, w) = (r, j1, w1)"
    and run: "publish_all app f calls (j1, w1) = (rs1, j', w')"
    using Cons.prems(1) unfolding c by (rule publish_all_ConsE)
  have fit: "fits e1" using Cons.prems(2) c by auto
  have "valid (jr_repository j1) \<and> holds e key st (jr_repository j1)
      \<and> set (log (jr_repository j)) \<subseteq> set (log (jr_repository j1))"
    using publish_step[OF p]
  proof
    assume "\<exists>r'. app e1 k1 st1 (jr_repository j) = (r', jr_repository j1)"
    then obtain r' where a: "app e1 k1 st1 (jr_repository j) = (r', jr_repository j1)" by blast
    show ?thesis
      using app_valid[OF Cons.prems(3) fit a] app_log[OF Cons.prems(3) fit a] holds_kept[OF Cons.prems(4) a]
      by auto
  qed (use Cons.prems in simp)
  then show ?case using Cons.IH[OF run] Cons.prems(2) by fastforce
qed simp

lemma publish_all_valid:
  assumes "publish_all app f calls (j, w) = (rs, j', w')" "\<forall>(e, key, st) \<in> set calls. fits e"
    and "valid (jr_repository j)"
  shows "valid (jr_repository j')"
  using assms
proof (induction calls arbitrary: j w rs)
  case (Cons c calls)
  obtain e key st where c: "c = (e, key, st)" by (cases c)
  obtain r j1 w1 rs1 where p: "publish app e key st (Some f) (j, w) = (r, j1, w1)"
    and run: "publish_all app f calls (j1, w1) = (rs1, j', w')"
    using Cons.prems(1) unfolding c by (rule publish_all_ConsE)
  have "valid (jr_repository j1)"
    using publish_step[OF p] app_valid[OF Cons.prems(3)] Cons.prems(2,3) c by auto
  from Cons.IH[OF run _ this] Cons.prems(2) show ?case by simp
qed simp

text \<open>An accepted publication, repeated at any later time, does nothing.\<close>

lemma publish_again:
  assumes "publish app e key st (Some f) (j, w) = (Inr True, j1, w1)"
    and "valid (jr_repository j)" "fits e" "\<forall>(e, key, st) \<in> set calls. fits e"
    and "publish_all app f calls (j1, w1) = (rs, j2, w2)" "\<not> jr_blocked j2"
  shows "publish app e key st emit (j2, w3) = (Inr False, j2\<lparr>jr_validated := True\<rparr>, w3)"
proof -
  have a: "app e key st (jr_repository j) = (Inr True, jr_repository j1)"
    using assms(1) by (cases rule: publish_cases) auto
  have "valid (jr_repository j2)" "holds e key st (jr_repository j2)"
    using publish_all_kept[OF assms(5,4) app_valid[OF assms(2,3) a] accepted_holds[OF a]] by auto
  from holds_again[OF this(1) assms(3) this(2)] assms(6) show ?thesis
    by (cases emit) (simp_all add: publish_def)
qed

end

definition store_holds :: "event \<Rightarrow> string \<Rightarrow> state_snapshot option \<Rightarrow> codec \<Rightarrow> database \<Rightarrow> bool" where
  "store_holds e key st C db \<longleftrightarrow> is_hex_digest key \<and> state_fits e st
     \<and> (\<exists>seq p. audit_row_of C e key st seq p \<in> set (db_audit db))"

interpretation postgres: idempotent_repository "store_valid C" "store_log C" "faithful C" "append_event C"
    "\<lambda>e key st. store_holds e key st C"
  for C :: codec
proof
  show "store_holds e key st C s'" if "append_event C e key st s = (Inr True, s')" for e key st s s'
    using append_event_True[OF that] by (auto simp: store_holds_def)
  show "store_holds e key st C s'"
    if "store_holds e key st C s" "append_event C e' key' st' s = (r, s')" for e key st s e' key' st' r s'
    using that append_event_rows[OF that(2)] by (auto simp: store_holds_def)
  show "append_event C e key st s = (Inr False, s)"
    if v: "store_valid C s" and f: "faithful C e" and h: "store_holds e key st C s" for s e key st
  proof -
    obtain seq p where row: "is_hex_digest key" "state_fits e st" "audit_row_of C e key st seq p \<in> set (db_audit s)"
      using h by (auto simp: store_holds_def)
    have "fst (append_event C e key st s) = Inr False"
      using append_again[OF store_validE(1)[OF v] row(3) f row(1,2)] .
    then obtain s' where a: "append_event C e key st s = (Inr False, s')"
      by (cases "append_event C e key st s") auto
    from a have "s' = s" by (cases rule: append_event_cases) auto
    with a show ?thesis by simp
  qed
qed

subsection \<open>Published decisions\<close>

lemma project_portfolio:
  assumes "project C e db = Inr db'"
  shows "\<exists>xs. db_portfolio db' = db_portfolio db @ xs"
  using assms
  by (auto simp: project_def project_features_def project_decision_def add_signal_def add_row_def result_simps Let_def
      split: payload.splits option.splits if_splits)

lemma append_event_portfolio:
  assumes "append_event C e key st db = (r, db')"
  shows "\<exists>xs. db_portfolio db' = db_portfolio db @ xs"
proof (cases "r = Inr True")
  case True
  then have "write_event C e key st db = Inr db'"
    using assms by (auto simp: append_event_def redelivery_def split: if_splits option.splits sum.splits)
  then show ?thesis using project_portfolio by (fastforce simp: write_event_def Let_def result_simps)
next
  case False
  with assms show ?thesis by (cases rule: append_event_cases) auto
qed

lemma find_append_Some: "find P xs = Some x \<Longrightarrow> find P (xs @ ys) = Some x"
  by (induction xs) auto

lemma publish_all_portfolio:
  assumes "publish_all (append_event C) f calls (j, w) = (rs, j', w')"
    and "find P (db_portfolio (jr_repository j)) = Some row"
  shows "find P (db_portfolio (jr_repository j')) = Some row"
  using assms
proof (induction calls arbitrary: j w rs)
  case (Cons c calls)
  obtain e key st where c: "c = (e, key, st)" by (cases c)
  obtain r j1 w1 rs1 where p: "publish (append_event C) e key st (Some f) (j, w) = (r, j1, w1)"
    and run: "publish_all (append_event C) f calls (j1, w1) = (rs1, j', w')"
    using Cons.prems(1) unfolding c by (rule publish_all_ConsE)
  have "find P (db_portfolio (jr_repository j1)) = Some row"
    using postgres.publish_step[OF p] append_event_portfolio find_append_Some[OF Cons.prems(2)] Cons.prems(2) by metis
  from Cons.IH[OF run this] show ?case .
qed simp

text \<open>The row written for an accepted portfolio decision.\<close>

lemma accepted_portfolio_row:
  assumes "append_event C e key st db = (Inr True, db')"
    and "ee_payload e = Decision_Event d" "de_portfolio d = Some p" "de_ensemble d = None"
  shows "find (\<lambda>r. dr_decision_id r = pd_decision_id p) (db_portfolio db')
    = Some \<lparr>dr_decision_id = pd_decision_id p, dr_event_id = ee_event_id e, dr_timestamp = pd_timestamp p,
            dr_payload = co_portfolio C p\<rparr>"
proof -
  let ?row = "\<lparr>dr_decision_id = pd_decision_id p, dr_event_id = ee_event_id e, dr_timestamp = pd_timestamp p,
            dr_payload = co_portfolio C p\<rparr>"
  have "write_event C e key st db = Inr db'"
    using assms(1) by (auto simp: append_event_def redelivery_def split: if_splits option.splits sum.splits)
  then have "db_portfolio db' = db_portfolio db @ [?row] \<and> \<not> list_ex (decision_clash ?row) (db_portfolio db)"
    by (auto simp: write_event_def Let_def result_simps project_def assms(2-4) project_decision_def add_row_def
        split: if_splits)
  moreover from this have "find (\<lambda>r. dr_decision_id r = pd_decision_id p) (db_portfolio db) = None"
    by (auto simp: find_None_iff list_ex_iff decision_clash_def)
  ultimately show ?thesis by (simp add: find_filter_append)
qed

text \<open>
  C14. A published portfolio decision is durable and published once: in a journal on an empty repository
  that ran any publications before, once publishing the decision is accepted, then after any further
  publications, accepted or failing, the decision is read back unchanged by its identifier, past the
  check against the audit chain; and publishing it again changes nothing but to be reported as a
  redelivery, unless the journal is halted.
\<close>

theorem decision_published_once:
  assumes "\<forall>(e, key, st) \<in> set (before @ after). faithful C e"
    and "faithful C (decision_event u (Portfolio_Allocation d) prov corr received)"
    and "co_read_portfolio C (co_portfolio C d) = Inr d"
    and "publish_all (append_event C) f before (new_journal empty_database, w0) = (rs0, s0)"
    and "publish_decision C u (append_event C) (Portfolio_Allocation d) prov corr received (Some f) s0 = (Inr True, s1)"
    and "publish_all (append_event C) f after s1 = (rs1, j, w)"
  shows "get_portfolio_decision C (pd_decision_id d) (jr_repository j) = Inr (Some d)
    \<and> (\<not> jr_blocked j \<longrightarrow>
        publish_decision C u (append_event C) (Portfolio_Allocation d) prov corr received emit (j, w)
        = (Inr False, j\<lparr>jr_validated := True\<rparr>, w))"
proof -
  let ?e = "decision_event u (Portfolio_Allocation d) prov corr received"
  obtain j0 v0 where s0: "s0 = (j0, v0)" by fastforce
  obtain j1 v1 where s1: "s1 = (j1, v1)" by fastforce
  obtain key where key: "mk_event C ?e = Inr ?e" "idempotency_key C ''allocation'' [pd_decision_id d] = Inr key"
    and pub: "publish (append_event C) ?e key None (Some f) (j0, v0) = (Inr True, j1, v1)"
    using assms(5) s0 s1
    by (auto simp: publish_decision_def publish_event_def result_simps mk_event_Inr_iff split: sum.splits)
  have new: "jr_repository (new_journal empty_database) = empty_database" by (simp add: new_journal_def)
  have v0: "store_valid C (jr_repository j0)"
    using postgres.publish_all_valid[OF assms(4)[unfolded s0]] assms(1) empty_valid new by auto
  have a: "append_event C ?e key None (jr_repository j0) = (Inr True, jr_repository j1)"
    using pub by (cases rule: publish_cases) auto
  have v1: "store_valid C (jr_repository j1)" by (rule postgres.app_valid[OF v0 assms(2) a])
  have kept: "store_valid C (jr_repository j)"
    "set (store_log C (jr_repository j1)) \<subseteq> set (store_log C (jr_repository j))"
    using postgres.publish_all_kept[OF assms(6)[unfolded s1] _ v1 postgres.accepted_holds[OF a]] assms(1) by auto
  have mem: "?e \<in> set (store_log C (jr_repository j))"
    using kept(2) postgres.app_log[OF v0 assms(2) a] by auto
  have ev: "ee_payload ?e = Decision_Event (allocation_payload (Portfolio_Allocation d))"
    by (simp add: decision_event_def)
  have row: "find (\<lambda>r. dr_decision_id r = pd_decision_id d) (db_portfolio (jr_repository j))
      = Some \<lparr>dr_decision_id = pd_decision_id d, dr_event_id = ee_event_id ?e, dr_timestamp = pd_timestamp d,
              dr_payload = co_portfolio C d\<rparr>"
    using publish_all_portfolio[OF assms(6)[unfolded s1]] accepted_portfolio_row[OF a ev] by simp
  have "find (\<lambda>e. ee_event_id e = ee_event_id ?e) (store_log C (jr_repository j)) = Some ?e"
    using postgres.log_distinct[OF kept(1)] mem by (intro find_unique) (auto intro: distinct_map_eq)
  then have "original_payload C (ee_event_id ?e) (jr_repository j) = Inr (Some (ee_payload ?e))"
    using store_validE(2)[OF kept(1)] by (simp add: original_payload_def)
  then have "get_portfolio_decision C (pd_decision_id d) (jr_repository j) = Inr (Some d)"
    by (simp add: get_portfolio_decision_def row assms(3) ev)
  moreover have "publish_decision C u (append_event C) (Portfolio_Allocation d) prov corr received emit (j, w)
        = (Inr False, j\<lparr>jr_validated := True\<rparr>, w)" if "\<not> jr_blocked j"
    using postgres.publish_again[OF pub v0 assms(2) _ assms(6)[unfolded s1] that] assms(1) key
    by (auto simp: publish_decision_def publish_event_def)
  ultimately show ?thesis by blast
qed

definition example_portfolio :: portfolio_decision where
  "example_portfolio = \<lparr>pd_decision_id = ''d1'', pd_timestamp = 5, pd_targets = [], pd_allocations = [],
     pd_reasons = [], pd_input_hash = ''h'', pd_settings = example_allocator\<rparr>"

definition portfolio_event :: event where
  "portfolio_event = decision_event (\<lambda>s. s) (Portfolio_Allocation example_portfolio) example_provenance ''corr'' 6"

definition portfolio_codec :: codec where
  "portfolio_codec = example_codec\<lparr>co_sha256 := (\<lambda>s. replicate 64 (CHR ''a'')),
     co_read_event := (\<lambda>j. Inr portfolio_event), co_read_portfolio := (\<lambda>j. Inr example_portfolio)\<rparr>"

definition example_publication :: "(database, event list) publisher" where
  "example_publication = publish_decision portfolio_codec (\<lambda>s. s) (append_event portfolio_codec)
     (Portfolio_Allocation example_portfolio) example_provenance ''corr'' 6 (Some (recorder (\<lambda>e. None)))"

lemma example_publication_accepted:
  "\<exists>j. example_publication (new_journal empty_database, []) = (Inr True, j, [portfolio_event]) \<and> \<not> jr_blocked j"
proof -
  have p: "provenance_ok example_provenance" by code_simp
  have d: "is_hex_digest (replicate 64 (CHR ''a''))" by code_simp
  show ?thesis
    by (simp add: example_publication_def publish_decision_def publish_event_def mk_event_def portfolio_event_def
        decision_event_def p d allocation_kind_def causal_times_def dated_def example_portfolio_def
        idempotency_key_def portfolio_codec_def example_codec_def publish_def new_journal_def append_event_def
        empty_database_def tail_row_def write_event_def add_row_def project_def project_decision_def Let_def recorder_def)
qed

theorem decision_published_once_witness:
  "\<exists>j. example_publication (new_journal empty_database, []) = (Inr True, j, [portfolio_event])
     \<and> get_portfolio_decision portfolio_codec ''d1'' (jr_repository j) = Inr (Some example_portfolio)
     \<and> example_publication (j, [portfolio_event]) = (Inr False, j\<lparr>jr_validated := True\<rparr>, [portfolio_event])"
proof -
  obtain j where j: "example_publication (new_journal empty_database, []) = (Inr True, j, [portfolio_event])"
    "\<not> jr_blocked j" using example_publication_accepted by blast
  let ?f = "recorder (\<lambda>e. None)"
  have "faithful portfolio_codec (decision_event (\<lambda>s. s) (Portfolio_Allocation example_portfolio) example_provenance ''corr'' 6)"
    by (simp add: faithful_def portfolio_codec_def example_codec_def portfolio_event_def)
  moreover have "co_read_portfolio portfolio_codec (co_portfolio portfolio_codec example_portfolio) = Inr example_portfolio"
    by (simp add: portfolio_codec_def)
  ultimately have "get_portfolio_decision portfolio_codec (pd_decision_id example_portfolio) (jr_repository j)
      = Inr (Some example_portfolio) \<and> (\<not> jr_blocked j \<longrightarrow> example_publication (j, [portfolio_event])
      = (Inr False, j\<lparr>jr_validated := True\<rparr>, [portfolio_event]))"
    unfolding example_publication_def
    by (intro decision_published_once[of "[]" "[]" portfolio_codec _ _ _ _ _ ?f "[]" _ "(new_journal empty_database, [])" "(j, [portfolio_event])" "[]" j "[portfolio_event]"])
      (use j in \<open>simp_all add: example_publication_def\<close>)
  then show ?thesis using j by (simp add: example_portfolio_def)
qed

end
