(* ===== verification/Float_Math.thy ===== *)
theory Float_Math
  imports Numerics
begin

text \<open>
  \<open>features/math.py\<close> and the parts of \<open>math\<close> and \<open>statistics\<close> that the features use.  \<open>math.sqrt\<close> is the
  correctly rounded square root of IEEE 754.  \<open>x ** 2\<close> is rounded like the product.
\<close>

subsection \<open>Square roots\<close>

function isqrt :: "int \<Rightarrow> int" where
  "isqrt n = (if n \<le> 0 then 0 else
     let r = 2 * isqrt (n div 4) in if (r + 1) * (r + 1) \<le> n then r + 1 else r)"
  by pat_completeness auto
termination by (relation "measure nat") auto

declare isqrt.simps [simp del]

lemma isqrt_bounds: "0 \<le> n \<Longrightarrow> 0 \<le> isqrt n \<and> isqrt n * isqrt n \<le> n \<and> n < (isqrt n + 1) * (isqrt n + 1)"
proof (induction n rule: isqrt.induct)
  case (1 n)
  show ?case
  proof (cases "n = 0")
    case False
    let ?s = "isqrt (n div 4)"
    have n: "0 < n" using False 1(2) by simp
    have s: "0 \<le> ?s" "?s * ?s \<le> n div 4" "n div 4 < (?s + 1) * (?s + 1)" using 1(1) n by auto
    then have "4 * (?s * ?s) \<le> n" "n < 4 * ((?s + 1) * (?s + 1))" by linarith+
    moreover have "isqrt n = (if (2 * ?s + 1) * (2 * ?s + 1) \<le> n then 2 * ?s + 1 else 2 * ?s)"
      using n by (subst isqrt.simps) (simp add: Let_def)
    ultimately show ?thesis using s(1) by (auto simp: algebra_simps)
  qed (simp add: isqrt.simps)
qed

text \<open>
  The radicand is scaled by a power of four until its integer root has at least 55 bits; an inexact root
  keeps a sticky half, so that the final rounding is the rounding of the true root.
\<close>

definition fsqrt :: "rat \<Rightarrow> rat" where
  "fsqrt x =
     (if x \<le> 0 then 0 else
      let k = nat (55 - ilog 2 x div 2); y = x * 4 ^ k; r = isqrt \<lfloor>y\<rfloor>
      in fl ((of_int r + (if of_int (r * r) = y then 0 else 1 / 2)) / 2 ^ k))"

lemma fsqrt_nonneg: "0 \<le> fsqrt x"
proof (cases "x \<le> 0")
  case False
  then have "0 \<le> \<lfloor>x * 4 ^ nat (55 - ilog 2 x div 2)\<rfloor>" by simp
  from isqrt_bounds[OF this] show ?thesis
    by (auto simp: fsqrt_def Let_def intro!: flr.nonneg)
qed (simp add: fsqrt_def)

lemma fsqrt_zero [simp]: "fsqrt 0 = 0"
  by (simp add: fsqrt_def)

lemma fsqrt_examples: "fsqrt 4 = 2" "fsqrt (1 / 4) = 1 / 2" "fsqrt 2 = 6369051672525773 / 4503599627370496"
  by code_simp+

text \<open>\<open>math.isfinite\<close>: the magnitudes that overflow binary64 stand for the infinities.\<close>

definition float_finite :: "rat \<Rightarrow> bool" where
  "float_finite x \<longleftrightarrow> \<bar>x\<bar> < 2 ^ 1024"

text \<open>Small dyadic numbers are floats, and so are their sums: shortcuts for evaluation.\<close>

definition small_dyadic :: "rat \<Rightarrow> bool" where
  "small_dyadic x \<longleftrightarrow> (let (n, d) = quotient_of x in
     \<bar>n\<bar> < 1099511627776 \<and> list_ex ((=) d) [1, 2, 4, 8, 16, 32, 64, 128, 256, 512, 1024, 2048, 4096])"

lemma small_dyadic_cases:
  assumes "small_dyadic x"
  obtains m where "x = of_int m / 4096" "\<bar>m\<bar> < 4503599627370496"
proof -
  obtain n d where q: "quotient_of x = (n, d)" by force
  then have x: "x = of_int n / of_int d" and n: "\<bar>n\<bar> < 1099511627776"
    using quotient_of_div[OF q] assms by (auto simp: small_dyadic_def)
  have "\<exists>k. d * k = 4096 \<and> 0 < k \<and> k \<le> 4096" 
    using assms q by (auto simp: small_dyadic_def)
  then obtain k where k: "d * k = 4096" "0 < k" "k \<le> 4096" by blast
  have "(of_int d * of_int k :: rat) = 4096" using k(1) by (metis of_int_mult of_int_numeral)
  moreover have "(of_int k :: rat) \<noteq> 0" using k(2) by simp
  ultimately have "x = of_int (n * k) / 4096" unfolding x
    by (metis mult_divide_mult_cancel_right of_int_mult)
  moreover have "\<bar>n * k\<bar> < 4503599627370496"
    using mult_strict_right_mono[OF n k(2)] k(2,3) unfolding abs_mult by linarith
  ultimately show thesis by (rule that)
qed

lemma fl_small_dyadic: "small_dyadic x \<Longrightarrow> fl x = x"
proof (elim small_dyadic_cases)
  fix m assume x: "x = of_int m / 4096" and "\<bar>m\<bar> < 4503599627370496"
  then have "fl (of_int m / 2 ^ 12) = of_int m / 2 ^ 12" by (intro fl_dyadic) simp
  then show "fl x = x" by (simp only: x) simp
qed

lemma fl_code [code]: "fl x = (if small_dyadic x then x else round_sig 2 53 x)"
  by (simp add: fl_small_dyadic) (simp add: fl_def)

lemma dec_small_dyadic: "small_dyadic x \<Longrightarrow> dec x = x"
proof (elim small_dyadic_cases)
  fix m assume x: "x = of_int m / 4096" and m: "\<bar>m\<bar> < 4503599627370496"
  have "\<bar>m * 244140625\<bar> < int 10 ^ 28" using m by (simp add: abs_mult)
  then have "round_sig 10 28 (of_int (m * 244140625) * of_nat 10 powi (- 12)) = of_int (m * 244140625) * of_nat 10 powi (- 12)"
    by (rule round_sig_representable[rotated]) simp
  moreover have "(of_int (m * 244140625) * of_nat 10 powi (- 12) :: rat) = x"
    by (simp add: x power_int_minus)
  ultimately show "dec x = x" by (simp only: dec_def)
qed

lemma dec_code [code]: "dec x = (if small_dyadic x then x else round_sig 10 28 x)"
  by (simp add: dec_small_dyadic) (simp add: dec_def)

fun exact_sum :: "rat \<Rightarrow> rat list \<Rightarrow> rat option" where
  "exact_sum s [] = Some s"
| "exact_sum s (v # vs) = (let t = s + v in if small_dyadic v \<and> small_dyadic t then exact_sum t vs else None)"

lemma exact_sum_neumaier: "exact_sum s vs = Some t \<Longrightarrow> small_dyadic s \<Longrightarrow> neumaier s 0 vs = t"
proof (induction s vs rule: exact_sum.induct)
  case (2 s v vs)
  then have d: "small_dyadic v" "small_dyadic (s + v)" and t: "exact_sum (s + v) vs = Some t"
    by (auto simp: Let_def split: if_splits)
  have "fl (- v) = - v" "fl (- s) = - s"
    using fl_small_dyadic[OF d(1)] fl_small_dyadic[OF 2(3)] by (simp_all add: flr.minus)
  then show ?case using 2 d t by (simp add: Let_def fl_small_dyadic flr.zero)
qed simp

lemma float_sum_code [code]:
  "float_sum vs = (case exact_sum 0 vs of Some t \<Rightarrow> t | None \<Rightarrow> neumaier 0 0 vs)"
proof -
  have "small_dyadic 0" by (simp add: small_dyadic_def)
  then show ?thesis using exact_sum_neumaier[of 0 vs] by (auto simp: float_sum_def split: option.split)
qed

lemma float_finite_code [code]: "float_finite x \<longleftrightarrow> (if \<bar>x\<bar> < 1024 then True else \<bar>x\<bar> < 2 ^ 1024)"
proof -
  have "(1024 :: rat) \<le> 2 ^ 1024" using power_increasing[of 10 1024 "2::rat"] by simp
  then show ?thesis by (auto simp: float_finite_def)
qed

text \<open>A division whose divisor may be zero.\<close>

definition fdiv :: "rat \<Rightarrow> rat \<Rightarrow> rat result" where
  "fdiv x y = (if y = 0 then Inl ZeroDivisionError else Inr (fl (x / y)))"

lemma fdiv_Inr_iff [result_simps]: "fdiv x y = Inr q \<longleftrightarrow> y \<noteq> 0 \<and> q = fl (x / y)"
  by (auto simp: fdiv_def)

subsection \<open>Trailing primitives\<close>

definition ratio_change :: "rat \<Rightarrow> rat \<Rightarrow> rat option" where
  "ratio_change current previous =
     (if 0 < previous then Some (fl (fl (current / previous) - 1)) else None)"

definition fsquare :: "rat \<Rightarrow> rat" where
  "fsquare x = fl (x * x)"

definition population_std :: "rat list \<Rightarrow> rat" where
  "population_std values =
     (let mean = fmean values in fsqrt (fmean (map (\<lambda>v. fsquare (fl (v - mean))) values)))"

definition covariance :: "rat list \<Rightarrow> rat list \<Rightarrow> rat result" where
  "covariance left right =
     (if length left \<noteq> length right \<or> left = [] then
        Inl (ValueError ''covariance requires equal nonempty windows'')
      else let x = fmean left; y = fmean right in
        Inr (fmean (map2 (\<lambda>a b. fl (fl (a - x) * fl (b - y))) left right)))"

definition slope :: "rat list \<Rightarrow> rat result" where
  "slope values =
     (if length values < 2 then Inl (ValueError ''slope requires two observations'')
      else let time = map (\<lambda>i. fl (of_nat i)) [0..<length values] in
        rbind (covariance time values) (\<lambda>c. rbind (covariance time time) (\<lambda>v. Inr (fl (c / v)))))"

text \<open>\<open>period\<close> is \<open>2 / (period + 1)\<close>'s; the curve is built from the seed on.\<close>

fun ema_from :: "rat \<Rightarrow> rat \<Rightarrow> rat list \<Rightarrow> rat list" where
  "ema_from alpha prev [] = []"
| "ema_from alpha prev (v # vs) =
     (let x = fl (fl (alpha * v) + fl (fl (1 - alpha) * prev)) in x # ema_from alpha x vs)"

definition ema :: "rat list \<Rightarrow> nat \<Rightarrow> rat list result" where
  "ema values period =
     (if period < 1 then Inl (ValueError ''EMA period must be positive'')
      else if length values < period then Inr []
      else let seed = fmean (take period values); alpha = fl (2 / of_nat (period + 1))
           in Inr (seed # ema_from alpha seed (drop period values)))"

lemma covariance_Inr: "length left = length right \<Longrightarrow> left \<noteq> [] \<Longrightarrow> \<exists>c. covariance left right = Inr c"
  by (simp add: covariance_def Let_def)

lemma slope_Inr: "2 \<le> length values \<Longrightarrow> \<exists>s. slope values = Inr s"
  by (auto simp: slope_def covariance_def Let_def)

lemma ema_from_length: "length (ema_from alpha prev vs) = length vs"
  by (induction vs arbitrary: prev) (auto simp: Let_def)

lemma ema_length: "1 \<le> period \<Longrightarrow> \<exists>c. ema values period = Inr c \<and> length c = length values + 1 - period"
  by (cases "length values < period") (auto simp: ema_def Let_def ema_from_length)

text \<open>The mean of nonnegative values is nonnegative.\<close>

lemma fmean_nonneg: "(\<And>x. x \<in> set xs \<Longrightarrow> 0 \<le> x) \<Longrightarrow> 0 \<le> fmean xs"
  by (simp add: fmean_def flr.nonneg_iff sum_list_nonneg)

lemma fmean_zero: "\<forall>x\<in>set xs. x = 0 \<Longrightarrow> fmean xs = 0"
proof -
  assume "\<forall>x\<in>set xs. x = 0"
  then have "sum_list xs = 0" by (induction xs) auto
  then show ?thesis by (simp add: fmean_def)
qed

end
