(* ===== verification/Feature_Series.thy ===== *)
theory Feature_Series
  imports Float_Math Market_Data Feature_Models
begin

text \<open>
  \<open>features/series.py\<close>: the formulas shared by stock, index and sector series.  \<open>lg\<close> is \<open>math.log\<close>, whose
  last digit depends on the C library.  Prices are positive (the engine admits no other bars), so no
  divisor is zero.  \<open>Values\<close> is a dictionary: a list of values without repeated names.
\<close>

definition horizons :: "nat list" where
  "horizons = [5, 15, 30, 60, 120]"

type_synonym feature_values = "feature_value list"

definition feature_entry :: "string \<Rightarrow> rat option \<Rightarrow> missing_reason \<Rightarrow> feature_value" where
  "feature_entry name value reason =
     (case value of
        Some x \<Rightarrow>
          if float_finite x then \<lparr>fv_name = name, fv_value = Some x, fv_reason = None\<rparr>
          else \<lparr>fv_name = name, fv_value = None, fv_reason = Some INVALID_INPUT\<rparr>
      | None \<Rightarrow> \<lparr>fv_name = name, fv_value = None, fv_reason = Some reason\<rparr>)"

definition put :: "string \<Rightarrow> rat option \<Rightarrow> missing_reason \<Rightarrow> feature_values \<Rightarrow> feature_values" where
  "put name value reason vs = filter (\<lambda>v. fv_name v \<noteq> name) vs @ [feature_entry name value reason]"

text \<open>\<open>result.values[name].value\<close>.\<close>

definition value_at :: "feature_values \<Rightarrow> string \<Rightarrow> rat option" where
  "value_at vs name = (case find (\<lambda>v. fv_name v = name) vs of None \<Rightarrow> None | Some v \<Rightarrow> fv_value v)"

text \<open>The arguments of a run of \<open>put\<close> calls.\<close>

type_synonym entry = "string \<times> rat option \<times> missing_reason"

definition puts :: "entry list \<Rightarrow> feature_values \<Rightarrow> feature_values" where
  "puts es vs = fold (\<lambda>(name, value, reason). put name value reason) es vs"

text \<open>\<open>x if condition else None\<close> where computing \<open>x\<close> may raise.\<close>

definition opt_when :: "bool \<Rightarrow> 'a result \<Rightarrow> 'a option result" where
  "opt_when b m = (if b then rbind m (\<lambda>x. Inr (Some x)) else Inr None)"

definition typical :: "bar \<Rightarrow> rat" where
  "typical b = fl (fl (fl (fl (b_high b) + fl (b_low b)) + fl (b_close b)) / 3)"

definition bar_range :: "bar \<Rightarrow> rat" where
  "bar_range b = fl (dec (b_high b - b_low b))"

definition horizon_entries ::
  "string \<Rightarrow> rat list \<Rightarrow> missing_reason \<Rightarrow> nat \<Rightarrow> entry list result" where
  "horizon_entries prefix closes missing horizon =
     (let n = horizon div 5; ready = n < length closes; base = closes ! (length closes - n - 1);
          h = str_int (int horizon) @ ''m''
      in rbind (opt_when ready (rbind (slope (take_last (n + 1) closes)) (\<lambda>s. Inr (fl (s / base))))) (\<lambda>sl.
         Inr [(prefix @ ''.return_'' @ h, if ready then ratio_change (last closes) base else None, missing),
              (prefix @ ''.slope_'' @ h, sl, missing)]))"

definition ema_entries :: "string \<Rightarrow> rat list \<Rightarrow> missing_reason \<Rightarrow> nat \<Rightarrow> entry list result" where
  "ema_entries prefix closes missing period =
     rbind (ema closes period) (\<lambda>curve.
       let p = prefix @ ''.ema_'' @ str_int (int period) in
       Inr [(p, if curve = [] then None else Some (last curve), missing),
            (p @ ''_slope'', if 1 < length curve then ratio_change (last curve) (curve ! (length curve - 2)) else None,
             missing)])"

definition true_ranges :: "bar list \<Rightarrow> rat list \<Rightarrow> rat list" where
  "true_ranges bars previous =
     map2 (\<lambda>b p. max (max (bar_range b) \<bar>fl (fl (b_high b) - p)\<bar>) \<bar>fl (fl (b_low b) - p)\<bar>) bars previous"

text \<open>The bars that exceed their \<open>k\<close> neighbours on both sides, found at their confirmation bar.\<close>

definition swings :: "nat \<Rightarrow> (bar \<Rightarrow> bar \<Rightarrow> bool) \<Rightarrow> bar list \<Rightarrow> bar list" where
  "swings k beats bars =
     map (\<lambda>c. bars ! (c - k))
       (filter (\<lambda>c. list_all (beats (bars ! (c - k)))
            (take k (drop (c - 2 * k) bars) @ take k (drop (c - k + 1) bars)))
         [2 * k ..< length bars])"

definition vwap_of :: "bar list \<Rightarrow> rat option" where
  "vwap_of bars =
     (let volume = float_sum (map (\<lambda>b. fl (b_volume b)) bars) in
      if 0 < volume then Some (fl (float_sum (map (\<lambda>b. fl (typical b * fl (b_volume b))) bars) / volume))
      else None)"

definition last_of :: "bar list \<Rightarrow> (bar \<Rightarrow> rat) \<Rightarrow> rat option" where
  "last_of bars f = (if bars = [] then None else Some (f (last bars)))"

definition series_entries ::
  "(rat \<Rightarrow> rat) \<Rightarrow> string \<Rightarrow> bar list \<Rightarrow> feature_set_version \<Rightarrow> missing_reason \<Rightarrow> entry list result" where
  "series_entries lg prefix bars version missing =
     (let closes = map (\<lambda>b. fl (b_close b)) bars; p = (\<lambda>s. prefix @ ''.'' @ s);
          vwap = vwap_of bars; n = fs_statistics_bars version;
          volume_reason = (if bars \<noteq> [] \<and> float_sum (map (\<lambda>b. fl (b_volume b)) bars) = 0
             then ZERO_DENOMINATOR else missing);
          log_returns = map2 (\<lambda>a b. lg (fl (b / a))) closes (tl closes);
          ranges = map (\<lambda>b. fl (bar_range b / fl (b_close b))) bars;
          tr = true_ranges (tl bars) (butlast closes);
          ready = fs_opening_range_bars version \<le> length bars;
          opening = take (fs_opening_range_bars version) bars;
          k = fs_swing_confirmation_bars version
      in rbind (rmap (horizon_entries prefix closes missing) horizons) (\<lambda>hs.
         rbind (rmap (ema_entries prefix closes missing) [9, 20]) (\<lambda>es.
         Inr (concat hs @ concat es @
           [(p ''session_vwap'', vwap, volume_reason),
            (p ''vwap_distance'',
             (case vwap of Some v \<Rightarrow> if closes \<noteq> [] \<and> v \<noteq> 0 then Some (fl (fl (last closes / v) - 1)) else None
              | None \<Rightarrow> None), volume_reason),
            (p ''realized_volatility'',
             if n \<le> length log_returns then Some (population_std (take_last n log_returns)) else None, missing),
            (p ''range_volatility'',
             if n \<le> length ranges then Some (fsqrt (fmean (map (\<lambda>v. fl (v * v)) (take_last n ranges)))) else None,
             missing),
            (p ''range_percentile'',
             if n < length ranges
             then Some (fl (of_nat (length (filter (\<lambda>v. v \<le> last ranges) (butlast (take_last (n + 1) ranges)))) / of_nat n))
             else None, missing),
            (p ''atr'',
             if fs_atr_bars version \<le> length tr then Some (fmean (take_last (fs_atr_bars version) tr)) else None,
             missing),
            (p ''opening_range_high'', if ready then Some (Max ((\<lambda>b. fl (b_high b)) ` set opening)) else None, missing),
            (p ''opening_range_low'', if ready then Some (Min ((\<lambda>b. fl (b_low b)) ` set opening)) else None, missing),
            (p ''swing_high'', last_of (swings k (\<lambda>b x. b_high x < b_high b) bars) (\<lambda>b. fl (b_high b)), missing),
            (p ''swing_low'', last_of (swings k (\<lambda>b x. b_low b < b_low x) bars) (\<lambda>b. fl (b_low b)), missing)]))))"

definition series_features ::
  "(rat \<Rightarrow> rat) \<Rightarrow> string \<Rightarrow> bar list \<Rightarrow> feature_set_version \<Rightarrow> missing_reason \<Rightarrow> feature_values
     \<Rightarrow> feature_values result" where
  "series_features lg prefix bars version missing vs =
     rbind (series_entries lg prefix bars version missing) (\<lambda>es. Inr (puts es vs))"

subsection \<open>The dictionary of values\<close>

definition values_ok :: "feature_values \<Rightarrow> bool" where
  "values_ok vs \<longleftrightarrow> distinct (map fv_name vs) \<and> list_all feature_value_ok vs
     \<and> list_all (\<lambda>v. pred_option float_finite (fv_value v)) vs"

lemma feature_entry_ok:
  "fv_name (feature_entry name value reason) = name" "feature_value_ok (feature_entry name value reason)"
  "pred_option float_finite (fv_value (feature_entry name value reason))"
  by (auto simp: feature_entry_def feature_value_ok_def split: option.splits)

lemma put_ok: "values_ok vs \<Longrightarrow> values_ok (put name value reason vs)"
  by (auto simp: values_ok_def put_def feature_entry_ok list_all_iff distinct_map_filter)

lemma put_names: "fv_name ` set (put name value reason vs) = insert name (fv_name ` set vs)"
  by (auto simp: put_def feature_entry_ok)

lemma puts_ok: "values_ok vs \<Longrightarrow> values_ok (puts es vs)"
  unfolding puts_def by (induction es arbitrary: vs) (auto simp: put_ok split: prod.splits)

lemma puts_names: "fv_name ` set (puts es vs) = fst ` set es \<union> fv_name ` set vs"
proof (induction es arbitrary: vs)
  case (Cons e es)
  then show ?case by (cases e) (auto simp: puts_def put_names)
qed (simp add: puts_def)

text \<open>A series never fails and always yields the same names.\<close>

lemma horizon_entries_Inr:
  assumes "5 \<le> horizon"
  shows "\<exists>es. horizon_entries prefix closes missing horizon = Inr es
    \<and> map fst es = [prefix @ ''.return_'' @ str_int (int horizon) @ ''m'',
                    prefix @ ''.slope_'' @ str_int (int horizon) @ ''m'']"
proof (cases "horizon div 5 < length closes")
  case True
  have "1 \<le> horizon div 5" using assms by simp
  then have "2 \<le> length (take_last (horizon div 5 + 1) closes)" using True by (simp add: take_last_def)
  from slope_Inr[OF this] True show ?thesis by (auto simp: horizon_entries_def Let_def opt_when_def)
qed (simp add: horizon_entries_def Let_def opt_when_def)

lemma ema_entries_Inr:
  assumes "1 \<le> period"
  shows "\<exists>es. ema_entries prefix closes missing period = Inr es
    \<and> map fst es = [prefix @ ''.ema_'' @ str_int (int period), prefix @ ''.ema_'' @ str_int (int period) @ ''_slope'']"
  using ema_length[OF assms, of closes] by (auto simp: ema_entries_def Let_def)

definition series_names :: "string \<Rightarrow> string list" where
  "series_names prefix =
     concat (map (\<lambda>h. [prefix @ ''.return_'' @ str_int (int h) @ ''m'', prefix @ ''.slope_'' @ str_int (int h) @ ''m'']) horizons)
     @ concat (map (\<lambda>n. [prefix @ ''.ema_'' @ str_int (int n), prefix @ ''.ema_'' @ str_int (int n) @ ''_slope'']) [9, 20])
     @ map (\<lambda>s. prefix @ ''.'' @ s) [''session_vwap'', ''vwap_distance'', ''realized_volatility'', ''range_volatility'',
         ''range_percentile'', ''atr'', ''opening_range_high'', ''opening_range_low'', ''swing_high'', ''swing_low'']"

lemma rmap_names:
  assumes "\<And>x. x \<in> set xs \<Longrightarrow> \<exists>es. f x = Inr es \<and> map fst es = g x"
  shows "\<exists>ess. rmap f xs = Inr ess \<and> map fst (concat ess) = concat (map g xs)"
  using assms
proof (induction xs)
  case (Cons x xs)
  then obtain es where "f x = Inr es" "map fst es = g x" by (meson list.set_intros(1))
  moreover obtain ess where "rmap f xs = Inr ess" "map fst (concat ess) = concat (map g xs)"
    using Cons by (meson list.set_intros(2))
  ultimately show ?case by simp
qed simp

lemma series_entries_names:
  "\<exists>es. series_entries lg prefix bars version missing = Inr es \<and> map fst es = series_names prefix"
proof -
  let ?c = "map (\<lambda>b. fl (b_close b)) bars"
  have "\<exists>ess. rmap (horizon_entries prefix ?c missing) horizons = Inr ess
      \<and> map fst (concat ess) = concat (map (\<lambda>h. [prefix @ ''.return_'' @ str_int (int h) @ ''m'',
           prefix @ ''.slope_'' @ str_int (int h) @ ''m'']) horizons)"
    by (rule rmap_names, rule horizon_entries_Inr) (auto simp: horizons_def)
  moreover have "\<exists>ess. rmap (ema_entries prefix ?c missing) [9, 20] = Inr ess
      \<and> map fst (concat ess) = concat (map (\<lambda>n. [prefix @ ''.ema_'' @ str_int (int n),
           prefix @ ''.ema_'' @ str_int (int n) @ ''_slope'']) [9, 20])"
    by (rule rmap_names, rule ema_entries_Inr) auto
  ultimately obtain hs es where "rmap (horizon_entries prefix ?c missing) horizons = Inr hs"
    "rmap (ema_entries prefix ?c missing) [9, 20] = Inr es"
    "map fst (concat hs @ concat es) = concat (map (\<lambda>h. [prefix @ ''.return_'' @ str_int (int h) @ ''m'',
           prefix @ ''.slope_'' @ str_int (int h) @ ''m'']) horizons)
       @ concat (map (\<lambda>n. [prefix @ ''.ema_'' @ str_int (int n),
           prefix @ ''.ema_'' @ str_int (int n) @ ''_slope'']) [9, 20])" by (auto simp del: rmap.simps)
  then show ?thesis by (simp add: series_entries_def Let_def series_names_def del: rmap.simps)
qed

text \<open>The relative quantities are fractions.\<close>

lemma fraction_bounds: "k \<le> n \<Longrightarrow> 0 \<le> fl (of_nat k / of_nat n) \<and> fl (of_nat k / of_nat n) \<le> 1"
  by (cases "n = 0") (auto intro: flr.nonneg flr.le_one)

end
