(* ===== verification/Feature_Engine.thy ===== *)
theory Feature_Engine
  imports Feature_Series Event_Store
begin

text \<open>
  \<open>features/engine.py\<close>: the engine that keeps the observed events and derives a snapshot from those received
  by a given time.  The calendar is used through \<open>session_on\<close>; \<open>lg\<close> is \<open>math.log\<close>.
\<close>

record engine =
  en_session_on :: "day \<Rightarrow> session option result"
  en_timezone :: zone
  en_version :: feature_set_version
  en_provenance :: provenance
  en_events :: "event list"

definition new_engine ::
  "(day \<Rightarrow> session option result) \<Rightarrow> zone \<Rightarrow> feature_set_version \<Rightarrow> provenance \<Rightarrow> engine" where
  "new_engine son z version p =
     \<lparr>en_session_on = son, en_timezone = z, en_version = version, en_provenance = p, en_events = []\<rparr>"

text \<open>The dictionary of events by identity, as the list of its values.\<close>

definition on_event :: "codec \<Rightarrow> event \<Rightarrow> engine \<Rightarrow> engine result" where
  "on_event C e eng =
     (case find (\<lambda>x. ee_event_id x = ee_event_id e) (en_events eng) of
        None \<Rightarrow> Inr (eng\<lparr>en_events := en_events eng @ [e]\<rparr>)
      | Some previous \<Rightarrow>
          if event_hash C previous \<noteq> event_hash C e then Inl (ValueError ''conflicting feature input event'')
          else Inr (eng\<lparr>en_events := map (\<lambda>x. if ee_event_id x = ee_event_id e then e else x) (en_events eng)\<rparr>))"

subsection \<open>Inputs of a snapshot\<close>

definition refs_of :: "feature_context \<Rightarrow> instrument_ref set" where
  "refs_of ctx = {fc_entity ctx} \<union> set (fc_breadth_members ctx) \<union> set (fc_sector_members ctx)
     \<union> set_option (fc_nifty ctx) \<union> set_option (fc_sector ctx) \<union> set_option (fc_vix ctx)
     \<union> set_option (fc_pair ctx)"

definition bar_of :: "event \<Rightarrow> bar option" where
  "bar_of e = (case ee_payload e of Bar_Close b \<Rightarrow> Some b | _ \<Rightarrow> None)"

definition quote_of :: "event \<Rightarrow> quote option" where
  "quote_of e = (case ee_payload e of Quote_Update q \<Rightarrow> Some q | _ \<Rightarrow> None)"

definition observed_ref :: "event \<Rightarrow> instrument_ref option" where
  "observed_ref e =
     (case ee_payload e of
        Bar_Close b \<Rightarrow> Some \<lparr>ir_instrument_id = b_instrument_id b, ir_source = b_source b\<rparr>
      | Quote_Update q \<Rightarrow> Some \<lparr>ir_instrument_id = q_instrument_id q, ir_source = q_source q\<rparr>
      | _ \<Rightarrow> None)"

definition relevant_input :: "feature_context \<Rightarrow> instant \<Rightarrow> event \<Rightarrow> bool" where
  "relevant_input ctx t e \<longleftrightarrow> ee_received_at e \<le> t
     \<and> (case bar_of e of Some b \<Rightarrow> b_interval_minutes b = 5 | None \<Rightarrow> True)
     \<and> (case observed_ref e of Some r \<Rightarrow> r \<in> refs_of ctx | None \<Rightarrow> False)"

definition selected_events :: "feature_context \<Rightarrow> instant \<Rightarrow> event list \<Rightarrow> event list" where
  "selected_events ctx t es =
     sort_key (\<lambda>e. (ee_received_at e, ee_event_id e)) (filter (relevant_input ctx t) es)"

definition five_minutes :: "int \<Rightarrow> int" where
  "five_minutes d = \<lfloor>total_seconds d / 300\<rfloor>"

subsection \<open>Sessions\<close>

definition session_bar_bad :: "instant \<Rightarrow> bar \<Rightarrow> bool" where
  "session_bar_bad t b \<longleftrightarrow>
     (if b_feed_kind b = EQUITY then require_strategy_ready b t \<noteq> Inr ()
      else \<not> b_complete b \<or> (b_quality_flags b \<union> price_flags b) - {ZERO_VOLUME} \<noteq> {} \<or> t < available_at b)
     \<or> \<not> list_all (\<lambda>x. float_finite (fl x)) [b_open b, b_high b, b_low b, b_close b, b_volume b]"

definition session_series ::
  "bar list \<Rightarrow> instrument_ref option \<Rightarrow> instant \<Rightarrow> instant \<Rightarrow> instant \<Rightarrow> bar list \<times> missing_reason" where
  "session_series bars ref opening endpoint t =
     (case ref of
        None \<Rightarrow> ([], MISSING_INPUT)
      | Some r \<Rightarrow>
          let selected = filter (\<lambda>b. b_instrument_id b = ir_instrument_id r \<and> b_source b = ir_source r
                \<and> opening \<le> b_start b \<and> b_start b < endpoint \<and> b_end b \<le> endpoint) bars;
              expected = nat (five_minutes (endpoint - opening))
          in if selected = [] then ([], MISSING_INPUT)
             else if \<not> distinct (map b_start selected) then ([], INVALID_INPUT)
             else if list_ex (session_bar_bad t) selected then ([], INVALID_INPUT)
             else if b_start ` set selected \<noteq> (\<lambda>i. opening + minutes (5 * int i)) ` {..<expected}
             then ([], MISSING_INPUT)
             else (sort_key b_start selected, WARMUP))"

text \<open>Backwards over at most \<open>days\<close> days, newest first, until enough sessions are found.\<close>

fun prior_from ::
  "engine \<Rightarrow> bar list \<Rightarrow> instrument_ref \<Rightarrow> instant \<Rightarrow> nat \<Rightarrow> instant \<Rightarrow> bar list list \<Rightarrow> bar list list result" where
  "prior_from eng bars r t 0 at_day sessions = Inr sessions"
| "prior_from eng bars r t (Suc days) at_day sessions =
     (let at_day = at_day - day_us in
      case session_bounds (en_session_on eng) (en_timezone eng) at_day of
        Inl (CalendarCoverageError m) \<Rightarrow> Inr sessions
      | Inl e \<Rightarrow> Inl e
      | Inr None \<Rightarrow> prior_from eng bars r t days at_day sessions
      | Inr (Some (begin_, end_)) \<Rightarrow>
          let series = fst (session_series bars (Some r) begin_ end_ t);
              sessions = (if series \<noteq> [] \<and> b_end (last series) = end_ then series else []) # sessions
          in if length sessions = fs_baseline_sessions (en_version eng) then Inr sessions
             else prior_from eng bars r t days at_day sessions)"

definition prior_sessions ::
  "engine \<Rightarrow> bar list \<Rightarrow> instrument_ref option \<Rightarrow> instant \<Rightarrow> instant \<Rightarrow> bar list list result" where
  "prior_sessions eng bars ref opening t =
     (case ref of None \<Rightarrow> Inr [] | Some r \<Rightarrow> prior_from eng bars r t 366 opening [])"

subsection \<open>Groups of features\<close>

definition bar_change :: "rat \<Rightarrow> rat \<Rightarrow> rat" where
  "bar_change x y = fl (dec (dec (x / y) - 1))"

definition relative_entries :: "feature_values \<Rightarrow> entry list" where
  "relative_entries vs = concat (map (\<lambda>h.
     map (\<lambda>(target, benchmark).
       let r = (\<lambda>s. value_at vs (s @ ''.return_'' @ str_int (int h) @ ''m'')) in
       (target @ ''.relative_'' @ benchmark @ ''_'' @ str_int (int h) @ ''m'',
        (case (r target, r benchmark) of (Some l, Some m) \<Rightarrow> Some (fl (l - m)) | _ \<Rightarrow> None), MISSING_INPUT))
     [(''stock'', ''market''), (''stock'', ''sector''), (''sector'', ''market'')]) horizons)"

definition last_change :: "bar list \<Rightarrow> rat option" where
  "last_change series =
     (if 2 \<le> length series then Some (bar_change (b_close (last series)) (b_close (series ! (length series - 2))))
      else None)"

definition fraction :: "nat \<Rightarrow> nat \<Rightarrow> rat" where
  "fraction k n = fl (of_nat k / of_nat n)"

definition breadth_entries ::
  "string \<Rightarrow> instrument_ref list \<Rightarrow> bar list \<Rightarrow> instant \<Rightarrow> instant \<Rightarrow> instant \<Rightarrow> entry list" where
  "breadth_entries prefix members bars opening endpoint t =
     (let returns = List.map_filter (\<lambda>r. last_change (fst (session_series bars (Some r) opening endpoint t))) members;
          complete = members \<noteq> [] \<and> length returns = length members;
          share = (\<lambda>P. if complete then Some (fraction (length (filter P returns)) (length returns)) else None)
      in [(prefix @ ''.breadth_coverage'',
           if members \<noteq> [] then Some (fraction (length returns) (length members)) else None, MISSING_INPUT),
          (prefix @ ''.breadth_advancing'', share (\<lambda>v. 0 < v), MISSING_INPUT),
          (prefix @ ''.breadth_declining'', share (\<lambda>v. v < 0), MISSING_INPUT)])"

definition median_of :: "rat list \<Rightarrow> rat" where
  "median_of xs =
     (let ys = sort xs; n = length ys in
      if odd n then ys ! (n div 2) else fl (fl (ys ! (n div 2 - 1) + ys ! (n div 2)) / 2))"

definition spread_bps :: "quote \<Rightarrow> rat" where
  "spread_bps q =
     fl (dec (dec (dec (q_ask q - q_bid q) / dec (dec (q_ask q + q_bid q) / 2)) * 10000))"

definition quote_valid :: "quote \<Rightarrow> bool" where
  "quote_valid q \<longleftrightarrow> q_quality_flags q = {} \<and> 0 < min (min (q_bid q) (q_ask q)) (q_last q)
     \<and> q_bid q \<le> q_ask q \<and> q_timestamp q \<le> q_received_at q"

definition session_volume :: "bar list \<Rightarrow> rat" where
  "session_volume s = float_sum (map (\<lambda>b. fl (b_volume b)) s)"

definition session_turnover :: "bar list \<Rightarrow> rat" where
  "session_turnover s = float_sum (map (\<lambda>b. fl (typical b * fl (b_volume b))) s)"

text \<open>\<open>a / b if a is not None and b else None\<close>.\<close>

definition ratio_of :: "rat option \<Rightarrow> rat option \<Rightarrow> rat option" where
  "ratio_of a b =
     (case (a, b) of (Some x, Some y) \<Rightarrow> if y \<noteq> 0 then Some (fl (x / y)) else None | _ \<Rightarrow> None)"

definition quote_entries :: "feature_set_version \<Rightarrow> quote list \<Rightarrow> instant \<Rightarrow> entry list \<times> quote option" where
  "quote_entries version relevant t =
     (let q = (if relevant = [] then None else Some (last relevant));
          age = map_option (\<lambda>q. total_seconds (t - q_timestamp q)) q;
          valid = pred_option quote_valid q \<and> q \<noteq> None;
          fresh = (case (q, age) of
             (Some q, Some a) \<Rightarrow> valid \<and> 0 \<le> a \<and> a \<le> fs_quote_stale_seconds version | _ \<Rightarrow> False);
          spreads = map spread_bps (filter (\<lambda>q. q_quality_flags q = {}
             \<and> 0 \<le> total_seconds (t - q_timestamp q)
             \<and> total_seconds (t - q_timestamp q) \<le> fs_spread_window_seconds version
             \<and> q_timestamp q \<le> q_received_at q \<and> 0 < q_bid q \<and> q_bid q \<le> q_ask q \<and> 0 < q_last q) relevant)
      in ([(''liquidity.quote_age'', age, MISSING_INPUT),
           (''liquidity.spread_bps'', if fresh then map_option spread_bps q else None,
            if valid then STALE else INVALID_INPUT),
           (''liquidity.median_spread_bps'', if fresh \<and> spreads \<noteq> [] then Some (median_of spreads) else None, STALE)],
          if fresh then q else None))"

definition liquidity_entries ::
  "engine \<Rightarrow> feature_context \<Rightarrow> bar list \<Rightarrow> bar list \<Rightarrow> quote list \<Rightarrow> instant \<Rightarrow> instant \<Rightarrow> entry list result" where
  "liquidity_entries eng ctx current bars quotes opening t =
     (let version = en_version eng; r = fc_entity ctx;
          relevant = sort_key (\<lambda>q. (q_received_at q, q_timestamp q))
            (filter (\<lambda>q. q_instrument_id q = ir_instrument_id r \<and> q_source q = ir_source r \<and> q_received_at q \<le> t) quotes);
          (qs, q) = quote_entries version relevant t
      in rbind (prior_sessions eng bars (Some r) opening t) (\<lambda>prior.
        let sessions = take_last (fs_baseline_sessions version) prior;
            ready = length sessions = fs_baseline_sessions version \<and> [] \<notin> set sessions;
            adv = (if ready then Some (fmean (map session_volume sessions)) else None);
            turnover = (if ready then Some (fmean (map session_turnover sessions)) else None);
            quantity = fc_proposed_quantity ctx;
            slot = length current - 1;
            matching = (if current = [] then []
               else map (\<lambda>s. s ! slot) (filter (\<lambda>s. slot < length s) sessions));
            enough = ready \<and> length matching = length sessions \<and> current \<noteq> [];
            volume_base = (if enough then fmean (map (\<lambda>b. fl (b_volume b)) matching) else 0);
            turnover_base = (if enough then fmean (map (\<lambda>b. fl (typical b * fl (b_volume b))) matching) else 0)
        in Inr (qs @
          [(''liquidity.adv'', adv, WARMUP),
           (''liquidity.average_daily_turnover'', turnover, WARMUP),
           (''liquidity.adv_participation'', ratio_of quantity adv, MISSING_INPUT),
           (''liquidity.turnover_participation'',
            ratio_of (case (quantity, q) of
                (Some n, Some q) \<Rightarrow> Some (fl (n * fl (dec (dec (q_bid q + q_ask q) / 2)))) | _ \<Rightarrow> None) turnover,
            MISSING_INPUT),
           (''stock.relative_volume'',
            if volume_base \<noteq> 0 then Some (fl (fl (b_volume (last current)) / volume_base)) else None, WARMUP),
           (''stock.relative_turnover'',
            if turnover_base \<noteq> 0
            then Some (fl (fl (typical (last current) * fl (b_volume (last current))) / turnover_base)) else None,
            WARMUP)])))"

text \<open>\<open>cov\<close> and \<open>var\<close> are \<open>None\<close> until both windows are full.\<close>

definition pair_statistics :: "bool \<Rightarrow> rat list \<Rightarrow> rat list \<Rightarrow> rat option \<Rightarrow> rat option \<Rightarrow> entry list" where
  "pair_statistics ready a b cov var =
     (let late = (if ready then ZERO_DENOMINATOR else WARMUP);
          final = (\<lambda>xs. if xs = [] then None else Some (last xs));
          beta = ratio_of cov var;
          spreads = (case beta of None \<Rightarrow> [] | Some m \<Rightarrow> map2 (\<lambda>x y. fl (x - fl (m * y))) (butlast a) (butlast b));
          mean = (if spreads = [] then None else Some (fmean spreads));
          std = (if spreads = [] then None else Some (population_std spreads));
          spread = map_option (\<lambda>m. fl (last a - fl (m * last b))) beta;
          denominator = (if ready then fl (population_std (butlast a) * population_std (butlast b)) else 0)
      in [(''pairs.log_left'', final a, WARMUP), (''pairs.log_right'', final b, WARMUP),
          (''pairs.log_covariance'', cov, WARMUP), (''pairs.log_variance_right'', var, WARMUP),
          (''pairs.hedge_ratio'', beta, late),
          (''pairs.spread'', spread, WARMUP), (''pairs.spread_mean'', mean, WARMUP), (''pairs.spread_std'', std, WARMUP),
          (''pairs.zscore'',
           (case (spread, mean, std) of
              (Some x, Some m, Some s) \<Rightarrow> if fl (1 / 10 ^ 12) < s then Some (fl (fl (x - m) / s)) else None
            | _ \<Rightarrow> None), late),
          (''pairs.log_correlation'', ratio_of cov (Some denominator), WARMUP),
          (''pairs.stationarity_pvalue'', None, NOT_IMPLEMENTED), (''pairs.half_life'', None, NOT_IMPLEMENTED)])"

definition pair_entries ::
  "(rat \<Rightarrow> rat) \<Rightarrow> feature_set_version \<Rightarrow> bar list \<Rightarrow> bar list \<Rightarrow> entry list result" where
  "pair_entries lg version left right =
     (let n = fs_statistics_bars version; ready = n + 1 \<le> length left \<and> n + 1 \<le> length right;
          logs = (\<lambda>s. map (\<lambda>b. lg (fl (b_close b))) (take_last (n + 1) s));
          a = logs left; b = logs right
      in rbind (opt_when ready (covariance (butlast a) (butlast b))) (\<lambda>cov.
         rbind (opt_when ready (covariance (butlast b) (butlast b))) (\<lambda>var.
         Inr (pair_statistics ready a b cov var))))"

subsection \<open>Snapshots\<close>

definition mk_snapshot :: "feature_snapshot \<Rightarrow> feature_snapshot result" where
  "mk_snapshot s = (if feature_snapshot_ok s then Inr s else Inl (ValueError ''validation error for FeatureSnapshot''))"

definition gap_entry :: "string \<Rightarrow> bar list \<Rightarrow> bar list list \<Rightarrow> entry" where
  "gap_entry prefix series prior =
     (prefix @ ''.opening_gap'',
      if series \<noteq> [] \<and> prior \<noteq> [] \<and> last prior \<noteq> [] \<and> b_close (last (last prior)) \<noteq> 0
      then Some (bar_change (b_open (hd series)) (b_close (last (last prior)))) else None, MISSING_INPUT)"

text \<open>One of the three series: its own bars, and its features added to the dictionary.\<close>

definition series_step ::
  "(rat \<Rightarrow> rat) \<Rightarrow> engine \<Rightarrow> bar list \<Rightarrow> instant \<Rightarrow> instant \<Rightarrow> instant \<Rightarrow> string \<Rightarrow> instrument_ref option
     \<Rightarrow> feature_values \<Rightarrow> feature_values result" where
  "series_step lg eng bars opening endpoint t prefix ref vs =
     (case session_series bars ref opening endpoint t of
        (series, reason) \<Rightarrow>
          rbind (series_features lg prefix series (en_version eng) reason vs) (\<lambda>vs1.
          rbind (prior_sessions eng bars ref opening t) (\<lambda>prior.
          Inr (puts [gap_entry prefix series prior] vs1))))"

definition vix_entries :: "bar list \<Rightarrow> missing_reason \<Rightarrow> entry list" where
  "vix_entries vix reason =
     [(''market.vix_level'', if vix = [] then None else Some (fl (b_close (last vix))), reason),
      (''market.vix_change'', last_change vix, reason)]"

definition feature_values_of ::
  "(rat \<Rightarrow> rat) \<Rightarrow> engine \<Rightarrow> feature_context \<Rightarrow> bar list \<Rightarrow> quote list \<Rightarrow> instant \<Rightarrow> instant \<Rightarrow> instant
     \<Rightarrow> feature_values result" where
  "feature_values_of lg eng ctx bars quotes opening endpoint t =
     (let step = series_step lg eng bars opening endpoint t;
          own = fst (session_series bars (Some (fc_entity ctx)) opening endpoint t)
      in rbind (step ''stock'' (Some (fc_entity ctx)) []) (\<lambda>vs.
         rbind (step ''market'' (fc_nifty ctx) vs) (\<lambda>vs.
         rbind (step ''sector'' (fc_sector ctx) vs) (\<lambda>vs.
         let vs = puts (relative_entries vs) vs;
             vs = puts (breadth_entries ''market'' (fc_breadth_members ctx) bars opening endpoint t) vs;
             vs = puts (breadth_entries ''sector'' (fc_sector_members ctx) bars opening endpoint t) vs;
             (vix, vix_reason) = session_series bars (fc_vix ctx) opening endpoint t;
             vs = puts (vix_entries vix vix_reason) vs
         in rbind (liquidity_entries eng ctx own bars quotes opening t) (\<lambda>es.
            rbind (pair_entries lg (en_version eng) own
                (fst (session_series bars (fc_pair ctx) opening endpoint t))) (\<lambda>ps.
            Inr (puts ps (puts es vs))))))))"

definition snapshot ::
  "codec \<Rightarrow> (rat \<Rightarrow> rat) \<Rightarrow> engine \<Rightarrow> feature_context \<Rightarrow> instant \<Rightarrow> feature_snapshot result" where
  "snapshot C lg eng ctx t =
     (if t < fc_known_at ctx \<or> \<not> (fc_valid_from ctx \<le> t \<and> t < fc_valid_to ctx)
      then Inl (ValueError ''feature context unavailable or outside effective window'')
      else
        let selected = selected_events ctx t (en_events eng);
            bars = List.map_filter bar_of selected; quotes = List.map_filter quote_of selected
        in rbind (session_bounds (en_session_on eng) (en_timezone eng) t) (\<lambda>bounds. case bounds of
             None \<Rightarrow> Inl (ValueError ''no confirmed session for feature snapshot'')
           | Some (opening, closing) \<Rightarrow>
               let endpoint = min closing (opening + minutes (5 * max 0 (five_minutes (t - opening))))
               in rbind (feature_values_of lg eng ctx bars quotes opening endpoint t) (\<lambda>vs.
                  mk_snapshot \<lparr>sn_entity = ir_instrument_id (fc_entity ctx), sn_timestamp = t,
                    sn_feature_set_hash = version_hash C (en_version eng), sn_context_hash = context_hash C ctx,
                    sn_input_hash = hash_json C (JArr (map (\<lambda>e. JStr (event_hash C e)) selected)),
                    sn_code_commit = pv_code_commit (en_provenance eng),
                    sn_config_hash = pv_config_hash (en_provenance eng),
                    sn_data_snapshot = pv_data_snapshot (en_provenance eng),
                    sn_values = sort_key fv_name vs\<rparr>)))"

fun feed :: "codec \<Rightarrow> event list \<Rightarrow> engine \<Rightarrow> engine result" where
  "feed C [] eng = Inr eng"
| "feed C (e # es) eng = rbind (on_event C e eng) (feed C es)"

definition batch_snapshot ::
  "codec \<Rightarrow> (rat \<Rightarrow> rat) \<Rightarrow> (day \<Rightarrow> session option result) \<Rightarrow> zone \<Rightarrow> feature_set_version \<Rightarrow> provenance
     \<Rightarrow> event list \<Rightarrow> feature_context \<Rightarrow> instant \<Rightarrow> feature_snapshot result" where
  "batch_snapshot C lg son z version p es ctx t =
     rbind (feed C es (new_engine son z version p)) (\<lambda>eng. snapshot C lg eng ctx t)"

subsection \<open>The events behind a snapshot\<close>

definition separated :: "codec \<Rightarrow> event set \<Rightarrow> bool" where
  "separated C es \<longleftrightarrow> (\<forall>e\<in>es. \<forall>e'\<in>es. event_hash C e = event_hash C e' \<longrightarrow> e = e')"

lemma on_event_set:
  assumes "on_event C e eng = Inr eng'" "separated C (insert e (set (en_events eng)))"
    and "distinct (map ee_event_id (en_events eng))"
  shows "set (en_events eng') = insert e (set (en_events eng)) \<and> distinct (map ee_event_id (en_events eng'))
    \<and> eng' = eng\<lparr>en_events := en_events eng'\<rparr>"
proof (cases "find (\<lambda>x. ee_event_id x = ee_event_id e) (en_events eng)")
  case None
  then have "ee_event_id e \<notin> ee_event_id ` set (en_events eng)" by (auto simp: find_None_iff)
  then show ?thesis using assms None by (auto simp: on_event_def)
next
  case (Some previous)
  then have prev: "previous \<in> set (en_events eng)" "ee_event_id previous = ee_event_id e"
    by (auto simp: find_Some_iff)
  then have "previous = e" using assms(1,2) Some by (auto simp: on_event_def separated_def split: if_splits)
  then have mem: "e \<in> set (en_events eng)" using prev by simp
  have "map (\<lambda>x. if ee_event_id x = ee_event_id e then e else x) (en_events eng) = en_events eng"
    using assms(3) mem by (intro map_idI) (auto simp: distinct_map dest: inj_onD)
  then show ?thesis using assms Some mem by (auto simp: on_event_def split: if_splits)
qed

lemma feed_set:
  assumes "feed C es eng = Inr eng'" "separated C (set es \<union> set (en_events eng))"
    and "distinct (map ee_event_id (en_events eng))"
  shows "set (en_events eng') = set es \<union> set (en_events eng) \<and> distinct (map ee_event_id (en_events eng'))
    \<and> eng' = eng\<lparr>en_events := en_events eng'\<rparr>"
  using assms
proof (induction es arbitrary: eng)
  case (Cons e es)
  obtain eng1 where e1: "on_event C e eng = Inr eng1" "feed C es eng1 = Inr eng'"
    using Cons.prems(1) by (auto simp: result_simps)
  have "separated C (insert e (set (en_events eng)))" using Cons.prems(2) by (auto simp: separated_def)
  note one = on_event_set[OF e1(1) this Cons.prems(3)]
  then have "separated C (set es \<union> set (en_events eng1))" using Cons.prems(2) by (auto simp: separated_def)
  from Cons.IH[OF e1(2) this] one show ?case by auto (metis engine.surjective engine.update_convs(5))
qed simp

lemma sort_key_same_set:
  assumes "distinct xs" "distinct ys" "set xs = set ys" "inj_on f (set xs)"
  shows "sort_key f xs = sort_key f ys"
proof (rule sort_key_inj_key_eq)
  show "mset xs = mset (sort_key f ys)" using assms by (simp add: set_eq_iff_mset_eq_distinct)
qed (use assms in auto)

lemma selected_events_same:
  assumes "distinct (map ee_event_id es)" "distinct (map ee_event_id es')"
    and "{e \<in> set es. ee_received_at e \<le> t} = {e \<in> set es'. ee_received_at e \<le> t}"
  shows "selected_events ctx t es = selected_events ctx t es'"
  unfolding selected_events_def
proof (rule sort_key_same_set)
  have "relevant_input ctx t e \<Longrightarrow> ee_received_at e \<le> t" for e by (simp add: relevant_input_def)
  then show "set (filter (relevant_input ctx t) es) = set (filter (relevant_input ctx t) es')"
    using assms(3) by auto
  show "inj_on (\<lambda>e. (ee_received_at e, ee_event_id e)) (set (filter (relevant_input ctx t) es))"
    using assms(1) by (auto simp: inj_on_def distinct_map)
qed (use assms in \<open>auto simp: distinct_map intro: distinct_filter\<close>)

text \<open>A snapshot sees the events only through the selection.\<close>

lemma prior_from_events [simp]:
  "prior_from (eng\<lparr>en_events := es\<rparr>) bars r t n d ss = prior_from eng bars r t n d ss"
  by (induction n arbitrary: d ss) (simp_all add: Let_def split: sum.split py_error.split option.split prod.split)

lemma prior_sessions_events [simp]:
  "prior_sessions (eng\<lparr>en_events := es\<rparr>) bars ref opening t = prior_sessions eng bars ref opening t"
  by (simp add: prior_sessions_def split: option.split)

lemma engine_fields:
  "en_version (eng\<lparr>en_events := es\<rparr>) = en_version eng"
  "en_session_on (eng\<lparr>en_events := es\<rparr>) = en_session_on eng"
  "en_timezone (eng\<lparr>en_events := es\<rparr>) = en_timezone eng"
  "en_provenance (eng\<lparr>en_events := es\<rparr>) = en_provenance eng"
  "en_events (eng\<lparr>en_events := es\<rparr>) = es"
  by simp_all

lemma series_step_events: "series_step lg (eng\<lparr>en_events := es\<rparr>) = series_step lg eng"
  by (intro ext) (simp only: series_step_def prior_sessions_events engine_fields)

lemma liquidity_entries_events: "liquidity_entries (eng\<lparr>en_events := es\<rparr>) = liquidity_entries eng"
  by (intro ext) (simp only: liquidity_entries_def prior_sessions_events engine_fields)

lemma feature_values_of_events: "feature_values_of lg (eng\<lparr>en_events := es\<rparr>) = feature_values_of lg eng"
  by (intro ext) (simp only: feature_values_of_def series_step_events liquidity_entries_events engine_fields)

lemma snapshot_selection:
  "selected_events ctx t es = selected_events ctx t es' \<Longrightarrow>
     snapshot C lg (eng\<lparr>en_events := es\<rparr>) ctx t = snapshot C lg (eng\<lparr>en_events := es'\<rparr>) ctx t"
  by (simp only: snapshot_def feature_values_of_events engine_fields)

text \<open>
  C29. Batch and incremental computation agree and never look ahead: two engines that were fed any two
  streams, in any order and with any redeliveries, give the same snapshot at a time whenever the events
  received by that time are the same, whatever else one of them received later (the digests must tell
  the events at hand apart).
\<close>

theorem features_order_free:
  assumes "feed C es (new_engine son z version p) = Inr eng"
    and "feed C es' (new_engine son z version p) = Inr eng'"
    and "{e \<in> set es. ee_received_at e \<le> t} = {e \<in> set es'. ee_received_at e \<le> t}"
    and "separated C (set es \<union> set es')"
  shows "snapshot C lg eng ctx t = snapshot C lg eng' ctx t"
proof -
  have new: "en_events (new_engine son z version p) = []" by (simp add: new_engine_def)
  have "separated C (set es)" "separated C (set es')" using assms(4) by (auto simp: separated_def)
  then have a: "set (en_events eng) = set es" "distinct (map ee_event_id (en_events eng))"
      "eng = (new_engine son z version p)\<lparr>en_events := en_events eng\<rparr>"
    and b: "set (en_events eng') = set es'" "distinct (map ee_event_id (en_events eng'))"
      "eng' = (new_engine son z version p)\<lparr>en_events := en_events eng'\<rparr>"
    using feed_set[OF assms(1)] feed_set[OF assms(2)] new by auto
  have sel: "selected_events ctx t (en_events eng) = selected_events ctx t (en_events eng')"
    by (rule selected_events_same[OF a(2) b(2)]) (use a b assms(3) in simp)
  show ?thesis
    using snapshot_selection[OF sel, of C lg "new_engine son z version p"] a(3) b(3) by simp
qed

subsection \<open>The schema of a snapshot\<close>

definition relative_names :: "string list" where
  "relative_names = concat (map (\<lambda>h. map (\<lambda>(target, benchmark).
     target @ ''.relative_'' @ benchmark @ ''_'' @ str_int (int h) @ ''m'')
     [(''stock'', ''market''), (''stock'', ''sector''), (''sector'', ''market'')]) horizons)"

definition breadth_names :: "string \<Rightarrow> string list" where
  "breadth_names prefix = map (\<lambda>s. prefix @ s) [''.breadth_coverage'', ''.breadth_advancing'', ''.breadth_declining'']"

definition liquidity_names :: "string list" where
  "liquidity_names = [''liquidity.quote_age'', ''liquidity.spread_bps'', ''liquidity.median_spread_bps'',
     ''liquidity.adv'', ''liquidity.average_daily_turnover'', ''liquidity.adv_participation'',
     ''liquidity.turnover_participation'', ''stock.relative_volume'', ''stock.relative_turnover'']"

definition pair_names :: "string list" where
  "pair_names = map (\<lambda>s. ''pairs.'' @ s) [''log_left'', ''log_right'', ''log_covariance'', ''log_variance_right'',
     ''hedge_ratio'', ''spread'', ''spread_mean'', ''spread_std'', ''zscore'', ''log_correlation'',
     ''stationarity_pvalue'', ''half_life'']"

definition feature_names :: "string set" where
  "feature_names = set (series_names ''stock'') \<union> set (series_names ''market'') \<union> set (series_names ''sector'')
     \<union> {''stock.opening_gap''} \<union> {''market.opening_gap''} \<union> {''sector.opening_gap''} \<union> set relative_names
     \<union> set (breadth_names ''market'') \<union> set (breadth_names ''sector'') \<union> {''market.vix_level'', ''market.vix_change''}
     \<union> set liquidity_names \<union> set pair_names"

lemma relative_entries_names: "map fst (relative_entries vs) = relative_names"
  by (simp add: relative_entries_def relative_names_def Let_def map_concat o_def case_prod_beta)

lemma breadth_entries_names: "map fst (breadth_entries prefix members bars opening endpoint t) = breadth_names prefix"
  by (simp add: breadth_entries_def breadth_names_def Let_def)

lemma vix_entries_names: "map fst (vix_entries vix reason) = [''market.vix_level'', ''market.vix_change'']"
  by (simp add: vix_entries_def)

lemma quote_entries_names:
  "quote_entries version relevant t = (qs, q) \<Longrightarrow> map fst qs = take 3 liquidity_names"
  by (auto simp: quote_entries_def liquidity_names_def Let_def)

lemma liquidity_entries_names:
  "liquidity_entries eng ctx current bars quotes opening t = Inr es \<Longrightarrow> map fst es = liquidity_names"
  by (auto simp: liquidity_entries_def Let_def result_simps liquidity_names_def dest!: quote_entries_names
      split: prod.splits)

lemma pair_statistics_names: "map fst (pair_statistics ready a b cov var) = pair_names"
  by (simp add: pair_statistics_def pair_names_def Let_def)

lemma window_covariance:
  assumes "n \<noteq> 0" "ready \<Longrightarrow> length x = n" "ready \<Longrightarrow> length y = n"
  shows "\<exists>c. opt_when ready (covariance x y) = Inr c"
proof (cases ready)
  case True
  then have "length x = length y" "x \<noteq> []" using assms by auto
  from covariance_Inr[OF this] True show ?thesis by (auto simp: opt_when_def)
qed (simp add: opt_when_def)

lemma pair_entries_Inr:
  assumes "feature_set_ok version"
  shows "\<exists>es. pair_entries lg version left right = Inr es \<and> map fst es = pair_names"
proof -
  let ?n = "fs_statistics_bars version"
  let ?ready = "?n + 1 \<le> length left \<and> ?n + 1 \<le> length right"
  let ?logs = "\<lambda>s. map (\<lambda>b. lg (fl (b_close b))) (take_last (?n + 1) s)"
  have len: "length (butlast (?logs s)) = ?n" if "?n + 1 \<le> length s" for s using that by simp
  have n: "?n \<noteq> 0" using assms by (simp add: feature_set_ok_def)
  have ready: "?ready \<Longrightarrow> ?n + 1 \<le> length left" "?ready \<Longrightarrow> ?n + 1 \<le> length right" by simp_all
  obtain cov where cov: "opt_when ?ready (covariance (butlast (?logs left)) (butlast (?logs right))) = Inr cov"
    using window_covariance[OF n len[OF ready(1)] len[OF ready(2)]] by blast
  obtain var where var: "opt_when ?ready (covariance (butlast (?logs right)) (butlast (?logs right))) = Inr var"
    using window_covariance[OF n len[OF ready(2)] len[OF ready(2)]] by blast
  show ?thesis unfolding pair_entries_def Let_def cov var rbind.simps using pair_statistics_names by blast
qed

text \<open>The calendars in use fail only outside their coverage; a search for earlier sessions then stops.\<close>

definition coverage_only :: "engine \<Rightarrow> bool" where
  "coverage_only eng \<longleftrightarrow> (\<forall>d e. en_session_on eng d = Inl e \<longrightarrow> (\<exists>m. e = CalendarCoverageError m))"

lemma coverage_bounds:
  "coverage_only eng \<Longrightarrow> session_bounds (en_session_on eng) z i = Inl e \<Longrightarrow> \<exists>m. e = CalendarCoverageError m"
  by (auto simp: session_bounds_def result_simps coverage_only_def split: option.splits)

lemma prior_from_Inr: "coverage_only eng \<Longrightarrow> \<exists>ss. prior_from eng bars r t n d sessions = Inr ss"
proof (induction n arbitrary: d sessions)
  case (Suc n)
  show ?case
  proof (cases "session_bounds (en_session_on eng) (en_timezone eng) (d - day_us)")
    case (Inl e)
    then show ?thesis using coverage_bounds[OF Suc.prems] by fastforce
  next
    case (Inr b)
    then show ?thesis using Suc.IH[OF Suc.prems]
      by (cases b) (auto simp: Let_def split: prod.splits)
  qed
qed simp

lemma prior_sessions_Inr: "coverage_only eng \<Longrightarrow> \<exists>ss. prior_sessions eng bars ref opening t = Inr ss"
  using prior_from_Inr by (auto simp: prior_sessions_def split: option.splits)

lemma liquidity_entries_Inr:
  assumes "coverage_only eng"
  shows "\<exists>es. liquidity_entries eng ctx current bars quotes opening t = Inr es"
proof -
  obtain ss where "prior_sessions eng bars (Some (fc_entity ctx)) opening t = Inr ss"
    using prior_sessions_Inr[OF assms] by blast
  then show ?thesis
    by (cases "quote_entries (en_version eng) (sort_key (\<lambda>q. (q_received_at q, q_timestamp q))
        (filter (\<lambda>q. q_instrument_id q = ir_instrument_id (fc_entity ctx) \<and> q_source q = ir_source (fc_entity ctx)
           \<and> q_received_at q \<le> t) quotes)) t") (simp add: liquidity_entries_def Let_def)
qed

lemma series_step_Inr:
  assumes "coverage_only eng" "values_ok vs"
  shows "\<exists>vs'. series_step lg eng bars opn endpoint t prefix ref vs = Inr vs' \<and> values_ok vs'
    \<and> fv_name ` set vs' = insert (prefix @ ''.opening_gap'') (set (series_names prefix) \<union> fv_name ` set vs)"
proof -
  obtain series reason where s: "session_series bars ref opn endpoint t = (series, reason)" by fastforce
  obtain es where es: "series_entries lg prefix series (en_version eng) reason = Inr es" "map fst es = series_names prefix"
    using series_entries_names by blast
  obtain ss where ss: "prior_sessions eng bars ref opn t = Inr ss" using prior_sessions_Inr[OF assms(1)] by blast
  have "fst ` set es = set (series_names prefix)" using es(2) by (metis set_map)
  moreover have "fst (gap_entry prefix series ss) = prefix @ ''.opening_gap''" by (simp add: gap_entry_def)
  ultimately show ?thesis
    using puts_ok[OF puts_ok[OF assms(2)]] by (simp add: series_step_def s series_features_def es ss puts_names)
qed

lemma names_of: "map fst es = ns \<Longrightarrow> fst ` set es = set ns"
  by (metis set_map)

lemma feature_values_of_Inr:
  assumes "coverage_only eng" "feature_set_ok (en_version eng)"
  shows "\<exists>vs. feature_values_of lg eng ctx bars quotes opening endpoint t = Inr vs \<and> values_ok vs
    \<and> fv_name ` set vs = feature_names"
proof -
  let ?step = "series_step lg eng bars opening endpoint t"
  have v0: "values_ok []" by (simp add: values_ok_def)
  obtain v1 where v1: "?step ''stock'' (Some (fc_entity ctx)) [] = Inr v1" "values_ok v1"
    "fv_name ` set v1 = insert (''stock'' @ ''.opening_gap'') (set (series_names ''stock'') \<union> fv_name ` set ([] :: feature_values))"
    using series_step_Inr[OF assms(1) v0, where lg = lg and bars = bars and opn = "opening" and endpoint = endpoint
        and t = t and prefix = "''stock''" and ref = "Some (fc_entity ctx)"] by (elim exE conjE) (rule that)
  obtain v2 where v2: "?step ''market'' (fc_nifty ctx) v1 = Inr v2" "values_ok v2"
    "fv_name ` set v2 = insert (''market'' @ ''.opening_gap'') (set (series_names ''market'') \<union> fv_name ` set v1)"
    using series_step_Inr[OF assms(1) v1(2), where lg = lg and bars = bars and opn = "opening" and endpoint = endpoint
        and t = t and prefix = "''market''" and ref = "fc_nifty ctx"] by (elim exE conjE) (rule that)
  obtain v3 where v3: "?step ''sector'' (fc_sector ctx) v2 = Inr v3" "values_ok v3"
    "fv_name ` set v3 = insert (''sector'' @ ''.opening_gap'') (set (series_names ''sector'') \<union> fv_name ` set v2)"
    using series_step_Inr[OF assms(1) v2(2), where lg = lg and bars = bars and opn = "opening" and endpoint = endpoint
        and t = t and prefix = "''sector''" and ref = "fc_sector ctx"] by (elim exE conjE) (rule that)
  let ?own = "fst (session_series bars (Some (fc_entity ctx)) opening endpoint t)"
  obtain es where es: "liquidity_entries eng ctx ?own bars quotes opening t = Inr es"
    using liquidity_entries_Inr[OF assms(1)] by blast
  obtain ps where ps: "pair_entries lg (en_version eng) ?own (fst (session_series bars (fc_pair ctx) opening endpoint t)) = Inr ps"
    "map fst ps = pair_names" using pair_entries_Inr[OF assms(2)] by blast
  obtain vix reason where vix: "session_series bars (fc_vix ctx) opening endpoint t = (vix, reason)"
    by (rule prod.exhaust)
  note names = names_of[OF relative_entries_names] names_of[OF breadth_entries_names] names_of[OF vix_entries_names]
    names_of[OF liquidity_entries_names[OF es]] names_of[OF ps(2)]
  define v4 where "v4 = puts (relative_entries v3) v3"
  define v5 where "v5 = puts (breadth_entries ''market'' (fc_breadth_members ctx) bars opening endpoint t) v4"
  define v6 where "v6 = puts (breadth_entries ''sector'' (fc_sector_members ctx) bars opening endpoint t) v5"
  define v7 where "v7 = puts (vix_entries vix reason) v6"
  have "feature_values_of lg eng ctx bars quotes opening endpoint t = Inr (puts ps (puts es v7))"
    unfolding feature_values_of_def Let_def v1(1) v2(1) v3(1) rbind.simps vix prod.case es ps(1)
      v4_def[symmetric] v5_def[symmetric] v6_def[symmetric] v7_def[symmetric] ..
  moreover have "values_ok (puts ps (puts es v7))"
    unfolding v7_def v6_def v5_def v4_def by (intro puts_ok v3(2))
  moreover have "fv_name ` set (puts ps (puts es v7)) = feature_names"
    unfolding v7_def v6_def v5_def v4_def puts_names names v3(3) v2(3) v1(3) feature_names_def append.simps by (simp only: list.set image_empty Un_empty_right Un_empty_left insert_is_Un[of _ "_ \<union> _"] insert_is_Un[of _ "set (series_names _)"] Un_ac) 
  ultimately show ?thesis by blast
qed

lemma sort_key_names:
  assumes "values_ok vs"
  shows "map fv_name (sort_key fv_name vs) = sorted_list_of_set (fv_name ` set vs)"
proof -
  have "distinct (map fv_name (sort_key fv_name vs))"
    using assms by (simp add: values_ok_def distinct_map)
  then show ?thesis
    by (intro sorted_distinct_set_unique[symmetric]) auto
qed

text \<open>Inside the window and a session, a snapshot is the validation of the derived values.\<close>

lemma snapshot_values:
  assumes "coverage_only eng" "feature_set_ok (en_version eng)"
    and "fc_known_at ctx \<le> t" "fc_valid_from ctx \<le> t" "t < fc_valid_to ctx"
    and "session_bounds (en_session_on eng) (en_timezone eng) t = Inr (Some (opn, closing))"
  shows "\<exists>vs inputs. snapshot C lg eng ctx t = mk_snapshot
      \<lparr>sn_entity = ir_instrument_id (fc_entity ctx), sn_timestamp = t,
       sn_feature_set_hash = version_hash C (en_version eng), sn_context_hash = context_hash C ctx,
       sn_input_hash = hash_json C inputs, sn_code_commit = pv_code_commit (en_provenance eng),
       sn_config_hash = pv_config_hash (en_provenance eng), sn_data_snapshot = pv_data_snapshot (en_provenance eng),
       sn_values = sort_key fv_name vs\<rparr>
    \<and> values_ok vs \<and> map fv_name (sort_key fv_name vs) = sorted_list_of_set feature_names"
proof -
  let ?sel = "selected_events ctx t (en_events eng)"
  obtain vs where vs: "feature_values_of lg eng ctx (List.map_filter bar_of ?sel) (List.map_filter quote_of ?sel)
      opn (min closing (opn + minutes (5 * max 0 (five_minutes (t - opn))))) t = Inr vs"
    "values_ok vs" "fv_name ` set vs = feature_names" using feature_values_of_Inr[OF assms(1,2)] by blast
  have "\<not> (t < fc_known_at ctx \<or> \<not> (fc_valid_from ctx \<le> t \<and> t < fc_valid_to ctx))" using assms(3-5) by simp
  note step = snapshot_def[of C lg eng ctx t, unfolded Let_def if_not_P[OF this] assms(6) rbind.simps option.case prod.case vs(1)]
  show ?thesis using step vs(2) sort_key_names[OF vs(2)] vs(3) by metis
qed

definition five_minute_bar :: "string \<Rightarrow> instant \<Rightarrow> rat \<Rightarrow> bar" where
  "five_minute_bar i s p = (example_bar i s p)\<lparr>b_interval_minutes := 5, b_end := s + minutes 5,
     b_received_at := s + minutes 5\<rparr>"

definition bar_event :: "uuid \<Rightarrow> instant \<Rightarrow> event" where
  "bar_event i t = (example_event i t)\<lparr>ee_payload := Bar_Close (five_minute_bar ''A'' (t - minutes 5) 100)\<rparr>"

definition example_version :: feature_set_version where
  "example_version = \<lparr>fs_name = ''v'', fs_formula_revision = ''1'', fs_opening_range_bars = 3, fs_atr_bars = 14,
     fs_statistics_bars = 20, fs_baseline_sessions = 20, fs_swing_confirmation_bars = 2,
     fs_quote_stale_seconds = 3, fs_spread_window_seconds = 300\<rparr>"

definition example_engine :: engine where
  "example_engine = new_engine (session_on nse_2026) kolkata example_version example_provenance"

lemma bar_events_separated: "separated example_codec {bar_event ''e1'' 1, bar_event ''e2'' 2, bar_event ''e3'' 9}"
proof -
  have "event_hash example_codec (bar_event i t) = event_hash example_codec (bar_event i' t') \<longleftrightarrow> i = i'" for i t i' t'
    using dumps_eq_iff[of "JObj [(''event_id'', JStr i)]" "JObj [(''event_id'', JStr i')]"]
    by (auto simp: event_hash_def serialize_event_def event_json_def example_codec_def bar_event_def example_event_def)
  then show ?thesis by (simp add: separated_def)
qed

theorem features_order_free_witness:
  "\<exists>eng eng'. feed example_codec [bar_event ''e1'' 1, bar_event ''e2'' 2] example_engine = Inr eng
     \<and> feed example_codec [bar_event ''e2'' 2, bar_event ''e3'' 9, bar_event ''e1'' 1, bar_event ''e2'' 2] example_engine
       = Inr eng'
     \<and> (\<forall>ctx. snapshot example_codec (\<lambda>x. x) eng ctx 2 = snapshot example_codec (\<lambda>x. x) eng' ctx 2)"
proof -
  have id: "ee_event_id (bar_event i t) = i" "ee_received_at (bar_event i t) = t" for i t
    by (simp_all add: bar_event_def example_event_def)
  obtain eng where a: "feed example_codec [bar_event ''e1'' 1, bar_event ''e2'' 2] example_engine = Inr eng"
    by (simp add: on_event_def example_engine_def new_engine_def id)
  obtain eng' where b: "feed example_codec [bar_event ''e2'' 2, bar_event ''e3'' 9, bar_event ''e1'' 1, bar_event ''e2'' 2]
      example_engine = Inr eng'"
    by (simp add: on_event_def example_engine_def new_engine_def id)
  have "{e \<in> set [bar_event ''e1'' 1, bar_event ''e2'' 2]. ee_received_at e \<le> 2}
      = {e \<in> set [bar_event ''e2'' 2, bar_event ''e3'' 9, bar_event ''e1'' 1, bar_event ''e2'' 2]. ee_received_at e \<le> 2}"
    by (auto simp: id)
  moreover have "separated example_codec (set [bar_event ''e1'' 1, bar_event ''e2'' 2]
      \<union> set [bar_event ''e2'' 2, bar_event ''e3'' 9, bar_event ''e1'' 1, bar_event ''e2'' 2])"
    using bar_events_separated by (simp add: separated_def)
  ultimately show ?thesis
    using a b features_order_free[OF a[unfolded example_engine_def] b[unfolded example_engine_def]] by blast
qed

text \<open>
  C30. Snapshots have one fixed schema: whatever was observed, a snapshot has exactly the same features in
  the same order, each with a finite value or a reason for its absence, and it passes its validators; and
  with validated settings the engine fails only for a context outside its window, a day outside the
  calendar or without a session, or identities that the validators refuse.
\<close>

theorem snapshot_schema:
  assumes "coverage_only eng" "feature_set_ok (en_version eng)"
  shows "case snapshot C lg eng ctx t of
      Inr s \<Rightarrow> feature_snapshot_ok s \<and> map fv_name (sn_values s) = sorted_list_of_set feature_names
        \<and> (\<forall>v\<in>set (sn_values s). case fv_value v of Some x \<Rightarrow> float_finite x \<and> fv_reason v = None
             | None \<Rightarrow> fv_reason v \<noteq> None)
    | Inl e \<Rightarrow> (\<exists>m. e = CalendarCoverageError m)
        \<or> e \<in> ValueError ` {''feature context unavailable or outside effective window'',
             ''no confirmed session for feature snapshot'', ''validation error for FeatureSnapshot''}"
proof (cases "t < fc_known_at ctx \<or> \<not> (fc_valid_from ctx \<le> t \<and> t < fc_valid_to ctx)")
  case True
  then show ?thesis by (simp add: snapshot_def)
next
  case ctx: False
  show ?thesis
  proof (cases "session_bounds (en_session_on eng) (en_timezone eng) t")
    case (Inl e)
    then show ?thesis using coverage_bounds[OF assms(1)] ctx by (auto simp: snapshot_def Let_def)
  next
    case (Inr b)
    show ?thesis
    proof (cases b)
      case None
      then show ?thesis using Inr ctx by (simp add: snapshot_def Let_def)
    next
      case (Some oc)
      then have "session_bounds (en_session_on eng) (en_timezone eng) t = Inr (Some (fst oc, snd oc))"
        using Inr by simp
      from snapshot_values[OF assms _ _ _ this] ctx obtain vs s where
        s: "snapshot C lg eng ctx t = mk_snapshot s" "sn_values s = sort_key fv_name vs" "values_ok vs"
          "map fv_name (sn_values s) = sorted_list_of_set feature_names"
        by (metis feature_snapshot.select_convs(9) linorder_not_less)
      then have "\<forall>v\<in>set (sn_values s). case fv_value v of Some x \<Rightarrow> float_finite x \<and> fv_reason v = None
             | None \<Rightarrow> fv_reason v \<noteq> None"
        by (auto simp: values_ok_def list_all_iff feature_value_ok_def split: option.splits)
      then show ?thesis using s(1,4) by (simp add: mk_snapshot_def)
    qed
  qed
qed

lemma example_engine_ok: "coverage_only example_engine" "feature_set_ok (en_version example_engine)"
  using session_on_error by (auto simp: coverage_only_def example_engine_def new_engine_def feature_set_ok_def
      example_version_def)

definition example_context :: feature_context where
  "example_context = \<lparr>fc_entity = \<lparr>ir_instrument_id = ''A'', ir_source = ''vendor''\<rparr>, fc_nifty = None, fc_sector = None,
     fc_vix = None, fc_pair = None, fc_breadth_members = [], fc_sector_members = [], fc_universe_version = ''u'',
     fc_known_at = 0, fc_valid_from = 0, fc_valid_to = 9000000000000000, fc_proposed_quantity = None\<rparr>"

text \<open>A Tuesday of the calendar, at ten o'clock; the digests are constant.\<close>

theorem snapshot_schema_witness:
  "\<exists>s. snapshot (example_codec\<lparr>co_sha256 := (\<lambda>x. replicate 64 (CHR ''a''))\<rparr>) (\<lambda>x. x) example_engine example_context
       (combine kolkata 20711 (minutes 600)) = Inr s
     \<and> map fv_name (sn_values s) = sorted_list_of_set feature_names"
proof -
  let ?C = "example_codec\<lparr>co_sha256 := (\<lambda>x. replicate 64 (CHR ''a''))\<rparr>" and ?t = "combine kolkata 20711 (minutes 600)"
  note sch = snapshot_schema[OF example_engine_ok, of ?C "\<lambda>x. x" example_context ?t]
  have hex: "is_hex_digest (replicate 64 (CHR ''a''))" by code_simp
  have "fc_known_at example_context \<le> ?t" "fc_valid_from example_context \<le> ?t" "?t < fc_valid_to example_context"
    by (simp_all add: example_context_def combine_def kolkata_def fixed_zone_def day_us_def minutes_def)
  moreover have "\<exists>a b. session_bounds (en_session_on example_engine) (en_timezone example_engine) ?t = Inr (Some (a, b))"
  proof -
    have "local_day kolkata ?t = 20711"
      by (simp add: kolkata_def fixed_zone_def combine_def local_day_def minutes_def day_us_def)
    moreover have "session_on nse_2026 20711 = Inr (Some \<lparr>se_date = 20711, se_timezone = kolkata,
        se_times = cs_regular_times nse_2026, se_special = False\<rparr>)"
      by (simp add: session_on_def nse_2026_def dict_of_def weekday_def)
    ultimately show ?thesis by (simp add: session_bounds_def example_engine_def new_engine_def)
  qed
  ultimately obtain vs s where v: "snapshot ?C (\<lambda>x. x) example_engine example_context ?t = mk_snapshot s"
    "values_ok vs" "map fv_name (sort_key fv_name vs) = sorted_list_of_set feature_names"
    "sn_values s = sort_key fv_name vs" "sn_feature_set_hash s = replicate 64 (CHR ''a'')"
    "sn_context_hash s = replicate 64 (CHR ''a'')" "sn_input_hash s = replicate 64 (CHR ''a'')"
    "sn_code_commit s = ''c''" "sn_config_hash s = replicate 64 (CHR ''a'')" "sn_data_snapshot s = ''d''"
    using snapshot_values[OF example_engine_ok, of example_context ?t _ _ ?C "\<lambda>x. x"]
    by (fastforce simp: version_hash_def context_hash_def hash_json_def example_engine_def new_engine_def
        example_provenance_def)
  have "finite feature_names" by (simp add: feature_names_def)
  then have "set (map fv_name (sn_values s)) = feature_names" using v(3,4) by simp
  then have "feature_snapshot_ok s"
    using v hex by (auto simp: feature_snapshot_ok_def values_ok_def list_all_iff)
  then show ?thesis using sch v by (simp add: mk_snapshot_def)
qed

subsection \<open>Complete sessions\<close>

lemma five_minutes_whole: "int n < 1000000000 \<Longrightarrow> five_minutes (minutes (5 * int n)) = int n"
proof -
  assume n: "int n < 1000000000"
  have "minutes (5 * int n) = microseconds (300 * int n)" by (simp add: minutes_def microseconds_def)
  then have "total_seconds (minutes (5 * int n)) = of_int (300 * int n)"
    using total_seconds_whole[of "300 * int n"] n by simp
  then show ?thesis by (simp add: five_minutes_def)
qed

lemma session_series_nonempty:
  assumes "session_series bars (Some r) opening endpoint t = (s, reason)" "s \<noteq> []"
  shows "\<exists>sel. s = sort_key b_start sel \<and> reason = WARMUP \<and> distinct (map b_start sel)
    \<and> b_start ` set sel = (\<lambda>i. opening + minutes (5 * int i)) ` {..<nat (five_minutes (endpoint - opening))}
    \<and> sel = filter (\<lambda>b. b_instrument_id b = ir_instrument_id r \<and> b_source b = ir_source r
          \<and> opening \<le> b_start b \<and> b_start b < endpoint \<and> b_end b \<le> endpoint) bars
    \<and> (\<forall>b\<in>set sel. \<not> session_bar_bad t b)"
  using assms by (auto simp: session_series_def Let_def list_ex_iff split: if_splits)

lemma good_session_bar:
  assumes "\<not> session_bar_bad t b"
  shows "b_complete b \<and> available_at b \<le> t \<and> 0 < b_low b \<and> b_low b \<le> b_high b"
proof -
  have "price_flags b \<subseteq> {ZERO_VOLUME}" "b_complete b" "available_at b \<le> t"
    using assms by (auto simp: session_bar_bad_def require_strategy_ready_def split: if_splits)
  then show ?thesis by (auto simp: price_flags_def min_def max_def split: if_splits)
qed

text \<open>
  A session is used whole or not at all: a nonempty series of a reference over \<open>n\<close> five-minute slots has
  exactly one bar for every slot, in order; each comes from the observed bars of that reference, was
  complete and received by the time of the snapshot, and has positive, ordered prices, so no divisor of
  the formulas is zero; an incomplete, repeated or flagged session yields no series.
\<close>

theorem session_complete:
  assumes "session_series bars (Some r) opening (opening + minutes (5 * int n)) t = (s, reason)"
    and "s \<noteq> []" and "int n < 1000000000"
  shows "map b_start s = map (\<lambda>i. opening + minutes (5 * int i)) [0..<n]
    \<and> (\<forall>b\<in>set s. b \<in> set bars \<and> b_instrument_id b = ir_instrument_id r \<and> b_source b = ir_source r
         \<and> b_complete b \<and> available_at b \<le> t \<and> 0 < b_low b \<and> b_low b \<le> b_high b)"
proof -
  have n: "nat (five_minutes (opening + minutes (5 * int n) - opening)) = n"
    using five_minutes_whole[OF assms(3)] by simp
  obtain sel where sel: "s = sort_key b_start sel \<and> reason = WARMUP \<and> distinct (map b_start sel)
    \<and> b_start ` set sel = (\<lambda>i. opening + minutes (5 * int i)) ` {..<n}
    \<and> sel = filter (\<lambda>b. b_instrument_id b = ir_instrument_id r \<and> b_source b = ir_source r
          \<and> opening \<le> b_start b \<and> b_start b < opening + minutes (5 * int n)
          \<and> b_end b \<le> opening + minutes (5 * int n)) bars
    \<and> (\<forall>b\<in>set sel. \<not> session_bar_bad t b)"
    using session_series_nonempty[OF assms(1,2), unfolded n] by (elim exE) (rule that)
  then have s: "s = sort_key b_start sel" "distinct (map b_start sel)"
    "b_start ` set sel = (\<lambda>i. opening + minutes (5 * int i)) ` {..<n}"
    "\<forall>b\<in>set sel. \<not> session_bar_bad t b" by blast+
  have mem: "\<forall>b\<in>set sel. b \<in> set bars \<and> b_instrument_id b = ir_instrument_id r \<and> b_source b = ir_source r"
    using sel by simp
  have "sorted (map (\<lambda>i. opening + minutes (5 * int i)) [0..<n])"
    by (simp add: sorted_map sorted_wrt_upt minutes_def sorted_wrt_mono_rel[OF _ sorted_wrt_upt])
  moreover have "distinct (map (\<lambda>i. opening + minutes (5 * int i)) [0..<n])"
    by (auto simp: distinct_map inj_on_def minutes_def)
  ultimately have "map b_start s = map (\<lambda>i. opening + minutes (5 * int i)) [0..<n]"
    using s(1-3) by (intro sorted_distinct_set_unique) (auto simp: lessThan_atLeast0 distinct_map)
  moreover have "set s = set sel" using s(1) by simp
  ultimately show ?thesis using mem s(4) good_session_bar by auto
qed

theorem session_complete_witness:
  "\<exists>s. session_series [five_minute_bar ''A'' (minutes 5) 100, five_minute_bar ''B'' 0 100, five_minute_bar ''A'' 0 100]
       (Some \<lparr>ir_instrument_id = ''A'', ir_source = ''vendor''\<rparr>) 0 (0 + minutes (5 * int 2)) (minutes 10) = (s, WARMUP)
     \<and> map b_start s = [0, minutes 5]"
proof -
  let ?bars = "[five_minute_bar ''A'' (minutes 5) 100, five_minute_bar ''B'' 0 100, five_minute_bar ''A'' 0 100]"
  have "session_series ?bars (Some \<lparr>ir_instrument_id = ''A'', ir_source = ''vendor''\<rparr>) 0 (0 + minutes (5 * int 2)) (minutes 10)
      = ([five_minute_bar ''A'' 0 100, five_minute_bar ''A'' (minutes 5) 100], WARMUP)" (is "_ = (?s, _)")
  proof -
    have good: "\<not> session_bar_bad (minutes 10) (five_minute_bar ''A'' (minutes 5) 100)"
      "\<not> session_bar_bad (minutes 10) (five_minute_bar ''A'' 0 100)"
      using fl_of_int[of 100] fl_of_int[of 101] fl_of_int[of 99] fl_of_int[of 10]
      by (simp_all add: session_bar_bad_def strategy_ready_iff five_minute_bar_def example_bar_def price_flags_def
          minutes_def float_finite_def)
    have "five_minutes (minutes (5 * int 2)) = 2" using five_minutes_whole[of 2] by simp
    moreover have "(\<lambda>i. 0 + minutes (5 * int i)) ` {..<nat 2} = {0, minutes 5}"
      by (simp add: minutes_def lessThan_Suc numeral_2_eq_2 insert_commute)
    moreover have "filter (\<lambda>b. b_instrument_id b = ''A'' \<and> b_source b = ''vendor'' \<and> 0 \<le> b_start b
        \<and> b_start b < minutes 10 \<and> b_end b \<le> minutes 10) ?bars
      = [five_minute_bar ''A'' (minutes 5) 100, five_minute_bar ''A'' 0 100]"
      by (simp add: five_minute_bar_def example_bar_def minutes_def)
    moreover have st: "b_start (five_minute_bar ''A'' s 100) = s" for s by (simp add: five_minute_bar_def example_bar_def)
    moreover have "minutes 5 \<noteq> 0" "0 \<le> minutes 5" by (simp_all add: minutes_def)
    ultimately show ?thesis using good by (simp add: session_series_def insert_commute)
  qed
  from session_complete[OF this] this show ?thesis by (simp add: upt_rec minutes_def)
qed

end
