(* ===== verification/Ranking.thy ===== *)
theory Ranking
  imports Float_Math Feature_Models
begin

text \<open>
  \<open>alphas/ranking.py\<close>: mid-distribution ranks, and \<open>math.isclose\<close> with its default relative tolerance.
\<close>

definition percentile_in :: "rat list \<Rightarrow> rat \<Rightarrow> rat" where
  "percentile_in values v =
     fl ((of_nat (length (filter (\<lambda>x. x < v) values)) + of_nat (length (filter (\<lambda>x. x = v) values)) / 2)
         / of_nat (length values))"

definition percentiles :: "rat list \<Rightarrow> rat list result" where
  "percentiles values =
     (if values = [] \<or> \<not> list_all float_finite values then
        Inl (ValueError ''ranks require finite, nonempty observations'')
      else Inr (map (percentile_in values) values))"

definition without_recent :: "rat \<Rightarrow> rat \<Rightarrow> rat result" where
  "without_recent total_return recent_return =
     (if min total_return recent_return \<le> -1 then Inl (ValueError ''price returns must exceed -1'')
      else Inr (fl (fl (fl (1 + total_return) / fl (1 + recent_return)) - 1)))"

definition isclose :: "rat \<Rightarrow> rat \<Rightarrow> rat \<Rightarrow> bool" where
  "isclose a b abs_tol \<longleftrightarrow>
     (let d = \<bar>fl (b - a)\<bar>; rel = fl (1 / 1000000000) in
      a = b \<or> d \<le> \<bar>fl (rel * b)\<bar> \<or> d \<le> \<bar>fl (rel * a)\<bar> \<or> d \<le> abs_tol)"

text \<open>\<open>{item.name: item.value for item in snapshot.values}.get(name)\<close>, with the error of the caller.\<close>

definition feature_number :: "string \<Rightarrow> feature_snapshot \<Rightarrow> string \<Rightarrow> rat result" where
  "feature_number message s name =
     (case values_by_name s name of
        None \<Rightarrow> Inl (ValueError (message @ name))
      | Some v \<Rightarrow> (case fv_value v of None \<Rightarrow> Inl (ValueError (message @ name)) | Some x \<Rightarrow> Inr x))"

subsection \<open>Ranks are fractions, monotone, and invariant\<close>

lemma filter_partition_le:
  "length (filter (\<lambda>x. x < v) xs) + length (filter (\<lambda>x. x = v) xs) \<le> length xs" for v :: rat
  by (induction xs) auto

lemma percentile_bounds: "0 \<le> percentile_in values v" "percentile_in values v \<le> 1"
proof -
  let ?a = "length (filter (\<lambda>x. x < v) values)" and ?b = "length (filter (\<lambda>x. x = v) values)"
  have "?a + ?b \<le> length values" by (rule filter_partition_le)
  then have "(of_nat ?a + of_nat ?b :: rat) \<le> of_nat (length values)" by (metis of_nat_add of_nat_mono)
  moreover have "0 \<le> (of_nat ?b :: rat)" by simp
  ultimately have "(of_nat ?a + of_nat ?b / 2 :: rat) \<le> of_nat (length values)" by linarith
  then show "percentile_in values v \<le> 1" unfolding percentile_in_def
    by (intro flr.le_one) (simp add: divide_le_eq)
  show "0 \<le> percentile_in values v" unfolding percentile_in_def by (intro flr.nonneg) simp
qed

lemma percentile_strict:
  fixes u v :: rat
  assumes "u < v"
  shows "length (filter (\<lambda>x. x < u) xs) + length (filter (\<lambda>x. x = u) xs) \<le> length (filter (\<lambda>x. x < v) xs)"
  using assms by (induction xs) auto

lemma percentile_mono:
  assumes "u \<le> v"
  shows "percentile_in values u \<le> percentile_in values v"
proof (cases "u = v")
  case False
  then have "u < v" using assms by simp
  from percentile_strict[OF this, of "values"]
  have "(of_nat (length (filter (\<lambda>x. x < u) values)) + of_nat (length (filter (\<lambda>x. x = u) values)) :: rat)
      \<le> of_nat (length (filter (\<lambda>x. x < v) values))" by (metis of_nat_add of_nat_mono)
  moreover have "0 \<le> (of_nat (length (filter (\<lambda>x. x = u) values)) :: rat)"
    "0 \<le> (of_nat (length (filter (\<lambda>x. x = v) values)) :: rat)" by simp_all
  ultimately show ?thesis unfolding percentile_in_def
    by (intro flr.mono divide_right_mono) (linarith, simp)
qed simp

text \<open>
  Ranks depend only on the order of the values: under any rescaling that is strictly increasing on
  the values (and keeps them finite) the percentiles are the same, and every percentile is a fraction
  that never decreases with the value.
\<close>

theorem percentiles_invariant:
  assumes "\<And>x y. x \<in> set values \<Longrightarrow> y \<in> set values \<Longrightarrow> x < y \<longleftrightarrow> f x < f y"
    and "list_all float_finite values" "list_all float_finite (map f values)"
  shows "percentiles (map f values) = percentiles values
    \<and> (\<forall>ps. percentiles values = Inr ps \<longrightarrow> set ps \<subseteq> {0..1}
         \<and> sorted (map fst (sort_key snd (zip ps values))))"
proof (intro conjI allI impI)
  have inj: "x = y \<longleftrightarrow> f x = f y" if "x \<in> set values" "y \<in> set values" for x y
    using assms(1)[OF that] assms(1)[OF that(2,1)] by (metis less_irrefl linorder_neqE_linordered_idom)
  have "percentile_in (map f values) (f v) = percentile_in values v" if v: "v \<in> set values" for v
  proof -
    have "length (filter (\<lambda>x. x < f v) (map f values)) = length (filter (\<lambda>x. x < v) values)"
      "length (filter (\<lambda>x. x = f v) (map f values)) = length (filter (\<lambda>x. x = v) values)"
      using v assms(1) inj by (auto simp: filter_map o_def cong: filter_cong)
    then show ?thesis by (simp add: percentile_in_def)
  qed
  then show "percentiles (map f values) = percentiles values" using assms(2,3) by (simp add: percentiles_def)
  fix ps assume "percentiles values = Inr ps"
  then have ps: "ps = map (percentile_in values) values" by (simp add: percentiles_def split: if_splits)
  then show "set ps \<subseteq> {0..1}" using percentile_bounds by auto
  have "\<forall>q\<in>set (zip ps values). fst q = percentile_in values (snd q)"
    by (auto simp: ps set_zip)
  then have "map fst (sort_key snd (zip ps values)) = map (\<lambda>q. percentile_in values (snd q)) (sort_key snd (zip ps values))"
    by auto
  also have "sorted \<dots>"
    using sorted_sort_key[of snd "zip ps values"]
    by (auto simp: sorted_map intro: percentile_mono sorted_wrt_mono_rel[rotated])
  finally show "sorted (map fst (sort_key snd (zip ps values)))" .
qed

theorem percentiles_invariant_witness:
  "percentiles (map (\<lambda>x. x * x * x) [3, -2, 3, 0]) = percentiles [3, -2, 3, 0]
   \<and> percentiles [3, -2, 3, 0] = Inr [3 / 4, 1 / 8, 3 / 4, 3 / 8]"
proof -
  have "percentile_in [3, -2, 3, 0] 3 = 3 / 4" "percentile_in [3, -2, 3, 0] (-2) = 1 / 8"
    "percentile_in [3, -2, 3, 0] 0 = 3 / 8" by code_simp+
  then have "percentiles [3, -2, 3, 0] = Inr [3 / 4, 1 / 8, 3 / 4, 3 / 8]"
    by (simp add: percentiles_def float_finite_def)
  moreover have "percentiles (map (\<lambda>x. x * x * x) [3, -2, 3, 0]) = percentiles [3, -2, 3, 0]"
    by (rule conjunct1[OF percentiles_invariant]) (auto simp: float_finite_def)
  ultimately show ?thesis by simp
qed

end
