(* ===== verification/Momentum.thy ===== *)
theory Momentum
  imports Ranking Normalize
begin

text \<open>
  \<open>alphas/momentum_models.py\<close> and \<open>alphas/cross_sectional_momentum.py\<close>: cross-sectional ranks and the selection
  of directional intents.  Content hashes, \<open>uuid5\<close> and the dump of an evidence are parameters.
\<close>

subsection \<open>Settings and evidence\<close>

record momentum_weights =
  mw_return_30m :: rat
  mw_return_60m :: rat
  mw_return_120m :: rat
  mw_relative_sector_30m :: rat
  mw_relative_market_30m :: rat
  mw_trend_quality :: rat
  mw_liquidity_quality :: rat

text \<open>\<open>weights.model_dump()\<close>.\<close>

definition weight_items :: "momentum_weights \<Rightarrow> (string \<times> rat) list" where
  "weight_items w =
     [(''return_30m'', mw_return_30m w), (''return_60m'', mw_return_60m w), (''return_120m'', mw_return_120m w),
      (''relative_sector_30m'', mw_relative_sector_30m w), (''relative_market_30m'', mw_relative_market_30m w),
      (''trend_quality'', mw_trend_quality w), (''liquidity_quality'', mw_liquidity_quality w)]"

definition weights_ok :: "momentum_weights \<Rightarrow> bool" where
  "weights_ok w \<longleftrightarrow> list_all (\<lambda>(n, x). 0 \<le> x \<and> x \<le> 1) (weight_items w)
     \<and> isclose (float_sum (map snd (weight_items w))) 1 (fl (1 / 10 ^ 12)) \<and> mw_liquidity_quality w \<noteq> 1"

record momentum_settings =
  ms_version :: string
  ms_weights :: momentum_weights
  ms_exclude_recent_5m :: bool
  ms_enabled :: bool
  ms_long_tail_fraction :: rat
  ms_short_tail_fraction :: rat
  ms_max_candidates_per_side :: int
  ms_minimum_universe_size :: int
  ms_max_spread_bps :: rat
  ms_max_quote_age_seconds :: rat
  ms_min_adv :: rat
  ms_min_daily_turnover :: rat

definition momentum_settings_ok :: "momentum_settings \<Rightarrow> bool" where
  "momentum_settings_ok s \<longleftrightarrow> weights_ok (ms_weights s)
     \<and> 0 < ms_long_tail_fraction s \<and> ms_long_tail_fraction s < 1 / 2
     \<and> 0 < ms_short_tail_fraction s \<and> ms_short_tail_fraction s < 1 / 2
     \<and> 1 \<le> ms_max_candidates_per_side s \<and> 2 \<le> ms_minimum_universe_size s
     \<and> 0 < ms_max_spread_bps s \<and> 0 < ms_max_quote_age_seconds s
     \<and> 0 < ms_min_adv s \<and> 0 < ms_min_daily_turnover s"

record momentum_observation =
  mo_snapshot :: feature_snapshot
  mo_context :: feature_context

record score_component =
  sc_name :: string
  sc_raw_value :: rat
  sc_rank_value :: rat
  sc_weight :: rat
  sc_long_contribution :: rat
  sc_short_contribution :: rat

record momentum_score =
  mc_instrument_id :: string
  mc_symbol :: string
  mc_sector :: string
  mc_strength :: rat
  mc_percentile :: rat
  mc_long_score :: rat
  mc_short_score :: rat
  mc_components :: "score_component list"
  mc_long_confirmed :: bool
  mc_short_confirmed :: bool
  mc_liquidity_confirmed :: bool
  mc_reasons :: "string list"
  mc_feature_hash :: string

definition unit_fraction :: "rat \<Rightarrow> bool" where
  "unit_fraction x \<longleftrightarrow> 0 \<le> x \<and> x \<le> 1"

definition mk_score :: "momentum_score \<Rightarrow> momentum_score result" where
  "mk_score s =
     (if list_all (\<lambda>c. unit_fraction (sc_rank_value c) \<and> unit_fraction (sc_weight c)) (mc_components s)
         \<and> unit_fraction (mc_strength s) \<and> unit_fraction (mc_percentile s)
         \<and> unit_fraction (mc_long_score s) \<and> unit_fraction (mc_short_score s)
      then Inr s else Inl (ValueError ''validation error for MomentumScore''))"

record momentum_evidence =
  me_timestamp :: instant
  me_side :: side
  me_score :: rat
  me_ranked :: momentum_score
  me_settings :: momentum_settings
  me_alpha_version_hash :: string
  me_universe_hash :: string
  me_instrument_master_hash :: string
  me_cross_section_hash :: string
  me_state_hash :: string
  me_code_commit :: string
  me_config_hash :: string
  me_data_snapshot :: string
  me_feature_set_hash :: string

record momentum_hashes =
  mh_cross_section :: "momentum_observation list \<Rightarrow> string"
  mh_context :: "feature_context \<Rightarrow> string"
  mh_snapshot :: "feature_snapshot \<Rightarrow> string"
  mh_settings :: "momentum_settings \<Rightarrow> string"
  mh_universe :: "universe_snapshot \<Rightarrow> string"
  mh_master :: "instrument_master \<Rightarrow> string"
  mh_state :: "state_decision \<Rightarrow> string"
  mh_evidence :: "momentum_evidence \<Rightarrow> string"
  mh_uuid5 :: "string \<Rightarrow> uuid"

definition mk_evidence :: "momentum_hashes \<Rightarrow> momentum_evidence \<Rightarrow> momentum_evidence result" where
  "mk_evidence H e =
     (if unit_fraction (me_score e)
         \<and> me_score e = (if me_side e = LONG then mc_long_score (me_ranked e) else mc_short_score (me_ranked e))
         \<and> me_alpha_version_hash e = mh_settings H (me_settings e)
      then Inr e else Inl (ValueError ''signal score/configuration mismatch''))"

text \<open>The evidence as the events, the store and the ensemble read it; the rest is its dump.\<close>

definition momentum_detail :: "momentum_hashes \<Rightarrow> momentum_evidence \<Rightarrow> signal_evidence" where
  "momentum_detail H e =
     \<lparr>ev_timestamp = me_timestamp e, ev_alpha_id = ''cross_sectional_momentum'', ev_side = me_side e,
      ev_instrument_id = mc_instrument_id (me_ranked e), ev_symbol = mc_symbol (me_ranked e),
      ev_score = me_score e, ev_code_commit = me_code_commit e, ev_config_hash = me_config_hash e,
      ev_data_snapshot = me_data_snapshot e, ev_universe_hash = me_universe_hash e,
      ev_instrument_master_hash = me_instrument_master_hash e, ev_state_hash = me_state_hash e,
      ev_feature_set_hash = me_feature_set_hash e, ev_rest = mh_evidence H e\<rparr>"

record momentum_result =
  mr_timestamp :: instant
  mr_scores :: "momentum_score list"
  mr_intents :: "signal_intent list"
  mr_reasons :: "string list"
  mr_cross_section_hash :: string
  mr_settings :: momentum_settings
  mr_code_commit :: string
  mr_data_snapshot :: string

subsection \<open>Measurements of one observation\<close>

definition momentum_number :: "momentum_observation \<Rightarrow> string \<Rightarrow> rat result" where
  "momentum_number o1 = feature_number ''missing required feature: '' (mo_snapshot o1)"

definition momentum_returns :: "momentum_settings \<Rightarrow> momentum_observation \<Rightarrow> rat list result" where
  "momentum_returns cfg o1 =
     rbind (rmap (momentum_number o1) [''stock.return_30m'', ''stock.return_60m'', ''stock.return_120m'']) (\<lambda>stock.
     rbind (momentum_number o1 ''sector.return_30m'') (\<lambda>sector.
     rbind (momentum_number o1 ''market.return_30m'') (\<lambda>market.
     if list_ex (\<lambda>r. r \<le> -1) (stock @ [sector, market]) then Inl (ValueError ''invalid price return'')
     else rbind (if ms_exclude_recent_5m cfg then
         rbind (rmap (\<lambda>r. rbind (momentum_number o1 ''stock.return_5m'') (without_recent r)) stock) (\<lambda>stock.
         rbind (rbind (momentum_number o1 ''sector.return_5m'') (without_recent sector)) (\<lambda>sector.
         rbind (rbind (momentum_number o1 ''market.return_5m'') (without_recent market)) (\<lambda>market.
         Inr (stock, sector, market))))
       else Inr (stock, sector, market)) (\<lambda>(stock, sector, market).
     Inr (stock @ [fl (hd stock - sector), fl (hd stock - market)])))))"

definition liquidity_quality :: "rat \<Rightarrow> rat \<Rightarrow> rat \<Rightarrow> rat \<Rightarrow> rat" where
  "liquidity_quality spread max_spread age max_age =
     fl (fl (fl (1 - fl (spread / max_spread)) + fl (1 - fl (age / max_age))) / 2)"

record confirmation =
  cf_long :: bool
  cf_short :: bool
  cf_liquid :: bool
  cf_trend :: rat
  cf_quality :: rat

definition momentum_confirmation :: "momentum_settings \<Rightarrow> momentum_observation \<Rightarrow> confirmation result" where
  "momentum_confirmation cfg o1 =
     rbind (rmap (momentum_number o1) [''stock.vwap_distance'', ''stock.ema_20_slope'', ''sector.vwap_distance'']) (\<lambda>trend.
     rbind (momentum_number o1 ''liquidity.spread_bps'') (\<lambda>spread.
     rbind (momentum_number o1 ''liquidity.quote_age'') (\<lambda>age.
     rbind (momentum_number o1 ''liquidity.adv'') (\<lambda>adv.
     rbind (momentum_number o1 ''liquidity.average_daily_turnover'') (\<lambda>turnover.
     let valid = (0 \<le> spread \<and> spread \<le> ms_max_spread_bps cfg \<and> 0 \<le> age \<and> age \<le> ms_max_quote_age_seconds cfg
           \<and> ms_min_adv cfg \<le> adv \<and> ms_min_daily_turnover cfg \<le> turnover)
     in Inr \<lparr>cf_long = list_all (\<lambda>v. 0 < v) trend, cf_short = list_all (\<lambda>v. v < 0) trend, cf_liquid = valid,
          cf_trend = fl (sum_list (map (\<lambda>v. if 0 < v then 1 else if v < 0 then 0 else 1 / 2) trend) / of_nat (length trend)),
          cf_quality = (if valid then max 0 (min 1
             (liquidity_quality spread (ms_max_spread_bps cfg) age (ms_max_quote_age_seconds cfg))) else 0)\<rparr>)))))"

subsection \<open>Scores\<close>

definition component_names :: "string list" where
  "component_names = [''return_30m'', ''return_60m'', ''return_120m'', ''relative_sector_30m'', ''relative_market_30m'',
     ''trend_quality'', ''liquidity_quality'']"

definition component_of :: "momentum_weights \<Rightarrow> string \<Rightarrow> rat \<Rightarrow> rat \<Rightarrow> score_component" where
  "component_of w name value p =
     (let x = the (map_of (weight_items w) name) in
      \<lparr>sc_name = name, sc_raw_value = value, sc_rank_value = p, sc_weight = x,
       sc_long_contribution = fl (x * p),
       sc_short_contribution = fl (x * (if name = ''liquidity_quality'' then p else fl (1 - p)))\<rparr>)"

definition score_card ::
  "momentum_hashes \<Rightarrow> momentum_settings \<Rightarrow> instrument \<Rightarrow> momentum_observation \<Rightarrow> rat list \<Rightarrow> rat list \<Rightarrow> confirmation
     \<Rightarrow> momentum_score result" where
  "score_card H cfg i o1 returns ranks cf =
     (let raw = returns @ [cf_trend cf, cf_quality cf]; ranked = ranks @ [cf_trend cf, cf_quality cf];
          components = map2 (\<lambda>name (value, p). component_of (ms_weights cfg) name value p) component_names (zip raw ranked);
          long_score = float_sum (map sc_long_contribution components);
          short_score = float_sum (map sc_short_contribution components);
          strength = fl (float_sum (map sc_long_contribution (filter (\<lambda>c. sc_name c \<noteq> ''liquidity_quality'') components))
            / fl (1 - mw_liquidity_quality (ms_weights cfg)))
      in mk_score \<lparr>mc_instrument_id = sn_entity (mo_snapshot o1), mc_symbol = in_symbol i, mc_sector = in_sector i,
           mc_strength = min 1 (max 0 strength), mc_percentile = 1 / 2, mc_long_score = min 1 long_score,
           mc_short_score = min 1 short_score, mc_components = components,
           mc_long_confirmed = cf_long cf, mc_short_confirmed = cf_short cf, mc_liquidity_confirmed = cf_liquid cf,
           mc_reasons = [if cf_long cf then ''LONG_TREND_CONFIRMED'' else ''LONG_TREND_REJECTED'',
             if cf_short cf then ''SHORT_TREND_CONFIRMED'' else ''SHORT_TREND_REJECTED'',
             if cf_liquid cf then ''LIQUIDITY_CONFIRMED'' else ''LIQUIDITY_REJECTED''],
           mc_feature_hash = mh_snapshot H (mo_snapshot o1)\<rparr>)"

subsection \<open>\<open>CrossSectionalMomentum.evaluate\<close>\<close>

text \<open>The direction that a state admits, shared by the directional alphas.\<close>

definition directional_side :: "state_decision \<Rightarrow> side option" where
  "directional_side state =
     (if sd_state state = TREND_UP \<and> LONG \<in> set (sd_directional_sides state) then Some LONG
      else if sd_state state = TREND_DOWN \<and> SHORT \<in> set (sd_directional_sides state) then Some SHORT
      else None)"

definition state_permits :: "alpha_family \<Rightarrow> instant \<Rightarrow> state_decision \<Rightarrow> bool" where
  "state_permits family now state \<longleftrightarrow> sd_timestamp state = now \<and> 0 < sd_gross_risk_multiplier state
     \<and> family \<in> set (sd_allowed_alpha_families state)"

definition select_at :: "momentum_observation list \<Rightarrow> instant \<Rightarrow> momentum_observation list" where
  "select_at obs now =
     sort_key (\<lambda>o1. sn_entity (mo_snapshot o1)) (filter (\<lambda>o1. sn_timestamp (mo_snapshot o1) = now) obs)"

text \<open>\<open>utc\<close> of a naive \<open>generated_at\<close> raises, and only when it is reached.\<close>

definition universe_unavailable ::
  "zone \<Rightarrow> universe_snapshot \<Rightarrow> instrument_master \<Rightarrow> instant \<Rightarrow> bool result" where
  "universe_unavailable z u m now =
     rbind (utc (un_generated_at u)) (\<lambda>ug.
     if now < ug then Inr True
     else rbind (utc (im_generated_at m)) (\<lambda>mg.
     Inr (now < mg \<or> un_as_of u \<noteq> local_day z now \<or> im_as_of m \<noteq> local_day z now
       \<or> un_instrument_snapshot_id u \<noteq> im_snapshot_id m)))"

text \<open>Exactly one observation for every distinct token of the long universe, all of them in the master.\<close>

definition cross_section_ambiguous ::
  "int \<Rightarrow> string list \<Rightarrow> universe_snapshot \<Rightarrow> instrument_master \<Rightarrow> bool" where
  "cross_section_ambiguous minimum ids u m \<longleftrightarrow>
     (let expected = set (un_long_tokens u); tokens = map in_token (im_instruments m) in
      int (count_distinct (un_long_tokens u)) < minimum
      \<or> count_distinct tokens \<noteq> length tokens
      \<or> count_distinct (un_long_tokens u) \<noteq> length (un_long_tokens u)
      \<or> count_distinct ids \<noteq> length ids
      \<or> set ids \<noteq> expected
      \<or> \<not> expected \<subseteq> set tokens
      \<or> \<not> set (un_short_tokens u) \<subseteq> expected
      \<or> count_distinct (map (\<lambda>t. map_option in_symbol (dict_of in_token (im_instruments m) t))
           (remdups (un_long_tokens u))) \<noteq> count_distinct (un_long_tokens u))"

definition instrument_ineligible :: "instrument \<Rightarrow> day \<Rightarrow> bool" where
  "instrument_ineligible i d \<longleftrightarrow>
     in_status i \<noteq> ACTIVE \<or> \<not> active_on i d \<or> in_surveillance i \<or> in_data_ambiguous i"

definition provenance_of_state :: "state_decision \<Rightarrow> string \<times> string \<times> string \<times> string" where
  "provenance_of_state state =
     (sd_code_commit state, sd_config_hash state, sd_data_snapshot state, se_feature_set_hash (sd_evidence state))"

definition provenance_of_snapshot :: "feature_snapshot \<Rightarrow> string \<times> string \<times> string \<times> string" where
  "provenance_of_snapshot s = (sn_code_commit s, sn_config_hash s, sn_data_snapshot s, sn_feature_set_hash s)"

definition observation_invalid ::
  "momentum_hashes \<Rightarrow> zone \<Rightarrow> universe_snapshot \<Rightarrow> instrument_master \<Rightarrow> state_decision \<Rightarrow> instant
     \<Rightarrow> momentum_observation \<Rightarrow> bool" where
  "observation_invalid H z u m state now o1 \<longleftrightarrow>
     (let s = mo_snapshot o1; c = mo_context o1 in
      (case dict_of in_token (im_instruments m) (sn_entity s) of None \<Rightarrow> True
       | Some i \<Rightarrow> instrument_ineligible i (local_day z now))
      \<or> ir_instrument_id (fc_entity c) \<noteq> sn_entity s \<or> fc_sector c = None \<or> fc_nifty c = None
      \<or> fc_universe_version c \<noteq> un_snapshot_id u \<or> now < fc_known_at c
      \<or> \<not> (fc_valid_from c \<le> now \<and> now < fc_valid_to c)
      \<or> mh_context H c \<noteq> sn_context_hash s
      \<or> provenance_of_snapshot s \<noteq> provenance_of_state state)"

definition momentum_inputs ::
  "momentum_hashes \<Rightarrow> zone \<Rightarrow> momentum_settings \<Rightarrow> universe_snapshot \<Rightarrow> instrument_master \<Rightarrow> state_decision \<Rightarrow> instant
     \<Rightarrow> momentum_observation list \<Rightarrow> (rat list list \<times> confirmation list) result" where
  "momentum_inputs H z cfg u m state now selected =
     (if list_ex (observation_invalid H z u m state now) selected then
        Inl (ValueError ''invalid context/provenance'')
      else rbind (rmap (momentum_returns cfg) selected) (\<lambda>returns.
           rbind (rmap (momentum_confirmation cfg) selected) (\<lambda>confirmations.
           Inr (returns, confirmations))))"

text \<open>The ranks of one column of returns, the card of one observation, and the percentile of its strength.\<close>

definition return_ranks :: "rat list list \<Rightarrow> nat \<Rightarrow> rat list result" where
  "return_ranks returns i = percentiles (map (\<lambda>row. row ! i) returns)"

definition momentum_card ::
  "momentum_hashes \<Rightarrow> momentum_settings \<Rightarrow> instrument_master \<Rightarrow> momentum_observation list \<Rightarrow> rat list list
     \<Rightarrow> confirmation list \<Rightarrow> rat list list \<Rightarrow> nat \<Rightarrow> momentum_score result" where
  "momentum_card H cfg m selected returns confirmations ranks k =
     (let o1 = selected ! k in
      score_card H cfg (the (dict_of in_token (im_instruments m) (sn_entity (mo_snapshot o1)))) o1
        (returns ! k) (map (\<lambda>rank. rank ! k) ranks) (confirmations ! k))"

definition with_percentiles :: "momentum_score list \<Rightarrow> momentum_score list result" where
  "with_percentiles cards =
     rbind (percentiles (map mc_strength cards)) (\<lambda>ps. Inr (map2 (\<lambda>scored p. scored\<lparr>mc_percentile := p\<rparr>) cards ps))"

definition momentum_cards ::
  "momentum_hashes \<Rightarrow> momentum_settings \<Rightarrow> instrument_master \<Rightarrow> momentum_observation list \<Rightarrow> rat list list
     \<Rightarrow> confirmation list \<Rightarrow> rat list list \<Rightarrow> momentum_score list result" where
  "momentum_cards H cfg m selected returns confirmations ranks =
     rbind (rmap (momentum_card H cfg m selected returns confirmations ranks) [0 ..< length selected])
       with_percentiles"

definition momentum_scores ::
  "momentum_hashes \<Rightarrow> momentum_settings \<Rightarrow> instrument_master \<Rightarrow> momentum_observation list \<Rightarrow> rat list list
     \<Rightarrow> confirmation list \<Rightarrow> momentum_score list result" where
  "momentum_scores H cfg m selected returns confirmations =
     rbind (rmap (return_ranks returns) [0, 1, 2, 3, 4]) (momentum_cards H cfg m selected returns confirmations)"

text \<open>The tail of a side, best first, cut at the cap; a tie group that the cap would split is dropped.\<close>

definition in_tail :: "momentum_settings \<Rightarrow> side \<Rightarrow> momentum_score \<Rightarrow> bool" where
  "in_tail cfg sd s \<longleftrightarrow>
     (if sd = LONG then fl (1 - ms_long_tail_fraction cfg) \<le> mc_percentile s
      else mc_percentile s \<le> ms_short_tail_fraction cfg)"

definition tail_key :: "side \<Rightarrow> momentum_score \<Rightarrow> rat \<times> string" where
  "tail_key sd s = (if sd = LONG then - mc_strength s else mc_strength s, mc_instrument_id s)"

definition tail_cap :: "momentum_settings \<Rightarrow> side \<Rightarrow> nat \<Rightarrow> nat" where
  "tail_cap cfg sd n =
     nat (min (ms_max_candidates_per_side cfg)
       \<lfloor>fl (of_nat n * (if sd = LONG then ms_long_tail_fraction cfg else ms_short_tail_fraction cfg))\<rfloor>)"

definition cut_ties :: "nat \<Rightarrow> momentum_score list \<Rightarrow> momentum_score list" where
  "cut_ties cap ordered =
     (if 0 < cap \<and> cap < length ordered \<and> mc_strength (ordered ! (cap - 1)) = mc_strength (ordered ! cap)
      then filter (\<lambda>s. mc_strength s \<noteq> mc_strength (ordered ! cap)) (take cap ordered)
      else take cap ordered)"

definition tail_selection :: "momentum_settings \<Rightarrow> side \<Rightarrow> momentum_score list \<Rightarrow> momentum_score list" where
  "tail_selection cfg sd scores =
     cut_ties (tail_cap cfg sd (length scores)) (sort_key (tail_key sd) (filter (in_tail cfg sd) scores))"

definition card_admitted :: "universe_snapshot \<Rightarrow> instrument_master \<Rightarrow> side \<Rightarrow> momentum_score \<Rightarrow> bool" where
  "card_admitted u m sd scored \<longleftrightarrow>
     mc_liquidity_confirmed scored \<and> (if sd = LONG then mc_long_confirmed scored else mc_short_confirmed scored)
     \<and> \<not> (sd = SHORT \<and> (mc_instrument_id scored \<notin> set (un_short_tokens u)
           \<or> \<not> (case dict_of in_token (im_instruments m) (mc_instrument_id scored) of
                 Some i \<Rightarrow> in_fo_eligible i | None \<Rightarrow> False)))"

definition momentum_intent ::
  "momentum_hashes \<Rightarrow> momentum_settings \<Rightarrow> universe_snapshot \<Rightarrow> instrument_master \<Rightarrow> state_decision \<Rightarrow> instant
     \<Rightarrow> string \<Rightarrow> side \<Rightarrow> momentum_score \<Rightarrow> signal_intent result" where
  "momentum_intent H cfg u m state now digest sd scored =
     rbind (mk_evidence H
       \<lparr>me_timestamp = now, me_side = sd, me_score = (if sd = LONG then mc_long_score scored else mc_short_score scored),
        me_ranked = scored, me_settings = cfg, me_alpha_version_hash = mh_settings H cfg,
        me_universe_hash = mh_universe H u, me_instrument_master_hash = mh_master H m, me_cross_section_hash = digest,
        me_state_hash = mh_state H state, me_code_commit = sd_code_commit state, me_config_hash = sd_config_hash state,
        me_data_snapshot = sd_data_snapshot state, me_feature_set_hash = se_feature_set_hash (sd_evidence state)\<rparr>) (\<lambda>e.
     Inr \<lparr>si_signal_id = mh_uuid5 H (''godzilla:cross_sectional_momentum:'' @ iso_instant now @ '':'' @ mc_instrument_id scored),
        si_instrument_id = mc_instrument_id scored, si_alpha_id = ''cross_sectional_momentum'', si_side = sd,
        si_reasons = mc_reasons scored @ [if sd = LONG then ''TOP_TAIL'' else ''BOTTOM_TAIL'',
          if ms_exclude_recent_5m cfg then ''MICRO_WINDOW_EXCLUDED'' else ''FULL_WINDOW''],
        si_score = Some (me_score e), si_evidence = Some (momentum_detail H e), si_rest = []\<rparr>)"

definition momentum_report ::
  "momentum_settings \<Rightarrow> state_decision \<Rightarrow> instant \<Rightarrow> string \<Rightarrow> momentum_score list \<Rightarrow> signal_intent list \<Rightarrow> string list
     \<Rightarrow> momentum_result" where
  "momentum_report cfg state now digest scores intents reasons =
     \<lparr>mr_timestamp = now, mr_scores = scores, mr_intents = intents, mr_reasons = reasons, mr_cross_section_hash = digest,
      mr_settings = cfg, mr_code_commit = sd_code_commit state, mr_data_snapshot = sd_data_snapshot state\<rparr>"

definition momentum_rank ::
  "momentum_hashes \<Rightarrow> momentum_settings \<Rightarrow> universe_snapshot \<Rightarrow> instrument_master \<Rightarrow> state_decision \<Rightarrow> instant
     \<Rightarrow> string \<Rightarrow> momentum_score list \<Rightarrow> momentum_result result" where
  "momentum_rank H cfg u m state now digest scores =
     (case directional_side state of
        None \<Rightarrow> Inr (momentum_report cfg state now digest scores [] [''STATE_PERMISSION_DENIED''])
      | Some sd \<Rightarrow>
          if \<not> state_permits CROSS_SECTIONAL_MOMENTUM now state then
            Inr (momentum_report cfg state now digest scores [] [''STATE_PERMISSION_DENIED''])
          else rbind (rmap (momentum_intent H cfg u m state now digest sd)
              (filter (card_admitted u m sd) (tail_selection cfg sd scores))) (\<lambda>intents.
            Inr (momentum_report cfg state now digest scores intents [''RANKING_COMPLETE''])))"

definition evaluate ::
  "momentum_hashes \<Rightarrow> zone \<Rightarrow> momentum_settings \<Rightarrow> momentum_observation list \<Rightarrow> universe_snapshot \<Rightarrow> instrument_master
     \<Rightarrow> state_decision \<Rightarrow> pydatetime \<Rightarrow> momentum_result result" where
  "evaluate H z cfg obs u m state at1 =
     rbind (utc at1) (\<lambda>now.
     let selected = select_at obs now; digest = mh_cross_section H selected;
         empty = momentum_report cfg state now digest [] []
     in if \<not> ms_enabled cfg then Inr (empty [''ALPHA_DISABLED''])
        else rbind (universe_unavailable z u m now) (\<lambda>unavailable.
          if unavailable then Inr (empty [''UNIVERSE_UNAVAILABLE''])
          else if cross_section_ambiguous (ms_minimum_universe_size cfg)
                    (map (\<lambda>o1. sn_entity (mo_snapshot o1)) selected) u m then
            Inr (empty [''INCOMPLETE_OR_AMBIGUOUS_CROSS_SECTION''])
          else (case momentum_inputs H z cfg u m state now selected of
              Inl e \<Rightarrow> Inr (empty [''INVALID_OR_MISSING_INPUT'', str_exc e])
            | Inr (returns, confirmations) \<Rightarrow>
                rbind (momentum_scores H cfg m selected returns confirmations)
                  (momentum_rank H cfg u m state now digest))))"

subsection \<open>Selection of the tail\<close>

text \<open>How far a score is from the best of its side.\<close>

definition weakness :: "side \<Rightarrow> momentum_score \<Rightarrow> rat" where
  "weakness sd s = (if sd = LONG then - mc_strength s else mc_strength s)"

lemma weakness_eq_iff: "weakness sd s = weakness sd t \<longleftrightarrow> mc_strength s = mc_strength t"
  by (simp add: weakness_def)

lemma sorted_weakness: "sorted (map (weakness sd) (sort_key (tail_key sd) ss))"
proof -
  have "sorted_wrt (\<lambda>s t. tail_key sd s \<le> tail_key sd t) (sort_key (tail_key sd) ss)"
    using sorted_sort_key[of "tail_key sd" ss] by (simp add: sorted_map)
  then have "sorted_wrt (\<lambda>s t. weakness sd s \<le> weakness sd t) (sort_key (tail_key sd) ss)"
    by (rule sorted_wrt_mono_rel[rotated]) (auto simp: tail_key_def weakness_def less_eq_prod_def)
  then show ?thesis by (simp add: sorted_map)
qed

lemma set_cut_ties: "set (cut_ties cap ss) \<subseteq> set ss"
  by (auto simp: cut_ties_def dest: in_set_takeD)

lemma length_cut_ties: "length (cut_ties cap ss) \<le> cap"
  by (auto simp: cut_ties_def intro: le_trans[OF length_filter_le])

lemma cut_ties_closed:
  assumes sorted: "sorted (map (weakness sd) ss)" and s: "s \<in> set (cut_ties cap ss)"
    and t: "t \<in> set ss" and le: "weakness sd t \<le> weakness sd s"
  shows "t \<in> set (cut_ties cap ss)"
proof -
  let ?w = "\<lambda>k. weakness sd (ss ! k)"
  have mono: "?w i \<le> ?w j" if "i \<le> j" "j < length ss" for i j
    using sorted_nth_mono[OF sorted, of i j] that by simp
  have "s \<in> set (take cap ss)" using s by (auto simp: cut_ties_def split: if_splits)
  then obtain i where i: "i < cap" "i < length ss" "s = ss ! i" by (auto simp: in_set_conv_nth)
  obtain j where j: "j < length ss" "t = ss ! j" using t by (auto simp: in_set_conv_nth)
  show ?thesis
  proof (cases "0 < cap \<and> cap < length ss \<and> mc_strength (ss ! (cap - 1)) = mc_strength (ss ! cap)")
    case True
    then have "mc_strength s \<noteq> mc_strength (ss ! cap)" using s by (auto simp: cut_ties_def)
    then have "weakness sd s \<noteq> ?w cap" by (simp add: weakness_eq_iff)
    moreover have "weakness sd s \<le> ?w cap" using mono[of i cap] i True by simp
    ultimately have "weakness sd t < ?w cap" using le by simp
    then have "j < cap" "mc_strength t \<noteq> mc_strength (ss ! cap)"
      using mono[of cap j] j by (auto simp: not_less[symmetric] weakness_def split: if_splits)
    moreover from this(1) have "t \<in> set (take cap ss)" using j by (auto simp: in_set_conv_nth)
    ultimately show ?thesis using True by (simp add: cut_ties_def)
  next
    case False
    have "j < cap"
    proof (rule ccontr)
      assume "\<not> j < cap"
      then have cap: "cap \<le> j" "0 < cap" "cap < length ss" using i j by auto
      have "?w (cap - 1) \<le> ?w cap" "?w cap \<le> ?w j" "?w i \<le> ?w (cap - 1)"
        using mono[of "cap - 1" cap] mono[of cap j] mono[of i "cap - 1"] cap i j by auto
      then have "?w (cap - 1) = ?w cap" using le i j by simp
      then show False using False cap by (simp add: weakness_eq_iff)
    qed
    then have "t \<in> set (take cap ss)" using j by (auto simp: in_set_conv_nth)
    then show ?thesis using False by (auto simp: cut_ties_def)
  qed
qed

lemma sorted_key_set: "set (sort_key (tail_key sd) (filter (in_tail cfg sd) scores)) = {s \<in> set scores. in_tail cfg sd s}"
  by auto

text \<open>
  A tail is cut between strengths, never inside a group of equal ones: whoever is selected, every
  tail member that is at least as good is selected too; at most the cap is selected, only from the tail,
  and the whole tail when it fits the cap.
\<close>

theorem ties_never_split:
  assumes "s \<in> set (tail_selection cfg sd scores)"
  shows "in_tail cfg sd s \<and> s \<in> set scores
    \<and> length (tail_selection cfg sd scores) \<le> tail_cap cfg sd (length scores)
    \<and> {t \<in> set scores. in_tail cfg sd t \<and> weakness sd t \<le> weakness sd s} \<subseteq> set (tail_selection cfg sd scores)
    \<and> (length (filter (in_tail cfg sd) scores) \<le> tail_cap cfg sd (length scores)
         \<longrightarrow> set (tail_selection cfg sd scores) = {t \<in> set scores. in_tail cfg sd t})"
proof (intro conjI impI subsetI)
  have s: "s \<in> {t \<in> set scores. in_tail cfg sd t}"
    using assms set_cut_ties unfolding tail_selection_def sorted_key_set[symmetric] by blast
  then show "in_tail cfg sd s" "s \<in> set scores" by auto
  show "length (tail_selection cfg sd scores) \<le> tail_cap cfg sd (length scores)"
    unfolding tail_selection_def by (rule length_cut_ties)
  fix t assume "t \<in> {t \<in> set scores. in_tail cfg sd t \<and> weakness sd t \<le> weakness sd s}"
  then show "t \<in> set (tail_selection cfg sd scores)"
    using assms unfolding tail_selection_def by (auto intro: cut_ties_closed[OF sorted_weakness])
next
  assume "length (filter (in_tail cfg sd) scores) \<le> tail_cap cfg sd (length scores)"
  then show "set (tail_selection cfg sd scores) = {t \<in> set scores. in_tail cfg sd t}"
    by (auto simp: tail_selection_def cut_ties_def)
qed

subsection \<open>What an evaluation returns\<close>

lemma rmap_Inr_map: "rmap f xs = Inr ys \<Longrightarrow> (\<And>x y. x \<in> set xs \<Longrightarrow> f x = Inr y \<Longrightarrow> g y = h x) \<Longrightarrow> map g ys = map h xs"
  by (induction xs arbitrary: ys) (auto simp: result_simps)

lemma rmap_Inr_mem: "rmap f xs = Inr ys \<Longrightarrow> y \<in> set ys \<Longrightarrow> \<exists>x\<in>set xs. f x = Inr y"
  by (induction xs arbitrary: ys) (auto simp: result_simps)

lemma mk_score_Inr: "mk_score s = Inr t \<Longrightarrow> t = s"
  by (simp add: mk_score_def split: if_splits)

lemma score_card_id: "score_card H cfg i o1 rs ks cf = Inr s \<Longrightarrow> mc_instrument_id s = sn_entity (mo_snapshot o1)"
  unfolding score_card_def Let_def by (drule mk_score_Inr) (simp only: momentum_score.simps)

lemma percentiles_length: "percentiles vs = Inr ps \<Longrightarrow> length ps = length vs"
  by (auto simp: percentiles_def split: if_splits)

lemma with_percentiles_ids: "with_percentiles cards = Inr scores \<Longrightarrow> map mc_instrument_id scores = map mc_instrument_id cards"
  using percentiles_length by (force simp: with_percentiles_def result_simps intro!: nth_equalityI)

lemma momentum_scores_ids:
  assumes "momentum_scores H cfg m selected returns confs = Inr scores"
  shows "map mc_instrument_id scores = map (\<lambda>o1. sn_entity (mo_snapshot o1)) selected"
proof -
  from assms obtain ranks cards where
    cards: "rmap (momentum_card H cfg m selected returns confs ranks) [0 ..< length selected] = Inr cards"
    and "with_percentiles cards = Inr scores"
    by (auto simp: momentum_scores_def momentum_cards_def result_simps)
  then have "map mc_instrument_id scores = map mc_instrument_id cards" by (simp add: with_percentiles_ids)
  also have "\<dots> = map (\<lambda>k. sn_entity (mo_snapshot (selected ! k))) [0 ..< length selected]"
    by (rule rmap_Inr_map[OF cards]) (auto simp: momentum_card_def Let_def score_card_id)
  also have "\<dots> = map (\<lambda>o1. sn_entity (mo_snapshot o1)) selected"
    by (auto intro: nth_equalityI)
  finally show ?thesis .
qed

text \<open>Only the last branch of the evaluation has intents; what holds there.\<close>

lemma evaluate_intents:
  assumes "evaluate H z cfg obs u m state at1 = Inr r" and "mr_intents r \<noteq> []"
  obtains now returns confs scores sd where
    "utc at1 = Inr now" "ms_enabled cfg"
    "\<not> cross_section_ambiguous (ms_minimum_universe_size cfg)
         (map (\<lambda>o1. sn_entity (mo_snapshot o1)) (select_at obs now)) u m"
    "momentum_inputs H z cfg u m state now (select_at obs now) = Inr (returns, confs)"
    "momentum_scores H cfg m (select_at obs now) returns confs = Inr scores"
    "directional_side state = Some sd" "state_permits CROSS_SECTIONAL_MOMENTUM now state"
    "rmap (momentum_intent H cfg u m state now (mh_cross_section H (select_at obs now)) sd)
       (filter (card_admitted u m sd) (tail_selection cfg sd scores)) = Inr (mr_intents r)"
    "mr_scores r = scores" "mr_timestamp r = now"
proof -
  let ?e = "\<lambda>now. momentum_report cfg state now (mh_cross_section H (select_at obs now)) [] []"
  have none: "r \<noteq> ?e now rs" for now rs using assms(2) by (auto simp: momentum_report_def)
  from assms(1) obtain now where now: "utc at1 = Inr now"
    by (auto simp: evaluate_def result_simps simp del: utc_Inr_iff)
  note ev = assms(1)[unfolded evaluate_def now rbind.simps Let_def]
  have en: "ms_enabled cfg" using ev none by (auto split: if_splits)
  obtain b where b: "universe_unavailable z u m now = Inr b"
    using ev en by (auto simp: result_simps)
  note ev = ev[unfolded b rbind.simps] 
  have nb: "\<not> b" "\<not> cross_section_ambiguous (ms_minimum_universe_size cfg)
         (map (\<lambda>o1. sn_entity (mo_snapshot o1)) (select_at obs now)) u m"
    using ev en none by (auto split: if_splits)
  obtain returns confs where inp:
    "momentum_inputs H z cfg u m state now (select_at obs now) = Inr (returns, confs)"
    using ev en nb none by (auto split: if_splits sum.splits)
  obtain scores where sc: "momentum_scores H cfg m (select_at obs now) returns confs = Inr scores"
    and rk: "momentum_rank H cfg u m state now (mh_cross_section H (select_at obs now)) scores = Inr r"
    using ev en nb inp by (auto simp: result_simps)
  obtain sd where sd: "directional_side state = Some sd"
    using rk assms(2) by (cases "directional_side state") (auto simp: momentum_rank_def momentum_report_def)
  have pm: "state_permits CROSS_SECTIONAL_MOMENTUM now state"
    using rk assms(2) sd by (auto simp: momentum_rank_def momentum_report_def split: if_splits)
  show thesis
    by (rule that[OF now en nb(2) inp sc sd pm])
      (use rk sd pm in \<open>auto simp: momentum_rank_def momentum_report_def result_simps\<close>)
qed

lemma momentum_intent_card:
  "momentum_intent H cfg u m state now digest sd s = Inr i \<Longrightarrow>
     si_instrument_id i = mc_instrument_id s \<and> si_side i = sd \<and> si_alpha_id i = ''cross_sectional_momentum''"
  by (auto simp: momentum_intent_def result_simps)

lemma tail_cap_le: "0 < tail_cap cfg sd n \<Longrightarrow> int (tail_cap cfg sd n) \<le> ms_max_candidates_per_side cfg"
  by (simp add: tail_cap_def)

text \<open>
  C31.  No momentum intent without every admission: the alpha is enabled and the state of that very instant
  permits its family with a positive risk multiplier and the direction of the intent; the instrument is in
  the universe (for a short: in the short list and F&O-eligible), active and free of surveillance and
  ambiguity on that day; its score is in the tail of that side with liquidity and trend confirmed; and
  there are never more intents than the configured maximum per side.
\<close>

theorem momentum_admission:
  assumes "evaluate H z cfg obs u m state at1 = Inr r" and "i \<in> set (mr_intents r)"
  shows "ms_enabled cfg \<and> state_permits CROSS_SECTIONAL_MOMENTUM (mr_timestamp r) state
    \<and> directional_side state = Some (si_side i)
    \<and> si_instrument_id i \<in> set (un_long_tokens u)
    \<and> (si_side i = SHORT \<longrightarrow> si_instrument_id i \<in> set (un_short_tokens u))
    \<and> (\<exists>ins. dict_of in_token (im_instruments m) (si_instrument_id i) = Some ins
         \<and> \<not> instrument_ineligible ins (local_day z (mr_timestamp r))
         \<and> (si_side i = SHORT \<longrightarrow> in_fo_eligible ins))
    \<and> (\<exists>s\<in>set (mr_scores r). mc_instrument_id s = si_instrument_id i \<and> in_tail cfg (si_side i) s
         \<and> mc_liquidity_confirmed s \<and> (if si_side i = LONG then mc_long_confirmed s else mc_short_confirmed s))
    \<and> int (length (mr_intents r)) \<le> ms_max_candidates_per_side cfg"
proof -
  have ne: "mr_intents r \<noteq> []" using assms(2) by auto
  obtain now returns confs scores sd where
    ev: "utc at1 = Inr now" "ms_enabled cfg"
      "\<not> cross_section_ambiguous (ms_minimum_universe_size cfg)
         (map (\<lambda>o1. sn_entity (mo_snapshot o1)) (select_at obs now)) u m"
      "momentum_inputs H z cfg u m state now (select_at obs now) = Inr (returns, confs)"
      "momentum_scores H cfg m (select_at obs now) returns confs = Inr scores"
      "directional_side state = Some sd" "state_permits CROSS_SECTIONAL_MOMENTUM now state"
      "rmap (momentum_intent H cfg u m state now (mh_cross_section H (select_at obs now)) sd)
         (filter (card_admitted u m sd) (tail_selection cfg sd scores)) = Inr (mr_intents r)"
      "mr_scores r = scores" "mr_timestamp r = now"
    by (rule evaluate_intents[OF assms(1) ne])
  obtain s where s: "s \<in> set (tail_selection cfg sd scores)" "card_admitted u m sd s"
    and i: "si_instrument_id i = mc_instrument_id s" "si_side i = sd"
    using rmap_Inr_mem[OF ev(8) assms(2)] momentum_intent_card by force
  have tail: "s \<in> set scores" "in_tail cfg sd s"
    using s(1) set_cut_ties unfolding tail_selection_def by force+
  have ids: "set (map mc_instrument_id scores) = (\<lambda>o1. sn_entity (mo_snapshot o1)) ` set (select_at obs now)"
    unfolding momentum_scores_ids[OF ev(5)] by simp
  moreover have "(\<lambda>o1. sn_entity (mo_snapshot o1)) ` set (select_at obs now) = set (un_long_tokens u)"
    using ev(3) by (simp add: cross_section_ambiguous_def Let_def)
  ultimately have long: "mc_instrument_id s \<in> set (un_long_tokens u)" using tail(1) by auto
  obtain o1 where o1: "o1 \<in> set (select_at obs now)" "sn_entity (mo_snapshot o1) = mc_instrument_id s"
    using ids tail(1) by (metis (no_types, lifting) imageE in_set_conv_nth length_map nth_map nth_mem)
  have "\<not> observation_invalid H z u m state now o1"
    using ev(4) o1(1) by (auto simp: momentum_inputs_def list_ex_iff split: if_splits)
  then obtain ins where ins: "dict_of in_token (im_instruments m) (mc_instrument_id s) = Some ins"
    "\<not> instrument_ineligible ins (local_day z now)"
    using o1(2) by (auto simp: observation_invalid_def Let_def split: option.splits)
  have "length (mr_intents r) \<le> tail_cap cfg sd (length scores)"
    unfolding tail_selection_def rmap_Inr_length[OF ev(8), unfolded tail_selection_def]
    by (rule le_trans[OF length_filter_le length_cut_ties])
  moreover have "0 < length (mr_intents r)" using ne by simp
  ultimately have "int (length (mr_intents r)) \<le> ms_max_candidates_per_side cfg"
    using tail_cap_le[of cfg sd "length scores"] by linarith
  then show ?thesis using ev ins long tail s(2) i
    by (auto simp: card_admitted_def ins split: if_splits)
qed

lemma sort_key_unique:
  fixes k :: "'a \<Rightarrow> 'k::linorder"
  assumes "mset xs = mset ys" "inj_on k (set xs)"
  shows "sort_key k xs = sort_key k ys"
proof (rule sort_key_inj_key_eq)
  show "mset xs = mset (sort_key k ys)" using assms(1) by simp
  show "inj_on k (set xs)" by (rule assms(2))
qed simp

text \<open>
  The ranking is causal and does not depend on the order of arrival: two runs whose observations of
  that instant are the same, one per instrument, in any order and among any other past or future
  observations, return the same result, hash of the cross section included.
\<close>

theorem momentum_causal:
  assumes "utc at1 = Inr now"
    and "mset (filter (\<lambda>o1. sn_timestamp (mo_snapshot o1) = now) xs)
       = mset (filter (\<lambda>o1. sn_timestamp (mo_snapshot o1) = now) ys)"
    and "distinct (map (\<lambda>o1. sn_entity (mo_snapshot o1)) (filter (\<lambda>o1. sn_timestamp (mo_snapshot o1) = now) xs))"
  shows "evaluate H z cfg xs u m state at1 = evaluate H z cfg ys u m state at1"
proof -
  have "select_at xs now = select_at ys now"
    unfolding select_at_def using assms(2,3) by (intro sort_key_unique) (auto simp: distinct_map)
  then show ?thesis by (simp only: evaluate_def assms(1) rbind.simps)
qed

subsection \<open>A concrete ranking\<close>

definition example_fv :: "string \<Rightarrow> rat \<Rightarrow> feature_value" where
  "example_fv n x = \<lparr>fv_name = n, fv_value = Some x, fv_reason = None\<rparr>"

definition example_momentum :: momentum_settings where
  "example_momentum =
     \<lparr>ms_version = [], ms_weights = \<lparr>mw_return_30m = 1 / 2, mw_return_60m = 0, mw_return_120m = 0,
        mw_relative_sector_30m = 0, mw_relative_market_30m = 0, mw_trend_quality = 0,
        mw_liquidity_quality = 1 / 2\<rparr>, ms_exclude_recent_5m = False, ms_enabled = True,
      ms_long_tail_fraction = 3 / 8, ms_short_tail_fraction = 3 / 8, ms_max_candidates_per_side = 5,
      ms_minimum_universe_size = 3, ms_max_spread_bps = 16, ms_max_quote_age_seconds = 4, ms_min_adv = 100,
      ms_min_daily_turnover = 1000\<rparr>"

definition example_momentum_hashes :: momentum_hashes where
  "example_momentum_hashes =
     \<lparr>mh_cross_section = (\<lambda>_. ''x''), mh_context = (\<lambda>_. ''k''), mh_snapshot = (\<lambda>_. ''f''), mh_settings = (\<lambda>_. ''v''),
      mh_universe = (\<lambda>_. ''u''), mh_master = (\<lambda>_. ''m''), mh_state = (\<lambda>_. ''s''), mh_evidence = (\<lambda>_. ''e''),
      mh_uuid5 = (\<lambda>x. x)\<rparr>"

definition example_observation :: "string \<Rightarrow> instant \<Rightarrow> rat \<Rightarrow> momentum_observation" where
  "example_observation token t r =
     \<lparr>mo_snapshot = \<lparr>sn_entity = token, sn_timestamp = t, sn_feature_set_hash = [], sn_context_hash = ''k'',
        sn_input_hash = [], sn_code_commit = ''c'', sn_config_hash = ''g'', sn_data_snapshot = ''d'',
        sn_values = map (\<lambda>(n, x). example_fv n x)
          [(''liquidity.adv'', 1000), (''liquidity.average_daily_turnover'', 100000), (''liquidity.quote_age'', 1),
           (''liquidity.spread_bps'', 4), (''market.return_30m'', 0), (''sector.return_30m'', 0),
           (''sector.vwap_distance'', r), (''stock.ema_20_slope'', r), (''stock.return_120m'', r),
           (''stock.return_30m'', r), (''stock.return_60m'', r), (''stock.vwap_distance'', r)]\<rparr>,
      mo_context = \<lparr>fc_entity = \<lparr>ir_instrument_id = token, ir_source = ''vendor''\<rparr>,
        fc_nifty = Some \<lparr>ir_instrument_id = ''N'', ir_source = ''vendor''\<rparr>,
        fc_sector = Some \<lparr>ir_instrument_id = ''S'', ir_source = ''vendor''\<rparr>, fc_vix = None, fc_pair = None,
        fc_breadth_members = [], fc_sector_members = [], fc_universe_version = ''u'', fc_known_at = 0,
        fc_valid_from = 0, fc_valid_to = 9000000000000000, fc_proposed_quantity = None\<rparr>\<rparr>"

text \<open>Four instruments: the tail of 3/8 has two, the cap one.\<close>

definition example_four_universe :: universe_snapshot where
  "example_four_universe = example_universe\<lparr>un_long_tokens := [''A'', ''B'', ''C'', ''E'']\<rparr>"

definition example_four_master :: instrument_master where
  "example_four_master =
     example_master\<lparr>im_instruments := im_instruments example_master @ [example_instrument ''E'' ''BANK'']\<rparr>"

definition example_observations :: "momentum_observation list" where
  "example_observations =
     [example_observation ''B'' example_time (1 / 64), example_observation ''A'' example_time (1 / 16),
      example_observation ''E'' example_time (1 / 32), example_observation ''C'' example_time (- 1 / 64)]"

definition example_ranking :: "momentum_result result" where
  "example_ranking = evaluate example_momentum_hashes kolkata example_momentum example_observations
     example_four_universe example_four_master (example_decision example_time) (Aware example_time 0)"

definition intent_ids :: "momentum_result result \<Rightarrow> string list option" where
  "intent_ids r = (case r of Inl _ \<Rightarrow> None | Inr r \<Rightarrow> Some (map si_instrument_id (mr_intents r)))"

text \<open>An evaluation whose guards pass is a ranking.\<close>

lemma evaluate_finish:
  assumes "utc at1 = Inr now" "ms_enabled cfg" "universe_unavailable z u m now = Inr False"
    and "\<not> cross_section_ambiguous (ms_minimum_universe_size cfg)
         (map (\<lambda>o1. sn_entity (mo_snapshot o1)) (select_at obs now)) u m"
    and "momentum_inputs H z cfg u m state now (select_at obs now) = Inr (returns, confs)"
    and "momentum_scores H cfg m (select_at obs now) returns confs = Inr scores"
  shows "evaluate H z cfg obs u m state at1
       = momentum_rank H cfg u m state now (mh_cross_section H (select_at obs now)) scores"
  unfolding evaluate_def assms(1) rbind.simps Let_def using assms(2-6) by simp

definition example_returns :: "rat list list" where
  "example_returns = map (replicate 5) [1 / 16, 1 / 64, - 1 / 64, 1 / 32]"

definition example_confirmations :: "confirmation list" where
  "example_confirmations = map (\<lambda>b. \<lparr>cf_long = b, cf_short = \<not> b, cf_liquid = True,
     cf_trend = of_bool b, cf_quality = 3 / 4\<rparr>) [True, True, False, True]"

lemma example_inputs:
  "momentum_inputs example_momentum_hashes kolkata example_momentum example_four_universe example_four_master
     (example_decision example_time) example_time (select_at example_observations example_time)
   = Inr (example_returns, example_confirmations)"
  by code_simp

lemma example_rank_ids:
  "(case momentum_scores example_momentum_hashes example_momentum example_four_master
      (select_at example_observations example_time) example_returns example_confirmations of
      Inr scores \<Rightarrow> intent_ids (momentum_rank example_momentum_hashes example_momentum example_four_universe
        example_four_master (example_decision example_time) example_time ''x'' scores)
    | Inl e \<Rightarrow> None) = Some [''A'']"
  by code_simp

lemma example_ranking_ids: "intent_ids example_ranking = Some [''A'']"
proof -
  let ?sel = "select_at example_observations example_time"
  obtain scores where scores: "momentum_scores example_momentum_hashes example_momentum example_four_master ?sel
      example_returns example_confirmations = Inr scores"
    and ids: "intent_ids (momentum_rank example_momentum_hashes example_momentum example_four_universe
        example_four_master (example_decision example_time) example_time ''x'' scores) = Some [''A'']"
    using example_rank_ids by (auto split: sum.splits)
  have x: "mh_cross_section example_momentum_hashes ?sel = ''x''" by (simp add: example_momentum_hashes_def)
  have "universe_unavailable kolkata example_four_universe example_four_master example_time = Inr False"
    by code_simp
  moreover have "\<not> cross_section_ambiguous (ms_minimum_universe_size example_momentum)
      (map (\<lambda>o1. sn_entity (mo_snapshot o1)) ?sel) example_four_universe example_four_master"
    by code_simp
  moreover have "utc (Aware example_time 0) = Inr example_time" "ms_enabled example_momentum"
    by (simp_all add: example_momentum_def)
  ultimately show ?thesis
    using evaluate_finish[OF _ _ _ _ example_inputs scores] ids x by (simp add: example_ranking_def)
qed

theorem momentum_admission_witness:
  "\<exists>r i. example_ranking = Inr r \<and> mr_intents r = [i] \<and> si_instrument_id i = ''A''
     \<and> directional_side (example_decision example_time) = Some (si_side i)"
proof -
  obtain r i where r: "example_ranking = Inr r" "mr_intents r = [i]" "si_instrument_id i = ''A''"
    using example_ranking_ids by (auto simp: intent_ids_def split: sum.splits)
  then have "directional_side (example_decision example_time) = Some (si_side i)"
    using momentum_admission[OF r(1)[unfolded example_ranking_def], of i] by simp
  then show ?thesis using r by blast
qed

theorem momentum_causal_witness:
  "evaluate example_momentum_hashes kolkata example_momentum
     (example_observation ''D'' (example_time + 1) 1 # rev example_observations)
     example_four_universe example_four_master (example_decision example_time) (Aware example_time 0)
   = example_ranking"
  unfolding example_ranking_def
  by (rule momentum_causal[of _ example_time]) (simp_all add: example_observations_def example_observation_def)

text \<open>Two of three equal strengths would fit the cap; none of the three is selected.\<close>

definition example_score :: "string \<Rightarrow> rat \<Rightarrow> rat \<Rightarrow> momentum_score" where
  "example_score i strength p =
     \<lparr>mc_instrument_id = i, mc_symbol = i, mc_sector = [], mc_strength = strength, mc_percentile = p, mc_long_score = 0,
      mc_short_score = 0, mc_components = [], mc_long_confirmed = True, mc_short_confirmed = True,
      mc_liquidity_confirmed = True, mc_reasons = [], mc_feature_hash = []\<rparr>"

definition example_scores :: "momentum_score list" where
  "example_scores = [example_score ''A'' (1 / 2) (3 / 4), example_score ''B'' (3 / 4) 1, example_score ''C'' (1 / 2) (3 / 4),
     example_score ''D'' (1 / 2) (3 / 4), example_score ''E'' (1 / 4) (1 / 8), example_score ''F'' (1 / 8) (1 / 8),
     example_score ''G'' 0 0, example_score ''H'' 0 0]"

theorem ties_never_split_witness:
  "map mc_instrument_id (tail_selection example_momentum LONG example_scores) = [''B'']
   \<and> tail_cap example_momentum LONG (length example_scores) = 3
   \<and> {t \<in> set example_scores. in_tail example_momentum LONG t
        \<and> weakness LONG t \<le> weakness LONG (example_score ''B'' (3 / 4) 1)}
       \<subseteq> set (tail_selection example_momentum LONG example_scores)"
proof -
  have "tail_selection example_momentum LONG example_scores = [example_score ''B'' (3 / 4) 1]"
    "tail_cap example_momentum LONG (length example_scores) = 3"
    by code_simp+
  moreover from this(1) have "example_score ''B'' (3 / 4) 1 \<in> set (tail_selection example_momentum LONG example_scores)"
    by simp
  ultimately show ?thesis
    using ties_never_split[of "example_score ''B'' (3 / 4) 1" example_momentum LONG example_scores]
    by (simp add: example_score_def)
qed

end
