(* ===== verification/Breakout.thy ===== *)
theory Breakout
  imports Momentum Feature_Series
begin

text \<open>
  \<open>alphas/breakout_models.py\<close>, \<open>alphas/breakout_scoring.py\<close> and \<open>alphas/momentum_breakout.py\<close>: closed-bar breaks
  of a level that was known before the bar, their scores, and the observation of a failed break.  Content hashes,
  \<open>uuid5\<close> and the dump of an evidence are parameters.
\<close>

subsection \<open>Settings and records\<close>

record breakout_weights =
  bw_relative_strength :: rat
  bw_breakout_quality :: rat
  bw_relative_volume :: rat
  bw_sector_confirmation :: rat
  bw_slope_quality :: rat
  bw_reward_risk_proxy :: rat
  bw_liquidity_quality :: rat

definition breakout_weight_items :: "breakout_weights \<Rightarrow> (string \<times> rat) list" where
  "breakout_weight_items w =
     [(''relative_strength'', bw_relative_strength w), (''breakout_quality'', bw_breakout_quality w),
      (''relative_volume'', bw_relative_volume w), (''sector_confirmation'', bw_sector_confirmation w),
      (''slope_quality'', bw_slope_quality w), (''reward_risk_proxy'', bw_reward_risk_proxy w),
      (''liquidity_quality'', bw_liquidity_quality w)]"

definition breakout_weights_ok :: "breakout_weights \<Rightarrow> bool" where
  "breakout_weights_ok w \<longleftrightarrow> list_all (\<lambda>(n, x). unit_fraction x) (breakout_weight_items w)
     \<and> isclose (float_sum (map snd (breakout_weight_items w))) 1 (fl (1 / 10 ^ 12))"

datatype range_kind = OPENING_RANGE | SWING

record breakout_settings =
  bs_version :: string
  bs_enabled :: bool
  bs_weights :: breakout_weights
  bs_range_source :: "range_kind set"
  bs_minimum_universe_size :: int
  bs_minimum_strength_percentile :: rat
  bs_minimum_residual_return :: rat
  bs_minimum_relative_volume :: rat
  bs_full_relative_volume :: rat
  bs_min_extension_atr :: rat
  bs_full_extension_atr :: rat
  bs_max_extension_atr :: rat
  bs_min_close_location :: rat
  bs_min_body_fraction :: rat
  bs_full_sector_distance :: rat
  bs_full_slope :: rat
  bs_invalidation_buffer_atr :: rat
  bs_observation_bars :: int
  bs_reward_distance_atr :: rat
  bs_min_reward_risk_proxy :: rat
  bs_full_reward_risk_proxy :: rat
  bs_max_spread_bps :: rat
  bs_max_quote_age_seconds :: rat
  bs_min_adv :: rat
  bs_min_daily_turnover :: rat
  bs_max_bar_lag_seconds :: rat
  bs_minimum_score :: rat

text \<open>\<open>range_source\<close> is the set of the kinds it admits: one of them, or both for \<open>either\<close>.\<close>

definition breakout_settings_ok :: "breakout_settings \<Rightarrow> bool" where
  "breakout_settings_ok s \<longleftrightarrow> breakout_weights_ok (bs_weights s) \<and> bs_range_source s \<noteq> {}
     \<and> 2 \<le> bs_minimum_universe_size s
     \<and> 1 / 2 < bs_minimum_strength_percentile s \<and> bs_minimum_strength_percentile s < 1
     \<and> list_all (\<lambda>x. 0 < x) [bs_minimum_residual_return s, bs_minimum_relative_volume s, bs_full_relative_volume s,
         bs_min_extension_atr s, bs_full_extension_atr s, bs_max_extension_atr s, bs_full_sector_distance s,
         bs_full_slope s, bs_invalidation_buffer_atr s, bs_reward_distance_atr s, bs_min_reward_risk_proxy s,
         bs_full_reward_risk_proxy s, bs_max_spread_bps s, bs_max_quote_age_seconds s, bs_min_adv s,
         bs_min_daily_turnover s]
     \<and> 1 / 2 \<le> bs_min_close_location s \<and> bs_min_close_location s \<le> 1
     \<and> unit_fraction (bs_min_body_fraction s) \<and> 1 \<le> bs_observation_bars s
     \<and> 0 \<le> bs_max_bar_lag_seconds s \<and> unit_fraction (bs_minimum_score s)
     \<and> bs_min_extension_atr s \<le> bs_full_extension_atr s \<and> bs_full_extension_atr s \<le> bs_max_extension_atr s
     \<and> bs_minimum_relative_volume s \<le> bs_full_relative_volume s
     \<and> bs_min_reward_risk_proxy s \<le> bs_full_reward_risk_proxy s"

record breakout_observation =
  bo_current :: momentum_observation
  bo_reference :: momentum_observation
  bo_bar :: bar
  bo_previous_bar :: bar
  bo_definition :: feature_set_version

record scaled_component =
  bc_name :: string
  bc_raw_value :: rat
  bc_normalized_value :: rat
  bc_weight :: rat
  bc_contribution :: rat

definition mk_component :: "scaled_component \<Rightarrow> scaled_component result" where
  "mk_component c =
     (if unit_fraction (bc_normalized_value c) \<and> unit_fraction (bc_weight c) then Inr c
      else Inl (ValueError ''validation error for BreakoutComponent''))"

record breakout_invalidation =
  bi_range_kind :: range_kind
  bi_broken_level :: rat
  bi_invalidation_level :: rat
  bi_level_known_at :: instant
  bi_trigger_bar_end :: instant
  bi_expires_at :: instant

definition mk_invalidation :: "breakout_invalidation \<Rightarrow> breakout_invalidation result" where
  "mk_invalidation i =
     (if 0 < bi_broken_level i \<and> 0 < bi_invalidation_level i then Inr i
      else Inl (ValueError ''validation error for BreakoutInvalidation''))"

record breakout_evidence =
  bv_timestamp :: instant
  bv_instrument_id :: string
  bv_symbol :: string
  bv_source :: string
  bv_side :: side
  bv_score :: rat
  bv_components :: "scaled_component list"
  bv_checks :: "threshold_evidence list"
  bv_invalidation :: breakout_invalidation
  bv_settings :: breakout_settings
  bv_alpha_version_hash :: string
  bv_observation_hash :: string
  bv_cross_section_hash :: string
  bv_universe_hash :: string
  bv_instrument_master_hash :: string
  bv_state_hash :: string
  bv_code_commit :: string
  bv_config_hash :: string
  bv_data_snapshot :: string
  bv_feature_set_hash :: string

record breakout_hashes =
  bh_cross_section :: "breakout_observation list \<Rightarrow> string"
  bh_item :: "breakout_observation \<Rightarrow> string"
  bh_context :: "feature_context \<Rightarrow> string"
  bh_version :: "feature_set_version \<Rightarrow> string"
  bh_settings :: "breakout_settings \<Rightarrow> string"
  bh_universe :: "universe_snapshot \<Rightarrow> string"
  bh_master :: "instrument_master \<Rightarrow> string"
  bh_state :: "state_decision \<Rightarrow> string"
  bh_evidence :: "breakout_evidence \<Rightarrow> string"
  bh_uuid5 :: "string \<Rightarrow> uuid"

definition mk_breakout_evidence :: "breakout_hashes \<Rightarrow> breakout_evidence \<Rightarrow> breakout_evidence result" where
  "mk_breakout_evidence H e =
     (let i = bv_invalidation e in
      if \<not> unit_fraction (bv_score e) then Inl (ValueError ''validation error for BreakoutSignalEvidence'')
      else if bv_alpha_version_hash e \<noteq> bh_settings H (bv_settings e)
         \<or> \<not> isclose (bv_score e) (float_sum (map bc_contribution (bv_components e))) (fl (1 / 10 ^ 12))
         \<or> \<not> (bi_level_known_at i < bi_trigger_bar_end i \<and> bi_trigger_bar_end i \<le> bv_timestamp e)
         \<or> bi_expires_at i \<le> bv_timestamp e
      then Inl (ValueError ''breakout evidence score, version or timing mismatch'')
      else Inr e)"

definition breakout_detail :: "breakout_hashes \<Rightarrow> breakout_evidence \<Rightarrow> signal_evidence" where
  "breakout_detail H e =
     \<lparr>ev_timestamp = bv_timestamp e, ev_alpha_id = ''momentum_breakout'', ev_side = bv_side e,
      ev_instrument_id = bv_instrument_id e, ev_symbol = bv_symbol e, ev_score = bv_score e,
      ev_code_commit = bv_code_commit e, ev_config_hash = bv_config_hash e, ev_data_snapshot = bv_data_snapshot e,
      ev_universe_hash = bv_universe_hash e, ev_instrument_master_hash = bv_instrument_master_hash e,
      ev_state_hash = bv_state_hash e, ev_feature_set_hash = bv_feature_set_hash e, ev_rest = bh_evidence H e\<rparr>"

subsection \<open>Measurement of a closed bar\<close>

definition sign_of :: "side \<Rightarrow> rat" where
  "sign_of sd = (if sd = LONG then 1 else - 1)"

definition breakout_number :: "momentum_observation \<Rightarrow> string \<Rightarrow> rat result" where
  "breakout_number o1 = feature_number ''MISSING_FEATURE:'' (mo_snapshot o1)"

text \<open>The reference snapshot knows a level of a kind only after the bars that define it.\<close>

definition level_known :: "breakout_observation \<Rightarrow> instant \<Rightarrow> range_kind \<Rightarrow> bool" where
  "level_known item opn kind \<longleftrightarrow>
     opn + minutes (5 * (case kind of
         SWING \<Rightarrow> 2 * int (fs_swing_confirmation_bars (bo_definition item)) + 1
       | OPENING_RANGE \<Rightarrow> int (fs_opening_range_bars (bo_definition item))))
     \<le> sn_timestamp (mo_snapshot (bo_reference item))"

fun range_name :: "range_kind \<Rightarrow> string" where
  "range_name OPENING_RANGE = ''opening_range''"
| "range_name SWING = ''swing''"

text \<open>The level of a kind, when the bar closes beyond it and the previous bar did not.\<close>

definition crossed_level ::
  "breakout_settings \<Rightarrow> breakout_observation \<Rightarrow> instant \<Rightarrow> side \<Rightarrow> range_kind \<Rightarrow> (range_kind \<times> rat) option" where
  "crossed_level cfg item opn sd kind =
     (if kind \<notin> bs_range_source cfg \<or> \<not> level_known item opn kind then None
      else (case breakout_number (bo_reference item) (''stock.'' @ range_name kind @ (if sd = LONG then ''_high'' else ''_low'')) of
          Inl e \<Rightarrow> None
        | Inr level \<Rightarrow>
            if 0 < level \<and> sign_of sd * fl (fl (b_close (bo_previous_bar item)) - level) \<le> 0
               \<and> 0 < sign_of sd * fl (fl (b_close (bo_bar item)) - level)
            then Some (kind, level) else None))"

definition hardest_level ::
  "breakout_settings \<Rightarrow> breakout_observation \<Rightarrow> instant \<Rightarrow> side \<Rightarrow> (range_kind \<times> rat) option" where
  "hardest_level cfg item opn sd =
     max_by (\<lambda>p. sign_of sd * snd p) (List.map_filter (crossed_level cfg item opn sd) [OPENING_RANGE, SWING])"

record breakout_measure =
  bm_extension :: rat
  bm_location :: rat
  bm_body :: rat
  bm_vwap :: rat
  bm_sector :: rat
  bm_slope :: rat
  bm_relative_volume :: rat
  bm_residual_sector :: rat
  bm_residual_market :: rat
  bm_spread :: rat
  bm_age :: rat
  bm_adv :: rat
  bm_turnover :: rat
  bm_invalidation_level :: rat
  bm_proxy :: rat

definition measured_features :: "string list" where
  "measured_features =
     [''stock.session_vwap'', ''sector.vwap_distance'', ''stock.ema_20_slope'', ''stock.relative_volume'',
      ''stock.relative_sector_30m'', ''stock.relative_market_30m'', ''liquidity.spread_bps'', ''liquidity.quote_age'',
      ''liquidity.adv'', ''liquidity.average_daily_turnover'']"

definition breakout_measure_of ::
  "breakout_settings \<Rightarrow> rat \<Rightarrow> rat \<Rightarrow> rat \<Rightarrow> rat \<Rightarrow> rat \<Rightarrow> rat \<Rightarrow> rat list \<Rightarrow> rat \<Rightarrow> breakout_measure" where
  "breakout_measure_of cfg sign atr level extension location body vs proxy =
     \<lparr>bm_extension = extension, bm_location = location, bm_body = body, bm_vwap = vs ! 0,
      bm_sector = sign * vs ! 1, bm_slope = sign * vs ! 2, bm_relative_volume = vs ! 3,
      bm_residual_sector = sign * vs ! 4, bm_residual_market = sign * vs ! 5,
      bm_spread = vs ! 6, bm_age = vs ! 7, bm_adv = vs ! 8, bm_turnover = vs ! 9,
      bm_invalidation_level = fl (level - fl (sign * bs_invalidation_buffer_atr cfg * atr)), bm_proxy = proxy\<rparr>"

definition breakout_measures ::
  "breakout_settings \<Rightarrow> breakout_observation \<Rightarrow> side \<Rightarrow> rat \<Rightarrow> rat \<Rightarrow> breakout_measure result" where
  "breakout_measures cfg item sd atr level =
     (let b = bo_bar item; sign = sign_of sd;
          high = fl (b_high b); low = fl (b_low b); close = fl (b_close b); opened = fl (b_open b);
          extension = fl (sign * fl (close - level) / atr)
      in rbind (fdiv (if sd = LONG then fl (close - low) else fl (high - close)) (fl (high - low))) (\<lambda>location.
         rbind (fdiv (sign * fl (close - opened)) (fl (high - low))) (\<lambda>body.
         rbind (rmap (breakout_number (bo_current item)) measured_features) (\<lambda>vs.
         rbind (fdiv (bs_reward_distance_atr cfg) (fl (extension + bs_invalidation_buffer_atr cfg))) (\<lambda>proxy.
         Inr (breakout_measure_of cfg sign atr level extension location body vs proxy))))))"

text \<open>\<open>float(condition)\<close>.\<close>

definition flag_value :: "bool \<Rightarrow> rat" where
  "flag_value b = (if b then 1 else 0)"

definition breakout_checks ::
  "breakout_settings \<Rightarrow> side \<Rightarrow> rat \<Rightarrow> rat \<Rightarrow> breakout_measure \<Rightarrow> (string \<times> rat \<times> threshold_op \<times> rat) list" where
  "breakout_checks cfg sd close strength v =
     [(''stock.vwap_positive'', flag_value (0 < bm_vwap v), Eq, 1),
      (''stock.above_below_vwap'', flag_value (0 < sign_of sd * fl (close - bm_vwap v)), Eq, 1),
      (''sector.direction_confirmed'', flag_value (0 < bm_sector v), Eq, 1),
      (''stock.slope_confirmed'', flag_value (0 < bm_slope v), Eq, 1),
      (''relative_strength'', strength, Ge, bs_minimum_strength_percentile cfg),
      (''residual_sector'', bm_residual_sector v, Ge, bs_minimum_residual_return cfg),
      (''residual_market'', bm_residual_market v, Ge, bs_minimum_residual_return cfg),
      (''stock.relative_volume'', bm_relative_volume v, Ge, bs_minimum_relative_volume cfg),
      (''breakout.extension_atr'', bm_extension v, Ge, bs_min_extension_atr cfg),
      (''breakout.extension_atr'', bm_extension v, Le, bs_max_extension_atr cfg),
      (''breakout.close_location'', bm_location v, Ge, bs_min_close_location cfg),
      (''breakout.body_fraction'', bm_body v, Ge, bs_min_body_fraction cfg),
      (''reward_risk_proxy'', bm_proxy v, Ge, bs_min_reward_risk_proxy cfg),
      (''liquidity.spread_bps'', bm_spread v, Ge, 0),
      (''liquidity.spread_bps'', bm_spread v, Le, bs_max_spread_bps cfg),
      (''liquidity.quote_age'', bm_age v, Ge, 0),
      (''liquidity.quote_age'', bm_age v, Le, bs_max_quote_age_seconds cfg),
      (''liquidity.adv'', bm_adv v, Ge, bs_min_adv cfg),
      (''liquidity.turnover'', bm_turnover v, Ge, bs_min_daily_turnover cfg),
      (''invalidation.positive_price'', flag_value (0 < bm_invalidation_level v), Eq, 1)]"

definition clamp_unit :: "rat \<Rightarrow> rat" where
  "clamp_unit x = min 1 (max 0 x)"

text \<open>The raw values in order, each with its scale.\<close>

definition breakout_raw :: "breakout_settings \<Rightarrow> rat \<Rightarrow> breakout_measure \<Rightarrow> (string \<times> rat \<times> rat) list" where
  "breakout_raw cfg strength v =
     [(''relative_strength'', strength, 1),
      (''breakout_quality'',
       fl (fl (fl (bm_location v + bm_body v) + min 1 (fl (bm_extension v / bs_full_extension_atr cfg))) / 3), 1),
      (''relative_volume'', bm_relative_volume v, bs_full_relative_volume cfg),
      (''sector_confirmation'', bm_sector v, bs_full_sector_distance cfg),
      (''slope_quality'', bm_slope v, bs_full_slope cfg),
      (''reward_risk_proxy'', bm_proxy v, bs_full_reward_risk_proxy cfg),
      (''liquidity_quality'',
       liquidity_quality (bm_spread v) (bs_max_spread_bps cfg) (bm_age v) (bs_max_quote_age_seconds cfg), 1)]"

definition scaled :: "(string \<times> rat) list \<Rightarrow> string \<times> rat \<times> rat \<Rightarrow> scaled_component result" where
  "scaled weights p =
     (case p of (name, value, scale) \<Rightarrow>
        let w = the (map_of weights name); x = clamp_unit (fl (value / scale)) in
        mk_component \<lparr>bc_name = name, bc_raw_value = value, bc_normalized_value = x, bc_weight = w,
          bc_contribution = fl (w * x)\<rparr>)"

type_synonym 'i measured = "scaled_component list \<times> 'i option \<times> string list"

text \<open>What a candidate whose checks all pass is worth.\<close>

definition breakout_candidate_of ::
  "breakout_settings \<Rightarrow> breakout_observation \<Rightarrow> instant \<Rightarrow> rat \<Rightarrow> range_kind \<Rightarrow> rat \<Rightarrow> breakout_measure
     \<Rightarrow> breakout_invalidation measured result" where
  "breakout_candidate_of cfg item closing strength kind level v =
     rbind (rmap (scaled (breakout_weight_items (bs_weights cfg))) (breakout_raw cfg strength v)) (\<lambda>components.
     rbind (mk_invalidation
       \<lparr>bi_range_kind = kind, bi_broken_level = level, bi_invalidation_level = bm_invalidation_level v,
        bi_level_known_at = sn_timestamp (mo_snapshot (bo_reference item)), bi_trigger_bar_end = b_end (bo_bar item),
        bi_expires_at = min closing (b_end (bo_bar item) + minutes (5 * bs_observation_bars cfg))\<rparr>) (\<lambda>i.
     Inr (components, Some i,
       [''CLOSED_BAR_BREAK'', ''KNOWN_'' @ upper (range_name kind), ''RESIDUAL_CONFIRMED'', ''PARTICIPATION_CONFIRMED'',
        ''LIQUIDITY_CONFIRMED''])))"

definition failed_checks :: "evidence_builder \<Rightarrow> string list" where
  "failed_checks e = map (\<lambda>c. ''REJECTED:'' @ te_name c) (filter (\<lambda>c. \<not> te_passed c) (eb_checks e))"

definition measure_breakout ::
  "breakout_observation \<Rightarrow> side \<Rightarrow> rat \<Rightarrow> breakout_settings \<Rightarrow> instant \<Rightarrow> instant \<Rightarrow> evidence_builder
     \<Rightarrow> breakout_invalidation measured result \<times> evidence_builder" where
  "measure_breakout item sd strength cfg opn closing evidence =
     (case breakout_number (bo_current item) ''stock.atr'' of
        Inl e \<Rightarrow> (Inl e, evidence)
      | Inr atr \<Rightarrow>
          if atr \<le> 0 \<or> b_high (bo_bar item) = b_low (bo_bar item)
          then (Inr ([], None, [''INVALID_ATR_OR_FLAT_BAR'']), evidence)
          else (case hardest_level cfg item opn sd of
              None \<Rightarrow> (Inr ([], None, [''NO_NEW_BREAK_OF_KNOWN_LEVEL'']), evidence)
            | Some (kind, level) \<Rightarrow>
                (case breakout_measures cfg item sd atr level of
                   Inl e \<Rightarrow> (Inl e, evidence)
                 | Inr v \<Rightarrow>
                     (case record_all (breakout_checks cfg sd (fl (b_close (bo_bar item))) strength v) evidence of
                        (passed, evidence1) \<Rightarrow>
                          if list_all id passed
                          then (breakout_candidate_of cfg item closing strength kind level v, evidence1)
                          else (Inr ([], None, failed_checks evidence1), evidence1)))))"

subsection \<open>\<open>MomentumBreakout.evaluate\<close>\<close>

record breakout_report =
  br_instrument_id :: string
  br_reasons :: "string list"
  br_checks :: "threshold_evidence list"

record breakout_result =
  bt_timestamp :: instant
  bt_intents :: "signal_intent list"
  bt_reports :: "breakout_report list"
  bt_reasons :: "string list"
  bt_cross_section_hash :: string

definition select_breakouts :: "breakout_observation list \<Rightarrow> instant \<Rightarrow> breakout_observation list" where
  "select_breakouts obs now =
     sort_key (\<lambda>x. sn_entity (mo_snapshot (bo_current x)))
       (filter (\<lambda>x. sn_timestamp (mo_snapshot (bo_current x)) = now) obs)"

definition breakout_ids :: "breakout_observation list \<Rightarrow> string list" where
  "breakout_ids xs = map (\<lambda>x. sn_entity (mo_snapshot (bo_current x))) xs"

definition breakout_universe_bad ::
  "zone \<Rightarrow> int \<Rightarrow> string list \<Rightarrow> universe_snapshot \<Rightarrow> instrument_master \<Rightarrow> instant \<Rightarrow> bool result" where
  "breakout_universe_bad z minimum ids u m now =
     (if un_as_of u \<noteq> local_day z now \<or> im_as_of m \<noteq> local_day z now then Inr True
      else rbind (utc (un_generated_at u)) (\<lambda>ug.
        if now < ug then Inr True
        else rbind (utc (im_generated_at m)) (\<lambda>mg.
          Inr (now < mg \<or> un_instrument_snapshot_id u \<noteq> im_snapshot_id m
            \<or> cross_section_ambiguous minimum ids u m))))"

definition context_mismatch ::
  "breakout_hashes \<Rightarrow> universe_snapshot \<Rightarrow> state_decision \<Rightarrow> feature_set_version \<Rightarrow> string \<Rightarrow> momentum_observation \<Rightarrow> bool" where
  "context_mismatch H u state version entity o1 \<longleftrightarrow>
     (let s = mo_snapshot o1; c = mo_context o1; t = sn_timestamp s in
      sn_entity s \<noteq> entity \<or> ir_instrument_id (fc_entity c) \<noteq> sn_entity s \<or> fc_nifty c = None \<or> fc_sector c = None
      \<or> fc_universe_version c \<noteq> un_snapshot_id u \<or> bh_context H c \<noteq> sn_context_hash s
      \<or> t < fc_known_at c \<or> \<not> (fc_valid_from c \<le> t \<and> t < fc_valid_to c)
      \<or> sn_feature_set_hash s \<noteq> bh_version H version
      \<or> provenance_of_snapshot s \<noteq> provenance_of_state state)"

text \<open>\<open>delta.total_seconds() % 300 != 0\<close>.\<close>

definition off_grid :: "int \<Rightarrow> bool" where
  "off_grid d \<longleftrightarrow> (let x = total_seconds d in x \<noteq> 300 * of_int \<lfloor>x / 300\<rfloor>)"

definition bar_not_causal :: "breakout_settings \<Rightarrow> instant \<Rightarrow> instant \<Rightarrow> breakout_observation \<Rightarrow> bool" where
  "bar_not_causal cfg opn now item \<longleftrightarrow>
     (let t = sn_timestamp (mo_snapshot (bo_reference item)); b = bo_bar item; p = bo_previous_bar item;
          lag = total_seconds (now - b_end b) in
      \<not> (opn \<le> t \<and> t \<le> b_start b) \<or> b_end p \<noteq> b_start b \<or> b_start p < opn \<or> off_grid (b_start b - opn)
      \<or> \<not> (0 \<le> lag \<and> lag \<le> bs_max_bar_lag_seconds cfg))"

definition check_bar :: "breakout_observation \<Rightarrow> instant \<Rightarrow> bar \<Rightarrow> unit result" where
  "check_bar item now b =
     rbind (require_strategy_ready b now) (\<lambda>_.
     ensure (b_instrument_id b = sn_entity (mo_snapshot (bo_current item))
         \<and> b_source b = ir_source (fc_entity (mo_context (bo_current item))) \<and> b_feed_kind b = EQUITY)
       (ValueError ''BAR_IDENTITY_MISMATCH''))"

definition check_item ::
  "breakout_hashes \<Rightarrow> zone \<Rightarrow> breakout_settings \<Rightarrow> universe_snapshot \<Rightarrow> instrument_master \<Rightarrow> state_decision \<Rightarrow> instant
     \<Rightarrow> instant \<Rightarrow> breakout_observation \<Rightarrow> unit result" where
  "check_item H z cfg u m state opn now item =
     (let cc = mo_context (bo_current item); cr = mo_context (bo_reference item);
          entity = sn_entity (mo_snapshot (bo_current item)) in
      rbind (ensure (fc_entity cc = fc_entity cr \<and> fc_nifty cc = fc_nifty cr \<and> fc_sector cc = fc_sector cr)
         (ValueError ''REFERENCE_SOURCE_MISMATCH'')) (\<lambda>_.
      rbind (ensure (case dict_of in_token (im_instruments m) entity of None \<Rightarrow> False
           | Some i \<Rightarrow> \<not> instrument_ineligible i (local_day z now)) (ValueError ''INSTRUMENT_INELIGIBLE'')) (\<lambda>_.
      rbind (ensure (\<not> list_ex (context_mismatch H u state (bo_definition item) entity)
           [bo_current item, bo_reference item]) (ValueError ''CONTEXT_OR_PROVENANCE_MISMATCH'')) (\<lambda>_.
      rbind (ensure (\<not> bar_not_causal cfg opn now item) (ValueError ''BAR_OR_REFERENCE_NOT_CAUSAL'')) (\<lambda>_.
      rbind (check_bar item now (bo_bar item)) (\<lambda>_.
      check_bar item now (bo_previous_bar item)))))))"

definition breakout_inputs ::
  "breakout_hashes \<Rightarrow> zone \<Rightarrow> breakout_settings \<Rightarrow> universe_snapshot \<Rightarrow> instrument_master \<Rightarrow> state_decision \<Rightarrow> instant
     \<Rightarrow> instant \<Rightarrow> breakout_observation list \<Rightarrow> (rat list \<times> rat list) result" where
  "breakout_inputs H z cfg u m state opn now selected =
     rbind (rmap (check_item H z cfg u m state opn now) selected) (\<lambda>_.
     rbind (rmap (\<lambda>x. breakout_number (bo_current x) ''stock.relative_sector_30m'') selected) (\<lambda>sector.
     rbind (rmap (\<lambda>x. breakout_number (bo_current x) ''stock.relative_market_30m'') selected) (\<lambda>market.
     Inr (sector, market))))"

definition strengths_of :: "rat list \<Rightarrow> rat list \<Rightarrow> rat list result" where
  "strengths_of sector market =
     rbind (percentiles sector) (\<lambda>a. rbind (percentiles market) (\<lambda>b.
     Inr (map2 (\<lambda>x y. fl (fl (x + y) / 2)) a b)))"

text \<open>Short eligibility of a token.\<close>

definition short_allowed :: "universe_snapshot \<Rightarrow> instrument_master \<Rightarrow> string \<Rightarrow> bool" where
  "short_allowed u m token \<longleftrightarrow> token \<in> set (un_short_tokens u)
     \<and> (case dict_of in_token (im_instruments m) token of Some i \<Rightarrow> in_fo_eligible i | None \<Rightarrow> False)"

definition breakout_intent ::
  "breakout_hashes \<Rightarrow> breakout_settings \<Rightarrow> universe_snapshot \<Rightarrow> instrument_master \<Rightarrow> state_decision \<Rightarrow> instant
     \<Rightarrow> string \<Rightarrow> side \<Rightarrow> breakout_observation \<Rightarrow> rat \<Rightarrow> scaled_component list \<Rightarrow> evidence_builder
     \<Rightarrow> breakout_invalidation \<Rightarrow> string list \<Rightarrow> signal_intent result" where
  "breakout_intent H cfg u m state now digest sd item score components evidence invalidation rs =
     (let token = sn_entity (mo_snapshot (bo_current item));
          i = the (dict_of in_token (im_instruments m) token) in
      rbind (mk_breakout_evidence H
        \<lparr>bv_timestamp = now, bv_instrument_id = in_token i, bv_symbol = in_symbol i, bv_source = b_source (bo_bar item),
         bv_side = sd, bv_score = score, bv_components = components, bv_checks = eb_checks evidence,
         bv_invalidation = invalidation, bv_settings = cfg, bv_alpha_version_hash = bh_settings H cfg,
         bv_observation_hash = bh_item H item, bv_cross_section_hash = digest, bv_universe_hash = bh_universe H u,
         bv_instrument_master_hash = bh_master H m, bv_state_hash = bh_state H state,
         bv_code_commit = sd_code_commit state, bv_config_hash = sd_config_hash state,
         bv_data_snapshot = sd_data_snapshot state, bv_feature_set_hash = se_feature_set_hash (sd_evidence state)\<rparr>) (\<lambda>e.
      Inr \<lparr>si_signal_id = bh_uuid5 H (''godzilla:momentum_breakout:'' @ iso_instant (b_end (bo_bar item)) @ '':'' @ in_token i),
         si_instrument_id = in_token i, si_alpha_id = ''momentum_breakout'', si_side = sd, si_reasons = rs,
         si_score = Some score, si_evidence = Some (breakout_detail H e), si_rest = []\<rparr>))"

text \<open>A \<open>ValueError\<close> of the measurement is the reason of the report; any other exception escapes.\<close>

definition caught :: "'i measured result \<Rightarrow> 'i measured result" where
  "caught r = (case r of Inl (ValueError t) \<Rightarrow> Inr ([], None, [t]) | _ \<Rightarrow> r)"

definition breakout_outcome ::
  "breakout_hashes \<Rightarrow> breakout_settings \<Rightarrow> universe_snapshot \<Rightarrow> instrument_master \<Rightarrow> state_decision \<Rightarrow> instant
     \<Rightarrow> string \<Rightarrow> side \<Rightarrow> breakout_observation \<Rightarrow> evidence_builder \<Rightarrow> breakout_invalidation measured
     \<Rightarrow> (breakout_report \<times> signal_intent option) result" where
  "breakout_outcome H cfg u m state now digest sd item evidence measured =
     (case measured of (components, invalidation, rs) \<Rightarrow>
      let token = sn_entity (mo_snapshot (bo_current item));
          score = min 1 (float_sum (map bc_contribution components)) in
      case invalidation of
        None \<Rightarrow> Inr (\<lparr>br_instrument_id = token, br_reasons = rs, br_checks = eb_checks evidence\<rparr>, None)
      | Some i \<Rightarrow>
          (case record_check ''candidate.score'' (Some score) Ge (bs_minimum_score cfg) None evidence of
             (passed, evidence1) \<Rightarrow>
               if \<not> passed then
                 Inr (\<lparr>br_instrument_id = token, br_reasons = [''SCORE_BELOW_THRESHOLD''],
                       br_checks = eb_checks evidence1\<rparr>, None)
               else rbind (breakout_intent H cfg u m state now digest sd item score components evidence1 i rs) (\<lambda>intent.
                 Inr (\<lparr>br_instrument_id = token, br_reasons = rs, br_checks = eb_checks evidence1\<rparr>, Some intent))))"

definition breakout_candidate ::
  "breakout_hashes \<Rightarrow> breakout_settings \<Rightarrow> universe_snapshot \<Rightarrow> instrument_master \<Rightarrow> state_decision \<Rightarrow> instant
     \<Rightarrow> instant \<Rightarrow> instant \<Rightarrow> string \<Rightarrow> side \<Rightarrow> breakout_observation \<times> rat
     \<Rightarrow> (breakout_report \<times> signal_intent option) result" where
  "breakout_candidate H cfg u m state opn closing now digest sd p =
     (case p of (item, strength) \<Rightarrow>
      let token = sn_entity (mo_snapshot (bo_current item)) in
      if sd = SHORT \<and> \<not> short_allowed u m token then
        Inr (\<lparr>br_instrument_id = token, br_reasons = [''SHORT_INELIGIBLE''], br_checks = []\<rparr>, None)
      else (case measure_breakout item sd (if sd = LONG then strength else fl (1 - strength)) cfg opn closing
              (new_evidence (mo_snapshot (bo_current item))) of
        (measured, evidence) \<Rightarrow>
          rbind (caught measured) (breakout_outcome H cfg u m state now digest sd item evidence)))"

text \<open>A day outside the calendar counts as a day without a session.\<close>

definition session_or_none ::
  "(day \<Rightarrow> session option result) \<Rightarrow> zone \<Rightarrow> instant \<Rightarrow> (instant \<times> instant) option result" where
  "session_or_none son z now =
     (case session_bounds son z now of Inl (CalendarCoverageError t) \<Rightarrow> Inr None | r \<Rightarrow> r)"

definition breakout_empty :: "instant \<Rightarrow> string \<Rightarrow> string list \<Rightarrow> breakout_result" where
  "breakout_empty now digest rs =
     \<lparr>bt_timestamp = now, bt_intents = [], bt_reports = [], bt_reasons = rs, bt_cross_section_hash = digest\<rparr>"

definition breakout_reports ::
  "breakout_hashes \<Rightarrow> breakout_settings \<Rightarrow> universe_snapshot \<Rightarrow> instrument_master \<Rightarrow> state_decision \<Rightarrow> instant
     \<Rightarrow> instant \<Rightarrow> instant \<Rightarrow> string \<Rightarrow> side \<Rightarrow> breakout_observation list \<Rightarrow> rat list \<Rightarrow> breakout_result result" where
  "breakout_reports H cfg u m state opn closing now digest sd selected strengths =
     rbind (rmap (breakout_candidate H cfg u m state opn closing now digest sd) (zip selected strengths)) (\<lambda>outcomes.
     Inr \<lparr>bt_timestamp = now, bt_intents = List.map_filter snd outcomes, bt_reports = map fst outcomes,
          bt_reasons = [''EVALUATION_COMPLETE''], bt_cross_section_hash = digest\<rparr>)"

definition breakout_rank ::
  "breakout_hashes \<Rightarrow> breakout_settings \<Rightarrow> universe_snapshot \<Rightarrow> instrument_master \<Rightarrow> state_decision \<Rightarrow> instant
     \<Rightarrow> instant \<Rightarrow> instant \<Rightarrow> string \<Rightarrow> side \<Rightarrow> breakout_observation list \<Rightarrow> rat list \<Rightarrow> rat list
     \<Rightarrow> breakout_result result" where
  "breakout_rank H cfg u m state opn closing now digest sd selected sector market =
     rbind (strengths_of sector market) (breakout_reports H cfg u m state opn closing now digest sd selected)"

definition breakout_evaluate ::
  "breakout_hashes \<Rightarrow> (day \<Rightarrow> session option result) \<Rightarrow> zone \<Rightarrow> breakout_settings \<Rightarrow> breakout_observation list
     \<Rightarrow> universe_snapshot \<Rightarrow> instrument_master \<Rightarrow> state_decision \<Rightarrow> pydatetime \<Rightarrow> breakout_result result" where
  "breakout_evaluate H son z cfg obs u m state at1 =
     rbind (utc at1) (\<lambda>now.
     let selected = select_breakouts obs now; digest = bh_cross_section H selected;
         stop = (\<lambda>r. Inr (breakout_empty now digest [r])) in
     if \<not> bs_enabled cfg then stop ''ALPHA_DISABLED''
     else (case directional_side state of
         None \<Rightarrow> stop ''STATE_PERMISSION_DENIED''
       | Some sd \<Rightarrow>
           if \<not> state_permits MOMENTUM_BREAKOUT now state then stop ''STATE_PERMISSION_DENIED''
           else rbind (session_or_none son z now) (\<lambda>bounds.
             case bounds of
               None \<Rightarrow> stop ''SESSION_UNAVAILABLE''
             | Some (opn, closing) \<Rightarrow>
                 if \<not> (opn \<le> now \<and> now < closing) then stop ''SESSION_UNAVAILABLE''
                 else rbind (breakout_universe_bad z (bs_minimum_universe_size cfg) (breakout_ids selected) u m now) (\<lambda>bad.
                   if bad then stop ''UNIVERSE_UNAVAILABLE_OR_AMBIGUOUS''
                   else (case breakout_inputs H z cfg u m state opn now selected of
                       Inl e \<Rightarrow> Inr (breakout_empty now digest [''INPUT_BLOCKED'', str_exc e])
                     | Inr (sector, market) \<Rightarrow>
                         breakout_rank H cfg u m state opn closing now digest sd selected sector market)))))"

subsection \<open>\<open>observe_failed_breakout\<close>\<close>

datatype observation_status = UNAVAILABLE | ACTIVE_BREAK | FAILED_BREAK | EXPIRED

record failed_breakout =
  fb_status :: observation_status
  fb_reason :: string
  fb_observed_at :: instant

definition observe_failed_breakout :: "breakout_evidence \<Rightarrow> bar \<Rightarrow> pydatetime \<Rightarrow> failed_breakout result" where
  "observe_failed_breakout e b at1 =
     rbind (utc at1) (\<lambda>now.
     if b_instrument_id b \<noteq> bv_instrument_id e \<or> b_source b \<noteq> bv_source e
     then Inl (ValueError ''invalidation bar identity mismatch'')
     else let outcome = (\<lambda>status r. Inr \<lparr>fb_status = status, fb_reason = r, fb_observed_at = now\<rparr>);
              rule = bv_invalidation e
       in case require_strategy_ready b now of
            Inl _ \<Rightarrow> outcome UNAVAILABLE ''BAR_NOT_READY''
          | Inr _ \<Rightarrow>
              if b_end b \<le> bi_trigger_bar_end rule then outcome UNAVAILABLE ''NOT_SUBSEQUENT_BAR''
              else if bi_expires_at rule < b_end b then outcome EXPIRED ''OBSERVATION_WINDOW_ENDED''
              else if (if bv_side e = LONG then fl (b_close b) \<le> bi_invalidation_level rule
                       else bi_invalidation_level rule \<le> fl (b_close b))
              then outcome FAILED_BREAK ''CLOSED_BACK_THROUGH_LEVEL''
              else outcome ACTIVE_BREAK ''LEVEL_HOLDS'')"

subsection \<open>What an intent rests on\<close>

lemma record_all_eq [code]:
  "record_all cs e = (map (\<lambda>(n, v, p, t). holds p v t) cs,
     e\<lparr>eb_checks := eb_checks e @ map (\<lambda>(n, v, p, t). \<lparr>te_name = n, te_value = Some v, te_operator = p,
        te_threshold = t, te_passed = holds p v t, te_missing_reason = None\<rparr>) cs\<rparr>)"
proof (induction cs arbitrary: e)
  case (Cons c cs)
  obtain n v p t where c: "c = (n, v, p, t)" by (cases c) auto
  show ?case unfolding c by (simp add: record_check_def Let_def Cons)
qed simp

lemma record_all_passed:
  assumes "record_all cs e = (bs, e1)" "list_all id bs" "list_all te_passed (eb_checks e)"
  shows "list_all te_passed (eb_checks e1)" "length (eb_checks e1) = length (eb_checks e) + length cs"
  using assms by (auto simp: record_all_eq list_all_iff split: prod.splits)

lemma crossed_level_kind: "crossed_level cfg item opn sd k = Some (kind, level) \<Longrightarrow> k = kind"
  by (auto simp: crossed_level_def split: if_splits sum.splits)

lemma hardest_level_crossed:
  assumes "hardest_level cfg item opn sd = Some (kind, level)"
  shows "crossed_level cfg item opn sd kind = Some (kind, level)"
proof -
  have "(kind, level) \<in> set (List.map_filter (crossed_level cfg item opn sd) [OPENING_RANGE, SWING])"
    using max_by_mem[OF assms[unfolded hardest_level_def]] .
  then obtain k where "crossed_level cfg item opn sd k = Some (kind, level)"
    by (auto simp: map_filter_def split: if_splits option.splits)
  then show ?thesis using crossed_level_kind by metis
qed

lemma measure_breakout_Some:
  assumes "measure_breakout item sd strength cfg opn closing (new_evidence s) = (Inr (components, Some i, rs), e1)"
  obtains kind level where "hardest_level cfg item opn sd = Some (kind, level)"
    "list_all te_passed (eb_checks e1)" "length (eb_checks e1) = 20"
proof -
  have e0: "list_all te_passed (eb_checks (new_evidence s))" "eb_checks (new_evidence s) = []"
    by (simp_all add: new_evidence_def)
  obtain atr where atr: "breakout_number (bo_current item) ''stock.atr'' = Inr atr"
    using assms by (auto simp: measure_breakout_def split: sum.splits)
  note m = assms[unfolded measure_breakout_def atr sum.case]
  have flat: "\<not> (atr \<le> 0 \<or> b_high (bo_bar item) = b_low (bo_bar item))" using m by (auto split: if_splits)
  obtain kind level where lv: "hardest_level cfg item opn sd = Some (kind, level)"
    using m flat by (auto split: option.splits)
  obtain v where v: "breakout_measures cfg item sd atr level = Inr v"
    using m flat lv by (auto split: sum.splits)
  obtain bs e2 where r: "record_all (breakout_checks cfg sd (fl (b_close (bo_bar item))) strength v)
      (new_evidence s) = (bs, e2)" by force
  have "list_all id bs \<and> e2 = e1" using m flat lv v r by (auto split: if_splits)
  then show thesis
    using that[OF lv] record_all_passed[OF r] e0 by (auto simp: breakout_checks_def)
qed

lemma breakout_candidate_id:
  "breakout_candidate H cfg u m state opn closing now digest sd (item, strength) = Inr (r, x) \<Longrightarrow>
     br_instrument_id r = sn_entity (mo_snapshot (bo_current item))"
  by (auto simp: breakout_candidate_def breakout_outcome_def record_check_def Let_def result_simps split: if_splits prod.splits option.splits)

lemma dict_of_token: "dict_of in_token ins t = Some i \<Longrightarrow> in_token i = t"
  by (auto dest: dict_of_Some)

lemma breakout_intent_fields:
  "breakout_intent H cfg u m state now digest sd item score cs e i rs = Inr x \<Longrightarrow>
     si_instrument_id x = in_token (the (dict_of in_token (im_instruments m) (sn_entity (mo_snapshot (bo_current item)))))
     \<and> si_side x = sd \<and> si_score x = Some score"
  by (auto simp: breakout_intent_def Let_def result_simps)

lemma breakout_candidate_Some:
  assumes "breakout_candidate H cfg u m state opn closing now digest sd (item, strength) = Inr (r, Some x)"
    and "dict_of in_token (im_instruments m) (sn_entity (mo_snapshot (bo_current item))) = Some ins"
  shows "si_instrument_id x = sn_entity (mo_snapshot (bo_current item)) \<and> si_side x = sd
    \<and> (sd = SHORT \<longrightarrow> short_allowed u m (si_instrument_id x))
    \<and> (\<exists>kind level. hardest_level cfg item opn sd = Some (kind, level))
    \<and> list_all te_passed (br_checks r) \<and> length (br_checks r) = 21
    \<and> (\<exists>score. si_score x = Some score \<and> bs_minimum_score cfg \<le> score)"
proof -
  let ?token = "sn_entity (mo_snapshot (bo_current item))"
  let ?st = "if sd = LONG then strength else fl (1 - strength)"
  note c = assms(1)[unfolded breakout_candidate_def prod.case Let_def]
  have short: "\<not> (sd = SHORT \<and> \<not> short_allowed u m ?token)" using c by (auto split: if_splits)
  obtain measured e where me: "measure_breakout item sd ?st cfg opn closing (new_evidence (mo_snapshot (bo_current item)))
      = (measured, e)" by force
  note c = c[unfolded if_not_P[OF short] me prod.case breakout_outcome_def Let_def]
  obtain components inv rs where ca: "caught measured = Inr (components, inv, rs)"
    using c by (auto simp: result_simps split: prod.splits)
  note c = c[unfolded ca rbind.simps prod.case]
  obtain i where i: "inv = Some i" using c by (cases inv) auto
  have "measured = Inr (components, Some i, rs)"
    using ca i by (auto simp: caught_def split: sum.splits py_error.splits)
  then obtain kind level where lv: "hardest_level cfg item opn sd = Some (kind, level)"
    and ok: "list_all te_passed (eb_checks e)" "length (eb_checks e) = 20"
    using measure_breakout_Some me by metis
  let ?score = "min 1 (float_sum (map bc_contribution components))"
  note c = c[unfolded i option.case]
  have pass: "bs_minimum_score cfg \<le> ?score" using c by (auto simp: record_check_def Let_def split: if_splits)
  obtain e1 where rc: "record_check ''candidate.score'' (Some ?score) Ge (bs_minimum_score cfg) None e = (True, e1)"
    and e1: "list_all te_passed (eb_checks e1)" "length (eb_checks e1) = 21"
    using ok pass by (auto simp: record_check_def Let_def)
  obtain intent where bi: "breakout_intent H cfg u m state now digest sd item ?score components e1 i rs = Inr intent"
    and "r = \<lparr>br_instrument_id = ?token, br_reasons = rs, br_checks = eb_checks e1\<rparr>" "x = intent"
    using c unfolding rc by (auto simp: result_simps)
  then show ?thesis using breakout_intent_fields[OF bi] dict_of_token[OF assms(2)] assms(2) short lv e1 pass by auto
qed

text \<open>Only the last branch of the evaluation has intents; what holds there.\<close>

lemma breakout_evaluate_intents:
  assumes "breakout_evaluate H son z cfg obs u m state at1 = Inr r" and "bt_intents r \<noteq> []"
  obtains now opn closing sector market sd where
    "utc at1 = Inr now" "bs_enabled cfg" "directional_side state = Some sd"
    "state_permits MOMENTUM_BREAKOUT now state"
    "session_bounds son z now = Inr (Some (opn, closing))" "opn \<le> now" "now < closing"
    "breakout_universe_bad z (bs_minimum_universe_size cfg) (breakout_ids (select_breakouts obs now)) u m now = Inr False"
    "breakout_inputs H z cfg u m state opn now (select_breakouts obs now) = Inr (sector, market)"
    "breakout_rank H cfg u m state opn closing now (bh_cross_section H (select_breakouts obs now)) sd
       (select_breakouts obs now) sector market = Inr r"
proof -
  have none: "r \<noteq> breakout_empty now d rs" for now d rs using assms(2) by (auto simp: breakout_empty_def)
  from assms(1) obtain now where now: "utc at1 = Inr now"
    by (auto simp: breakout_evaluate_def result_simps simp del: utc_Inr_iff)
  note ev = assms(1)[unfolded breakout_evaluate_def now rbind.simps Let_def]
  have en: "bs_enabled cfg" using ev none by (auto split: if_splits)
  obtain sd where sd: "directional_side state = Some sd"
    using ev en none by (cases "directional_side state") auto
  have pm: "state_permits MOMENTUM_BREAKOUT now state" using ev en sd none by (auto split: if_splits)
  obtain bounds where bo: "session_or_none son z now = Inr bounds"
    using ev en sd pm by (auto simp: result_simps)
  note ev = ev[unfolded bo rbind.simps]
  obtain opn closing where oc: "bounds = Some (opn, closing)" "opn \<le> now" "now < closing"
    using ev en sd pm assms(2) by (cases bounds) (auto simp: breakout_empty_def split: if_splits)
  have sb: "session_bounds son z now = Inr (Some (opn, closing))"
    using bo oc(1) by (auto simp: session_or_none_def split: sum.splits py_error.splits)
  obtain bad where ub: "breakout_universe_bad z (bs_minimum_universe_size cfg)
      (breakout_ids (select_breakouts obs now)) u m now = Inr bad"
    using ev en sd pm oc by (auto simp: result_simps)
  have nb: "\<not> bad" using ev en sd pm oc ub none by (auto split: if_splits)
  obtain sector market where inp:
    "breakout_inputs H z cfg u m state opn now (select_breakouts obs now) = Inr (sector, market)"
    using ev en sd pm oc ub nb none by (auto split: sum.splits)
  show thesis
    by (rule that[OF now en sd pm sb oc(2,3) _ inp]) (use ev en sd pm oc ub nb inp in auto)
qed

lemma check_item_ready:
  assumes "check_item H z cfg u m state opn now item = Inr ()"
  shows "require_strategy_ready (bo_bar item) now = Inr ()"
    "sn_timestamp (mo_snapshot (bo_reference item)) \<le> b_start (bo_bar item)"
    "\<exists>ins. dict_of in_token (im_instruments m) (sn_entity (mo_snapshot (bo_current item))) = Some ins
       \<and> \<not> instrument_ineligible ins (local_day z now)"
  using assms by (auto simp: check_item_def check_bar_def bar_not_causal_def Let_def result_simps split: option.splits)

lemma rmap_unit_all: "rmap f xs = Inr us \<Longrightarrow> x \<in> set xs \<Longrightarrow> f x = Inr (() :: unit)"
  by (induction xs arbitrary: us) (auto simp: result_simps)

text \<open>
  C32.  No breakout intent without a fresh break: the alpha is enabled, the state of that very instant permits
  its family and the direction, the session is open and the instrument belongs to the universe (for a short:
  is short-eligible) and is active; the intent rests on a cleared bar, received by then, that closes beyond a
  level which was known before the bar began and which the previous bar had not crossed; all twenty-one
  recorded checks passed, and the score reaches the configured minimum.
\<close>

theorem breakout_admission:
  assumes "breakout_evaluate H son z cfg obs u m state at1 = Inr r" and "i \<in> set (bt_intents r)"
  shows "bs_enabled cfg \<and> state_permits MOMENTUM_BREAKOUT (bt_timestamp r) state
    \<and> directional_side state = Some (si_side i)
    \<and> si_instrument_id i \<in> set (un_long_tokens u)
    \<and> (si_side i = SHORT \<longrightarrow> short_allowed u m (si_instrument_id i))
    \<and> (\<exists>opn closing item kind level.
         session_bounds son z (bt_timestamp r) = Inr (Some (opn, closing))
         \<and> opn \<le> bt_timestamp r \<and> bt_timestamp r < closing
         \<and> item \<in> set obs \<and> sn_entity (mo_snapshot (bo_current item)) = si_instrument_id i
         \<and> require_strategy_ready (bo_bar item) (bt_timestamp r) = Inr ()
         \<and> crossed_level cfg item opn (si_side i) kind = Some (kind, level)
         \<and> sn_timestamp (mo_snapshot (bo_reference item)) \<le> b_start (bo_bar item))
    \<and> (\<exists>rep\<in>set (bt_reports r). br_instrument_id rep = si_instrument_id i
         \<and> list_all te_passed (br_checks rep) \<and> length (br_checks rep) = 21)
    \<and> (\<exists>score. si_score i = Some score \<and> bs_minimum_score cfg \<le> score)"
proof -
  have ne: "bt_intents r \<noteq> []" using assms(2) by auto
  obtain now opn closing sector market sd where
    ev: "utc at1 = Inr now" "bs_enabled cfg" "directional_side state = Some sd"
      "state_permits MOMENTUM_BREAKOUT now state"
      "session_bounds son z now = Inr (Some (opn, closing))" "opn \<le> now" "now < closing"
      "breakout_universe_bad z (bs_minimum_universe_size cfg) (breakout_ids (select_breakouts obs now)) u m now = Inr False"
      "breakout_inputs H z cfg u m state opn now (select_breakouts obs now) = Inr (sector, market)"
      "breakout_rank H cfg u m state opn closing now (bh_cross_section H (select_breakouts obs now)) sd
         (select_breakouts obs now) sector market = Inr r"
    by (rule breakout_evaluate_intents[OF assms(1) ne])
  let ?sel = "select_breakouts obs now" and ?cand = "breakout_candidate H cfg u m state opn closing now
    (bh_cross_section H (select_breakouts obs now)) sd"
  obtain strengths outcomes where oc: "rmap ?cand (zip ?sel strengths) = Inr outcomes"
    and r: "bt_intents r = List.map_filter snd outcomes" "bt_reports r = map fst outcomes" "bt_timestamp r = now"
    using ev(10) by (auto simp: breakout_rank_def breakout_reports_def result_simps)
  obtain rep where rep: "(rep, Some i) \<in> set outcomes"
    using assms(2) unfolding r(1) by (auto simp: map_filter_def)
  obtain item strength where it: "(item, strength) \<in> set (zip ?sel strengths)" "?cand (item, strength) = Inr (rep, Some i)"
    using rmap_Inr_mem[OF oc rep] by auto
  then have sel: "item \<in> set ?sel" by (auto dest: set_zip_leftD)
  obtain us where "rmap (check_item H z cfg u m state opn now) ?sel = Inr us"
    using ev(9) by (auto simp: breakout_inputs_def result_simps)
  then have chk: "check_item H z cfg u m state opn now item = Inr ()" using sel by (rule rmap_unit_all)
  then obtain ins where ins: "dict_of in_token (im_instruments m) (sn_entity (mo_snapshot (bo_current item))) = Some ins"
    using check_item_ready(3) by blast
  note some = breakout_candidate_Some[OF it(2) ins]
  then obtain kind level where "hardest_level cfg item opn sd = Some (kind, level)" by blast
  then have lv: "crossed_level cfg item opn sd kind = Some (kind, level)" by (rule hardest_level_crossed)
  have ids: "sn_entity (mo_snapshot (bo_current item)) \<in> set (breakout_ids ?sel)" using sel by (auto simp: breakout_ids_def)
  have "\<not> cross_section_ambiguous (bs_minimum_universe_size cfg) (breakout_ids ?sel) u m"
    using ev(8) by (auto simp: breakout_universe_bad_def result_simps split: if_splits)
  then have long: "si_instrument_id i \<in> set (un_long_tokens u)"
    using ids some by (auto simp: cross_section_ambiguous_def Let_def)
  have "item \<in> set obs" using sel by (auto simp: select_breakouts_def)
  moreover have "rep \<in> set (bt_reports r)" unfolding r(2) using rep by force
  ultimately show ?thesis
    using ev some lv long check_item_ready(1,2)[OF chk] breakout_candidate_id[OF it(2)] r(3) by metis
qed

subsection \<open>Failed breaks\<close>

lemma ready_mono: "require_strategy_ready b t = Inr u \<Longrightarrow> t \<le> t' \<Longrightarrow> require_strategy_ready b t' = Inr u"
  by (auto simp: strategy_ready_iff)

text \<open>
  A break has failed exactly when a cleared bar that ends after the trigger bar and within the
  observation window closes back through the invalidation level, on the side of the intent; and a verdict
  other than unavailable is final for that bar: asking again later gives the same one.
\<close>

theorem failed_break_exact:
  assumes "observe_failed_breakout e b at1 = Inr f"
  shows "(fb_status f = FAILED_BREAK \<longleftrightarrow> require_strategy_ready b (fb_observed_at f) = Inr ()
       \<and> bi_trigger_bar_end (bv_invalidation e) < b_end b \<and> b_end b \<le> bi_expires_at (bv_invalidation e)
       \<and> (if bv_side e = LONG then fl (b_close b) \<le> bi_invalidation_level (bv_invalidation e)
          else bi_invalidation_level (bv_invalidation e) \<le> fl (b_close b)))
    \<and> (fb_status f \<noteq> UNAVAILABLE \<longrightarrow> (\<forall>at2 later. utc at2 = Inr later \<and> fb_observed_at f \<le> later \<longrightarrow>
         observe_failed_breakout e b at2 = Inr (f\<lparr>fb_observed_at := later\<rparr>)))"
proof -
  from assms obtain now where now: "utc at1 = Inr now"
    by (auto simp: observe_failed_breakout_def result_simps simp del: utc_Inr_iff)
  note o = assms[unfolded observe_failed_breakout_def now rbind.simps Let_def]
  have id: "\<not> (b_instrument_id b \<noteq> bv_instrument_id e \<or> b_source b \<noteq> bv_source e)" using o by (auto split: if_splits)
  note o = o[unfolded if_not_P[OF id]]
  show ?thesis
  proof (cases "require_strategy_ready b now")
    case (Inl err)
    then show ?thesis using o by auto
  next
    case (Inr u)
    have "observe_failed_breakout e b at2 = Inr (f\<lparr>fb_observed_at := later\<rparr>)"
      if "utc at2 = Inr later" "now \<le> later" for at2 later
      using o id Inr ready_mono[OF Inr that(2)]
      unfolding observe_failed_breakout_def that(1) rbind.simps Let_def
      by (auto split: if_splits)
    moreover have "fb_observed_at f = now" using o Inr by (auto split: if_splits)
    moreover have "fb_status f = FAILED_BREAK \<longleftrightarrow> bi_trigger_bar_end (bv_invalidation e) < b_end b
       \<and> b_end b \<le> bi_expires_at (bv_invalidation e)
       \<and> (if bv_side e = LONG then fl (b_close b) \<le> bi_invalidation_level (bv_invalidation e)
          else bi_invalidation_level (bv_invalidation e) \<le> fl (b_close b))"
      using o Inr by (auto split: if_splits)
    ultimately show ?thesis using Inr by (auto simp del: utc_Inr_iff)
  qed
qed

subsection \<open>A concrete break\<close>

definition example_breakout :: breakout_settings where
  "example_breakout =
     \<lparr>bs_version = [], bs_enabled = True,
      bs_weights = \<lparr>bw_relative_strength = 1 / 4, bw_breakout_quality = 1 / 4, bw_relative_volume = 1 / 8,
        bw_sector_confirmation = 1 / 8, bw_slope_quality = 1 / 8, bw_reward_risk_proxy = 1 / 16,
        bw_liquidity_quality = 1 / 16\<rparr>,
      bs_range_source = {OPENING_RANGE}, bs_minimum_universe_size = 2, bs_minimum_strength_percentile = 5 / 8,
      bs_minimum_residual_return = 1 / 256, bs_minimum_relative_volume = 1, bs_full_relative_volume = 4,
      bs_min_extension_atr = 1 / 8, bs_full_extension_atr = 1 / 4, bs_max_extension_atr = 1 / 2,
      bs_min_close_location = 1 / 2, bs_min_body_fraction = 1 / 4, bs_full_sector_distance = 1 / 64,
      bs_full_slope = 1 / 64, bs_invalidation_buffer_atr = 1 / 4, bs_observation_bars = 3,
      bs_reward_distance_atr = 2, bs_min_reward_risk_proxy = 1, bs_full_reward_risk_proxy = 4,
      bs_max_spread_bps = 16, bs_max_quote_age_seconds = 4, bs_min_adv = 100, bs_min_daily_turnover = 1000,
      bs_max_bar_lag_seconds = 30, bs_minimum_score = 1 / 2\<rparr>"

definition example_breakout_hashes :: breakout_hashes where
  "example_breakout_hashes =
     \<lparr>bh_cross_section = (\<lambda>_. ''x''), bh_item = (\<lambda>_. ''i''), bh_context = (\<lambda>_. ''k''), bh_version = (\<lambda>_. []),
      bh_settings = (\<lambda>_. ''v''), bh_universe = (\<lambda>_. ''u''), bh_master = (\<lambda>_. ''m''), bh_state = (\<lambda>_. ''s''),
      bh_evidence = (\<lambda>_. ''e''), bh_uuid5 = (\<lambda>x. x)\<rparr>"

definition example_part :: "string \<Rightarrow> instant \<Rightarrow> (string \<times> rat) list \<Rightarrow> momentum_observation" where
  "example_part token t vs =
     (let o1 = example_observation token t 0
      in o1\<lparr>mo_snapshot := (mo_snapshot o1)\<lparr>sn_values := map (\<lambda>(n, x). example_fv n x) vs\<rparr>\<rparr>)"

definition example_break_bar :: "string \<Rightarrow> instant \<Rightarrow> rat \<Rightarrow> bar" where
  "example_break_bar token t close =
     \<lparr>b_instrument_id = token, b_source = ''vendor'', b_received_at = t + minutes 5, b_quality_flags = {},
      b_feed_kind = EQUITY, b_schema_version = ''1'', b_start = t, b_end = t + minutes 5, b_interval_minutes = 5,
      b_open = 100, b_high = close, b_low = 100, b_close = close, b_volume = 10, b_complete = True\<rparr>"

text \<open>The bar from 10:25 to 10:30 closes above the opening range of 100.\<close>

definition example_break :: "string \<Rightarrow> rat \<Rightarrow> breakout_observation" where
  "example_break token residual =
     \<lparr>bo_current = example_part token example_time
        [(''liquidity.adv'', 1000), (''liquidity.average_daily_turnover'', 100000), (''liquidity.quote_age'', 1),
         (''liquidity.spread_bps'', 4), (''sector.vwap_distance'', 1 / 64), (''stock.atr'', 4),
         (''stock.ema_20_slope'', 1 / 64), (''stock.relative_market_30m'', residual),
         (''stock.relative_sector_30m'', residual), (''stock.relative_volume'', 2), (''stock.session_vwap'', 100)],
      bo_reference = example_part token (example_time - minutes 5) [(''stock.opening_range_high'', 100)],
      bo_bar = example_break_bar token (example_time - minutes 5) 101,
      bo_previous_bar = example_break_bar token (example_time - minutes 10) 100,
      bo_definition = \<lparr>fs_name = [], fs_formula_revision = ''1'', fs_opening_range_bars = 3, fs_atr_bars = 14,
        fs_statistics_bars = 20, fs_baseline_sessions = 5, fs_swing_confirmation_bars = 2,
        fs_quote_stale_seconds = 3, fs_spread_window_seconds = 60\<rparr>\<rparr>"

definition example_breaks :: "breakout_observation list" where
  "example_breaks = [example_break ''B'' (1 / 128), example_break ''A'' (1 / 64)]"

definition example_two_universe :: universe_snapshot where
  "example_two_universe = example_universe\<lparr>un_long_tokens := [''A'', ''B'']\<rparr>"

definition example_breakouts :: "breakout_result result" where
  "example_breakouts = breakout_evaluate example_breakout_hashes (session_on nse_2026) kolkata example_breakout
     example_breaks example_two_universe example_master (example_decision example_time) (Aware example_time 0)"

definition breakout_intent_ids :: "breakout_result result \<Rightarrow> string list option" where
  "breakout_intent_ids r = (case r of Inl _ \<Rightarrow> None | Inr r \<Rightarrow> Some (map si_instrument_id (bt_intents r)))"

lemma example_break_inputs:
  "breakout_inputs example_breakout_hashes kolkata example_breakout example_two_universe example_master
     (example_decision example_time) (example_time - minutes 75) example_time (select_breakouts example_breaks example_time)
   = Inr ([1 / 64, 1 / 128], [1 / 64, 1 / 128])"
  by code_simp

lemma example_break_ids:
  "breakout_intent_ids (breakout_rank example_breakout_hashes example_breakout example_two_universe example_master
     (example_decision example_time) (example_time - minutes 75) (example_time + minutes 300) example_time ''x'' LONG
     (select_breakouts example_breaks example_time) [1 / 64, 1 / 128] [1 / 64, 1 / 128]) = Some [''A'']"
  by code_simp

lemma breakout_evaluate_finish:
  assumes "utc at1 = Inr now" "bs_enabled cfg" "directional_side state = Some sd"
    and "state_permits MOMENTUM_BREAKOUT now state"
    and "session_or_none son z now = Inr (Some (opn, closing))" "opn \<le> now" "now < closing"
    and "breakout_universe_bad z (bs_minimum_universe_size cfg) (breakout_ids (select_breakouts obs now)) u m now = Inr False"
    and "breakout_inputs H z cfg u m state opn now (select_breakouts obs now) = Inr (sector, market)"
  shows "breakout_evaluate H son z cfg obs u m state at1
    = breakout_rank H cfg u m state opn closing now (bh_cross_section H (select_breakouts obs now)) sd
        (select_breakouts obs now) sector market"
  unfolding breakout_evaluate_def assms(1) rbind.simps Let_def using assms(2-9) by simp

lemma example_breakout_ids: "breakout_intent_ids example_breakouts = Some [''A'']"
proof -
  have "session_or_none (session_on nse_2026) kolkata example_time
      = Inr (Some (example_time - minutes 75, example_time + minutes 300))"
    by code_simp
  moreover have "breakout_universe_bad kolkata (bs_minimum_universe_size example_breakout)
      (breakout_ids (select_breakouts example_breaks example_time)) example_two_universe example_master example_time
      = Inr False"
    by code_simp
  moreover have "utc (Aware example_time 0) = Inr example_time" "bs_enabled example_breakout"
    "directional_side (example_decision example_time) = Some LONG"
    "state_permits MOMENTUM_BREAKOUT example_time (example_decision example_time)"
    "bh_cross_section example_breakout_hashes (select_breakouts example_breaks example_time) = ''x''"
    by (simp_all add: example_breakout_def example_decision_def directional_side_def state_permits_def
        example_breakout_hashes_def)
  ultimately show ?thesis
    using breakout_evaluate_finish[OF _ _ _ _ _ _ _ _ example_break_inputs] example_break_ids
    by (simp add: example_breakouts_def minutes_def)
qed

theorem breakout_admission_witness:
  "\<exists>r i. example_breakouts = Inr r \<and> bt_intents r = [i] \<and> si_instrument_id i = ''A''
     \<and> (\<exists>rep\<in>set (bt_reports r). br_instrument_id rep = ''A'' \<and> list_all te_passed (br_checks rep))"
proof -
  obtain r i where r: "example_breakouts = Inr r" "bt_intents r = [i]" "si_instrument_id i = ''A''"
    using example_breakout_ids by (auto simp: breakout_intent_ids_def split: sum.splits)
  then have "\<exists>rep\<in>set (bt_reports r). br_instrument_id rep = si_instrument_id i \<and> list_all te_passed (br_checks rep)"
    using breakout_admission[OF r(1)[unfolded example_breakouts_def], of i] by auto
  then show ?thesis using r by auto
qed

definition example_break_evidence :: breakout_evidence where
  "example_break_evidence =
     \<lparr>bv_timestamp = example_time, bv_instrument_id = ''A'', bv_symbol = ''A'', bv_source = ''vendor'', bv_side = LONG,
      bv_score = 1, bv_components = [], bv_checks = [],
      bv_invalidation = \<lparr>bi_range_kind = OPENING_RANGE, bi_broken_level = 100, bi_invalidation_level = 99,
        bi_level_known_at = example_time - minutes 5, bi_trigger_bar_end = example_time,
        bi_expires_at = example_time + minutes 15\<rparr>,
      bv_settings = example_breakout, bv_alpha_version_hash = [], bv_observation_hash = [], bv_cross_section_hash = [],
      bv_universe_hash = [], bv_instrument_master_hash = [], bv_state_hash = [], bv_code_commit = [],
      bv_config_hash = [], bv_data_snapshot = [], bv_feature_set_hash = []\<rparr>"

definition example_fall :: bar where
  "example_fall = (example_break_bar ''A'' example_time 98)\<lparr>b_high := 100, b_low := 98\<rparr>"

theorem failed_break_exact_witness:
  "observe_failed_breakout example_break_evidence example_fall (Aware (example_time + minutes 5) 0)
     = Inr \<lparr>fb_status = FAILED_BREAK, fb_reason = ''CLOSED_BACK_THROUGH_LEVEL'', fb_observed_at = example_time + minutes 5\<rparr>
   \<and> observe_failed_breakout example_break_evidence example_fall (Aware (example_time + minutes 60) 0)
     = Inr \<lparr>fb_status = FAILED_BREAK, fb_reason = ''CLOSED_BACK_THROUGH_LEVEL'', fb_observed_at = example_time + minutes 60\<rparr>"
proof -
  let ?f = "\<lparr>fb_status = FAILED_BREAK, fb_reason = ''CLOSED_BACK_THROUGH_LEVEL'', fb_observed_at = example_time + minutes 5\<rparr>"
  have o: "observe_failed_breakout example_break_evidence example_fall (Aware (example_time + minutes 5) 0) = Inr ?f"
    by code_simp
  moreover have "observe_failed_breakout example_break_evidence example_fall (Aware (example_time + minutes 60) 0)
      = Inr (?f\<lparr>fb_observed_at := example_time + minutes 60\<rparr>)"
    using failed_break_exact[OF o] by (simp add: minutes_def)
  ultimately show ?thesis by simp
qed

end
