(* ===== verification/Reversion.thy ===== *)
theory Reversion
  imports Feature_Series
begin

text \<open>
  \<open>features/vwap_reversion.py\<close>: the causal session features for exhaustion and reversal.  \<open>bars_hash\<close> is the
  content hash of the bars used.
\<close>

record reversion_version =
  rv_scale_bars :: nat

definition reversion_version_ok :: "reversion_version \<Rightarrow> bool" where
  "reversion_version_ok v \<longleftrightarrow> 3 \<le> rv_scale_bars v"

record reversion_features =
  rf_timestamp :: instant
  rf_instrument_id :: string
  rf_source :: string
  rf_session_vwap :: rat
  rf_volatility_scale :: rat
  rf_stretch :: rat
  rf_impulse :: rat
  rf_decelerated_impulse :: rat
  rf_reversal :: rat
  rf_body :: rat
  rf_close_location :: rat
  rf_price :: rat
  rf_definition :: reversion_version
  rf_input_hash :: string

definition mk_reversion :: "reversion_features \<Rightarrow> reversion_features result" where
  "mk_reversion f =
     (if 0 < rf_volatility_scale f \<and> 0 \<le> rf_close_location f \<and> rf_close_location f \<le> 1 then Inr f
      else Inl (ValueError ''validation error for ReversionFeatures''))"

definition reversion_bars :: "bar list \<Rightarrow> instant \<Rightarrow> instant \<Rightarrow> bar list" where
  "reversion_bars observations t opn =
     sort_key b_start (filter (\<lambda>b. opn \<le> b_start b \<and> b_end b \<le> t \<and> b_received_at b \<le> t) observations)"

text \<open>The loop over the bars: the first bar that is not ready or out of place raises.\<close>

fun check_history :: "instant \<Rightarrow> instant \<Rightarrow> bar \<Rightarrow> nat \<Rightarrow> bar list \<Rightarrow> unit result" where
  "check_history t opn first i [] = Inr ()"
| "check_history t opn first i (b # bs) =
     rbind (require_strategy_ready b t) (\<lambda>_.
       if b_start b \<noteq> opn + minutes (5 * int i) \<or> b_instrument_id b \<noteq> b_instrument_id first
          \<or> b_source b \<noteq> b_source first \<or> b_feed_kind b \<noteq> EQUITY
       then Inl (ValueError ''SESSION_HISTORY_AMBIGUOUS'')
       else check_history t opn first (i + 1) bs)"

text \<open>The mean true range of the \<open>n\<close> bars before the trigger bar.\<close>

definition range_scale :: "nat \<Rightarrow> bar list \<Rightarrow> rat" where
  "range_scale n bars =
     fmean (true_ranges (butlast (take_last (n + 1) bars))
       (map (\<lambda>b. fl (b_close b)) (butlast (butlast (take_last (n + 2) bars)))))"

definition session_vwap :: "bar list \<Rightarrow> rat" where
  "session_vwap bars =
     fl (float_sum (map (\<lambda>b. fl (typical b * fl (b_volume b))) bars) / float_sum (map (\<lambda>b. fl (b_volume b)) bars))"

definition reversion_features ::
  "(bar list \<Rightarrow> string) \<Rightarrow> bar list \<Rightarrow> instant \<Rightarrow> instant \<Rightarrow> reversion_version \<Rightarrow> reversion_features result" where
  "reversion_features bars_hash observations t opn v =
     (let bars = reversion_bars observations t opn; n = length bars in
      if n < rv_scale_bars v + 2 then Inl (ValueError ''FEATURE_WARMUP'')
      else rbind (check_history t opn (hd bars) 0 bars) (\<lambda>_.
        let closes = map (\<lambda>b. fl (b_close b)) bars; c = (\<lambda>k. closes ! (n - k));
            scale = range_scale (rv_scale_bars v) bars;
            vwap = session_vwap bars; current = last bars; range = bar_range current
        in if scale \<le> 0 then Inl (ValueError ''DEGENERATE_VOLATILITY'')
           else if range \<le> 0 then Inl (ValueError ''NO_REVERSAL_RANGE'')
           else mk_reversion
             \<lparr>rf_timestamp = b_end current, rf_instrument_id = b_instrument_id current, rf_source = b_source current,
              rf_session_vwap = vwap, rf_volatility_scale = scale,
              rf_stretch = fl (fl (c 1 - vwap) / scale),
              rf_impulse = fl (fl (c 3 - c 4) / scale),
              rf_decelerated_impulse = fl (fl (c 2 - c 3) / scale),
              rf_reversal = fl (fl (c 1 - c 2) / scale),
              rf_body = fl (fl (dec (b_close current - b_open current)) / scale),
              rf_close_location = fl (fl (dec (b_close current - b_low current)) / range),
              rf_price = c 1, rf_definition = v, rf_input_hash = bars_hash bars\<rparr>))"

subsection \<open>Properties\<close>

lemma check_history_Inr:
  assumes "check_history t opn first i bs = Inr u"
  shows "map b_start bs = map (\<lambda>k. opn + minutes (5 * int k)) [i..<i + length bs]
    \<and> (\<forall>b\<in>set bs. require_strategy_ready b t = Inr () \<and> b_feed_kind b = EQUITY
         \<and> b_instrument_id b = b_instrument_id first \<and> b_source b = b_source first)"
  using assms
proof (induction bs arbitrary: i)
  case (Cons b bs)
  then have step: "require_strategy_ready b t = Inr ()" "b_start b = opn + minutes (5 * int i)"
    "b_instrument_id b = b_instrument_id first" "b_source b = b_source first" "b_feed_kind b = EQUITY"
    "check_history t opn first (i + 1) bs = Inr u"
    by (auto simp: result_simps split: if_splits)
  have "[i..<i + length (b # bs)] = i # [i + 1..<i + 1 + length bs]" by (simp add: upt_rec)
  then show ?case using Cons.IH[OF step(6)] step by auto
qed simp

lemma check_history_Inl:
  "check_history t opn first i bs = Inl e \<Longrightarrow>
     e \<in> ValueError ` {''bar is not complete, causal, quality-cleared canonical data'', ''SESSION_HISTORY_AMBIGUOUS''}"
  by (induction bs arbitrary: i)
    (auto simp: result_simps require_strategy_ready_def split: if_splits)

lemma unit_quotient:
  assumes "x \<le> y" "0 \<le> x" "0 < fl (dec y)"
  shows "0 \<le> fl (fl (dec x) / fl (dec y)) \<and> fl (fl (dec x) / fl (dec y)) \<le> 1"
proof -
  have "fl (dec x) \<le> fl (dec y)" using assms(1) by (intro flr.mono dcr.mono)
  moreover have "0 \<le> fl (dec x)" using assms(2) by (simp add: flr.nonneg_iff dcr.nonneg_iff)
  ultimately show ?thesis using assms(3) by (auto intro!: flr.nonneg flr.le_one simp: divide_le_eq)
qed

text \<open>
  The reversion features are causal and well formed: a result rests on the whole session so far, one
  cleared bar of the instrument for each five-minute slot from the opening to the trigger bar, all of
  them finished and received by the time asked for; its scale is positive and its close location a
  fraction; and otherwise the reason is one of the documented ones, never a failed validation.
\<close>

theorem reversion_sound:
  "case reversion_features H observations t opn v of
     Inr f \<Rightarrow> (\<exists>bars. rf_input_hash f = H bars \<and> rv_scale_bars v + 2 \<le> length bars
       \<and> map b_start bars = map (\<lambda>k. opn + minutes (5 * int k)) [0..<length bars]
       \<and> set bars \<subseteq> {b \<in> set observations. available_at b \<le> t \<and> b_quality_flags b = {}
            \<and> b_instrument_id b = rf_instrument_id f \<and> b_source b = rf_source f}
       \<and> rf_timestamp f = b_end (last bars) \<and> rf_timestamp f \<le> t)
       \<and> 0 < rf_volatility_scale f \<and> 0 \<le> rf_close_location f \<and> rf_close_location f \<le> 1
   | Inl e \<Rightarrow> e \<in> ValueError ` {''FEATURE_WARMUP'', ''bar is not complete, causal, quality-cleared canonical data'',
       ''SESSION_HISTORY_AMBIGUOUS'', ''DEGENERATE_VOLATILITY'', ''NO_REVERSAL_RANGE''}"
proof -
  define bars where "bars = reversion_bars observations t opn"
  have mem: "set bars \<subseteq> set observations" by (auto simp: bars_def reversion_bars_def)
  show ?thesis
  proof (cases "length bars < rv_scale_bars v + 2")
    case True
    then show ?thesis by (simp add: reversion_features_def Let_def bars_def[symmetric])
  next
    case len: False
    show ?thesis
    proof (cases "check_history t opn (hd bars) 0 bars")
      case (Inl e)
      then show ?thesis using check_history_Inl[OF Inl] len
        by (auto simp: reversion_features_def Let_def bars_def[symmetric])
    next
      case (Inr u)
      note h = check_history_Inr[OF Inr, simplified]
      have ne: "bars \<noteq> []" using len by auto
      then have last: "last bars \<in> set bars" by simp
      have ready: "require_strategy_ready (last bars) t = Inr ()" using h last by blast
      let ?scale = "range_scale (rv_scale_bars v) bars" and ?b = "last bars"
      have px: "b_low ?b \<le> b_close ?b" "b_close ?b \<le> b_high ?b"
        using ready by (auto simp: strategy_ready_iff price_flags_empty_iff)
      show ?thesis
      proof (cases "?scale \<le> 0 \<or> bar_range ?b \<le> 0")
        case True
        then show ?thesis using len Inr by (auto simp: reversion_features_def Let_def bars_def[symmetric])
      next
        case pos: False
        then have "0 \<le> fl (fl (dec (b_close ?b - b_low ?b)) / bar_range ?b)
            \<and> fl (fl (dec (b_close ?b - b_low ?b)) / bar_range ?b) \<le> 1"
          unfolding bar_range_def using px by (intro unit_quotient) auto
        then obtain f where f: "reversion_features H observations t opn v = Inr f"
          "rf_input_hash f = H bars" "rf_timestamp f = b_end ?b" "rf_instrument_id f = b_instrument_id ?b"
          "rf_source f = b_source ?b" "rf_volatility_scale f = ?scale" "0 \<le> rf_close_location f" "rf_close_location f \<le> 1"
          using pos len Inr by (simp add: reversion_features_def Let_def bars_def[symmetric] mk_reversion_def)
        have "set bars \<subseteq> {b \<in> set observations. available_at b \<le> t \<and> b_quality_flags b = {}
            \<and> b_instrument_id b = rf_instrument_id f \<and> b_source b = rf_source f}"
          using h mem last f(4,5) by (auto simp: strategy_ready_iff available_at_def)
        moreover have "b_end ?b \<le> t" using ready by (simp add: strategy_ready_iff)
        ultimately show ?thesis using f h pos len by auto
      qed
    qed
  qed
qed

end
