(* ===== verification/Vwap.thy ===== *)
theory Vwap
  imports Breakout Reversion Lifecycle
begin

text \<open>
  \<open>alphas/vwap_models.py\<close> and \<open>alphas/vwap_mean_reversion.py\<close>: intents against an extreme distance from the
  session VWAP, after the move slows down and a closed bar reverses, and the observation of their exits.  Content
  hashes, \<open>uuid5\<close> and the dump of an evidence are parameters.
\<close>

subsection \<open>Settings and records\<close>

record vwap_settings =
  vs_enabled :: bool
  vs_research_regime_override :: bool
  vs_features :: reversion_version
  vs_min_stretch :: rat
  vs_max_stretch :: rat
  vs_min_impulse :: rat
  vs_max_deceleration_ratio :: rat
  vs_min_reversal :: rat
  vs_min_body :: rat
  vs_min_close_location :: rat
  vs_start_minutes :: int
  vs_end_minutes :: int
  vs_max_hold_minutes :: int
  vs_convergence_fraction :: rat
  vs_adverse_scale :: rat
  vs_max_spread_bps :: rat
  vs_max_quote_age_seconds :: rat
  vs_max_bar_lag_seconds :: rat
  vs_liquidity_max_age_seconds :: rat
  vs_min_adv :: rat
  vs_min_turnover :: rat

definition vwap_settings_ok :: "vwap_settings \<Rightarrow> bool" where
  "vwap_settings_ok s \<longleftrightarrow> reversion_version_ok (vs_features s)
     \<and> list_all (\<lambda>x. 0 < x) [vs_min_stretch s, vs_max_stretch s, vs_min_impulse s, vs_max_deceleration_ratio s,
         vs_min_reversal s, vs_min_body s, vs_convergence_fraction s, vs_adverse_scale s, vs_max_spread_bps s,
         vs_max_quote_age_seconds s, vs_liquidity_max_age_seconds s, vs_min_adv s, vs_min_turnover s]
     \<and> vs_max_deceleration_ratio s < 1 \<and> 1 / 2 \<le> vs_min_close_location s \<and> vs_min_close_location s \<le> 1
     \<and> 0 \<le> vs_start_minutes s \<and> 1 \<le> vs_end_minutes s \<and> 1 \<le> vs_max_hold_minutes s
     \<and> vs_convergence_fraction s \<le> 1 \<and> 0 \<le> vs_max_bar_lag_seconds s
     \<and> vs_min_stretch s < vs_max_stretch s \<and> vs_start_minutes s < vs_end_minutes s"

record vwap_liquidity =
  vl_quote :: quote
  vl_adv :: rat
  vl_daily_turnover :: rat
  vl_known_at :: instant
  vl_snapshot_id :: string

definition vwap_liquidity_ok :: "vwap_liquidity \<Rightarrow> bool" where
  "vwap_liquidity_ok l \<longleftrightarrow> 0 < vl_adv l \<and> 0 < vl_daily_turnover l \<and> vl_snapshot_id l \<noteq> []"

record vwap_exits =
  vx_convergence_price :: rat
  vx_adverse_price :: rat
  vx_time_stop :: instant
  vx_entry_state :: market_state

definition mk_exits :: "vwap_exits \<Rightarrow> vwap_exits result" where
  "mk_exits x =
     (if 0 < vx_convergence_price x \<and> 0 < vx_adverse_price x then Inr x
      else Inl (ValueError ''validation error for VwapExitMetadata''))"

record vwap_evidence =
  ve_timestamp :: instant
  ve_instrument_id :: string
  ve_symbol :: string
  ve_source :: string
  ve_side :: side
  ve_score :: rat
  ve_features :: reversion_features
  ve_exits :: vwap_exits
  ve_settings :: vwap_settings
  ve_alpha_version_hash :: string
  ve_feature_set_hash :: string
  ve_universe_hash :: string
  ve_instrument_master_hash :: string
  ve_state_hash :: string
  ve_liquidity_hash :: string
  ve_code_commit :: string
  ve_config_hash :: string
  ve_data_snapshot :: string

record vwap_hashes =
  vh_bars :: "bar list \<Rightarrow> string"
  vh_version :: "reversion_version \<Rightarrow> string"
  vh_settings :: "vwap_settings \<Rightarrow> string"
  vh_universe :: "universe_snapshot \<Rightarrow> string"
  vh_master :: "instrument_master \<Rightarrow> string"
  vh_state :: "state_decision \<Rightarrow> string"
  vh_liquidity :: "vwap_liquidity \<Rightarrow> string"
  vh_evidence :: "vwap_evidence \<Rightarrow> string"
  vh_uuid5 :: "string \<Rightarrow> uuid"

definition mk_vwap_evidence :: "vwap_hashes \<Rightarrow> vwap_evidence \<Rightarrow> vwap_evidence result" where
  "mk_vwap_evidence H e =
     (let f = ve_features e in
      if \<not> unit_fraction (ve_score e) then Inl (ValueError ''validation error for VwapSignalEvidence'')
      else if ve_alpha_version_hash e \<noteq> vh_settings H (ve_settings e)
         \<or> ve_feature_set_hash e \<noteq> vh_version H (rf_definition f)
         \<or> rf_definition f \<noteq> vs_features (ve_settings e)
         \<or> ve_instrument_id e \<noteq> rf_instrument_id f \<or> ve_source e \<noteq> rf_source f
         \<or> ve_timestamp e < rf_timestamp f \<or> vx_time_stop (ve_exits e) \<le> ve_timestamp e
      then Inl (ValueError ''VWAP evidence identity/version/timing mismatch'')
      else Inr e)"

definition vwap_detail :: "vwap_hashes \<Rightarrow> vwap_evidence \<Rightarrow> signal_evidence" where
  "vwap_detail H e =
     \<lparr>ev_timestamp = ve_timestamp e, ev_alpha_id = ''vwap_mean_reversion'', ev_side = ve_side e,
      ev_instrument_id = ve_instrument_id e, ev_symbol = ve_symbol e, ev_score = ve_score e,
      ev_code_commit = ve_code_commit e, ev_config_hash = ve_config_hash e, ev_data_snapshot = ve_data_snapshot e,
      ev_universe_hash = ve_universe_hash e, ev_instrument_master_hash = ve_instrument_master_hash e,
      ev_state_hash = ve_state_hash e, ev_feature_set_hash = ve_feature_set_hash e, ev_rest = vh_evidence H e\<rparr>"

record vwap_result =
  vr_timestamp :: instant
  vr_intent :: "signal_intent option"
  vr_reasons :: "string list"

subsection \<open>Guards\<close>

definition health_veto :: "instant \<Rightarrow> state_decision \<Rightarrow> bool" where
  "health_veto now state \<longleftrightarrow>
     (let h = se_health (sd_evidence state); age = total_seconds (now - rh_observed_at h) in
      sd_timestamp state \<noteq> now \<or> sd_gross_risk_multiplier state \<le> 0 \<or> sd_state state \<in> {RISK_OFF, OPEN_SHOCK}
      \<or> rh_blocks_new_entries h \<or> rh_system_status h \<noteq> HEALTHY \<or> rh_risk_status h \<noteq> HEALTHY
      \<or> \<not> (0 \<le> age \<and> age \<le> of_int (rs_health_max_age_seconds (sd_settings state))))"

definition regime_override :: "vwap_settings \<Rightarrow> trading_mode \<Rightarrow> bool" where
  "regime_override cfg mode \<longleftrightarrow> vs_research_regime_override cfg \<and> mode \<in> {RESEARCH, BACKTEST}"

definition regime_denied :: "vwap_settings \<Rightarrow> trading_mode \<Rightarrow> state_decision \<Rightarrow> bool" where
  "regime_denied cfg mode state \<longleftrightarrow> \<not> regime_override cfg mode
     \<and> (sd_state state \<noteq> CHOP \<or> VWAP_MEAN_REVERSION \<notin> set (sd_allowed_alpha_families state))"

definition time_of_session :: "session \<Rightarrow> day \<Rightarrow> (session_times \<Rightarrow> time_of_day) \<Rightarrow> instant" where
  "time_of_session se d t = combine (se_timezone se) d (t (se_times se))"

definition entry_window_open :: "vwap_settings \<Rightarrow> instant \<Rightarrow> instant \<Rightarrow> instant \<Rightarrow> instant \<Rightarrow> instant \<Rightarrow> bool" where
  "entry_window_open cfg opn closing last_entry flatten now \<longleftrightarrow>
     opn + minutes (vs_start_minutes cfg) \<le> now
     \<and> now < min (min closing last_entry) (min flatten (opn + minutes (vs_end_minutes cfg)))"

text \<open>The features and the flattening time, or the reason to reject; other exceptions escape.\<close>

definition vwap_inputs ::
  "vwap_hashes \<Rightarrow> (day \<Rightarrow> session option result) \<Rightarrow> zone \<Rightarrow> vwap_settings \<Rightarrow> bar list \<Rightarrow> instant
     \<Rightarrow> (reversion_features \<times> instant) result" where
  "vwap_inputs H son z cfg bars now =
     rbind (session_bounds son z now) (\<lambda>bounds.
     case bounds of
       None \<Rightarrow> Inl (ValueError ''SESSION_UNAVAILABLE'')
     | Some (opn, closing) \<Rightarrow>
         let d = local_day z now in
         rbind (son d) (\<lambda>s. case s of
           None \<Rightarrow> Inl (ValueError ''SESSION_UNAVAILABLE'')
         | Some se \<Rightarrow>
             let flatten = time_of_session se d flatten_start_time in
             if \<not> entry_window_open cfg opn closing (time_of_session se d final_entry_time) flatten now
             then Inl (ValueError ''ENTRY_WINDOW_BLOCKED'')
             else rbind (reversion_features (vh_bars H) bars now opn (vs_features cfg)) (\<lambda>f. Inr (f, flatten))))"

text \<open>Comparing a naive with an aware datetime raises \<open>TypeError\<close>.\<close>

definition later_than :: "pydatetime \<Rightarrow> instant \<Rightarrow> bool result" where
  "later_than d now =
     (if aware d then Inr (now < instant_of d)
      else Inl (TypeError ''can't compare offset-naive and offset-aware datetimes''))"

definition instrument_unavailable :: "universe_snapshot \<Rightarrow> instrument_master \<Rightarrow> day \<Rightarrow> string \<Rightarrow> bool" where
  "instrument_unavailable u m d token \<longleftrightarrow>
     un_instrument_snapshot_id u \<noteq> im_snapshot_id m
     \<or> count_distinct (map in_token (im_instruments m)) \<noteq> length (im_instruments m)
     \<or> count_distinct (un_long_tokens u) \<noteq> length (un_long_tokens u)
     \<or> \<not> set (un_short_tokens u) \<subseteq> set (un_long_tokens u)
     \<or> (case dict_of in_token (im_instruments m) token of None \<Rightarrow> True
        | Some i \<Rightarrow> in_token i \<notin> set (un_long_tokens u) \<or> instrument_ineligible i d)"

definition vwap_ineligible ::
  "zone \<Rightarrow> universe_snapshot \<Rightarrow> instrument_master \<Rightarrow> instant \<Rightarrow> string \<Rightarrow> bool result" where
  "vwap_ineligible z u m now token =
     (let d = local_day z now in
      if un_as_of u \<noteq> d \<or> im_as_of m \<noteq> d then Inr True
      else rbind (later_than (un_generated_at u) now) (\<lambda>a.
        if a then Inr True
        else rbind (later_than (im_generated_at m) now) (\<lambda>b. Inr (b \<or> instrument_unavailable u m d token))))"

definition quote_spread :: "quote \<Rightarrow> rat" where
  "quote_spread q = fl (dec (dec (dec (q_ask q - q_bid q) / dec (dec (q_ask q + q_bid q) / 2)) * 10000))"

definition liquidity_rejected :: "vwap_settings \<Rightarrow> vwap_liquidity \<Rightarrow> reversion_features \<Rightarrow> instant \<Rightarrow> bool" where
  "liquidity_rejected cfg l f now \<longleftrightarrow>
     (let q = vl_quote l; age = total_seconds (now - q_timestamp q); known = total_seconds (now - vl_known_at l) in
      q_instrument_id q \<noteq> rf_instrument_id f \<or> q_source q \<noteq> rf_source f \<or> q_quality_flags q \<noteq> {}
      \<or> \<not> (0 < q_bid q \<and> q_bid q \<le> q_ask q) \<or> q_last q \<le> 0
      \<or> \<not> (q_timestamp q \<le> q_received_at q \<and> q_received_at q \<le> now)
      \<or> \<not> (0 \<le> age \<and> age \<le> vs_max_quote_age_seconds cfg)
      \<or> \<not> (0 \<le> known \<and> known \<le> vs_liquidity_max_age_seconds cfg)
      \<or> vl_adv l < vs_min_adv cfg \<or> vl_daily_turnover l < vs_min_turnover cfg
      \<or> vs_max_spread_bps cfg < quote_spread q)"

subsection \<open>The setup\<close>

definition reversion_side :: "reversion_features \<Rightarrow> side" where
  "reversion_side f = (if rf_stretch f < 0 then LONG else SHORT)"

definition impulse_decelerates :: "vwap_settings \<Rightarrow> reversion_features \<Rightarrow> side \<Rightarrow> bool" where
  "impulse_decelerates cfg f sd \<longleftrightarrow>
     (let impulse = - sign_of sd * rf_impulse f; slower = - sign_of sd * rf_decelerated_impulse f in
      vs_min_impulse cfg \<le> impulse \<and> 0 \<le> slower \<and> slower \<le> fl (vs_max_deceleration_ratio cfg * impulse))"

definition reversal_confirmed :: "vwap_settings \<Rightarrow> reversion_features \<Rightarrow> side \<Rightarrow> bool" where
  "reversal_confirmed cfg f sd \<longleftrightarrow>
     vs_min_reversal cfg \<le> sign_of sd * rf_reversal f \<and> vs_min_body cfg \<le> sign_of sd * rf_body f
     \<and> vs_min_close_location cfg \<le> (if sd = LONG then rf_close_location f else fl (1 - rf_close_location f))"

definition adverse_of :: "vwap_settings \<Rightarrow> reversion_features \<Rightarrow> side \<Rightarrow> rat" where
  "adverse_of cfg f sd = fl (rf_price f - fl (sign_of sd * vs_adverse_scale cfg * rf_volatility_scale f))"

definition convergence_of :: "vwap_settings \<Rightarrow> reversion_features \<Rightarrow> rat" where
  "convergence_of cfg f =
     fl (rf_price f + fl (vs_convergence_fraction cfg * fl (rf_session_vwap f - rf_price f)))"

text \<open>The first reason not to enter, in the order of the code.\<close>

definition setup_rejection ::
  "vwap_settings \<Rightarrow> universe_snapshot \<Rightarrow> instrument_master \<Rightarrow> vwap_liquidity \<Rightarrow> reversion_features \<Rightarrow> instant
     \<Rightarrow> string option" where
  "setup_rejection cfg u m l f now =
     (let sd = reversion_side f in
      if liquidity_rejected cfg l f now then Some ''LIQUIDITY_REJECTED''
      else if \<not> (vs_min_stretch cfg \<le> \<bar>rf_stretch f\<bar> \<and> \<bar>rf_stretch f\<bar> < vs_max_stretch cfg)
      then Some ''STRETCH_OUTSIDE_LIMITS''
      else if sd = SHORT \<and> \<not> short_allowed u m (rf_instrument_id f) then Some ''SHORT_INELIGIBLE''
      else if \<not> impulse_decelerates cfg f sd then Some ''IMPULSE_NOT_DECELERATING''
      else if \<not> reversal_confirmed cfg f sd then Some ''REVERSAL_NOT_CONFIRMED''
      else if adverse_of cfg f sd \<le> 0 then Some ''INVALID_ADVERSE_REFERENCE''
      else None)"

definition vwap_reasons :: "bool \<Rightarrow> string list" where
  "vwap_reasons overridden =
     [''EXTREME_VWAP_STRETCH'', ''IMPULSE_DECELERATING'', ''CLOSED_BAR_REVERSAL'']
     @ (if overridden then [''RESEARCH_REGIME_OVERRIDE''] else [])"

definition vwap_intent ::
  "vwap_hashes \<Rightarrow> vwap_settings \<Rightarrow> universe_snapshot \<Rightarrow> instrument_master \<Rightarrow> state_decision \<Rightarrow> vwap_liquidity
     \<Rightarrow> reversion_features \<Rightarrow> instant \<Rightarrow> instant \<Rightarrow> bool \<Rightarrow> signal_intent result" where
  "vwap_intent H cfg u m state l f flatten now overridden =
     (let sd = reversion_side f; i = the (dict_of in_token (im_instruments m) (rf_instrument_id f));
          score = min 1 (fl (\<bar>rf_stretch f\<bar> / vs_max_stretch cfg)) in
      rbind (mk_exits
        \<lparr>vx_convergence_price = convergence_of cfg f, vx_adverse_price = adverse_of cfg f sd,
         vx_time_stop = min (now + minutes (vs_max_hold_minutes cfg)) flatten, vx_entry_state = sd_state state\<rparr>) (\<lambda>exits.
      rbind (mk_vwap_evidence H
        \<lparr>ve_timestamp = now, ve_instrument_id = in_token i, ve_symbol = in_symbol i, ve_source = rf_source f,
         ve_side = sd, ve_score = score, ve_features = f, ve_exits = exits, ve_settings = cfg,
         ve_alpha_version_hash = vh_settings H cfg, ve_feature_set_hash = vh_version H (vs_features cfg),
         ve_universe_hash = vh_universe H u, ve_instrument_master_hash = vh_master H m,
         ve_state_hash = vh_state H state, ve_liquidity_hash = vh_liquidity H l,
         ve_code_commit = sd_code_commit state, ve_config_hash = sd_config_hash state,
         ve_data_snapshot = sd_data_snapshot state\<rparr>) (\<lambda>e.
      Inr \<lparr>si_signal_id = vh_uuid5 H (''godzilla:vwap_mean_reversion:'' @ in_token i @ '':'' @ iso_instant (rf_timestamp f)),
         si_instrument_id = in_token i, si_alpha_id = ''vwap_mean_reversion'', si_side = sd,
         si_reasons = vwap_reasons overridden, si_score = Some score, si_evidence = Some (vwap_detail H e), si_rest = []\<rparr>)))"

definition vwap_reject :: "instant \<Rightarrow> string \<Rightarrow> vwap_result" where
  "vwap_reject now r = \<lparr>vr_timestamp = now, vr_intent = None, vr_reasons = [r]\<rparr>"

definition vwap_enter ::
  "vwap_hashes \<Rightarrow> zone \<Rightarrow> vwap_settings \<Rightarrow> vwap_liquidity \<Rightarrow> universe_snapshot \<Rightarrow> instrument_master
     \<Rightarrow> state_decision \<Rightarrow> instant \<Rightarrow> bool \<Rightarrow> reversion_features \<times> instant \<Rightarrow> vwap_result result" where
  "vwap_enter H z cfg l u m state now overridden p =
     (case p of (f, flatten) \<Rightarrow>
      let lag = total_seconds (now - rf_timestamp f) in
      if \<not> (0 \<le> lag \<and> lag \<le> vs_max_bar_lag_seconds cfg) then Inr (vwap_reject now ''STALE_BAR'')
      else rbind (vwap_ineligible z u m now (rf_instrument_id f)) (\<lambda>bad.
        if bad then Inr (vwap_reject now ''UNIVERSE_OR_INSTRUMENT_INELIGIBLE'')
        else (case setup_rejection cfg u m l f now of
            Some r \<Rightarrow> Inr (vwap_reject now r)
          | None \<Rightarrow> rbind (vwap_intent H cfg u m state l f flatten now overridden) (\<lambda>i.
              Inr \<lparr>vr_timestamp = now, vr_intent = Some i, vr_reasons = vwap_reasons overridden\<rparr>))))"

definition vwap_evaluate ::
  "vwap_hashes \<Rightarrow> (day \<Rightarrow> session option result) \<Rightarrow> zone \<Rightarrow> vwap_settings \<Rightarrow> bar list \<Rightarrow> vwap_liquidity
     \<Rightarrow> universe_snapshot \<Rightarrow> instrument_master \<Rightarrow> state_decision \<Rightarrow> pydatetime \<Rightarrow> trading_mode \<Rightarrow> vwap_result result" where
  "vwap_evaluate H son z cfg bars l u m state at1 mode =
     rbind (utc at1) (\<lambda>now.
     if mode = LIVE then Inr (vwap_reject now ''LIVE_PROMOTION_REQUIRED'')
     else if \<not> vs_enabled cfg then Inr (vwap_reject now ''ALPHA_DISABLED'')
     else if health_veto now state then Inr (vwap_reject now ''HEALTH_OR_RISK_VETO'')
     else if regime_denied cfg mode state then Inr (vwap_reject now ''REGIME_PERMISSION_DENIED'')
     else (case vwap_inputs H son z cfg bars now of
         Inl (ValueError t) \<Rightarrow> Inr (vwap_reject now t)
       | Inl (CalendarCoverageError t) \<Rightarrow> Inr (vwap_reject now t)
       | Inl e \<Rightarrow> Inl e
       | Inr p \<Rightarrow> vwap_enter H z cfg l u m state now (regime_override cfg mode) p))"

subsection \<open>\<open>observe_vwap_exit\<close>\<close>

definition exit_unavailable :: "vwap_evidence \<Rightarrow> bar \<Rightarrow> state_decision \<Rightarrow> instant \<Rightarrow> bool" where
  "exit_unavailable e b state now \<longleftrightarrow>
     sd_timestamp state \<noteq> now \<or> b_end b \<le> rf_timestamp (ve_features e)
     \<or> b_instrument_id b \<noteq> ve_instrument_id e \<or> b_source b \<noteq> ve_source e
     \<or> require_strategy_ready b now \<noteq> Inr ()
     \<or> vs_max_bar_lag_seconds (ve_settings e) < total_seconds (now - b_end b)"

definition exit_reasons :: "vwap_evidence \<Rightarrow> bar \<Rightarrow> state_decision \<Rightarrow> instant \<Rightarrow> string list" where
  "exit_reasons e b state now =
     (let sign = sign_of (ve_side e); x = ve_exits e; close = fl (b_close b) in
      (if 0 \<le> sign * fl (close - vx_convergence_price x) then [''VWAP_CONVERGENCE''] else [])
      @ (if sign * fl (close - vx_adverse_price x) \<le> 0 then [''ADVERSE_CONTINUATION''] else [])
      @ (if vx_time_stop x \<le> now then [''TIME_STOP''] else [])
      @ (if sd_state state \<noteq> vx_entry_state x \<or> rh_blocks_new_entries (se_health (sd_evidence state))
         then [''STATE_CHANGE''] else []))"

definition observe_vwap_exit :: "vwap_evidence \<Rightarrow> bar \<Rightarrow> state_decision \<Rightarrow> pydatetime \<Rightarrow> string list result" where
  "observe_vwap_exit e b state at1 =
     rbind (utc at1) (\<lambda>now.
     if exit_unavailable e b state now then Inr [''EXIT_INPUT_UNAVAILABLE'']
     else Inr (let rs = exit_reasons e b state now in if rs = [] then [''HOLD''] else rs))"

subsection \<open>What an intent rests on\<close>

lemma reversion_Inr:
  assumes "reversion_features K obs t opn v = Inr f"
  shows "rf_definition f = v" "0 < rf_volatility_scale f"
    "\<exists>b\<in>set obs. require_strategy_ready b t = Inr () \<and> b_end b = rf_timestamp f
       \<and> b_instrument_id b = rf_instrument_id f \<and> b_source b = rf_source f \<and> rf_price f = fl (b_close b)"
    "rf_stretch f = fl (fl (rf_price f - rf_session_vwap f) / rf_volatility_scale f)"
proof -
  define bars where "bars = reversion_bars obs t opn"
  note r = assms[unfolded reversion_features_def Let_def bars_def[symmetric]]
  have len: "\<not> length bars < rv_scale_bars v + 2" using r by (auto split: if_splits)
  note r = r[unfolded if_not_P[OF len]]
  obtain u where h: "check_history t opn (hd bars) 0 bars = Inr u" using r by (auto simp: result_simps)
  note r = r[unfolded h rbind.simps]
  have mk: "mk_reversion x = Inr f \<Longrightarrow> f = x \<and> 0 < rf_volatility_scale x" for x f
    by (auto simp: mk_reversion_def split: if_splits)
  have "bars \<noteq> []" using len by auto
  then have b: "last bars \<in> set bars" "map (\<lambda>b. fl (b_close b)) bars ! (length bars - 1) = fl (b_close (last bars))"
    by (simp_all add: last_conv_nth)
  then have "require_strategy_ready (last bars) t = Inr ()" using check_history_Inr[OF h] by blast
  moreover have "last bars \<in> set obs" using b(1) by (auto simp: bars_def reversion_bars_def)
  ultimately show "rf_definition f = v" "0 < rf_volatility_scale f"
    "\<exists>b\<in>set obs. require_strategy_ready b t = Inr () \<and> b_end b = rf_timestamp f
       \<and> b_instrument_id b = rf_instrument_id f \<and> b_source b = rf_source f \<and> rf_price f = fl (b_close b)"
    "rf_stretch f = fl (fl (rf_price f - rf_session_vwap f) / rf_volatility_scale f)"
    using r b(2) by (auto split: if_splits dest!: mk)
qed

lemma vwap_inputs_features:
  assumes "vwap_inputs H son z cfg bars now = Inr (f, flatten)"
  obtains opn where "reversion_features (vh_bars H) bars now opn (vs_features cfg) = Inr f" "now < flatten"
  using assms by (auto simp: vwap_inputs_def Let_def result_simps entry_window_open_def split: option.splits if_splits)

text \<open>The references of an exit lie on the two sides of the entry price.\<close>

definition exits_ordered :: "side \<Rightarrow> rat \<Rightarrow> vwap_exits \<Rightarrow> bool" where
  "exits_ordered sd price x \<longleftrightarrow>
     sign_of sd * vx_adverse_price x \<le> sign_of sd * price \<and> sign_of sd * price \<le> sign_of sd * vx_convergence_price x"

lemma exits_are_ordered:
  assumes cfg: "vwap_settings_ok cfg" and f: "reversion_features K obs t opn (vs_features cfg) = Inr f"
    and s: "rf_stretch f \<noteq> 0"
  shows "exits_ordered (reversion_side f) (rf_price f)
     \<lparr>vx_convergence_price = convergence_of cfg f, vx_adverse_price = adverse_of cfg f (reversion_side f),
      vx_time_stop = stop, vx_entry_state = st\<rparr>"
proof -
  let ?p = "rf_price f" and ?v = "rf_session_vwap f" and ?sc = "rf_volatility_scale f"
  note r = reversion_Inr[OF f]
  obtain b :: bar where "?p = fl (b_close b)" using r(3) by blast
  then have p: "fl ?p = ?p" by (simp add: flr.idem)
  have c: "0 < vs_convergence_fraction cfg" "0 < vs_adverse_scale cfg" using cfg by (simp_all add: vwap_settings_ok_def)
  have scale: "0 \<le> fl (vs_adverse_scale cfg * ?sc)" using c r(2) by (intro flr.nonneg) simp
  show ?thesis
  proof (cases "rf_stretch f < 0")
    case True
    then have "?p - ?v < 0" using r(2,4)
      by (simp add: not_le[symmetric] flr.nonneg_iff zero_le_divide_iff)
    then have "0 \<le> fl (vs_convergence_fraction cfg * fl (?v - ?p))" using c by (intro flr.nonneg mult_nonneg_nonneg) simp_all
    then have "?p \<le> convergence_of cfg f" unfolding convergence_of_def by (intro flr.ge_fixed[OF p]) simp
    moreover have "adverse_of cfg f LONG \<le> ?p" unfolding adverse_of_def sign_of_def
      using scale by (intro flr.le_fixed[OF p]) simp
    ultimately show ?thesis using True by (simp add: exits_ordered_def reversion_side_def sign_of_def)
  next
    case False
    then have "0 < ?p - ?v" using r(2,4) s by (simp add: flr.pos_iff not_less le_less zero_less_divide_iff)
    then have "fl (vs_convergence_fraction cfg * fl (?v - ?p)) \<le> 0"
      using c by (simp add: flr.nonpos_iff mult_le_0_iff)
    then have "convergence_of cfg f \<le> ?p" unfolding convergence_of_def by (intro flr.le_fixed[OF p]) simp
    moreover have "?p \<le> adverse_of cfg f SHORT" unfolding adverse_of_def sign_of_def
      using scale by (intro flr.ge_fixed[OF p]) (simp add: flr.minus)
    ultimately show ?thesis using False by (simp add: exits_ordered_def reversion_side_def sign_of_def)
  qed
qed

text \<open>
  C33.  No reversal intent without its whole setup: never in LIVE mode, only enabled, with healthy inputs of that
  very instant, in a choppy market whose state permits the family (or under the research override, in research
  or backtest); the instrument is available (for a short: short-eligible); the stretch lies between its limits,
  the side is against it, the impulse decelerates and a closed bar confirms the reversal; and the exits of the
  evidence are sound: the adverse reference and the convergence reference lie on the two sides of the entry
  price, and the time stop comes after the entry and not after the flattening of the session.
\<close>

theorem vwap_admission:
  assumes "vwap_evaluate H son z cfg bars l u m state at1 mode = Inr r" and "vr_intent r = Some i"
    and "vwap_settings_ok cfg"
  shows "mode \<noteq> LIVE \<and> vs_enabled cfg \<and> \<not> health_veto (vr_timestamp r) state
    \<and> (regime_override cfg mode \<or> sd_state state = CHOP \<and> VWAP_MEAN_REVERSION \<in> set (sd_allowed_alpha_families state))
    \<and> \<not> instrument_unavailable u m (local_day z (vr_timestamp r)) (si_instrument_id i)
    \<and> (si_side i = SHORT \<longrightarrow> short_allowed u m (si_instrument_id i))
    \<and> (\<exists>f flatten e.
         vwap_inputs H son z cfg bars (vr_timestamp r) = Inr (f, flatten)
         \<and> si_evidence i = Some (vwap_detail H e) \<and> ve_features e = f
         \<and> rf_instrument_id f = si_instrument_id i \<and> si_side i = (if rf_stretch f < 0 then LONG else SHORT)
         \<and> vs_min_stretch cfg \<le> \<bar>rf_stretch f\<bar> \<and> \<bar>rf_stretch f\<bar> < vs_max_stretch cfg
         \<and> impulse_decelerates cfg f (si_side i) \<and> reversal_confirmed cfg f (si_side i)
         \<and> exits_ordered (si_side i) (rf_price f) (ve_exits e)
         \<and> vr_timestamp r < vx_time_stop (ve_exits e) \<and> vx_time_stop (ve_exits e) \<le> flatten)"
proof -
  from assms(1) obtain now where now: "utc at1 = Inr now"
    by (auto simp: vwap_evaluate_def result_simps simp del: utc_Inr_iff)
  note ev = assms(1)[unfolded vwap_evaluate_def now rbind.simps]
  have g: "mode \<noteq> LIVE" "vs_enabled cfg" "\<not> health_veto now state" "\<not> regime_denied cfg mode state"
    using ev assms(2) by (auto simp: vwap_reject_def split: if_splits)
  obtain f flatten where inp: "vwap_inputs H son z cfg bars now = Inr (f, flatten)"
    using ev g assms(2) by (auto simp: vwap_reject_def split: sum.splits py_error.splits)
  then have en: "vwap_enter H z cfg l u m state now (regime_override cfg mode) (f, flatten) = Inr r" using ev g by simp
  have bad: "vwap_ineligible z u m now (rf_instrument_id f) = Inr False"
    using en assms(2) by (auto simp: vwap_enter_def vwap_reject_def Let_def result_simps split: if_splits)
  have ok: "setup_rejection cfg u m l f now = None"
    using en assms(2) bad by (auto simp: vwap_enter_def vwap_reject_def Let_def result_simps split: if_splits option.splits)
  have vi: "vwap_intent H cfg u m state l f flatten now (regime_override cfg mode) = Inr i" and t: "vr_timestamp r = now"
    using en assms(2) bad ok by (auto simp: vwap_enter_def vwap_reject_def Let_def result_simps split: if_splits)
  let ?sd = "reversion_side f"
  have set: "vs_min_stretch cfg \<le> \<bar>rf_stretch f\<bar>" "\<bar>rf_stretch f\<bar> < vs_max_stretch cfg"
    "?sd = SHORT \<longrightarrow> short_allowed u m (rf_instrument_id f)" "impulse_decelerates cfg f ?sd" "reversal_confirmed cfg f ?sd"
    using ok by (auto simp: setup_rejection_def Let_def split: if_splits)
  have av: "\<not> instrument_unavailable u m (local_day z now) (rf_instrument_id f)"
    using bad by (auto simp: vwap_ineligible_def Let_def result_simps split: if_splits)
  then obtain ins where "dict_of in_token (im_instruments m) (rf_instrument_id f) = Some ins"
    by (auto simp: instrument_unavailable_def split: option.splits)
  then have tok: "in_token (the (dict_of in_token (im_instruments m) (rf_instrument_id f))) = rf_instrument_id f"
    using dict_of_token by simp
  let ?x = "\<lparr>vx_convergence_price = convergence_of cfg f, vx_adverse_price = adverse_of cfg f ?sd,
         vx_time_stop = min (now + minutes (vs_max_hold_minutes cfg)) flatten, vx_entry_state = sd_state state\<rparr>"
  have x: "mk_exits y = Inr y' \<Longrightarrow> y' = y" for y y' by (auto simp: mk_exits_def split: if_splits)
  have e: "mk_vwap_evidence H y = Inr y' \<Longrightarrow> y' = y \<and> ve_timestamp y < vx_time_stop (ve_exits y)" for y y'
    by (auto simp: mk_vwap_evidence_def Let_def split: if_splits)
  obtain ev1 where ev1: "si_evidence i = Some (vwap_detail H ev1)" "ve_features ev1 = f" "ve_exits ev1 = ?x"
    "now < vx_time_stop (ve_exits ev1)" and i: "si_instrument_id i = rf_instrument_id f" "si_side i = ?sd"
    using vi tok by (auto simp: vwap_intent_def Let_def result_simps dest!: x e)
  obtain opn where feat: "reversion_features (vh_bars H) bars now opn (vs_features cfg) = Inr f"
    using vwap_inputs_features[OF inp] by blast
  have "rf_stretch f \<noteq> 0" using set(1) assms(3) by (auto simp: vwap_settings_ok_def)
  then have "exits_ordered ?sd (rf_price f) (ve_exits ev1)"
    unfolding ev1(3) by (rule exits_are_ordered[OF assms(3) feat])
  moreover have "vx_time_stop (ve_exits ev1) \<le> flatten" unfolding ev1(3) by simp
  moreover have "si_side i = (if rf_stretch f < 0 then LONG else SHORT)" using i(2) by (simp add: reversion_side_def)
  ultimately show ?thesis
    using g av set inp ev1(1,2,4) unfolding t i by (auto simp: regime_denied_def)
qed

text \<open>
  Exits are observed consistently: on an available bar of the position the answer names exactly the
  conditions that hold, a reversion and an adverse continuation are never both named when the references lie
  on two sides of the entry price apart from each other, and nothing is named only when no condition holds.
\<close>

theorem vwap_exit_exact:
  assumes "observe_vwap_exit e b state at1 = Inr rs" and "utc at1 = Inr now" and "\<not> exit_unavailable e b state now"
    and "sign_of (ve_side e) * vx_adverse_price (ve_exits e) < sign_of (ve_side e) * vx_convergence_price (ve_exits e)"
  shows "(''VWAP_CONVERGENCE'' \<in> set rs \<longleftrightarrow>
            sign_of (ve_side e) * vx_convergence_price (ve_exits e) \<le> sign_of (ve_side e) * fl (b_close b))
    \<and> (''ADVERSE_CONTINUATION'' \<in> set rs \<longleftrightarrow>
            sign_of (ve_side e) * fl (b_close b) \<le> sign_of (ve_side e) * vx_adverse_price (ve_exits e))
    \<and> (''TIME_STOP'' \<in> set rs \<longleftrightarrow> vx_time_stop (ve_exits e) \<le> now)
    \<and> \<not> {''VWAP_CONVERGENCE'', ''ADVERSE_CONTINUATION''} \<subseteq> set rs
    \<and> (''HOLD'' \<in> set rs \<longleftrightarrow> rs = [''HOLD'']) \<and> rs \<noteq> []"
proof -
  have rs: "rs = (let rs = exit_reasons e b state now in if rs = [] then [''HOLD''] else rs)"
    using assms(1,3) by (simp add: observe_vwap_exit_def assms(2) del: utc_Inr_iff)
  have conv: "0 \<le> sign_of (ve_side e) * fl (x - y) \<longleftrightarrow> sign_of (ve_side e) * y \<le> sign_of (ve_side e) * x" for x y
    by (simp add: sign_of_def flr.nonneg_iff flr.nonpos_iff)
  have adv: "sign_of (ve_side e) * fl (x - y) \<le> 0 \<longleftrightarrow> sign_of (ve_side e) * x \<le> sign_of (ve_side e) * y" for x y
    by (simp add: sign_of_def flr.nonneg_iff flr.nonpos_iff)
  show ?thesis using assms(4) unfolding rs exit_reasons_def Let_def conv adv by auto
qed

subsection \<open>A concrete reversal\<close>

definition example_vwap :: vwap_settings where
  "example_vwap =
     \<lparr>vs_enabled = True, vs_research_regime_override = False, vs_features = \<lparr>rv_scale_bars = 3\<rparr>, vs_min_stretch = 1,
      vs_max_stretch = 2, vs_min_impulse = 1 / 2, vs_max_deceleration_ratio = 1 / 2, vs_min_reversal = 1 / 8,
      vs_min_body = 1 / 8, vs_min_close_location = 1 / 2, vs_start_minutes = 0, vs_end_minutes = 300,
      vs_max_hold_minutes = 30, vs_convergence_fraction = 1 / 2, vs_adverse_scale = 1, vs_max_spread_bps = 16,
      vs_max_quote_age_seconds = 4, vs_max_bar_lag_seconds = 30, vs_liquidity_max_age_seconds = 86400,
      vs_min_adv = 100, vs_min_turnover = 1000\<rparr>"

definition example_vwap_hashes :: vwap_hashes where
  "example_vwap_hashes =
     \<lparr>vh_bars = (\<lambda>_. ''b''), vh_version = (\<lambda>_. ''f''), vh_settings = (\<lambda>_. ''v''), vh_universe = (\<lambda>_. ''u''),
      vh_master = (\<lambda>_. ''m''), vh_state = (\<lambda>_. ''s''), vh_liquidity = (\<lambda>_. ''l''), vh_evidence = (\<lambda>_. ''e''),
      vh_uuid5 = (\<lambda>x. x)\<rparr>"

text \<open>The session opens at 9:15; five bars later it is 9:40.\<close>

definition example_open :: instant where
  "example_open = 1783395900000000"

definition example_entry :: instant where
  "example_entry = 1783397400000000"

definition example_reversal_bar :: "instant \<Rightarrow> rat \<Rightarrow> rat \<Rightarrow> rat \<Rightarrow> rat \<Rightarrow> rat \<Rightarrow> bar" where
  "example_reversal_bar t opened high low close volume =
     \<lparr>b_instrument_id = ''A'', b_source = ''vendor'', b_received_at = t + 300000000, b_quality_flags = {},
      b_feed_kind = EQUITY, b_schema_version = ''1'', b_start = t, b_end = t + 300000000, b_interval_minutes = 5,
      b_open = opened, b_high = high, b_low = low, b_close = close, b_volume = volume, b_complete = True\<rparr>"

definition example_reversal :: "bar list" where
  "example_reversal =
     [example_reversal_bar example_open 128 129 127 128 4,
      example_reversal_bar (example_open + 300000000) 128 129 127 128 1,
      example_reversal_bar (example_open + 600000000) 128 128 120 121 1,
      example_reversal_bar (example_open + 900000000) 121 121 119 120 1,
      example_reversal_bar (example_open + 1200000000) 119 123 119 121 1]"

definition example_vwap_liquidity :: vwap_liquidity where
  "example_vwap_liquidity =
     \<lparr>vl_quote = \<lparr>q_instrument_id = ''A'', q_source = ''vendor'', q_received_at = example_entry, q_quality_flags = {},
        q_feed_kind = EQUITY, q_schema_version = ''1'', q_timestamp = example_entry, q_bid = 121, q_ask = 121, q_last = 121\<rparr>,
      vl_adv = 1000, vl_daily_turnover = 100000, vl_known_at = example_open, vl_snapshot_id = ''q''\<rparr>"

definition example_chop :: state_decision where
  "example_chop = (example_decision example_entry)\<lparr>sd_state := CHOP, sd_allowed_alpha_families := [VWAP_MEAN_REVERSION]\<rparr>"

definition example_reversion :: reversion_features where
  "example_reversion =
     \<lparr>rf_timestamp = example_entry, rf_instrument_id = ''A'', rf_source = ''vendor'', rf_session_vwap = 251 / 2,
      rf_volatility_scale = 4, rf_stretch = - 9 / 8, rf_impulse = - 7 / 4, rf_decelerated_impulse = - 1 / 4,
      rf_reversal = 1 / 4, rf_body = 1 / 2, rf_close_location = 1 / 2, rf_price = 121,
      rf_definition = \<lparr>rv_scale_bars = 3\<rparr>, rf_input_hash = ''b''\<rparr>"

lemma example_reversion_features:
  "reversion_features (vh_bars example_vwap_hashes) example_reversal example_entry example_open (vs_features example_vwap)
   = Inr example_reversion"
  by code_simp

definition example_flatten :: instant where
  "example_flatten = 1783417200000000"

lemma example_vwap_inputs:
  "vwap_inputs example_vwap_hashes (session_on nse_2026) kolkata example_vwap example_reversal example_entry
   = Inr (example_reversion, example_flatten)"
proof -
  have "session_bounds (session_on nse_2026) kolkata example_entry
      = Inr (Some (example_open, example_open + 22500000000))"
    by code_simp
  moreover have "session_on nse_2026 (local_day kolkata example_entry) = Inr (Some \<lparr>se_date = 20641, se_timezone = kolkata,
      se_times = cs_regular_times nse_2026, se_special = False\<rparr>)"
    by (simp add: session_on_def nse_2026_def dict_of_def weekday_def kolkata_def fixed_zone_def local_day_def
        day_us_def minutes_def example_entry_def)
  moreover have "time_of_session \<lparr>se_date = 20641, se_timezone = kolkata, se_times = cs_regular_times nse_2026,
      se_special = False\<rparr> (local_day kolkata example_entry) flatten_start_time = example_flatten"
    by code_simp
  moreover have "entry_window_open example_vwap example_open (example_open + 22500000000)
      (time_of_session \<lparr>se_date = 20641, se_timezone = kolkata, se_times = cs_regular_times nse_2026,
      se_special = False\<rparr> (local_day kolkata example_entry) final_entry_time) example_flatten example_entry"
    by code_simp
  ultimately show ?thesis by (simp add: vwap_inputs_def Let_def example_reversion_features)
qed

definition example_vwap_result :: "vwap_result result" where
  "example_vwap_result = vwap_evaluate example_vwap_hashes (session_on nse_2026) kolkata example_vwap example_reversal
     example_vwap_liquidity example_universe example_master example_chop (Aware example_entry 0) PAPER"

lemma example_vwap_enter:
  "(case vwap_enter example_vwap_hashes kolkata example_vwap example_vwap_liquidity example_universe example_master
      example_chop example_entry (regime_override example_vwap PAPER) (example_reversion, example_flatten) of
     Inr r \<Rightarrow> map_option si_instrument_id (vr_intent r) | Inl e \<Rightarrow> None) = Some ''A''"
  by code_simp

lemma example_vwap_intent:
  "\<exists>r i. example_vwap_result = Inr r \<and> vr_intent r = Some i \<and> si_instrument_id i = ''A''"
proof -
  have "vs_enabled example_vwap" "\<not> health_veto example_entry example_chop" "\<not> regime_denied example_vwap PAPER example_chop"
    by (simp add: example_vwap_def, code_simp, code_simp)
  then have "example_vwap_result = vwap_enter example_vwap_hashes kolkata example_vwap example_vwap_liquidity example_universe
      example_master example_chop example_entry (regime_override example_vwap PAPER) (example_reversion, example_flatten)"
    by (simp add: example_vwap_result_def vwap_evaluate_def utc_def example_vwap_inputs)
  then show ?thesis using example_vwap_enter by (auto split: sum.splits)
qed

theorem vwap_admission_witness:
  "\<exists>r i. example_vwap_result = Inr r \<and> vr_intent r = Some i \<and> si_side i = LONG
     \<and> VWAP_MEAN_REVERSION \<in> set (sd_allowed_alpha_families example_chop)"
proof -
  obtain r i where r: "example_vwap_result = Inr r" "vr_intent r = Some i" using example_vwap_intent by blast
  have "vwap_settings_ok example_vwap" by code_simp
  note ad = vwap_admission[OF r(1)[unfolded example_vwap_result_def] r(2) this]
  have "vr_timestamp r = example_entry"
    using r(1) by (auto simp: example_vwap_result_def vwap_evaluate_def utc_def vwap_enter_def vwap_reject_def Let_def
        result_simps split: if_splits sum.splits py_error.splits option.splits)
  then have "si_side i = LONG"
    using ad by (auto simp: example_vwap_inputs example_reversion_def)
  then show ?thesis using r by (auto simp: example_chop_def)
qed

definition example_vwap_evidence :: vwap_evidence where
  "example_vwap_evidence =
     \<lparr>ve_timestamp = example_entry, ve_instrument_id = ''A'', ve_symbol = ''A'', ve_source = ''vendor'', ve_side = LONG,
      ve_score = 9 / 16, ve_features = example_reversion,
      ve_exits = \<lparr>vx_convergence_price = 493 / 4, vx_adverse_price = 117, vx_time_stop = example_entry + minutes 30,
        vx_entry_state = CHOP\<rparr>,
      ve_settings = example_vwap, ve_alpha_version_hash = [], ve_feature_set_hash = [], ve_universe_hash = [],
      ve_instrument_master_hash = [], ve_state_hash = [], ve_liquidity_hash = [], ve_code_commit = [],
      ve_config_hash = [], ve_data_snapshot = []\<rparr>"

theorem vwap_exit_exact_witness:
  "observe_vwap_exit example_vwap_evidence (example_reversal_bar example_entry 121 125 121 124 1)
     (example_chop\<lparr>sd_timestamp := example_entry + minutes 5\<rparr>) (Aware (example_entry + minutes 5) 0)
     = Inr [''VWAP_CONVERGENCE'']
   \<and> \<not> {''VWAP_CONVERGENCE'', ''ADVERSE_CONTINUATION''} \<subseteq> set [''VWAP_CONVERGENCE'']"
proof -
  let ?b = "example_reversal_bar example_entry 121 125 121 124 1"
    and ?s = "example_chop\<lparr>sd_timestamp := example_entry + minutes 5\<rparr>" and ?t = "example_entry + minutes 5"
  have o: "observe_vwap_exit example_vwap_evidence ?b ?s (Aware ?t 0) = Inr [''VWAP_CONVERGENCE'']"
    "\<not> exit_unavailable example_vwap_evidence ?b ?s ?t"
    by (code_simp, code_simp)
  have "sign_of (ve_side example_vwap_evidence) * vx_adverse_price (ve_exits example_vwap_evidence)
      < sign_of (ve_side example_vwap_evidence) * vx_convergence_price (ve_exits example_vwap_evidence)"
    by (simp add: example_vwap_evidence_def sign_of_def)
  then show ?thesis using vwap_exit_exact[OF o(1) _ o(2)] o(1) by simp
qed

end
