(* ===== verification/Pairs.thy ===== *)
theory Pairs
  imports Vwap
begin

text \<open>
  \<open>alphas/pairs_models.py\<close>, \<open>alphas/pairs_statistics.py\<close> and \<open>alphas/pairs_data.py\<close>: candidates, training windows
  without gaps, the least-squares fit of a pair and the tests of its relationship.  \<open>lg\<close> is \<open>math.log\<close>; the formal
  diagnostics (statsmodels, or any replacement) and content hashes are parameters.
\<close>

subsection \<open>Records\<close>

record pairs_settings =
  ps_version :: string
  ps_enabled :: bool
  ps_training_bars :: nat
  ps_test_lags :: int
  ps_significance :: rat
  ps_min_beta :: rat
  ps_max_beta :: rat
  ps_max_beta_drift :: rat
  ps_min_spread_std :: rat
  ps_max_spread_std_ratio :: rat
  ps_max_spread_mean_shift :: rat
  ps_min_half_life_bars :: rat
  ps_max_half_life_bars :: rat
  ps_entry_z :: rat
  ps_exit_z :: rat
  ps_stop_z :: rat
  ps_max_hold_minutes :: int
  ps_max_net_gross_fraction :: rat
  ps_max_spread_bps :: rat
  ps_quote_max_age_seconds :: rat
  ps_max_bar_lag_seconds :: rat
  ps_min_adv :: rat
  ps_min_turnover :: rat
  ps_liquidity_metadata_max_age_seconds :: int
  ps_max_leg_lag_seconds :: rat

definition pairs_settings_ok :: "pairs_settings \<Rightarrow> bool" where
  "pairs_settings_ok s \<longleftrightarrow> 60 \<le> ps_training_bars s \<and> 0 \<le> ps_test_lags s \<and> ps_test_lags s \<le> 10
     \<and> 0 < ps_significance s \<and> ps_significance s \<le> fl (1 / 10)
     \<and> list_all (\<lambda>x. 0 < x) [ps_min_beta s, ps_max_beta s, ps_max_beta_drift s, ps_min_spread_std s,
         ps_max_spread_mean_shift s, ps_min_half_life_bars s, ps_max_half_life_bars s, ps_entry_z s, ps_stop_z s,
         ps_max_spread_bps s, ps_quote_max_age_seconds s, ps_min_adv s, ps_min_turnover s, ps_max_leg_lag_seconds s]
     \<and> 1 \<le> ps_max_spread_std_ratio s \<and> 0 \<le> ps_exit_z s \<and> 1 \<le> ps_max_hold_minutes s
     \<and> 0 \<le> ps_max_net_gross_fraction s \<and> ps_max_net_gross_fraction s < 1 \<and> 0 \<le> ps_max_bar_lag_seconds s
     \<and> 0 < ps_liquidity_metadata_max_age_seconds s
     \<and> ps_exit_z s < ps_entry_z s \<and> ps_entry_z s < ps_stop_z s
     \<and> ps_min_beta s < ps_max_beta s \<and> ps_min_half_life_bars s < ps_max_half_life_bars s"

record pair_candidate =
  pc_pair_id :: string
  pc_left :: instrument_ref
  pc_right :: instrument_ref
  pc_economic_tags :: "string list"
  pc_left_sector :: string
  pc_right_sector :: string
  pc_rationale :: string
  pc_source_reference :: string
  pc_known_at :: instant
  pc_effective_from :: instant
  pc_effective_to :: instant
  pc_reviewed_at :: instant
  pc_corporate_actions_clear :: bool
  pc_adjustment_snapshot :: string

definition pair_candidate_ok :: "pair_candidate \<Rightarrow> bool" where
  "pair_candidate_ok c \<longleftrightarrow> pc_economic_tags c \<noteq> []
     \<and> [] \<notin> set [pc_pair_id c, pc_left_sector c, pc_right_sector c, pc_rationale c, pc_source_reference c,
         pc_adjustment_snapshot c]
     \<and> ir_instrument_id (pc_left c) \<noteq> ir_instrument_id (pc_right c) \<and> pc_effective_from c < pc_effective_to c"

record pair_observation =
  po_left :: bar
  po_right :: bar

record pair_liquidity =
  pl_quote :: quote
  pl_adv :: rat
  pl_daily_turnover :: rat
  pl_known_at :: instant
  pl_snapshot_id :: string

definition pair_liquidity_ok :: "pair_liquidity \<Rightarrow> bool" where
  "pair_liquidity_ok l \<longleftrightarrow> 0 < pl_adv l \<and> 0 < pl_daily_turnover l \<and> pl_snapshot_id l \<noteq> []"

record statistical_tests =
  st_method_version :: string
  st_cointegration_p :: rat
  st_spread_adf_p :: rat
  st_left_level_adf_p :: rat
  st_right_level_adf_p :: rat

definition statistical_tests_ok :: "statistical_tests \<Rightarrow> bool" where
  "statistical_tests_ok t \<longleftrightarrow> list_all (\<lambda>p. 0 \<le> p \<and> p \<le> 1)
     [st_cointegration_p t, st_spread_adf_p t, st_left_level_adf_p t, st_right_level_adf_p t]"

record pair_fit =
  pf_beta :: rat
  pf_intercept :: rat
  pf_spread_mean :: rat
  pf_spread_std :: rat
  pf_half_life_bars :: "rat option"
  pf_split_beta_drift :: rat
  pf_spread_std_ratio :: rat
  pf_spread_mean_shift :: rat
  pf_tests :: statistical_tests
  pf_training_start :: instant
  pf_training_end :: instant
  pf_training_hash :: string
  pf_observations :: nat

definition mk_pair_fit :: "pair_fit \<Rightarrow> pair_fit result" where
  "mk_pair_fit f = (if 0 < pf_spread_std f then Inr f else Inl (ValueError ''validation error for PairFit''))"

record pair_position =
  pp_position_id :: uuid
  pp_pair_id :: string
  pp_direction :: spread_direction
  pp_opened_at :: instant
  pp_entry_fit :: pair_fit
  pp_entry_z :: rat

subsection \<open>Training windows\<close>

definition pair_available_at :: "pair_observation \<Rightarrow> instant" where
  "pair_available_at p = max (available_at (po_left p)) (available_at (po_right p))"

text \<open>The loop over the slots of a session.\<close>

function slots_from :: "instant \<Rightarrow> instant \<Rightarrow> instant list" where
  "slots_from ending cursor =
     (if cursor + minutes 5 \<le> ending then cursor # slots_from ending (cursor + minutes 5) else [])"
  by pat_completeness auto
termination by (relation "measure (\<lambda>(c, t). nat (c - t))") (auto simp: minutes_def)

declare slots_from.simps [simp del]

definition slots_of_day ::
  "(day \<Rightarrow> session option result) \<Rightarrow> zone \<Rightarrow> instant \<Rightarrow> instant \<Rightarrow> nat \<Rightarrow> instant list result" where
  "slots_of_day son z first finish k =
     rbind (session_bounds son z (first + int k * day_us)) (\<lambda>bounds. case bounds of
       None \<Rightarrow> Inr []
     | Some (opn, ending) \<Rightarrow>
         Inr (filter (\<lambda>t. first \<le> t \<and> t + minutes 5 \<le> finish) (slots_from ending opn)))"

definition expected_slots ::
  "(day \<Rightarrow> session option result) \<Rightarrow> zone \<Rightarrow> instant \<Rightarrow> instant \<Rightarrow> instant list result" where
  "expected_slots son z first finish =
     rbind (rmap (slots_of_day son z first finish) [0 ..< nat (local_day z finish - local_day z first + 1)])
       (\<lambda>ss. Inr (concat ss))"

definition check_leg :: "instant \<Rightarrow> bar \<times> instrument_ref \<Rightarrow> unit result" where
  "check_leg now p =
     (case p of (b, r) \<Rightarrow>
        rbind (require_strategy_ready b now) (\<lambda>_.
        ensure (b_instrument_id b = ir_instrument_id r \<and> b_source b = ir_source r \<and> b_feed_kind b = EQUITY)
          (ValueError ''PAIR_BAR_IDENTITY'')))"

definition check_row :: "pair_candidate \<Rightarrow> instant \<Rightarrow> pair_observation \<Rightarrow> unit result" where
  "check_row c now row =
     rbind (ensure (b_start (po_left row) = b_start (po_right row) \<and> b_end (po_left row) = b_end (po_right row))
        (ValueError ''UNSYNCHRONIZED_LEGS'')) (\<lambda>_.
     rbind (check_leg now (po_left row, pc_left c)) (\<lambda>_. check_leg now (po_right row, pc_right c)))"

definition available_pairs :: "pair_observation list \<Rightarrow> instant \<Rightarrow> pair_observation list" where
  "available_pairs obs now =
     sort_key (\<lambda>p. b_end (po_left p)) (filter (\<lambda>p. pair_available_at p \<le> now) obs)"

definition select_window ::
  "(day \<Rightarrow> session option result) \<Rightarrow> zone \<Rightarrow> pair_observation list \<Rightarrow> pair_candidate \<Rightarrow> pairs_settings \<Rightarrow> instant
     \<Rightarrow> pair_observation list result" where
  "select_window son z obs c cfg now =
     (let available = available_pairs obs now; n = ps_training_bars cfg + 1; window = take_last n available;
          first = b_start (po_left (hd window)); finish = b_end (po_left (last window));
          lag = total_seconds (now - finish)
      in if length available < n then Inl (ValueError ''INSUFFICIENT_HISTORY'')
         else if \<not> (0 \<le> lag \<and> lag \<le> ps_max_bar_lag_seconds cfg) then Inl (ValueError ''STALE_PAIR_BAR'')
         else if first < pc_effective_from c then Inl (ValueError ''ADJUSTMENT_COVERAGE_INSUFFICIENT'')
         else rbind (rmap (check_row c now) window) (\<lambda>_.
           if 366 < local_day z finish - local_day z first then Inl (ValueError ''HISTORY_TOO_SPARSE'')
           else rbind (expected_slots son z first finish) (\<lambda>slots.
             if slots \<noteq> map (\<lambda>p. b_start (po_left p)) window
             then Inl (ValueError ''MISSING_DUPLICATE_OR_MISALIGNED_PAIR_BARS'')
             else Inr window)))"

definition leg_liquid :: "pairs_settings \<Rightarrow> instant \<Rightarrow> pair_liquidity \<times> instrument_ref \<Rightarrow> bool" where
  "leg_liquid cfg now p =
     (case p of (l, r) \<Rightarrow>
        let q = pl_quote l; age = total_seconds (now - q_timestamp q); known = total_seconds (now - pl_known_at l) in
        q_instrument_id q = ir_instrument_id r \<and> q_source q = ir_source r \<and> q_quality_flags q = {}
        \<and> 0 < q_bid q \<and> q_bid q \<le> q_ask q \<and> 0 < q_last q
        \<and> q_timestamp q \<le> q_received_at q \<and> q_received_at q \<le> now
        \<and> 0 \<le> age \<and> age \<le> ps_quote_max_age_seconds cfg
        \<and> 0 \<le> known \<and> known \<le> of_int (ps_liquidity_metadata_max_age_seconds cfg)
        \<and> ps_min_adv cfg \<le> pl_adv l \<and> ps_min_turnover cfg \<le> pl_daily_turnover l
        \<and> quote_spread q \<le> ps_max_spread_bps cfg)"

definition liquid :: "pair_liquidity \<times> pair_liquidity \<Rightarrow> pair_candidate \<Rightarrow> pairs_settings \<Rightarrow> instant \<Rightarrow> bool" where
  "liquid ls c cfg now \<longleftrightarrow> leg_liquid cfg now (fst ls, pc_left c) \<and> leg_liquid cfg now (snd ls, pc_right c)"

subsection \<open>The fit\<close>

text \<open>The intercept and the slope of a least-squares line.\<close>

definition ols :: "rat list \<Rightarrow> rat list \<Rightarrow> (rat \<times> rat) result" where
  "ols left right =
     (if length left \<noteq> length right \<or> length left < 3 then
        Inl (ValueError ''insufficient aligned OLS observations'')
      else rbind (covariance right right) (\<lambda>variance.
        if variance \<le> fl (1 / 10 ^ 15) then Inl (ValueError ''degenerate regressor'')
        else rbind (covariance left right) (\<lambda>cov.
          let beta = fl (cov / variance) in Inr (fl (fmean left - fl (beta * fmean right)), beta))))"

type_synonym diagnostics = "rat list \<Rightarrow> rat list \<Rightarrow> rat list \<Rightarrow> int \<Rightarrow> statistical_tests result"

definition half_life_of :: "(rat \<Rightarrow> rat) \<Rightarrow> rat \<Rightarrow> rat option result" where
  "half_life_of lg phi =
     (if 0 < phi \<and> phi < 1 then rbind (fdiv (- lg 2) (lg phi)) (\<lambda>h. Inr (Some h)) else Inr None)"

definition split_spread :: "pairs_settings \<Rightarrow> rat list \<Rightarrow> nat \<Rightarrow> (rat \<times> rat) result" where
  "split_spread cfg spread middle =
     (let a = population_std (take middle spread); b = population_std (drop middle spread) in
      if min a b \<le> ps_min_spread_std cfg then Inl (ValueError ''degenerate split spread variance'')
      else Inr (a, b))"

definition fit_spread ::
  "(rat \<Rightarrow> rat) \<Rightarrow> diagnostics \<Rightarrow> (pair_observation list \<Rightarrow> string) \<Rightarrow> pairs_settings \<Rightarrow> pair_observation list
     \<Rightarrow> rat list \<Rightarrow> rat list \<Rightarrow> rat \<Rightarrow> rat \<Rightarrow> rat list \<Rightarrow> rat \<Rightarrow> pair_fit result" where
  "fit_spread lg tests_of training_hash cfg training left right intercept beta spread std =
     (let middle = length training div 2 in
      rbind (ols (take middle left) (take middle right)) (\<lambda>(i1, beta_a).
      rbind (ols (drop middle left) (drop middle right)) (\<lambda>(i2, beta_b).
      rbind (split_spread cfg spread middle) (\<lambda>(std_a, std_b).
      rbind (ols (tl spread) (butlast spread)) (\<lambda>(i3, phi).
      rbind (half_life_of lg phi) (\<lambda>half_life.
      rbind (tests_of left right spread (ps_test_lags cfg)) (\<lambda>tests.
      mk_pair_fit
        \<lparr>pf_beta = beta, pf_intercept = intercept, pf_spread_mean = fmean spread, pf_spread_std = std,
         pf_half_life_bars = half_life, pf_split_beta_drift = fl (\<bar>fl (beta_a - beta_b)\<bar> / \<bar>beta\<bar>),
         pf_spread_std_ratio = fl (max std_a std_b / min std_a std_b),
         pf_spread_mean_shift = fl (\<bar>fl (fmean (take middle spread) - fmean (drop middle spread))\<bar> / std),
         pf_tests = tests, pf_training_start = b_start (po_left (hd training)),
         pf_training_end = b_end (po_left (last training)), pf_training_hash = training_hash training,
         pf_observations = length training\<rparr>)))))))"

definition fit_pair ::
  "(rat \<Rightarrow> rat) \<Rightarrow> diagnostics \<Rightarrow> (pair_observation list \<Rightarrow> string) \<Rightarrow> pairs_settings \<Rightarrow> pair_observation list
     \<Rightarrow> pair_fit result" where
  "fit_pair lg tests_of training_hash cfg training =
     (if length training \<noteq> ps_training_bars cfg then Inl (ValueError ''training window length mismatch'')
      else let left = map (\<lambda>p. lg (fl (b_close (po_left p)))) training;
               right = map (\<lambda>p. lg (fl (b_close (po_right p)))) training
       in rbind (ols left right) (\<lambda>(intercept, beta).
          if beta \<le> 0 then Inl (ValueError ''nonpositive hedge ratio'')
          else let spread = map2 (\<lambda>a b. fl (a - fl (beta * b))) left right; std = population_std spread
           in if std \<le> ps_min_spread_std cfg then Inl (ValueError ''degenerate spread variance'')
              else fit_spread lg tests_of training_hash cfg training left right intercept beta spread std))"

text \<open>The net share of gross exposure that a hedge ratio leaves open.\<close>

definition net_gross :: "rat \<Rightarrow> rat" where
  "net_gross beta = fl (\<bar>fl (1 - beta)\<bar> / fl (1 + beta))"

definition relationship_checks :: "pair_fit \<Rightarrow> pairs_settings \<Rightarrow> (string \<times> bool) list" where
  "relationship_checks f cfg =
     (let t = pf_tests f in
      [(''COINTEGRATION_REJECTED'', ps_significance cfg \<le> st_cointegration_p t),
       (''SPREAD_STATIONARITY_REJECTED'', ps_significance cfg \<le> st_spread_adf_p t),
       (''I1_ASSUMPTION_REJECTED'', min (st_left_level_adf_p t) (st_right_level_adf_p t) < ps_significance cfg),
       (''BETA_OUT_OF_RANGE'', \<not> (ps_min_beta cfg \<le> pf_beta f \<and> pf_beta f \<le> ps_max_beta cfg)),
       (''UNSTABLE_BETA'', ps_max_beta_drift cfg < pf_split_beta_drift f),
       (''UNSTABLE_SPREAD_VARIANCE'', ps_max_spread_std_ratio cfg < pf_spread_std_ratio f),
       (''UNSTABLE_SPREAD_MEAN'', ps_max_spread_mean_shift cfg < pf_spread_mean_shift f),
       (''HALF_LIFE_REJECTED'', (case pf_half_life_bars f of None \<Rightarrow> True
          | Some h \<Rightarrow> \<not> (ps_min_half_life_bars cfg \<le> h \<and> h \<le> ps_max_half_life_bars cfg))),
       (''NEUTRALITY_LIMIT'', ps_max_net_gross_fraction cfg < net_gross (pf_beta f))])"

definition relationship_rejections :: "pair_fit \<Rightarrow> pairs_settings \<Rightarrow> string list" where
  "relationship_rejections f cfg = map fst (filter snd (relationship_checks f cfg))"

definition spread_z :: "(rat \<Rightarrow> rat) \<Rightarrow> pair_observation \<Rightarrow> pair_fit \<Rightarrow> rat \<times> rat" where
  "spread_z lg p f =
     (let spread = fl (lg (fl (b_close (po_left p))) - fl (pf_beta f * lg (fl (b_close (po_right p))))) in
      (spread, fl (fl (spread - pf_spread_mean f) / pf_spread_std f)))"

subsection \<open>Windows without gaps\<close>

lemma available_pairs_set: "set (available_pairs obs now) = {p \<in> set obs. pair_available_at p \<le> now}"
  by (auto simp: available_pairs_def)

lemma available_pairs_sorted: "sorted (map (\<lambda>p. b_end (po_left p)) (available_pairs obs now))"
  by (simp add: available_pairs_def)

lemma available_pairs_later:
  "\<forall>p\<in>set later. now < pair_available_at p \<Longrightarrow> available_pairs (obs @ later) now = available_pairs obs now"
  by (auto simp: available_pairs_def filter_empty_conv not_le)

lemma select_window_later:
  "\<forall>p\<in>set later. now < pair_available_at p \<Longrightarrow>
   select_window son z (obs @ later) c cfg now = select_window son z obs c cfg now"
  by (simp add: select_window_def available_pairs_later)

lemma check_leg_Inr:
  "check_leg now (b, r) = Inr u \<Longrightarrow> b_instrument_id b = ir_instrument_id r \<and> b_source b = ir_source r \<and> b_feed_kind b = EQUITY"
  by (auto simp: check_leg_def result_simps)

text \<open>What a checked row is: two synchronous equity bars of the two instruments.\<close>

definition row_of_pair :: "pair_candidate \<Rightarrow> pair_observation \<Rightarrow> bool" where
  "row_of_pair c p \<longleftrightarrow> b_start (po_left p) = b_start (po_right p) \<and> b_end (po_left p) = b_end (po_right p)
     \<and> b_instrument_id (po_left p) = ir_instrument_id (pc_left c) \<and> b_instrument_id (po_right p) = ir_instrument_id (pc_right c)
     \<and> b_source (po_left p) = ir_source (pc_left c) \<and> b_source (po_right p) = ir_source (pc_right c)
     \<and> b_feed_kind (po_left p) = EQUITY \<and> b_feed_kind (po_right p) = EQUITY"

lemma check_row_Inr: "check_row c now p = Inr u \<Longrightarrow> row_of_pair c p"
  by (auto simp: check_row_def row_of_pair_def result_simps dest!: check_leg_Inr)

lemma rmap_Inr_all: "rmap f xs = Inr ys \<Longrightarrow> \<forall>x\<in>set xs. \<exists>y. f x = Inr y"
  by (induction xs arbitrary: ys) (auto simp: result_simps)

lemma select_window_Inr:
  assumes "select_window son z obs c cfg now = Inr w"
  shows "w = take_last (ps_training_bars cfg + 1) (available_pairs obs now)"
    and "ps_training_bars cfg + 1 \<le> length (available_pairs obs now)"
    and "0 \<le> total_seconds (now - b_end (po_left (last w)))"
    and "total_seconds (now - b_end (po_left (last w))) \<le> ps_max_bar_lag_seconds cfg"
    and "pc_effective_from c \<le> b_start (po_left (hd w))"
    and "\<forall>p\<in>set w. row_of_pair c p"
    and "expected_slots son z (b_start (po_left (hd w))) (b_end (po_left (last w))) = Inr (map (\<lambda>p. b_start (po_left p)) w)"
proof -
  let ?w = "take_last (ps_training_bars cfg + 1) (available_pairs obs now)"
  show w: "w = ?w" and "ps_training_bars cfg + 1 \<le> length (available_pairs obs now)"
    and "0 \<le> total_seconds (now - b_end (po_left (last w)))"
    and "total_seconds (now - b_end (po_left (last w))) \<le> ps_max_bar_lag_seconds cfg"
    and "pc_effective_from c \<le> b_start (po_left (hd w))"
    and "expected_slots son z (b_start (po_left (hd w))) (b_end (po_left (last w))) = Inr (map (\<lambda>p. b_start (po_left p)) w)"
    using assms by (auto simp: select_window_def Let_def result_simps split: if_splits)
  obtain us where "rmap (check_row c now) w = Inr us"
    using assms unfolding w by (auto simp: select_window_def Let_def result_simps split: if_splits)
  then show "\<forall>p\<in>set w. row_of_pair c p" by (auto dest!: rmap_Inr_all check_row_Inr)
qed

text \<open>
  A training window is exact and causal: it has the configured number of rows and one more, every row is an
  observation that was available, with two synchronous equity bars of the two instruments, the rows fill every
  trading slot between the first and the last with no gap, duplicate or stray bar, the last one is fresh and the
  first is covered by the adjustment snapshot; and observations that become available later change nothing.
\<close>

theorem window_exact:
  assumes "select_window son z obs c cfg now = Inr w"
  shows "length w = ps_training_bars cfg + 1
    \<and> (\<forall>p\<in>set w. p \<in> set obs \<and> pair_available_at p \<le> now \<and> row_of_pair c p)
    \<and> expected_slots son z (b_start (po_left (hd w))) (b_end (po_left (last w))) = Inr (map (\<lambda>p. b_start (po_left p)) w)
    \<and> pc_effective_from c \<le> b_start (po_left (hd w))
    \<and> b_end (po_left (last w)) \<le> now
    \<and> total_seconds (now - b_end (po_left (last w))) \<le> ps_max_bar_lag_seconds cfg
    \<and> (\<forall>later. (\<forall>p\<in>set later. now < pair_available_at p) \<longrightarrow> select_window son z (obs @ later) c cfg now = Inr w)"
proof -
  note w = select_window_Inr[OF assms]
  have "set w \<subseteq> {p \<in> set obs. pair_available_at p \<le> now}"
    using set_take_last[of "ps_training_bars cfg + 1" "available_pairs obs now"] by (simp add: w(1) available_pairs_set)
  then show ?thesis using w assms by (auto simp: select_window_later subset_iff)
qed

subsection \<open>What a fit promises\<close>

lemma fsqrt_pos_or_zero: "0 \<le> population_std xs"
  by (simp add: population_std_def Let_def fsqrt_nonneg)

lemma ratio_ge_one: "0 < a \<Longrightarrow> 0 < b \<Longrightarrow> 1 \<le> fl (max a b / min a b)" for a b :: rat
  by (intro flr.ge_one) (simp add: max_def min_def)

lemma abs_ratio_nonneg: "0 \<le> y \<Longrightarrow> 0 \<le> fl (\<bar>x\<bar> / y)" for x y :: rat
  by (intro flr.nonneg) simp

text \<open>The hedge leaves at most the whole gross exposure open.\<close>

lemma net_gross_bounds: "0 < beta \<Longrightarrow> 0 \<le> net_gross beta \<and> net_gross beta \<le> 1"
proof -
  assume b: "0 < beta"
  then have p: "0 < fl (1 + beta)" by (simp add: flr.pos_iff)
  have "\<bar>fl (1 - beta)\<bar> \<le> fl (1 + beta)"
    unfolding flr.abs_eq using b by (intro flr.mono) (simp add: abs_le_iff)
  then show ?thesis using p by (auto simp: net_gross_def intro!: flr.nonneg flr.le_one)
qed

lemma fit_pair_Inr:
  assumes "fit_pair lg tests_of h cfg training = Inr f"
  obtains left right intercept beta spread where
    "length training = ps_training_bars cfg" "left = map (\<lambda>p. lg (fl (b_close (po_left p)))) training"
    "right = map (\<lambda>p. lg (fl (b_close (po_right p)))) training" "ols left right = Inr (intercept, beta)" "0 < beta"
    "spread = map2 (\<lambda>a b. fl (a - fl (beta * b))) left right" "ps_min_spread_std cfg < population_std spread"
    "fit_spread lg tests_of h cfg training left right intercept beta spread (population_std spread) = Inr f"
  using assms by (auto simp: fit_pair_def Let_def result_simps not_le split: if_splits)

lemma split_spread_Inr:
  "split_spread cfg spread k = Inr (a, b) \<Longrightarrow>
   a = population_std (take k spread) \<and> b = population_std (drop k spread) \<and> ps_min_spread_std cfg < min a b"
  by (auto simp: split_spread_def Let_def split: if_splits)

text \<open>
  A fit is of its type: the hedge ratio is positive, the spread varies more than the configured minimum, the
  stability measures lie in their ranges (the ratio of the halves is at least one, the drifts are not
  negative), the hedge leaves between none and all of the gross exposure open, and the fit covers exactly
  the configured training bars, from the first to the last one given.
\<close>

theorem fit_pair_type:
  assumes "fit_pair lg tests_of h cfg training = Inr f" and "0 \<le> ps_min_spread_std cfg"
  shows "0 < pf_beta f \<and> ps_min_spread_std cfg < pf_spread_std f \<and> 1 \<le> pf_spread_std_ratio f
    \<and> 0 \<le> pf_split_beta_drift f \<and> 0 \<le> pf_spread_mean_shift f
    \<and> 0 \<le> net_gross (pf_beta f) \<and> net_gross (pf_beta f) \<le> 1
    \<and> pf_observations f = ps_training_bars cfg \<and> length training = ps_training_bars cfg
    \<and> pf_training_start f = b_start (po_left (hd training)) \<and> pf_training_end f = b_end (po_left (last training))
    \<and> pf_training_hash f = h training"
proof -
  from fit_pair_Inr[OF assms(1)] obtain left right intercept beta spread where len: "length training = ps_training_bars cfg"
    and beta: "0 < beta" and std: "ps_min_spread_std cfg < population_std spread"
    and f: "fit_spread lg tests_of h cfg training left right intercept beta spread (population_std spread) = Inr f"
    by metis
  obtain a b where ab: "split_spread cfg spread (length training div 2) = Inr (a, b)"
    using f by (auto simp: fit_spread_def Let_def result_simps)
  have pos: "0 < a" "0 < b" using split_spread_Inr[OF ab] assms(2) by auto
  have "pf_beta f = beta" "pf_spread_std f = population_std spread" "pf_observations f = length training"
    "pf_spread_std_ratio f = fl (max a b / min a b)" "\<exists>x. pf_split_beta_drift f = fl (\<bar>x\<bar> / \<bar>beta\<bar>)"
    "\<exists>x. pf_spread_mean_shift f = fl (\<bar>x\<bar> / population_std spread)"
    "pf_training_start f = b_start (po_left (hd training))" "pf_training_end f = b_end (po_left (last training))"
    "pf_training_hash f = h training"
    using f ab by (auto simp: fit_spread_def mk_pair_fit_def Let_def result_simps split: if_splits)
  then show ?thesis
    using beta std len ratio_ge_one[OF pos] net_gross_bounds[OF beta] abs_ratio_nonneg fsqrt_pos_or_zero by auto
qed

subsection \<open>A concrete pair\<close>

text \<open>The first-order part of the logarithm stands for \<open>math.log\<close>.\<close>

definition example_log :: "rat \<Rightarrow> rat" where
  "example_log x = fl (x - 1)"

definition example_pairs :: pairs_settings where
  "example_pairs =
     \<lparr>ps_version = ''v'', ps_enabled = True, ps_training_bars = 16, ps_test_lags = 1, ps_significance = 1 / 16,
      ps_min_beta = 1 / 2, ps_max_beta = 2, ps_max_beta_drift = 1 / 4, ps_min_spread_std = 1 / 1024,
      ps_max_spread_std_ratio = 2, ps_max_spread_mean_shift = 1, ps_min_half_life_bars = 1 / 2,
      ps_max_half_life_bars = 8, ps_entry_z = 2, ps_exit_z = 1 / 2, ps_stop_z = 4, ps_max_hold_minutes = 60,
      ps_max_net_gross_fraction = 1 / 4, ps_max_spread_bps = 16, ps_quote_max_age_seconds = 4,
      ps_max_bar_lag_seconds = 30, ps_min_adv = 100, ps_min_turnover = 1000,
      ps_liquidity_metadata_max_age_seconds = 86400, ps_max_leg_lag_seconds = 4\<rparr>"

definition example_pair :: pair_candidate where
  "example_pair =
     \<lparr>pc_pair_id = ''AB'', pc_left = \<lparr>ir_instrument_id = ''A'', ir_source = ''vendor''\<rparr>,
      pc_right = \<lparr>ir_instrument_id = ''B'', ir_source = ''vendor''\<rparr>, pc_economic_tags = [''t''],
      pc_left_sector = ''IT'', pc_right_sector = ''BANK'', pc_rationale = ''r'', pc_source_reference = ''s'',
      pc_known_at = 0, pc_effective_from = 0, pc_effective_to = 2 * example_open, pc_reviewed_at = 0,
      pc_corporate_actions_clear = True, pc_adjustment_snapshot = ''a''\<rparr>"

definition example_pair_row :: "nat \<Rightarrow> rat \<Rightarrow> rat \<Rightarrow> pair_observation" where
  "example_pair_row k x y =
     (let t = example_open + int k * 300000000 in
      \<lparr>po_left = example_reversal_bar t x x x x 1,
       po_right = (example_reversal_bar t y y y y 1)\<lparr>b_instrument_id := ''B''\<rparr>\<rparr>)"

definition example_pair_rows :: "pair_observation list" where
  "example_pair_rows = map (\<lambda>(k, s). let y = (if even k then 128 else 132) in example_pair_row k (y + s) y)
     (zip [0..<17] [0, 21, 27, - 9, - 21, - 6, - 6, - 6, 13, 23, 11, 3, - 14, - 26, - 10, 0, 45])"

definition example_pair_time :: instant where
  "example_pair_time = 1783401000000000"

definition example_pair_tests :: diagnostics where
  "example_pair_tests left right spread lags =
     Inr \<lparr>st_method_version = ''m'', st_cointegration_p = 1 / 64, st_spread_adf_p = 1 / 64, st_left_level_adf_p = 1 / 2,
       st_right_level_adf_p = 1 / 2\<rparr>"

definition example_fit :: pair_fit where
  "example_fit =
     \<lparr>pf_beta = 1, pf_intercept = 0, pf_spread_mean = 0, pf_spread_std = 15,
      pf_half_life_bars = Some (2), pf_split_beta_drift = 0, pf_spread_std_ratio = 1,
      pf_spread_mean_shift = 0,
      pf_tests = \<lparr>st_method_version = ''m'', st_cointegration_p = 1 / 64, st_spread_adf_p = 1 / 64,
        st_left_level_adf_p = 1 / 2, st_right_level_adf_p = 1 / 2\<rparr>,
      pf_training_start = example_open, pf_training_end = example_open + 4800000000, pf_training_hash = ''t'',
      pf_observations = 16\<rparr>"

text \<open>The arithmetic of the fit on small dyadic numbers is exact.\<close>

lemmas float_eval = fmean_def float_sum_code fl_small_dyadic small_dyadic_def covariance_def population_std_def fsquare_def

definition example_left :: "rat list" where
  "example_left = [127, 152, 154, 122, 106, 125, 121, 125, 140, 154, 138, 134, 113, 105, 117, 131]"

definition example_right :: "rat list" where
  "example_right = [127, 131, 127, 131, 127, 131, 127, 131, 127, 131, 127, 131, 127, 131, 127, 131]"

definition example_spread :: "rat list" where
  "example_spread = [0, 21, 27, - 9, - 21, - 6, - 6, - 6, 13, 23, 11, 3, - 14, - 26, - 10, 0]"

lemma example_legs:
  "map (\<lambda>p. example_log (fl (b_close (po_left p)))) (butlast example_pair_rows) = example_left"
  "map (\<lambda>p. example_log (fl (b_close (po_right p)))) (butlast example_pair_rows) = example_right"
  by (simp_all add: example_left_def example_right_def example_pair_rows_def example_pair_row_def example_reversal_bar_def
      example_log_def upt_rec Let_def fl_small_dyadic small_dyadic_def)

lemma tiny: "fl (1 / 1000000000000000) < 1"
  by code_simp

lemma roots: "fsqrt 225 = 15" "example_log 2 = 1" "example_log (1 / 2) = - 1 / 2" "fl (1 / 2) = 1 / 2"
  by code_simp+

lemma example_lines:
  "ols example_left example_right = Inr (0, 1)"
  "ols (take 8 example_left) (take 8 example_right) = Inr (0, 1)"
  "ols (drop 8 example_left) (drop 8 example_right) = Inr (0, 1)"
  "ols (tl example_spread) (butlast example_spread) = Inr (0, 1 / 2)"
  using tiny by (simp_all add: roots ols_def float_eval example_left_def example_right_def example_spread_def)

lemma example_spread_of: "map2 (\<lambda>a b. fl (a - fl b)) example_left example_right = example_spread"
  by (simp add: float_eval example_left_def example_right_def example_spread_def)

lemma example_stds:
  "population_std example_spread = 15" "split_spread example_pairs example_spread 8 = Inr (15, 15)"
  "fmean example_spread = 0" "fmean (take 8 example_spread) = 0" "fmean (drop 8 example_spread) = 0"
  by (simp_all add: split_spread_def example_pairs_def float_eval roots example_spread_def)

lemma example_half_life: "half_life_of example_log (1 / 2) = Inr (Some 2)"
  by (simp add: half_life_of_def fdiv_def roots float_eval)

lemma example_fit_pair:
  "fit_pair example_log example_pair_tests (\<lambda>_. ''t'') example_pairs (butlast example_pair_rows)
   = Inr example_fit"
proof -
  have "length (butlast example_pair_rows) = 16" "b_start (po_left (hd (butlast example_pair_rows))) = example_open"
    "b_end (po_left (last (butlast example_pair_rows))) = example_open + 4800000000"
    by (code_simp, code_simp, code_simp)
  then show ?thesis
    by (simp add: fit_pair_def Let_def example_legs example_lines example_spread_of example_stds example_half_life
        fit_spread_def example_pairs_def[THEN arg_cong[of _ _ ps_training_bars]] example_pairs_def[THEN arg_cong[of _ _ ps_min_spread_std]]
        example_pair_tests_def mk_pair_fit_def example_fit_def float_eval(3,4))
qed

lemma example_pair_window:
  "select_window (session_on nse_2026) kolkata example_pair_rows example_pair example_pairs example_pair_time
   = Inr example_pair_rows"
proof -
  have "take_last (ps_training_bars example_pairs + 1) (available_pairs example_pair_rows example_pair_time) = example_pair_rows"
    by code_simp
  moreover have "ps_training_bars example_pairs + 1 \<le> length (available_pairs example_pair_rows example_pair_time)" by code_simp
  moreover have "rmap (check_row example_pair example_pair_time) example_pair_rows = Inr (replicate 17 ())" by code_simp
  moreover have "expected_slots (session_on nse_2026) kolkata (b_start (po_left (hd example_pair_rows)))
      (b_end (po_left (last example_pair_rows))) = Inr (map (\<lambda>p. b_start (po_left p)) example_pair_rows)" by code_simp
  moreover have "0 \<le> total_seconds (example_pair_time - b_end (po_left (last example_pair_rows)))
      \<and> total_seconds (example_pair_time - b_end (po_left (last example_pair_rows))) \<le> ps_max_bar_lag_seconds example_pairs
      \<and> \<not> b_start (po_left (hd example_pair_rows)) < pc_effective_from example_pair
      \<and> \<not> 366 < local_day kolkata (b_end (po_left (last example_pair_rows))) - local_day kolkata (b_start (po_left (hd example_pair_rows)))"
    by code_simp
  ultimately show ?thesis by (simp add: select_window_def Let_def)
qed

theorem window_exact_witness:
  "length example_pair_rows = 17 \<and> list_all (row_of_pair example_pair) example_pair_rows
   \<and> select_window (session_on nse_2026) kolkata (example_pair_rows @ [example_pair_row 40 1 1]) example_pair example_pairs
       example_pair_time = Inr example_pair_rows"
proof -
  have "\<forall>p\<in>set [example_pair_row 40 1 1]. example_pair_time < pair_available_at p" by code_simp
  then show ?thesis using window_exact[OF example_pair_window] by (simp add: example_pairs_def list_all_iff)
qed

theorem fit_pair_type_witness:
  "0 < pf_beta example_fit \<and> 0 \<le> net_gross (pf_beta example_fit) \<and> pf_observations example_fit = ps_training_bars example_pairs"
  using fit_pair_type[OF example_fit_pair] by (simp add: example_pairs_def)

end
