(* ===== verification/Pairs_Engine.thy ===== *)
theory Pairs_Engine
  imports Pairs
begin

text \<open>
  \<open>alphas/pairs_engine.py\<close> with the intent and evaluation records of \<open>alphas/pairs_models.py\<close>: one evaluation of a
  pair, to enter when no position is given and to hold or exit when one is.
\<close>

subsection \<open>Intents and evaluations\<close>

definition mk_leg :: "intent_leg \<Rightarrow> intent_leg result" where
  "mk_leg l =
     (if 0 < il_gross_fraction l \<and> il_gross_fraction l < 1 then Inr l
      else Inl (ValueError ''validation error for PairLeg''))"

record combined_risk =
  cr_spread_mean :: rat
  cr_spread_std :: rat
  cr_current_spread :: rat
  cr_current_z :: rat
  cr_adverse_boundary_z :: rat
  cr_maximum_hold_until :: instant
  cr_net_gross_fraction :: rat

definition mk_combined_risk :: "combined_risk \<Rightarrow> combined_risk result" where
  "mk_combined_risk r =
     (if 0 < cr_spread_std r \<and> 0 \<le> cr_net_gross_fraction r \<and> cr_net_gross_fraction r < 1 then Inr r
      else Inl (ValueError ''validation error for CombinedRiskReference''))"

record pair_signal =
  pg_signal_id :: uuid
  pg_timestamp :: instant
  pg_pair_id :: string
  pg_action :: intent_action
  pg_direction :: spread_direction
  pg_left :: intent_leg
  pg_right :: intent_leg
  pg_hedge_ratio :: rat
  pg_risk_reference :: combined_risk
  pg_max_leg_lag_seconds :: rat
  pg_reasons :: "string list"
  pg_fit :: pair_fit
  pg_settings :: pairs_settings
  pg_candidate :: pair_candidate
  pg_input_hash :: string
  pg_universe_hash :: string
  pg_state_hash :: string
  pg_code_commit :: string
  pg_config_hash :: string
  pg_data_snapshot :: string

definition opposite :: "side \<Rightarrow> side" where
  "opposite s = (if s = LONG then SHORT else LONG)"

text \<open>The side of the left leg: an exit reverses the entry.\<close>

definition left_side :: "spread_direction \<Rightarrow> intent_action \<Rightarrow> side" where
  "left_side d a =
     (let entry = (if d = LONG_SPREAD then LONG else SHORT) in if a = ENTER then entry else opposite entry)"

definition coupled :: "pair_signal \<Rightarrow> bool" where
  "coupled s \<longleftrightarrow>
     (let l = pg_left s; r = pg_right s; c = pg_candidate s in
      il_instrument_id l = ir_instrument_id (pc_left c) \<and> il_instrument_id r = ir_instrument_id (pc_right c)
      \<and> il_side l = left_side (pg_direction s) (pg_action s) \<and> il_side l \<noteq> il_side r
      \<and> isclose (fl (il_gross_fraction l + il_gross_fraction r)) 1 0
      \<and> isclose (fl (il_gross_fraction r / il_gross_fraction l)) (pg_hedge_ratio s) 0
      \<and> pf_beta (pg_fit s) = pg_hedge_ratio s \<and> pg_pair_id s = pc_pair_id c)"

definition mk_pair_signal :: "pair_signal \<Rightarrow> pair_signal result" where
  "mk_pair_signal s =
     (if \<not> (0 < pg_hedge_ratio s \<and> 0 < pg_max_leg_lag_seconds s) then
        Inl (ValueError ''validation error for PairSignalIntent'')
      else if \<not> coupled s then Inl (ValueError ''pair legs must match the indivisible hedge intent'')
      else Inr s)"

record pair_evaluation =
  pe_timestamp :: instant
  pe_pair_id :: string
  pe_intent :: "pair_signal option"
  pe_fit :: "pair_fit option"
  pe_zscore :: "rat option"
  pe_accepted_relationship :: bool
  pe_reasons :: "string list"
  pe_open_risk_attention :: bool
  pe_input_hash :: string
  pe_settings :: pairs_settings
  pe_code_commit :: string
  pe_data_snapshot :: string

record pair_hashes =
  ph_candidate :: "pair_candidate \<Rightarrow> string"
  ph_inputs :: "pair_candidate \<Rightarrow> pair_observation list \<Rightarrow> pair_liquidity \<times> pair_liquidity \<Rightarrow> pair_position option \<Rightarrow> string"
  ph_training :: "pair_observation list \<Rightarrow> string"
  ph_universe :: "universe_snapshot \<Rightarrow> string"
  ph_state :: "state_decision \<Rightarrow> string"
  ph_uuid5 :: "string \<Rightarrow> uuid"

subsection \<open>Inputs\<close>

definition pair_metadata_ok :: "pair_candidate \<Rightarrow> instant \<Rightarrow> instant \<Rightarrow> bool" where
  "pair_metadata_ok c opn now \<longleftrightarrow> pc_known_at c \<le> opn \<and> pc_reviewed_at c \<le> opn
     \<and> pc_effective_from c \<le> now \<and> now < pc_effective_to c \<and> pc_corporate_actions_clear c"

definition pair_universe_bad :: "zone \<Rightarrow> universe_snapshot \<Rightarrow> instrument_master \<Rightarrow> instant \<Rightarrow> bool result" where
  "pair_universe_bad z u m now =
     (if un_as_of u \<noteq> local_day z now \<or> im_as_of m \<noteq> local_day z now then Inr True
      else rbind (utc (un_generated_at u)) (\<lambda>ug.
        if now < ug then Inr True
        else rbind (utc (im_generated_at m)) (\<lambda>mg.
          Inr (now < mg \<or> un_instrument_snapshot_id u \<noteq> im_snapshot_id m))))"

definition leg_eligible ::
  "universe_snapshot \<Rightarrow> instrument_master \<Rightarrow> day \<Rightarrow> instrument_ref \<times> string \<Rightarrow> bool" where
  "leg_eligible u m d p =
     (case p of (r, sector) \<Rightarrow>
        (case dict_of in_token (im_instruments m) (ir_instrument_id r) of
           None \<Rightarrow> False
         | Some i \<Rightarrow> ir_instrument_id r \<in> set (un_long_tokens u) \<and> \<not> instrument_ineligible i d \<and> in_sector i = sector))"

definition position_valid :: "pair_position \<Rightarrow> pair_candidate \<Rightarrow> instant \<Rightarrow> instant \<Rightarrow> bool" where
  "position_valid p c opn now \<longleftrightarrow> pp_pair_id p = pc_pair_id c \<and> opn \<le> pp_opened_at p \<and> pp_opened_at p \<le> now
     \<and> pf_training_end (pp_entry_fit p) < pp_opened_at p \<and> 0 < pf_beta (pp_entry_fit p)"

record pair_inputs =
  pn_window :: "pair_observation list"
  pn_flatten_at :: instant
  pn_final_entry :: instant

definition pair_guards ::
  "zone \<Rightarrow> pair_candidate \<Rightarrow> universe_snapshot \<Rightarrow> instrument_master \<Rightarrow> instant \<Rightarrow> instant \<Rightarrow> instant \<Rightarrow> unit result" where
  "pair_guards z c u m opn closing now =
     rbind (ensure (opn \<le> now \<and> now \<le> closing) (ValueError ''OUTSIDE_SESSION'')) (\<lambda>_.
     rbind (ensure (pair_metadata_ok c opn now) (ValueError ''PAIR_METADATA_OR_CORPORATE_ACTION_AMBIGUITY'')) (\<lambda>_.
     rbind (pair_universe_bad z u m now) (\<lambda>bad.
     rbind (ensure (\<not> bad) (ValueError ''UNIVERSE_UNAVAILABLE'')) (\<lambda>_.
     rbind (ensure (count_distinct (map in_token (im_instruments m)) = length (im_instruments m))
        (ValueError ''AMBIGUOUS_MASTER'')) (\<lambda>_.
     ensure (list_all (leg_eligible u m (local_day z now)) [(pc_left c, pc_left_sector c), (pc_right c, pc_right_sector c)])
        (ValueError ''PAIR_INSTRUMENT_INELIGIBLE''))))))"

definition pair_inputs_of ::
  "(day \<Rightarrow> session option result) \<Rightarrow> zone \<Rightarrow> pairs_settings \<Rightarrow> pair_candidate \<Rightarrow> pair_observation list
     \<Rightarrow> universe_snapshot \<Rightarrow> instrument_master \<Rightarrow> instant \<Rightarrow> pair_position option \<Rightarrow> pair_inputs result" where
  "pair_inputs_of son z cfg c obs u m now position =
     rbind (session_bounds son z now) (\<lambda>bounds. case bounds of
       None \<Rightarrow> Inl (ValueError ''SESSION_UNAVAILABLE'')
     | Some (opn, closing) \<Rightarrow>
         rbind (son (local_day z now)) (\<lambda>s. case s of
           None \<Rightarrow> Inl (ValueError ''SESSION_UNAVAILABLE'')
         | Some se \<Rightarrow>
             rbind (pair_guards z c u m opn closing now) (\<lambda>_.
             rbind (select_window son z obs c cfg now) (\<lambda>window.
             rbind (ensure (pred_option (\<lambda>p. position_valid p c opn now) position)
               (ValueError ''INVALID_RESEARCH_POSITION'')) (\<lambda>_.
             Inr \<lparr>pn_window = window, pn_flatten_at = time_of_session se (se_date se) flatten_start_time,
                  pn_final_entry = time_of_session se (se_date se) final_entry_time\<rparr>)))))"

text \<open>\<open>except (ValueError, RuntimeError)\<close>: those exceptions are no inputs, any other escapes.\<close>

definition inputs_or_none :: "'a result \<Rightarrow> 'a option result" where
  "inputs_or_none r =
     (case r of
        Inr x \<Rightarrow> Inr (Some x)
      | Inl e \<Rightarrow> (case e of ValueError t \<Rightarrow> Inr None | RuntimeError t \<Rightarrow> Inr None
                 | CalendarCoverageError t \<Rightarrow> Inr None | _ \<Rightarrow> Inl e))"

subsection \<open>Decisions\<close>

definition beta_drifted :: "pairs_settings \<Rightarrow> rat \<Rightarrow> rat \<Rightarrow> bool" where
  "beta_drifted cfg beta active \<longleftrightarrow> ps_max_beta_drift cfg < fl (\<bar>fl (beta - active)\<bar> / active)"

definition spread_adverse :: "pairs_settings \<Rightarrow> spread_direction \<Rightarrow> rat \<Rightarrow> bool" where
  "spread_adverse cfg d zs \<longleftrightarrow> (if d = SHORT_SPREAD then ps_stop_z cfg \<le> zs else zs \<le> - ps_stop_z cfg)"

text \<open>Why a position is closed: the first condition in the order of the code; none means to hold.\<close>

definition pair_exit_reasons ::
  "pairs_settings \<Rightarrow> instant \<Rightarrow> instant \<Rightarrow> pair_position \<Rightarrow> string list \<Rightarrow> rat \<Rightarrow> bool \<Rightarrow> bool \<Rightarrow> rat \<Rightarrow> string list" where
  "pair_exit_reasons cfg now flatten_at p rejected beta is_liquid permitted zs =
     (if flatten_at \<le> now then [''SESSION_FLATTEN'']
      else if pp_opened_at p + minutes (ps_max_hold_minutes cfg) \<le> now then [''MAX_HOLD'']
      else if rejected \<noteq> [] \<or> beta_drifted cfg beta (pf_beta (pp_entry_fit p)) then ''STRUCTURAL_BREAK'' # rejected
      else if \<not> is_liquid then [''LIQUIDITY_DETERIORATION'']
      else if \<not> permitted then [''STATE_PERMISSION_WITHDRAWN'']
      else if spread_adverse cfg (pp_direction p) zs then [''SPREAD_ADVERSE_BOUNDARY'']
      else if \<bar>zs\<bar> \<le> ps_exit_z cfg \<or> fl (zs * pp_entry_z p) \<le> 0 then [''SPREAD_REVERSION'']
      else [])"

text \<open>Why a pair is not entered.\<close>

definition pair_entry_blocks ::
  "pairs_settings \<Rightarrow> instant \<Rightarrow> instant \<Rightarrow> string list \<Rightarrow> bool \<Rightarrow> bool \<Rightarrow> rat \<Rightarrow> string list" where
  "pair_entry_blocks cfg now final_entry_at rejected is_liquid permitted zs =
     rejected @ (if \<not> is_liquid then [''POOR_LIQUIDITY''] else [])
     @ (if \<not> permitted \<or> final_entry_at \<le> now then [''STATE_OR_ENTRY_WINDOW_BLOCKED''] else [])
     @ (if ps_stop_z cfg \<le> \<bar>zs\<bar> then [''EXTREME_SPREAD''] else [])"

definition pair_empty ::
  "pairs_settings \<Rightarrow> pair_candidate \<Rightarrow> state_decision \<Rightarrow> pair_position option \<Rightarrow> instant \<Rightarrow> string \<Rightarrow> string list
     \<Rightarrow> pair_evaluation" where
  "pair_empty cfg c state position now digest rs =
     \<lparr>pe_timestamp = now, pe_pair_id = pc_pair_id c, pe_intent = None, pe_fit = None, pe_zscore = None,
      pe_accepted_relationship = False, pe_reasons = rs, pe_open_risk_attention = position \<noteq> None,
      pe_input_hash = digest, pe_settings = cfg, pe_code_commit = sd_code_commit state,
      pe_data_snapshot = sd_data_snapshot state\<rparr>"

definition pair_signal_of ::
  "pair_hashes \<Rightarrow> pairs_settings \<Rightarrow> pair_candidate \<Rightarrow> universe_snapshot \<Rightarrow> state_decision \<Rightarrow> instant \<Rightarrow> string
     \<Rightarrow> pair_inputs \<Rightarrow> pair_position option \<Rightarrow> pair_fit \<Rightarrow> rat \<times> rat \<Rightarrow> intent_action \<Rightarrow> spread_direction \<Rightarrow> string list
     \<Rightarrow> pair_signal result" where
  "pair_signal_of H cfg c u state now digest inp position f sz action direction rs =
     (let beta = pf_beta f; ls = left_side direction action in
      rbind (mk_leg \<lparr>il_instrument_id = ir_instrument_id (pc_left c), il_side = ls,
        il_gross_fraction = fl (1 / fl (1 + beta))\<rparr>) (\<lambda>left.
      rbind (mk_leg \<lparr>il_instrument_id = ir_instrument_id (pc_right c), il_side = opposite ls,
        il_gross_fraction = fl (beta / fl (1 + beta))\<rparr>) (\<lambda>right.
      rbind (mk_combined_risk
        \<lparr>cr_spread_mean = pf_spread_mean f, cr_spread_std = pf_spread_std f, cr_current_spread = fst sz,
         cr_current_z = snd sz,
         cr_adverse_boundary_z = (if direction = SHORT_SPREAD then ps_stop_z cfg else - ps_stop_z cfg),
         cr_maximum_hold_until = min (pn_flatten_at inp)
           ((case position of Some p \<Rightarrow> pp_opened_at p | None \<Rightarrow> now) + minutes (ps_max_hold_minutes cfg)),
         cr_net_gross_fraction = net_gross beta\<rparr>) (\<lambda>risk.
      mk_pair_signal
        \<lparr>pg_signal_id = ph_uuid5 H (''godzilla:pairs:'' @ pc_pair_id c @ '':'' @ iso_instant now), pg_timestamp = now,
         pg_pair_id = pc_pair_id c, pg_action = action, pg_direction = direction, pg_left = left, pg_right = right,
         pg_hedge_ratio = beta, pg_risk_reference = risk, pg_max_leg_lag_seconds = ps_max_leg_lag_seconds cfg,
         pg_reasons = rs, pg_fit = f, pg_settings = cfg, pg_candidate = c, pg_input_hash = digest,
         pg_universe_hash = ph_universe H u, pg_state_hash = ph_state H state, pg_code_commit = sd_code_commit state,
         pg_config_hash = sd_config_hash state, pg_data_snapshot = sd_data_snapshot state\<rparr>))))"

definition pair_emit ::
  "pair_hashes \<Rightarrow> pairs_settings \<Rightarrow> pair_candidate \<Rightarrow> universe_snapshot \<Rightarrow> state_decision \<Rightarrow> instant \<Rightarrow> string
     \<Rightarrow> pair_inputs \<Rightarrow> pair_position option \<Rightarrow> pair_fit \<Rightarrow> pair_fit \<Rightarrow> string list \<Rightarrow> rat \<times> rat \<Rightarrow> intent_action
     \<Rightarrow> spread_direction \<Rightarrow> string list \<Rightarrow> pair_evaluation result" where
  "pair_emit H cfg c u state now digest inp position f active rejected sz action direction rs =
     rbind (pair_signal_of H cfg c u state now digest inp position active sz action direction rs) (\<lambda>s.
     Inr ((pair_empty cfg c state position now digest rs)
       \<lparr>pe_intent := Some s, pe_fit := Some f, pe_zscore := Some (snd sz), pe_accepted_relationship := (rejected = []),
        pe_open_risk_attention := (action = EXIT)\<rparr>))"

definition pair_hold ::
  "pairs_settings \<Rightarrow> pair_candidate \<Rightarrow> state_decision \<Rightarrow> pair_position option \<Rightarrow> instant \<Rightarrow> string \<Rightarrow> pair_fit
     \<Rightarrow> string list \<Rightarrow> rat \<Rightarrow> string \<Rightarrow> pair_evaluation" where
  "pair_hold cfg c state position now digest f rejected zs r =
     (pair_empty cfg c state position now digest [r])
       \<lparr>pe_fit := Some f, pe_zscore := Some zs, pe_accepted_relationship := (rejected = []),
        pe_open_risk_attention := False\<rparr>"

definition pair_exit ::
  "(rat \<Rightarrow> rat) \<Rightarrow> pair_hashes \<Rightarrow> pairs_settings \<Rightarrow> pair_candidate \<Rightarrow> pair_liquidity \<times> pair_liquidity \<Rightarrow> universe_snapshot
     \<Rightarrow> state_decision \<Rightarrow> instant \<Rightarrow> string \<Rightarrow> pair_inputs \<Rightarrow> pair_fit \<Rightarrow> string list \<Rightarrow> pair_position \<Rightarrow> pair_evaluation result" where
  "pair_exit lg H cfg c ls u state now digest inp f rejected p =
     (let active = pp_entry_fit p; sz = spread_z lg (last (pn_window inp)) active;
          rs = pair_exit_reasons cfg now (pn_flatten_at inp) p rejected (pf_beta f) (liquid ls c cfg now)
                 (state_permits PAIRS_STAT_ARB now state) (snd sz)
      in if rs = [] then Inr (pair_hold cfg c state (Some p) now digest f rejected (snd sz) ''HOLD'')
         else pair_emit H cfg c u state now digest inp (Some p) f active rejected sz EXIT (pp_direction p) rs)"

definition entry_direction :: "rat \<Rightarrow> spread_direction" where
  "entry_direction zs = (if 0 < zs then SHORT_SPREAD else LONG_SPREAD)"

definition pair_enter ::
  "(rat \<Rightarrow> rat) \<Rightarrow> pair_hashes \<Rightarrow> pairs_settings \<Rightarrow> pair_candidate \<Rightarrow> pair_liquidity \<times> pair_liquidity \<Rightarrow> universe_snapshot
     \<Rightarrow> instrument_master \<Rightarrow> state_decision \<Rightarrow> instant \<Rightarrow> string \<Rightarrow> pair_inputs \<Rightarrow> pair_fit \<Rightarrow> string list
     \<Rightarrow> pair_evaluation result" where
  "pair_enter lg H cfg c ls u m state now digest inp f rejected =
     (let sz = spread_z lg (last (pn_window inp)) f; zs = snd sz; direction = entry_direction zs;
          blocks = pair_entry_blocks cfg now (pn_final_entry inp) rejected (liquid ls c cfg now)
            (state_permits PAIRS_STAT_ARB now state) zs;
          short_id = ir_instrument_id (if left_side direction ENTER = SHORT then pc_left c else pc_right c)
      in if blocks \<noteq> [] then
           Inr ((pair_empty cfg c state None now digest blocks)
             \<lparr>pe_fit := Some f, pe_zscore := Some zs, pe_accepted_relationship := (rejected = [])\<rparr>)
         else if \<not> ps_entry_z cfg \<le> \<bar>zs\<bar> then
           Inr (pair_hold cfg c state None now digest f rejected zs ''NO_ENTRY_THRESHOLD'')
         else if \<not> short_allowed u m short_id then
           Inr ((pair_empty cfg c state None now digest [''SHORT_ROUTE_INELIGIBLE''])
             \<lparr>pe_fit := Some f, pe_zscore := Some zs\<rparr>)
         else pair_emit H cfg c u state now digest inp None f f rejected sz ENTER direction
           [if 0 < zs then ''POSITIVE_SPREAD_SHORT'' else ''NEGATIVE_SPREAD_LONG''])"

definition pair_evaluate ::
  "(rat \<Rightarrow> rat) \<Rightarrow> diagnostics \<Rightarrow> pair_hashes \<Rightarrow> (day \<Rightarrow> session option result) \<Rightarrow> zone \<Rightarrow> pairs_settings \<Rightarrow> pair_candidate
     \<Rightarrow> pair_observation list \<Rightarrow> pair_liquidity \<times> pair_liquidity \<Rightarrow> universe_snapshot \<Rightarrow> instrument_master
     \<Rightarrow> state_decision \<Rightarrow> pydatetime \<Rightarrow> trading_mode \<Rightarrow> pair_position option \<Rightarrow> pair_evaluation result" where
  "pair_evaluate lg tests_of H son z cfg c obs ls u m state at1 mode position =
     rbind (utc at1) (\<lambda>now.
     let early = (\<lambda>r. Inr (pair_empty cfg c state position now (ph_candidate H c) [r])) in
     if mode = LIVE then early ''PAIR_LIVE_DISABLED''
     else if \<not> ps_enabled cfg then early ''ALPHA_DISABLED''
     else rbind (inputs_or_none (pair_inputs_of son z cfg c obs u m now position)) (\<lambda>inputs. case inputs of
         None \<Rightarrow> early ''INPUT_UNAVAILABLE_OR_AMBIGUOUS''
       | Some inp \<Rightarrow>
           let digest = ph_inputs H c (pn_window inp) ls position in
           case fit_pair lg tests_of (ph_training H) cfg (butlast (pn_window inp)) of
             Inl e \<Rightarrow> Inr (pair_empty cfg c state position now digest [''STATISTICAL_DIAGNOSTICS_UNAVAILABLE''])
           | Inr f \<Rightarrow>
               (case position of
                  Some p \<Rightarrow> pair_exit lg H cfg c ls u state now digest inp f (relationship_rejections f cfg) p
                | None \<Rightarrow> pair_enter lg H cfg c ls u m state now digest inp f (relationship_rejections f cfg))))"

subsection \<open>Stages of an evaluation\<close>

lemma inputs_or_none_Some: "inputs_or_none r = Inr (Some x) \<longleftrightarrow> r = Inr x"
  by (auto simp: inputs_or_none_def split: sum.splits py_error.splits)

lemma pair_empty_simps [simp]:
  "pe_timestamp (pair_empty cfg c state position now digest rs) = now"
  "pe_intent (pair_empty cfg c state position now digest rs) = None"
  "pe_reasons (pair_empty cfg c state position now digest rs) = rs"
  "pe_open_risk_attention (pair_empty cfg c state position now digest rs) = (position \<noteq> None)"
  by (simp_all add: pair_empty_def)

text \<open>An evaluation either answers with no intent and leaves an open position in attention, or it decides on a fit.\<close>

lemma pair_evaluate_cases:
  assumes "pair_evaluate lg tests_of H son z cfg c obs ls u m state at1 mode position = Inr r"
  obtains
    (Answer) now digest reason where "utc at1 = Inr now" "r = pair_empty cfg c state position now digest [reason]"
      "reason \<noteq> ''HOLD''"
  | (Decision) now inp f digest where "utc at1 = Inr now" "mode \<noteq> LIVE" "ps_enabled cfg"
      "pair_inputs_of son z cfg c obs u m now position = Inr inp"
      "fit_pair lg tests_of (ph_training H) cfg (butlast (pn_window inp)) = Inr f"
      "(case position of
          Some p \<Rightarrow> pair_exit lg H cfg c ls u state now digest inp f (relationship_rejections f cfg) p
        | None \<Rightarrow> pair_enter lg H cfg c ls u m state now digest inp f (relationship_rejections f cfg)) = Inr r"
proof -
  obtain now where now: "utc at1 = Inr now"
    using assms by (auto simp: pair_evaluate_def result_simps simp del: utc_Inr_iff)
  note ev = assms[unfolded pair_evaluate_def now rbind.simps Let_def]
  have "(\<exists>digest reason. r = pair_empty cfg c state position now digest [reason] \<and> reason \<noteq> ''HOLD'')
    \<or> mode \<noteq> LIVE \<and> ps_enabled cfg \<and> (\<exists>inp f digest. pair_inputs_of son z cfg c obs u m now position = Inr inp
      \<and> fit_pair lg tests_of (ph_training H) cfg (butlast (pn_window inp)) = Inr f
      \<and> (case position of
          Some p \<Rightarrow> pair_exit lg H cfg c ls u state now digest inp f (relationship_rejections f cfg) p
        | None \<Rightarrow> pair_enter lg H cfg c ls u m state now digest inp f (relationship_rejections f cfg)) = Inr r)"
  proof (cases "mode = LIVE \<or> \<not> ps_enabled cfg")
    case True
    then show ?thesis using ev by (auto split: if_splits)
  next
    case False
    then obtain inputs where ins: "inputs_or_none (pair_inputs_of son z cfg c obs u m now position) = Inr inputs"
      using ev by (auto simp: result_simps)
    show ?thesis
    proof (cases inputs)
      case None
      then show ?thesis using ev ins False by auto
    next
      case (Some inp)
      then have inp: "pair_inputs_of son z cfg c obs u m now position = Inr inp" using ins by (simp add: inputs_or_none_Some)
      show ?thesis
        using ev ins False Some inp
        by (cases "fit_pair lg tests_of (ph_training H) cfg (butlast (pn_window inp))") auto
    qed
  qed
  then show thesis using now Answer Decision by blast
qed

lemma pair_inputs_Inr:
  assumes "pair_inputs_of son z cfg c obs u m now position = Inr inp"
  obtains opn closing where "session_bounds son z now = Inr (Some (opn, closing))" "opn \<le> now" "now \<le> closing"
    "leg_eligible u m (local_day z now) (pc_left c, pc_left_sector c)"
    "leg_eligible u m (local_day z now) (pc_right c, pc_right_sector c)"
    "select_window son z obs c cfg now = Inr (pn_window inp)" "pair_metadata_ok c opn now"
    "pred_option (\<lambda>p. position_valid p c opn now) position"
  using assms by (auto simp: pair_inputs_of_def pair_guards_def result_simps split: option.splits)

lemma leg_eligible_long: "leg_eligible u m d (r, sec) \<Longrightarrow> ir_instrument_id r \<in> set (un_long_tokens u)"
  by (auto simp: leg_eligible_def split: option.splits)

lemma mk_pair_signal_Inr: "mk_pair_signal x = Inr s \<Longrightarrow> s = x \<and> coupled s"
  by (auto simp: mk_pair_signal_def split: if_splits)

lemma mk_leg_Inr: "mk_leg x = Inr l \<Longrightarrow> l = x"
  by (auto simp: mk_leg_def split: if_splits)

lemma mk_combined_risk_Inr: "mk_combined_risk x = Inr l \<Longrightarrow> l = x"
  by (auto simp: mk_combined_risk_def split: if_splits)

text \<open>What every signal carries.\<close>

lemma pair_signal_Inr:
  assumes "pair_signal_of H cfg c u state now digest inp position f sz action direction rs = Inr s"
  shows "coupled s" "pg_action s = action" "pg_direction s = direction" "pg_fit s = f" "pg_reasons s = rs"
    "il_instrument_id (pg_left s) = ir_instrument_id (pc_left c)"
    "il_instrument_id (pg_right s) = ir_instrument_id (pc_right c)"
    "il_side (pg_left s) = left_side direction action" "il_side (pg_right s) = opposite (left_side direction action)"
    "cr_maximum_hold_until (pg_risk_reference s) \<le> pn_flatten_at inp" "pg_hedge_ratio s = pf_beta f"
  using assms
  by (auto simp: pair_signal_of_def Let_def result_simps dest!: mk_pair_signal_Inr mk_leg_Inr mk_combined_risk_Inr)

lemma pair_emit_Inr:
  assumes "pair_emit H cfg c u state now digest inp position f active rejected sz action direction rs = Inr r"
  obtains s where "pair_signal_of H cfg c u state now digest inp position active sz action direction rs = Inr s"
    "pe_intent r = Some s" "pe_timestamp r = now" "pe_reasons r = rs" "pe_open_risk_attention r \<longleftrightarrow> action = EXIT"
    "pe_zscore r = Some (snd sz)"
  using assms by (auto simp: pair_emit_def result_simps)

lemma pair_hold_simps [simp]:
  "pe_intent (pair_hold cfg c state position now digest f rejected zs x) = None"
  "pe_reasons (pair_hold cfg c state position now digest f rejected zs x) = [x]"
  "pe_timestamp (pair_hold cfg c state position now digest f rejected zs x) = now"
  "pe_open_risk_attention (pair_hold cfg c state position now digest f rejected zs x) = False"
  by (simp_all add: pair_hold_def)

subsection \<open>Entering\<close>

lemma pair_enter_Inr:
  assumes "pair_enter lg H cfg c ls u m state now digest inp f rejected = Inr r" and "pe_intent r = Some s"
    and "sz = spread_z lg (last (pn_window inp)) f" and "d = entry_direction (snd sz)"
  shows "rejected = []" "liquid ls c cfg now" "state_permits PAIRS_STAT_ARB now state" "now < pn_final_entry inp"
    "ps_entry_z cfg \<le> \<bar>snd sz\<bar>" "\<bar>snd sz\<bar> < ps_stop_z cfg"
    "short_allowed u m (ir_instrument_id (if left_side d ENTER = SHORT then pc_left c else pc_right c))"
    "pe_timestamp r = now"
    "pair_signal_of H cfg c u state now digest inp None f sz ENTER d [if 0 < snd sz then ''POSITIVE_SPREAD_SHORT'' else ''NEGATIVE_SPREAD_LONG'']
      = Inr s"
  using assms
  by (auto simp: pair_enter_def pair_entry_blocks_def Let_def not_le split: if_splits elim!: pair_emit_Inr)

text \<open>
  C34.  A pair is entered only with everything in order: never in LIVE mode, only enabled; the window, metadata,
  universe and session are those of \<open>pair_inputs_of\<close>; the relationship passes every test on the training window,
  which ends before the bar that is judged; both quotes are liquid, the state permits the family, the last entry
  time is not reached; the score lies between the entry and the stop threshold and decides the direction; the two
  legs are of opposite sides, both in the universe, the short one short-eligible, and bound to the fitted hedge;
  and the holding limit does not pass the flattening of the session.
\<close>

theorem pair_admission:
  assumes "pair_evaluate lg tests_of H son z cfg c obs ls u m state at1 mode None = Inr r" and "pe_intent r = Some s"
  shows "mode \<noteq> LIVE \<and> ps_enabled cfg \<and> pg_action s = ENTER \<and> coupled s \<and> il_side (pg_left s) \<noteq> il_side (pg_right s)
    \<and> (\<forall>leg\<in>{pg_left s, pg_right s}. il_instrument_id leg \<in> set (un_long_tokens u)
         \<and> (il_side leg = SHORT \<longrightarrow> short_allowed u m (il_instrument_id leg)))
    \<and> liquid ls c cfg (pe_timestamp r) \<and> state_permits PAIRS_STAT_ARB (pe_timestamp r) state
    \<and> (\<exists>inp f zs.
         pair_inputs_of son z cfg c obs u m (pe_timestamp r) None = Inr inp
         \<and> fit_pair lg tests_of (ph_training H) cfg (butlast (pn_window inp)) = Inr f
         \<and> pg_fit s = f \<and> pg_hedge_ratio s = pf_beta f \<and> relationship_rejections f cfg = []
         \<and> zs = snd (spread_z lg (last (pn_window inp)) f)
         \<and> ps_entry_z cfg \<le> \<bar>zs\<bar> \<and> \<bar>zs\<bar> < ps_stop_z cfg
         \<and> pg_direction s = (if 0 < zs then SHORT_SPREAD else LONG_SPREAD)
         \<and> pe_timestamp r < pn_final_entry inp
         \<and> cr_maximum_hold_until (pg_risk_reference s) \<le> pn_flatten_at inp)"
using assms(1)
proof (cases rule: pair_evaluate_cases)
  case (Answer now digest reason)
  then show ?thesis using assms(2) by simp
next
  case (Decision now inp f digest)
  let ?sz = "spread_z lg (last (pn_window inp)) f"
  let ?d = "entry_direction (snd ?sz)"
  note en = pair_enter_Inr[OF Decision(6)[simplified] assms(2) refl refl]
  note sg = pair_signal_Inr[OF en(9)]
  have legs: "ir_instrument_id (pc_left c) \<in> set (un_long_tokens u)" "ir_instrument_id (pc_right c) \<in> set (un_long_tokens u)"
    using Decision(4) by (auto elim!: pair_inputs_Inr dest: leg_eligible_long)
  have "il_side (pg_left s) \<noteq> il_side (pg_right s)" unfolding sg(8,9) by (simp add: opposite_def)
  moreover have "\<forall>leg\<in>{pg_left s, pg_right s}. il_instrument_id leg \<in> set (un_long_tokens u)
         \<and> (il_side leg = SHORT \<longrightarrow> short_allowed u m (il_instrument_id leg))"
    using legs en(7) by (auto simp: sg(6-9) opposite_def split: if_splits)
  moreover have "pg_direction s = (if 0 < snd ?sz then SHORT_SPREAD else LONG_SPREAD)"
    unfolding sg(3) by (simp add: entry_direction_def)
  ultimately show ?thesis using Decision(2-5) en sg(1,2,4,10,11) unfolding en(8) by blast
qed

subsection \<open>Holding and exiting\<close>

lemma pair_exit_reasons_Nil:
  "pair_exit_reasons cfg now flatten_at p rejected beta is_liquid permitted zs = [] \<longleftrightarrow>
     now < flatten_at \<and> now < pp_opened_at p + minutes (ps_max_hold_minutes cfg) \<and> rejected = []
     \<and> \<not> beta_drifted cfg beta (pf_beta (pp_entry_fit p)) \<and> is_liquid \<and> permitted
     \<and> \<not> spread_adverse cfg (pp_direction p) zs \<and> ps_exit_z cfg < \<bar>zs\<bar> \<and> 0 < fl (zs * pp_entry_z p)"
  by (auto simp: pair_exit_reasons_def)

lemma pair_exit_reasons_no_hold:
  "pair_exit_reasons cfg now flatten_at p rejected beta is_liquid permitted zs \<noteq> [''HOLD'']"
  by (auto simp: pair_exit_reasons_def)

lemma pair_exit_Inr:
  assumes "pair_exit lg H cfg c ls u state now digest inp f rejected p = Inr r"
    and "rs = pair_exit_reasons cfg now (pn_flatten_at inp) p rejected (pf_beta f) (liquid ls c cfg now)
            (state_permits PAIRS_STAT_ARB now state) (snd (spread_z lg (last (pn_window inp)) (pp_entry_fit p)))"
  obtains
    (Hold) "rs = []" "pe_reasons r = [''HOLD'']" "\<not> pe_open_risk_attention r" "pe_intent r = None" "pe_timestamp r = now"
  | (Exit) s where "rs \<noteq> []" "pe_reasons r = rs" "pe_open_risk_attention r" "pe_intent r = Some s" "pe_timestamp r = now"
      "pg_action s = EXIT" "pg_direction s = pp_direction p" "pg_fit s = pp_entry_fit p" "coupled s" "pg_reasons s = rs"
      "il_side (pg_left s) = left_side (pp_direction p) EXIT" "il_side (pg_right s) = opposite (left_side (pp_direction p) EXIT)"
  using assms
  by (auto simp: pair_exit_def Let_def split: if_splits elim!: pair_emit_Inr dest: pair_signal_Inr)

text \<open>
  C35.  An open pair is never forgotten: whatever the evaluation of a position finds, the open risk stays in
  attention unless the answer is to hold; it is to hold only when the inputs are there, no exit condition is met
  and the relationship, refitted now, still holds; every exit closes both legs with the sides of the entry
  reversed and with the hedge that was frozen at the entry, for the reasons of the first exit condition.
\<close>

theorem pair_position_attended:
  assumes "pair_evaluate lg tests_of H son z cfg c obs ls u m state at1 mode (Some p) = Inr r"
  shows "(\<not> pe_open_risk_attention r \<longleftrightarrow> pe_reasons r = [''HOLD''])
    \<and> (\<not> pe_open_risk_attention r \<longrightarrow> pe_intent r = None \<and> (\<exists>inp f zs.
         pair_inputs_of son z cfg c obs u m (pe_timestamp r) (Some p) = Inr inp
         \<and> fit_pair lg tests_of (ph_training H) cfg (butlast (pn_window inp)) = Inr f
         \<and> zs = snd (spread_z lg (last (pn_window inp)) (pp_entry_fit p))
         \<and> pe_timestamp r < pn_flatten_at inp \<and> pe_timestamp r < pp_opened_at p + minutes (ps_max_hold_minutes cfg)
         \<and> relationship_rejections f cfg = [] \<and> \<not> beta_drifted cfg (pf_beta f) (pf_beta (pp_entry_fit p))
         \<and> liquid ls c cfg (pe_timestamp r) \<and> state_permits PAIRS_STAT_ARB (pe_timestamp r) state
         \<and> \<not> spread_adverse cfg (pp_direction p) zs \<and> ps_exit_z cfg < \<bar>zs\<bar> \<and> 0 < zs * pp_entry_z p))
    \<and> (\<forall>s. pe_intent r = Some s \<longrightarrow> pe_open_risk_attention r \<and> pg_action s = EXIT \<and> pg_direction s = pp_direction p
         \<and> pg_fit s = pp_entry_fit p \<and> pg_reasons s = pe_reasons r \<and> pe_reasons r \<noteq> [] \<and> coupled s
         \<and> il_side (pg_left s) = opposite (left_side (pp_direction p) ENTER)
         \<and> il_side (pg_right s) = left_side (pp_direction p) ENTER)"
using assms(1)
proof (cases rule: pair_evaluate_cases)
  case (Answer now digest reason)
  then show ?thesis by simp
next
  case (Decision now inp f digest)
  have sides: "left_side d EXIT = opposite (left_side d ENTER)" "opposite (opposite x) = x" for d x
    by (cases x; simp add: left_side_def opposite_def)+
  show ?thesis
  using Decision(6)[simplified] refl
  proof (cases rule: pair_exit_Inr)
    case Hold
    then show ?thesis
      using Decision(4,5) by (auto simp: pair_exit_reasons_Nil flr.pos_iff intro!: exI[of _ inp] exI[of _ f])
  next
    case (Exit s)
    then show ?thesis by (simp add: sides pair_exit_reasons_no_hold)
  qed
qed

subsection \<open>A concrete evaluation\<close>

definition example_pair_quote :: "string \<Rightarrow> rat \<Rightarrow> pair_liquidity" where
  "example_pair_quote token price =
     \<lparr>pl_quote = \<lparr>q_instrument_id = token, q_source = ''vendor'', q_received_at = example_pair_time, q_quality_flags = {},
        q_feed_kind = EQUITY, q_schema_version = ''1'', q_timestamp = example_pair_time, q_bid = price, q_ask = price,
        q_last = price\<rparr>,
      pl_adv = 1000, pl_daily_turnover = 100000, pl_known_at = example_open, pl_snapshot_id = ''q''\<rparr>"

definition example_pair_hashes :: pair_hashes where
  "example_pair_hashes =
     \<lparr>ph_candidate = (\<lambda>_. ''c''), ph_inputs = (\<lambda>_ _ _ _. ''i''), ph_training = (\<lambda>_. ''t''), ph_universe = (\<lambda>_. ''u''),
      ph_state = (\<lambda>_. ''s''), ph_uuid5 = (\<lambda>x. x)\<rparr>"

definition example_pair_state :: state_decision where
  "example_pair_state = (example_decision example_pair_time)\<lparr>sd_allowed_alpha_families := [PAIRS_STAT_ARB]\<rparr>"

lemma example_session:
  "session_on nse_2026 (local_day kolkata example_pair_time) = Inr (Some \<lparr>se_date = 20641, se_timezone = kolkata,
      se_times = cs_regular_times nse_2026, se_special = False\<rparr>)"
  by (simp add: session_on_def nse_2026_def dict_of_def weekday_def kolkata_def fixed_zone_def local_day_def
      day_us_def minutes_def example_pair_time_def)

definition example_inputs :: pair_inputs where
  "example_inputs = \<lparr>pn_window = example_pair_rows, pn_flatten_at = example_flatten,
     pn_final_entry = time_of_session \<lparr>se_date = 20641, se_timezone = kolkata, se_times = cs_regular_times nse_2026,
       se_special = False\<rparr> 20641 final_entry_time\<rparr>"

definition example_position :: pair_position where
  "example_position =
     \<lparr>pp_position_id = ''p'', pp_pair_id = ''AB'', pp_direction = SHORT_SPREAD, pp_opened_at = example_pair_time - 60000000,
      pp_entry_fit = example_fit, pp_entry_z = 2\<rparr>"

lemma example_pair_inputs:
  assumes "position = None \<or> position = Some example_position"
  shows "pair_inputs_of (session_on nse_2026) kolkata example_pairs example_pair example_pair_rows example_universe example_master
    example_pair_time position = Inr example_inputs"
proof -
  have "session_bounds (session_on nse_2026) kolkata example_pair_time = Inr (Some (example_open, example_open + 22500000000))"
    by code_simp
  moreover have "pair_guards kolkata example_pair example_universe example_master example_open (example_open + 22500000000)
      example_pair_time = Inr ()" by code_simp
  moreover have "position_valid example_position example_pair example_open example_pair_time" by code_simp
  moreover have "time_of_session \<lparr>se_date = 20641, se_timezone = kolkata, se_times = cs_regular_times nse_2026,
      se_special = False\<rparr> 20641 flatten_start_time = example_flatten" by code_simp
  ultimately show ?thesis
    using assms by (auto simp: pair_inputs_of_def example_session example_pair_window example_inputs_def)
qed

definition example_quotes :: "pair_liquidity \<times> pair_liquidity" where
  "example_quotes = (example_pair_quote ''A'' 173, example_pair_quote ''B'' 128)"

definition example_pair_run :: "pair_position option \<Rightarrow> pair_evaluation result" where
  "example_pair_run position = pair_evaluate example_log example_pair_tests example_pair_hashes (session_on nse_2026) kolkata
     example_pairs example_pair example_pair_rows example_quotes example_universe example_master example_pair_state
     (Aware example_pair_time 0) PAPER position"

lemma example_pair_run_simps:
  assumes "position = None \<or> position = Some example_position"
  shows "example_pair_run position =
    (case position of
       Some p \<Rightarrow> pair_exit example_log example_pair_hashes example_pairs example_pair example_quotes example_universe
         example_pair_state example_pair_time ''i'' example_inputs example_fit (relationship_rejections example_fit example_pairs) p
     | None \<Rightarrow> pair_enter example_log example_pair_hashes example_pairs example_pair example_quotes example_universe example_master
         example_pair_state example_pair_time ''i'' example_inputs example_fit (relationship_rejections example_fit example_pairs))"
proof -
  have "ps_enabled example_pairs" "pn_window example_inputs = example_pair_rows"
    "ph_inputs example_pair_hashes a b d e = ''i''"
    "ph_training example_pair_hashes = (\<lambda>_. ''t'')" for a b d e
    by (simp_all add: example_pairs_def example_inputs_def example_pair_hashes_def)
  then show ?thesis
    by (simp add: example_pair_run_def pair_evaluate_def utc_def Let_def example_pair_inputs[OF assms] inputs_or_none_def
        example_fit_pair split: option.split)
qed

lemma example_pair_entered:
  "case pair_enter example_log example_pair_hashes example_pairs example_pair example_quotes example_universe example_master
     example_pair_state example_pair_time ''i'' example_inputs example_fit (relationship_rejections example_fit example_pairs) of
     Inr r \<Rightarrow> pe_intent r \<noteq> None | Inl e \<Rightarrow> False"
  by code_simp

lemma example_pair_held:
  "case pair_exit example_log example_pair_hashes example_pairs example_pair example_quotes example_universe
     example_pair_state example_pair_time ''i'' example_inputs example_fit (relationship_rejections example_fit example_pairs)
     example_position of Inr r \<Rightarrow> pe_reasons r = [''HOLD''] | Inl e \<Rightarrow> False"
  by code_simp

theorem pair_admission_witness:
  "\<exists>r s. example_pair_run None = Inr r \<and> pe_intent r = Some s \<and> pg_action s = ENTER
     \<and> il_side (pg_left s) \<noteq> il_side (pg_right s) \<and> pg_hedge_ratio s = 1"
proof -
  obtain r s where r: "example_pair_run None = Inr r" "pe_intent r = Some s"
    using example_pair_entered example_pair_run_simps[of None] by (auto split: sum.splits)
  note ad = pair_admission[OF r(1)[unfolded example_pair_run_def] r(2)]
  have t: "pe_timestamp r = example_pair_time"
    using r example_pair_run_simps[of None] by (auto dest!: pair_enter_Inr(8)[OF _ _ refl refl])
  have "pn_window example_inputs = example_pair_rows" "pf_beta example_fit = 1"
    "ph_training example_pair_hashes = (\<lambda>_. ''t'')"
    by (simp_all add: example_inputs_def example_fit_def example_pair_hashes_def)
  then have "pg_hedge_ratio s = 1" using ad unfolding t by (auto simp: example_pair_inputs example_fit_pair)
  then show ?thesis using r ad by blast
qed

theorem pair_position_attended_witness:
  "\<exists>r. example_pair_run (Some example_position) = Inr r \<and> pe_reasons r = [''HOLD''] \<and> \<not> pe_open_risk_attention r
     \<and> state_permits PAIRS_STAT_ARB (pe_timestamp r) example_pair_state"
proof -
  obtain r where r: "example_pair_run (Some example_position) = Inr r" "pe_reasons r = [''HOLD'']"
    using example_pair_held example_pair_run_simps[of "Some example_position"] by (auto split: sum.splits)
  then show ?thesis using pair_position_attended[OF r(1)[unfolded example_pair_run_def]] by blast
qed

end
