(* ===== verification/Relative_Beta.thy ===== *)
theory Relative_Beta
  imports Pairs_Engine
begin

text \<open>
  \<open>alphas/relative_value_models.py\<close>, \<open>alphas/relative_value_beta.py\<close> and \<open>alphas/relative_value_inventory.py\<close>: settings,
  training betas, neutral weights, reservations and the intent of a sector basket.  Content hashes are parameters.
\<close>

subsection \<open>Records\<close>

datatype construction = PAIR | BASKET

record relative_settings =
  xs_enabled :: bool
  xs_construction :: construction
  xs_members_per_side :: nat
  xs_minimum_sector_size :: int
  xs_tail_fraction :: rat
  xs_sector_residual_weight :: rat
  xs_min_residual_gap :: rat
  xs_training_returns :: nat
  xs_min_beta :: rat
  xs_max_beta :: rat
  xs_max_split_beta_drift :: rat
  xs_max_net_gross :: rat
  xs_max_beta_gross :: rat
  xs_max_inventory_age_seconds :: rat
  xs_max_spread_bps :: rat
  xs_max_quote_age_seconds :: rat
  xs_min_adv :: rat
  xs_min_turnover :: rat
  xs_max_leg_lag_seconds :: rat

definition relative_settings_ok :: "relative_settings \<Rightarrow> bool" where
  "relative_settings_ok s \<longleftrightarrow> 1 \<le> xs_members_per_side s \<and> xs_members_per_side s \<le> 5 \<and> 2 \<le> xs_minimum_sector_size s
     \<and> 0 < xs_tail_fraction s \<and> xs_tail_fraction s < 1 / 2
     \<and> 0 \<le> xs_sector_residual_weight s \<and> xs_sector_residual_weight s \<le> 1 \<and> 8 \<le> xs_training_returns s
     \<and> list_all (\<lambda>x. 0 < x) [xs_min_residual_gap s, xs_min_beta s, xs_max_beta s, xs_max_split_beta_drift s,
         xs_max_inventory_age_seconds s, xs_max_spread_bps s, xs_max_quote_age_seconds s, xs_min_adv s, xs_min_turnover s,
         xs_max_leg_lag_seconds s]
     \<and> 0 \<le> xs_max_net_gross s \<and> xs_max_net_gross s < 1 \<and> 0 \<le> xs_max_beta_gross s \<and> xs_max_beta_gross s < 1
     \<and> xs_min_beta s < xs_max_beta s"

record beta_observation =
  bx_stock :: bar
  bx_market :: bar

record relative_observation =
  ro_current :: momentum_observation
  ro_history :: "beta_observation list"

record beta_estimate =
  be_beta :: rat
  be_intercept :: rat
  be_split_drift :: rat
  be_training_start :: instant
  be_training_end :: instant
  be_returns :: nat
  be_input_hash :: string
  be_market_hash :: string

definition mk_beta_estimate :: "beta_estimate \<Rightarrow> beta_estimate result" where
  "mk_beta_estimate e =
     (if 0 \<le> be_split_drift e \<and> 8 \<le> be_returns e then Inr e
      else Inl (ValueError ''validation error for BetaEstimate''))"

record reserved_security =
  iy_entity_id :: uuid
  iy_owner_alpha :: string
  iy_reference_id :: string

record relative_inventory =
  iy_snapshot_id :: string
  iy_observed_at :: instant
  iy_complete :: bool
  iy_reservations :: "reserved_security list"

subsection \<open>Training betas\<close>

definition beta_available_at :: "beta_observation \<Rightarrow> instant" where
  "beta_available_at row = max (available_at (bx_stock row)) (available_at (bx_market row))"

definition beta_rows :: "beta_observation list \<Rightarrow> instant \<Rightarrow> instant \<Rightarrow> nat \<Rightarrow> beta_observation list" where
  "beta_rows history opn cutoff n =
     take_last (n + 1) (sort_key (\<lambda>row. b_end (bx_stock row))
       (filter (\<lambda>row. opn \<le> b_start (bx_stock row) \<and> beta_available_at row \<le> cutoff) history))"

definition check_feed :: "instant \<Rightarrow> bar \<Rightarrow> instrument_ref \<Rightarrow> feed_kind \<Rightarrow> unit result" where
  "check_feed cutoff b r kind =
     rbind (require_strategy_ready b cutoff) (\<lambda>_.
     ensure (b_instrument_id b = ir_instrument_id r \<and> b_source b = ir_source r \<and> b_feed_kind b = kind)
       (ValueError ''BETA_FEED_MISMATCH''))"

text \<open>The loop over the rows; \<open>previous\<close> is the end of the row before.\<close>

fun check_beta_rows ::
  "instrument_ref \<Rightarrow> instrument_ref \<Rightarrow> instant \<Rightarrow> instant \<Rightarrow> instant option \<Rightarrow> beta_observation list \<Rightarrow> unit result" where
  "check_beta_rows stock market opn cutoff previous [] = Inr ()"
| "check_beta_rows stock market opn cutoff previous (row # rows) =
     rbind (check_feed cutoff (bx_stock row) stock EQUITY) (\<lambda>_.
     rbind (check_feed cutoff (bx_market row) market INDEX) (\<lambda>_.
     rbind (ensure (b_start (bx_stock row) = b_start (bx_market row) \<and> b_end (bx_stock row) = b_end (bx_market row)
           \<and> \<not> off_grid (b_start (bx_stock row) - opn) \<and> pred_option (\<lambda>e. e = b_start (bx_stock row)) previous)
        (ValueError ''BETA_HISTORY_GAP_OR_DUPLICATE'')) (\<lambda>_.
     check_beta_rows stock market opn cutoff (Some (b_end (bx_stock row))) rows)))"

definition simple_return :: "bar \<Rightarrow> bar \<Rightarrow> rat" where
  "simple_return a b = fl (fl (dec (b_close b / b_close a)) - 1)"

definition simple_returns :: "bar list \<Rightarrow> rat list" where
  "simple_returns bars = map2 simple_return (butlast bars) (tl bars)"

record relative_hashes =
  xh_training :: "beta_observation list \<Rightarrow> string"
  xh_market :: "bar list \<Rightarrow> string"
  xh_context :: "feature_context \<Rightarrow> string"
  xh_snapshot :: "feature_snapshot \<Rightarrow> string"
  xh_universe :: "universe_snapshot \<Rightarrow> string"
  xh_master :: "instrument_master \<Rightarrow> string"
  xh_inventory :: "relative_inventory \<Rightarrow> string"
  xh_state :: "state_decision \<Rightarrow> string"
  xh_uuid5 :: "string \<Rightarrow> uuid"

definition beta_of_rows :: "relative_hashes \<Rightarrow> relative_settings \<Rightarrow> beta_observation list \<Rightarrow> beta_estimate result" where
  "beta_of_rows H cfg rows =
     (let left = simple_returns (map bx_stock rows); right = simple_returns (map bx_market rows);
          half = length left div 2
      in rbind (ols left right) (\<lambda>(intercept, beta).
         if \<not> (xs_min_beta cfg \<le> beta \<and> beta \<le> xs_max_beta cfg) then Inl (ValueError ''BETA_OUT_OF_RANGE'')
         else rbind (ols (take half left) (take half right)) (\<lambda>(i1, first).
         rbind (ols (drop half left) (drop half right)) (\<lambda>(i2, second).
         rbind (fdiv \<bar>fl (first - second)\<bar> beta) (\<lambda>drift.
         if xs_max_split_beta_drift cfg < drift then Inl (ValueError ''BETA_UNSTABLE'')
         else mk_beta_estimate
           \<lparr>be_beta = beta, be_intercept = intercept, be_split_drift = drift,
            be_training_start = b_start (bx_stock (hd rows)), be_training_end = b_end (bx_stock (last rows)),
            be_returns = length left, be_input_hash = xh_training H rows, be_market_hash = xh_market H (map bx_market rows)\<rparr>)))))"

definition estimate_beta ::
  "relative_hashes \<Rightarrow> relative_settings \<Rightarrow> beta_observation list \<Rightarrow> instrument_ref \<Rightarrow> instrument_ref \<Rightarrow> instant
     \<Rightarrow> instant \<Rightarrow> beta_estimate result" where
  "estimate_beta H cfg history stock market now opn =
     (let cutoff = now - minutes 5; n = xs_training_returns cfg; rows = beta_rows history opn cutoff n in
      if length rows \<noteq> n + 1 then Inl (ValueError ''BETA_WARMUP'')
      else if b_end (bx_stock (last rows)) \<noteq> cutoff then Inl (ValueError ''BETA_HISTORY_STALE'')
      else rbind (check_beta_rows stock market opn cutoff None rows) (\<lambda>_. beta_of_rows H cfg rows))"

text \<open>The tolerance of the exposure limits.\<close>

definition exposure_tolerance :: rat where
  "exposure_tolerance = fl (1 / 10 ^ 12)"

definition neutral_weights :: "rat \<Rightarrow> rat \<Rightarrow> relative_settings \<Rightarrow> (rat \<times> rat) result" where
  "neutral_weights long_beta short_beta cfg =
     (if \<not> (xs_min_beta cfg \<le> min long_beta short_beta \<and> max long_beta short_beta \<le> xs_max_beta cfg)
      then Inl (ValueError ''BETA_OUT_OF_RANGE'')
      else rbind (fdiv short_beta (fl (long_beta + short_beta))) (\<lambda>lw.
        let sw = fl (1 - lw) in
        if fl (xs_max_net_gross cfg + exposure_tolerance) < \<bar>fl (lw - sw)\<bar> then Inl (ValueError ''NET_EXPOSURE_INFEASIBLE'')
        else if fl (xs_max_beta_gross cfg + exposure_tolerance) < \<bar>fl (fl (lw * long_beta) - fl (sw * short_beta))\<bar>
        then Inl (ValueError ''BETA_EXPOSURE_INFEASIBLE'')
        else Inr (lw, sw)))"

subsection \<open>Reservations of active pairs\<close>

definition reserve_leg ::
  "(string \<Rightarrow> uuid) \<Rightarrow> instrument_master \<Rightarrow> pair_signal \<Rightarrow> intent_leg \<Rightarrow> reserved_security result" where
  "reserve_leg uuid5 m s leg =
     (case dict_of in_token (im_instruments m) (il_instrument_id leg) of
        None \<Rightarrow> Inl (ValueError ''inventory token cannot be resolved; entries must block'')
      | Some i \<Rightarrow> Inr \<lparr>iy_entity_id = security_id uuid5 i, iy_owner_alpha = ''pairs_stat_arb'',
          iy_reference_id = pg_signal_id s\<rparr>)"

definition reserve_signal ::
  "(string \<Rightarrow> uuid) \<Rightarrow> instrument_master \<Rightarrow> instant \<Rightarrow> instant \<Rightarrow> pair_signal \<Rightarrow> reserved_security list result" where
  "reserve_signal uuid5 m mg observed s =
     (if observed < pg_timestamp s then Inl (ValueError ''inventory cannot contain future intents'')
      else if im_as_of m \<noteq> local_day kolkata (pg_timestamp s) \<or> pg_timestamp s < mg
      then Inl (ValueError ''inventory requires the entry-date master, not a later token mapping'')
      else rmap (reserve_leg uuid5 m s) [pg_left s, pg_right s])"

definition stat_arb_inventory ::
  "(string \<Rightarrow> uuid) \<Rightarrow> pair_signal list \<Rightarrow> instrument_master \<Rightarrow> pydatetime \<Rightarrow> string \<Rightarrow> bool
     \<Rightarrow> relative_inventory result" where
  "stat_arb_inventory uuid5 active m observed_at snapshot_id whole =
     rbind (utc observed_at) (\<lambda>observed.
     if count_distinct (map in_token (im_instruments m)) \<noteq> length (im_instruments m)
     then Inl (ValueError ''inventory instrument mapping unavailable'')
     else rbind (utc (im_generated_at m)) (\<lambda>mg.
       if observed < mg then Inl (ValueError ''inventory instrument mapping unavailable'')
       else rbind (rmap (reserve_signal uuid5 m mg observed) active) (\<lambda>rs.
         if snapshot_id = [] then Inl (ValueError ''validation error for RelativeValueInventory'')
         else Inr \<lparr>iy_snapshot_id = snapshot_id, iy_observed_at = observed, iy_complete = whole,
           iy_reservations = sort_key iy_entity_id (sort_key iy_reference_id (concat rs))\<rparr>)))"

subsection \<open>Baskets\<close>

record basket_leg =
  bl_entity_id :: uuid
  bl_instrument_id :: string
  bl_symbol :: string
  bl_sector :: string
  bl_side :: side
  bl_gross_fraction :: rat
  bl_residual_strength :: rat
  bl_percentile :: rat
  bl_beta :: beta_estimate
  bl_feature_hash :: string

definition mk_basket_leg :: "basket_leg \<Rightarrow> basket_leg result" where
  "mk_basket_leg l =
     (if 0 < bl_gross_fraction l \<and> bl_gross_fraction l < 1 \<and> 0 \<le> bl_percentile l \<and> bl_percentile l \<le> 1 then Inr l
      else Inl (ValueError ''validation error for RelativeValueLeg''))"

record basket_risk =
  bk_signed_net_gross :: rat
  bk_signed_beta_gross :: rat
  bk_long_beta :: rat
  bk_short_beta :: rat
  bk_flatten_by :: instant

definition mk_basket_risk :: "basket_risk \<Rightarrow> basket_risk result" where
  "mk_basket_risk r =
     (if 0 < bk_long_beta r \<and> 0 < bk_short_beta r then Inr r
      else Inl (ValueError ''validation error for RelativeValueRiskReference''))"

record basket_intent =
  bn_signal_id :: uuid
  bn_entity_id :: uuid
  bn_timestamp :: instant
  bn_sector :: string
  bn_legs :: "basket_leg list"
  bn_hedge_ratio :: rat
  bn_risk_reference :: basket_risk
  bn_max_leg_lag_seconds :: rat
  bn_reasons :: "string list"
  bn_settings :: relative_settings
  bn_universe_hash :: string
  bn_master_hash :: string
  bn_inventory_hash :: string
  bn_state_hash :: string
  bn_cross_section_hash :: string
  bn_code_commit :: string
  bn_config_hash :: string
  bn_data_snapshot :: string
  bn_feature_set_hash :: string

definition legs_of :: "side \<Rightarrow> basket_intent \<Rightarrow> basket_leg list" where
  "legs_of sd b = filter (\<lambda>l. bl_side l = sd) (bn_legs b)"

definition gross_of :: "basket_leg list \<Rightarrow> rat" where
  "gross_of ls = float_sum (map bl_gross_fraction ls)"

definition signed_fraction :: "basket_leg \<Rightarrow> rat" where
  "signed_fraction l = bl_gross_fraction l * sign_of (bl_side l)"

definition beta_exposure :: "basket_leg \<Rightarrow> rat" where
  "beta_exposure l = fl (bl_gross_fraction l * be_beta (bl_beta l))"

text \<open>The separation of the ranks; only asked for when both sides are there.\<close>

definition basket_score :: "basket_intent \<Rightarrow> rat" where
  "basket_score b =
     (let mean = (\<lambda>ls. fl (float_sum (map bl_percentile ls) / of_nat (length ls))) in
      fl (mean (legs_of LONG b) - mean (legs_of SHORT b)))"

definition members_of :: "relative_settings \<Rightarrow> nat" where
  "members_of cfg = (if xs_construction cfg = PAIR then 1 else xs_members_per_side cfg)"

definition side_beta_ok :: "basket_leg list \<Rightarrow> rat \<Rightarrow> bool" where
  "side_beta_ok ls beta \<longleftrightarrow> isclose (fl (float_sum (map beta_exposure ls) / gross_of ls)) beta 0"

definition basket_net :: "basket_intent \<Rightarrow> rat" where
  "basket_net b = float_sum (map signed_fraction (bn_legs b))"

definition basket_beta :: "basket_intent \<Rightarrow> rat" where
  "basket_beta b = float_sum (map (\<lambda>l. sign_of (bl_side l) * beta_exposure l) (bn_legs b))"

definition coherent_exposure :: "basket_intent \<Rightarrow> bool" where
  "coherent_exposure b \<longleftrightarrow>
     (let longs = legs_of LONG b; shorts = legs_of SHORT b; cfg = bn_settings b; r = bn_risk_reference b;
          n = members_of cfg; net = basket_net b; beta = basket_beta b
      in count_distinct (map bl_entity_id (bn_legs b)) = length (bn_legs b) \<and> length longs = n \<and> length shorts = n
         \<and> 0 \<le> basket_score b \<and> basket_score b \<le> 1
         \<and> side_beta_ok longs (bk_long_beta r) \<and> side_beta_ok shorts (bk_short_beta r)
         \<and> bn_max_leg_lag_seconds b = xs_max_leg_lag_seconds cfg
         \<and> list_all (\<lambda>l. bl_sector l = bn_sector b \<and> be_training_end (bl_beta l) < bn_timestamp b) (bn_legs b)
         \<and> isclose (gross_of (bn_legs b)) 1 exposure_tolerance
         \<and> isclose (fl (gross_of shorts / gross_of longs)) (bn_hedge_ratio b) 0
         \<and> isclose net (bk_signed_net_gross r) exposure_tolerance
         \<and> isclose beta (bk_signed_beta_gross r) exposure_tolerance
         \<and> \<bar>net\<bar> \<le> fl (xs_max_net_gross cfg + exposure_tolerance)
         \<and> \<bar>beta\<bar> \<le> fl (xs_max_beta_gross cfg + exposure_tolerance)
         \<and> bn_timestamp b < bk_flatten_by r)"

definition mk_basket :: "basket_intent \<Rightarrow> basket_intent result" where
  "mk_basket b =
     (if \<not> (2 \<le> length (bn_legs b) \<and> 0 < bn_hedge_ratio b \<and> 0 < bn_max_leg_lag_seconds b)
      then Inl (ValueError ''validation error for RelativeValueIntent'')
      else if legs_of LONG b = [] \<or> legs_of SHORT b = [] then Inl (ValueError ''relative value requires both sides'')
      else if \<not> coherent_exposure b then Inl (ValueError ''relative value identity/exposure/timing mismatch'')
      else Inr b)"

subsection \<open>Betas and weights\<close>

lemma beta_rows_set: "set (beta_rows history opn cutoff n) \<subseteq> {row \<in> set history. opn \<le> b_start (bx_stock row) \<and> beta_available_at row \<le> cutoff}"
  unfolding beta_rows_def by (rule subset_trans[OF set_take_last]) auto

lemma beta_rows_later:
  "\<forall>row\<in>set later. cutoff < beta_available_at row \<Longrightarrow> beta_rows (history @ later) opn cutoff n = beta_rows history opn cutoff n"
  by (auto simp: beta_rows_def filter_empty_conv not_le intro!: arg_cong[where f = "\<lambda>x. take_last _ (sort_key _ (_ @ x))"])

definition row_chain :: "beta_observation list \<Rightarrow> bool" where
  "row_chain rows \<longleftrightarrow> successively (\<lambda>a b. b_end (bx_stock a) = b_start (bx_stock b)) rows"

text \<open>What the check of the rows establishes: synchronous bars of the two feeds, one after the other.\<close>

definition row_of_feeds :: "instrument_ref \<Rightarrow> instrument_ref \<Rightarrow> beta_observation \<Rightarrow> bool" where
  "row_of_feeds stock market row \<longleftrightarrow>
     b_start (bx_stock row) = b_start (bx_market row) \<and> b_end (bx_stock row) = b_end (bx_market row)
     \<and> b_instrument_id (bx_stock row) = ir_instrument_id stock \<and> b_instrument_id (bx_market row) = ir_instrument_id market
     \<and> b_source (bx_stock row) = ir_source stock \<and> b_source (bx_market row) = ir_source market
     \<and> b_feed_kind (bx_stock row) = EQUITY \<and> b_feed_kind (bx_market row) = INDEX"

lemma check_feed_Inr:
  "check_feed cutoff b r kind = Inr u \<longleftrightarrow> require_strategy_ready b cutoff = Inr ()
     \<and> b_instrument_id b = ir_instrument_id r \<and> b_source b = ir_source r \<and> b_feed_kind b = kind"
  by (simp add: check_feed_def result_simps)

lemma check_beta_rows_Inr:
  "check_beta_rows stock market opn cutoff previous rows = Inr u \<Longrightarrow>
     row_chain rows \<and> (\<forall>row\<in>set rows. row_of_feeds stock market row)
     \<and> (rows \<noteq> [] \<longrightarrow> pred_option (\<lambda>e. e = b_start (bx_stock (hd rows))) previous)"
proof (induction rows arbitrary: previous)
  case (Cons row rows)
  then have row: "row_of_feeds stock market row" "pred_option (\<lambda>e. e = b_start (bx_stock row)) previous"
    and rest: "check_beta_rows stock market opn cutoff (Some (b_end (bx_stock row))) rows = Inr u"
    unfolding check_beta_rows.simps rbind_Inr_iff ensure_Inr_iff check_feed_Inr row_of_feeds_def by blast+
  note ih = Cons.IH[OF rest]
  then have "row_chain (row # rows)" by (cases rows) (auto simp: row_chain_def)
  then show ?case using row ih by simp
qed (simp add: row_chain_def)

lemma beta_of_rows_Inr:
  assumes "beta_of_rows H cfg rows = Inr e"
  shows "be_training_start e = b_start (bx_stock (hd rows))" "be_training_end e = b_end (bx_stock (last rows))"
    "be_returns e = length rows - 1" "be_input_hash e = xh_training H rows"
    "xs_min_beta cfg \<le> be_beta e" "be_beta e \<le> xs_max_beta cfg" "0 \<le> be_split_drift e"
    "be_split_drift e \<le> xs_max_split_beta_drift cfg"
  using assms
  by (auto simp: beta_of_rows_def mk_beta_estimate_def simple_returns_def Let_def result_simps split: if_splits)

text \<open>
  C40.  Betas are trained on the past only: the training ends exactly one bar before the decision, on rows of the
  history that were available by then, without a gap, of the two feeds; the estimate lies between its limits
  and is stable across the halves; and observations that become available after that bar change nothing.
\<close>

theorem beta_training_causal:
  assumes "estimate_beta H cfg history stock market now opn = Inr e"
  shows "be_training_end e = now - minutes 5 \<and> be_returns e = xs_training_returns cfg \<and> opn \<le> be_training_start e
    \<and> xs_min_beta cfg \<le> be_beta e \<and> be_beta e \<le> xs_max_beta cfg
    \<and> 0 \<le> be_split_drift e \<and> be_split_drift e \<le> xs_max_split_beta_drift cfg
    \<and> (\<exists>rows. be_input_hash e = xh_training H rows \<and> length rows = xs_training_returns cfg + 1 \<and> row_chain rows
         \<and> (\<forall>row\<in>set rows. row \<in> set history \<and> beta_available_at row \<le> now - minutes 5 \<and> row_of_feeds stock market row))
    \<and> (\<forall>later. (\<forall>row\<in>set later. now - minutes 5 < beta_available_at row) \<longrightarrow>
         estimate_beta H cfg (history @ later) stock market now opn = Inr e)"
proof -
  let ?rows = "beta_rows history opn (now - minutes 5) (xs_training_returns cfg)"
  have len: "length ?rows = xs_training_returns cfg + 1" and stop: "b_end (bx_stock (last ?rows)) = now - minutes 5"
    and e: "beta_of_rows H cfg ?rows = Inr e"
    and chk: "check_beta_rows stock market opn (now - minutes 5) None ?rows = Inr ()"
    using assms by (auto simp: estimate_beta_def Let_def result_simps split: if_splits)
  have mem: "set ?rows \<subseteq> {row \<in> set history. opn \<le> b_start (bx_stock row) \<and> beta_available_at row \<le> now - minutes 5}"
    by (rule beta_rows_set)
  then have "opn \<le> b_start (bx_stock (hd ?rows))" using len hd_in_set[of ?rows] by fastforce
  moreover have "\<forall>later. (\<forall>row\<in>set later. now - minutes 5 < beta_available_at row) \<longrightarrow>
      estimate_beta H cfg (history @ later) stock market now opn = Inr e"
    using assms by (simp add: estimate_beta_def beta_rows_later)
  ultimately show ?thesis
    using beta_of_rows_Inr[OF e] check_beta_rows_Inr[OF chk] len stop mem
    by (intro conjI exI[of _ ?rows]) auto
qed

lemma neutral_weights_Inr:
  assumes "neutral_weights lb sb cfg = Inr (lw, sw)"
  shows "xs_min_beta cfg \<le> lb" "xs_min_beta cfg \<le> sb" "lb \<le> xs_max_beta cfg" "sb \<le> xs_max_beta cfg"
    "lw = fl (sb / fl (lb + sb))" "sw = fl (1 - lw)"
    "\<bar>fl (lw - sw)\<bar> \<le> fl (xs_max_net_gross cfg + exposure_tolerance)"
    "\<bar>fl (fl (lw * lb) - fl (sw * sb))\<bar> \<le> fl (xs_max_beta_gross cfg + exposure_tolerance)"
  using assms by (auto simp: neutral_weights_def Let_def result_simps split: if_splits)

text \<open>
  Weights are a unit of gross exposure within its limits: for float betas that are positive both weights are
  fractions, the long one positive, and neither the net nor the beta exposure passes its configured limit.
\<close>

theorem neutral_weights_sound:
  assumes "neutral_weights lb sb cfg = Inr (lw, sw)" and "0 < xs_min_beta cfg" and "fl lb = lb" "fl sb = sb"
  shows "0 < lw \<and> lw \<le> 1 \<and> 0 \<le> sw \<and> sw \<le> 1 \<and> sw = fl (1 - lw)
    \<and> \<bar>fl (lw - sw)\<bar> \<le> fl (xs_max_net_gross cfg + exposure_tolerance)
    \<and> \<bar>fl (fl (lw * lb) - fl (sw * sb))\<bar> \<le> fl (xs_max_beta_gross cfg + exposure_tolerance)"
proof -
  note w = neutral_weights_Inr[OF assms(1)]
  have pos: "0 < lb" "0 < sb" using w(1,2) assms(2) by simp_all
  have "sb \<le> fl (lb + sb)" using pos by (intro flr.ge_fixed[OF assms(4)]) simp
  moreover have "0 < fl (lb + sb)" using pos by (simp add: flr.pos_iff)
  ultimately have "0 < lw" "lw \<le> 1" using pos unfolding w(5) by (auto simp: flr.pos_iff intro!: flr.le_one)
  moreover from this have "0 \<le> sw" "sw \<le> 1" unfolding w(6) by (auto intro!: flr.nonneg flr.le_one)
  ultimately show ?thesis using w(6,7,8) by simp
qed

end
