(* ===== verification/Relative_Value.thy ===== *)
theory Relative_Value
  imports Relative_Beta
begin

text \<open>
  \<open>alphas/sector_relative_value.py\<close>: leaders against laggards of one sector, hedged with training betas.  One
  evaluation ranks the eligible securities of every sector and proposes at most one basket per sector.
\<close>

subsection \<open>Records\<close>

record relative_report =
  rp_entity :: string
  rp_reasons :: "string list"

record ranked_security =
  rk_instrument_id :: string
  rk_sector :: string
  rk_strength :: rat
  rk_percentile :: rat
  rk_beta :: beta_estimate
  rk_feature_hash :: string

record relative_result =
  rl_intents :: "basket_intent list"
  rl_reports :: "relative_report list"
  rl_reasons :: "string list"

subsection \<open>One security\<close>

definition relative_number :: "relative_observation \<Rightarrow> string \<Rightarrow> rat result" where
  "relative_number item name =
     (case snapshot_get (mo_snapshot (ro_current item)) name of
        None \<Rightarrow> Inl (ValueError (''FEATURE_MISSING:'' @ name))
      | Some v \<Rightarrow> (case fv_value v of None \<Rightarrow> Inl (ValueError (''FEATURE_MISSING:'' @ name)) | Some x \<Rightarrow> Inr x))"

definition relative_context_bad ::
  "relative_hashes \<Rightarrow> universe_snapshot \<Rightarrow> state_decision \<Rightarrow> instant \<Rightarrow> instrument \<Rightarrow> momentum_observation \<Rightarrow> bool" where
  "relative_context_bad H u state now i o1 \<longleftrightarrow>
     (let s = mo_snapshot o1; c = mo_context o1 in
      ir_instrument_id (fc_entity c) \<noteq> in_token i \<or> fc_sector c = None \<or> fc_nifty c = None
      \<or> ir_instrument_id (the (fc_sector c)) \<noteq> in_sector i \<or> now < fc_known_at c
      \<or> \<not> (fc_valid_from c \<le> now \<and> now < fc_valid_to c) \<or> fc_universe_version c \<noteq> un_snapshot_id u
      \<or> sn_context_hash s \<noteq> xh_context H c \<or> provenance_of_snapshot s \<noteq> provenance_of_state state)"

definition at_most :: "rat \<Rightarrow> rat result \<Rightarrow> unit result" where
  "at_most limit v = rbind v (\<lambda>x. ensure (0 \<le> x \<and> x \<le> limit) (ValueError ''LIQUIDITY_REJECTED''))"

definition at_least :: "rat \<Rightarrow> rat result \<Rightarrow> unit result" where
  "at_least limit v = rbind v (\<lambda>x. ensure (limit \<le> x) (ValueError ''LIQUIDITY_REJECTED''))"

text \<open>The conditions in order: a later feature is only read when the earlier ones pass.\<close>

definition relative_liquid :: "relative_settings \<Rightarrow> relative_observation \<Rightarrow> unit result" where
  "relative_liquid cfg item =
     rbind (at_most (xs_max_spread_bps cfg) (relative_number item ''liquidity.spread_bps'')) (\<lambda>_.
     rbind (at_most (xs_max_quote_age_seconds cfg) (relative_number item ''liquidity.quote_age'')) (\<lambda>_.
     rbind (at_least (xs_min_adv cfg) (relative_number item ''liquidity.adv'')) (\<lambda>_.
     at_least (xs_min_turnover cfg) (relative_number item ''liquidity.average_daily_turnover''))))"

definition relative_strength :: "relative_settings \<Rightarrow> relative_observation \<Rightarrow> rat result" where
  "relative_strength cfg item =
     (let w = xs_sector_residual_weight cfg in
      rbind (relative_number item ''stock.relative_sector_30m'') (\<lambda>a.
      rbind (relative_number item ''stock.relative_market_30m'') (\<lambda>b.
      Inr (fl (fl (w * a) + fl (fl (1 - w) * b))))))"

definition relative_candidate ::
  "relative_hashes \<Rightarrow> relative_settings \<Rightarrow> universe_snapshot \<Rightarrow> instrument_master \<Rightarrow> state_decision \<Rightarrow> uuid list
     \<Rightarrow> day \<Rightarrow> instant \<Rightarrow> instant \<Rightarrow> relative_observation \<Rightarrow> ranked_security result" where
  "relative_candidate H cfg u m state reserved d opn now item =
     (let s = mo_snapshot (ro_current item); c = mo_context (ro_current item);
          i = the (dict_of in_token (im_instruments m) (sn_entity s)) in
      rbind (ensure (\<not> instrument_ineligible i d) (ValueError ''INSTRUMENT_INELIGIBLE'')) (\<lambda>_.
      rbind (ensure (security_id (xh_uuid5 H) i \<notin> set reserved) (ValueError ''STAT_ARB_OR_RV_INVENTORY_OVERLAP'')) (\<lambda>_.
      rbind (ensure (\<not> relative_context_bad H u state now i (ro_current item))
         (ValueError ''SECTOR_CONTEXT_OR_PROVENANCE_MISMATCH'')) (\<lambda>_.
      rbind (relative_liquid cfg item) (\<lambda>_.
      rbind (relative_strength cfg item) (\<lambda>strength.
      rbind (estimate_beta H cfg (ro_history item) (fc_entity c) (the (fc_nifty c)) now opn) (\<lambda>beta.
      Inr \<lparr>rk_instrument_id = in_token i, rk_sector = in_sector i, rk_strength = strength, rk_percentile = 0,
        rk_beta = beta, rk_feature_hash = xh_snapshot H s\<rparr>)))))))"

text \<open>\<open>except ValueError\<close>: the reason is reported, any other exception escapes.\<close>

fun relative_scan ::
  "(relative_observation \<Rightarrow> ranked_security result) \<Rightarrow> relative_observation list
     \<Rightarrow> (relative_report list \<times> ranked_security list) result" where
  "relative_scan f [] = Inr ([], [])"
| "relative_scan f (item # items) =
     (case f item of
        Inr c \<Rightarrow> rbind (relative_scan f items) (\<lambda>(rs, cs). Inr (rs, c # cs))
      | Inl (ValueError t) \<Rightarrow> rbind (relative_scan f items) (\<lambda>(rs, cs).
          Inr (\<lparr>rp_entity = sn_entity (mo_snapshot (ro_current item)), rp_reasons = [t]\<rparr> # rs, cs))
      | Inl e \<Rightarrow> Inl e)"

subsection \<open>One sector\<close>

definition security_of :: "relative_hashes \<Rightarrow> instrument_master \<Rightarrow> string \<Rightarrow> uuid" where
  "security_of H m token = security_id (xh_uuid5 H) (the (dict_of in_token (im_instruments m) token))"

definition with_percentile :: "ranked_security \<Rightarrow> rat \<Rightarrow> ranked_security" where
  "with_percentile c p = c\<lparr>rk_percentile := p\<rparr>"

definition leaders_of ::
  "relative_hashes \<Rightarrow> relative_settings \<Rightarrow> instrument_master \<Rightarrow> ranked_security list \<Rightarrow> ranked_security list" where
  "leaders_of H cfg m placed =
     take (members_of cfg) (sort_key (\<lambda>c. - rk_strength c) (sort_key (\<lambda>c. security_of H m (rk_instrument_id c))
       (filter (\<lambda>c. fl (1 - xs_tail_fraction cfg) \<le> rk_percentile c) placed)))"

definition laggards_of ::
  "relative_hashes \<Rightarrow> relative_settings \<Rightarrow> universe_snapshot \<Rightarrow> instrument_master \<Rightarrow> ranked_security list
     \<Rightarrow> ranked_security list" where
  "laggards_of H cfg u m placed =
     take (members_of cfg) (sort_key rk_strength (sort_key (\<lambda>c. security_of H m (rk_instrument_id c))
       (filter (\<lambda>c. rk_percentile c \<le> xs_tail_fraction cfg \<and> short_allowed u m (rk_instrument_id c)) placed)))"

definition tails_insufficient :: "relative_settings \<Rightarrow> ranked_security list \<Rightarrow> ranked_security list \<Rightarrow> bool" where
  "tails_insufficient cfg leaders laggards \<longleftrightarrow>
     length leaders \<noteq> members_of cfg \<or> length laggards \<noteq> members_of cfg
     \<or> fl (Min (rk_strength ` set leaders) - Max (rk_strength ` set laggards)) < xs_min_residual_gap cfg"

definition basket_leg_of ::
  "relative_hashes \<Rightarrow> relative_settings \<Rightarrow> instrument_master \<Rightarrow> string \<Rightarrow> side \<times> rat \<Rightarrow> ranked_security
     \<Rightarrow> basket_leg result" where
  "basket_leg_of H cfg m sector p c =
     mk_basket_leg
       \<lparr>bl_entity_id = security_of H m (rk_instrument_id c), bl_instrument_id = rk_instrument_id c,
        bl_symbol = in_symbol (the (dict_of in_token (im_instruments m) (rk_instrument_id c))), bl_sector = sector,
        bl_side = fst p, bl_gross_fraction = fl (snd p / of_nat (members_of cfg)), bl_residual_strength = rk_strength c,
        bl_percentile = rk_percentile c, bl_beta = rk_beta c, bl_feature_hash = rk_feature_hash c\<rparr>"

definition basket_reasons :: "string list" where
  "basket_reasons = [''SECTOR_LEADER_LAGGARD'', ''TRAINING_ONLY_BETA'', ''NET_AND_BETA_LIMITS_PASSED'']"

definition basket_of ::
  "relative_hashes \<Rightarrow> relative_settings \<Rightarrow> universe_snapshot \<Rightarrow> instrument_master \<Rightarrow> state_decision
     \<Rightarrow> relative_inventory \<Rightarrow> instant \<Rightarrow> instant \<Rightarrow> string \<Rightarrow> string \<Rightarrow> ranked_security list \<times> ranked_security list
     \<Rightarrow> (rat \<times> rat) \<times> (rat \<times> rat) \<Rightarrow> basket_intent result" where
  "basket_of H cfg u m state inventory now flatten digest sector tails exposure =
     (case (tails, exposure) of ((leaders, laggards), ((long_beta, short_beta), (lw, sw))) \<Rightarrow>
      rbind (rmap (basket_leg_of H cfg m sector (LONG, lw)) leaders) (\<lambda>longs.
      rbind (rmap (basket_leg_of H cfg m sector (SHORT, sw)) laggards) (\<lambda>shorts.
      rbind (fdiv sw lw) (\<lambda>hedge.
      rbind (mk_basket_risk
        \<lparr>bk_signed_net_gross = fl (lw - sw), bk_signed_beta_gross = fl (fl (lw * long_beta) - fl (sw * short_beta)),
         bk_long_beta = long_beta, bk_short_beta = short_beta, bk_flatten_by = flatten\<rparr>) (\<lambda>risk.
      let entity = xh_uuid5 H (''godzilla:rv-basket:'' @ join '':'' (sort (map bl_entity_id (longs @ shorts)))) in
      mk_basket
        \<lparr>bn_signal_id = xh_uuid5 H (''godzilla:sector_relative_value:'' @ entity @ '':'' @ iso_instant now),
         bn_entity_id = entity, bn_timestamp = now, bn_sector = sector, bn_legs = longs @ shorts, bn_hedge_ratio = hedge,
         bn_risk_reference = risk, bn_max_leg_lag_seconds = xs_max_leg_lag_seconds cfg, bn_reasons = basket_reasons,
         bn_settings = cfg, bn_universe_hash = xh_universe H u, bn_master_hash = xh_master H m,
         bn_inventory_hash = xh_inventory H inventory, bn_state_hash = xh_state H state, bn_cross_section_hash = digest,
         bn_code_commit = sd_code_commit state, bn_config_hash = sd_config_hash state,
         bn_data_snapshot = sd_data_snapshot state, bn_feature_set_hash = se_feature_set_hash (sd_evidence state)\<rparr>)))))"

definition mean_beta :: "ranked_security list \<Rightarrow> rat" where
  "mean_beta cs = fmean (map (\<lambda>c. be_beta (rk_beta c)) cs)"

text \<open>A sector ends as a report or as a basket.\<close>

definition relative_sector ::
  "relative_hashes \<Rightarrow> relative_settings \<Rightarrow> universe_snapshot \<Rightarrow> instrument_master \<Rightarrow> state_decision
     \<Rightarrow> relative_inventory \<Rightarrow> instant \<Rightarrow> instant \<Rightarrow> string \<Rightarrow> ranked_security list \<Rightarrow> string
     \<Rightarrow> (relative_report + basket_intent) result" where
  "relative_sector H cfg u m state inventory now flatten digest candidates sector =
     (let members = filter (\<lambda>c. rk_sector c = sector) candidates;
          report = (\<lambda>r. Inr (Inl \<lparr>rp_entity = sector, rp_reasons = [r]\<rparr>))
      in if int (length members) < xs_minimum_sector_size cfg then report ''SECTOR_WARMUP''
         else rbind (percentiles (map rk_strength members)) (\<lambda>ranks.
           let placed = map2 with_percentile members ranks;
               leaders = leaders_of H cfg m placed; laggards = laggards_of H cfg u m placed in
           if tails_insufficient cfg leaders laggards then report ''TAILS_OR_RESIDUAL_GAP_INSUFFICIENT''
           else (case neutral_weights (mean_beta leaders) (mean_beta laggards) cfg of
               Inl (ValueError t) \<Rightarrow> report t
             | Inl e \<Rightarrow> Inl e
             | Inr weights \<Rightarrow>
                 rbind (basket_of H cfg u m state inventory now flatten digest sector (leaders, laggards)
                     ((mean_beta leaders, mean_beta laggards), weights)) (\<lambda>b.
                 Inr (Inr b)))))"

subsection \<open>\<open>SectorRelativeValue.evaluate\<close>\<close>

definition relative_blocked :: "instant \<Rightarrow> state_decision \<Rightarrow> bool" where
  "relative_blocked now state \<longleftrightarrow>
     health_veto now state \<or> SECTOR_RELATIVE_VALUE \<notin> set (sd_allowed_alpha_families state)"

definition inventory_unavailable :: "relative_settings \<Rightarrow> relative_inventory \<Rightarrow> instant \<Rightarrow> bool" where
  "inventory_unavailable cfg inventory now \<longleftrightarrow>
     (let age = total_seconds (now - iy_observed_at inventory) in
      \<not> iy_complete inventory \<or> \<not> (0 \<le> age \<and> age \<le> xs_max_inventory_age_seconds cfg))"

text \<open>The opening and the flattening of the session in which entries are possible now.\<close>

definition relative_window ::
  "(day \<Rightarrow> session option result) \<Rightarrow> zone \<Rightarrow> instant \<Rightarrow> (instant \<times> instant) result" where
  "relative_window son z now =
     rbind (son (local_day z now)) (\<lambda>s. case s of
       None \<Rightarrow> Inl (ValueError ''SESSION_UNAVAILABLE'')
     | Some se \<Rightarrow>
         let opn = time_of_session se (se_date se) open_time; last_entry = time_of_session se (se_date se) final_entry_time;
             flatten = time_of_session se (se_date se) flatten_start_time in
         if \<not> (opn < now \<and> now < min last_entry flatten) \<or> off_grid (now - opn)
         then Inl (ValueError ''ENTRY_WINDOW_BLOCKED'') else Inr (opn, flatten))"

definition select_relative :: "relative_observation list \<Rightarrow> instant \<Rightarrow> relative_observation list" where
  "select_relative obs now =
     sort_key (\<lambda>x. sn_entity (mo_snapshot (ro_current x)))
       (filter (\<lambda>x. sn_timestamp (mo_snapshot (ro_current x)) = now) obs)"

definition relative_ids :: "relative_observation list \<Rightarrow> string list" where
  "relative_ids xs = map (\<lambda>x. sn_entity (mo_snapshot (ro_current x))) xs"

definition relative_universe_bad ::
  "relative_hashes \<Rightarrow> zone \<Rightarrow> string list \<Rightarrow> universe_snapshot \<Rightarrow> instrument_master \<Rightarrow> instant \<Rightarrow> bool result" where
  "relative_universe_bad H z ids u m now =
     (if un_as_of u \<noteq> local_day z now \<or> im_as_of m \<noteq> local_day z now then Inr True
      else rbind (utc (un_generated_at u)) (\<lambda>ug.
        if now < ug then Inr True
        else rbind (utc (im_generated_at m)) (\<lambda>mg.
          Inr (now < mg \<or> un_instrument_snapshot_id u \<noteq> im_snapshot_id m
            \<or> count_distinct (map in_token (im_instruments m)) \<noteq> length (im_instruments m)
            \<or> count_distinct (map (security_id (xh_uuid5 H)) (im_instruments m)) \<noteq> length (im_instruments m)
            \<or> count_distinct (un_long_tokens u) \<noteq> length (un_long_tokens u)
            \<or> \<not> set (un_short_tokens u) \<subseteq> set (un_long_tokens u)
            \<or> set ids \<noteq> set (un_long_tokens u) \<or> length ids \<noteq> count_distinct (un_long_tokens u)
            \<or> \<not> set (un_long_tokens u) \<subseteq> set (map in_token (im_instruments m))))))"

definition relative_stop :: "string \<Rightarrow> relative_result result" where
  "relative_stop r = Inr \<lparr>rl_intents = [], rl_reports = [], rl_reasons = [r]\<rparr>"

definition lefts :: "('a + 'b) list \<Rightarrow> 'a list" where
  "lefts xs = List.map_filter (\<lambda>x. case x of Inl a \<Rightarrow> Some a | Inr b \<Rightarrow> None) xs"

definition rights :: "('a + 'b) list \<Rightarrow> 'b list" where
  "rights xs = List.map_filter (\<lambda>x. case x of Inl a \<Rightarrow> None | Inr b \<Rightarrow> Some b) xs"

definition relative_rank ::
  "relative_hashes \<Rightarrow> (ranked_security list \<Rightarrow> string) \<Rightarrow> relative_settings \<Rightarrow> universe_snapshot \<Rightarrow> instrument_master
     \<Rightarrow> state_decision \<Rightarrow> relative_inventory \<Rightarrow> instant \<Rightarrow> instant \<Rightarrow> relative_report list \<times> ranked_security list
     \<Rightarrow> relative_result result" where
  "relative_rank H cross cfg u m state inventory now flatten p =
     (case p of (reports, candidates) \<Rightarrow>
      if 1 < count_distinct (map (\<lambda>c. be_market_hash (rk_beta c)) candidates)
      then Inr \<lparr>rl_intents = [], rl_reports = reports, rl_reasons = [''INCONSISTENT_MARKET_TRAINING'']\<rparr>
      else rbind (rmap (relative_sector H cfg u m state inventory now flatten (cross candidates) candidates)
          (sort (remdups (map rk_sector candidates)))) (\<lambda>outcomes.
        Inr \<lparr>rl_intents = rights outcomes, rl_reports = reports @ lefts outcomes, rl_reasons = [''EVALUATION_COMPLETE'']\<rparr>))"

definition relative_evaluate ::
  "relative_hashes \<Rightarrow> (ranked_security list \<Rightarrow> string) \<Rightarrow> (day \<Rightarrow> session option result) \<Rightarrow> zone \<Rightarrow> relative_settings
     \<Rightarrow> relative_observation list \<Rightarrow> universe_snapshot \<Rightarrow> instrument_master \<Rightarrow> state_decision \<Rightarrow> relative_inventory
     \<Rightarrow> pydatetime \<Rightarrow> trading_mode \<Rightarrow> relative_result result" where
  "relative_evaluate H cross son z cfg obs u m state inventory at1 mode =
     rbind (utc at1) (\<lambda>now.
     if mode = LIVE then relative_stop ''LIVE_VALIDATION_REQUIRED''
     else if \<not> xs_enabled cfg then relative_stop ''ALPHA_DISABLED''
     else if relative_blocked now state then relative_stop ''STATE_OR_HEALTH_BLOCKED''
     else if inventory_unavailable cfg inventory now then relative_stop ''INVENTORY_UNAVAILABLE''
     else (case relative_window son z now of
         Inl e \<Rightarrow> relative_stop (str_exc e)
       | Inr (opn, flatten) \<Rightarrow>
           let selected = select_relative obs now in
           rbind (relative_universe_bad H z (relative_ids selected) u m now) (\<lambda>bad.
           if bad then relative_stop ''CROSS_SECTION_OR_MASTER_AMBIGUOUS''
           else rbind (relative_scan (relative_candidate H cfg u m state (map iy_entity_id (iy_reservations inventory))
                (local_day z now) opn now) selected)
             (relative_rank H cross cfg u m state inventory now flatten))))"

subsection \<open>Where the legs of a basket come from\<close>

lemma relative_scan_Inr:
  "relative_scan f items = Inr (rs, cs) \<Longrightarrow> c \<in> set cs \<Longrightarrow> \<exists>item\<in>set items. f item = Inr c"
proof (induction items arbitrary: rs cs)
  case (Cons item items)
  then show ?case
  proof (cases "f item")
    case (Inl e)
    then show ?thesis using Cons by (cases e) (auto simp: result_simps)
  next
    case (Inr x)
    then show ?thesis using Cons by (auto simp: result_simps)
  qed
qed simp

lemma relative_candidate_Inr:
  assumes "relative_candidate H cfg u m state reserved d opn now item = Inr c"
    and "dict_of in_token (im_instruments m) (sn_entity (mo_snapshot (ro_current item))) = Some i"
  shows "\<not> instrument_ineligible i d" "security_id (xh_uuid5 H) i \<notin> set reserved"
    "rk_instrument_id c = sn_entity (mo_snapshot (ro_current item))" "rk_sector c = in_sector i"
    "estimate_beta H cfg (ro_history item) (fc_entity (mo_context (ro_current item)))
       (the (fc_nifty (mo_context (ro_current item)))) now opn = Inr (rk_beta c)"
  using assms dict_of_token[OF assms(2)]
  by (auto simp: relative_candidate_def Let_def result_simps)

text \<open>What a ranked security is once the cross-section is accepted.\<close>

definition eligible_security ::
  "relative_hashes \<Rightarrow> universe_snapshot \<Rightarrow> instrument_master \<Rightarrow> uuid list \<Rightarrow> day \<Rightarrow> instant \<Rightarrow> ranked_security \<Rightarrow> bool" where
  "eligible_security H u m reserved d now c \<longleftrightarrow>
     rk_instrument_id c \<in> set (un_long_tokens u) \<and> security_of H m (rk_instrument_id c) \<notin> set reserved
     \<and> be_training_end (rk_beta c) = now - minutes 5
     \<and> (\<exists>i. dict_of in_token (im_instruments m) (rk_instrument_id c) = Some i \<and> \<not> instrument_ineligible i d
          \<and> in_sector i = rk_sector c)"

lemma estimate_beta_end: "estimate_beta H cfg history stock market now opn = Inr e \<Longrightarrow> be_training_end e = now - minutes 5"
  by (auto simp: estimate_beta_def Let_def result_simps beta_of_rows_Inr(2) split: if_splits)

lemma relative_universe_ok:
  assumes "relative_universe_bad H z ids u m now = Inr False"
  shows "set ids = set (un_long_tokens u)" "t \<in> set (un_long_tokens u) \<Longrightarrow> \<exists>i. dict_of in_token (im_instruments m) t = Some i"
    "distinct (map (security_id (xh_uuid5 H)) (im_instruments m))"
proof -
  have ids: "set ids = set (un_long_tokens u)" and d: "distinct (map (security_id (xh_uuid5 H)) (im_instruments m))"
    and s: "set (un_long_tokens u) \<subseteq> in_token ` set (im_instruments m)"
    using assms by (auto simp: relative_universe_bad_def result_simps count_distinct_eq_iff[symmetric] split: if_splits)
  show "set ids = set (un_long_tokens u)" "distinct (map (security_id (xh_uuid5 H)) (im_instruments m))" by (fact ids d)+
  show "\<exists>i. dict_of in_token (im_instruments m) t = Some i" if "t \<in> set (un_long_tokens u)"
    using s that dict_of_None[of in_token "im_instruments m" t] by (cases "dict_of in_token (im_instruments m) t") auto
qed

lemma relative_scan_eligible:
  assumes "relative_universe_bad H z (relative_ids selected) u m now = Inr False"
    and "relative_scan (relative_candidate H cfg u m state reserved d opn now) selected = Inr (rs, cs)" and "c \<in> set cs"
  shows "eligible_security H u m reserved d now c"
proof -
  obtain item where item: "item \<in> set selected" "relative_candidate H cfg u m state reserved d opn now item = Inr c"
    using relative_scan_Inr[OF assms(2,3)] by blast
  let ?t = "sn_entity (mo_snapshot (ro_current item))"
  have t: "?t \<in> set (un_long_tokens u)" using relative_universe_ok(1)[OF assms(1)] item(1) by (auto simp: relative_ids_def)
  then obtain i where i: "dict_of in_token (im_instruments m) ?t = Some i" using relative_universe_ok(2)[OF assms(1)] by blast
  note c = relative_candidate_Inr[OF item(2) i]
  then show ?thesis using t i by (auto simp: eligible_security_def security_of_def dest: estimate_beta_end)
qed

text \<open>A leg repeats what is known of its security.\<close>

definition leg_of_security :: "relative_hashes \<Rightarrow> instrument_master \<Rightarrow> string \<Rightarrow> ranked_security \<Rightarrow> basket_leg \<Rightarrow> bool" where
  "leg_of_security H m sector c l \<longleftrightarrow> bl_instrument_id l = rk_instrument_id c
     \<and> bl_entity_id l = security_of H m (rk_instrument_id c) \<and> bl_sector l = sector
     \<and> bl_percentile l = rk_percentile c \<and> bl_beta l = rk_beta c"

lemma basket_legs_Inr:
  "rmap (basket_leg_of H cfg m sector (sd, w)) cs = Inr ls \<Longrightarrow> l \<in> set ls \<Longrightarrow>
     bl_side l = sd \<and> (\<exists>c\<in>set cs. leg_of_security H m sector c l)"
  by (induction cs arbitrary: ls)
    (auto simp: result_simps basket_leg_of_def mk_basket_leg_def leg_of_security_def split: if_splits)

lemma mk_basket_Inr: "mk_basket b = Inr b' \<Longrightarrow> b' = b \<and> coherent_exposure b"
  by (auto simp: mk_basket_def split: if_splits)

lemma basket_of_Inr:
  assumes "basket_of H cfg u m state inventory now flatten digest sector (leaders, laggards) exposure = Inr b"
  shows "coherent_exposure b" "bn_timestamp b = now" "bn_sector b = sector" "bn_settings b = cfg"
    "bk_flatten_by (bn_risk_reference b) = flatten"
    "l \<in> set (bn_legs b) \<Longrightarrow> \<exists>c\<in>set (if bl_side l = LONG then leaders else laggards). leg_of_security H m sector c l"
  using assms
  by (auto simp: basket_of_def mk_basket_risk_def Let_def result_simps split: prod.splits if_splits
      dest!: mk_basket_Inr basket_legs_Inr)

lemma placed_members:
  "c \<in> set (map2 with_percentile cs ranks) \<Longrightarrow> \<exists>c0\<in>set cs. \<exists>p. c = with_percentile c0 p"
  by (auto simp: set_zip)

lemma with_percentile_simps [simp]:
  "rk_instrument_id (with_percentile c p) = rk_instrument_id c" "rk_sector (with_percentile c p) = rk_sector c"
  "rk_beta (with_percentile c p) = rk_beta c" "rk_percentile (with_percentile c p) = p"
  by (simp_all add: with_percentile_def)

lemma leaders_set: "set (leaders_of H cfg m placed) \<subseteq> {c \<in> set placed. fl (1 - xs_tail_fraction cfg) \<le> rk_percentile c}"
  by (auto simp: leaders_of_def dest!: in_set_takeD)

lemma laggards_set:
  "set (laggards_of H cfg u m placed) \<subseteq>
     {c \<in> set placed. rk_percentile c \<le> xs_tail_fraction cfg \<and> short_allowed u m (rk_instrument_id c)}"
  by (auto simp: laggards_of_def dest!: in_set_takeD)

text \<open>The leg belongs to a tail of the sector.\<close>

definition tail_leg :: "relative_settings \<Rightarrow> universe_snapshot \<Rightarrow> instrument_master \<Rightarrow> basket_leg \<Rightarrow> bool" where
  "tail_leg cfg u m l \<longleftrightarrow>
     (if bl_side l = LONG then fl (1 - xs_tail_fraction cfg) \<le> bl_percentile l
      else bl_percentile l \<le> xs_tail_fraction cfg \<and> short_allowed u m (bl_instrument_id l))"

lemma relative_sector_basket:
  assumes "relative_sector H cfg u m state inventory now flatten digest candidates sector = Inr (Inr b)"
  shows "coherent_exposure b" "bn_timestamp b = now" "bn_sector b = sector" "bn_settings b = cfg"
    "bk_flatten_by (bn_risk_reference b) = flatten"
    "l \<in> set (bn_legs b) \<Longrightarrow> tail_leg cfg u m l
       \<and> (\<exists>c\<in>set candidates. rk_sector c = sector \<and> bl_instrument_id l = rk_instrument_id c
            \<and> bl_entity_id l = security_of H m (rk_instrument_id c) \<and> bl_beta l = rk_beta c)"
proof -
  let ?members = "filter (\<lambda>c. rk_sector c = sector) candidates"
  have size: "\<not> int (length ?members) < xs_minimum_sector_size cfg" using assms by (auto simp: relative_sector_def Let_def)
  obtain ranks where ranks: "percentiles (map rk_strength ?members) = Inr ranks"
    using assms size by (auto simp: relative_sector_def Let_def result_simps)
  let ?placed = "map2 with_percentile ?members ranks"
  let ?up = "leaders_of H cfg m ?placed" and ?down = "laggards_of H cfg u m ?placed"
  note sec = assms[unfolded relative_sector_def Let_def ranks rbind.simps if_not_P[OF size]]
  have ok: "\<not> tails_insufficient cfg ?up ?down" using sec by (auto split: if_splits)
  obtain exposure where b: "basket_of H cfg u m state inventory now flatten digest sector (?up, ?down) exposure = Inr b"
    using sec ok by (auto simp: result_simps split: sum.splits py_error.splits)
  note bk = basket_of_Inr[OF b]
  show "coherent_exposure b" "bn_timestamp b = now" "bn_sector b = sector" "bn_settings b = cfg"
    "bk_flatten_by (bn_risk_reference b) = flatten" by (fact bk)+
  assume l: "l \<in> set (bn_legs b)"
  then obtain c where c: "c \<in> set (if bl_side l = LONG then ?up else ?down)" "leg_of_security H m sector c l"
    using bk(6) by blast
  then have "c \<in> set ?placed" "tail_leg cfg u m l"
    using leaders_set[of H cfg m ?placed] laggards_set[of H cfg u m ?placed]
    by (auto simp: tail_leg_def leg_of_security_def split: if_splits)
  moreover obtain c0 p where "c0 \<in> set ?members" "c = with_percentile c0 p"
    using placed_members[OF \<open>c \<in> set ?placed\<close>] by blast
  ultimately show "tail_leg cfg u m l
       \<and> (\<exists>c\<in>set candidates. rk_sector c = sector \<and> bl_instrument_id l = rk_instrument_id c
            \<and> bl_entity_id l = security_of H m (rk_instrument_id c) \<and> bl_beta l = rk_beta c)"
    using c(2) by (auto simp: leg_of_security_def)
qed

subsection \<open>What a basket rests on\<close>

lemma rights_simps [simp]: "rights [] = []" "rights (Inl a # xs) = rights xs" "rights (Inr b # xs) = b # rights xs"
  by (simp_all add: rights_def map_filter_def)

lemma rights_rmap:
  assumes "rmap f xs = Inr ys" and "b \<in> set (rights ys)"
  shows "\<exists>x\<in>set xs. f x = Inr (Inr b)"
  using assms
proof (induction xs arbitrary: ys)
  case (Cons x xs)
  then obtain y zs where "f x = Inr y" "rmap f xs = Inr zs" "ys = y # zs" by (auto simp: result_simps)
  then show ?case using Cons by (cases y) auto
qed simp

lemma rights_distinct:
  assumes "rmap f xs = Inr ys" and "distinct xs" and "\<And>x b. f x = Inr (Inr b) \<Longrightarrow> g b = x"
  shows "distinct (map g (rights ys)) \<and> set (map g (rights ys)) \<subseteq> set xs"
  using assms(1,2)
proof (induction xs arbitrary: ys)
  case (Cons x xs)
  then obtain y zs where y: "f x = Inr y" "rmap f xs = Inr zs" "ys = y # zs" by (auto simp: result_simps)
  have "distinct (map g (rights zs)) \<and> set (map g (rights zs)) \<subseteq> set xs" using Cons y by simp
  then show ?case using Cons.prems(2) y assms(3)[of x]
    by (cases y) auto
qed simp

lemma relative_stop_intents: "relative_stop t = Inr r \<Longrightarrow> rl_intents r = []"
  by (auto simp: relative_stop_def)

lemma relative_rank_Inr:
  assumes "relative_rank H cross cfg u m state inventory now flatten (rs, cs) = Inr r" and "rl_intents r \<noteq> []"
  obtains outcomes where
    "rmap (relative_sector H cfg u m state inventory now flatten (cross cs) cs) (sort (remdups (map rk_sector cs))) = Inr outcomes"
    "rl_intents r = rights outcomes"
  using assms by (auto simp: relative_rank_def result_simps split: if_splits)

lemma relative_evaluate_Inr:
  assumes "relative_evaluate H cross son z cfg obs u m state inventory at1 mode = Inr r" and "rl_intents r \<noteq> []"
  obtains now opn flatten rs cs where "utc at1 = Inr now" "mode \<noteq> LIVE" "xs_enabled cfg" "\<not> relative_blocked now state"
    "\<not> inventory_unavailable cfg inventory now" "relative_window son z now = Inr (opn, flatten)"
    "relative_universe_bad H z (relative_ids (select_relative obs now)) u m now = Inr False"
    "relative_scan (relative_candidate H cfg u m state (map iy_entity_id (iy_reservations inventory)) (local_day z now) opn now)
       (select_relative obs now) = Inr (rs, cs)"
    "relative_rank H cross cfg u m state inventory now flatten (rs, cs) = Inr r"
proof -
  obtain now where now: "utc at1 = Inr now"
    using assms(1) by (auto simp: relative_evaluate_def result_simps simp del: utc_Inr_iff)
  note ev = assms(1)[unfolded relative_evaluate_def now rbind.simps Let_def]
  have g: "mode \<noteq> LIVE" "xs_enabled cfg" "\<not> relative_blocked now state" "\<not> inventory_unavailable cfg inventory now"
    using ev assms(2) by (auto split: if_splits dest: relative_stop_intents)
  obtain opn flatten where w: "relative_window son z now = Inr (opn, flatten)"
    using ev g assms(2) by (auto split: sum.splits dest: relative_stop_intents)
  have bad: "relative_universe_bad H z (relative_ids (select_relative obs now)) u m now = Inr False"
    using ev g w assms(2) by (auto simp: result_simps split: if_splits dest: relative_stop_intents)
  obtain rs cs where "relative_scan (relative_candidate H cfg u m state (map iy_entity_id (iy_reservations inventory))
       (local_day z now) opn now) (select_relative obs now) = Inr (rs, cs)"
    "relative_rank H cross cfg u m state inventory now flatten (rs, cs) = Inr r"
    using ev g w bad by (auto simp: result_simps)
  then show thesis using that now g w bad by blast
qed

text \<open>Every basket of an evaluation with its sector and its securities.\<close>

lemma relative_basket:
  assumes "relative_evaluate H cross son z cfg obs u m state inventory at1 mode = Inr r" and "b \<in> set (rl_intents r)"
  obtains now opn flatten cs digest where "utc at1 = Inr now" "mode \<noteq> LIVE" "xs_enabled cfg" "\<not> relative_blocked now state"
    "\<not> inventory_unavailable cfg inventory now" "relative_window son z now = Inr (opn, flatten)"
    "distinct (map (security_id (xh_uuid5 H)) (im_instruments m))"
    "\<forall>c\<in>set cs. eligible_security H u m (map iy_entity_id (iy_reservations inventory)) (local_day z now) now c"
    "relative_sector H cfg u m state inventory now flatten digest cs (bn_sector b) = Inr (Inr b)"
    "distinct (map bn_sector (rl_intents r))"
proof -
  have ne: "rl_intents r \<noteq> []" using assms(2) by auto
  obtain now opn flatten rs cs where
    g: "utc at1 = Inr now" "mode \<noteq> LIVE" "xs_enabled cfg" "\<not> relative_blocked now state"
      "\<not> inventory_unavailable cfg inventory now" "relative_window son z now = Inr (opn, flatten)"
    and u: "relative_universe_bad H z (relative_ids (select_relative obs now)) u m now = Inr False"
    and sc: "relative_scan (relative_candidate H cfg u m state (map iy_entity_id (iy_reservations inventory)) (local_day z now) opn now)
       (select_relative obs now) = Inr (rs, cs)"
    and rk: "relative_rank H cross cfg u m state inventory now flatten (rs, cs) = Inr r"
    by (rule relative_evaluate_Inr[OF assms(1) ne])
  let ?f = "relative_sector H cfg u m state inventory now flatten (cross cs) cs"
  obtain outcomes where o: "rmap ?f (sort (remdups (map rk_sector cs))) = Inr outcomes" "rl_intents r = rights outcomes"
    by (rule relative_rank_Inr[OF rk ne])
  have sector: "?f x = Inr (Inr y) \<Longrightarrow> bn_sector y = x" for x y by (rule relative_sector_basket(3))
  obtain x where "?f x = Inr (Inr b)" using rights_rmap[OF o(1)] assms(2) o(2) by auto
  then have "?f (bn_sector b) = Inr (Inr b)" using sector by metis
  moreover have "distinct (map bn_sector (rl_intents r))"
    using rights_distinct[OF o(1) _ sector] o(2) by simp
  moreover have "\<forall>c\<in>set cs. eligible_security H u m (map iy_entity_id (iy_reservations inventory)) (local_day z now) now c"
    using relative_scan_eligible[OF u sc] by blast
  ultimately show thesis using that g relative_universe_ok(3)[OF u] by blast
qed

text \<open>A leg with everything that is checked of its security.\<close>

definition admitted_leg ::
  "relative_hashes \<Rightarrow> universe_snapshot \<Rightarrow> instrument_master \<Rightarrow> relative_inventory \<Rightarrow> day \<Rightarrow> instant \<Rightarrow> string
     \<Rightarrow> basket_leg \<Rightarrow> bool" where
  "admitted_leg H u m inventory d now sector l \<longleftrightarrow>
     bl_instrument_id l \<in> set (un_long_tokens u) \<and> bl_entity_id l = security_of H m (bl_instrument_id l)
     \<and> bl_entity_id l \<notin> iy_entity_id ` set (iy_reservations inventory) \<and> be_training_end (bl_beta l) = now - minutes 5
     \<and> (\<exists>i. dict_of in_token (im_instruments m) (bl_instrument_id l) = Some i \<and> \<not> instrument_ineligible i d \<and> in_sector i = sector)"

lemma basket_legs_admitted:
  assumes "relative_sector H cfg u m state inventory now flatten digest cs (bn_sector b) = Inr (Inr b)"
    and "\<forall>c\<in>set cs. eligible_security H u m (map iy_entity_id (iy_reservations inventory)) d now c" and "l \<in> set (bn_legs b)"
  shows "admitted_leg H u m inventory d now (bn_sector b) l"
proof -
  obtain c where "c \<in> set cs" "rk_sector c = bn_sector b" "bl_instrument_id l = rk_instrument_id c"
    "bl_entity_id l = security_of H m (rk_instrument_id c)" "bl_beta l = rk_beta c"
    using relative_sector_basket(6)[OF assms(1,3)] by blast
  moreover have "eligible_security H u m (map iy_entity_id (iy_reservations inventory)) d now c"
    using assms(2) \<open>c \<in> set cs\<close> by blast
  ultimately show ?thesis by (simp add: admitted_leg_def eligible_security_def)
qed

lemma relative_basket_facts:
  assumes "relative_evaluate H cross son z cfg obs u m state inventory at1 mode = Inr r" and "b \<in> set (rl_intents r)"
  shows "distinct (map bn_sector (rl_intents r))" "distinct (map (security_id (xh_uuid5 H)) (im_instruments m))"
    "coherent_exposure b"
    "l \<in> set (bn_legs b) \<Longrightarrow> \<exists>d now. admitted_leg H u m inventory d now (bn_sector b) l"
proof -
  obtain now opn flatten cs digest where b: "utc at1 = Inr now" "mode \<noteq> LIVE" "xs_enabled cfg" "\<not> relative_blocked now state"
    "\<not> inventory_unavailable cfg inventory now" "relative_window son z now = Inr (opn, flatten)"
    "distinct (map (security_id (xh_uuid5 H)) (im_instruments m))"
    "\<forall>c\<in>set cs. eligible_security H u m (map iy_entity_id (iy_reservations inventory)) (local_day z now) now c"
    "relative_sector H cfg u m state inventory now flatten digest cs (bn_sector b) = Inr (Inr b)"
    "distinct (map bn_sector (rl_intents r))"
    by (rule relative_basket[OF assms])
  show "distinct (map bn_sector (rl_intents r))" "distinct (map (security_id (xh_uuid5 H)) (im_instruments m))"
    "coherent_exposure b" by (fact b(10) b(7) relative_sector_basket(1)[OF b(9)])+
  show "\<exists>d now. admitted_leg H u m inventory d now (bn_sector b) l" if "l \<in> set (bn_legs b)"
    using basket_legs_admitted[OF b(9,8) that] by blast
qed

text \<open>
  C36.  A basket rests on its whole admission: never in LIVE mode, only enabled, with a state that permits the family and
  healthy inputs of that instant, a complete and fresh inventory, inside the entry window; its exposure is coherent
  (distinct securities, both sides of equal number, a unit of gross, net and beta within the limits) and ends
  by the flattening; every leg is an eligible instrument of the sector and the universe, outside every
  reservation, in its tail (a short one: short-eligible), with a beta trained before the deciding bar.
\<close>

theorem relative_admission:
  assumes "relative_evaluate H cross son z cfg obs u m state inventory at1 mode = Inr r" and "b \<in> set (rl_intents r)"
  shows "mode \<noteq> LIVE \<and> xs_enabled cfg \<and> \<not> relative_blocked (bn_timestamp b) state
    \<and> \<not> inventory_unavailable cfg inventory (bn_timestamp b) \<and> coherent_exposure b \<and> bn_settings b = cfg
    \<and> (\<exists>opn. relative_window son z (bn_timestamp b) = Inr (opn, bk_flatten_by (bn_risk_reference b)))
    \<and> (\<forall>l\<in>set (bn_legs b). tail_leg cfg u m l
         \<and> admitted_leg H u m inventory (local_day z (bn_timestamp b)) (bn_timestamp b) (bn_sector b) l)"
proof -
  obtain now opn flatten cs digest where b: "utc at1 = Inr now" "mode \<noteq> LIVE" "xs_enabled cfg" "\<not> relative_blocked now state"
    "\<not> inventory_unavailable cfg inventory now" "relative_window son z now = Inr (opn, flatten)"
    "distinct (map (security_id (xh_uuid5 H)) (im_instruments m))"
    "\<forall>c\<in>set cs. eligible_security H u m (map iy_entity_id (iy_reservations inventory)) (local_day z now) now c"
    "relative_sector H cfg u m state inventory now flatten digest cs (bn_sector b) = Inr (Inr b)"
    "distinct (map bn_sector (rl_intents r))"
    by (rule relative_basket[OF assms])
  note bk = relative_sector_basket[OF b(9)]
  show ?thesis using b(2-6) bk(1,4) basket_legs_admitted[OF b(9,8)] bk(6) unfolding bk(2,5) by blast
qed

text \<open>
  Baskets never share a security: one evaluation gives at most one basket for a sector, within a basket the
  securities are distinct, and two baskets of it have none in common.
\<close>

theorem baskets_disjoint:
  assumes "relative_evaluate H cross son z cfg obs u m state inventory at1 mode = Inr r"
  shows "distinct (map bn_sector (rl_intents r)) \<and> distinct (concat (map (\<lambda>b. map bl_entity_id (bn_legs b)) (rl_intents r)))"
proof (cases "rl_intents r = []")
  case False
  then obtain b0 where b0: "b0 \<in> set (rl_intents r)" by (cases "rl_intents r") auto
  note fact = relative_basket_facts[OF assms]
  have sectors: "distinct (map bn_sector (rl_intents r))" and inj: "inj_on (security_id (xh_uuid5 H)) (set (im_instruments m))"
    using fact(1,2)[OF b0] by (simp_all add: distinct_map)
  have within: "distinct (map bl_entity_id (bn_legs b))" if "b \<in> set (rl_intents r)" for b
    using fact(3)[OF that] by (simp add: coherent_exposure_def Let_def count_distinct_eq_iff[symmetric])
  have apart: "bl_entity_id l1 \<noteq> bl_entity_id l2"
    if b: "b1 \<in> set (rl_intents r)" "b2 \<in> set (rl_intents r)" and ne: "bn_sector b1 \<noteq> bn_sector b2"
      and l: "l1 \<in> set (bn_legs b1)" "l2 \<in> set (bn_legs b2)" for b1 b2 l1 l2
  proof -
    obtain i1 i2 where i: "dict_of in_token (im_instruments m) (bl_instrument_id l1) = Some i1" "in_sector i1 = bn_sector b1"
      "dict_of in_token (im_instruments m) (bl_instrument_id l2) = Some i2" "in_sector i2 = bn_sector b2"
      using fact(4)[OF b(1) l(1)] fact(4)[OF b(2) l(2)] by (auto simp: admitted_leg_def)
    have "i1 \<noteq> i2" using i(2,4) ne by auto
    moreover have "i1 \<in> set (im_instruments m)" "i2 \<in> set (im_instruments m)"
      using dict_of_Some[OF i(1)] dict_of_Some[OF i(3)] by simp_all
    ultimately have "security_id (xh_uuid5 H) i1 \<noteq> security_id (xh_uuid5 H) i2"
      using inj by (simp add: inj_on_eq_iff)
    moreover have "bl_entity_id l1 = security_id (xh_uuid5 H) i1" "bl_entity_id l2 = security_id (xh_uuid5 H) i2"
      using fact(4)[OF b(1) l(1)] fact(4)[OF b(2) l(2)] i(1,3) by (auto simp: admitted_leg_def security_of_def)
    ultimately show ?thesis by simp
  qed
  have disjoint: "bl_entity_id ` set (bn_legs b1) \<inter> bl_entity_id ` set (bn_legs b2) = {}"
    if "b1 \<in> set (rl_intents r)" "b2 \<in> set (rl_intents r)" "bn_sector b1 \<noteq> bn_sector b2" for b1 b2
    using apart[OF that] by blast
  have "distinct (concat (map (\<lambda>b. map bl_entity_id (bn_legs b)) bs))"
    if "set bs \<subseteq> set (rl_intents r)" "distinct (map bn_sector bs)" for bs
    using that
  proof (induction bs)
    case (Cons b bs)
    have "bl_entity_id ` set (bn_legs b) \<inter> bl_entity_id ` set (bn_legs b2) = {}" if "b2 \<in> set bs" for b2
      by (rule disjoint) (use Cons.prems that in auto)
    then have "bl_entity_id ` set (bn_legs b) \<inter> (\<Union>b2\<in>set bs. bl_entity_id ` set (bn_legs b2)) = {}" by blast
    moreover have "distinct (map bl_entity_id (bn_legs b))" using Cons.prems by (intro within) simp
    moreover have "distinct (concat (map (\<lambda>b. map bl_entity_id (bn_legs b)) bs))" using Cons by simp
    ultimately show ?case by simp
  qed simp
  then show ?thesis using sectors by blast
qed simp

subsection \<open>Pairs and baskets\<close>

lemma rmap_Inr_member: "rmap f xs = Inr ys \<Longrightarrow> x \<in> set xs \<Longrightarrow> \<exists>y\<in>set ys. f x = Inr y"
  by (induction xs arbitrary: ys) (auto simp: result_simps)

lemma reserve_leg_Inr:
  "reserve_leg uuid5 m s leg = Inr e \<Longrightarrow>
     iy_entity_id e = security_id uuid5 (the (dict_of in_token (im_instruments m) (il_instrument_id leg)))"
  by (auto simp: reserve_leg_def split: option.splits)

lemma reserve_signal_Inr:
  "reserve_signal uuid5 m mg observed s = Inr es \<Longrightarrow> rmap (reserve_leg uuid5 m s) [pg_left s, pg_right s] = Inr es"
  by (simp add: reserve_signal_def split: if_splits)

text \<open>The inventory holds both securities of every pair it is built from.\<close>

lemma stat_arb_inventory_covers:
  assumes "stat_arb_inventory uuid5 active m observed_at sid whole = Inr inventory"
    and "s \<in> set active" "leg \<in> {pg_left s, pg_right s}"
  shows "security_id uuid5 (the (dict_of in_token (im_instruments m) (il_instrument_id leg)))
    \<in> iy_entity_id ` set (iy_reservations inventory)"
proof -
  obtain mg observed rs where rs: "rmap (reserve_signal uuid5 m mg observed) active = Inr rs"
    and inv: "set (iy_reservations inventory) = set (concat rs)"
    using assms(1) by (auto simp: stat_arb_inventory_def result_simps split: if_splits)
  obtain es where es: "es \<in> set rs" "reserve_signal uuid5 m mg observed s = Inr es"
    using rmap_Inr_member[OF rs assms(2)] by blast
  obtain e where "e \<in> set es" "reserve_leg uuid5 m s leg = Inr e"
    using rmap_Inr_member[OF reserve_signal_Inr[OF es(2)], of leg] assms(3) by auto
  then have "e \<in> set (iy_reservations inventory)" using inv es(1) by auto
  then show ?thesis using reserve_leg_Inr[OF \<open>reserve_leg uuid5 m s leg = Inr e\<close>] by (metis image_eqI)
qed

text \<open>
  C37.  Baskets keep off active pairs: with the inventory built from the active or pending pair signals and the same
  master, no leg of a basket is a security, or a token, of a leg of any of those signals.
\<close>

theorem pairs_and_baskets_disjoint:
  assumes "stat_arb_inventory (xh_uuid5 H) active m observed_at sid whole = Inr inventory"
    and "relative_evaluate H cross son z cfg obs u m state inventory at1 mode = Inr r"
    and "b \<in> set (rl_intents r)" "l \<in> set (bn_legs b)" "s \<in> set active" "leg \<in> {pg_left s, pg_right s}"
  shows "bl_entity_id l \<noteq> security_of H m (il_instrument_id leg) \<and> bl_instrument_id l \<noteq> il_instrument_id leg"
proof -
  obtain d now where l: "admitted_leg H u m inventory d now (bn_sector b) l"
    using relative_basket_facts(4)[OF assms(2,3,4)] by blast
  then have "bl_entity_id l \<noteq> security_of H m (il_instrument_id leg)"
    using stat_arb_inventory_covers[OF assms(1,5,6)] by (auto simp: admitted_leg_def security_of_def)
  moreover have "bl_entity_id l = security_of H m (bl_instrument_id l)" using l by (simp add: admitted_leg_def)
  ultimately show ?thesis by auto
qed

subsection \<open>A concrete basket\<close>

definition example_relative :: relative_settings where
  "example_relative =
     \<lparr>xs_enabled = True, xs_construction = PAIR, xs_members_per_side = 2, xs_minimum_sector_size = 2, xs_tail_fraction = 1 / 4,
      xs_sector_residual_weight = 1 / 2, xs_min_residual_gap = 1 / 512, xs_training_returns = 8, xs_min_beta = 1 / 4,
      xs_max_beta = 2, xs_max_split_beta_drift = 1 / 2, xs_max_net_gross = 1 / 8, xs_max_beta_gross = 1 / 8,
      xs_max_inventory_age_seconds = 30, xs_max_spread_bps = 16, xs_max_quote_age_seconds = 4, xs_min_adv = 100,
      xs_min_turnover = 1000, xs_max_leg_lag_seconds = 4\<rparr>"

definition example_relative_hashes :: relative_hashes where
  "example_relative_hashes =
     \<lparr>xh_training = (\<lambda>_. ''t''), xh_market = (\<lambda>_. ''n''), xh_context = (\<lambda>_. ''k''), xh_snapshot = (\<lambda>_. ''f''),
      xh_universe = (\<lambda>_. ''u''), xh_master = (\<lambda>_. ''m''), xh_inventory = (\<lambda>_. ''i''), xh_state = (\<lambda>_. ''s''),
      xh_uuid5 = (\<lambda>x. x)\<rparr>"

text \<open>10:05, after nine bars of the day and the bar that is not used for training.\<close>

definition example_relative_time :: instant where
  "example_relative_time = 1783398900000000"

definition example_closes :: "rat list" where
  "example_closes = [64, 80, 60, 75, 225 / 4, 1125 / 16, 3375 / 64, 16875 / 256, 50625 / 1024]"

definition example_beta_row :: "string \<Rightarrow> nat \<times> rat \<Rightarrow> beta_observation" where
  "example_beta_row token p =
     (case p of (k, x) \<Rightarrow> let b = example_reversal_bar (example_open + int k * 300000000) x x x x 1 in
        \<lparr>bx_stock = b\<lparr>b_instrument_id := token\<rparr>, bx_market = b\<lparr>b_instrument_id := ''N'', b_feed_kind := INDEX\<rparr>\<rparr>)"

definition example_beta_rows :: "string \<Rightarrow> beta_observation list" where
  "example_beta_rows token = map (example_beta_row token) (zip [0..<9] example_closes)"

definition example_relative_item :: "string \<Rightarrow> rat \<Rightarrow> relative_observation" where
  "example_relative_item token residual =
     \<lparr>ro_current = example_part token example_relative_time
        [(''liquidity.adv'', 1000), (''liquidity.average_daily_turnover'', 100000), (''liquidity.quote_age'', 1),
         (''liquidity.spread_bps'', 4), (''stock.relative_market_30m'', residual), (''stock.relative_sector_30m'', residual)],
      ro_history = example_beta_rows token\<rparr>"

definition example_relative_master :: instrument_master where
  "example_relative_master = example_master\<lparr>im_instruments :=
     [example_instrument ''A'' ''S'', example_instrument ''B'' ''S'', example_instrument ''P'' ''T'', example_instrument ''Q'' ''T'']\<rparr>"

definition example_relative_state :: state_decision where
  "example_relative_state = example_decision example_relative_time"

text \<open>An active pair of the two other instruments.\<close>

definition example_active_pair :: pair_signal where
  "example_active_pair =
     \<lparr>pg_signal_id = ''1'', pg_timestamp = example_open, pg_pair_id = ''PQ'', pg_action = ENTER, pg_direction = LONG_SPREAD,
      pg_left = \<lparr>il_instrument_id = ''P'', il_side = LONG, il_gross_fraction = 1 / 2\<rparr>,
      pg_right = \<lparr>il_instrument_id = ''Q'', il_side = SHORT, il_gross_fraction = 1 / 2\<rparr>, pg_hedge_ratio = 1,
      pg_risk_reference = \<lparr>cr_spread_mean = 0, cr_spread_std = 1, cr_current_spread = 3, cr_current_z = 3,
        cr_adverse_boundary_z = 4, cr_maximum_hold_until = example_flatten, cr_net_gross_fraction = 0\<rparr>,
      pg_max_leg_lag_seconds = 4, pg_reasons = [], pg_fit = example_fit, pg_settings = example_pairs,
      pg_candidate = example_pair, pg_input_hash = [], pg_universe_hash = [], pg_state_hash = [], pg_code_commit = [],
      pg_config_hash = [], pg_data_snapshot = []\<rparr>"

definition example_inventory :: relative_inventory where
  "example_inventory =
     \<lparr>iy_snapshot_id = ''v'', iy_observed_at = example_relative_time, iy_complete = True,
      iy_reservations = map (\<lambda>t. \<lparr>iy_entity_id = ''godzilla:security:NSE:EQ:'' @ t, iy_owner_alpha = ''pairs_stat_arb'',
        iy_reference_id = ''1''\<rparr>) [''P'', ''Q'']\<rparr>"

lemma example_inventory_built:
  "stat_arb_inventory (xh_uuid5 example_relative_hashes) [example_active_pair] example_relative_master
     (Aware example_relative_time 0) ''v'' True = Inr example_inventory"
  by code_simp

definition example_beta :: beta_estimate where
  "example_beta =
     \<lparr>be_beta = 1, be_intercept = 0, be_split_drift = 0, be_training_start = example_open,
      be_training_end = example_relative_time - minutes 5, be_returns = 8, be_input_hash = ''t'', be_market_hash = ''n''\<rparr>"

definition example_returns8 :: "rat list" where
  "example_returns8 = [1 / 4, - 1 / 4, 1 / 4, - 1 / 4, 1 / 4, - 1 / 4, 1 / 4, - 1 / 4]"

lemma quarters:
  "dec (5 / 4) = 5 / 4" "dec (3 / 4) = 3 / 4" "fl (5 / 4) = 5 / 4" "fl (3 / 4) = 3 / 4" "fl (1 / 4) = 1 / 4" "fl (1 / 16) = 1 / 16"
  "fl (1 / 2) = 1 / 2"
  by code_simp+

lemma example_simple_returns:
  "simple_returns (map bx_stock (example_beta_rows token)) = example_returns8"
  "simple_returns (map bx_market (example_beta_rows token)) = example_returns8"
  by (simp_all add: simple_returns_def example_beta_rows_def example_beta_row_def example_closes_def example_reversal_bar_def
      simple_return_def upt_rec Let_def quarters example_returns8_def)

lemma example_return_lines:
  "ols example_returns8 example_returns8 = Inr (0, 1)"
  "ols (take 4 example_returns8) (take 4 example_returns8) = Inr (0, 1)"
  "ols (drop 4 example_returns8) (drop 4 example_returns8) = Inr (0, 1)"
proof -
  have "fl (1 / 1000000000000000) < 1 / 16" by code_simp
  then show "ols example_returns8 example_returns8 = Inr (0, 1)"
    "ols (take 4 example_returns8) (take 4 example_returns8) = Inr (0, 1)"
    "ols (drop 4 example_returns8) (drop 4 example_returns8) = Inr (0, 1)"
    by (simp_all add: ols_def float_eval quarters example_returns8_def)
qed

lemma example_beta_of_rows:
  "beta_of_rows example_relative_hashes example_relative (example_beta_rows token) = Inr example_beta"
proof -
  have "b_start (bx_stock (hd (example_beta_rows token))) = example_open"
    "b_end (bx_stock (last (example_beta_rows token))) = example_relative_time - minutes 5"
    by (simp_all add: example_beta_rows_def example_beta_row_def example_closes_def example_reversal_bar_def upt_rec Let_def
        example_open_def example_relative_time_def minutes_def)
  moreover have "length example_returns8 = 8" by (simp add: example_returns8_def)
  ultimately show ?thesis
    by (simp add: beta_of_rows_def Let_def example_simple_returns example_return_lines example_relative_def mk_beta_estimate_def
        fdiv_def example_relative_hashes_def example_beta_def)
qed

lemma example_estimate:
  assumes "token = ''A'' \<or> token = ''B''"
  shows "estimate_beta example_relative_hashes example_relative (example_beta_rows token)
     \<lparr>ir_instrument_id = token, ir_source = ''vendor''\<rparr> \<lparr>ir_instrument_id = ''N'', ir_source = ''vendor''\<rparr>
     example_relative_time example_open = Inr example_beta"
proof -
  let ?cut = "example_relative_time - minutes 5"
  have "beta_rows (example_beta_rows ''A'') example_open ?cut 8 = example_beta_rows ''A''"
    "beta_rows (example_beta_rows ''B'') example_open ?cut 8 = example_beta_rows ''B''" by (code_simp, code_simp)
  then have rows: "beta_rows (example_beta_rows token) example_open ?cut 8 = example_beta_rows token" using assms by blast
  have "check_beta_rows \<lparr>ir_instrument_id = ''A'', ir_source = ''vendor''\<rparr> \<lparr>ir_instrument_id = ''N'', ir_source = ''vendor''\<rparr>
      example_open ?cut None (example_beta_rows ''A'') = Inr ()"
    "check_beta_rows \<lparr>ir_instrument_id = ''B'', ir_source = ''vendor''\<rparr> \<lparr>ir_instrument_id = ''N'', ir_source = ''vendor''\<rparr>
      example_open ?cut None (example_beta_rows ''B'') = Inr ()" by (code_simp, code_simp)
  then have check: "check_beta_rows \<lparr>ir_instrument_id = token, ir_source = ''vendor''\<rparr> \<lparr>ir_instrument_id = ''N'', ir_source = ''vendor''\<rparr>
      example_open ?cut None (example_beta_rows token) = Inr ()" using assms by blast
  have "length (example_beta_rows token) = 9" "b_end (bx_stock (last (example_beta_rows token))) = ?cut"
    by (simp_all add: example_beta_rows_def example_beta_row_def example_closes_def example_reversal_bar_def upt_rec Let_def
        example_open_def example_relative_time_def minutes_def)
  moreover have "xs_training_returns example_relative = 8" by (simp add: example_relative_def)
  ultimately show ?thesis
    by (simp add: estimate_beta_def Let_def rows check example_beta_of_rows)
qed

definition example_items :: "relative_observation list" where
  "example_items = [example_relative_item ''A'' (1 / 64), example_relative_item ''B'' (- 1 / 64)]"

definition example_ranked :: "string \<Rightarrow> rat \<Rightarrow> ranked_security" where
  "example_ranked token strength =
     \<lparr>rk_instrument_id = token, rk_sector = ''S'', rk_strength = strength, rk_percentile = 0, rk_beta = example_beta,
      rk_feature_hash = ''f''\<rparr>"

definition example_relative_run :: "relative_result result" where
  "example_relative_run = relative_evaluate example_relative_hashes (\<lambda>_. ''x'') (session_on nse_2026) kolkata example_relative
     example_items example_two_universe example_relative_master example_relative_state example_inventory
     (Aware example_relative_time 0) PAPER"

lemma example_item_checks:
  assumes "(token, x) = (''A'', 1 / 64) \<or> (token, x) = (''B'', - 1 / 64)"
  shows "relative_candidate example_relative_hashes example_relative example_two_universe example_relative_master
     example_relative_state (map iy_entity_id (iy_reservations example_inventory)) 20641 example_open example_relative_time
     (example_relative_item token x) = Inr (example_ranked token x)"
proof -
  have tok: "token = ''A'' \<or> token = ''B''" using assms by auto
  have parts: "ro_history (example_relative_item token x) = example_beta_rows token"
    "sn_entity (mo_snapshot (ro_current (example_relative_item token x))) = token"
    "fc_entity (mo_context (ro_current (example_relative_item token x))) = \<lparr>ir_instrument_id = token, ir_source = ''vendor''\<rparr>"
    "fc_nifty (mo_context (ro_current (example_relative_item token x))) = Some \<lparr>ir_instrument_id = ''N'', ir_source = ''vendor''\<rparr>"
    "xh_snapshot example_relative_hashes s = ''f''" for s
    by (simp_all add: example_relative_item_def example_part_def example_observation_def Let_def example_relative_hashes_def)
  have found: "dict_of in_token (im_instruments example_relative_master) token = Some (example_instrument token ''S'')"
    using tok by (auto simp: dict_of_def example_relative_master_def example_instrument_def)
  have A: "relative_liquid example_relative (example_relative_item ''A'' (1 / 64)) = Inr ()"
    "relative_strength example_relative (example_relative_item ''A'' (1 / 64)) = Inr (1 / 64)"
    "\<not> relative_context_bad example_relative_hashes example_two_universe example_relative_state example_relative_time
      (example_instrument ''A'' ''S'') (ro_current (example_relative_item ''A'' (1 / 64)))"
    "security_id (xh_uuid5 example_relative_hashes) (example_instrument ''A'' ''S'')
       \<notin> set (map iy_entity_id (iy_reservations example_inventory))" "\<not> instrument_ineligible (example_instrument ''A'' ''S'') 20641"
    by (code_simp, code_simp, code_simp, code_simp, code_simp)
  have B: "relative_liquid example_relative (example_relative_item ''B'' (- 1 / 64)) = Inr ()"
    "relative_strength example_relative (example_relative_item ''B'' (- 1 / 64)) = Inr (- 1 / 64)"
    "\<not> relative_context_bad example_relative_hashes example_two_universe example_relative_state example_relative_time
      (example_instrument ''B'' ''S'') (ro_current (example_relative_item ''B'' (- 1 / 64)))"
    "security_id (xh_uuid5 example_relative_hashes) (example_instrument ''B'' ''S'')
       \<notin> set (map iy_entity_id (iy_reservations example_inventory))" "\<not> instrument_ineligible (example_instrument ''B'' ''S'') 20641"
    by (code_simp, code_simp, code_simp, code_simp, code_simp)
  have fields: "in_token (example_instrument token ''S'') = token" "in_sector (example_instrument token ''S'') = ''S''"
    by (simp_all add: example_instrument_def)
  have "token = ''A'' \<and> x = 1 / 64 \<or> token = ''B'' \<and> x = - 1 / 64" using assms by (simp only: prod.inject)
  then have "relative_liquid example_relative (example_relative_item token x) = Inr ()"
    "relative_strength example_relative (example_relative_item token x) = Inr x"
    "\<not> relative_context_bad example_relative_hashes example_two_universe example_relative_state example_relative_time
      (example_instrument token ''S'') (ro_current (example_relative_item token x))"
    "security_id (xh_uuid5 example_relative_hashes) (example_instrument token ''S'')
       \<notin> set (map iy_entity_id (iy_reservations example_inventory))" "\<not> instrument_ineligible (example_instrument token ''S'') 20641"
    using A B by blast+
  then show ?thesis
    unfolding relative_candidate_def Let_def parts found option.sel
    by (simp add: fields example_estimate[OF tok] example_ranked_def)
qed

lemma example_scan:
  "relative_scan (relative_candidate example_relative_hashes example_relative example_two_universe example_relative_master
     example_relative_state (map iy_entity_id (iy_reservations example_inventory)) 20641 example_open example_relative_time)
     example_items = Inr ([], [example_ranked ''A'' (1 / 64), example_ranked ''B'' (- 1 / 64)])"
  by (simp add: example_items_def example_item_checks)

definition example_placed :: "ranked_security list" where
  "example_placed = [(example_ranked ''A'' (1 / 64))\<lparr>rk_percentile := 3 / 4\<rparr>, (example_ranked ''B'' (- 1 / 64))\<lparr>rk_percentile := 1 / 4\<rparr>]"

lemma isclose_code [code]:
  "isclose a b abs_tol \<longleftrightarrow>
     (if a = b then True
      else let d = \<bar>fl (b - a)\<bar>; rel = fl (1 / 1000000000) in d \<le> \<bar>fl (rel * b)\<bar> \<or> d \<le> \<bar>fl (rel * a)\<bar> \<or> d \<le> abs_tol)"
  by (simp add: isclose_def Let_def)

lemma limits_nonneg: "0 \<le> x \<Longrightarrow> 0 \<le> fl (x + exposure_tolerance)"
  by (intro flr.nonneg add_nonneg_nonneg) (simp_all add: exposure_tolerance_def flr.nonneg)

lemma example_weights: "neutral_weights 1 1 example_relative = Inr (1 / 2, 1 / 2)"
  using limits_nonneg[of "1 / 8"]
  by (simp add: neutral_weights_def fdiv_def quarters Let_def example_relative_def fl_small_dyadic small_dyadic_def not_less)

lemma example_tails:
  "percentiles [1 / 64, - 1 / 64] = Inr [3 / 4, 1 / 4]"
  "leaders_of example_relative_hashes example_relative example_relative_master example_placed = [hd example_placed]"
  "laggards_of example_relative_hashes example_relative example_two_universe example_relative_master example_placed = [last example_placed]"
  "\<not> tails_insufficient example_relative [hd example_placed] [last example_placed]"
  "mean_beta [hd example_placed] = 1" "mean_beta [last example_placed] = 1"
  by (code_simp, code_simp, code_simp, code_simp, code_simp, code_simp)

definition example_leg :: "string \<Rightarrow> side \<Rightarrow> rat \<Rightarrow> rat \<Rightarrow> basket_leg" where
  "example_leg token sd strength p =
     \<lparr>bl_entity_id = ''godzilla:security:NSE:EQ:'' @ token, bl_instrument_id = token, bl_symbol = token, bl_sector = ''S'',
      bl_side = sd, bl_gross_fraction = 1 / 2, bl_residual_strength = strength, bl_percentile = p, bl_beta = example_beta,
      bl_feature_hash = ''f''\<rparr>"

definition example_basket :: basket_intent where
  "example_basket =
     \<lparr>bn_signal_id = ''godzilla:sector_relative_value:godzilla:rv-basket:godzilla:security:NSE:EQ:A:godzilla:security:NSE:EQ:B:''
        @ iso_instant example_relative_time,
      bn_entity_id = ''godzilla:rv-basket:godzilla:security:NSE:EQ:A:godzilla:security:NSE:EQ:B'',
      bn_timestamp = example_relative_time, bn_sector = ''S'',
      bn_legs = [example_leg ''A'' LONG (1 / 64) (3 / 4), example_leg ''B'' SHORT (- 1 / 64) (1 / 4)], bn_hedge_ratio = 1,
      bn_risk_reference = \<lparr>bk_signed_net_gross = 0, bk_signed_beta_gross = 0, bk_long_beta = 1, bk_short_beta = 1,
        bk_flatten_by = example_flatten\<rparr>,
      bn_max_leg_lag_seconds = 4, bn_reasons = basket_reasons, bn_settings = example_relative, bn_universe_hash = ''u'',
      bn_master_hash = ''m'', bn_inventory_hash = ''i'', bn_state_hash = ''s'', bn_cross_section_hash = ''x'',
      bn_code_commit = sd_code_commit example_relative_state, bn_config_hash = sd_config_hash example_relative_state,
      bn_data_snapshot = sd_data_snapshot example_relative_state,
      bn_feature_set_hash = se_feature_set_hash (sd_evidence example_relative_state)\<rparr>"

lemma example_legs_of:
  "rmap (basket_leg_of example_relative_hashes example_relative example_relative_master ''S'' (LONG, 1 / 2)) [hd example_placed]
   = Inr [example_leg ''A'' LONG (1 / 64) (3 / 4)]"
  "rmap (basket_leg_of example_relative_hashes example_relative example_relative_master ''S'' (SHORT, 1 / 2)) [last example_placed]
   = Inr [example_leg ''B'' SHORT (- 1 / 64) (1 / 4)]"
  by (code_simp, code_simp)

lemma example_sums:
  "float_sum [1 / 2] = 1 / 2" "float_sum [1 / 2, 1 / 2] = 1" "float_sum [1 / 2, - (1 / 2)] = 0" "float_sum [3 / 4] = 3 / 4"
  "float_sum [1 / 4] = 1 / 4"
  by code_simp+

lemma example_side_legs:
  "bn_legs example_basket = [example_leg ''A'' LONG (1 / 64) (3 / 4), example_leg ''B'' SHORT (- 1 / 64) (1 / 4)]"
  "legs_of LONG example_basket = [example_leg ''A'' LONG (1 / 64) (3 / 4)]"
  "legs_of SHORT example_basket = [example_leg ''B'' SHORT (- 1 / 64) (1 / 4)]"
  by (simp_all add: legs_of_def example_basket_def example_leg_def)

lemma example_exposure:
  "basket_net example_basket = 0" "basket_beta example_basket = 0" "basket_score example_basket = 1 / 2"
  "gross_of (bn_legs example_basket) = 1" "gross_of (legs_of LONG example_basket) = 1 / 2"
  "gross_of (legs_of SHORT example_basket) = 1 / 2"
  "side_beta_ok (legs_of LONG example_basket) 1" "side_beta_ok (legs_of SHORT example_basket) 1"
  by (simp_all add: basket_net_def basket_beta_def basket_score_def gross_of_def side_beta_ok_def example_side_legs example_leg_def
      signed_fraction_def sign_of_def beta_exposure_def example_beta_def example_sums quarters isclose_code Let_def)

lemma example_basket_simps:
  "length (legs_of LONG example_basket) = members_of example_relative" "length (legs_of SHORT example_basket) = members_of example_relative"
  "list_all (\<lambda>l. bl_sector l = bn_sector example_basket \<and> be_training_end (bl_beta l) < bn_timestamp example_basket) (bn_legs example_basket)"
  "bn_settings example_basket = example_relative" "bn_max_leg_lag_seconds example_basket = xs_max_leg_lag_seconds example_relative"
  "bn_hedge_ratio example_basket = 1" "bn_timestamp example_basket < bk_flatten_by (bn_risk_reference example_basket)"
  "bk_signed_net_gross (bn_risk_reference example_basket) = 0" "bk_signed_beta_gross (bn_risk_reference example_basket) = 0"
  "bk_long_beta (bn_risk_reference example_basket) = 1" "bk_short_beta (bn_risk_reference example_basket) = 1"
  unfolding example_side_legs
  by (simp_all add: example_basket_def example_relative_def members_of_def example_leg_def example_beta_def
      example_relative_time_def minutes_def example_flatten_def)

lemma example_distinct:
  "count_distinct (map bl_entity_id (bn_legs example_basket)) = length (bn_legs example_basket)"
proof -
  have "distinct (map bl_entity_id (bn_legs example_basket))" by (simp add: example_side_legs example_leg_def)
  then show ?thesis unfolding count_distinct_eq_iff[symmetric] by simp
qed

lemma example_coherent: "coherent_exposure example_basket"
  using limits_nonneg[of "xs_max_net_gross example_relative"] limits_nonneg[of "xs_max_beta_gross example_relative"]
  unfolding coherent_exposure_def Let_def example_basket_simps example_exposure example_distinct
  by (simp add: example_basket_simps example_exposure isclose_code) (simp add: example_relative_def)

lemma example_basket_of:
  "basket_of example_relative_hashes example_relative example_two_universe example_relative_master
     example_relative_state example_inventory example_relative_time example_flatten ''x'' ''S''
     ([hd example_placed], [last example_placed]) ((1, 1), (1 / 2, 1 / 2)) = Inr example_basket"
proof -
  have "mk_basket example_basket = Inr example_basket"
    using example_coherent by (simp add: mk_basket_def example_side_legs) (simp add: example_basket_def)
  then show ?thesis
    unfolding basket_of_def example_legs_of prod.case rbind.simps
    by (simp add: fdiv_def mk_basket_risk_def Let_def example_leg_def)
      (simp add: example_basket_def example_leg_def example_relative_hashes_def example_relative_def)
qed

lemma example_sector:
  "relative_sector example_relative_hashes example_relative example_two_universe example_relative_master
     example_relative_state example_inventory example_relative_time example_flatten ''x''
     [example_ranked ''A'' (1 / 64), example_ranked ''B'' (- 1 / 64)] ''S'' = Inr (Inr example_basket)"
proof -
  have "filter (\<lambda>c. rk_sector c = ''S'') [example_ranked ''A'' (1 / 64), example_ranked ''B'' (- 1 / 64)]
      = [example_ranked ''A'' (1 / 64), example_ranked ''B'' (- 1 / 64)]"
    "map rk_strength [example_ranked ''A'' (1 / 64), example_ranked ''B'' (- 1 / 64)] = [1 / 64, - 1 / 64]"
    "map2 with_percentile [example_ranked ''A'' (1 / 64), example_ranked ''B'' (- 1 / 64)] [3 / 4, 1 / 4] = example_placed"
    "xs_minimum_sector_size example_relative = 2"
    by (simp_all add: example_ranked_def example_placed_def with_percentile_def example_relative_def)
  then show ?thesis
    unfolding relative_sector_def Let_def by (simp only: example_tails rbind.simps if_False example_weights sum.case example_basket_of list.size) simp
qed

lemma example_relative_window:
  "relative_window (session_on nse_2026) kolkata example_relative_time = Inr (example_open, example_flatten)"
proof -
  have "session_on nse_2026 (local_day kolkata example_relative_time) = Inr (Some \<lparr>se_date = 20641, se_timezone = kolkata,
      se_times = cs_regular_times nse_2026, se_special = False\<rparr>)"
    by (simp add: session_on_def nse_2026_def dict_of_def weekday_def kolkata_def fixed_zone_def local_day_def
        day_us_def minutes_def example_relative_time_def)
  moreover have "time_of_session \<lparr>se_date = 20641, se_timezone = kolkata, se_times = cs_regular_times nse_2026,
      se_special = False\<rparr> 20641 open_time = example_open"
    "time_of_session \<lparr>se_date = 20641, se_timezone = kolkata, se_times = cs_regular_times nse_2026,
      se_special = False\<rparr> 20641 flatten_start_time = example_flatten"
    "example_open < example_relative_time \<and> example_relative_time < min (time_of_session \<lparr>se_date = 20641, se_timezone = kolkata,
      se_times = cs_regular_times nse_2026, se_special = False\<rparr> 20641 final_entry_time) example_flatten"
    "\<not> off_grid (example_relative_time - example_open)"
    by (code_simp, code_simp, code_simp, code_simp)
  ultimately show ?thesis by (simp add: relative_window_def Let_def)
qed

lemma example_relative_result:
  "example_relative_run = Inr \<lparr>rl_intents = [example_basket], rl_reports = [], rl_reasons = [''EVALUATION_COMPLETE'']\<rparr>"
proof -
  have guards: "\<not> relative_blocked example_relative_time example_relative_state"
    "\<not> inventory_unavailable example_relative example_inventory example_relative_time"
    "select_relative example_items example_relative_time = example_items"
    "relative_universe_bad example_relative_hashes kolkata (relative_ids example_items) example_two_universe
       example_relative_master example_relative_time = Inr False"
    by (code_simp, code_simp, code_simp, code_simp)
  have day: "local_day kolkata example_relative_time = 20641" and on: "xs_enabled example_relative"
    by (code_simp, simp add: example_relative_def)
  have sectors: "sort (remdups (map rk_sector [example_ranked ''A'' (1 / 64), example_ranked ''B'' (- 1 / 64)])) = [''S'']"
    "count_distinct (map (\<lambda>c. be_market_hash (rk_beta c)) [example_ranked ''A'' (1 / 64), example_ranked ''B'' (- 1 / 64)]) = 1"
    by (simp_all add: example_ranked_def count_distinct_card)
  show ?thesis
    unfolding example_relative_run_def relative_evaluate_def Let_def
    by (simp add: utc_def guards on day example_relative_window example_scan relative_rank_def sectors[simplified] example_sector[simplified] lefts_def
        map_filter_def)
qed

theorem relative_admission_witness:
  "bn_settings example_basket = example_relative \<and> coherent_exposure example_basket
   \<and> tail_leg example_relative example_two_universe example_relative_master (example_leg ''B'' SHORT (- 1 / 64) (1 / 4))"
  using relative_admission[OF example_relative_result[unfolded example_relative_run_def], of example_basket]
  by (auto simp: example_side_legs)

theorem baskets_disjoint_witness:
  "distinct (concat (map (\<lambda>b. map bl_entity_id (bn_legs b)) [example_basket]))"
  using baskets_disjoint[OF example_relative_result[unfolded example_relative_run_def]] by simp

theorem pairs_and_baskets_disjoint_witness:
  "bl_entity_id (example_leg ''A'' LONG (1 / 64) (3 / 4)) \<noteq> security_of example_relative_hashes example_relative_master ''Q''"
  using pairs_and_baskets_disjoint[OF example_inventory_built example_relative_result[unfolded example_relative_run_def],
      of example_basket "example_leg ''A'' LONG (1 / 64) (3 / 4)" example_active_pair "pg_right example_active_pair"]
  by (simp add: example_side_legs) (simp add: example_active_pair_def)

theorem beta_training_causal_witness:
  "be_training_end example_beta = example_relative_time - minutes 5 \<and> be_returns example_beta = xs_training_returns example_relative
   \<and> xs_min_beta example_relative \<le> be_beta example_beta"
  using beta_training_causal[OF example_estimate[of "''A''"]] by simp

theorem neutral_weights_sound_witness:
  "(1 / 2 :: rat) \<le> 1 \<and> 1 / 2 = fl (1 - 1 / 2)
   \<and> \<bar>fl (1 / 2 - 1 / 2)\<bar> \<le> fl (xs_max_net_gross example_relative + exposure_tolerance)"
proof -
  have "0 < xs_min_beta example_relative" by (simp add: example_relative_def)
  from neutral_weights_sound[OF example_weights this] show ?thesis by simp
qed

end
