(* ===== verification/Config_Loader.thy ===== *)
theory Config_Loader
  imports Instruments Normalize "HOL-Library.AList"
begin

text \<open>
  \<open>config/loader.py\<close> and \<open>load_yaml_model\<close> of \<open>market_data/providers.py\<close>: the YAML layers of the
  configuration, their recursive merge and the choice of the operating mode.

  A parsed YAML document is a \<open>yaml\<close>: a mapping keeps its keys in order, a number is kept as the text
  Python writes for it and a date or time as its \<open>str\<close> and its \<open>repr\<close>.  The files and the environment are
  arguments: \<open>read path\<close> is the document that \<open>yaml.safe_load\<close> returns for a path, or the text of the
  \<open>OSError\<close> or \<open>YAMLError\<close> it raises, and \<open>env\<close> lists the environment variables.  \<open>ConfigLoadError\<close> and
  \<open>SnapshotLoadError\<close> are \<open>RuntimeError\<close>s.
\<close>

datatype yaml =
    Yaml_Null
  | Yaml_Bool bool
  | Yaml_Num string
  | Yaml_Text string
  | Yaml_Stamp string string
  | Yaml_Seq "yaml list"
  | Yaml_Map "(string \<times> yaml) list"

type_synonym yaml_table = "(string \<times> yaml) list"
type_synonym reader = "string \<Rightarrow> string + yaml"

subsection \<open>Text of a value\<close>

fun yaml_repr :: "yaml \<Rightarrow> string" where
  "yaml_repr Yaml_Null = ''None''"
| "yaml_repr (Yaml_Bool b) = (if b then ''True'' else ''False'')"
| "yaml_repr (Yaml_Num t) = t"
| "yaml_repr (Yaml_Text s) = py_repr s"
| "yaml_repr (Yaml_Stamp s r) = r"
| "yaml_repr (Yaml_Seq xs) = ''['' @ join '', '' (map yaml_repr xs) @ '']''"
| "yaml_repr (Yaml_Map t) =
     ''{'' @ join '', '' (map (\<lambda>(k, v). py_repr k @ '': '' @ v) (map (\<lambda>(k, v). (k, yaml_repr v)) t)) @ ''}''"

fun yaml_str :: "yaml \<Rightarrow> string" where
  "yaml_str (Yaml_Text s) = s"
| "yaml_str (Yaml_Stamp s r) = s"
| "yaml_str v = yaml_repr v"

subsection \<open>Merging layers\<close>

text \<open>
  \<open>_deep_merge\<close>: every key of the override is written into a copy of the base, in the override's order;
  two mappings under one key are merged, anything else is replaced.
\<close>

function deep_merge :: "yaml_table \<Rightarrow> yaml_table \<Rightarrow> yaml_table" where
  "deep_merge base [] = base"
| "deep_merge base ((k, v) # rest) =
     deep_merge
       (AList.update k
          (case (map_of base k, v) of
             (Some (Yaml_Map b), Yaml_Map over) \<Rightarrow> Yaml_Map (deep_merge b over)
           | _ \<Rightarrow> v)
          base) rest"
  by pat_completeness auto

termination
  by (relation "measure (\<lambda>(b, over). size (Yaml_Map over))") auto

subsection \<open>Loading\<close>

definition load_yaml :: "reader \<Rightarrow> string \<Rightarrow> yaml_table result" where
  "load_yaml read path =
     (case read path of
        Inl exc \<Rightarrow> Inl (RuntimeError (''unable to load '' @ path @ '': '' @ exc))
      | Inr (Yaml_Map t) \<Rightarrow> Inr t
      | Inr _ \<Rightarrow> Inl (RuntimeError (''configuration layer must be a mapping: '' @ path)))"

text \<open>\<open>TradingMode(name)\<close>.\<close>

definition mode_of_name :: "string \<Rightarrow> trading_mode option" where
  "mode_of_name s = find (\<lambda>m. mode_name m = s) [RESEARCH, BACKTEST, PAPER, LIVE]"

text \<open>\<open>os.getenv("GODZILLA_MODE")\<close> is the argument \<open>env\<close>.\<close>

definition mode_from_environment :: "string option \<Rightarrow> trading_mode option result" where
  "mode_from_environment env =
     (case env of
        None \<Rightarrow> Inr None
      | Some name \<Rightarrow>
          (case mode_of_name (upper name) of
             None \<Rightarrow> Inl (RuntimeError (''invalid GODZILLA_MODE: '' @ name))
           | Some m \<Rightarrow> Inr (Some m)))"

definition mode_from_mapping :: "yaml_table \<Rightarrow> trading_mode result" where
  "mode_from_mapping config =
     (let value = (case map_of config ''mode'' of None \<Rightarrow> Yaml_Text ''PAPER'' | Some v \<Rightarrow> v)
      in case mode_of_name (upper (yaml_str value)) of
           None \<Rightarrow> Inl (RuntimeError (''invalid base mode: '' @ yaml_str value))
         | Some m \<Rightarrow> Inr m)"

text \<open>\<open>mode or _mode_from_environment() or _mode_from_mapping(base)\<close>.\<close>

definition select_mode :: "trading_mode option \<Rightarrow> string option \<Rightarrow> yaml_table \<Rightarrow> trading_mode result" where
  "select_mode mode env base =
     (case mode of
        Some m \<Rightarrow> Inr m
      | None \<Rightarrow>
          rbind (mode_from_environment env) (\<lambda>found.
            case found of Some m \<Rightarrow> Inr m | None \<Rightarrow> mode_from_mapping base))"

fun profile_of :: "trading_mode \<Rightarrow> string" where
  "profile_of RESEARCH = ''research.yaml''"
| "profile_of BACKTEST = ''research.yaml''"
| "profile_of PAPER = ''paper.yaml''"
| "profile_of LIVE = ''production.yaml''"

text \<open>\<open>directory / name\<close>.\<close>

definition in_dir :: "string \<Rightarrow> string \<Rightarrow> string" where
  "in_dir d name = d @ ''/'' @ name"

definition merged_settings ::
  "reader \<Rightarrow> string option \<Rightarrow> string \<Rightarrow> trading_mode option \<Rightarrow> yaml_table result" where
  "merged_settings read env d mode =
     rbind (load_yaml read (in_dir d ''base.yaml'')) (\<lambda>base.
     rbind (select_mode mode env base) (\<lambda>m.
     rbind (load_yaml read (in_dir d (profile_of m))) (\<lambda>profile.
     rbind (load_yaml read (in_dir d ''compliance.yaml'')) (\<lambda>compliance.
       Inr (AList.update ''mode'' (Yaml_Text (mode_name m))
              (deep_merge (deep_merge base profile) compliance))))))"

text \<open>
  \<open>Settings(**merged)\<close> is built by \<open>pydantic_settings\<close>, an argument of the model: the table it makes of the variables
  \<open>GODZILLA_*\<close>, those of a \<open>.env\<close> file and of a directory of secrets, and how it combines a list of sources.
\<close>

type_synonym environment = "(string \<times> string) list"

record settings_sources =
  ss_environment :: "environment \<Rightarrow> yaml_table"
  ss_dotenv :: yaml_table
  ss_secret_files :: yaml_table
  ss_combine :: "yaml_table list \<Rightarrow> yaml_table"

text \<open>\<open>Settings.settings_customise_sources\<close>: the environment first, then the arguments; nothing else is read.\<close>

definition settings_customise_sources ::
  "yaml_table \<Rightarrow> yaml_table \<Rightarrow> yaml_table \<Rightarrow> yaml_table \<Rightarrow> yaml_table list" where
  "settings_customise_sources init env dotenv secret_files = [env, init]"

definition effective_table :: "settings_sources \<Rightarrow> environment \<Rightarrow> yaml_table \<Rightarrow> yaml_table" where
  "effective_table P env merged =
     ss_combine P (settings_customise_sources merged (ss_environment P env) (ss_dotenv P) (ss_secret_files P))"

text \<open>The table the fields of the settings are taken from.\<close>

definition effective_settings ::
  "reader \<Rightarrow> settings_sources \<Rightarrow> environment \<Rightarrow> string \<Rightarrow> trading_mode option \<Rightarrow> yaml_table result" where
  "effective_settings read P env d mode =
     rbind (merged_settings read (map_of env ''GODZILLA_MODE'') d mode) (\<lambda>merged. Inr (effective_table P env merged))"

definition load_settings ::
  "reader \<Rightarrow> settings_sources \<Rightarrow> environment \<Rightarrow> (yaml_table \<Rightarrow> 'a result) \<Rightarrow> string \<Rightarrow> trading_mode option
     \<Rightarrow> 'a result" where
  "load_settings read P env from_table d mode = rbind (effective_settings read P env d mode) from_table"

text \<open>\<open>load_yaml_model\<close>; \<open>validate\<close> is the \<open>model_validate\<close> of the requested model.\<close>

definition load_yaml_model ::
  "reader \<Rightarrow> (yaml \<Rightarrow> 'a result) \<Rightarrow> string \<Rightarrow> string option \<Rightarrow> 'a result" where
  "load_yaml_model read validate path root_key =
     (case read path of
        Inl exc \<Rightarrow> Inl (RuntimeError (''unable to load snapshot '' @ path @ '': '' @ exc))
      | Inr doc \<Rightarrow>
          (case root_key of
             None \<Rightarrow> validate doc
           | Some key \<Rightarrow>
               (case (case doc of Yaml_Map t \<Rightarrow> map_of t key | _ \<Rightarrow> None) of
                  None \<Rightarrow> Inl (RuntimeError (''snapshot '' @ path @ '' has no '' @ py_repr key @ '' root''))
                | Some payload \<Rightarrow> validate payload)))"

subsection \<open>What a merge keeps\<close>

text \<open>
  \<open>leaf_at v p\<close> is the value, other than a mapping, that the keys \<open>p\<close> lead to in \<open>v\<close>, and \<open>decided v p\<close> says that
  \<open>v\<close> has a value at \<open>p\<close> or ends in something other than a mapping on the way.
\<close>

fun leaf_at :: "yaml \<Rightarrow> string list \<Rightarrow> yaml option" where
  "leaf_at (Yaml_Map t) [] = None"
| "leaf_at (Yaml_Map t) (k # ks) = (case map_of t k of None \<Rightarrow> None | Some v \<Rightarrow> leaf_at v ks)"
| "leaf_at v [] = Some v"
| "leaf_at v (k # ks) = None"

fun decided :: "yaml \<Rightarrow> string list \<Rightarrow> bool" where
  "decided v [] = True"
| "decided (Yaml_Map t) (k # ks) = (case map_of t k of None \<Rightarrow> False | Some v \<Rightarrow> decided v ks)"
| "decided v (k # ks) = True"

text \<open>The keys of a Python dictionary are distinct.\<close>

fun wf_yaml :: "yaml \<Rightarrow> bool" where
  "wf_yaml (Yaml_Seq xs) = list_all wf_yaml xs"
| "wf_yaml (Yaml_Map t) = (distinct (map fst t) \<and> list_all (\<lambda>(k, v). wf_yaml v) t)"
| "wf_yaml v = True"

definition merge_value :: "yaml option \<Rightarrow> yaml \<Rightarrow> yaml" where
  "merge_value b v =
     (case (b, v) of (Some (Yaml_Map t), Yaml_Map over) \<Rightarrow> Yaml_Map (deep_merge t over) | _ \<Rightarrow> v)"

lemma map_of_deep_merge:
  "distinct (map fst over) \<Longrightarrow>
     map_of (deep_merge base over) k =
       (case map_of over k of None \<Rightarrow> map_of base k | Some v \<Rightarrow> Some (merge_value (map_of base k) v))"
proof (induction over arbitrary: base)
  case (Cons kv rest)
  obtain k' v where kv: "kv = (k', v)" by (cases kv)
  have step: "deep_merge base ((k', v) # rest) =
      deep_merge (AList.update k' (merge_value (map_of base k') v) base) rest"
    by (simp add: merge_value_def split: option.splits yaml.splits)
  have d: "distinct (map fst rest)" "map_of rest k' = None"
    using Cons.prems by (auto simp: kv map_of_eq_None_iff)
  show ?case
    unfolding kv step Cons.IH[OF d(1)] using d(2)
    by (cases "k = k'") (auto simp: update_conv' split: option.splits)
qed simp

lemma leaf_at_nonmap: "\<not> (\<exists>t. v = Yaml_Map t) \<Longrightarrow> leaf_at v (k # ks) = None"
  by (cases v) auto

lemma decided_nonmap: "\<not> (\<exists>t. v = Yaml_Map t) \<Longrightarrow> decided v p"
  by (cases v; cases p) auto

lemma undecided_leaf: "\<not> decided v p \<Longrightarrow> leaf_at v p = None"
  by (induction v p rule: decided.induct) (auto split: option.splits)

lemma merge_value_cases:
  "(\<exists>t over. b = Some (Yaml_Map t) \<and> v = Yaml_Map over)
     \<or> merge_value b v = v \<and> (\<nexists>t over. b = Some (Yaml_Map t) \<and> v = Yaml_Map over)"
  by (auto simp: merge_value_def split: option.splits yaml.splits)

lemma leaf_at_merge:
  "wf_yaml (Yaml_Map over) \<Longrightarrow>
     leaf_at (Yaml_Map (deep_merge base over)) p =
       (if decided (Yaml_Map over) p then leaf_at (Yaml_Map over) p else leaf_at (Yaml_Map base) p)"
proof (induction p arbitrary: base over)
  case (Cons k ks)
  show ?case
  proof (cases "map_of over k")
    case None
    then show ?thesis using Cons.prems by (simp add: map_of_deep_merge)
  next
    case (Some v)
    have wf: "wf_yaml v" using Cons.prems map_of_SomeD[OF Some] by (auto simp: list_all_iff)
    have eq: "map_of (deep_merge base over) k = Some (merge_value (map_of base k) v)"
      using Cons.prems Some by (simp add: map_of_deep_merge)
    show ?thesis
    proof (cases "\<exists>t over'. map_of base k = Some (Yaml_Map t) \<and> v = Yaml_Map over'")
      case True
      then obtain t over' where "map_of base k = Some (Yaml_Map t)" "v = Yaml_Map over'" by blast
      then show ?thesis using Cons.IH[of over' t] wf Some eq by (simp add: merge_value_def)
    next
      case False
      then have 2: "merge_value (map_of base k) v = v" using merge_value_cases by blast
      note other = False
      show ?thesis
      proof (cases "decided v ks")
        case True
        then show ?thesis using 2 Some eq by simp
      next
        case False
        then obtain over' where v: "v = Yaml_Map over'" using decided_nonmap by blast
        obtain k' ks' where ks: "ks = k' # ks'" using False by (cases ks) auto
        have "(case map_of base k of None \<Rightarrow> None | Some w \<Rightarrow> leaf_at w ks) = None"
          using other v ks leaf_at_nonmap by (auto split: option.splits)
        moreover have "leaf_at v ks = None" using False by (rule undecided_leaf)
        ultimately show ?thesis using False 2 Some eq by simp
      qed
    qed
  qed
qed simp

lemma load_yaml_Inr: "load_yaml read path = Inr t \<longleftrightarrow> read path = Inr (Yaml_Map t)"
  by (auto simp: load_yaml_def split: sum.splits yaml.splits)

lemma merged_settings_Inr:
  assumes "merged_settings read env d mode = Inr t"
  obtains base m profile compliance where
    "read (in_dir d ''base.yaml'') = Inr (Yaml_Map base)" "select_mode mode env base = Inr m"
    "read (in_dir d (profile_of m)) = Inr (Yaml_Map profile)"
    "read (in_dir d ''compliance.yaml'') = Inr (Yaml_Map compliance)"
    "t = AList.update ''mode'' (Yaml_Text (mode_name m)) (deep_merge (deep_merge base profile) compliance)"
  using assms by (auto simp: merged_settings_def result_simps load_yaml_Inr)

lemma mode_of_mode_name: "mode_of_name (mode_name m) = Some m"
  by (cases m) (simp_all add: mode_of_name_def)

text \<open>What the first of several layers that decides a path has there.\<close>

fun first_decided :: "yaml_table list \<Rightarrow> string list \<Rightarrow> yaml option" where
  "first_decided [] p = None"
| "first_decided (t # ts) p = (if decided (Yaml_Map t) p then leaf_at (Yaml_Map t) p else first_decided ts p)"

lemma first_decided_last: "first_decided [t] p = leaf_at (Yaml_Map t) p"
  using undecided_leaf[of "Yaml_Map t" p] by simp

text \<open>
  The documented precedence of \<open>pydantic_settings\<close>: of the sources that \<open>settings_customise_sources\<close> returns, an
  earlier one has priority over a later one, setting by setting.
\<close>

definition prioritised :: "(yaml_table list \<Rightarrow> yaml_table) \<Rightarrow> bool" where
  "prioritised merge \<longleftrightarrow> (\<forall>sources p. (\<forall>t \<in> set sources. wf_yaml (Yaml_Map t)) \<longrightarrow>
     leaf_at (Yaml_Map (merge sources)) p = first_decided sources p)"

lemma wf_update:
  "distinct (map fst t) \<and> list_all (\<lambda>(k, v). wf_yaml v) t \<Longrightarrow> wf_yaml w \<Longrightarrow>
     distinct (map fst (AList.update k w t)) \<and> list_all (\<lambda>(k, v). wf_yaml v) (AList.update k w t)"
  by (induction t) (auto simp: list_all_iff dom_update image_iff)

lemma wf_deep_merge: "wf_yaml (Yaml_Map base) \<Longrightarrow> wf_yaml (Yaml_Map over) \<Longrightarrow> wf_yaml (Yaml_Map (deep_merge base over))"
proof (induction base over rule: deep_merge.induct)
  case (2 base k v rest)
  let ?v = "case (map_of base k, v) of (Some (Yaml_Map b), Yaml_Map over) \<Rightarrow> Yaml_Map (deep_merge b over) | _ \<Rightarrow> v"
  have "wf_yaml b" if "map_of base k = Some b" for b
    using map_of_SomeD[OF that] "2.prems"(1) by (auto simp: list_all_iff)
  then have "wf_yaml ?v"
    using "2.IH"(1) "2.prems"(2) by (auto split: option.splits yaml.splits)
  then have "wf_yaml (Yaml_Map (AList.update k ?v base))" using wf_update[of base ?v k] "2.prems"(1) by simp
  then show ?case using "2.IH"(2) "2.prems"(2) by simp
qed simp

text \<open>
  C22.  Layering: at every path, the table the settings are validated from has the value of the first of five layers
  that decides the path: the environment variables, the selected mode, \<open>compliance.yaml\<close>, the profile of the selected
  mode, \<open>base.yaml\<close>.  The selected mode is the explicit one, else that of \<open>GODZILLA_MODE\<close>, else the base file's.
\<close>

theorem settings_layers:
  assumes "effective_settings read P env d mode = Inr t" "\<forall>path doc. read path = Inr doc \<longrightarrow> wf_yaml doc"
    and "prioritised (ss_combine P)" "wf_yaml (Yaml_Map (ss_environment P env))"
  shows "\<exists>base m profile compliance.
    read (in_dir d ''base.yaml'') = Inr (Yaml_Map base) \<and> select_mode mode (map_of env ''GODZILLA_MODE'') base = Inr m
    \<and> read (in_dir d (profile_of m)) = Inr (Yaml_Map profile)
    \<and> read (in_dir d ''compliance.yaml'') = Inr (Yaml_Map compliance)
    \<and> (\<forall>p. leaf_at (Yaml_Map t) p =
         first_decided [ss_environment P env, [(''mode'', Yaml_Text (mode_name m))], compliance, profile, base] p)"
proof -
  obtain merged where merged: "merged_settings read (map_of env ''GODZILLA_MODE'') d mode = Inr merged"
    and t: "t = effective_table P env merged"
    using assms(1) by (auto simp: effective_settings_def result_simps)
  obtain base m profile compliance where r: "read (in_dir d ''base.yaml'') = Inr (Yaml_Map base)"
    "select_mode mode (map_of env ''GODZILLA_MODE'') base = Inr m"
    "read (in_dir d (profile_of m)) = Inr (Yaml_Map profile)"
    "read (in_dir d ''compliance.yaml'') = Inr (Yaml_Map compliance)"
    and m: "merged = AList.update ''mode'' (Yaml_Text (mode_name m)) (deep_merge (deep_merge base profile) compliance)"
    using merged by (rule merged_settings_Inr)
  let ?layers = "[[(''mode'', Yaml_Text (mode_name m))], compliance, profile, base]"
  have wf: "wf_yaml (Yaml_Map base)" "wf_yaml (Yaml_Map profile)" "wf_yaml (Yaml_Map compliance)"
    using assms(2) r by blast+
  have "wf_yaml (Yaml_Map (deep_merge (deep_merge base profile) compliance))" using wf wf_deep_merge by blast
  then have "wf_yaml (Yaml_Map merged)" unfolding m wf_yaml.simps by (rule wf_update) simp
  then have sources: "leaf_at (Yaml_Map t) p = first_decided [ss_environment P env, merged] p" for p
    using assms(3,4) unfolding t effective_table_def settings_customise_sources_def prioritised_def by simp
  have files: "leaf_at (Yaml_Map (deep_merge (deep_merge base profile) compliance)) p
      = first_decided [compliance, profile, base] p" for p
    unfolding first_decided.simps(2)[of compliance] first_decided.simps(2)[of profile] first_decided_last
      leaf_at_merge[OF wf(2)] leaf_at_merge[OF wf(3)] ..
  have "leaf_at (Yaml_Map merged) p = first_decided ?layers p" for p
  proof (cases p)
    case (Cons k ks)
    have dec: "decided (Yaml_Map [(''mode'', Yaml_Text u)]) (k # ks) \<longleftrightarrow> k = ''mode''" for u
      by (cases ks) simp_all
    show ?thesis
    proof (cases "k = ''mode''")
      case True
      have "leaf_at (Yaml_Map merged) (''mode'' # ks) = leaf_at (Yaml_Map [(''mode'', Yaml_Text (mode_name m))]) (''mode'' # ks)"
        by (simp add: m update_conv')
      then show ?thesis using dec Cons True by simp
    next
      case False
      then have "leaf_at (Yaml_Map merged) (k # ks)
          = leaf_at (Yaml_Map (deep_merge (deep_merge base profile) compliance)) (k # ks)"
        by (simp add: m update_conv')
      then show ?thesis using files[of "k # ks"] dec False unfolding Cons by (simp only: first_decided.simps) simp
    qed
  qed simp
  then have "leaf_at (Yaml_Map t) p = first_decided (ss_environment P env # ?layers) p" for p
    using sources[of p] unfolding first_decided.simps(2)[of "ss_environment P env"] first_decided_last by presburger
  then show ?thesis using r by blast
qed

definition example_reader :: reader where
  "example_reader path =
     (if path = ''config/base.yaml'' then
        Inr (Yaml_Map [(''mode'', Yaml_Text ''paper''),
          (''logging'', Yaml_Map [(''level'', Yaml_Text ''INFO''), (''local_path'', Yaml_Null)])])
      else if path = ''config/research.yaml'' then
        Inr (Yaml_Map [(''logging'', Yaml_Map [(''level'', Yaml_Text ''DEBUG'')]), (''pairs'', Yaml_Map [])])
      else if path = ''config/compliance.yaml'' then Inr (Yaml_Map [(''compliance'', Yaml_Map [])])
      else Inl ''no such file'')"

lemma example_upper: "upper ''research'' = ''RESEARCH''"
  by code_simp

lemma example_reader_wf: "\<forall>path doc. example_reader path = Inr doc \<longrightarrow> wf_yaml doc"
  by (auto simp: example_reader_def split: if_splits)

text \<open>Sources combined by the loader's own merge, and an environment that is given as a table.\<close>

definition example_sources :: "yaml_table \<Rightarrow> settings_sources" where
  "example_sources t = \<lparr>ss_environment = (\<lambda>_. t), ss_dotenv = [], ss_secret_files = [],
     ss_combine = (\<lambda>sources. foldr (\<lambda>t below. deep_merge below t) sources [])\<rparr>"

lemma example_prioritised: "prioritised (ss_combine (example_sources t))"
proof -
  have "leaf_at (Yaml_Map (foldr (\<lambda>t below. deep_merge below t) sources [])) p = first_decided sources p"
    if "\<forall>t \<in> set sources. wf_yaml (Yaml_Map t)" for sources p
    using that
  proof (induction sources)
    case Nil
    show ?case by (cases p) simp_all
  next
    case (Cons t sources)
    then have "wf_yaml (Yaml_Map t)" by (simp del: wf_yaml.simps)
    from leaf_at_merge[OF this] show ?case using Cons by (simp del: wf_yaml.simps)
  qed
  then show ?thesis by (simp add: prioritised_def example_sources_def)
qed

definition example_environment :: environment where
  "example_environment = [(''GODZILLA_MODE'', ''research''), (''GODZILLA_LOGGING__LEVEL'', ''WARNING'')]"

definition example_environment_table :: yaml_table where
  "example_environment_table =
     [(''mode'', Yaml_Text ''research''), (''logging'', Yaml_Map [(''level'', Yaml_Text ''WARNING'')])]"

text \<open>
  The explicit mode chooses the profile, but the variable \<open>GODZILLA_MODE\<close> is still the first source of the field
  \<open>mode\<close>: the settings then have the environment's mode with the profile of the other.
\<close>

lemma explicit_mode_overridden:
  "\<exists>t. effective_settings example_reader (example_sources [(''mode'', Yaml_Text ''live'')])
       [(''GODZILLA_MODE'', ''live'')] ''config'' (Some RESEARCH) = Inr t
     \<and> leaf_at (Yaml_Map t) [''mode''] = Some (Yaml_Text ''live'')
     \<and> leaf_at (Yaml_Map t) [''logging'', ''level''] = Some (Yaml_Text ''DEBUG'')"
  by (simp add: effective_settings_def merged_settings_def load_yaml_def example_reader_def in_dir_def select_mode_def
      effective_table_def settings_customise_sources_def example_sources_def)

theorem settings_layers_witness:
  "\<exists>t. effective_settings example_reader (example_sources example_environment_table) example_environment ''config'' None
       = Inr t
     \<and> leaf_at (Yaml_Map t) [''logging'', ''level''] = Some (Yaml_Text ''WARNING'')
     \<and> leaf_at (Yaml_Map t) [''logging'', ''local_path''] = Some Yaml_Null"
proof -
  let ?P = "example_sources example_environment_table"
  have g: "map_of example_environment ''GODZILLA_MODE'' = Some ''research''"
    by (simp add: example_environment_def)
  obtain t where t: "effective_settings example_reader ?P example_environment ''config'' None = Inr t"
    by (simp add: effective_settings_def g merged_settings_def load_yaml_def example_reader_def in_dir_def
        select_mode_def mode_from_environment_def mode_of_name_def example_upper)
  have e: "ss_environment ?P example_environment = example_environment_table" by (simp add: example_sources_def)
  obtain base m profile compliance where layers:
    "example_reader (in_dir ''config'' ''base.yaml'') = Inr (Yaml_Map base)"
    "select_mode None (Some ''research'') base = Inr m"
    "example_reader (in_dir ''config'' (profile_of m)) = Inr (Yaml_Map profile)"
    "example_reader (in_dir ''config'' ''compliance.yaml'') = Inr (Yaml_Map compliance)"
    "\<forall>p. leaf_at (Yaml_Map t) p =
       first_decided [example_environment_table, [(''mode'', Yaml_Text (mode_name m))], compliance, profile, base] p"
    using settings_layers[OF t example_reader_wf example_prioritised, unfolded g e]
    by (auto simp: example_environment_table_def)
  have "m = RESEARCH"
    using layers(2) by (simp add: select_mode_def mode_from_environment_def mode_of_name_def example_upper)
  then have "compliance = [(''compliance'', Yaml_Map [])]" "base = [(''mode'', Yaml_Text ''paper''),
      (''logging'', Yaml_Map [(''level'', Yaml_Text ''INFO''), (''local_path'', Yaml_Null)])]"
    "profile = [(''logging'', Yaml_Map [(''level'', Yaml_Text ''DEBUG'')]), (''pairs'', Yaml_Map [])]"
    using layers(1,3,4) by (simp_all add: example_reader_def in_dir_def)
  then have "leaf_at (Yaml_Map t) [''logging'', ''level''] = Some (Yaml_Text ''WARNING'')"
    "leaf_at (Yaml_Map t) [''logging'', ''local_path''] = Some Yaml_Null"
    unfolding layers(5)[rule_format] by (simp_all add: example_environment_table_def)
  then show ?thesis using t by blast
qed

end
