(* ===== verification/Config.thy ===== *)
theory Config
  imports Config_Loader Json Universe Quality Compliance Router Relative_Value Portfolio
begin

text \<open>
  \<open>config/models.py\<close>: the settings of the whole program, the validators that tie them together (allocator
  caps within risk limits, the prerequisites of LIVE) and the configuration hash.

  A field constraint of pydantic that fails is a \<open>ValueError\<close> naming the model.  \<open>known_zone\<close> tells the names
  of the zone database, \<open>dump\<close> is \<open>model_dump(mode="python")\<close> as its table of fields, and a \<open>SecretStr\<close> is
  its text.
\<close>

datatype alpha_availability = ENABLED | RESEARCH_ONLY | DISABLED

record market_settings =
  market_exchange :: string
  market_timezone :: string
  market_raw_bar :: string
  market_decision_bar :: string
  market_stabilization_minutes :: int
  market_final_entry_time :: time_of_day
  market_flatten_start_time :: time_of_day
  market_hard_flatten_deadline :: time_of_day

definition mk_market_settings :: "(string \<Rightarrow> bool) \<Rightarrow> market_settings \<Rightarrow> market_settings result" where
  "mk_market_settings known_zone m =
     (if market_stabilization_minutes m < 0 then Inl (ValueError ''validation error for MarketSettings'')
      else if \<not> known_zone (market_timezone m) then
        Inl (ValueError (''unknown timezone: '' @ market_timezone m))
      else if \<not> (market_final_entry_time m < market_flatten_start_time m
               \<and> market_flatten_start_time m < market_hard_flatten_deadline m) then
        Inl (ValueError ''session times must satisfy final_entry_time < flatten_start_time < hard_flatten_deadline'')
      else Inr m)"

definition universe_settings_ok :: "universe_settings \<Rightarrow> bool" where
  "universe_settings_ok u \<longleftrightarrow>
     0 \<le> us_liquidity_percentile_min u \<and> us_liquidity_percentile_min u \<le> 1
     \<and> 0 < us_max_spread_bps u \<and> Portfolio.unit_fraction (us_max_adv_participation u)"

record alpha_settings =
  alphas_cross_sectional_momentum :: alpha_availability
  alphas_momentum_breakout :: alpha_availability
  alphas_pairs_stat_arb :: alpha_availability
  alphas_vwap_mean_reversion :: alpha_availability
  alphas_sector_relative_value :: alpha_availability
  alphas_max_alpha_capital_fraction :: rat

text \<open>\<open>getattr(self.alphas, alpha_id.value)\<close>.\<close>

fun availability :: "alpha_settings \<Rightarrow> alpha_id \<Rightarrow> alpha_availability" where
  "availability a MOMENTUM = alphas_cross_sectional_momentum a"
| "availability a BREAKOUT = alphas_momentum_breakout a"
| "availability a PAIRS = alphas_pairs_stat_arb a"
| "availability a VWAP = alphas_vwap_mean_reversion a"
| "availability a RELATIVE_VALUE = alphas_sector_relative_value a"

record risk_settings =
  risk_directional_risk_per_trade :: rat
  risk_pair_risk_per_trade :: rat
  risk_max_open_portfolio_risk :: rat
  risk_max_positions :: int
  risk_max_positions_per_sector :: int
  risk_max_gross_notional :: rat
  risk_max_net_directional :: rat
  risk_daily_soft_loss :: rat
  risk_daily_hard_loss :: rat
  risk_weekly_hard_loss :: rat
  risk_max_peak_drawdown :: rat
  risk_leverage_enabled :: bool

definition mk_risk_settings :: "risk_settings \<Rightarrow> risk_settings result" where
  "mk_risk_settings r =
     (if \<not> (list_all Portfolio.unit_fraction [risk_directional_risk_per_trade r, risk_pair_risk_per_trade r,
              risk_max_open_portfolio_risk r, risk_daily_soft_loss r, risk_daily_hard_loss r,
              risk_weekly_hard_loss r, risk_max_peak_drawdown r]
            \<and> 0 < risk_max_positions r \<and> 0 < risk_max_positions_per_sector r
            \<and> 0 < risk_max_gross_notional r \<and> 0 \<le> risk_max_net_directional r) then
        Inl (ValueError ''validation error for RiskSettings'')
      else if risk_daily_hard_loss r \<le> risk_daily_soft_loss r then
        Inl (ValueError ''daily_soft_loss must be lower than daily_hard_loss'')
      else if risk_max_gross_notional r < risk_max_net_directional r then
        Inl (ValueError ''max_net_directional cannot exceed max_gross_notional'')
      else if risk_max_positions r < risk_max_positions_per_sector r then
        Inl (ValueError ''max_positions_per_sector cannot exceed max_positions'')
      else Inr r)"

record execution_settings =
  exec_market_orders_assumed_allowed :: bool
  exec_max_order_retries :: int
  exec_max_slippage_bps :: int
  exec_quote_stale_seconds :: int
  exec_reconcile_on_unknown :: bool
  exec_single_active_executor :: bool

definition execution_settings_ok :: "execution_settings \<Rightarrow> bool" where
  "execution_settings_ok x \<longleftrightarrow>
     0 \<le> exec_max_order_retries x \<and> 0 < exec_max_slippage_bps x \<and> 0 < exec_quote_stale_seconds x"

record logging_settings =
  log_level :: string
  log_local_path :: "string option"

definition log_levels :: "string list" where
  "log_levels = [''DEBUG'', ''INFO'', ''WARNING'', ''ERROR'', ''CRITICAL'']"

definition mk_logging_settings :: "logging_settings \<Rightarrow> logging_settings result" where
  "mk_logging_settings l =
     (let normalized = upper (log_level l)
      in if normalized \<notin> set log_levels then Inl (ValueError (''unsupported log level: '' @ log_level l))
         else Inr (l\<lparr>log_level := normalized\<rparr>))"

record production_settings =
  prod_deployment_approved :: bool
  prod_live_trading_enabled :: bool
  prod_leader_election_configured :: bool
  prod_release_id :: "string option"

record secret_settings =
  secret_broker_api_key :: "string option"
  secret_broker_access_token :: "string option"
  secret_database_password :: "string option"
  secret_dashboard_secret :: "string option"

definition absent_secret :: "string option \<Rightarrow> bool" where
  "absent_secret s = (case s of None \<Rightarrow> True | Some value \<Rightarrow> strip value = [])"

definition missing_live_requirements :: "secret_settings \<Rightarrow> string list" where
  "missing_live_requirements s =
     issue (absent_secret (secret_broker_api_key s)) ''secrets.broker_api_key''
     @ issue (absent_secret (secret_broker_access_token s)) ''secrets.broker_access_token''"

record settings =
  cfg_mode :: trading_mode
  cfg_starting_values_notice :: string
  cfg_market :: market_settings
  cfg_universe :: universe_settings
  cfg_alphas :: alpha_settings
  cfg_risk :: risk_settings
  cfg_execution :: execution_settings
  cfg_logging :: logging_settings
  cfg_production :: production_settings
  cfg_compliance :: compliance_profile
  cfg_data_quality :: quality_settings
  cfg_market_state :: router_settings
  cfg_momentum :: momentum_settings
  cfg_breakout :: breakout_settings
  cfg_pairs :: pairs_settings
  cfg_vwap_reversion :: vwap_settings
  cfg_relative_value :: relative_settings
  cfg_alpha_registry :: alpha_registry
  cfg_alpha_health :: alpha_health_settings
  cfg_allocator :: allocator_settings
  cfg_secrets :: secret_settings

definition nested_ok :: "settings \<Rightarrow> bool" where
  "nested_ok s \<longleftrightarrow>
     universe_settings_ok (cfg_universe s) \<and> Portfolio.unit_fraction (alphas_max_alpha_capital_fraction (cfg_alphas s))
     \<and> execution_settings_ok (cfg_execution s) \<and> profile_ok (cfg_compliance s)
     \<and> quality_settings_ok (cfg_data_quality s) \<and> router_settings_ok (cfg_market_state s)
     \<and> momentum_settings_ok (cfg_momentum s) \<and> breakout_settings_ok (cfg_breakout s)
     \<and> pairs_settings_ok (cfg_pairs s) \<and> vwap_settings_ok (cfg_vwap_reversion s)
     \<and> relative_settings_ok (cfg_relative_value s) \<and> registry_ok (cfg_alpha_registry s)
     \<and> health_settings_ok (cfg_alpha_health s) \<and> allocator_settings_ok (cfg_allocator s)"

subsection \<open>Validators over several components\<close>

definition allocation_policy_bounds :: "settings \<Rightarrow> settings result" where
  "allocation_policy_bounds s =
     (if list_ex (\<lambda>(value, limit). dec_of_float limit < value)
           [(al_max_alpha (cfg_allocator s), alphas_max_alpha_capital_fraction (cfg_alphas s)),
            (al_max_gross (cfg_allocator s), risk_max_gross_notional (cfg_risk s)),
            (al_max_net (cfg_allocator s), risk_max_net_directional (cfg_risk s)),
            (al_max_open_risk (cfg_allocator s), risk_max_open_portfolio_risk (cfg_risk s)),
            (al_max_adv_participation (cfg_allocator s), us_max_adv_participation (cfg_universe s))] then
        Inl (ValueError ''allocator caps cannot exceed configured portfolio/risk limits'')
      else if risk_max_positions (cfg_risk s) < al_max_groups (cfg_allocator s)
              \<or> risk_max_positions_per_sector (cfg_risk s) < al_max_sector_groups (cfg_allocator s) then
        Inl (ValueError ''allocator group caps cannot exceed configured position limits'')
      else if list_ex (\<lambda>r. ar_enabled r \<and> availability (cfg_alphas s) (ar_alpha_id r) = DISABLED)
                (cfg_alpha_registry s) then
        Inl (ValueError ''registry cannot enable a disabled alpha'')
      else Inr s)"

text \<open>The items that LIVE still misses, in the order the code lists them.\<close>

definition live_missing :: "settings \<Rightarrow> string list" where
  "live_missing s =
     structural_issues (cfg_compliance s) (cfg_mode s)
     @ issue (alphas_pairs_stat_arb (cfg_alphas s) = ENABLED)
         ''pairs_stat_arb must remain research-only in Phase 9''
     @ issue (alphas_vwap_mean_reversion (cfg_alphas s) = ENABLED)
         ''vwap_mean_reversion requires independent backtest promotion''
     @ issue (alphas_sector_relative_value (cfg_alphas s) = ENABLED)
         ''sector_relative_value requires independent validation''
     @ missing_live_requirements (cfg_secrets s)
     @ issue (\<not> prod_deployment_approved (cfg_production s)) ''production.deployment_approved''
     @ issue (\<not> prod_live_trading_enabled (cfg_production s)) ''production.live_trading_enabled''
     @ issue (\<not> prod_leader_election_configured (cfg_production s)) ''production.leader_election_configured''
     @ issue (prod_release_id (cfg_production s) \<in> {None, Some []}) ''production.release_id''
     @ issue (\<not> exec_single_active_executor (cfg_execution s)) ''execution.single_active_executor''
     @ issue (exec_market_orders_assumed_allowed (cfg_execution s))
         ''execution.market_orders_assumed_allowed must be false''
     @ issue (\<not> exec_reconcile_on_unknown (cfg_execution s)) ''execution.reconcile_on_unknown must be true''
     @ issue (risk_leverage_enabled (cfg_risk s)) ''risk.leverage_enabled must be false for the V1 live pilot''"

definition validate_live_prerequisites :: "settings \<Rightarrow> settings result" where
  "validate_live_prerequisites s =
     (if cfg_mode s \<noteq> LIVE then Inr s
      else let missing = live_missing s
           in if missing \<noteq> [] then
                Inl (ValueError (''LIVE activation blocked; missing prerequisites: '' @ join '', '' missing))
              else Inr s)"

text \<open>\<open>Settings(...)\<close>: the nested models, then the validators in the order the class declares them.\<close>

definition mk_settings :: "(string \<Rightarrow> bool) \<Rightarrow> settings \<Rightarrow> settings result" where
  "mk_settings known_zone s =
     rbind (mk_market_settings known_zone (cfg_market s)) (\<lambda>_.
     rbind (mk_risk_settings (cfg_risk s)) (\<lambda>_.
     rbind (mk_logging_settings (cfg_logging s)) (\<lambda>logging.
     rbind (ensure (nested_ok s) (ValueError ''validation error for Settings'')) (\<lambda>_.
     rbind (allocation_policy_bounds (s\<lparr>cfg_logging := logging\<rparr>)) validate_live_prerequisites))))"

text \<open>
  \<open>Settings(**merged)\<close> once the sources are combined (\<open>effective_table\<close>): \<open>parse table\<close> are the field values that
  pydantic takes from the table, with the name of the mode upper-cased (\<open>normalize_mode\<close>).
\<close>

definition settings_of ::
  "(yaml_table \<Rightarrow> settings result) \<Rightarrow> (string \<Rightarrow> bool) \<Rightarrow> yaml_table \<Rightarrow> settings result" where
  "settings_of parse known_zone t = rbind (parse t) (mk_settings known_zone)"

subsection \<open>The configuration hash\<close>

text \<open>
  A dumped Python value.  A set is the list of its members in the interpreter's iteration order; what is
  neither a dictionary, a set nor a sequence is the value \<open>to_jsonable_python\<close> returns for it.
\<close>

datatype pyvalue =
    Py_Json json
  | Py_Dict "(string \<times> pyvalue) list"
  | Py_Set "pyvalue list"
  | Py_Seq "pyvalue list"

text \<open>\<open>json.dumps(item, sort_keys=True)\<close>, with the default separators.\<close>

fun dumps_spaced :: "json \<Rightarrow> string" where
  "dumps_spaced (JArr xs) = ''['' @ join '', '' (map dumps_spaced xs) @ '']''"
| "dumps_spaced (JObj kvs) =
     ''{'' @ join '', ''
       (map (\<lambda>(k, t). quote_string k @ '': '' @ t)
          (sort_key fst (map (\<lambda>(k, v). (k, dumps_spaced v)) kvs))) @ ''}''"
| "dumps_spaced j = json_dumps j"

fun canonical_value :: "pyvalue \<Rightarrow> json" where
  "canonical_value (Py_Json j) = j"
| "canonical_value (Py_Dict kvs) = JObj (map (\<lambda>(k, v). (k, canonical_value v)) kvs)"
| "canonical_value (Py_Set xs) = JArr (sort_key dumps_spaced (map canonical_value xs))"
| "canonical_value (Py_Seq xs) = JArr (map canonical_value xs)"

definition config_payload :: "(settings \<Rightarrow> (string \<times> pyvalue) list) \<Rightarrow> settings \<Rightarrow> json" where
  "config_payload dump s = canonical_value (Py_Dict (filter (\<lambda>(k, v). k \<noteq> ''secrets'') (dump s)))"

definition config_hash ::
  "(string \<Rightarrow> string) \<Rightarrow> (settings \<Rightarrow> (string \<times> pyvalue) list) \<Rightarrow> settings \<Rightarrow> string" where
  "config_hash sha dump s = sha (json_dumps (config_payload dump s))"

subsection \<open>Validated settings\<close>

lemma mk_market_settings_Inr:
  "mk_market_settings z m = Inr m' \<longleftrightarrow>
     m' = m \<and> 0 \<le> market_stabilization_minutes m \<and> z (market_timezone m)
     \<and> market_final_entry_time m < market_flatten_start_time m
     \<and> market_flatten_start_time m < market_hard_flatten_deadline m"
  by (auto simp: mk_market_settings_def)

lemma mk_logging_settings_Inr:
  "mk_logging_settings l = Inr l' \<longleftrightarrow>
     upper (log_level l) \<in> set log_levels \<and> l' = l\<lparr>log_level := upper (log_level l)\<rparr>"
  by (auto simp: mk_logging_settings_def Let_def)

lemma policy_bounds_Inr:
  "allocation_policy_bounds s = Inr s' \<longleftrightarrow>
     s' = s
     \<and> al_max_alpha (cfg_allocator s) \<le> dec_of_float (alphas_max_alpha_capital_fraction (cfg_alphas s))
     \<and> al_max_gross (cfg_allocator s) \<le> dec_of_float (risk_max_gross_notional (cfg_risk s))
     \<and> al_max_net (cfg_allocator s) \<le> dec_of_float (risk_max_net_directional (cfg_risk s))
     \<and> al_max_open_risk (cfg_allocator s) \<le> dec_of_float (risk_max_open_portfolio_risk (cfg_risk s))
     \<and> al_max_adv_participation (cfg_allocator s) \<le> dec_of_float (us_max_adv_participation (cfg_universe s))
     \<and> al_max_groups (cfg_allocator s) \<le> risk_max_positions (cfg_risk s)
     \<and> al_max_sector_groups (cfg_allocator s) \<le> risk_max_positions_per_sector (cfg_risk s)
     \<and> list_all (\<lambda>r. ar_enabled r \<longrightarrow> availability (cfg_alphas s) (ar_alpha_id r) \<noteq> DISABLED)
         (cfg_alpha_registry s)"
  by (auto simp: allocation_policy_bounds_def list_all_iff list_ex_iff not_less)

lemma validate_live_Inr:
  "validate_live_prerequisites s = Inr s' \<longleftrightarrow> s' = s \<and> (cfg_mode s = LIVE \<longrightarrow> live_missing s = [])"
  by (auto simp: validate_live_prerequisites_def Let_def)

lemma mk_settings_Inr:
  "mk_settings z s = Inr s' \<longleftrightarrow>
     mk_market_settings z (cfg_market s) = Inr (cfg_market s)
     \<and> mk_risk_settings (cfg_risk s) = Inr (cfg_risk s)
     \<and> upper (log_level (cfg_logging s)) \<in> set log_levels
     \<and> s' = s\<lparr>cfg_logging := (cfg_logging s)\<lparr>log_level := upper (log_level (cfg_logging s))\<rparr>\<rparr>
     \<and> nested_ok s \<and> allocation_policy_bounds s' = Inr s' \<and> validate_live_prerequisites s' = Inr s'"
  by (auto simp: mk_settings_def result_simps mk_market_settings_Inr mk_logging_settings_Inr
      mk_risk_settings_def validate_live_Inr policy_bounds_Inr split: if_splits)

lemma absent_secret_iff: "\<not> absent_secret s \<longleftrightarrow> (\<exists>v. s = Some v \<and> strip v \<noteq> [])"
  by (auto simp: absent_secret_def split: option.splits)

text \<open>
  C4.  LIVE needs everything: the settings that validation returns are in LIVE mode only if the compliance
  profile allows LIVE on a real broker route with every required item verified, the three research alphas
  are not enabled, both broker secrets are non-blank, the deployment is approved, live trading and leader
  election are switched on, a release is named, one executor is active, unknown orders are reconciled, and
  neither market orders nor leverage are assumed.
\<close>

theorem live_prerequisites:
  assumes "mk_settings z s = Inr t" "cfg_mode s = LIVE"
  shows "cp_live_allowed (cfg_compliance t) \<and> cp_broker_route (cfg_compliance t) \<noteq> PAPER_SIMULATOR
    \<and> (cp_static_ip_required (cfg_compliance t) \<longrightarrow> cp_static_ip_registered (cfg_compliance t))
    \<and> (at_required (cp_api_tagging (cfg_compliance t)) \<longrightarrow> at_verified (cp_api_tagging (cfg_compliance t)))
    \<and> rl_verified (cp_rate_limit (cfg_compliance t))
    \<and> sh_broker_permission_verified (cp_short_eligibility (cfg_compliance t))
    \<and> (cp_session_reset_required (cfg_compliance t) \<longrightarrow> cp_session_reset_verified (cfg_compliance t))
    \<and> alphas_pairs_stat_arb (cfg_alphas t) \<noteq> ENABLED \<and> alphas_vwap_mean_reversion (cfg_alphas t) \<noteq> ENABLED
    \<and> alphas_sector_relative_value (cfg_alphas t) \<noteq> ENABLED
    \<and> (\<exists>key token. secret_broker_api_key (cfg_secrets t) = Some key \<and> strip key \<noteq> []
         \<and> secret_broker_access_token (cfg_secrets t) = Some token \<and> strip token \<noteq> [])
    \<and> prod_deployment_approved (cfg_production t) \<and> prod_live_trading_enabled (cfg_production t)
    \<and> prod_leader_election_configured (cfg_production t)
    \<and> (\<exists>release. prod_release_id (cfg_production t) = Some release \<and> release \<noteq> [])
    \<and> exec_single_active_executor (cfg_execution t) \<and> exec_reconcile_on_unknown (cfg_execution t)
    \<and> \<not> exec_market_orders_assumed_allowed (cfg_execution t) \<and> \<not> risk_leverage_enabled (cfg_risk t)"
proof -
  have "validate_live_prerequisites t = Inr t" "cfg_mode t = LIVE"
    using assms by (auto simp: mk_settings_Inr)
  then have "live_missing t = []" by (simp add: validate_live_Inr)
  then show ?thesis
    using \<open>cfg_mode t = LIVE\<close>
    by (cases "prod_release_id (cfg_production t)")
      (auto simp: live_missing_def structural_issues_def missing_live_requirements_def absent_secret_iff)
qed

text \<open>
  C5.  Proposals stay within the configured risk limits: with the allocator settings of validated settings, a
  decision of the allocator leaves the targets unchanged or keeps the whole book within the risk limits of
  the configuration, the capital fraction of every alpha and the numbers of positions.
\<close>

theorem proposals_within_risk_limits:
  assumes "mk_settings z s = Inr t" "allocate H son inp = Inr d" "ai_settings inp = cfg_allocator t"
  shows "pd_targets d = ps_positions (ai_portfolio inp)
    \<or> sum_abs (\<lambda>_. True) (pd_targets d) \<le> dec_of_float (risk_max_gross_notional (cfg_risk t))
      \<and> dabs (dsum (map tp_signed_notional_fraction (pd_targets d)))
          \<le> dec_of_float (risk_max_net_directional (cfg_risk t))
      \<and> dsum (map tp_open_risk_fraction (pd_targets d)) \<le> dec_of_float (risk_max_open_portfolio_risk (cfg_risk t))
      \<and> groups (\<lambda>_. True) (pd_targets d) \<le> risk_max_positions (cfg_risk t)
      \<and> (\<forall>p \<in> set (pd_targets d).
           sum_abs (\<lambda>q. tp_alpha_id q = tp_alpha_id p) (pd_targets d)
             \<le> dec_of_float (alphas_max_alpha_capital_fraction (cfg_alphas t))
           \<and> groups (\<lambda>q. tp_sector q = tp_sector p) (pd_targets d) \<le> risk_max_positions_per_sector (cfg_risk t))"
  using assms(2)
proof (cases rule: allocate_cases)
  case (proposed st)
  have caps: "within_caps (pd_targets d) (cfg_allocator t) \<or> pd_targets d = ps_positions (ai_portfolio inp)"
    using allocate_loop_caps[OF proposed(8) proposed(5)] assms(3) by auto
  have "allocation_policy_bounds t = Inr t" using assms(1) unfolding mk_settings_Inr by blast
  then show ?thesis
    using caps unfolding within_caps_iff policy_bounds_Inr by (meson order_trans)
qed simp

subsection \<open>The hash does not depend on the iteration order of sets\<close>

text \<open>Two dumps of the same settings: sets of texts may be listed in any order.\<close>

inductive same_value :: "pyvalue \<Rightarrow> pyvalue \<Rightarrow> bool" where
  same_json: "same_value (Py_Json j) (Py_Json j)"
| same_dict: "list_all2 (rel_prod (=) same_value) a b \<Longrightarrow> same_value (Py_Dict a) (Py_Dict b)"
| same_seq: "list_all2 same_value a b \<Longrightarrow> same_value (Py_Seq a) (Py_Seq b)"
| same_set: "mset xs = mset ys \<Longrightarrow>
    same_value (Py_Set (map (\<lambda>x. Py_Json (JStr x)) xs)) (Py_Set (map (\<lambda>x. Py_Json (JStr x)) ys))"

lemma same_value_canonical: "same_value v w \<Longrightarrow> canonical_value v = canonical_value w"
proof (induction rule: same_value.induct)
  case (same_dict a b)
  then show ?case by (induction rule: list_all2_induct) (auto simp: rel_prod_sel)
next
  case (same_seq a b)
  then show ?case by (induction rule: list_all2_induct) auto
next
  case (same_set xs ys)
  have "inj_on dumps_spaced (set (map JStr xs))"
    using quote_inj[where r = "[]" and r' = "[]"] by (auto simp: inj_on_def)
  moreover have "mset (map JStr xs) = mset (map JStr ys)" using same_set by simp
  ultimately have "sort_key dumps_spaced (map JStr xs) = sort_key dumps_spaced (map JStr ys)"
    by (intro sort_key_unique)
  then show ?case by (simp add: o_def)
qed simp

text \<open>The text the configuration hash is the digest of.\<close>

definition config_text :: "(settings \<Rightarrow> (string \<times> pyvalue) list) \<Rightarrow> settings \<Rightarrow> string" where
  "config_text dump s = json_dumps (config_payload dump s)"

text \<open>
  C23.  The configuration hash identifies the configuration.  It is the same in every process, whatever order the
  interpreter lists sets in and whatever the secrets are; it is taken of a text that is the same for two
  configurations exactly when their dumped values are equal; so two configurations with equal hashes have equal
  values, or their two texts are different and collide under the digest.
\<close>

theorem config_hash_canonical:
  assumes "wf_json (config_payload dump s)" "wf_json (config_payload dump' t)"
  shows "(list_all2 (rel_prod (=) same_value) (filter (\<lambda>(k, v). k \<noteq> ''secrets'') (dump s))
            (filter (\<lambda>(k, v). k \<noteq> ''secrets'') (dump' t))
          \<longrightarrow> config_hash sha dump s = config_hash sha dump' t)
    \<and> (config_text dump s = config_text dump' t
          \<longleftrightarrow> canon (config_payload dump s) = canon (config_payload dump' t))
    \<and> (config_hash sha dump s = config_hash sha dump' t \<longrightarrow>
          canon (config_payload dump s) = canon (config_payload dump' t)
          \<or> config_text dump s \<noteq> config_text dump' t \<and> sha (config_text dump s) = sha (config_text dump' t))"
proof -
  have "config_payload dump s = config_payload dump' t"
    if "list_all2 (rel_prod (=) same_value) (filter (\<lambda>(k, v). k \<noteq> ''secrets'') (dump s))
            (filter (\<lambda>(k, v). k \<noteq> ''secrets'') (dump' t))"
    using that unfolding config_payload_def by (intro same_value_canonical same_value.same_dict)
  then show ?thesis
    using dumps_eq_iff[OF assms] unfolding config_hash_def config_text_def by auto
qed

subsection \<open>Examples\<close>

definition example_market :: market_settings where
  "example_market = \<lparr>market_exchange = ''NSE'', market_timezone = ''Asia/Kolkata'', market_raw_bar = ''1m'',
     market_decision_bar = ''5m'', market_stabilization_minutes = 15,
     market_final_entry_time = 54000000000, market_flatten_start_time = 54600000000,
     market_hard_flatten_deadline = 55440000000\<rparr>"

definition example_risk :: risk_settings where
  "example_risk = \<lparr>risk_directional_risk_per_trade = 1 / 4, risk_pair_risk_per_trade = 1 / 4,
     risk_max_open_portfolio_risk = 1, risk_max_positions = 10, risk_max_positions_per_sector = 5,
     risk_max_gross_notional = 1, risk_max_net_directional = 1, risk_daily_soft_loss = 1 / 8,
     risk_daily_hard_loss = 1 / 4, risk_weekly_hard_loss = 1 / 2, risk_max_peak_drawdown = 1 / 2,
     risk_leverage_enabled = False\<rparr>"

definition example_live_settings :: settings where
  "example_live_settings = \<lparr>cfg_mode = LIVE, cfg_starting_values_notice = ''research'', cfg_market = example_market,
     cfg_universe = example_universe_settings\<lparr>us_max_adv_participation := 1\<rparr>,
     cfg_alphas = \<lparr>alphas_cross_sectional_momentum = ENABLED, alphas_momentum_breakout = ENABLED,
       alphas_pairs_stat_arb = RESEARCH_ONLY, alphas_vwap_mean_reversion = RESEARCH_ONLY,
       alphas_sector_relative_value = RESEARCH_ONLY, alphas_max_alpha_capital_fraction = 1\<rparr>,
     cfg_risk = example_risk,
     cfg_execution = \<lparr>exec_market_orders_assumed_allowed = False, exec_max_order_retries = 3,
       exec_max_slippage_bps = 15, exec_quote_stale_seconds = 3, exec_reconcile_on_unknown = True,
       exec_single_active_executor = True\<rparr>,
     cfg_logging = \<lparr>log_level = ''info'', log_local_path = None\<rparr>,
     cfg_production = \<lparr>prod_deployment_approved = True, prod_live_trading_enabled = True,
       prod_leader_election_configured = True, prod_release_id = Some ''release-1''\<rparr>,
     cfg_compliance = example_profile,
     cfg_data_quality = \<lparr>dq_abnormal_gap_fraction = 1 / 10, dq_abnormal_volume_multiple = 10,
       dq_normalization_version = ''ohlcv-v1''\<rparr>,
     cfg_market_state = example_settings, cfg_momentum = example_momentum, cfg_breakout = example_breakout,
     cfg_pairs = example_pairs\<lparr>ps_training_bars := 60\<rparr>, cfg_vwap_reversion = example_vwap, cfg_relative_value = example_relative,
     cfg_alpha_registry = example_registry, cfg_alpha_health = example_health_settings,
     cfg_allocator = example_allocator,
     cfg_secrets = \<lparr>secret_broker_api_key = Some ''key'', secret_broker_access_token = Some ''token'',
       secret_database_password = None, secret_dashboard_secret = None\<rparr>\<rparr>"

lemma example_nested_ok:
  "router_settings_ok example_settings" "momentum_settings_ok example_momentum"
  "breakout_settings_ok example_breakout" "pairs_settings_ok (example_pairs\<lparr>ps_training_bars := 60\<rparr>)"
  "vwap_settings_ok example_vwap" "relative_settings_ok example_relative" "registry_ok example_registry"
  "health_settings_ok example_health_settings" "allocator_settings_ok example_allocator"
  "profile_ok example_profile"
  by code_simp+

lemma example_level: "upper ''info'' = ''INFO''" "strip ''key'' = ''key''" "strip ''token'' = ''token''"
  by code_simp+

definition example_logging :: logging_settings where
  "example_logging = \<lparr>log_level = ''INFO'', log_local_path = None\<rparr>"

lemma example_policy_bounds:
  "allocation_policy_bounds (example_live_settings\<lparr>cfg_logging := l\<rparr>) = Inr (example_live_settings\<lparr>cfg_logging := l\<rparr>)"
proof -
  have "availability (cfg_alphas example_live_settings) a \<noteq> DISABLED" for a
    by (cases a) (simp_all add: example_live_settings_def)
  moreover have "dec_of_float 1 = 1" by (rule dec_of_float_one)
  ultimately show ?thesis
    unfolding policy_bounds_Inr
    by (simp add: example_live_settings_def example_risk_def example_allocator_def list_all_iff
        example_universe_settings_def)
qed

lemma example_live_missing: "live_missing (example_live_settings\<lparr>cfg_logging := l\<rparr>) = []"
  by (simp add: live_missing_def structural_issues_def missing_live_requirements_def absent_secret_def
      example_live_settings_def example_profile_def example_risk_def example_level)

lemma example_live_valid:
  "mk_settings (\<lambda>z. z = ''Asia/Kolkata'') example_live_settings
     = Inr (example_live_settings\<lparr>cfg_logging := example_logging\<rparr>)"
proof -
  have 1: "mk_market_settings (\<lambda>z. z = ''Asia/Kolkata'') example_market = Inr example_market"
    unfolding mk_market_settings_Inr by (simp add: example_market_def)
  have 2: "mk_risk_settings example_risk = Inr example_risk"
    by (simp add: mk_risk_settings_def example_risk_def Portfolio.unit_fraction_def)
  have 3: "nested_ok example_live_settings"
    using example_nested_ok
    by (simp add: nested_ok_def example_live_settings_def universe_settings_ok_def execution_settings_ok_def
        Portfolio.unit_fraction_def quality_settings_ok_def example_universe_settings_def)
  have 4: "validate_live_prerequisites (example_live_settings\<lparr>cfg_logging := l\<rparr>)
      = Inr (example_live_settings\<lparr>cfg_logging := l\<rparr>)" for l
    unfolding validate_live_Inr by (simp add: example_live_missing)
  have 5: "cfg_market example_live_settings = example_market" "cfg_risk example_live_settings = example_risk"
    "cfg_logging example_live_settings = \<lparr>log_level = ''info'', log_local_path = None\<rparr>"
    by (simp_all add: example_live_settings_def)
  show ?thesis
    unfolding mk_settings_Inr using 1 2 3 4 5 example_policy_bounds
    by (simp add: example_level log_levels_def example_logging_def)
qed

theorem live_prerequisites_witness:
  "\<exists>t. mk_settings (\<lambda>z. z = ''Asia/Kolkata'') example_live_settings = Inr t \<and> cfg_mode t = LIVE
     \<and> prod_deployment_approved (cfg_production t) \<and> \<not> risk_leverage_enabled (cfg_risk t)"
proof -
  have "cfg_mode example_live_settings = LIVE" by (simp add: example_live_settings_def)
  then show ?thesis using example_live_valid live_prerequisites[OF example_live_valid] by auto
qed

theorem proposals_within_risk_limits_witness:
  "\<exists>t d. mk_settings (\<lambda>z. z = ''Asia/Kolkata'') example_live_settings = Inr t
     \<and> allocate example_allocation_hashes (session_on nse_2026) example_inputs = Inr d
     \<and> pd_targets d \<noteq> [] \<and> groups (\<lambda>_. True) (pd_targets d) \<le> risk_max_positions (cfg_risk t)"
proof -
  obtain d where d: "allocate example_allocation_hashes (session_on nse_2026) example_inputs = Inr d"
    "pd_targets d = additions_for strong_candidate example_estimate (1 / 8)"
    using example_allocate by blast
  have same: "ai_settings example_inputs = cfg_allocator (example_live_settings\<lparr>cfg_logging := example_logging\<rparr>)"
    "ps_positions (ai_portfolio example_inputs) = []"
    by (simp_all add: example_inputs_def example_live_settings_def)
  show ?thesis
    using proposals_within_risk_limits[OF example_live_valid d(1) same(1)] same(2) d example_live_valid
    by (auto simp: example_additions)
qed

definition example_dump :: "string list \<Rightarrow> settings \<Rightarrow> (string \<times> pyvalue) list" where
  "example_dump symbols s =
     [(''mode'', Py_Json (JStr (mode_name (cfg_mode s)))),
      (''universe'', Py_Dict [(''excluded_symbols'', Py_Set (map (\<lambda>x. Py_Json (JStr x)) symbols))]),
      (''secrets'', Py_Json (JStr ''hidden''))]"

text \<open>A digest of 64 characters that forgets the rest of the text.\<close>

definition short_digest :: "string \<Rightarrow> string" where
  "short_digest text = take 64 (text @ replicate 64 (CHR ''0''))"

theorem config_hash_canonical_witness:
  "config_hash short_digest (example_dump [''A'', ''B'']) example_live_settings
     = config_hash short_digest (example_dump [''B'', ''A'']) example_live_settings
   \<and> config_text (example_dump [''A'', ''B'']) example_live_settings
     \<noteq> config_text (example_dump [''A'', ''C'']) example_live_settings"
proof -
  have wf: "wf_json (config_payload (example_dump [x, y]) s)" for x y s
    by (simp add: config_payload_def example_dump_def)
  have sets: "list_all2 (rel_prod (=) same_value)
      (filter (\<lambda>(k, v). k \<noteq> ''secrets'') (example_dump [''A'', ''B''] example_live_settings))
      (filter (\<lambda>(k, v). k \<noteq> ''secrets'') (example_dump [''B'', ''A''] example_live_settings))"
    using same_set[of "[''A'', ''B'']" "[''B'', ''A'']"]
    by (auto simp: example_dump_def intro!: same_value.intros)
  have "canon (config_payload (example_dump [''A'', ''B'']) example_live_settings)
      \<noteq> canon (config_payload (example_dump [''A'', ''C'']) example_live_settings)"
    by (simp add: config_payload_def example_dump_def)
  then show ?thesis
    using config_hash_canonical[OF wf wf, THEN conjunct1, rule_format, OF sets]
      config_hash_canonical[OF wf wf, THEN conjunct2, THEN conjunct1]
    by blast
qed

end
