(* ===== verification/App.thy ===== *)
theory App
  imports Config Lifecycle Market_Service Reconnect
begin

text \<open>
  \<open>app/cli.py\<close> and \<open>run_recording\<close> of \<open>market_data/replay_cli.py\<close>: how the commands compose the configuration, the
  compliance gate, the life cycle, the calendar, the universe and the market data service.  Arguments arrive
  parsed; a file is what its loader makes of it; printing is the text of the outcome.  The clock readings and
  the random event ids of a command are arguments, in the order the code takes them.
\<close>

subsection \<open>Local snapshots\<close>

text \<open>
  \<open>LocalCalendarProvider\<close>, \<open>LocalComplianceProvider\<close>, \<open>LocalInstrumentProvider\<close> and \<open>from_yaml\<close> of the broker symbols;
  \<open>validate\<close> is the model's \<open>model_validate\<close>.
\<close>

definition load_calendar :: "reader \<Rightarrow> (yaml \<Rightarrow> calendar_snapshot result) \<Rightarrow> string \<Rightarrow> calendar_snapshot result" where
  "load_calendar read validate path = load_yaml_model read validate path None"

definition load_compliance :: "reader \<Rightarrow> (yaml \<Rightarrow> compliance_profile result) \<Rightarrow> string \<Rightarrow> compliance_profile result" where
  "load_compliance read validate path = load_yaml_model read validate path (Some ''compliance'')"

definition load_master :: "reader \<Rightarrow> (yaml \<Rightarrow> instrument_master result) \<Rightarrow> string \<Rightarrow> instrument_master result" where
  "load_master read validate path = load_yaml_model read validate path None"

definition load_symbols ::
  "reader \<Rightarrow> (yaml \<Rightarrow> broker_symbol_mapping list result) \<Rightarrow> string \<Rightarrow> broker_symbol_mapping list result" where
  "load_symbols read validate path = load_yaml_model read validate path None"

subsection \<open>snapshot-check\<close>

fun session_name :: "session_state \<Rightarrow> string" where
  "session_name CLOSED = ''CLOSED''"
| "session_name PREOPEN = ''PREOPEN''"
| "session_name OPEN = ''OPEN''"
| "session_name FINAL_ENTRY_BLOCKED = ''FINAL_ENTRY_BLOCKED''"
| "session_name FLATTENING = ''FLATTENING''"
| "session_name CLOSED_POST = ''CLOSED_POST''"

text \<open>
  \<open>now\<close> is the reading of the production clock, used when the instant is omitted; \<open>FixedClock(at)\<close> shows \<open>at\<close>.
\<close>

definition snapshot_check ::
  "(string \<Rightarrow> string \<Rightarrow> day \<Rightarrow> universe_settings \<Rightarrow> string list \<Rightarrow> string list \<Rightarrow> exclusion list \<Rightarrow> uuid)
     \<Rightarrow> calendar_snapshot result \<Rightarrow> instrument_master result \<Rightarrow> pydatetime \<Rightarrow> settings \<Rightarrow> pydatetime option
     \<Rightarrow> json result" where
  "snapshot_check fingerprint loaded_calendar loaded_master now s instant_arg =
     (let moment = (case instant_arg of Some d \<Rightarrow> d | None \<Rightarrow> now)
      in if \<not> aware moment then Inl (ValueError ''--at must include a UTC offset'')
         else
           rbind (gate_validate moment (cfg_compliance s) (cfg_mode s)) (\<lambda>_.
           rbind loaded_calendar (\<lambda>cal.
           rbind loaded_master (\<lambda>master.
           rbind (build fingerprint master (cfg_compliance s) (cfg_universe s)
                    (local_day (cs_timezone cal) (instant_of moment)) moment) (\<lambda>universe.
           rbind (state_at cal moment) (\<lambda>state.
             Inr (JObj [(''calendar_version'', JStr (cs_version cal)),
               (''compliance_version'', JStr (cp_version (cfg_compliance s))),
               (''instrument_version'', JStr (im_version master)),
               (''session_state'', JStr (session_name state)),
               (''universe_snapshot_id'', JStr (un_snapshot_id universe)),
               (''long_count'', JNum (str_int (int (length (un_long_tokens universe))))),
               (''short_count'', JNum (str_int (int (length (un_short_tokens universe))))),
               (''source'', JStr ''local-fixtures-only'')])))))))"

subsection \<open>run\<close>

text \<open>
  A signal is its number, with the event id and the clock reading of the transition it requests.  The handler
  runs in the main thread, so that its exception is raised there.
\<close>

type_synonym signal = "int \<times> uuid \<times> instant"

definition on_signal :: "signal \<Rightarrow> unit controller \<Rightarrow> unit result \<times> unit controller" where
  "on_signal g c =
     (case g of (n, i, t) \<Rightarrow>
        (case request_stop i t (''signal:'' @ str_int n) c () of
           (Inl e, c', _) \<Rightarrow> (Inl e, c') | (Inr _, c', _) \<Rightarrow> (Inr (), c')))"

fun on_signals :: "signal list \<Rightarrow> unit controller \<Rightarrow> unit result \<times> unit controller" where
  "on_signals [] c = (Inr (), c)"
| "on_signals (g # gs) c =
     (case on_signal g c of (Inl e, c') \<Rightarrow> (Inl e, c') | (Inr _, c') \<Rightarrow> on_signals gs c')"

text \<open>
  The schedule of a run: the signals that arrive before \<open>mark_ready\<close>, those that arrive between it and \<open>mark_stopped\<close>
  (the first of them ends the wait) and the ids and readings of the two transitions the program makes itself.
\<close>

record schedule =
  sh_early :: "signal list"
  sh_late :: "signal list"
  sh_ready :: "uuid \<times> instant"
  sh_stopped :: "uuid \<times> instant"

text \<open>How a run ends: it returns an exit code, an exception leaves \<open>_run\<close>, or it waits for a signal.\<close>

datatype run_end = Returned int | Raised py_error | Waits

text \<open>The second component lists the states of the controller, oldest first.\<close>

definition run_started :: "schedule \<Rightarrow> run_end \<times> system_state list" where
  "run_started h =
     (case on_signals (sh_early h) new_controller of
        (Inl e, c) \<Rightarrow> (Raised e, [STARTING, lc_state c])
      | (Inr _, c0) \<Rightarrow>
          (case mark_ready (fst (sh_ready h)) (snd (sh_ready h)) ''foundation and compliance checks complete'' c0 () of
             (Inl e, c, _) \<Rightarrow> (Raised e, [STARTING, lc_state c])
           | (Inr _, c1, _) \<Rightarrow>
               (if sh_late h = [] then (Waits, [STARTING, READY])
                else case on_signals (sh_late h) c1 of
                  (Inl e, c) \<Rightarrow> (Raised e, [STARTING, READY, lc_state c])
                | (Inr _, c2) \<Rightarrow>
                    (case mark_stopped (fst (sh_stopped h)) (snd (sh_stopped h)) ''shutdown complete'' c2 () of
                       (Inl e, c, _) \<Rightarrow> (Raised e, [STARTING, READY, lc_state c2])
                     | (Inr _, c3, _) \<Rightarrow> (Returned 0, [STARTING, READY, lc_state c2, lc_state c3])))))"

text \<open>\<open>_run\<close>: nothing starts before the gate has passed.\<close>

definition run_app :: "pydatetime \<Rightarrow> schedule \<Rightarrow> settings \<Rightarrow> (run_end \<times> system_state list) result" where
  "run_app now h s = rbind (gate_validate now (cfg_compliance s) (cfg_mode s)) (\<lambda>_. Inr (run_started h))"

subsection \<open>main\<close>

datatype command = Version | Config_Check | Run | Snapshot_Check string string "pydatetime option"

datatype app_end = Exit int string | Uncaught py_error | Running

text \<open>What a process finds: the loaders, the clock and the signals.\<close>

record app_world =
  aw_settings :: "settings result"
  aw_hash :: "settings \<Rightarrow> string"
  aw_fingerprint :: "string \<Rightarrow> string \<Rightarrow> day \<Rightarrow> universe_settings \<Rightarrow> string list \<Rightarrow> string list \<Rightarrow> exclusion list \<Rightarrow> uuid"
  aw_calendar :: "string \<Rightarrow> calendar_snapshot result"
  aw_master :: "string \<Rightarrow> instrument_master result"
  aw_now :: pydatetime
  aw_schedule :: schedule

definition failed :: "py_error \<Rightarrow> app_end" where
  "failed e = Exit 2 (''validation failed: '' @ str_exc e)"

text \<open>
  \<open>main\<close>: configuration, snapshot, compliance and value errors end with exit code 2.  The other exceptions, such
  as \<open>CalendarCoverageError\<close> and a refused transition, are not caught.
\<close>

definition app_main :: "app_world \<Rightarrow> command \<Rightarrow> app_end \<times> system_state list" where
  "app_main W cmd =
     (if cmd = Version then (Exit 0 ''0.12.0'', [])
      else case aw_settings W of
        Inl e \<Rightarrow> (failed e, [])
      | Inr s \<Rightarrow>
          (case cmd of
             Config_Check \<Rightarrow>
               (Exit 0 (''{'' @ quote_string ''mode'' @ '': '' @ quote_string (mode_name (cfg_mode s)) @ '', ''
                  @ quote_string ''config_hash'' @ '': '' @ quote_string (aw_hash W s) @ ''}''), [])
           | Snapshot_Check calendar_path instruments_path instant_arg \<Rightarrow>
               (case snapshot_check (aw_fingerprint W) (aw_calendar W calendar_path) (aw_master W instruments_path)
                       (aw_now W) s instant_arg of
                  Inl (CalendarCoverageError m) \<Rightarrow> (Uncaught (CalendarCoverageError m), [])
                | Inl e \<Rightarrow> (failed e, [])
                | Inr report \<Rightarrow> (Exit 0 (dumps_spaced report), []))
           | _ \<Rightarrow>
               (case run_app (aw_now W) (aw_schedule W) s of
                  Inl e \<Rightarrow> (failed e, [])
                | Inr (Returned n, states) \<Rightarrow> (Exit n [], states)
                | Inr (Raised e, states) \<Rightarrow> (Uncaught e, states)
                | Inr (Waits, states) \<Rightarrow> (Running, states))))"

subsection \<open>Runs\<close>

lemma new_controller_simps [simp]: "lc_state new_controller = STARTING" "lc_listeners new_controller = []"
  by (simp_all add: new_controller_def)

lemma transition_plain:
  "lc_listeners c = [] \<Longrightarrow>
     transition i t target r c () =
       (if target \<in> allowed_transitions (lc_state c)
        then (Inr \<lparr>st_event_id = i, st_previous = lc_state c, st_current = target, st_occurred_at = t, st_reason = r\<rparr>,
              c\<lparr>lc_state := target\<rparr>, ())
        else (Inl (RuntimeError (''cannot transition from '' @ state_name (lc_state c) @ '' to '' @ state_name target)),
              c, ()))"
  by (simp add: transition_def Let_def)

lemma on_signal_first:
  "lc_listeners c = [] \<Longrightarrow> lc_state c \<in> {STARTING, READY} \<Longrightarrow> on_signal g c = (Inr (), c\<lparr>lc_state := STOPPING\<rparr>)"
  by (cases g) (auto simp: on_signal_def request_stop_def transition_plain)

lemma on_signal_again:
  "lc_state c = STOPPING \<Longrightarrow> on_signal g c = (Inl (RuntimeError ''shutdown already in progress''), c)"
  by (cases g) (simp add: on_signal_def request_stop_def)

text \<open>The four ways a started run can go.\<close>

lemma run_started_eq:
  "run_started h =
     (case sh_early h of
        g # g' # gs \<Rightarrow> (Raised (RuntimeError ''shutdown already in progress''), [STARTING, STOPPING])
      | [g] \<Rightarrow> (Raised (RuntimeError ''cannot transition from STOPPING to READY''), [STARTING, STOPPING])
      | [] \<Rightarrow>
          (case sh_late h of
             [] \<Rightarrow> (Waits, [STARTING, READY])
           | [g] \<Rightarrow> (Returned 0, [STARTING, READY, STOPPING, STOPPED])
           | g # g' # gs \<Rightarrow>
               (Raised (RuntimeError ''shutdown already in progress''), [STARTING, READY, STOPPING])))"
  by (auto simp: run_started_def on_signal_first on_signal_again mark_ready_def mark_stopped_def transition_plain
      split: list.splits)

text \<open>
  C21.  A command becomes operational only with approval: \<open>main\<close> reaches READY only for \<open>run\<close> on settings that were
  loaded, passed the gate at the clock reading and, in LIVE, miss no prerequisite; it exits with 0 after one
  signal, through STOPPING and STOPPED.
\<close>

theorem run_needs_gate:
  assumes "app_main W cmd = (ending, states)" "READY \<in> set states"
    "aw_settings W = load_settings read P env (settings_of parse z) d m"
  shows "\<exists>s. aw_settings W = Inr s \<and> cmd = Run
    \<and> gate_validate (aw_now W) (cfg_compliance s) (cfg_mode s) = Inr ()
    \<and> (cfg_mode s = LIVE \<longrightarrow> live_missing s = [])
    \<and> sh_early (aw_schedule W) = []
    \<and> (ending = Exit 0 [] \<longleftrightarrow> length (sh_late (aw_schedule W)) = 1)
    \<and> (ending = Exit 0 [] \<longrightarrow> states = [STARTING, READY, STOPPING, STOPPED])"
proof -
  obtain s where s: "aw_settings W = Inr s" "cmd = Run"
    using assms(1,2) by (cases cmd) (auto simp: app_main_def failed_def split: sum.splits py_error.splits)
  have run: "gate_validate (aw_now W) (cfg_compliance s) (cfg_mode s) = Inr ()"
    "(case run_started (aw_schedule W) of
        (Returned n, st) \<Rightarrow> (Exit n [], st) | (Raised e, st) \<Rightarrow> (Uncaught e, st) | (Waits, st) \<Rightarrow> (Running, st))
      = (ending, states)"
    using assms(1,2) s by (auto simp: app_main_def run_app_def failed_def result_simps split: sum.splits prod.splits run_end.splits)
  have "live_missing s = []" if "cfg_mode s = LIVE"
    using s(1) that unfolding assms(3) load_settings_def settings_of_def
    by (auto simp: result_simps mk_settings_Inr validate_live_Inr)
  then show ?thesis
    using s run assms(2) by (auto simp: run_started_eq split: list.splits)
qed

text \<open>Two ends that the handlers of \<open>main\<close> do not cover.\<close>

lemma early_signal_uncaught:
  assumes "aw_settings W = Inr s" "gate_validate (aw_now W) (cfg_compliance s) (cfg_mode s) = Inr ()"
    "sh_early (aw_schedule W) = [g]"
  shows "app_main W Run
    = (Uncaught (RuntimeError ''cannot transition from STOPPING to READY''), [STARTING, STOPPING])"
  using assms by (simp add: app_main_def run_app_def run_started_eq)

lemma uncovered_date_uncaught:
  assumes "aw_settings W = Inr s"
    "snapshot_check (aw_fingerprint W) (aw_calendar W c) (aw_master W i) (aw_now W) s t = Inl (CalendarCoverageError m)"
  shows "fst (app_main W (Snapshot_Check c i t)) = Uncaught (CalendarCoverageError m)"
  using assms by (simp add: app_main_def)

definition example_app_world :: app_world where
  "example_app_world = \<lparr>
     aw_settings = load_settings example_reader (example_sources []) []
       (settings_of (\<lambda>_. Inr example_live_settings) (\<lambda>z. z = ''Asia/Kolkata'')) ''config'' (Some RESEARCH),
     aw_hash = (\<lambda>_. ''h''), aw_fingerprint = (\<lambda>_ _ _ _ _ _ _. ''u''),
     aw_calendar = (\<lambda>_. Inr nse_2026), aw_master = (\<lambda>_. Inl (RuntimeError ''none'')),
     aw_now = Aware (20600 * day_us) 0,
     aw_schedule = \<lparr>sh_early = [], sh_late = [(15, ''e2'', 2)], sh_ready = (''e1'', 1), sh_stopped = (''e3'', 3)\<rparr>\<rparr>"

theorem run_needs_gate_witness:
  "app_main example_app_world Run = (Exit 0 [], [STARTING, READY, STOPPING, STOPPED])
     \<and> (\<exists>s. aw_settings example_app_world = Inr s \<and> cfg_mode s = LIVE \<and> live_missing s = [])"
proof -
  let ?s = "example_live_settings\<lparr>cfg_logging := example_logging\<rparr>"
  have merged: "\<exists>t. effective_settings example_reader (example_sources []) [] ''config'' (Some RESEARCH) = Inr t"
    by (simp add: effective_settings_def merged_settings_def load_yaml_def example_reader_def in_dir_def select_mode_def)
  then have loaded: "aw_settings example_app_world = Inr ?s"
    by (auto simp: example_app_world_def load_settings_def settings_of_def example_live_valid)
  have mode: "cfg_mode ?s = LIVE" "cfg_compliance ?s = example_profile"
    by (simp_all add: example_live_settings_def)
  have gate: "gate_validate (aw_now example_app_world) example_profile LIVE = Inr ()"
    by (simp add: gate_validate_def temporal_issues_def structural_issues_def example_profile_def
        example_app_world_def day_us_def Let_def)
  have run: "app_main example_app_world Run = (Exit 0 [], [STARTING, READY, STOPPING, STOPPED])"
    using gate by (simp add: app_main_def run_app_def loaded mode run_started_eq)
      (simp add: example_app_world_def)
  have w: "aw_settings example_app_world = load_settings example_reader (example_sources []) []
      (settings_of (\<lambda>_. Inr example_live_settings) (\<lambda>z. z = ''Asia/Kolkata'')) ''config'' (Some RESEARCH)"
    by (simp add: example_app_world_def)
  have "READY \<in> set [STARTING, READY, STOPPING, STOPPED]" by simp
  then show ?thesis using run_needs_gate[OF run _ w] run mode loaded by auto
qed

end
