(* ===== verification/Recording_Run.thy ===== *)
theory Recording_Run
  imports Config Market_Service Reconnect
begin

text \<open>
  \<open>run_recording\<close> of \<open>market_data/replay_cli.py\<close>: a recording is replayed through the provider, the market data service,
  the quote tracker and the reconnect controller that streaming adapters use, and summarised in a report.
  Files are their bytes: \<open>rw_read\<close> gives them, or the text of an \<open>OSError\<close>, \<open>rw_yaml\<close> is \<open>yaml.safe_load\<close>, the models are
  \<open>model_validate\<close>, and the digests in the report are taken of the same bytes.  One \<open>MemoryMetrics\<close> object is shared by
  the three components; here each keeps its own counters, and \<open>shared_counters\<close> adds them, since counters only ever grow.
\<close>

record recorder_world =
  rw_read :: "string \<Rightarrow> string + string"
  rw_yaml :: "string \<Rightarrow> string + yaml"
  rw_recording_model :: "yaml \<Rightarrow> recording result"
  rw_calendar_model :: "yaml \<Rightarrow> calendar_snapshot result"
  rw_sources :: settings_sources
  rw_environment :: environment
  rw_settings_model :: "yaml_table \<Rightarrow> settings result"
  rw_dump :: "settings \<Rightarrow> (string \<times> pyvalue) list"
  rw_known_zone :: "string \<Rightarrow> bool"
  rw_zone :: "string \<Rightarrow> zone"
  rw_event_dump :: "observation \<Rightarrow> string"
  rw_bar_dump :: "bar \<Rightarrow> string"
  rw_bar_json :: "bar \<Rightarrow> json"
  rw_sha :: "string \<Rightarrow> string"

definition file_reader :: "recorder_world \<Rightarrow> reader" where
  "file_reader W path = (case rw_read W path of Inl exc \<Rightarrow> Inl exc | Inr bytes \<Rightarrow> rw_yaml W bytes)"

definition loaded_recording :: "recorder_world \<Rightarrow> string \<Rightarrow> recording result" where
  "loaded_recording W path = load_yaml_model (file_reader W) (rw_recording_model W) path None"

definition loaded_calendar :: "recorder_world \<Rightarrow> string \<Rightarrow> calendar_snapshot result" where
  "loaded_calendar W path = load_yaml_model (file_reader W) (rw_calendar_model W) path None"

definition loaded_settings :: "recorder_world \<Rightarrow> string \<Rightarrow> settings result" where
  "loaded_settings W config_dir =
     load_settings (file_reader W) (rw_sources W) (rw_environment W)
       (settings_of (rw_settings_model W) (rw_known_zone W)) config_dir None"

text \<open>\<open>sha256(path.read_bytes()).hexdigest()\<close>, at the end of a run that has read the file before.\<close>

definition file_hash :: "recorder_world \<Rightarrow> string \<Rightarrow> string" where
  "file_hash W path = (case rw_read W path of Inl exc \<Rightarrow> [] | Inr bytes \<Rightarrow> rw_sha W bytes)"

record recorder_report =
  rp_software_version :: string
  rp_recording_hash :: string
  rp_calendar_hash :: string
  rp_config_hash :: string
  rp_normalization_version :: string
  rp_recording :: string
  rp_canonical_bars :: nat
  rp_complete_bars :: nat
  rp_output_hash :: string
  rp_stream_state :: stream_state
  rp_metrics :: "string \<Rightarrow> int option"

type_synonym recorder = "service \<times> reconnect"

definition observations_of :: "recording \<Rightarrow> observation list" where
  "observations_of r = map Obs_Bar (rd_bars r) @ map Obs_Quote (rd_quotes r)"

definition on_bar :: "checker \<Rightarrow> (bar, recorder) callback" where
  "on_bar c b s =
     (case s of (clock, sv, rc) \<Rightarrow>
        (case ingest_bar c (instant_of (fixed_now clock)) b sv of
           (Inl e, sv') \<Rightarrow> (Some e, clock, sv', rc) | (Inr _, sv') \<Rightarrow> (None, clock, sv', rc)))"

definition on_quote :: "checker \<Rightarrow> (quote, recorder) callback" where
  "on_quote c q s =
     (case s of (clock, sv, rc) \<Rightarrow> (None, clock, ingest_quote c (instant_of (fixed_now clock)) q sv, rc))"

definition on_disconnect :: "(string, recorder) callback" where
  "on_disconnect reason s =
     (case s of (clock, sv, rc) \<Rightarrow>
        (case disconnected reason rc of
           (Inl e, rc') \<Rightarrow> (Some e, clock, sv, rc') | (Inr _, rc') \<Rightarrow> (None, clock, sv, rc')))"

fun add_counter :: "int option \<Rightarrow> int option \<Rightarrow> int option" where
  "add_counter None y = y"
| "add_counter x None = x"
| "add_counter (Some a) (Some b) = Some (a + b)"

definition shared_counters :: "recorder \<Rightarrow> string \<Rightarrow> int option" where
  "shared_counters w name =
     (case w of (sv, rc) \<Rightarrow>
        add_counter (counters (sv_metrics sv) name)
          (add_counter (counters (tr_metrics (sv_freshness sv)) name) (counters (rr_metrics rc) name)))"

definition report_of ::
  "recorder_world \<Rightarrow> string \<Rightarrow> string \<Rightarrow> string \<Rightarrow> settings \<Rightarrow> bar list \<Rightarrow> recorder \<Rightarrow> recorder_report" where
  "report_of W path calendar_path snapshot s bars w =
     \<lparr>rp_software_version = ''0.12.0'', rp_recording_hash = file_hash W path, rp_calendar_hash = file_hash W calendar_path,
      rp_config_hash = config_hash (rw_sha W) (rw_dump W) s,
      rp_normalization_version = dq_normalization_version (cfg_data_quality s), rp_recording = snapshot,
      rp_canonical_bars = length bars,
      rp_complete_bars = length (filter (\<lambda>b. b_complete b \<and> b_quality_flags b = {}) bars),
      rp_output_hash = rw_sha W (dumps_spaced (JArr (map (rw_bar_json W) bars))),
      rp_stream_state = rr_state (snd w), rp_metrics = shared_counters w\<rparr>"

text \<open>The events reach the service through the subscription; then the canonical bars are read at the last receipt.\<close>

definition replay_into ::
  "recorder_world \<Rightarrow> string \<Rightarrow> string \<Rightarrow> settings \<Rightarrow> checker \<Rightarrow> tracker \<Rightarrow> recording \<Rightarrow> fixed_clock
     \<Rightarrow> recorder_report result" where
  "replay_into W path calendar_path s c tr r clock =
     (case subscribe (rw_event_dump W) r (sort (remdups (map obs_instrument (observations_of r))))
             (on_bar c) (on_quote c) on_disconnect
             (clock, service_new [] tr no_metrics, reconnect_new no_metrics) of
        (Inl e, _) \<Rightarrow> Inl e
      | (Inr _, clock', sv, rc) \<Rightarrow>
          rbind (canonical_bars (rw_bar_dump W) c (instant_of (fixed_now clock')) sv) (\<lambda>bars.
            Inr (report_of W path calendar_path (rd_snapshot_id r) s bars (sv, rc))))"

definition first_receipt :: "observation list \<Rightarrow> instant" where
  "first_receipt es = Min (set (map obs_received es))"

definition run_recording :: "recorder_world \<Rightarrow> string \<Rightarrow> string \<Rightarrow> string \<Rightarrow> recorder_report result" where
  "run_recording W path calendar_path config_dir =
     rbind (loaded_recording W path) (\<lambda>r.
       if observations_of r = [] then Inl (ValueError ''recording is empty'')
       else
         rbind (fixed_new (Aware (first_receipt (observations_of r)) 0)) (\<lambda>clock.
         rbind (loaded_settings W config_dir) (\<lambda>s.
         rbind (tracker_new (of_int (exec_quote_stale_seconds (cfg_execution s))) no_metrics) (\<lambda>tr.
         rbind (loaded_calendar W calendar_path) (\<lambda>calendar.
           replay_into W path calendar_path s
             \<lparr>ck_calendar = session_on calendar, ck_settings = cfg_data_quality s,
              ck_timezone = rw_zone W (market_timezone (cfg_market s))\<rparr> tr r clock)))))"

subsection \<open>The order of a recording does not matter\<close>

lemma replay_order_same:
  assumes "mset (observations_of r) = mset (observations_of r')" "inj_on dump (set (observations_of r))"
  shows "replay_order dump r = replay_order dump r'"
  unfolding replay_order_def observations_of_def[symmetric]
  using assms(2) by (intro sort_key_unique[OF assms(1)]) (simp add: inj_on_def)

text \<open>A report with another digest of the recording.\<close>

definition with_recording_hash :: "string \<Rightarrow> recorder_report result \<Rightarrow> recorder_report result" where
  "with_recording_hash h m = rbind m (\<lambda>rep. Inr (rep\<lparr>rp_recording_hash := h\<rparr>))"

lemma with_recording_hash_bind:
  "with_recording_hash h (rbind m f) = rbind m (\<lambda>x. with_recording_hash h (f x))"
  by (cases m) (simp_all add: with_recording_hash_def)

lemma replay_into_same:
  assumes "mset (observations_of r) = mset (observations_of r')"
    and "inj_on (rw_event_dump W) (set (observations_of r))" "rd_snapshot_id r' = rd_snapshot_id r"
  shows "replay_into W path' cp s c tr r' clock = with_recording_hash (file_hash W path') (replay_into W path cp s c tr r clock)"
proof -
  have "set (observations_of r) = set (observations_of r')" using assms(1) by (metis set_mset_mset)
  then have names: "sort (remdups (map obs_instrument (observations_of r)))
      = sort (remdups (map obs_instrument (observations_of r')))"
    by (intro sorted_distinct_set_unique) auto
  have same: "subscribe (rw_event_dump W) r' (sort (remdups (map obs_instrument (observations_of r'))))
      = subscribe (rw_event_dump W) r (sort (remdups (map obs_instrument (observations_of r))))"
    unfolding subscribe_def names replay_order_same[OF assms(1,2)] by (rule refl)
  obtain m clock' sv rc where run: "subscribe (rw_event_dump W) r (sort (remdups (map obs_instrument (observations_of r))))
      (on_bar c) (on_quote c) on_disconnect (clock, service_new [] tr no_metrics, reconnect_new no_metrics)
      = (m, clock', sv, rc)"
    by (rule prod_cases4)
  show ?thesis
  proof (cases m)
    case (Inl e)
    then show ?thesis unfolding replay_into_def same run by (simp add: with_recording_hash_def)
  next
    case (Inr u)
    then show ?thesis
      unfolding replay_into_def same run assms(3)
      by (simp add: with_recording_hash_bind) (simp add: with_recording_hash_def report_of_def)
  qed
qed

lemma replay_into_hash: "replay_into W path cp s c tr r clock = Inr rep \<Longrightarrow> rp_recording_hash rep = file_hash W path"
  by (auto simp: replay_into_def report_of_def result_simps split: prod.splits sum.splits)

text \<open>
  C25.  What a replay finds does not depend on how the recording lists its observations: two files whose recordings
  hold the same observations under the same snapshot id, in any order, give the same error or the same report (the
  same canonical bars, metrics, stream state, output hash, calendar hash and configuration hash) except for
  \<open>recording_hash\<close>, which is the digest of the bytes of each file; as long as different observations have
  different dumps.
\<close>

theorem recording_order_free:
  assumes "loaded_recording W path = Inr r" "loaded_recording W path' = Inr r'"
    and "mset (observations_of r) = mset (observations_of r')" "rd_snapshot_id r' = rd_snapshot_id r"
    and "inj_on (rw_event_dump W) (set (observations_of r))"
  shows "(case (run_recording W path calendar_path config_dir, run_recording W path' calendar_path config_dir) of
      (Inl e, Inl e') \<Rightarrow> e' = e
    | (Inr rep, Inr rep') \<Rightarrow> rp_recording_hash rep = file_hash W path \<and> rp_recording_hash rep' = file_hash W path'
        \<and> rep'\<lparr>rp_recording_hash := []\<rparr> = rep\<lparr>rp_recording_hash := []\<rparr>
    | _ \<Rightarrow> False)"
proof -
  have set: "set (observations_of r) = set (observations_of r')" using assms(3) by (metis set_mset_mset)
  then have empty: "observations_of r = [] \<longleftrightarrow> observations_of r' = []" by (metis set_empty)
  have first: "first_receipt (observations_of r) = first_receipt (observations_of r')"
    using set by (simp add: first_receipt_def)
  have eq: "run_recording W path' calendar_path config_dir
      = with_recording_hash (file_hash W path') (run_recording W path calendar_path config_dir)"
    unfolding run_recording_def assms(1,2) rbind.simps empty first replay_into_same[OF assms(3,5,4), where path = path and path' = path']
    by (simp add: with_recording_hash_bind) (simp add: with_recording_hash_def)
  have "rp_recording_hash rep = file_hash W path" if "run_recording W path calendar_path config_dir = Inr rep" for rep
    using that replay_into_hash by (auto simp: run_recording_def result_simps split: if_split_asm)
  then show ?thesis
    unfolding eq by (cases "run_recording W path calendar_path config_dir") (simp_all add: with_recording_hash_def)
qed

definition example_live_recording :: "bool \<Rightarrow> recording" where
  "example_live_recording swapped =
     (let a = example_quote ''A'' 1783396200000000; b = example_quote ''B'' 1783396201000000
      in \<lparr>rd_schema_version = ''1'', rd_snapshot_id = ''s'', rd_source_reference = ''r'',
          rd_bars = [example_bar ''A'' 1783396140000000 100], rd_quotes = (if swapped then [b, a] else [a, b])\<rparr>)"

text \<open>Two files that list the quotes in two orders, beside the configuration; the digest is the one of 64 characters.\<close>

definition example_recorder :: recorder_world where
  "example_recorder = \<lparr>
     rw_read = (\<lambda>path. Inr (if path = ''a.yaml'' then ''quotes: [A, B]'' else if path = ''b.yaml'' then ''quotes: [B, A]'' else path)),
     rw_yaml = (\<lambda>bytes. if take 6 bytes = ''config'' then example_reader bytes else Inr (Yaml_Text bytes)),
     rw_recording_model = (\<lambda>doc. Inr (example_live_recording (doc = Yaml_Text ''quotes: [B, A]''))),
     rw_calendar_model = (\<lambda>_. Inr nse_2026), rw_sources = example_sources example_environment_table,
     rw_environment = example_environment, rw_settings_model = (\<lambda>_. Inr example_live_settings),
     rw_dump = example_dump [], rw_known_zone = (\<lambda>z. z = ''Asia/Kolkata''), rw_zone = (\<lambda>_. kolkata),
     rw_event_dump = (\<lambda>e. case e of Obs_Bar b \<Rightarrow> ''bar'' @ b_instrument_id b | Obs_Quote q \<Rightarrow> ''quote'' @ q_instrument_id q),
     rw_bar_dump = (\<lambda>b. []), rw_bar_json = (\<lambda>b. JStr (b_instrument_id b)), rw_sha = short_digest\<rparr>"

definition replay_checker :: checker where
  "replay_checker = \<lparr>ck_calendar = session_on nse_2026, ck_settings = cfg_data_quality example_live_settings, ck_timezone = kolkata\<rparr>"

definition example_subscribed :: "bool result \<times> fixed_clock \<times> recorder" where
  "example_subscribed = subscribe (rw_event_dump example_recorder) (example_live_recording False) [''A'', ''B'']
     (on_bar replay_checker) (on_quote replay_checker) on_disconnect
     (\<lparr>fc_instant = Aware 1783396200000000 0\<rparr>,
      service_new [] \<lparr>tr_stale_seconds = 3, tr_metrics = no_metrics, tr_quotes = Map.empty, tr_invalid = {}\<rparr> no_metrics,
      reconnect_new no_metrics)"

lemma example_subscribed_run:
  "case example_subscribed of (m, clock, sv, rc) \<Rightarrow>
     \<not> isl m \<and> \<not> isl (canonical_bars (rw_bar_dump example_recorder) replay_checker (instant_of (fixed_now clock)) sv)"
  by code_simp

lemma example_settings_loaded:
  "loaded_settings example_recorder ''config'' = Inr (example_live_settings\<lparr>cfg_logging := example_logging\<rparr>)"
proof -
  have g: "map_of example_environment ''GODZILLA_MODE'' = Some ''research''"
    by (simp add: example_environment_def)
  have r: "file_reader example_recorder (in_dir ''config'' name) = example_reader (in_dir ''config'' name)" for name
    by (simp add: file_reader_def example_recorder_def in_dir_def)
  have e: "rw_environment example_recorder = example_environment" by (simp add: example_recorder_def)
  have "\<exists>t. effective_settings (file_reader example_recorder) (rw_sources example_recorder) (rw_environment example_recorder)
      ''config'' None = Inr t"
    unfolding effective_settings_def merged_settings_def load_yaml_def r e g
    by (simp add: example_reader_def in_dir_def select_mode_def mode_from_environment_def mode_of_name_def example_upper)
  moreover have "settings_of (rw_settings_model example_recorder) (rw_known_zone example_recorder) t
      = Inr (example_live_settings\<lparr>cfg_logging := example_logging\<rparr>)" for t
    by (simp add: example_recorder_def settings_of_def example_live_valid)
  ultimately show ?thesis by (auto simp: loaded_settings_def load_settings_def)
qed

lemma example_recording_run: "\<exists>rep. run_recording example_recorder ''a.yaml'' ''c.yaml'' ''config'' = Inr rep"
proof -
  let ?s = "example_live_settings\<lparr>cfg_logging := example_logging\<rparr>" and ?r = "example_live_recording False"
  have load: "loaded_recording example_recorder ''a.yaml'' = Inr ?r"
    "loaded_calendar example_recorder ''c.yaml'' = Inr nse_2026"
    by (simp_all add: loaded_recording_def loaded_calendar_def load_yaml_model_def file_reader_def example_recorder_def)
  have obs: "observations_of ?r \<noteq> []" "first_receipt (observations_of ?r) = 1783396200000000"
    "sort (remdups (map obs_instrument (observations_of ?r))) = [''A'', ''B'']"
    by code_simp+
  have s: "cfg_data_quality ?s = cfg_data_quality example_live_settings"
    "rw_zone example_recorder (market_timezone (cfg_market ?s)) = kolkata"
    "tracker_new (of_int (exec_quote_stale_seconds (cfg_execution ?s))) no_metrics
      = Inr \<lparr>tr_stale_seconds = 3, tr_metrics = no_metrics, tr_quotes = Map.empty, tr_invalid = {}\<rparr>"
    by (simp_all add: example_recorder_def example_live_settings_def tracker_new_def)
  have clock: "fixed_new (Aware t 0) = Inr \<lparr>fc_instant = Aware t 0\<rparr>" for t
    by (simp add: fixed_new_def require_aware_def)
  obtain m k sv rc where run: "example_subscribed = (m, k, sv, rc)" by (rule prod_cases4)
  have ok: "\<not> isl m" "\<not> isl (canonical_bars (rw_bar_dump example_recorder) replay_checker (instant_of (fixed_now k)) sv)"
    using example_subscribed_run unfolding run by simp_all
  obtain u bars where "m = Inr u"
    "canonical_bars (rw_bar_dump example_recorder) replay_checker (instant_of (fixed_now k)) sv = Inr bars"
    using ok by (metis isl_def old.sum.exhaust)
  then have "\<exists>rep. replay_into example_recorder ''a.yaml'' ''c.yaml'' ?s replay_checker
      \<lparr>tr_stale_seconds = 3, tr_metrics = no_metrics, tr_quotes = Map.empty, tr_invalid = {}\<rparr> ?r
      \<lparr>fc_instant = Aware 1783396200000000 0\<rparr> = Inr rep"
    unfolding replay_into_def obs(3) run[unfolded example_subscribed_def] by simp
  moreover have "\<lparr>ck_calendar = session_on nse_2026, ck_settings = cfg_data_quality ?s,
      ck_timezone = rw_zone example_recorder (market_timezone (cfg_market ?s))\<rparr> = replay_checker"
    unfolding s(1,2) replay_checker_def by (rule refl)
  ultimately show ?thesis
    using obs(1) unfolding run_recording_def load rbind.simps obs(2) clock example_settings_loaded s(3) by simp
qed

theorem recording_order_free_witness:
  "\<exists>rep rep'. run_recording example_recorder ''a.yaml'' ''c.yaml'' ''config'' = Inr rep
     \<and> run_recording example_recorder ''b.yaml'' ''c.yaml'' ''config'' = Inr rep'
     \<and> rp_recording_hash rep \<noteq> rp_recording_hash rep'
     \<and> rep'\<lparr>rp_recording_hash := []\<rparr> = rep\<lparr>rp_recording_hash := []\<rparr>"
proof -
  have load: "loaded_recording example_recorder ''a.yaml'' = Inr (example_live_recording False)"
    "loaded_recording example_recorder ''b.yaml'' = Inr (example_live_recording True)"
    by (simp_all add: loaded_recording_def load_yaml_model_def file_reader_def example_recorder_def)
  have same: "mset (observations_of (example_live_recording False)) = mset (observations_of (example_live_recording True))"
    "rd_snapshot_id (example_live_recording True) = rd_snapshot_id (example_live_recording False)"
    by (simp_all add: observations_of_def example_live_recording_def Let_def example_quote_def)
  have inj: "inj_on (rw_event_dump example_recorder) (set (observations_of (example_live_recording False)))"
    by (auto simp: inj_on_def observations_of_def example_live_recording_def Let_def example_recorder_def
        example_bar_def example_quote_def)
  have hash: "file_hash example_recorder ''a.yaml'' \<noteq> file_hash example_recorder ''b.yaml''"
    by (simp add: file_hash_def example_recorder_def short_digest_def)
  obtain rep where rep: "run_recording example_recorder ''a.yaml'' ''c.yaml'' ''config'' = Inr rep"
    using example_recording_run by blast
  show ?thesis
    using recording_order_free[OF load same inj, of "''c.yaml''" "''config''"] hash unfolding rep
    by (cases "run_recording example_recorder ''b.yaml'' ''c.yaml'' ''config''") auto
qed

end
