(* ===== verification/Research.thy ===== *)
theory Research
  imports Momentum Pairs_Engine Router
begin

text \<open>
  The research reports of \<open>alphas/momentum_research.py\<close> (equal-weight quantiles of the momentum cross-section
  against forward returns) and \<open>alphas/pairs_research.py\<close> (survival of pair relationships and cost stress).
  They are descriptive: nothing in the program reads them.  The content hashes are parameters.
\<close>

subsection \<open>Momentum quantiles\<close>

record forward_return =
  fr_instrument_id :: string
  fr_decision_at :: instant
  fr_measured_at :: instant
  fr_return_fraction :: rat

definition mk_forward_return :: "forward_return \<Rightarrow> forward_return result" where
  "mk_forward_return l =
     (if fr_return_fraction l \<le> - 1 then Inl (ValueError ''validation error for ForwardReturn'')
      else if fr_measured_at l \<le> fr_decision_at l then
        Inl (ValueError ''forward outcome must follow decision'')
      else Inr l)"

record quantile_diagnostic =
  qd_quantile :: int
  qd_count :: nat
  qd_mean_strength :: "rat option"
  qd_mean_forward_return :: "rat option"

record momentum_diagnostics =
  md_experiment :: experiment_identity
  md_parameters :: momentum_settings
  md_result_hash :: string
  md_labels_hash :: string
  md_quantiles :: "quantile_diagnostic list"
  md_gross_long_tail_return :: "rat option"
  md_gross_short_tail_return :: "rat option"
  md_gross_long_short_return :: "rat option"

record research_hashes =
  eh_result :: "momentum_result \<Rightarrow> string"
  eh_labels :: "forward_return list \<Rightarrow> string"
  eh_evaluation :: "pair_evaluation \<Rightarrow> string"

text \<open>\<open>fmean(xs) if xs else None\<close>.\<close>

definition mean_or_none :: "rat list \<Rightarrow> rat option" where
  "mean_or_none xs = (if xs = [] then None else Some (fmean xs))"

text \<open>\<open>min(quantiles, int(s.percentile * quantiles) + 1)\<close>; \<open>int\<close> truncates towards zero.\<close>

definition quantile_of :: "int \<Rightarrow> momentum_score \<Rightarrow> int" where
  "quantile_of n s =
     (let x = fl (mc_percentile s * of_int n)
      in min n ((if 0 \<le> x then \<lfloor>x\<rfloor> else - \<lfloor>- x\<rfloor>) + 1))"

definition quantile_members :: "int \<Rightarrow> momentum_score list \<Rightarrow> int \<Rightarrow> momentum_score list" where
  "quantile_members n scores q = filter (\<lambda>s. quantile_of n s = q) scores"

definition labels_bad :: "momentum_result \<Rightarrow> forward_return list \<Rightarrow> instant \<Rightarrow> bool" where
  "labels_bad result labels seen_at \<longleftrightarrow>
     count_distinct (map fr_instrument_id labels) \<noteq> length labels
     \<or> set (map fr_instrument_id labels) \<noteq> set (map mc_instrument_id (mr_scores result))
     \<or> list_ex (\<lambda>l. fr_decision_at l \<noteq> mr_timestamp result \<or> seen_at < fr_measured_at l) labels
     \<or> count_distinct (map fr_measured_at labels) \<noteq> 1"

text \<open>\<open>indexed[s.instrument_id].return_fraction\<close>; the identities were compared before.\<close>

definition forward_of :: "forward_return list \<Rightarrow> momentum_score \<Rightarrow> rat" where
  "forward_of labels s =
     (case dict_of fr_instrument_id labels (mc_instrument_id s) of None \<Rightarrow> 0 | Some l \<Rightarrow> fr_return_fraction l)"

definition bucket_of :: "int \<Rightarrow> momentum_score list \<Rightarrow> forward_return list \<Rightarrow> int \<Rightarrow> quantile_diagnostic" where
  "bucket_of n scores labels q =
     (let members = quantile_members n scores q
      in \<lparr>qd_quantile = q, qd_count = length members,
          qd_mean_strength = mean_or_none (map mc_strength members),
          qd_mean_forward_return = mean_or_none (map (forward_of labels) members)\<rparr>)"

definition quantile_diagnostics ::
  "research_hashes \<Rightarrow> momentum_result \<Rightarrow> forward_return list \<Rightarrow> experiment_identity \<Rightarrow> pydatetime \<Rightarrow> int
     \<Rightarrow> momentum_diagnostics result" where
  "quantile_diagnostics H result labels x available n =
     (if n < 2 \<or> mr_scores result = [] then
        Inl (ValueError ''diagnostics require scores and at least two quantiles'')
      else if xi_code_commit x \<noteq> mr_code_commit result \<or> xi_data_snapshot x \<noteq> mr_data_snapshot result then
        Inl (ValueError ''experiment provenance differs from ranked inputs'')
      else rbind (utc available) (\<lambda>seen_at.
        if labels_bad result labels seen_at then
          Inl (ValueError ''labels must cover the cross-section at one fully observed horizon'')
        else
          let buckets = map (bucket_of n (mr_scores result) labels) [1..n];
              long = qd_mean_forward_return (last buckets);
              short = map_option uminus (qd_mean_forward_return (hd buckets))
          in Inr \<lparr>md_experiment = x, md_parameters = mr_settings result, md_result_hash = eh_result H result,
               md_labels_hash = eh_labels H (sort_key fr_instrument_id labels), md_quantiles = buckets,
               md_gross_long_tail_return = long, md_gross_short_tail_return = short,
               md_gross_long_short_return =
                 (case (long, short) of
                    (Some l, Some s) \<Rightarrow> Some (fl (fl (l + s) / 2)) | _ \<Rightarrow> None)\<rparr>))"

subsection \<open>Pair survival and costs\<close>

record pair_round_trip =
  rt_left_gross_fraction :: rat
  rt_left_signed_return :: rat
  rt_right_signed_return :: rat

definition round_trip_ok :: "pair_round_trip \<Rightarrow> bool" where
  "round_trip_ok t \<longleftrightarrow> 0 < rt_left_gross_fraction t \<and> rt_left_gross_fraction t < 1"

record cost_scenario =
  cs_name :: string
  cs_left_one_way_bps :: rat
  cs_right_one_way_bps :: rat

definition cost_scenario_ok :: "cost_scenario \<Rightarrow> bool" where
  "cost_scenario_ok c \<longleftrightarrow> 0 \<le> cs_left_one_way_bps c \<and> 0 \<le> cs_right_one_way_bps c"

record cost_result =
  cr_scenario :: cost_scenario
  cr_mean_gross_return :: "rat option"
  cr_mean_round_trip_cost :: "rat option"
  cr_mean_net_return :: "rat option"

record pair_research_report =
  pr_experiment :: experiment_identity
  pr_settings :: pairs_settings
  pr_evaluation_hashes :: "string list"
  pr_evaluations :: nat
  pr_accepted_fraction :: rat
  pr_initial_survivor_fraction :: rat
  pr_mean_beta_drift :: "rat option"
  pr_mean_half_life_bars :: "rat option"
  pr_costs :: "cost_result list"
  pr_round_trips :: "pair_round_trip list"

text \<open>The three variables of the loop over the evaluations.\<close>

record survival =
  sv_last_by_pair :: "string \<Rightarrow> pair_evaluation option"
  sv_initially_accepted :: "string set"
  sv_failed_after_acceptance :: "string set"

definition survival_step :: "pair_evaluation \<Rightarrow> survival \<Rightarrow> survival" where
  "survival_step e v =
     (let initially = (if sv_last_by_pair v (pe_pair_id e) = None \<and> pe_accepted_relationship e
            then insert (pe_pair_id e) (sv_initially_accepted v) else sv_initially_accepted v)
      in \<lparr>sv_last_by_pair = (sv_last_by_pair v)(pe_pair_id e \<mapsto> e), sv_initially_accepted = initially,
          sv_failed_after_acceptance =
            (if \<not> pe_accepted_relationship e \<and> pe_pair_id e \<in> initially
             then insert (pe_pair_id e) (sv_failed_after_acceptance v) else sv_failed_after_acceptance v)\<rparr>)"

fun survival_loop ::
  "pairs_settings \<Rightarrow> experiment_identity \<Rightarrow> pair_evaluation list \<Rightarrow> survival \<Rightarrow> survival result" where
  "survival_loop cfg x [] v = Inr v"
| "survival_loop cfg x (e # rest) v =
     (if pe_settings e \<noteq> cfg \<or> pe_code_commit e \<noteq> xi_code_commit x
         \<or> pe_data_snapshot e \<noteq> xi_data_snapshot x then
        Inl (ValueError ''report provenance/settings mismatch'')
      else if (case sv_last_by_pair v (pe_pair_id e) of
                 None \<Rightarrow> False | Some p \<Rightarrow> pe_timestamp e \<le> pe_timestamp p) then
        Inl (ValueError ''pair evaluations must be chronological'')
      else survival_loop cfg x rest (survival_step e v))"

definition no_survival :: survival where
  "no_survival = \<lparr>sv_last_by_pair = (\<lambda>_. None), sv_initially_accepted = {}, sv_failed_after_acceptance = {}\<rparr>"

definition round_trip_gross :: "pair_round_trip \<Rightarrow> rat" where
  "round_trip_gross t =
     fl (fl (rt_left_gross_fraction t * rt_left_signed_return t)
       + fl (fl (1 - rt_left_gross_fraction t) * rt_right_signed_return t))"

definition round_trip_charge :: "cost_scenario \<Rightarrow> pair_round_trip \<Rightarrow> rat" where
  "round_trip_charge c t =
     fl (fl (2 * fl (fl (rt_left_gross_fraction t * cs_left_one_way_bps c)
                   + fl (fl (1 - rt_left_gross_fraction t) * cs_right_one_way_bps c))) / 10000)"

definition cost_of :: "pair_round_trip list \<Rightarrow> cost_scenario \<Rightarrow> cost_result" where
  "cost_of trades c =
     (let gross = map round_trip_gross trades; charges = map (round_trip_charge c) trades
      in \<lparr>cr_scenario = c, cr_mean_gross_return = mean_or_none gross,
          cr_mean_round_trip_cost = mean_or_none charges,
          cr_mean_net_return = mean_or_none (map2 (\<lambda>g ch. fl (g - ch)) gross charges)\<rparr>)"

definition pair_research_report ::
  "research_hashes \<Rightarrow> pair_evaluation list \<Rightarrow> pair_round_trip list \<Rightarrow> cost_scenario list
     \<Rightarrow> experiment_identity \<Rightarrow> pair_research_report result" where
  "pair_research_report H es trades scenarios x =
     (if es = [] then Inl (ValueError ''pair report requires evaluations'')
      else let cfg = pe_settings (hd es) in
        rbind (survival_loop cfg x es no_survival) (\<lambda>v.
          let fits = List.map_filter pe_fit es; lives = List.map_filter pf_half_life_bars fits
          in Inr \<lparr>pr_experiment = x, pr_settings = cfg, pr_evaluation_hashes = map (eh_evaluation H) es,
               pr_evaluations = length es,
               pr_accepted_fraction =
                 fl (of_nat (length (filter pe_accepted_relationship es)) / of_nat (length es)),
               pr_initial_survivor_fraction =
                 (if sv_initially_accepted v \<noteq> {}
                  then fl (of_nat (card (sv_initially_accepted v - sv_failed_after_acceptance v))
                         / of_nat (card (sv_initially_accepted v)))
                  else 0),
               pr_mean_beta_drift = mean_or_none (map pf_split_beta_drift fits),
               pr_mean_half_life_bars = mean_or_none lives,
               pr_costs = map (cost_of trades) scenarios, pr_round_trips = trades\<rparr>))"

subsection \<open>Quantiles partition the cross-section\<close>

lemma quantile_of_range:
  assumes "2 \<le> n" "0 \<le> mc_percentile s"
  shows "1 \<le> quantile_of n s" "quantile_of n s \<le> n"
proof -
  have "0 \<le> fl (mc_percentile s * of_int n)" using assms by (simp add: flr.nonneg_iff)
  then show "1 \<le> quantile_of n s" using assms by (simp add: quantile_of_def Let_def)
  show "quantile_of n s \<le> n" by (simp add: quantile_of_def Let_def)
qed

lemma quantile_of_mono:
  assumes "2 \<le> n" "0 \<le> mc_percentile s" "mc_percentile s \<le> mc_percentile t"
  shows "quantile_of n s \<le> quantile_of n t"
proof -
  have "fl (mc_percentile s * of_int n) \<le> fl (mc_percentile t * of_int n)"
    using assms by (intro flr.mono mult_right_mono) auto
  moreover have "0 \<le> fl (mc_percentile s * of_int n)" using assms by (simp add: flr.nonneg_iff)
  ultimately have "0 \<le> fl (mc_percentile t * of_int n)"
    "\<lfloor>fl (mc_percentile s * of_int n)\<rfloor> \<le> \<lfloor>fl (mc_percentile t * of_int n)\<rfloor>"
    "0 \<le> fl (mc_percentile s * of_int n)"
    by (auto intro: floor_mono order_trans)
  then show ?thesis by (simp add: quantile_of_def min_def Let_def)
qed

lemma sum_quantile_counts:
  assumes "\<forall>s\<in>set scores. f s \<in> {1..n}"
  shows "sum_list (map (\<lambda>q. length (filter (\<lambda>s. f s = q) scores)) [1..n]) = length scores"
  using assms
proof (induction scores)
  case (Cons s scores)
  have one: "sum_list (map (\<lambda>q. if f s = q then 1 else 0) [1..n]) = (1::nat)"
    using Cons.prems by (simp add: sum_list_distinct_conv_sum_set)
  have step: "length (filter (\<lambda>s'. f s' = q) (s # scores))
      = (if f s = q then 1 else 0) + length (filter (\<lambda>s'. f s' = q) scores)" for q
    by simp
  show ?case unfolding step sum_list_addf one using Cons by simp
qed simp

text \<open>
  C39.  The quantile diagnostics rest on a partition: the buckets are numbered from 1 to the number of quantiles, every
  ranked score is counted in exactly one of them and stronger scores never fall into lower buckets; every score
  has one label, and all labels were measured at one horizon after the decision and before the time of the report.
\<close>

theorem quantiles_partition:
  assumes "quantile_diagnostics H result labels x available n = Inr d"
    and "\<forall>s \<in> set (mr_scores result). mk_score s = Inr s" "\<forall>l \<in> set labels. mk_forward_return l = Inr l"
  shows "map qd_quantile (md_quantiles d) = [1..n]
    \<and> sum_list (map qd_count (md_quantiles d)) = length (mr_scores result)
    \<and> (\<forall>s \<in> set (mr_scores result). \<forall>t \<in> set (mr_scores result).
         mc_percentile s \<le> mc_percentile t \<longrightarrow> quantile_of n s \<le> quantile_of n t)
    \<and> (\<forall>s \<in> set (mr_scores result). \<exists>!l. l \<in> set labels \<and> fr_instrument_id l = mc_instrument_id s)
    \<and> (\<exists>horizon. mr_timestamp result < horizon \<and> horizon \<le> instant_of available
         \<and> (\<forall>l \<in> set labels. fr_decision_at l = mr_timestamp result \<and> fr_measured_at l = horizon))"
proof -
  have n: "2 \<le> n" and ne: "mr_scores result \<noteq> []"
    and ok: "\<not> labels_bad result labels (instant_of available)"
    and d: "md_quantiles d = map (bucket_of n (mr_scores result) labels) [1..n]"
    using assms(1)
    by (auto simp: quantile_diagnostics_def utc_Inr_iff result_simps Let_def split: if_splits)
  have pct: "0 \<le> mc_percentile s" if "s \<in> set (mr_scores result)" for s
    using assms(2) that by (auto simp: mk_score_def Momentum.unit_fraction_def split: if_splits)
  have "distinct (map fr_instrument_id labels)"
    using ok count_distinct_eq_iff[of "map fr_instrument_id labels"] by (simp add: labels_bad_def)
  moreover have "set (map fr_instrument_id labels) = set (map mc_instrument_id (mr_scores result))"
    using ok unfolding labels_bad_def by blast
  moreover have "\<forall>l \<in> set labels. fr_decision_at l = mr_timestamp result \<and> fr_measured_at l \<le> instant_of available"
    using ok unfolding labels_bad_def list_ex_iff by (meson not_less)
  moreover have "card (fr_measured_at ` set labels) = 1"
    using ok unfolding labels_bad_def count_distinct_card by simp
  ultimately have label: "distinct (map fr_instrument_id labels)"
    "set (map fr_instrument_id labels) = set (map mc_instrument_id (mr_scores result))"
    "\<forall>l \<in> set labels. fr_decision_at l = mr_timestamp result \<and> fr_measured_at l \<le> instant_of available"
    "card (fr_measured_at ` set labels) = 1"
    by simp_all
  obtain horizon where h: "fr_measured_at ` set labels = {horizon}"
    using label(4) by (auto simp: card_1_singleton_iff)
  then obtain l where l: "l \<in> set labels" "fr_measured_at l = horizon" by (metis imageE singletonI)
  have "mr_timestamp result < horizon"
    using assms(3) label(3) l by (auto simp: mk_forward_return_def split: if_splits)
  moreover have "horizon \<le> instant_of available" using label(3) l by auto
  moreover have "\<forall>l \<in> set labels. fr_decision_at l = mr_timestamp result \<and> fr_measured_at l = horizon"
    using h label(3) by blast
  ultimately have observed: "\<exists>horizon. mr_timestamp result < horizon \<and> horizon \<le> instant_of available
         \<and> (\<forall>l \<in> set labels. fr_decision_at l = mr_timestamp result \<and> fr_measured_at l = horizon)"
    by blast
  have labelled: "\<exists>!l. l \<in> set labels \<and> fr_instrument_id l = mc_instrument_id s"
    if "s \<in> set (mr_scores result)" for s
  proof -
    have "mc_instrument_id s \<in> set (map fr_instrument_id labels)" using that label(2) by simp
    then obtain l where "l \<in> set labels" "fr_instrument_id l = mc_instrument_id s" by auto
    then show ?thesis using label(1) unfolding distinct_map inj_on_def by metis
  qed
  have counts: "sum_list (map qd_count (md_quantiles d)) = length (mr_scores result)"
    using sum_quantile_counts[of "mr_scores result" "quantile_of n" n] quantile_of_range[OF n pct]
    by (simp add: d bucket_of_def quantile_members_def Let_def o_def)
  have numbers: "map qd_quantile (md_quantiles d) = [1..n]"
    by (simp add: d bucket_of_def Let_def o_def)
  show ?thesis
    using numbers counts quantile_of_mono[OF n pct] labelled observed by (intro conjI ballI impI)
qed

subsection \<open>Which pairs survive\<close>

abbreviation of_pair :: "string \<Rightarrow> pair_evaluation \<Rightarrow> bool" where
  "of_pair p e \<equiv> pe_pair_id e = p"

lemma survival_loop_Inr:
  "survival_loop cfg x es v = Inr v' \<Longrightarrow>
     sv_initially_accepted v' = sv_initially_accepted v
       \<union> {p. sv_last_by_pair v p = None \<and> (\<exists>e. find (of_pair p) es = Some e \<and> pe_accepted_relationship e)}
     \<and> sv_failed_after_acceptance v' = sv_failed_after_acceptance v
       \<union> {p \<in> sv_initially_accepted v'. \<exists>e \<in> set es. of_pair p e \<and> \<not> pe_accepted_relationship e}
     \<and> (\<forall>p. sorted_wrt (<) ((case sv_last_by_pair v p of None \<Rightarrow> [] | Some e \<Rightarrow> [pe_timestamp e])
           @ map pe_timestamp (filter (of_pair p) es)))"
proof (induction es arbitrary: v)
  case Nil
  then show ?case by (auto split: option.splits)
next
  case (Cons e rest)
  let ?v = "survival_step e v"
  have loop: "survival_loop cfg x rest ?v = Inr v'"
    and before: "case sv_last_by_pair v (pe_pair_id e) of None \<Rightarrow> True | Some p \<Rightarrow> pe_timestamp p < pe_timestamp e"
    using Cons.prems by (auto split: if_splits option.splits)
  have last: "sv_last_by_pair ?v = (sv_last_by_pair v)(pe_pair_id e \<mapsto> e)"
    by (simp add: survival_step_def Let_def)
  have first: "sv_initially_accepted ?v = sv_initially_accepted v
      \<union> {p. p = pe_pair_id e \<and> sv_last_by_pair v p = None \<and> pe_accepted_relationship e}"
    by (auto simp: survival_step_def Let_def)
  have failed: "sv_failed_after_acceptance ?v = sv_failed_after_acceptance v
      \<union> {p. p = pe_pair_id e \<and> p \<in> sv_initially_accepted ?v \<and> \<not> pe_accepted_relationship e}"
    by (auto simp: survival_step_def Let_def)
  note IH = Cons.IH[OF loop]
  have 1: "sv_initially_accepted v' = sv_initially_accepted v
       \<union> {p. sv_last_by_pair v p = None \<and> (\<exists>e'. find (of_pair p) (e # rest) = Some e' \<and> pe_accepted_relationship e')}"
    using IH unfolding last first by (auto split: if_splits)
  have 2: "pe_pair_id e \<in> sv_initially_accepted v' \<longleftrightarrow> pe_pair_id e \<in> sv_initially_accepted ?v"
    using IH unfolding last by auto
  have 3: "sv_failed_after_acceptance v' = sv_failed_after_acceptance v
       \<union> {p \<in> sv_initially_accepted v'. \<exists>e' \<in> set (e # rest). of_pair p e' \<and> \<not> pe_accepted_relationship e'}"
    using IH 2 unfolding failed by auto
  have "sorted_wrt (<) ((case sv_last_by_pair v p of None \<Rightarrow> [] | Some e \<Rightarrow> [pe_timestamp e])
           @ map pe_timestamp (filter (of_pair p) (e # rest)))" for p
  proof -
    have "sorted_wrt (<) ((case sv_last_by_pair ?v p of None \<Rightarrow> [] | Some e \<Rightarrow> [pe_timestamp e])
           @ map pe_timestamp (filter (of_pair p) rest))" using IH by blast
    then show ?thesis using before by (cases "pe_pair_id e = p") (auto simp: last split: option.splits)
  qed
  then show ?case using 1 3 by blast
qed

text \<open>
  The survivor fraction is exact: among the pairs whose first evaluation was accepted it is the share of those
  that no later evaluation rejected, a number between 0 and 1; the evaluations of every pair are in strictly
  chronological order and share the settings and provenance of the report.
\<close>

theorem survivors_exact:
  fixes es :: "pair_evaluation list"
  defines "first_accepted \<equiv> {p. \<exists>e. find (of_pair p) es = Some e \<and> pe_accepted_relationship e}"
  assumes "pair_research_report H es trades scenarios x = Inr r"
  shows "pr_initial_survivor_fraction r =
      (if first_accepted = {} then 0
       else fl (of_nat (card {p \<in> first_accepted. \<forall>e \<in> set es. of_pair p e \<longrightarrow> pe_accepted_relationship e})
              / of_nat (card first_accepted)))
    \<and> 0 \<le> pr_initial_survivor_fraction r \<and> pr_initial_survivor_fraction r \<le> 1
    \<and> (\<forall>p. sorted_wrt (<) (map pe_timestamp (filter (of_pair p) es)))"
proof -
  obtain v where v: "survival_loop (pe_settings (hd es)) x es no_survival = Inr v"
    "pr_initial_survivor_fraction r =
       (if sv_initially_accepted v \<noteq> {}
        then fl (of_nat (card (sv_initially_accepted v - sv_failed_after_acceptance v))
               / of_nat (card (sv_initially_accepted v))) else 0)"
    using assms(2) by (cases "es = []") (auto simp: pair_research_report_def result_simps Let_def)
  have A: "sv_initially_accepted v = first_accepted"
    "first_accepted - sv_failed_after_acceptance v
       = {p \<in> first_accepted. \<forall>e \<in> set es. of_pair p e \<longrightarrow> pe_accepted_relationship e}"
    using survival_loop_Inr[OF v(1)] by (auto simp: no_survival_def assms(1))
  have "first_accepted \<subseteq> pe_pair_id ` set es" by (auto simp: assms(1) find_Some_iff)
  then have "finite first_accepted" by (rule finite_subset) simp
  then have "card {p \<in> first_accepted. \<forall>e \<in> set es. of_pair p e \<longrightarrow> pe_accepted_relationship e} \<le> card first_accepted"
    by (intro card_mono) auto
  then have "0 \<le> pr_initial_survivor_fraction r \<and> pr_initial_survivor_fraction r \<le> 1"
    unfolding v(2) A using fraction_bounds by auto
  moreover have "\<forall>p. sorted_wrt (<) (map pe_timestamp (filter (of_pair p) es))"
    using survival_loop_Inr[OF v(1)] by (auto simp: no_survival_def)
  ultimately show ?thesis using v(2) A by simp
qed

subsection \<open>Examples\<close>

definition example_experiment :: experiment_identity where
  "example_experiment = \<lparr>xi_hypothesis_id = ''h'', xi_code_commit = ''c'', xi_data_snapshot = ''d'',
     xi_search_family = ''f'', xi_trials = 1\<rparr>"

definition example_ranked_result :: momentum_result where
  "example_ranked_result = \<lparr>mr_timestamp = 0,
     mr_scores = [example_score ''A'' (1 / 2) (1 / 4), example_score ''B'' 1 1], mr_intents = [], mr_reasons = [],
     mr_cross_section_hash = [], mr_settings = example_momentum, mr_code_commit = ''c'', mr_data_snapshot = ''d''\<rparr>"

definition example_labels :: "forward_return list" where
  "example_labels = [\<lparr>fr_instrument_id = ''B'', fr_decision_at = 0, fr_measured_at = 5, fr_return_fraction = 1 / 8\<rparr>,
     \<lparr>fr_instrument_id = ''A'', fr_decision_at = 0, fr_measured_at = 5, fr_return_fraction = 0\<rparr>]"

definition example_research_hashes :: research_hashes where
  "example_research_hashes = \<lparr>eh_result = (\<lambda>_. []), eh_labels = (\<lambda>_. []), eh_evaluation = (\<lambda>_. [])\<rparr>"

lemma example_diagnostics:
  "\<exists>d. quantile_diagnostics example_research_hashes example_ranked_result example_labels example_experiment
     (Aware 9 0) 2 = Inr d"
  by (simp add: quantile_diagnostics_def utc_def Let_def labels_bad_def example_ranked_result_def
      example_labels_def example_experiment_def count_distinct_def example_score_def insert_commute)

theorem quantiles_partition_witness:
  "\<exists>d. quantile_diagnostics example_research_hashes example_ranked_result example_labels example_experiment
     (Aware 9 0) 2 = Inr d \<and> map qd_quantile (md_quantiles d) = [1, 2] \<and> sum_list (map qd_count (md_quantiles d)) = 2"
proof -
  obtain d where d: "quantile_diagnostics example_research_hashes example_ranked_result example_labels
      example_experiment (Aware 9 0) 2 = Inr d" using example_diagnostics by blast
  have "\<forall>s \<in> set (mr_scores example_ranked_result). mk_score s = Inr s"
    by (simp add: example_ranked_result_def example_score_def mk_score_def Momentum.unit_fraction_def)
  moreover have "\<forall>l \<in> set example_labels. mk_forward_return l = Inr l"
    by (simp add: example_labels_def mk_forward_return_def)
  ultimately have "map qd_quantile (md_quantiles d) = [1..2]"
    "sum_list (map qd_count (md_quantiles d)) = length (mr_scores example_ranked_result)"
    using quantiles_partition[OF d] by blast+
  then show ?thesis using d by (simp add: example_ranked_result_def upto.simps)
qed

definition example_evaluation :: "string \<Rightarrow> instant \<Rightarrow> bool \<Rightarrow> pair_evaluation" where
  "example_evaluation p t accepted = \<lparr>pe_timestamp = t, pe_pair_id = p, pe_intent = None, pe_fit = None,
     pe_zscore = None, pe_accepted_relationship = accepted, pe_reasons = [], pe_open_risk_attention = False,
     pe_input_hash = [], pe_settings = example_pairs, pe_code_commit = ''c'', pe_data_snapshot = ''d''\<rparr>"

definition example_evaluations :: "pair_evaluation list" where
  "example_evaluations = [example_evaluation ''p'' 1 True, example_evaluation ''q'' 1 True,
     example_evaluation ''p'' 2 False]"

lemma example_first_accepted:
  "{p. \<exists>e. find (of_pair p) example_evaluations = Some e \<and> pe_accepted_relationship e} = {''p'', ''q''}"
  by (auto simp: example_evaluations_def example_evaluation_def)

theorem survivors_exact_witness:
  "\<exists>r. pair_research_report example_research_hashes example_evaluations [] [] example_experiment = Inr r
     \<and> pr_initial_survivor_fraction r = fl (1 / 2)"
proof -
  obtain r where r: "pair_research_report example_research_hashes example_evaluations [] [] example_experiment = Inr r"
    by (simp add: pair_research_report_def example_evaluations_def example_evaluation_def example_experiment_def
        survival_step_def no_survival_def Let_def)
  have "{p \<in> {''p'', ''q''}. \<forall>e \<in> set example_evaluations. of_pair p e \<longrightarrow> pe_accepted_relationship e} = {''q''}"
    by (auto simp: example_evaluations_def example_evaluation_def)
  then show ?thesis
    using survivors_exact[OF r] r unfolding example_first_accepted by simp
qed

end
