(* ===== verification/Redaction.thy ===== *)
theory Redaction
  imports Instruments "HOL-Library.Sublist"
begin


definition redacted :: string where
  "redacted = ''[REDACTED]''"

definition lower_char :: "char \<Rightarrow> char" where
  "lower_char c = (let n = of_char c :: nat in if 65 \<le> n \<and> n \<le> 90 then char_of (n + 32) else c)"

definition word_char :: "char \<Rightarrow> bool" where
  "word_char c \<longleftrightarrow> (let n = of_char c :: nat in
     48 \<le> n \<and> n \<le> 57 \<or> 65 \<le> n \<and> n \<le> 90 \<or> n = 95 \<or> 97 \<le> n \<and> n \<le> 122)"

text \<open>The words of \<open>password|secret|token|api[_-]?key|authorization\<close>.\<close>

definition sensitive_words :: "string list" where
  "sensitive_words =
     [''password'', ''secret'', ''token'', ''apikey'', ''api_key'', ''api-key'', ''authorization'']"

definition sensitive_key :: "string \<Rightarrow> bool" where
  "sensitive_key key \<longleftrightarrow> list_ex (\<lambda>t. list_ex (\<lambda>w. prefix w t) sensitive_words) (suffixes (map lower_char key))"

subsection \<open>Secrets inside a text\<close>

text \<open>\<open>\<b>(key)\<b>\<close> at the start of a text: the key as written and what follows it.\<close>

definition match_key :: "string \<Rightarrow> (string \<times> string) option" where
  "match_key s =
     (case find (\<lambda>w. prefix w (map lower_char s)) sensitive_words of
        None \<Rightarrow> None
      | Some w \<Rightarrow>
          let rest = drop (length w) s
          in if rest = [] \<or> \<not> word_char (hd rest) then Some (take (length w) s, rest) else None)"

definition plain_char :: "char \<Rightarrow> bool" where
  "plain_char c \<longleftrightarrow> c \<noteq> CHR '','' \<and> c \<noteq> CHR 0x7D \<and> \<not> is_space c"

definition after_plain :: "string \<Rightarrow> string option" where
  "after_plain s = (if s = [] \<or> \<not> plain_char (hd s) then None else Some (dropWhile plain_char s))"

definition after_quoted :: "char \<Rightarrow> string \<Rightarrow> string option" where
  "after_quoted q s = (case dropWhile (\<lambda>c. c \<noteq> q) s of [] \<Rightarrow> None | _ # rest \<Rightarrow> Some rest)"

text \<open>What follows a value, quoted or plain.\<close>

definition after_value :: "string \<Rightarrow> string option" where
  "after_value s =
     (if s \<noteq> [] \<and> hd s \<in> {CHR 0x22, CHR 0x27} then
        (case after_quoted (hd s) (tl s) of Some rest \<Rightarrow> Some rest | None \<Rightarrow> after_plain s)
      else after_plain s)"

definition inline_match :: "string \<Rightarrow> (string \<times> string) option" where
  "inline_match s =
     (case match_key s of
        None \<Rightarrow> None
      | Some (key, rest) \<Rightarrow>
          (case dropWhile is_space rest of
             [] \<Rightarrow> None
           | c # rest1 \<Rightarrow>
               if c = CHR '':'' \<or> c = CHR ''='' then
                 map_option (\<lambda>rest2. (key @ [c] @ redacted, rest2)) (after_value (dropWhile is_space rest1))
               else None))"

definition bearer_match :: "string \<Rightarrow> (string \<times> string) option" where
  "bearer_match s =
     (if prefix ''bearer'' (map lower_char s) \<and> drop 6 s \<noteq> [] \<and> is_space (hd (drop 6 s)) then
        (case dropWhile is_space (drop 6 s) of
           [] \<Rightarrow> None
         | rest \<Rightarrow> Some (''Bearer '' @ redacted, dropWhile (\<lambda>c. \<not> is_space c) rest))
      else None)"

text \<open>
  \<open>pattern.sub(replacement, text)\<close> for a pattern that starts with \<open>\<b>\<close> and a word character; \<open>previous\<close> is the
  character before the scanned text, and a match always consumes something.
\<close>

function sub_all :: "(string \<Rightarrow> (string \<times> string) option) \<Rightarrow> char option \<Rightarrow> string \<Rightarrow> string" where
  "sub_all m previous [] = []"
| "sub_all m previous (c # s) =
     (case (if (case previous of None \<Rightarrow> True | Some p \<Rightarrow> \<not> word_char p) then m (c # s) else None) of
        None \<Rightarrow> c # sub_all m (Some c) s
      | Some (out, rest) \<Rightarrow>
          if length rest \<le> length s then
            out @ sub_all m (Some ((c # s) ! (length s - length rest))) rest
          else c # sub_all m (Some c) s)"
  by pat_completeness auto

termination
  by (relation "measure (\<lambda>(m, p, s). length s)") auto

definition redact_text :: "string \<Rightarrow> string" where
  "redact_text s = sub_all inline_match None (sub_all bearer_match None s)"

subsection \<open>Values and records\<close>






subsection \<open>Texts with secrets, as a grammar\<close>





definition at_boundary :: "string \<Rightarrow> bool" where
  "at_boundary pre \<longleftrightarrow> pre = [] \<or> \<not> word_char (last pre)"






subsection \<open>The scanner\<close>




lemma at_boundary_previous:
  "at_boundary pre \<Longrightarrow> case (if pre = [] then None else Some (last pre)) of None \<Rightarrow> True | Some q \<Rightarrow> \<not> word_char q"
  by (auto simp: at_boundary_def)





subsection \<open>Keys\<close>


lemma sensitive_nonempty: "map lower_char k \<in> set sensitive_words \<Longrightarrow> k \<noteq> []"
  by (auto simp: sensitive_words_def)
















subsection \<open>The pass over bearer tokens\<close>









subsection \<open>The pass over assignments\<close>








subsection \<open>Both passes\<close>






subsection \<open>What a log record does not show\<close>



text \<open>
  What the grammar leaves out and the code leaves in: a key that is part of a longer word or stands in quotes, although
  the same key of a mapping hides its value.
\<close>

lemma redact_gaps:
  "redact_text ''db_password=x'' = ''db_password=x'' \<and> sensitive_key ''db_password''
   \<and> redact_text ([CHR 0x22] @ ''password'' @ [CHR 0x22] @ '':x'') = [CHR 0x22] @ ''password'' @ [CHR 0x22] @ '':x''"
  by code_simp









end
