(* ===== verification/Schema.thy ===== *)
theory Schema
  imports Prelude
begin

text \<open>
  The database schema: the migrations of \<open>alembic/versions\<close> as the statements they emit, and the tables that
  \<open>storage/models.py\<close> declares to SQLAlchemy.  A table is created only if its name is free and what its foreign
  keys reference exists, and dropped only if no other table references it, as PostgreSQL requires.  What a
  declared column leaves open is filled in as SQLAlchemy documents: it is not null, and a foreign key without a
  type takes the type of the column it references.
\<close>

datatype sql_type =
    Sql_Text | Sql_String nat | Sql_Uuid | Sql_Big_Integer | Sql_Integer | Sql_Boolean | Sql_Date
  | Sql_Timestamp_Tz | Sql_Numeric | Sql_Jsonb | Sql_Float

record sql_column =
  cl_name :: string
  cl_type :: "sql_type option"
  cl_nullable :: bool
  cl_primary :: bool
  cl_unique :: bool
  cl_identity :: bool
  cl_references :: "(string \<times> string) option"

record sql_table =
  tb_name :: string
  tb_columns :: "sql_column list"
  tb_unique :: "(string option \<times> string list) list"
  tb_indexes :: "(string \<times> string list) list"

type_synonym schema = "sql_table list"

subsection \<open>Columns\<close>

text \<open>\<open>sa.Column(name, type, nullable=False)\<close> and its variants.\<close>

definition column :: "string \<Rightarrow> sql_type \<Rightarrow> sql_column" where
  "column n t = \<lparr>cl_name = n, cl_type = Some t, cl_nullable = False, cl_primary = False, cl_unique = False,
     cl_identity = False, cl_references = None\<rparr>"

definition primary :: "sql_column \<Rightarrow> sql_column" where
  "primary c = c\<lparr>cl_primary := True\<rparr>"

definition unique :: "sql_column \<Rightarrow> sql_column" where
  "unique c = c\<lparr>cl_unique := True\<rparr>"

definition references :: "string \<Rightarrow> string \<Rightarrow> sql_column \<Rightarrow> sql_column" where
  "references t k c = c\<lparr>cl_references := Some (t, k)\<rparr>"

text \<open>\<open>ForeignKey("t.k")\<close> without a type, as the declared classes write it.\<close>

definition foreign :: "string \<Rightarrow> string \<Rightarrow> string \<Rightarrow> sql_column" where
  "foreign n t k = (references t k (column n Sql_Text))\<lparr>cl_type := None\<rparr>"

definition table :: "string \<Rightarrow> sql_column list \<Rightarrow> sql_table" where
  "table n cs = \<lparr>tb_name = n, tb_columns = cs, tb_unique = [], tb_indexes = []\<rparr>"

subsection \<open>Statements\<close>

datatype statement =
    Create_Table sql_table
  | Create_Index string string "string list"
  | Drop_Table string

definition has_column :: "schema \<Rightarrow> string \<Rightarrow> string \<Rightarrow> bool" where
  "has_column db t k = list_ex (\<lambda>x. tb_name x = t \<and> k \<in> set (map cl_name (tb_columns x))) db"

definition references_of :: "sql_table \<Rightarrow> (string \<times> string) list" where
  "references_of t = List.map_filter cl_references (tb_columns t)"

fun execute :: "statement \<Rightarrow> schema \<Rightarrow> schema result" where
  "execute (Create_Table t) db =
     (if tb_name t \<in> set (map tb_name db) then Inl (RuntimeError (''relation already exists: '' @ tb_name t))
      else if \<not> list_all (\<lambda>(r, k). has_column db r k) (references_of t) then
        Inl (RuntimeError (''undefined reference in '' @ tb_name t))
      else Inr (db @ [t]))"
| "execute (Create_Index n t ks) db =
     (if \<not> list_all (has_column db t) ks then Inl (RuntimeError (''undefined column in index '' @ n))
      else Inr (map (\<lambda>x. if tb_name x = t then x\<lparr>tb_indexes := tb_indexes x @ [(n, ks)]\<rparr> else x) db))"
| "execute (Drop_Table t) db =
     (if t \<notin> set (map tb_name db) then Inl (RuntimeError (''relation does not exist: '' @ t))
      else if list_ex (\<lambda>x. tb_name x \<noteq> t \<and> t \<in> set (map fst (references_of x))) db then
        Inl (RuntimeError (''other objects depend on '' @ t))
      else Inr (filter (\<lambda>x. tb_name x \<noteq> t) db))"

fun execute_all :: "statement list \<Rightarrow> schema \<Rightarrow> schema result" where
  "execute_all [] db = Inr db"
| "execute_all (s # ss) db = rbind (execute s db) (execute_all ss)"

record migration =
  mg_revision :: string
  mg_down_revision :: "string option"
  mg_upgrade :: "statement list"
  mg_downgrade :: "statement list"

subsection \<open>Frozen migrations\<close>

definition bar_table :: "string \<Rightarrow> sql_table" where
  "bar_table name =
     (table name
       [primary (references ''audit_events'' ''event_id'' (column ''event_id'' Sql_Uuid)),
        column ''instrument_id'' Sql_Text, column ''bar_start'' Sql_Timestamp_Tz, column ''bar_end'' Sql_Timestamp_Tz,
        column ''source'' Sql_Text, column ''open'' Sql_Numeric, column ''high'' Sql_Numeric,
        column ''low'' Sql_Numeric, column ''close'' Sql_Numeric, column ''volume'' Sql_Numeric,
        column ''complete'' Sql_Boolean, column ''quality_flags'' Sql_Jsonb, column ''payload'' Sql_Jsonb])
     \<lparr>tb_unique := [(None, [''instrument_id'', ''bar_start'', ''source''])]\<rparr>"

definition migration_1 :: migration where
  "migration_1 = \<lparr>mg_revision = ''0001'', mg_down_revision = None,
     mg_upgrade =
       [Create_Table (table ''provenance_versions''
          [primary (column ''version_id'' (Sql_String 64)), column ''code_commit'' Sql_Text,
           column ''config_hash'' (Sql_String 64), column ''data_snapshot'' Sql_Text,
           column ''feature_version'' Sql_Text]),
        Create_Table (table ''instrument_versions''
          [primary (column ''snapshot_id'' Sql_Text), column ''version'' Sql_Text,
           column ''content_hash'' (Sql_String 64), column ''as_of'' Sql_Date,
           column ''generated_at'' Sql_Timestamp_Tz, column ''source_reference'' Sql_Text,
           column ''payload'' Sql_Jsonb]),
        Create_Table (table ''instruments''
          [primary (references ''instrument_versions'' ''snapshot_id'' (column ''snapshot_id'' Sql_Text)),
           primary (column ''token'' Sql_Text), column ''symbol'' Sql_Text, column ''isin'' Sql_Text,
           column ''exchange'' Sql_Text, column ''segment'' Sql_Text, column ''tick_size'' Sql_Numeric,
           column ''status'' Sql_Text, column ''fo_eligible'' Sql_Boolean, column ''sector'' Sql_Text,
           column ''effective_from'' Sql_Date, column ''effective_to'' Sql_Date, column ''payload'' Sql_Jsonb]),
        Create_Table (table ''audit_events''
          [(primary (column ''sequence'' Sql_Big_Integer))\<lparr>cl_identity := True\<rparr>,
           unique (column ''event_id'' Sql_Uuid), column ''correlation_id'' Sql_Uuid,
           unique (column ''idempotency_key'' (Sql_String 64)), column ''event_type'' Sql_Text,
           column ''occurred_at'' Sql_Timestamp_Tz, column ''received_at'' Sql_Timestamp_Tz,
           column ''source'' Sql_Text, column ''schema_version'' Sql_Integer,
           references ''provenance_versions'' ''version_id'' (column ''provenance_id'' (Sql_String 64)),
           column ''payload_hash'' (Sql_String 64), column ''previous_hash'' (Sql_String 64),
           column ''chain_hash'' (Sql_String 64), column ''envelope'' Sql_Jsonb]),
        Create_Index ''ix_audit_events_correlation_id'' ''audit_events'' [''correlation_id'']]
       @ map (\<lambda>n. Create_Table (bar_table n)) [''bars_1m'', ''bars_5m'']
       @ [Create_Table (table ''quote_samples''
            [primary (references ''audit_events'' ''event_id'' (column ''event_id'' Sql_Uuid)),
             column ''instrument_id'' Sql_Text, column ''timestamp'' Sql_Timestamp_Tz, column ''source'' Sql_Text,
             column ''bid'' Sql_Numeric, column ''ask'' Sql_Numeric, column ''last'' Sql_Numeric,
             column ''payload'' Sql_Jsonb]),
          Create_Table (table ''system_state''
            [primary (column ''scope'' Sql_Text), column ''state'' Sql_Text, column ''mode'' Sql_Text,
             column ''kill_switch'' Sql_Boolean, column ''broker_health'' Sql_Text,
             column ''data_health'' Sql_Text, column ''release_id'' Sql_Text,
             references ''audit_events'' ''event_id'' (column ''last_event_id'' Sql_Uuid),
             column ''updated_at'' Sql_Timestamp_Tz, column ''payload'' Sql_Jsonb])],
     mg_downgrade = map Drop_Table
       [''system_state'', ''quote_samples'', ''bars_5m'', ''bars_1m'', ''audit_events'', ''instruments'',
        ''instrument_versions'', ''provenance_versions'']\<rparr>"

definition event_reference :: sql_column where
  "event_reference = unique (references ''audit_events'' ''event_id'' (column ''event_id'' Sql_Uuid))"

definition migration_2 :: migration where
  "migration_2 = \<lparr>mg_revision = ''0002'', mg_down_revision = Some ''0001'',
     mg_upgrade =
       [Create_Table (table ''feature_set_versions''
          [primary (column ''version_hash'' (Sql_String 64)), column ''name'' Sql_Text,
           column ''definition'' Sql_Jsonb]),
        Create_Table (table ''feature_snapshots''
          [primary (column ''snapshot_hash'' (Sql_String 64)), event_reference,
           references ''feature_set_versions'' ''version_hash'' (column ''feature_set_hash'' (Sql_String 64)),
           column ''entity'' Sql_Text, column ''timestamp'' Sql_Timestamp_Tz,
           column ''input_hash'' (Sql_String 64), column ''payload'' Sql_Jsonb]),
        Create_Index ''ix_feature_snapshots_entity'' ''feature_snapshots'' [''entity'']],
     mg_downgrade = [Drop_Table ''feature_snapshots'', Drop_Table ''feature_set_versions'']\<rparr>"

definition migration_3 :: migration where
  "migration_3 = \<lparr>mg_revision = ''0003'', mg_down_revision = Some ''0002'',
     mg_upgrade =
       [Create_Table (table ''market_state_history''
          [primary (column ''decision_hash'' (Sql_String 64)), event_reference,
           column ''timestamp'' Sql_Timestamp_Tz, column ''state'' Sql_Text,
           column ''config_version'' (Sql_String 64), column ''payload'' Sql_Jsonb])],
     mg_downgrade = [Drop_Table ''market_state_history'']\<rparr>"

definition migration_4 :: migration where
  "migration_4 = \<lparr>mg_revision = ''0004'', mg_down_revision = Some ''0003'',
     mg_upgrade =
       [Create_Table ((table ''alpha_signals''
          [primary (column ''signal_id'' Sql_Uuid), event_reference, column ''alpha_id'' Sql_Text,
           column ''instrument_id'' Sql_Text, column ''symbol'' Sql_Text, column ''timestamp'' Sql_Timestamp_Tz,
           column ''side'' Sql_Text, column ''score'' Sql_Float, column ''payload'' Sql_Jsonb])
          \<lparr>tb_unique := [(Some ''uq_alpha_symbol_time'', [''alpha_id'', ''symbol'', ''timestamp''])]\<rparr>)],
     mg_downgrade = [Drop_Table ''alpha_signals'']\<rparr>"

definition migration_5 :: migration where
  "migration_5 = \<lparr>mg_revision = ''0005'', mg_down_revision = Some ''0004'',
     mg_upgrade =
       Create_Table (table ''alpha_health''
         [primary (column ''snapshot_hash'' (Sql_String 64)), event_reference, column ''alpha_id'' Sql_Text,
          column ''timestamp'' Sql_Timestamp_Tz, column ''payload'' Sql_Jsonb])
       # map (\<lambda>n. Create_Table (table n
           [primary (column ''decision_id'' Sql_Uuid), event_reference, column ''timestamp'' Sql_Timestamp_Tz,
            column ''payload'' Sql_Jsonb])) [''ensemble_decisions'', ''portfolio_decisions''],
     mg_downgrade = map Drop_Table [''portfolio_decisions'', ''ensemble_decisions'', ''alpha_health'']\<rparr>"

definition migrations :: "migration list" where
  "migrations = [migration_1, migration_2, migration_3, migration_4, migration_5]"

text \<open>\<open>alembic upgrade head\<close> and \<open>alembic downgrade base\<close>: each revision follows the one it names.\<close>

fun upgrade_from :: "string option \<Rightarrow> migration list \<Rightarrow> schema \<Rightarrow> schema result" where
  "upgrade_from current [] db = Inr db"
| "upgrade_from current (m # ms) db =
     (if mg_down_revision m \<noteq> current then Inl (RuntimeError ''broken revision chain'')
      else rbind (execute_all (mg_upgrade m) db) (upgrade_from (Some (mg_revision m)) ms))"

fun downgrade_all :: "migration list \<Rightarrow> schema \<Rightarrow> schema result" where
  "downgrade_all [] db = Inr db"
| "downgrade_all (m # ms) db = rbind (execute_all (mg_downgrade m) db) (downgrade_all ms)"

subsection \<open>Declared tables\<close>

definition declared_event :: sql_column where
  "declared_event = unique (foreign ''event_id'' ''audit_events'' ''event_id'')"

definition bar_columns :: "sql_column list" where
  "bar_columns =
     [primary (foreign ''event_id'' ''audit_events'' ''event_id''), column ''instrument_id'' Sql_Text,
      column ''bar_start'' Sql_Timestamp_Tz, column ''bar_end'' Sql_Timestamp_Tz, column ''source'' Sql_Text,
      column ''open'' Sql_Numeric, column ''high'' Sql_Numeric, column ''low'' Sql_Numeric,
      column ''close'' Sql_Numeric, column ''volume'' Sql_Numeric, column ''complete'' Sql_Boolean,
      column ''quality_flags'' Sql_Jsonb, column ''payload'' Sql_Jsonb]"

definition declared_tables :: schema where
  "declared_tables =
     [table ''provenance_versions''
        [primary (column ''version_id'' (Sql_String 64)), column ''code_commit'' Sql_Text,
         column ''config_hash'' (Sql_String 64), column ''data_snapshot'' Sql_Text, column ''feature_version'' Sql_Text],
      table ''instrument_versions''
        [primary (column ''snapshot_id'' Sql_Text), column ''version'' Sql_Text, column ''content_hash'' (Sql_String 64),
         column ''as_of'' Sql_Date, column ''generated_at'' Sql_Timestamp_Tz, column ''source_reference'' Sql_Text,
         column ''payload'' Sql_Jsonb],
      table ''instruments''
        [primary (foreign ''snapshot_id'' ''instrument_versions'' ''snapshot_id''), primary (column ''token'' Sql_Text),
         column ''symbol'' Sql_Text, column ''isin'' Sql_Text, column ''exchange'' Sql_Text, column ''segment'' Sql_Text,
         column ''tick_size'' Sql_Numeric, column ''status'' Sql_Text, column ''fo_eligible'' Sql_Boolean,
         column ''sector'' Sql_Text, column ''effective_from'' Sql_Date, column ''effective_to'' Sql_Date,
         column ''payload'' Sql_Jsonb],
      (table ''audit_events''
        [(primary (column ''sequence'' Sql_Big_Integer))\<lparr>cl_identity := True\<rparr>, unique (column ''event_id'' Sql_Uuid),
         column ''correlation_id'' Sql_Uuid, unique (column ''idempotency_key'' (Sql_String 64)),
         column ''event_type'' Sql_Text, column ''occurred_at'' Sql_Timestamp_Tz, column ''received_at'' Sql_Timestamp_Tz,
         column ''source'' Sql_Text, column ''schema_version'' Sql_Integer,
         foreign ''provenance_id'' ''provenance_versions'' ''version_id'', column ''payload_hash'' (Sql_String 64),
         column ''previous_hash'' (Sql_String 64), column ''chain_hash'' (Sql_String 64), column ''envelope'' Sql_Jsonb])
        \<lparr>tb_indexes := [(''ix_audit_events_correlation_id'', [''correlation_id''])]\<rparr>,
      (table ''bars_1m'' bar_columns)\<lparr>tb_unique := [(None, [''instrument_id'', ''bar_start'', ''source''])]\<rparr>,
      (table ''bars_5m'' bar_columns)\<lparr>tb_unique := [(None, [''instrument_id'', ''bar_start'', ''source''])]\<rparr>,
      table ''quote_samples''
        [primary (foreign ''event_id'' ''audit_events'' ''event_id''), column ''instrument_id'' Sql_Text,
         column ''timestamp'' Sql_Timestamp_Tz, column ''source'' Sql_Text, column ''bid'' Sql_Numeric,
         column ''ask'' Sql_Numeric, column ''last'' Sql_Numeric, column ''payload'' Sql_Jsonb],
      table ''system_state''
        [primary (column ''scope'' Sql_Text), column ''state'' Sql_Text, column ''mode'' Sql_Text,
         column ''kill_switch'' Sql_Boolean, column ''broker_health'' Sql_Text, column ''data_health'' Sql_Text,
         column ''release_id'' Sql_Text, foreign ''last_event_id'' ''audit_events'' ''event_id'',
         column ''updated_at'' Sql_Timestamp_Tz, column ''payload'' Sql_Jsonb],
      table ''feature_set_versions''
        [primary (column ''version_hash'' (Sql_String 64)), column ''name'' Sql_Text, column ''definition'' Sql_Jsonb],
      table ''market_state_history''
        [primary (column ''decision_hash'' (Sql_String 64)), declared_event, column ''timestamp'' Sql_Timestamp_Tz,
         column ''state'' Sql_Text, column ''config_version'' (Sql_String 64), column ''payload'' Sql_Jsonb],
      (table ''alpha_signals''
        [primary (column ''signal_id'' Sql_Uuid), declared_event, column ''alpha_id'' Sql_Text,
         column ''instrument_id'' Sql_Text, column ''symbol'' Sql_Text, column ''timestamp'' Sql_Timestamp_Tz,
         column ''side'' Sql_Text, column ''score'' Sql_Float, column ''payload'' Sql_Jsonb])
        \<lparr>tb_unique := [(Some ''uq_alpha_symbol_time'', [''alpha_id'', ''symbol'', ''timestamp''])]\<rparr>,
      table ''alpha_health''
        [primary (column ''snapshot_hash'' (Sql_String 64)), declared_event, column ''alpha_id'' Sql_Text,
         column ''timestamp'' Sql_Timestamp_Tz, column ''payload'' Sql_Jsonb],
      table ''ensemble_decisions''
        [primary (column ''decision_id'' Sql_Uuid), declared_event, column ''timestamp'' Sql_Timestamp_Tz,
         column ''payload'' Sql_Jsonb],
      table ''portfolio_decisions''
        [primary (column ''decision_id'' Sql_Uuid), declared_event, column ''timestamp'' Sql_Timestamp_Tz,
         column ''payload'' Sql_Jsonb],
      (table ''feature_snapshots''
        [primary (column ''snapshot_hash'' (Sql_String 64)), declared_event,
         foreign ''feature_set_hash'' ''feature_set_versions'' ''version_hash'', column ''entity'' Sql_Text,
         column ''timestamp'' Sql_Timestamp_Tz, column ''input_hash'' (Sql_String 64), column ''payload'' Sql_Jsonb])
        \<lparr>tb_indexes := [(''ix_feature_snapshots_entity'', [''entity''])]\<rparr>]"

definition type_of :: "schema \<Rightarrow> string \<times> string \<Rightarrow> sql_type option" where
  "type_of db r =
     (case find (\<lambda>t. tb_name t = fst r) db of
        None \<Rightarrow> None
      | Some t \<Rightarrow> (case find (\<lambda>c. cl_name c = snd r) (tb_columns t) of None \<Rightarrow> None | Some c \<Rightarrow> cl_type c))"

definition resolve_column :: "schema \<Rightarrow> sql_column \<Rightarrow> sql_column" where
  "resolve_column db c =
     (case (cl_type c, cl_references c) of (None, Some r) \<Rightarrow> c\<lparr>cl_type := type_of db r\<rparr> | _ \<Rightarrow> c)"

definition metadata :: schema where
  "metadata = map (\<lambda>t. t\<lparr>tb_columns := map (resolve_column declared_tables) (tb_columns t)\<rparr>) declared_tables"

subsection \<open>Upgrades and downgrades\<close>

text \<open>A consistent schema: table names are distinct and every foreign key resolves.\<close>

definition schema_ok :: "schema \<Rightarrow> bool" where
  "schema_ok db \<longleftrightarrow> distinct (map tb_name db)
     \<and> (\<forall>t \<in> set db. \<forall>(r, k) \<in> set (references_of t). has_column db r k)"

lemma has_column_mono: "has_column db r k \<Longrightarrow> set db \<subseteq> set db' \<Longrightarrow> has_column db' r k"
  by (auto simp: has_column_def list_ex_iff)

lemma has_column_filter:
  "has_column db r k \<Longrightarrow> r \<noteq> t \<Longrightarrow> has_column (filter (\<lambda>x. tb_name x \<noteq> t) db) r k"
  by (auto simp: has_column_def list_ex_iff)

lemma schema_ok_map:
  assumes "\<And>x. tb_name (g x) = tb_name x" "\<And>x. tb_columns (g x) = tb_columns x"
  shows "schema_ok (map g db) = schema_ok db"
proof -
  have "has_column (map g db) r k = has_column db r k" for r k
    by (simp add: has_column_def list_ex_iff assms)
  moreover have "references_of (g x) = references_of x" for x by (simp add: references_of_def assms)
  ultimately show ?thesis by (simp add: schema_ok_def o_def assms)
qed

lemma execute_ok:
  assumes "schema_ok db" "execute st db = Inr db'"
  shows "schema_ok db'"
proof (cases st)
  case (Create_Table t)
  then have t: "tb_name t \<notin> set (map tb_name db)" "\<forall>(r, k) \<in> set (references_of t). has_column db r k"
    "db' = db @ [t]"
    using assms(2) by (auto simp: list_all_iff split: if_splits)
  have "has_column db' r k" if "has_column db r k" for r k
    using has_column_mono[OF that, of db'] t(3) by auto
  then show ?thesis using assms(1) t by (fastforce simp: schema_ok_def)
next
  case (Create_Index n t ks)
  then have "db' = map (\<lambda>x. if tb_name x = t then x\<lparr>tb_indexes := tb_indexes x @ [(n, ks)]\<rparr> else x) db"
    using assms(2) by (simp split: if_splits)
  moreover have "schema_ok (map (\<lambda>x. if tb_name x = t then x\<lparr>tb_indexes := tb_indexes x @ [(n, ks)]\<rparr> else x) db)
      = schema_ok db"
    by (rule schema_ok_map) simp_all
  ultimately show ?thesis using assms(1) by simp
next
  case (Drop_Table t)
  then have free: "\<forall>x \<in> set db. tb_name x \<noteq> t \<longrightarrow> t \<notin> set (map fst (references_of x))"
    and db': "db' = filter (\<lambda>x. tb_name x \<noteq> t) db"
    using assms(2) by (auto simp: list_ex_iff split: if_splits)
  have "has_column db' r k" if "x \<in> set db'" "(r, k) \<in> set (references_of x)" for x r k
  proof -
    have "r \<noteq> t" using free that unfolding db' by force
    moreover have "has_column db r k" using assms(1) that unfolding schema_ok_def db' by fastforce
    ultimately show ?thesis unfolding db' by (intro has_column_filter)
  qed
  then show ?thesis using assms(1) unfolding schema_ok_def db' by (auto simp: distinct_map_filter)
qed

lemma execute_all_ok: "schema_ok db \<Longrightarrow> execute_all ss db = Inr db' \<Longrightarrow> schema_ok db'"
proof (induction ss arbitrary: db)
  case (Cons s ss)
  then show ?case by (auto simp: result_simps intro: execute_ok)
qed simp

lemma upgrade_from_ok: "schema_ok db \<Longrightarrow> upgrade_from c ms db = Inr db' \<Longrightarrow> schema_ok db'"
proof (induction ms arbitrary: c db)
  case (Cons m ms)
  then show ?case by (auto simp: result_simps intro: execute_all_ok split: if_splits)
qed simp

text \<open>Applying the migrations up to a revision and the next one, then taking that one back.\<close>

definition reversible :: "nat \<Rightarrow> bool" where
  "reversible i =
     (case upgrade_from None (take i migrations) [] of
        Inl e \<Rightarrow> False
      | Inr before \<Rightarrow>
          rbind (execute_all (mg_upgrade (migrations ! i)) before) (execute_all (mg_downgrade (migrations ! i)))
            = Inr before)"

lemma upgrade_metadata:
  "case upgrade_from None migrations [] of
     Inl e \<Rightarrow> False | Inr db \<Rightarrow> sort_key tb_name db = sort_key tb_name metadata \<and> downgrade_all (rev migrations) db = Inr []"
  by code_simp

lemma all_reversible: "list_all reversible [0, 1, 2, 3, 4]"
  by code_simp

text \<open>
  C38.  The migrations build what the program declares: upgrading an empty database succeeds along the revision
  chain, gives exactly the tables, columns, keys, constraints and indexes of the declared classes, with every
  foreign key resolved; every single revision can be taken back to the schema before it, and all of them to the
  empty database.
\<close>

theorem migrations_match_models:
  "\<exists>db. upgrade_from None migrations [] = Inr db \<and> schema_ok db
     \<and> sort_key tb_name db = sort_key tb_name metadata
     \<and> downgrade_all (rev migrations) db = Inr [] \<and> list_all reversible [0, 1, 2, 3, 4]"
proof -
  obtain db where db: "upgrade_from None migrations [] = Inr db"
    "sort_key tb_name db = sort_key tb_name metadata" "downgrade_all (rev migrations) db = Inr []"
    using upgrade_metadata by (auto split: sum.splits)
  have "schema_ok []" by (simp add: schema_ok_def)
  then have "schema_ok db" using db(1) by (rule upgrade_from_ok)
  then show ?thesis using db all_reversible by blast
qed

end
