(* ===== verification/Spec2Isabelle.thy ===== *)
theory Spec2Isabelle
  imports Router Quality Lifecycle Portfolio Reconnect Aggregation Market_Service Publication
    Feature_Engine Relative_Value App Recording_Run Research Redaction Schema
begin

text \<open>
  A model of the GodZilla trading research platform (\<open>src/src/godzilla\<close>), for readers who have the
  repository.  Data flows through the program in this order: recorded or streamed observations are checked
  and stored (\<open>market_data\<close>), features are derived from them (\<open>features\<close>), the market state is decided
  (\<open>market_state\<close>), alphas emit intents (\<open>alphas\<close>), the ensemble turns intents into candidates (\<open>ensemble\<close>),
  the portfolio allocator proposes targets (\<open>portfolio\<close>), and every step is published through a journal
  into an append-only store (\<open>core/events\<close>, \<open>storage\<close>).  Nothing in the program places orders.

  \<^bold>\<open>Theories and sources.\<close>
  \<^item> \<open>Prelude\<close>, \<open>Numerics\<close>: exceptions as values, instants, days and zones; binary64 floats and 28-digit
    decimals as rationals with explicit rounding.
  \<^item> \<open>Clock\<close> (\<open>core/clock.py\<close>), \<open>Health\<close> (\<open>core/health.py\<close>), \<open>Metrics\<close> (\<open>market_data/metrics.py\<close>),
    \<open>Lifecycle\<close> (\<open>app/lifecycle.py\<close>, \<open>config/modes.py\<close>), \<open>Calendar\<close> (\<open>market_data/calendar.py\<close>).
  \<^item> \<open>Market_Data\<close>, \<open>Quality\<close>, \<open>Freshness\<close>, \<open>Reconnect\<close>, \<open>Aggregation\<close>, \<open>Instruments\<close>, \<open>Replay_Data\<close>,
    \<open>Market_Service\<close>: the modules of \<open>market_data\<close>.
  \<^item> \<open>Feature_Models\<close> (\<open>features/models.py\<close>), \<open>Market_State\<close>, \<open>Router\<close> (\<open>market_state\<close>).
  \<^item> \<open>Float_Math\<close>, \<open>Feature_Series\<close>, \<open>Feature_Engine\<close> (\<open>features/math.py\<close>, \<open>series.py\<close>, \<open>engine.py\<close>): primitives,
    the formulas of one instrument, the causal engine; \<open>Reversion\<close> (\<open>features/vwap_reversion.py\<close>).
  \<^item> The alphas: \<open>Ranking\<close> and \<open>Momentum\<close> (\<open>cross_sectional_momentum.py\<close>), \<open>Breakout\<close> (\<open>momentum_breakout.py\<close>,
    \<open>breakout_scoring.py\<close>), \<open>Vwap\<close> (\<open>vwap_mean_reversion.py\<close>), \<open>Pairs\<close> (\<open>pairs_data.py\<close>, \<open>pairs_statistics.py\<close>) and
    \<open>Pairs_Engine\<close> (\<open>pairs_engine.py\<close>), \<open>Relative_Beta\<close> (\<open>relative_value_beta.py\<close>, \<open>relative_value_inventory.py\<close>)
    and \<open>Relative_Value\<close> (\<open>sector_relative_value.py\<close>), each with its module of records.
  \<^item> \<open>Compliance\<close>, \<open>Universe\<close>: \<open>compliance\<close>, \<open>universe/builder.py\<close>.
  \<^item> \<open>Alpha_Health\<close>, \<open>Normalize\<close> (\<open>ensemble\<close>), \<open>Portfolio\<close> (\<open>portfolio\<close>).
  \<^item> \<open>Config_Loader\<close> and \<open>Config\<close> (\<open>config/loader.py\<close>, \<open>config/models.py\<close>), \<open>App\<close> (\<open>app/cli.py\<close>, the local providers),
    \<open>Recording_Run\<close> (\<open>market_data/replay_cli.py\<close>), \<open>Redaction\<close> (\<open>core/logging.py\<close>), \<open>Research\<close>
    (\<open>alphas/momentum_research.py\<close>, \<open>alphas/pairs_research.py\<close>).
  \<^item> \<open>Json\<close>, \<open>Events\<close>, \<open>Journal\<close>: \<open>core/events\<close>; \<open>Event_Store\<close>, \<open>Store_Queries\<close>: \<open>storage\<close>; \<open>Schema\<close>:
    \<open>alembic/versions\<close> against \<open>storage/models.py\<close>;
    \<open>Publication\<close>: the publishers of \<open>market_state\<close>, \<open>portfolio\<close> and \<open>alphas\<close>.

  \<^bold>\<open>How state is modelled.\<close>  An object is a record, a method a function from the record to its result and
  the record it leaves; a raised exception is the left side of a sum, and what was written before it
  stays written.  A database is a record of tables in the order of insertion; a transaction that fails
  leaves the tables unchanged.  Timestamps are microseconds since the epoch after the \<open>utc\<close> validators.

  \<^bold>\<open>Parameters.\<close>  SHA-256, \<open>uuid5\<close>, the JSON dumps and validators that pydantic derives for nested models,
  \<open>math.log\<close>, the formal tests of a pair (statsmodels) and the zone database are arguments (records of functions such as \<open>codec\<close>).  Properties that need them
  to behave name that as a hypothesis, e.g. that validating a dump returns the model.  PostgreSQL is
  assumed to return a stored value unchanged and to refuse a table whose references do not resolve.  The bytes of the
  files, the documents and the environment of the configuration are arguments too, as are the signals a run receives;
  \<open>pydantic_settings\<close> is assumed to give an earlier source of settings priority over a later one, as documented.  No
  property assumes that SHA-256 is injective: where equal digests matter, the conclusion names the two texts that
  would collide.

  \<^bold>\<open>Numbers.\<close>  Floats are rounded to 53 and decimals to 28 significant digits, half to even, with an
  unbounded exponent: overflow to infinity, subnormals and NaN are outside the model.  A Decimal division by zero and a
  \<open>quantize\<close> beyond 28 digits are exceptions of the allocator's model (\<open>ddiv\<close>, \<open>dquantize\<close>).

  \<^bold>\<open>What the lemmas show.\<close>  The allocator and the ensemble: caps, gates, conflicts, totality.  The router:
  fail-closed, permissions, confirmed transitions.  The store and the journal: refinement of an
  append-only log, identities, tamper evidence, durability before dispatch, faithful replay.  Market
  data: causality, exact aggregation, flags, freshness and the recovery latch.  Features: order-free
  and causal snapshots of one schema, whole sessions.  Alphas: what an intent rests on (permission,
  session, eligibility, confirmed and causal measurements), exact tails and windows, exits that are
  consistent, and open pairs that are never dropped from attention.  Configuration and commands: exact layering of
  files and environment, prerequisites of LIVE, a canonical hash, caps within risk limits, readiness only behind the
  gate, logs without the secrets of a declared grammar of texts, replays that do not depend on the order of a file,
  migrations that build the declared tables.

  \<^bold>\<open>Termination and sizes.\<close>  Every loop is a total function: structural recursion, or a measure (the session
  slots, the integer square root, the aggregation scan, the merge of nested layers, the substitution in a log
  text).  No fuel is used.

  \<^bold>\<open>Interfaces.\<close>  The contracts one component relies on are locales: \<open>receipt_clock\<close> (clocks of a replay),
  \<open>market_provider\<close>, \<open>event_repository\<close> and its extension \<open>idempotent_repository\<close>, each interpreted on
  the model of the class that provides it.

  \<^bold>\<open>Not modelled.\<close>  Command-line parsing, log handlers, the reading of YAML files and environment variables, the
  database engine, the connections of \<open>alembic/env.py\<close> and network providers, which are input and output only.
\<close>

end
